(* ===== verification/Kube_Prelude.thy ===== *)
theory Kube_Prelude
  imports
    Main
    "HOL-Library.Char_ord"
    "HOL-Library.List_Lexorder"
    "HOL-Library.Word"
    "HOL-Library.Monad_Syntax"
begin

text \<open>
  Shared ground of the development: what the Go sources use of the language and its standard
  library (strings as byte lists, \<^verbatim>\<open>strconv.Itoa\<close>, \<^verbatim>\<open>strconv.Atoi\<close>,
  \<^verbatim>\<open>strings.ToLower\<close>, \<^verbatim>\<open>strings.TrimRight\<close>, \<^verbatim>\<open>strings.Join\<close>,
  \<^verbatim>\<open>int64\<close> arithmetic), reads of Go maps, and the generic lemmas on lists and maps the
  components use. A Go \<^verbatim>\<open>string\<close> is a \<^typ>\<open>string\<close>, one \<^typ>\<open>char\<close> per byte; the object
  names, label keys and times the program handles are ASCII. A Go map is a partial function;
  a nil map and an empty map read the same. Strings are ordered as in Go, byte by byte.
\<close>

named_theorems go_simps "evaluation of the Go library functions"

section \<open>Go maps\<close>

type_synonym smap = "string \<rightharpoonup> string"

text \<open>Go's \<^verbatim>\<open>m[k]\<close> on a \<^verbatim>\<open>map[string]string\<close>: the empty string for a missing key.\<close>

definition mget :: "smap \<Rightarrow> string \<Rightarrow> string" where
  "mget m k = (case m k of None \<Rightarrow> '''' | Some v \<Rightarrow> v)"

lemma mget_empty [simp]: "mget Map.empty k = ''''"
  by (simp add: mget_def)

lemma mget_upd [simp]: "mget (m(k \<mapsto> v)) k' = (if k' = k then v else mget m k')"
  by (simp add: mget_def)

lemma mget_None [simp]: "m k = None \<Longrightarrow> mget m k = ''''"
  by (simp add: mget_def)

lemma mget_Some [simp]: "m k = Some v \<Longrightarrow> mget m k = v"
  by (simp add: mget_def)

lemma mget_nonemptyD: "mget m k = v \<Longrightarrow> v \<noteq> '''' \<Longrightarrow> m k = Some v"
  by (auto simp: mget_def split: option.splits)

text \<open>A range loop that copies the entries whose key passes a test.\<close>

definition mfilter :: "(string \<Rightarrow> bool) \<Rightarrow> (string \<rightharpoonup> 'v) \<Rightarrow> (string \<rightharpoonup> 'v)" where
  "mfilter P m = (\<lambda>k. if P k then m k else None)"

lemma mfilter_apply [simp]: "mfilter P m k = (if P k then m k else None)"
  by (simp add: mfilter_def)

lemma mfilter_idem [simp]: "mfilter P (mfilter P m) = mfilter P m"
  by (simp add: mfilter_def fun_eq_iff)

lemma dom_mfilter [simp]: "dom (mfilter P m) = {k \<in> dom m. P k}"
  by (auto simp: mfilter_def split: if_splits)

section \<open>Integers\<close>

text \<open>Go's \<^verbatim>\<open>int64\<close> product wraps around, its division truncates towards zero.\<close>

definition int64_wrap :: "int \<Rightarrow> int" where
  "int64_wrap x = (x + 2 ^ 63) mod 2 ^ 64 - 2 ^ 63"

definition int32_wrap :: "int \<Rightarrow> int" where
  "int32_wrap x = (x + 2 ^ 31) mod 2 ^ 32 - 2 ^ 31"

definition int64_min :: int where "int64_min = - (2 ^ 63)"
definition int64_max :: int where "int64_max = 2 ^ 63 - 1"

definition quot :: "int \<Rightarrow> int \<Rightarrow> int" where
  "quot a b = sgn a * sgn b * (\<bar>a\<bar> div \<bar>b\<bar>)"

lemma int64_wrap_id: "int64_min \<le> x \<Longrightarrow> x \<le> int64_max \<Longrightarrow> int64_wrap x = x"
  by (simp add: int64_wrap_def int64_min_def int64_max_def)

lemma int64_wrap_range: "int64_min \<le> int64_wrap x \<and> int64_wrap x \<le> int64_max"
proof -
  have "0 \<le> (x + 2 ^ 63) mod 2 ^ 64" and "(x + 2 ^ 63) mod 2 ^ 64 < (2::int) ^ 64"
    by simp_all
  then show ?thesis by (simp add: int64_wrap_def int64_min_def int64_max_def)
qed

lemma int64_wrap_sint: "int64_wrap x = sint (word_of_int x :: 64 word)"
  by (simp add: int64_wrap_def sint_sbintrunc' signed_take_bit_eq_take_bit_shift take_bit_eq_mod)

lemma quot_pos [simp]: "0 \<le> a \<Longrightarrow> 0 < b \<Longrightarrow> quot a b = a div b"
  by (cases "a = 0") (auto simp: quot_def sgn_if)

section \<open>Strings\<close>

definition lower_char :: "char \<Rightarrow> char" where
  "lower_char c = (if 65 \<le> (of_char c :: nat) \<and> (of_char c :: nat) \<le> 90
     then char_of ((of_char c :: nat) + 32) else c)"

definition ToLower :: "string \<Rightarrow> string" where
  "ToLower s = map lower_char s"

definition HasPrefix :: "string \<Rightarrow> string \<Rightarrow> bool" where
  "HasPrefix s p \<longleftrightarrow> take (length p) s = p"

fun Contains :: "string \<Rightarrow> string \<Rightarrow> bool" where
  "Contains [] sub \<longleftrightarrow> sub = []"
| "Contains (c # s) sub \<longleftrightarrow> HasPrefix (c # s) sub \<or> Contains s sub"

lemma HasPrefix_append [simp]: "HasPrefix (p @ s) p"
  by (simp add: HasPrefix_def)

definition TrimRight :: "string \<Rightarrow> string \<Rightarrow> string" where
  "TrimRight s cutset = rev (dropWhile (\<lambda>c. c \<in> set cutset) (rev s))"

text \<open>The spaces of ASCII.\<close>

definition TrimSpace :: "string \<Rightarrow> string" where
  "TrimSpace s = (let space = (\<lambda>c. c \<in> set [CHR 0x09, CHR 0x0A, CHR 0x0B, CHR 0x0C, CHR 0x0D, CHR '' '']) 
   in rev (dropWhile space (rev (dropWhile space s))))"

fun Join :: "string list \<Rightarrow> string \<Rightarrow> string" where
  "Join [] sep = ''''"
| "Join [x] sep = x"
| "Join (x # xs) sep = x @ sep @ Join xs sep"

lemma length_TrimRight: "length (TrimRight s cs) \<le> length s"
  using length_dropWhile_le [of "\<lambda>c. c \<in> set cs" "rev s"] by (simp add: TrimRight_def)

lemma TrimRight_last: "TrimRight s cs \<noteq> [] \<Longrightarrow> last (TrimRight s cs) \<notin> set cs"
  using hd_dropWhile [of "\<lambda>c. c \<in> set cs" "rev s"] by (simp add: TrimRight_def last_rev)

lemma TrimRight_prefix: "\<exists>t. s = TrimRight s cs @ t"
proof -
  have "rev s = takeWhile (\<lambda>c. c \<in> set cs) (rev s) @ dropWhile (\<lambda>c. c \<in> set cs) (rev s)"
    by simp
  then have "s = rev (dropWhile (\<lambda>c. c \<in> set cs) (rev s)) @
      rev (takeWhile (\<lambda>c. c \<in> set cs) (rev s))"
    by (metis rev_append rev_rev_ident)
  then show ?thesis unfolding TrimRight_def by blast
qed

section \<open>Decimal numbers: strconv\<close>

definition digit_char :: "nat \<Rightarrow> char" where
  "digit_char d = char_of (48 + d)"

definition is_digit :: "char \<Rightarrow> bool" where
  "is_digit c \<longleftrightarrow> 48 \<le> (of_char c :: nat) \<and> (of_char c :: nat) \<le> 57"

definition digit_val :: "char \<Rightarrow> nat" where
  "digit_val c = of_char c - 48"

fun show_nat :: "nat \<Rightarrow> string" where
  "show_nat n = (if n < 10 then [digit_char n] else show_nat (n div 10) @ [digit_char (n mod 10)])"

declare show_nat.simps [simp del]

definition Itoa :: "int \<Rightarrow> string" where
  "Itoa i = (if i < 0 then CHR ''-'' # show_nat (nat (- i)) else show_nat (nat i))"

definition read_digits :: "string \<Rightarrow> nat" where
  "read_digits s = foldl (\<lambda>n c. 10 * n + digit_val c) 0 s"

text \<open>
  \<^verbatim>\<open>strconv.Atoi\<close>: an optional sign, then at least one digit and nothing else; a value outside
  \<^verbatim>\<open>int64\<close> is a range error. \<^term>\<open>None\<close> is the returned error.
\<close>

definition Atoi_digits :: "string \<Rightarrow> nat option" where
  "Atoi_digits s = (if s \<noteq> [] \<and> list_all is_digit s then Some (read_digits s) else None)"

definition Atoi :: "string \<Rightarrow> int option" where
  "Atoi s =
    (let (neg, ds) = (case s of
        [] \<Rightarrow> (False, [])
      | c # cs \<Rightarrow> if c = CHR ''-'' then (True, cs) else if c = CHR ''+'' then (False, cs)
                  else (False, s))
     in case Atoi_digits ds of
          None \<Rightarrow> None
        | Some n \<Rightarrow> (let v = (if neg then - int n else int n)
                    in if int64_min \<le> v \<and> v \<le> int64_max then Some v else None))"

lemma of_char_digit_char [simp]: "d < 10 \<Longrightarrow> (of_char (digit_char d) :: nat) = 48 + d"
  by (simp add: digit_char_def)

lemma is_digit_digit_char [simp]: "d < 10 \<Longrightarrow> is_digit (digit_char d)"
  by (simp add: is_digit_def)

lemma digit_val_digit_char [simp]: "d < 10 \<Longrightarrow> digit_val (digit_char d) = d"
  by (simp add: digit_val_def)

lemma is_digit_neq [simp]: "is_digit c \<Longrightarrow> c \<noteq> CHR ''-''" "is_digit c \<Longrightarrow> c \<noteq> CHR ''+''"
  by (auto simp: is_digit_def)

lemma show_nat_digits: "list_all is_digit (show_nat n)"
  by (induction n rule: show_nat.induct) (subst show_nat.simps, simp)

lemma show_nat_nonempty [simp]: "show_nat n \<noteq> []"
  by (subst show_nat.simps) simp

lemma read_digits_snoc [simp]: "read_digits (s @ [c]) = 10 * read_digits s + digit_val c"
  by (simp add: read_digits_def)

lemma read_show_nat [simp]: "read_digits (show_nat n) = n"
proof (induction n rule: show_nat.induct)
  case (1 n)
  show ?case
  proof (cases "n < 10")
    case True
    then show ?thesis by (simp add: show_nat.simps [of n] read_digits_def)
  next
    case False
    with 1 show ?thesis by (simp add: show_nat.simps [of n])
  qed
qed

lemma hd_show_nat_digit: "is_digit (hd (show_nat n))"
  using show_nat_digits [of n] by (cases "show_nat n") simp_all

lemma Atoi_Itoa:
  assumes "int64_min \<le> i" and "i \<le> int64_max"
  shows "Atoi (Itoa i) = Some i"
proof (cases "i < 0")
  case True
  with assms show ?thesis
    by (simp add: Atoi_def Itoa_def Atoi_digits_def show_nat_digits)
next
  case False
  obtain c cs where s: "show_nat (nat i) = c # cs" by (cases "show_nat (nat i)") simp_all
  with hd_show_nat_digit [of "nat i"] have "is_digit c" by simp
  then have "c \<noteq> CHR ''-''" "c \<noteq> CHR ''+''" by simp_all
  moreover have "Atoi_digits (c # cs) = Some (nat i)"
    using show_nat_digits [of "nat i"] read_show_nat [of "nat i"] s by (simp add: Atoi_digits_def)
  ultimately show ?thesis using False assms s
    by (simp add: Atoi_def Itoa_def)
qed

lemma Itoa_nonempty [simp]: "Itoa i \<noteq> []"
  by (simp add: Itoa_def)

lemma Itoa_inject:
  assumes "Itoa i = Itoa j" "int64_min \<le> i" "i \<le> int64_max" "int64_min \<le> j" "j \<le> int64_max"
  shows "i = j"
proof -
  from assms(2,3) have "Atoi (Itoa i) = Some i" by (rule Atoi_Itoa)
  moreover from assms(4,5) have "Atoi (Itoa j) = Some j" by (rule Atoi_Itoa)
  ultimately show ?thesis unfolding assms(1) by (metis option.inject)
qed

section \<open>Lists\<close>

text \<open>The loops that return at the first match, and the ones that stop at the first error.\<close>

lemma find_SomeD: "find P xs = Some x \<Longrightarrow> x \<in> set xs \<and> P x"
  by (induction xs) (auto split: if_splits)

lemma find_None_all: "find P xs = None \<longleftrightarrow> (\<forall>x\<in>set xs. \<not> P x)"
  by (auto simp: find_None_iff)

end
