(* ===== verification/Kube_Objects.thy ===== *)
theory Kube_Objects
  imports Kube_Prelude
begin

text \<open>
  The objects the program reads and writes: the two custom resources of \<^verbatim>\<open>api/v1beta1\<close>
  (ClusterBinding, ResourceLeasingPolicy) and, of the Kubernetes types, the fields the program
  uses; a field called \<open>...Other\<close> stands for the rest of the struct, which the program only
  copies. The label, annotation, finalizer and taint names are those of
  \<^verbatim>\<open>api/v1beta1/constants.go\<close>; their definitions are collected in \<open>kube_consts\<close>.
  Times are nanoseconds since the epoch.
\<close>

named_theorems kube_consts "values of the string constants"

section \<open>Names used by the program (constants.go)\<close>

definition LabelManagedBy :: string where [kube_consts]: "LabelManagedBy = ''kubeocean.io/managed-by''"
definition LabelManagedByValue :: string where [kube_consts]: "LabelManagedByValue = ''kubeocean''"
definition LabelVirtualNamespace :: string where [kube_consts]: "LabelVirtualNamespace = ''kubeocean.io/virtual-namespace''"
definition LabelWorkloadType :: string where [kube_consts]: "LabelWorkloadType = ''kubeocean.io/workload-type''"
definition LabelWorkloadName :: string where [kube_consts]: "LabelWorkloadName = ''kubeocean.io/workload-name''"
definition LabelServiceAccountToken :: string where [kube_consts]: "LabelServiceAccountToken = ''kubeocean.io/service-account-token''"
definition AnnotationVirtualPodNamespace :: string where [kube_consts]: "AnnotationVirtualPodNamespace = ''kubeocean.io/virtual-pod-namespace''"
definition AnnotationVirtualPodName :: string where [kube_consts]: "AnnotationVirtualPodName = ''kubeocean.io/virtual-pod-name''"
definition AnnotationVirtualPodUID :: string where [kube_consts]: "AnnotationVirtualPodUID = ''kubeocean.io/virtual-pod-uid''"
definition AnnotationPhysicalPodNamespace :: string where [kube_consts]: "AnnotationPhysicalPodNamespace = ''kubeocean.io/physical-pod-namespace''"
definition AnnotationPhysicalPodName :: string where [kube_consts]: "AnnotationPhysicalPodName = ''kubeocean.io/physical-pod-name''"
definition AnnotationPhysicalPodUID :: string where [kube_consts]: "AnnotationPhysicalPodUID = ''kubeocean.io/physical-pod-uid''"
definition AnnotationVirtualNodeName :: string where [kube_consts]: "AnnotationVirtualNodeName = ''kubeocean.io/virtual-node-name''"
definition AnnotationLastSyncTime :: string where [kube_consts]: "AnnotationLastSyncTime = ''kubeocean.io/last-sync-time''"
definition AnnotationPoliciesApplied :: string where [kube_consts]: "AnnotationPoliciesApplied = ''kubeocean.io/policies-applied''"
definition AnnotationExpectedMetadata :: string where [kube_consts]: "AnnotationExpectedMetadata = ''kubeocean.io/expected-metadata''"
definition AnnotationPrometheusURL :: string where [kube_consts]: "AnnotationPrometheusURL = ''kubeocean.io/prometheus-url''"
definition VirtualNodeFinalizer :: string where [kube_consts]: "VirtualNodeFinalizer = ''kubeocean.io/vnode''"
definition PolicyFinalizerName :: string where [kube_consts]: "PolicyFinalizerName = ''policy.kubeocean.io/finalizer''"
definition TaintVnodeDefaultTaint :: string where [kube_consts]: "TaintVnodeDefaultTaint = ''kubeocean.io/vnode''"
definition TaintPhysicalNodeUnschedulable :: string where [kube_consts]: "TaintPhysicalNodeUnschedulable = ''kubeocean.io/physical-node-unschedulable''"
definition TaintOutOfTimeWindows :: string where [kube_consts]: "TaintOutOfTimeWindows = ''kubeocean.io/out-of-time-windows''"
definition LabelClusterBinding :: string where [kube_consts]: "LabelClusterBinding = ''kubeocean.io/cluster-binding''"
definition LabelPhysicalClusterID :: string where [kube_consts]: "LabelPhysicalClusterID = ''kubeocean.io/physical-cluster-id''"
definition LabelPhysicalNodeName :: string where [kube_consts]: "LabelPhysicalNodeName = ''kubeocean.io/physical-node-name''"
definition LabelPhysicalNodeUID :: string where [kube_consts]: "LabelPhysicalNodeUID = ''kubeocean.io/physical-node-uid''"
definition LabelPhysicalNodeInnerIP :: string where [kube_consts]: "LabelPhysicalNodeInnerIP = ''kubeocean.io/physical-node-innerip''"
definition LabelProxierPort :: string where [kube_consts]: "LabelProxierPort = ''kubeocean.io/proxier_port''"
definition LabelPolicyApplied :: string where [kube_consts]: "LabelPolicyApplied = ''kubeocean.io/policy-applied''"
definition LabelHostPortFakePod :: string where [kube_consts]: "LabelHostPortFakePod = ''kubeocean.io/hostport-fake-pod''"
definition LabelValueTrue :: string where [kube_consts]: "LabelValueTrue = ''true''"
definition AnnotationPhysicalName :: string where [kube_consts]: "AnnotationPhysicalName = ''kubeocean.io/physical-name''"
definition AnnotationPhysicalNamespace :: string where [kube_consts]: "AnnotationPhysicalNamespace = ''kubeocean.io/physical-namespace''"
definition AnnotationVirtualName :: string where [kube_consts]: "AnnotationVirtualName = ''kubeocean.io/virtual-name''"
definition AnnotationVirtualNamespace :: string where [kube_consts]: "AnnotationVirtualNamespace = ''kubeocean.io/virtual-namespace''"
definition AnnotationClusterBindingDeletingPrefix :: string where [kube_consts]: "AnnotationClusterBindingDeletingPrefix = ''kubeocean.io/deleting-''"
definition LabelUsedByPV :: string where [kube_consts]: "LabelUsedByPV = ''kubeocean.io/used-by-pv''"
definition LabelManagedByClusterIDPrefix :: string where [kube_consts]: "LabelManagedByClusterIDPrefix = ''kubeocean.io/synced-by-''"
definition FinalizerClusterIDPrefix :: string where [kube_consts]: "FinalizerClusterIDPrefix = ''kubeocean.io/finalizer-''"
definition AnnotationRunningDaemonSet :: string where [kube_consts]: "AnnotationRunningDaemonSet = ''kubeocean.io/running-daemonset''"

definition GetClusterBindingDeletingAnnotation :: "string \<Rightarrow> string" where
  "GetClusterBindingDeletingAnnotation clusterID = AnnotationClusterBindingDeletingPrefix @ clusterID"

section \<open>Object metadata\<close>

type_synonym time = int

record owner_ref =
  orKind :: string
  orName :: string
  orUID :: string

record objmeta =
  mName :: string
  mNamespace :: string
  mGenerateName :: string
  mUID :: string
  mLabels :: smap
  mAnnotations :: smap
  mFinalizers :: "string list"
  mDeletionTimestamp :: "time option"
  mCreationTimestamp :: time
  mOwnerReferences :: "owner_ref list"
  mGeneration :: int

definition empty_meta :: objmeta where
  "empty_meta = \<lparr>mName = '''', mNamespace = '''', mGenerateName = '''', mUID = '''',
     mLabels = Map.empty, mAnnotations = Map.empty, mFinalizers = [],
     mDeletionTimestamp = None, mCreationTimestamp = 0, mOwnerReferences = [], mGeneration = 0\<rparr>"

text \<open>\<^verbatim>\<open>controllerutil\<close>: add is a no-op when the finalizer is there, remove drops every copy.\<close>

definition ContainsFinalizer :: "objmeta \<Rightarrow> string \<Rightarrow> bool" where
  "ContainsFinalizer m f \<longleftrightarrow> f \<in> set (mFinalizers m)"

definition AddFinalizer :: "objmeta \<Rightarrow> string \<Rightarrow> objmeta" where
  "AddFinalizer m f = (if f \<in> set (mFinalizers m) then m else m\<lparr>mFinalizers := mFinalizers m @ [f]\<rparr>)"

definition RemoveFinalizer :: "objmeta \<Rightarrow> string \<Rightarrow> objmeta" where
  "RemoveFinalizer m f = m\<lparr>mFinalizers := filter (\<lambda>g. g \<noteq> f) (mFinalizers m)\<rparr>"

lemma finalizer_simps [simp]:
  "ContainsFinalizer (AddFinalizer m f) f"
  "\<not> ContainsFinalizer (RemoveFinalizer m f) f"
  "g \<noteq> f \<Longrightarrow> ContainsFinalizer (RemoveFinalizer m f) g = ContainsFinalizer m g"
  by (auto simp: ContainsFinalizer_def AddFinalizer_def RemoveFinalizer_def)

record condition =
  cdType :: string
  cdStatus :: string
  cdReason :: string
  cdMessage :: string
  cdLastTransitionTime :: time
  cdLastProbeTime :: time
  cdObservedGeneration :: int

section \<open>Quantities, resource lists\<close>

datatype quantity_format = DecimalExponent | BinarySI | DecimalSI

text \<open>A \<^verbatim>\<open>resource.Quantity\<close>: an exact amount, in units of \<open>10\<^sup>-\<^sup>9\<close>, and its print format.\<close>

record quantity =
  q_amount :: int
  q_format :: quantity_format

type_synonym resource_list = "string \<rightharpoonup> quantity"

section \<open>Nodes\<close>

record taint =
  tKey :: string
  tValue :: string
  tEffect :: string
  tTimeAdded :: "time option"

record node_address =
  aType :: string
  aAddress :: string

record node =
  nMeta :: objmeta
  nTaints :: "taint list"
  nUnschedulable :: bool
  nCapacity :: resource_list
  nAllocatable :: resource_list
  nConditions :: "condition list"
  nNodeInfo :: string
  nPhase :: string
  nAddresses :: "node_address list"
  nDaemonPort :: int

definition empty_node :: node where
  "empty_node = \<lparr>nMeta = empty_meta, nTaints = [], nUnschedulable = False,
     nCapacity = Map.empty, nAllocatable = Map.empty, nConditions = [], nNodeInfo = '''',
     nPhase = '''', nAddresses = [], nDaemonPort = 0\<rparr>"

datatype selector_op = OpIn | OpNotIn | OpExists | OpDoesNotExist | OpGt | OpLt | OpOther string

record node_requirement =
  reqKey :: string
  reqOperator :: selector_op
  reqValues :: "string list"

record node_selector_term =
  MatchExpressions :: "node_requirement list"
  MatchFields :: "node_requirement list"

text \<open>\<^verbatim>\<open>*corev1.NodeSelector\<close>: \<^term>\<open>None\<close> is the nil pointer.\<close>

type_synonym node_selector = "node_selector_term list option"

section \<open>The custom resources\<close>

record time_window =
  Start :: string
  End :: string
  Days :: "string list"

record resource_limit =
  rlResource :: string
  rlQuantity :: "quantity option"
  rlPercent :: "int option"

record policy =
  pMeta :: objmeta
  pCluster :: string
  pNodeSelector :: node_selector
  pTimeWindows :: "time_window list"
  pResourceLimits :: "resource_limit list"
  pForceReclaim :: bool
  pGracefulReclaimPeriodSeconds :: int
  pPhase :: string
  pConditions :: "condition list"
  pLastAppliedTime :: "time option"
  pActiveTimeWindow :: bool

record secret_ref =
  srName :: string
  srNamespace :: string

text \<open>\<^verbatim>\<open>ClusterBinding\<close>: the last three fields are its status.\<close>

record cluster_binding =
  bMeta :: objmeta
  bClusterID :: string
  bNodeSelector :: node_selector
  bMountNamespace :: string
  bDisableNodeDefaultTaint :: bool
  bPodPriorityClassName :: string
  bRunningDaemonsetByDefault :: bool
  bDirectScheduling :: bool
  bSecretRef :: secret_ref
  bServiceNamespaces :: "string list"
  bPhase :: string
  bConditions :: "condition list"
  bLastSyncTime :: "time option"

section \<open>Pods\<close>

record container_port =
  cpName :: string
  cpHostPort :: int
  cpContainerPort :: int
  cpProtocol :: string
  cpHostIP :: string

text \<open>
  A reference to a ConfigMap or Secret, from a volume, a projected source, an environment variable
  or \<^verbatim>\<open>envFrom\<close>; its items are the keys taken with their paths.
\<close>

record object_ref =
  refName :: string
  refOptional :: "bool option"
  refItems :: "(string \<times> string) list"

record env_source =
  esConfigMapKeyRef :: "object_ref option"
  esSecretKeyRef :: "object_ref option"
  esFieldPath :: "string option"
  esOther :: string

record env_var =
  evName :: string
  evValue :: string
  evValueFrom :: "env_source option"

record env_from =
  efConfigMapRef :: "object_ref option"
  efSecretRef :: "object_ref option"
  efPrefix :: string

record container =
  ctName :: string
  ctImage :: string
  ctCommand :: "string list"
  ctPorts :: "container_port list"
  ctRequests :: resource_list
  ctEnv :: "env_var list"
  ctEnvFrom :: "env_from list"
  ctOther :: string

record downward_file =
  dfPath :: string
  dfFieldPath :: "string option"
  dfOther :: string

record token_projection =
  tpAudience :: string
  tpExpirationSeconds :: "int option"
  tpPath :: string

record projected_source =
  psConfigMap :: "object_ref option"
  psSecret :: "object_ref option"
  psDownwardAPI :: "downward_file list option"
  psServiceAccountToken :: "token_projection option"
  psOther :: string

record volume =
  vName :: string
  vConfigMap :: "object_ref option"
  vSecret :: "object_ref option"
  vPVC :: "string option"
  vProjected :: "projected_source list option"
  vDownwardAPI :: "downward_file list option"
  vOther :: string

record dns_config =
  dnsNameservers :: "string list"
  dnsOptions :: "(string \<times> string option) list"
  dnsSearches :: "string list"

datatype affinity = NodeAffinity "node_selector_term list" | OtherAffinity string

record toleration =
  tolKey :: string
  tolOperator :: string

record pod_status =
  psPhase :: string
  psReason :: string
  psMessage :: string
  psConditions :: "condition list"
  psHostIP :: string
  psPodIP :: string
  psPodIPs :: "string list"
  psStartTime :: "time option"
  psContainerStatuses :: "string list"
  psInitContainerStatuses :: "string list"
  psEphemeralContainerStatuses :: "string list"
  psQOSOther :: string

record pod =
  poMeta :: objmeta
  poNodeName :: string
  poContainers :: "container list"
  poInitContainers :: "container list"
  poEphemeralContainers :: "container list"
  poVolumes :: "volume list"
  poTolerations :: "toleration list"
  poPriorityClassName :: string
  poRestartPolicy :: string
  poHostNetwork :: bool
  poServiceAccountName :: string
  poDeprecatedServiceAccount :: string
  poImagePullSecrets :: "string list"
  poAffinity :: "affinity option"
  poNodeSelector :: smap
  poSchedulerName :: string
  poPriority :: "int option"
  poPreemptionPolicy :: "string option"
  poHostname :: string
  poHostAliases :: "(string \<times> string list) list"
  poDNSPolicy :: string
  poDNSConfig :: "dns_config option"
  poActiveDeadlineSeconds :: "int option"
  poSpecOther :: string
  poStatus :: pod_status

definition empty_status :: pod_status where
  "empty_status = \<lparr>psPhase = '''', psReason = '''', psMessage = '''', psConditions = [], psHostIP = '''',
     psPodIP = '''', psPodIPs = [], psStartTime = None, psContainerStatuses = [], psInitContainerStatuses = [],
     psEphemeralContainerStatuses = [], psQOSOther = ''''\<rparr>"

definition empty_pod :: pod where
  "empty_pod = \<lparr>poMeta = empty_meta, poNodeName = '''', poContainers = [], poInitContainers = [],
     poEphemeralContainers = [], poVolumes = [], poTolerations = [], poPriorityClassName = '''',
     poRestartPolicy = '''', poHostNetwork = False, poServiceAccountName = '''', poDeprecatedServiceAccount = '''',
     poImagePullSecrets = [], poAffinity = None, poNodeSelector = Map.empty, poSchedulerName = '''',
     poPriority = None, poPreemptionPolicy = None, poHostname = '''', poHostAliases = [], poDNSPolicy = '''',
     poDNSConfig = None, poActiveDeadlineSeconds = None, poSpecOther = '''', poStatus = empty_status\<rparr>"

lemma empty_pod_fields [simp]:
  "poMeta empty_pod = empty_meta" "poContainers empty_pod = []" "poInitContainers empty_pod = []"
  "poEphemeralContainers empty_pod = []" "poVolumes empty_pod = []" "poStatus empty_pod = empty_status"
  by (simp_all add: empty_pod_def)

section \<open>Resources a pod depends on\<close>

record config_map =
  cmMeta :: objmeta
  cmData :: smap
  cmBinaryData :: smap

record secret =
  seMeta :: objmeta
  seType :: string
  seData :: smap
  seStringData :: smap

record pvc =
  pvcMeta :: objmeta
  pvcVolumeName :: string
  pvcStorageClassName :: "string option"
  pvcSpecOther :: string
  pvcPhase :: string
  pvcStatusOther :: string

record csi_source =
  csiNodePublishSecretRef :: "secret_ref option"
  csiOther :: string

record pv =
  pvMeta :: objmeta
  pvClaimRef :: "string option"
  pvReclaimPolicy :: string
  pvCSI :: "csi_source option"
  pvSpecOther :: string
  pvStatus :: string

section \<open>Objects the pod controller looks at\<close>

record service =
  svMeta :: objmeta
  svIngressIPs :: "string list"
  svPorts :: "int list"

record priority_class =
  pcMeta :: objmeta
  pcValue :: int
  pcPreemptionPolicy :: "string option"
  pcDescription :: string

text \<open>\<^verbatim>\<open>authentication/v1.TokenRequest\<close>; the bound object is the pod the token is for.\<close>

record bound_object_ref =
  boKind :: string
  boName :: string
  boUID :: string

record token_request =
  trAudiences :: "string list"
  trExpirationSeconds :: "int option"
  trBoundObjectRef :: bound_object_ref
  trToken :: string
  trExpirationTimestamp :: time

record csi_driver =
  csdName :: string
  csdNodeID :: string
  csdTopologyKeys :: "string list"
  csdAllocatable :: "int option"

record csi_node =
  cnMeta :: objmeta
  cnDrivers :: "csi_driver list"

record lease =
  leMeta :: objmeta
  leHolderIdentity :: "string option"
  leDurationSeconds :: "int option"
  leRenewTime :: "time option"

section \<open>Objects of the API\<close>

text \<open>\<^verbatim>\<open>certificates/v1.CertificateSigningRequest\<close>.\<close>

record csr =
  csrMeta :: objmeta
  csrRequest :: string
  csrSignerName :: string
  csrUsername :: string
  csrGroups :: "string list"
  csrUsages :: "string list"
  csrConditions :: "condition list"
  csrCertificate :: string

text \<open>
  \<^verbatim>\<open>api/cls/v1/logconfig_types.go\<close>. Parts the program only copies and compares are kept as an opaque text. A pointer is
  an option, and so are the maps and the list whose being nil the program or \<^verbatim>\<open>reflect.DeepEqual\<close> tells from being empty.
\<close>

record log_workload =
  wlKind :: "string option"
  wlName :: "string option"

record workload_selector =
  wsNamespace :: "string option"
  wsKind :: "string option"
  wsName :: "string option"
  wsOther :: string

record container_stdout =
  coNamespace :: "string option"
  coExcludeNamespace :: "string option"
  coIncludeLabels :: "smap option"
  coExcludeLabels :: "smap option"
  coWorkloads :: "workload_selector list option"
  coOther :: string

record container_file =
  cfNamespace :: "string option"
  cfExcludeNamespace :: "string option"
  cfIncludeLabels :: "smap option"
  cfExcludeLabels :: "smap option"
  cfWorkload :: "log_workload option"
  cfOther :: string

record input_detail =
  idType :: "string option"
  idContainerFile :: "container_file option"
  idContainerStdout :: "container_stdout option"
  idHostFile :: "string option"

record log_config_spec =
  lsCLSDetail :: "string option"
  lsInputDetail :: "input_detail option"
  lsKafkaDetail :: "string option"

record log_config =
  lcMeta :: objmeta
  lcSpec :: log_config_spec

text \<open>\<^verbatim>\<open>client.Object\<close>: one constructor for each kind of object the modelled code handles.\<close>

datatype obj =
    ONode node
  | OPod pod
  | OBinding cluster_binding
  | OPolicy policy
  | OConfigMap config_map
  | OSecret secret
  | OPVC pvc
  | OPV pv
  | ONamespace objmeta
  | OService service
  | OPriorityClass priority_class
  | OReplicaSet objmeta
  | OCSINode csi_node
  | OLease lease
  | ODeployment objmeta
  | OCSR csr
  | OLogConfig log_config

datatype kind = KNode | KPod | KBinding | KPolicy | KConfigMap | KSecret | KPVC | KPV | KNamespace
  | KService | KPriorityClass | KReplicaSet | KCSINode | KLease | KDeployment | KCSR | KLogConfig

fun obj_kind :: "obj \<Rightarrow> kind" where
  "obj_kind (ONode _) = KNode"
| "obj_kind (OPod _) = KPod"
| "obj_kind (OBinding _) = KBinding"
| "obj_kind (OPolicy _) = KPolicy"
| "obj_kind (OConfigMap _) = KConfigMap"
| "obj_kind (OSecret _) = KSecret"
| "obj_kind (OPVC _) = KPVC"
| "obj_kind (OPV _) = KPV"
| "obj_kind (ONamespace _) = KNamespace"
| "obj_kind (OService _) = KService"
| "obj_kind (OPriorityClass _) = KPriorityClass"
| "obj_kind (OReplicaSet _) = KReplicaSet"
| "obj_kind (OCSINode _) = KCSINode"
| "obj_kind (OLease _) = KLease"
| "obj_kind (ODeployment _) = KDeployment"
| "obj_kind (OCSR _) = KCSR"
| "obj_kind (OLogConfig _) = KLogConfig"

fun obj_meta :: "obj \<Rightarrow> objmeta" where
  "obj_meta (ONode n) = nMeta n"
| "obj_meta (OPod p) = poMeta p"
| "obj_meta (OBinding b) = bMeta b"
| "obj_meta (OPolicy p) = pMeta p"
| "obj_meta (OConfigMap c) = cmMeta c"
| "obj_meta (OSecret s) = seMeta s"
| "obj_meta (OPVC c) = pvcMeta c"
| "obj_meta (OPV v) = pvMeta v"
| "obj_meta (ONamespace m) = m"
| "obj_meta (OService s) = svMeta s"
| "obj_meta (OPriorityClass p) = pcMeta p"
| "obj_meta (OReplicaSet m) = m"
| "obj_meta (OCSINode c) = cnMeta c"
| "obj_meta (OLease l) = leMeta l"
| "obj_meta (ODeployment m) = m"
| "obj_meta (OCSR c) = csrMeta c"
| "obj_meta (OLogConfig l) = lcMeta l"

fun set_obj_meta :: "objmeta \<Rightarrow> obj \<Rightarrow> obj" where
  "set_obj_meta m (ONode n) = ONode (n\<lparr>nMeta := m\<rparr>)"
| "set_obj_meta m (OPod p) = OPod (p\<lparr>poMeta := m\<rparr>)"
| "set_obj_meta m (OBinding b) = OBinding (b\<lparr>bMeta := m\<rparr>)"
| "set_obj_meta m (OPolicy p) = OPolicy (p\<lparr>pMeta := m\<rparr>)"
| "set_obj_meta m (OConfigMap c) = OConfigMap (c\<lparr>cmMeta := m\<rparr>)"
| "set_obj_meta m (OSecret s) = OSecret (s\<lparr>seMeta := m\<rparr>)"
| "set_obj_meta m (OPVC c) = OPVC (c\<lparr>pvcMeta := m\<rparr>)"
| "set_obj_meta m (OPV v) = OPV (v\<lparr>pvMeta := m\<rparr>)"
| "set_obj_meta m (ONamespace _) = ONamespace m"
| "set_obj_meta m (OService s) = OService (s\<lparr>svMeta := m\<rparr>)"
| "set_obj_meta m (OPriorityClass p) = OPriorityClass (p\<lparr>pcMeta := m\<rparr>)"
| "set_obj_meta m (OReplicaSet _) = OReplicaSet m"
| "set_obj_meta m (OCSINode c) = OCSINode (c\<lparr>cnMeta := m\<rparr>)"
| "set_obj_meta m (OLease l) = OLease (l\<lparr>leMeta := m\<rparr>)"
| "set_obj_meta m (ODeployment _) = ODeployment m"
| "set_obj_meta m (OCSR c) = OCSR (c\<lparr>csrMeta := m\<rparr>)"
| "set_obj_meta m (OLogConfig l) = OLogConfig (l\<lparr>lcMeta := m\<rparr>)"

lemma obj_meta_set [simp]: "obj_meta (set_obj_meta m ob) = m"
  by (cases ob) simp_all

lemma obj_kind_set [simp]: "obj_kind (set_obj_meta m ob) = obj_kind ob"
  by (cases ob) simp_all

end
