(* ===== verification/Time_Windows.thy ===== *)
theory Time_Windows
  imports Kube_Objects
begin

text \<open>
  The time windows of a leasing policy, \<^verbatim>\<open>api/v1beta1/resourceleasingpolicy_types.go\<close>. The
  code compares times as strings; the theorems relate it to minutes since midnight.
\<close>

definition isValidTimeFormat :: "string \<Rightarrow> bool" where
  "isValidTimeFormat timeStr =
    (if length timeStr \<noteq> 5 then False
     else if timeStr ! 2 \<noteq> CHR '':'' then False
     else let hourStr = take 2 timeStr in
       if \<not> list_all is_digit hourStr then False
       else let hour = int (digit_val (hourStr ! 0)) * 10 + int (digit_val (hourStr ! 1)) in
         if hour < 0 \<or> hour > 23 then False
         else let minuteStr = take 2 (drop 3 timeStr) in
           if \<not> list_all is_digit minuteStr then False
           else let minute = int (digit_val (minuteStr ! 0)) * 10 + int (digit_val (minuteStr ! 1)) in
             \<not> (minute < 0 \<or> minute > 59))"

definition isTimeInRange :: "string \<Rightarrow> string \<Rightarrow> string \<Rightarrow> bool" where
  "isTimeInRange current start end' =
    (if \<not> isValidTimeFormat start \<or> \<not> isValidTimeFormat end' then False
     else if end' < start then current \<ge> start \<or> current \<le> end'
     else current \<ge> start \<and> current \<le> end')"

definition dayMatches :: "time_window \<Rightarrow> string \<Rightarrow> bool" where
  "dayMatches window currentDay \<longleftrightarrow>
     length (Days window) = 0 \<or> list_ex (\<lambda>day. ToLower day = currentDay) (Days window)"

fun anyWindow :: "time_window list \<Rightarrow> string \<Rightarrow> string \<Rightarrow> bool" where
  "anyWindow [] currentDay currentTime = False"
| "anyWindow (window # ws) currentDay currentTime =
    (if \<not> dayMatches window currentDay then anyWindow ws currentDay currentTime
     else if isTimeInRange currentTime (Start window) (End window) then True
     else anyWindow ws currentDay currentTime)"

definition IsWithinTimeWindows :: "time_window list \<Rightarrow> string \<Rightarrow> string \<Rightarrow> bool" where
  "IsWithinTimeWindows timeWindows currentDay currentTime =
    (if length timeWindows = 0 then True else anyWindow timeWindows currentDay currentTime)"

definition IsWithinTimeWindowsAt :: "policy \<Rightarrow> string \<Rightarrow> string \<Rightarrow> bool" where
  "IsWithinTimeWindowsAt p currentDay currentTime =
     IsWithinTimeWindows (pTimeWindows p) currentDay currentTime"

section \<open>The format\<close>

definition hhmm :: "nat \<Rightarrow> nat \<Rightarrow> string" where
  "hhmm h m = [digit_char (h div 10), digit_char (h mod 10), CHR '':'',
               digit_char (m div 10), digit_char (m mod 10)]"

definition minutes :: "string \<Rightarrow> nat" where
  "minutes s = 60 * (10 * digit_val (s ! 0) + digit_val (s ! 1)) +
     (10 * digit_val (s ! 3) + digit_val (s ! 4))"

lemma is_digit_cases:
  assumes "is_digit c"
  shows "digit_val c < 10" and "c = digit_char (digit_val c)"
proof -
  from assms have "48 \<le> (of_char c :: nat)" "(of_char c :: nat) \<le> 57"
    by (simp_all add: is_digit_def)
  then show "digit_val c < 10" by (simp add: digit_val_def)
  have "char_of (of_char c :: nat) = c" by simp
  with \<open>48 \<le> of_char c\<close> show "c = digit_char (digit_val c)"
    by (simp add: digit_char_def digit_val_def)
qed

lemma length_5: "length s = 5 \<longleftrightarrow> (\<exists>a b c d e. s = [a, b, c, d, e])"
  by (auto simp: length_Suc_conv numeral_eq_Suc)

lemma valid_hhmm [simp]:
  assumes "h < 24" and "m < 60"
  shows "isValidTimeFormat (hhmm h m)"
proof -
  from assms have "h div 10 < 10" "m div 10 < 10" by auto
  moreover have "int (h div 10) * 10 + int (h mod 10) = int h"
    and "int (m div 10) * 10 + int (m mod 10) = int m"
    by presburger+
  ultimately show ?thesis using assms by (simp add: isValidTimeFormat_def hhmm_def)
qed

lemma valid_cases:
  assumes "isValidTimeFormat s"
  obtains h m where "h < 24" "m < 60" "s = hhmm h m"
proof -
  from assms have "length s = 5" by (simp add: isValidTimeFormat_def split: if_splits)
  then obtain a b c d e where s: "s = [a, b, c, d, e]" by (auto simp: length_5)
  from assms s have digits: "is_digit a" "is_digit b" "is_digit d" "is_digit e" and "c = CHR '':''"
    by (auto simp: isValidTimeFormat_def Let_def split: if_splits)
  note ds = digits[THEN is_digit_cases(1)] digits[THEN is_digit_cases(2)]
  let ?h = "10 * digit_val a + digit_val b" and ?m = "10 * digit_val d + digit_val e"
  from assms s digits have "?h < 24" "?m < 60"
    by (auto simp: isValidTimeFormat_def Let_def split: if_splits)
  moreover have "s = hhmm ?h ?m" using s ds \<open>c = CHR '':''\<close> by (simp add: hhmm_def)
  ultimately show thesis by (rule that)
qed

text \<open>
  The format check accepts exactly the strings \<open>HH:MM\<close> of the 1440 minutes of a day.
\<close>

theorem isValidTimeFormat_iff:
  "isValidTimeFormat s \<longleftrightarrow> (\<exists>h m. h < 24 \<and> m < 60 \<and> s = hhmm h m)"
  by (metis valid_cases valid_hhmm)

section \<open>String order is time order\<close>

lemma less_digit_char [simp]:
  "d < 10 \<Longrightarrow> d' < 10 \<Longrightarrow> digit_char d < digit_char d' \<longleftrightarrow> d < d'"
  by (simp add: less_char_def)

lemma eq_digit_char [simp]:
  "d < 10 \<Longrightarrow> d' < 10 \<Longrightarrow> digit_char d = digit_char d' \<longleftrightarrow> d = d'"
  by (metis digit_val_digit_char)

lemma minutes_hhmm [simp]: "h < 24 \<Longrightarrow> m < 60 \<Longrightarrow> minutes (hhmm h m) = 60 * h + m"
proof -
  assume "h < 24" "m < 60"
  then have "h div 10 < 10" "m div 10 < 10" by auto
  then show ?thesis by (simp add: minutes_def hhmm_def)
qed

lemma two_digits_less:
  assumes "b < n" and "b' < (n::nat)"
  shows "n * a + b < n * a' + b' \<longleftrightarrow> a < a' \<or> a = a' \<and> b < b'"
proof (cases a a' rule: linorder_cases)
  case less
  then have "n * Suc a \<le> n * a'" by (intro mult_le_mono2) simp
  with less assms show ?thesis by simp
next
  case greater
  then have "n * Suc a' \<le> n * a" by (intro mult_le_mono2) simp
  with greater assms show ?thesis by simp
qed simp

lemma hhmm_less:
  assumes "h < 24" "m < 60" "h' < 24" "m' < 60"
  shows "hhmm h m < hhmm h' m' \<longleftrightarrow> 60 * h + m < 60 * h' + m'"
proof -
  have lt: "x div 10 < y div 10 \<or> x div 10 = y div 10 \<and> x mod 10 < y mod 10 \<longleftrightarrow> x < (y::nat)" for x y
    using two_digits_less [of "x mod 10" 10 "y mod 10" "x div 10" "y div 10"] by simp
  have eq: "x div 10 = y div 10 \<and> x mod 10 = y mod 10 \<longleftrightarrow> x = (y::nat)" for x y
    by (metis mult_div_mod_eq)
  from assms have b: "h div 10 < 10" "m div 10 < 10" "h' div 10 < 10" "m' div 10 < 10" by auto
  have "hhmm h m < hhmm h' m' \<longleftrightarrow>
      (h div 10 < h' div 10 \<or> h div 10 = h' div 10 \<and> h mod 10 < h' mod 10) \<or>
      (h div 10 = h' div 10 \<and> h mod 10 = h' mod 10) \<and>
      (m div 10 < m' div 10 \<or> m div 10 = m' div 10 \<and> m mod 10 < m' mod 10)"
    using b unfolding hhmm_def by (simp add: less_list_code) blast
  also have "\<dots> \<longleftrightarrow> h < h' \<or> h = h' \<and> m < m'"
    unfolding lt eq ..
  also have "\<dots> \<longleftrightarrow> 60 * h + m < 60 * h' + m'"
    using two_digits_less [of m 60 m' h h'] assms by simp
  finally show ?thesis .
qed

lemma valid_less:
  assumes "isValidTimeFormat s" and "isValidTimeFormat t"
  shows "s < t \<longleftrightarrow> minutes s < minutes t"
  using assms by (auto elim!: valid_cases simp: hhmm_less)

lemma valid_le:
  assumes "isValidTimeFormat s" and "isValidTimeFormat t"
  shows "s \<le> t \<longleftrightarrow> minutes s \<le> minutes t"
  using valid_less [OF assms(2) assms(1)] by (auto simp: not_less [symmetric])

text \<open>
  The minutes a window covers, both ends included; a window whose end lies before its start
  runs over midnight.
\<close>

definition window_minutes :: "nat \<Rightarrow> nat \<Rightarrow> nat set" where
  "window_minutes s e = (if e < s then {s..<1440} \<union> {0..e} else {s..e})"

lemma minutes_bound: "isValidTimeFormat s \<Longrightarrow> minutes s < 1440"
  by (auto elim!: valid_cases)

lemma isTimeInRange_minutes:
  assumes "isValidTimeFormat c" "isValidTimeFormat s" "isValidTimeFormat e"
  shows "isTimeInRange c s e \<longleftrightarrow> minutes c \<in> window_minutes (minutes s) (minutes e)"
  using assms minutes_bound [of c]
  by (auto simp: isTimeInRange_def window_minutes_def valid_less valid_le)

lemma isTimeInRange_invalid:
  "\<not> isValidTimeFormat s \<or> \<not> isValidTimeFormat e \<Longrightarrow> \<not> isTimeInRange c s e"
  by (auto simp: isTimeInRange_def)

lemma anyWindow_iff:
  "anyWindow ws d t \<longleftrightarrow> (\<exists>w\<in>set ws. dayMatches w d \<and> isTimeInRange t (Start w) (End w))"
  by (induction ws d t rule: anyWindow.induct) auto

text \<open>
  C7. At a clock reading \<open>HH:MM\<close> the policy is active iff it has no window at all, or some
  window with well-formed bounds lists the day (or no day) and covers the minute, running over
  midnight when its end precedes its start. The code's string comparisons implement this.
\<close>

theorem IsWithinTimeWindowsAt_minutes:
  assumes "isValidTimeFormat now"
  shows "IsWithinTimeWindowsAt p day now \<longleftrightarrow> pTimeWindows p = [] \<or>
    (\<exists>w\<in>set (pTimeWindows p).
       (Days w = [] \<or> day \<in> ToLower ` set (Days w)) \<and>
       isValidTimeFormat (Start w) \<and> isValidTimeFormat (End w) \<and>
       minutes now \<in> window_minutes (minutes (Start w)) (minutes (End w)))"
proof -
  have day: "dayMatches w day \<longleftrightarrow> Days w = [] \<or> day \<in> ToLower ` set (Days w)" for w
    by (auto simp: dayMatches_def list_ex_iff)
  have range: "isTimeInRange now (Start w) (End w) \<longleftrightarrow>
      isValidTimeFormat (Start w) \<and> isValidTimeFormat (End w) \<and>
      minutes now \<in> window_minutes (minutes (Start w)) (minutes (End w))" for w
    using isTimeInRange_minutes [OF assms] isTimeInRange_invalid by blast
  show ?thesis
    unfolding IsWithinTimeWindowsAt_def IsWithinTimeWindows_def anyWindow_iff day range by simp
qed

definition night_policy :: policy where
  "night_policy = \<lparr>pMeta = empty_meta\<lparr>mName := ''night''\<rparr>, pCluster = ''c1'', pNodeSelector = None,
     pTimeWindows = [\<lparr>Start = ''22:00'', End = ''06:00'', Days = [''Friday'']\<rparr>],
     pResourceLimits = [], pForceReclaim = True, pGracefulReclaimPeriodSeconds = 60,
     pPhase = '''', pConditions = [], pLastAppliedTime = None, pActiveTimeWindow = False\<rparr>"

lemma ToLower_Friday [simp]: "ToLower ''Friday'' = ''friday''"
  by code_simp

lemmas time_eval = isValidTimeFormat_def isTimeInRange_def dayMatches_def IsWithinTimeWindows_def
  IsWithinTimeWindowsAt_def is_digit_def digit_val_def

theorem IsWithinTimeWindowsAt_minutes_witness:
  "isValidTimeFormat ''23:30'' \<and>
   (IsWithinTimeWindowsAt night_policy ''friday'' ''23:30'' \<longleftrightarrow> pTimeWindows night_policy = [] \<or>
    (\<exists>w\<in>set (pTimeWindows night_policy).
       (Days w = [] \<or> ''friday'' \<in> ToLower ` set (Days w)) \<and>
       isValidTimeFormat (Start w) \<and> isValidTimeFormat (End w) \<and>
       minutes ''23:30'' \<in> window_minutes (minutes (Start w)) (minutes (End w)))) \<and>
   IsWithinTimeWindowsAt night_policy ''friday'' ''23:30''"
proof -
  have h: "isValidTimeFormat ''23:30''" by (simp add: time_eval)
  have "IsWithinTimeWindowsAt night_policy ''friday'' ''23:30''"
    by (simp add: time_eval night_policy_def less_char_def less_eq_char_def)
  with h IsWithinTimeWindowsAt_minutes [OF h, of night_policy "''friday''"] show ?thesis by simp
qed

text \<open>
  A window that names a day and runs over midnight covers the early hours of that same
  day, not those of the following one: a Friday window from 22:00 to 06:00 is open on Friday
  at 02:00 and closed on Saturday at 02:00.
\<close>

theorem overnight_window_day:
  "IsWithinTimeWindowsAt night_policy ''friday'' ''02:00'' \<and>
   \<not> IsWithinTimeWindowsAt night_policy ''saturday'' ''02:00''"
  by (simp add: time_eval night_policy_def less_char_def less_eq_char_def)

end
