(* ===== verification/Kube_Api.thy ===== *)
theory Kube_Api
  imports Kube_Objects "HOL-Library.State_Monad"
begin

text \<open>
  The outside world of the controllers. The API servers of the virtual and of the physical
  cluster, reached through \<^verbatim>\<open>client.Client\<close> of controller-runtime and
  \<^verbatim>\<open>kubernetes.Interface\<close> of client-go, and the clock are not part of the repository: they
  are a record of functions over an unknown server state, which every controller takes as an
  argument. A controller is a program in the state monad over the server state, the history
  of the calls made so far with their answers, and, as further record fields, its own memory.
  Nothing is assumed about the answers, so a theorem about a controller covers every fault,
  stale cache and interleaving of other writers.

  \<open>tspec m w Q\<close> says that running \<open>m\<close> in world \<open>w\<close> only appends to the history and that the
  result, the appended calls and the final world satisfy \<open>Q\<close>; the rules \<open>vcg\<close> compute it.
\<close>

named_theorems vcg "verification conditions of programs"

section \<open>Errors\<close>

text \<open>
  The API errors the program distinguishes, \<^verbatim>\<open>fmt.Errorf\<close> without and with one or two \<^verbatim>\<open>%w\<close>.
  \<^verbatim>\<open>apierrors.IsNotFound\<close> and its kin look through wrapped errors for the first error of the API.
\<close>

datatype err =
    NotFound string
  | AlreadyExists string
  | Conflict string
  | ApiError string
  | Errorf string
  | Wrapf string err
  | Wrap2 string err string err

fun hasStatus :: "err \<Rightarrow> bool" where
  "hasStatus (Errorf _) = False"
| "hasStatus (Wrapf _ e) = hasStatus e"
| "hasStatus (Wrap2 _ a _ b) \<longleftrightarrow> hasStatus a \<or> hasStatus b"
| "hasStatus _ = True"

fun IsNotFound :: "err \<Rightarrow> bool" where
  "IsNotFound (NotFound _) = True"
| "IsNotFound (Wrapf _ e) = IsNotFound e"
| "IsNotFound (Wrap2 _ a _ b) = (if hasStatus a then IsNotFound a else IsNotFound b)"
| "IsNotFound _ = False"

fun IsAlreadyExists :: "err \<Rightarrow> bool" where
  "IsAlreadyExists (AlreadyExists _) = True"
| "IsAlreadyExists (Wrapf _ e) = IsAlreadyExists e"
| "IsAlreadyExists (Wrap2 _ a _ b) = (if hasStatus a then IsAlreadyExists a else IsAlreadyExists b)"
| "IsAlreadyExists _ = False"

fun IsConflict :: "err \<Rightarrow> bool" where
  "IsConflict (Conflict _) = True"
| "IsConflict (Wrapf _ e) = IsConflict e"
| "IsConflict (Wrap2 _ a _ b) = (if hasStatus a then IsConflict a else IsConflict b)"
| "IsConflict _ = False"

text \<open>\<^verbatim>\<open>err.Error()\<close>.\<close>

fun error_text :: "err \<Rightarrow> string" where
  "error_text (NotFound s) = s"
| "error_text (AlreadyExists s) = s"
| "error_text (Conflict s) = s"
| "error_text (ApiError s) = s"
| "error_text (Errorf s) = s"
| "error_text (Wrapf s e) = s @ '': '' @ error_text e"
| "error_text (Wrap2 s a t b) = s @ error_text a @ t @ error_text b"

type_synonym 'a res = "err + 'a"

section \<open>Calls\<close>

datatype client = VirtualClient | PhysicalClient | PhysicalK8sClient

record list_opts =
  loNamespace :: "string option"
  loLabels :: "(string \<times> string) list"
  loNodeName :: "string option"

definition list_all_objs :: list_opts where
  "list_all_objs = \<lparr>loNamespace = None, loLabels = [], loNodeName = None\<rparr>"

definition on_node :: "string \<Rightarrow> list_opts" where
  "on_node n = \<lparr>loNamespace = None, loLabels = [], loNodeName = Some n\<rparr>"

record delete_opts =
  doUID :: "string option"
  doGracePeriodSeconds :: "int option"

definition no_opts :: delete_opts where
  "no_opts = \<lparr>doUID = None, doGracePeriodSeconds = None\<rparr>"

definition uid_precondition :: "string \<Rightarrow> delete_opts" where
  "uid_precondition u = \<lparr>doUID = Some u, doGracePeriodSeconds = None\<rparr>"

text \<open>A reading of \<^verbatim>\<open>time.Now()\<close> in the process's time zone, with the three formats used.\<close>

record clock =
  ckNow :: time
  ckWeekday :: string
  ckHHMM :: string
  ckRFC3339 :: string

record 's api =
  api_get :: "client \<Rightarrow> kind \<Rightarrow> string \<Rightarrow> string \<Rightarrow> 's \<Rightarrow> obj res \<times> 's"
  api_list :: "client \<Rightarrow> kind \<Rightarrow> list_opts \<Rightarrow> 's \<Rightarrow> obj list res \<times> 's"
  api_create :: "client \<Rightarrow> obj \<Rightarrow> 's \<Rightarrow> obj res \<times> 's"
  api_update :: "client \<Rightarrow> obj \<Rightarrow> 's \<Rightarrow> obj res \<times> 's"
  api_status_update :: "client \<Rightarrow> obj \<Rightarrow> 's \<Rightarrow> obj res \<times> 's"
  api_patch :: "client \<Rightarrow> obj \<Rightarrow> obj \<Rightarrow> 's \<Rightarrow> obj res \<times> 's"
  api_status_patch :: "client \<Rightarrow> obj \<Rightarrow> obj \<Rightarrow> 's \<Rightarrow> obj res \<times> 's"
  api_patch_label :: "client \<Rightarrow> obj \<Rightarrow> string \<Rightarrow> string option \<Rightarrow> 's \<Rightarrow> obj res \<times> 's"
  api_delete :: "client \<Rightarrow> kind \<Rightarrow> string \<Rightarrow> string \<Rightarrow> delete_opts \<Rightarrow> 's \<Rightarrow> unit res \<times> 's"
  api_sub_patch :: "client \<Rightarrow> string \<Rightarrow> obj \<Rightarrow> obj \<Rightarrow> 's \<Rightarrow> obj res \<times> 's"
  api_sub_update :: "client \<Rightarrow> string \<Rightarrow> obj \<Rightarrow> 's \<Rightarrow> obj res \<times> 's"
  api_create_token :: "string \<Rightarrow> string \<Rightarrow> token_request \<Rightarrow> 's \<Rightarrow> token_request res \<times> 's"
  api_rand :: "'s \<Rightarrow> int \<times> 's"
  api_clock :: "'s \<Rightarrow> clock \<times> 's"

text \<open>
  \<open>api_create_token\<close> is the TokenRequest endpoint, \<open>api_sub_patch\<close> and \<open>api_sub_update\<close> write a subresource, and
  \<open>api_rand\<close> a random number of whole seconds.

  What a controller does to the outside, in order. \<open>EvEnqueue\<close> is \<^verbatim>\<open>workQueue.Add\<close>,
  \<open>EvMetrics\<close> a report to the metrics collector, \<open>EvRecord\<close> an event recorded on a pod.
\<close>

datatype event =
    EvGet client kind string string "obj res"
  | EvList client kind list_opts "obj list res"
  | EvCreate client obj "obj res"
  | EvUpdate client obj "obj res"
  | EvStatusUpdate client obj "obj res"
  | EvPatch client obj obj "obj res"
  | EvStatusPatch client obj obj "obj res"
  | EvPatchLabel client obj string "string option" "obj res"
  | EvDelete client kind string string delete_opts "unit res"
  | EvSubPatch client string obj obj "obj res"
  | EvSubUpdate client string obj "obj res"
  | EvCreateToken string string token_request "token_request res"
  | EvRecord string string string
  | EvRand int
  | EvClock clock
  | EvEnqueue string
  | EvMetrics string resource_list resource_list resource_list resource_list

text \<open>The calls that can change an object.\<close>

fun is_write :: "event \<Rightarrow> bool" where
  "is_write (EvGet _ _ _ _ _) = False"
| "is_write (EvList _ _ _ _) = False"
| "is_write (EvClock _) = False"
| "is_write (EvCreateToken _ _ _ _) = False"
| "is_write (EvRecord _ _ _) = False"
| "is_write (EvRand _) = False"
| "is_write (EvEnqueue _) = False"
| "is_write (EvMetrics _ _ _ _ _) = False"
| "is_write _ = True"

record 's world =
  srv :: 's
  hist :: "event list"

type_synonym ('s, 'm, 'a) prog = "(('s, 'm) world_scheme, 'a) state"

abbreviation return :: "'a \<Rightarrow> ('w, 'a) state" where
  "return \<equiv> State_Monad.return"

definition call :: "('s \<Rightarrow> 'a \<times> 's) \<Rightarrow> ('a \<Rightarrow> event) \<Rightarrow> ('s, 'm, 'a) prog" where
  "call f ev = State (\<lambda>w. case f (srv w) of (r, s') \<Rightarrow> (r, w\<lparr>srv := s', hist := hist w @ [ev r]\<rparr>))"

definition emit :: "event \<Rightarrow> ('s, 'm, unit) prog" where
  "emit e = State (\<lambda>w. ((), w\<lparr>hist := hist w @ [e]\<rparr>))"

definition reads :: "('w \<Rightarrow> 'a) \<Rightarrow> ('w, 'a) state" where
  "reads f = State (\<lambda>w. (f w, w))"

definition modifies :: "('w \<Rightarrow> 'w) \<Rightarrow> ('w, unit) state" where
  "modifies f = State (\<lambda>w. ((), f w))"

text \<open>Anything else that depends on the outside: files, timers, networks. It leaves no trace in the history.\<close>

definition outside :: "('s \<Rightarrow> 'a \<times> 's) \<Rightarrow> ('s, 'm, 'a) prog" where
  "outside f = State (\<lambda>w. case f (srv w) of (r, s') \<Rightarrow> (r, w\<lparr>srv := s'\<rparr>))"

text \<open>The early return on error: \<^verbatim>\<open>if err != nil { return err }\<close>, without and with \<^verbatim>\<open>%w\<close>.\<close>

definition on_ok :: "('w, 'a res) state \<Rightarrow> ('a \<Rightarrow> ('w, 'b res) state) \<Rightarrow> ('w, 'b res) state" where
  "on_ok m f = do { r \<leftarrow> m; case r of Inl e \<Rightarrow> return (Inl e) | Inr x \<Rightarrow> f x }"

definition on_ok_wrap ::
  "string \<Rightarrow> ('w, 'a res) state \<Rightarrow> ('a \<Rightarrow> ('w, 'b res) state) \<Rightarrow> ('w, 'b res) state" where
  "on_ok_wrap msg m f = do { r \<leftarrow> m; case r of Inl e \<Rightarrow> return (Inl (Wrapf msg e)) | Inr x \<Rightarrow> f x }"

text \<open>\<^verbatim>\<open>ctrl.Result\<close>: when to come back, in nanoseconds; zero is never.\<close>

datatype ctrl_result = Result (RequeueAfter: int)

section \<open>The client operations\<close>

definition Get :: "'s api \<Rightarrow> client \<Rightarrow> kind \<Rightarrow> string \<Rightarrow> string \<Rightarrow> ('s, 'm, obj res) prog" where
  "Get A c k ns n = call (api_get A c k ns n) (EvGet c k ns n)"

definition ListObjs :: "'s api \<Rightarrow> client \<Rightarrow> kind \<Rightarrow> list_opts \<Rightarrow> ('s, 'm, obj list res) prog" where
  "ListObjs A c k lo = call (api_list A c k lo) (EvList c k lo)"

definition Create :: "'s api \<Rightarrow> client \<Rightarrow> obj \<Rightarrow> ('s, 'm, obj res) prog" where
  "Create A c ob = call (api_create A c ob) (EvCreate c ob)"

definition Update :: "'s api \<Rightarrow> client \<Rightarrow> obj \<Rightarrow> ('s, 'm, obj res) prog" where
  "Update A c ob = call (api_update A c ob) (EvUpdate c ob)"

definition StatusUpdate :: "'s api \<Rightarrow> client \<Rightarrow> obj \<Rightarrow> ('s, 'm, obj res) prog" where
  "StatusUpdate A c ob = call (api_status_update A c ob) (EvStatusUpdate c ob)"

definition Patch :: "'s api \<Rightarrow> client \<Rightarrow> obj \<Rightarrow> obj \<Rightarrow> ('s, 'm, obj res) prog" where
  "Patch A c base ob = call (api_patch A c base ob) (EvPatch c base ob)"

definition StatusPatch :: "'s api \<Rightarrow> client \<Rightarrow> obj \<Rightarrow> obj \<Rightarrow> ('s, 'm, obj res) prog" where
  "StatusPatch A c base ob = call (api_status_patch A c base ob) (EvStatusPatch c base ob)"

definition PatchLabel ::
  "'s api \<Rightarrow> client \<Rightarrow> obj \<Rightarrow> string \<Rightarrow> string option \<Rightarrow> ('s, 'm, obj res) prog" where
  "PatchLabel A c ob k v = call (api_patch_label A c ob k v) (EvPatchLabel c ob k v)"

definition Delete ::
  "'s api \<Rightarrow> client \<Rightarrow> kind \<Rightarrow> string \<Rightarrow> string \<Rightarrow> delete_opts \<Rightarrow> ('s, 'm, unit res) prog" where
  "Delete A c k ns n opts = call (api_delete A c k ns n opts) (EvDelete c k ns n opts)"

definition SubPatch :: "'s api \<Rightarrow> client \<Rightarrow> string \<Rightarrow> obj \<Rightarrow> obj \<Rightarrow> ('s, 'm, obj res) prog" where
  "SubPatch A c sub base ob = call (api_sub_patch A c sub base ob) (EvSubPatch c sub base ob)"

definition SubUpdate :: "'s api \<Rightarrow> client \<Rightarrow> string \<Rightarrow> obj \<Rightarrow> ('s, 'm, obj res) prog" where
  "SubUpdate A c sub ob = call (api_sub_update A c sub ob) (EvSubUpdate c sub ob)"

definition CreateToken :: "'s api \<Rightarrow> string \<Rightarrow> string \<Rightarrow> token_request \<Rightarrow> ('s, 'm, token_request res) prog" where
  "CreateToken A ns n tr = call (api_create_token A ns n tr) (EvCreateToken ns n tr)"

definition Rand :: "'s api \<Rightarrow> ('s, 'm, int) prog" where
  "Rand A = call (api_rand A) EvRand"

definition Now :: "'s api \<Rightarrow> ('s, 'm, clock) prog" where
  "Now A = call (api_clock A) EvClock"

text \<open>
  Reads decode into a struct of the expected kind; an object of another kind is a decoding
  error of the client.
\<close>

definition decode :: "(obj \<Rightarrow> 'a option) \<Rightarrow> obj res \<Rightarrow> 'a res" where
  "decode f r = (case r of Inl e \<Rightarrow> Inl e
     | Inr ob \<Rightarrow> (case f ob of None \<Rightarrow> Inl (ApiError ''unexpected kind'') | Some x \<Rightarrow> Inr x))"

fun the_node :: "obj \<Rightarrow> node option" where
  "the_node (ONode n) = Some n" | "the_node _ = None"

fun the_pod :: "obj \<Rightarrow> pod option" where
  "the_pod (OPod p) = Some p" | "the_pod _ = None"

fun the_binding :: "obj \<Rightarrow> cluster_binding option" where
  "the_binding (OBinding b) = Some b" | "the_binding _ = None"

fun the_policy :: "obj \<Rightarrow> policy option" where
  "the_policy (OPolicy p) = Some p" | "the_policy _ = None"

fun the_secret :: "obj \<Rightarrow> secret option" where
  "the_secret (OSecret s) = Some s" | "the_secret _ = None"

definition get_node :: "'s api \<Rightarrow> client \<Rightarrow> string \<Rightarrow> ('s, 'm, node res) prog" where
  "get_node A c n = do { r \<leftarrow> Get A c KNode '''' n; return (decode the_node r) }"

definition get_pod :: "'s api \<Rightarrow> client \<Rightarrow> string \<Rightarrow> string \<Rightarrow> ('s, 'm, pod res) prog" where
  "get_pod A c ns n = do { r \<leftarrow> Get A c KPod ns n; return (decode the_pod r) }"

definition get_binding :: "'s api \<Rightarrow> client \<Rightarrow> string \<Rightarrow> ('s, 'm, cluster_binding res) prog" where
  "get_binding A c n = do { r \<leftarrow> Get A c KBinding '''' n; return (decode the_binding r) }"

definition get_policy :: "'s api \<Rightarrow> client \<Rightarrow> string \<Rightarrow> ('s, 'm, policy res) prog" where
  "get_policy A c n = do { r \<leftarrow> Get A c KPolicy '''' n; return (decode the_policy r) }"

definition get_secret :: "'s api \<Rightarrow> client \<Rightarrow> string \<Rightarrow> string \<Rightarrow> ('s, 'm, secret res) prog" where
  "get_secret A c ns n = do { r \<leftarrow> Get A c KSecret ns n; return (decode the_secret r) }"

definition list_pods :: "'s api \<Rightarrow> client \<Rightarrow> list_opts \<Rightarrow> ('s, 'm, pod list res) prog" where
  "list_pods A c lo = do { r \<leftarrow> ListObjs A c KPod lo;
     return (map_sum id (List.map_filter the_pod) r) }"

definition list_nodes :: "'s api \<Rightarrow> client \<Rightarrow> list_opts \<Rightarrow> ('s, 'm, node list res) prog" where
  "list_nodes A c lo = do { r \<leftarrow> ListObjs A c KNode lo;
     return (map_sum id (List.map_filter the_node) r) }"

definition list_policies :: "'s api \<Rightarrow> client \<Rightarrow> list_opts \<Rightarrow> ('s, 'm, policy list res) prog" where
  "list_policies A c lo = do { r \<leftarrow> ListObjs A c KPolicy lo;
     return (map_sum id (List.map_filter the_policy) r) }"

definition update_node :: "'s api \<Rightarrow> client \<Rightarrow> node \<Rightarrow> ('s, 'm, node res) prog" where
  "update_node A c n = do { r \<leftarrow> Update A c (ONode n); return (decode the_node r) }"

definition status_update_node :: "'s api \<Rightarrow> client \<Rightarrow> node \<Rightarrow> ('s, 'm, node res) prog" where
  "status_update_node A c n = do { r \<leftarrow> StatusUpdate A c (ONode n); return (decode the_node r) }"

section \<open>Reasoning about programs\<close>

definition tspec ::
  "('s, 'm, 'a) prog \<Rightarrow> ('s, 'm) world_scheme \<Rightarrow>
   ('a \<Rightarrow> event list \<Rightarrow> ('s, 'm) world_scheme \<Rightarrow> bool) \<Rightarrow> bool" where
  "tspec m w Q = (case run_state m w of (r, w') \<Rightarrow> \<exists>evs. hist w' = hist w @ evs \<and> Q r evs w')"

lemma tspec_run:
  assumes "tspec m w Q" and "run_state m w = (r, w')"
  shows "\<exists>evs. hist w' = hist w @ evs \<and> Q r evs w'"
  using assms by (simp add: tspec_def)

lemma tspec_mono:
  assumes "tspec m w P" and "\<And>r evs w'. P r evs w' \<Longrightarrow> Q r evs w'"
  shows "tspec m w Q"
  using assms by (fastforce simp: tspec_def split: prod.splits)

lemma tspec_conj:
  assumes "tspec m w P" and "tspec m w Q"
  shows "tspec m w (\<lambda>r evs w'. P r evs w' \<and> Q r evs w')"
  using assms by (fastforce simp: tspec_def split: prod.splits)

lemma tspec_return [vcg]: "Q x [] w \<Longrightarrow> tspec (return x) w Q"
  by (simp add: tspec_def)

lemma tspec_bind [vcg]:
  assumes "tspec m w (\<lambda>r evs w'. tspec (f r) w' (\<lambda>r' evs' w''. Q r' (evs @ evs') w''))"
  shows "tspec (m \<bind> f) w Q"
  using assms by (fastforce simp: tspec_def split: prod.splits)

lemma tspec_call [vcg]:
  assumes "\<And>r s'. Q r [ev r] (w\<lparr>srv := s', hist := hist w @ [ev r]\<rparr>)"
  shows "tspec (call f ev) w Q"
  using assms by (simp add: tspec_def call_def split: prod.splits)

lemma tspec_emit [vcg]: "Q () [e] (w\<lparr>hist := hist w @ [e]\<rparr>) \<Longrightarrow> tspec (emit e) w Q"
  by (simp add: tspec_def emit_def)

lemma tspec_reads [vcg]: "Q (f w) [] w \<Longrightarrow> tspec (reads f) w Q"
  by (simp add: tspec_def reads_def)

lemma tspec_modifies [vcg]:
  assumes "hist (f w) = hist w" and "Q () [] (f w)"
  shows "tspec (modifies f) w Q"
  using assms by (simp add: tspec_def modifies_def)

lemma tspec_if [vcg]:
  assumes "b \<Longrightarrow> tspec m w Q" and "\<not> b \<Longrightarrow> tspec n w Q"
  shows "tspec (if b then m else n) w Q"
  using assms by simp

lemma tspec_sum [vcg]:
  assumes "\<And>e. r = Inl e \<Longrightarrow> tspec (f e) w Q" and "\<And>x. r = Inr x \<Longrightarrow> tspec (g x) w Q"
  shows "tspec (case r of Inl e \<Rightarrow> f e | Inr x \<Rightarrow> g x) w Q"
  using assms by (cases r) simp_all

lemma tspec_option [vcg]:
  assumes "r = None \<Longrightarrow> tspec f w Q" and "\<And>x. r = Some x \<Longrightarrow> tspec (g x) w Q"
  shows "tspec (case r of None \<Rightarrow> f | Some x \<Rightarrow> g x) w Q"
  using assms by (cases r) simp_all

lemma tspec_prod [vcg]:
  assumes "\<And>a b. r = (a, b) \<Longrightarrow> tspec (f a b) w Q"
  shows "tspec (case r of (a, b) \<Rightarrow> f a b) w Q"
  using assms by (cases r) simp

lemma tspec_let [vcg]: "tspec (f x) w Q \<Longrightarrow> tspec (let y = x in f y) w Q"
  by simp

lemma tspec_on_ok [vcg]:
  assumes "tspec m w (\<lambda>r evs w'. (\<forall>e. r = Inl e \<longrightarrow> Q (Inl e) evs w') \<and>
    (\<forall>x. r = Inr x \<longrightarrow> tspec (f x) w' (\<lambda>r' evs'. Q r' (evs @ evs'))))"
  shows "tspec (on_ok m f) w Q"
  unfolding on_ok_def
  by (intro tspec_bind tspec_mono [OF assms] tspec_sum tspec_return) auto

lemma tspec_on_ok_wrap [vcg]:
  assumes "tspec m w (\<lambda>r evs w'. (\<forall>e. r = Inl e \<longrightarrow> Q (Inl (Wrapf msg e)) evs w') \<and>
    (\<forall>x. r = Inr x \<longrightarrow> tspec (f x) w' (\<lambda>r' evs'. Q r' (evs @ evs'))))"
  shows "tspec (on_ok_wrap msg m f) w Q"
  unfolding on_ok_wrap_def
  by (intro tspec_bind tspec_mono [OF assms] tspec_sum tspec_return) auto

text \<open>The client operations: any answer is possible, and it is recorded.\<close>

lemma tspec_ops [vcg]:
  "(\<And>r s'. Q r [EvGet c k ns n r] (w\<lparr>srv := s', hist := hist w @ [EvGet c k ns n r]\<rparr>))
    \<Longrightarrow> tspec (Get A c k ns n) w Q"
  "(\<And>r s'. QL r [EvList c k lo r] (w\<lparr>srv := s', hist := hist w @ [EvList c k lo r]\<rparr>))
    \<Longrightarrow> tspec (ListObjs A c k lo) w QL"
  "(\<And>r s'. Q r [EvCreate c ob r] (w\<lparr>srv := s', hist := hist w @ [EvCreate c ob r]\<rparr>))
    \<Longrightarrow> tspec (Create A c ob) w Q"
  "(\<And>r s'. Q r [EvUpdate c ob r] (w\<lparr>srv := s', hist := hist w @ [EvUpdate c ob r]\<rparr>))
    \<Longrightarrow> tspec (Update A c ob) w Q"
  "(\<And>r s'. Q r [EvStatusUpdate c ob r] (w\<lparr>srv := s', hist := hist w @ [EvStatusUpdate c ob r]\<rparr>))
    \<Longrightarrow> tspec (StatusUpdate A c ob) w Q"
  "(\<And>r s'. Q r [EvPatch c b ob r] (w\<lparr>srv := s', hist := hist w @ [EvPatch c b ob r]\<rparr>))
    \<Longrightarrow> tspec (Patch A c b ob) w Q"
  "(\<And>r s'. Q r [EvStatusPatch c b ob r] (w\<lparr>srv := s', hist := hist w @ [EvStatusPatch c b ob r]\<rparr>))
    \<Longrightarrow> tspec (StatusPatch A c b ob) w Q"
  "(\<And>r s'. Q r [EvPatchLabel c ob k' v r] (w\<lparr>srv := s', hist := hist w @ [EvPatchLabel c ob k' v r]\<rparr>))
    \<Longrightarrow> tspec (PatchLabel A c ob k' v) w Q"
  "(\<And>r s'. QU r [EvDelete c k ns n opts r] (w\<lparr>srv := s', hist := hist w @ [EvDelete c k ns n opts r]\<rparr>))
    \<Longrightarrow> tspec (Delete A c k ns n opts) w QU"
  "(\<And>r s'. QC r [EvClock r] (w\<lparr>srv := s', hist := hist w @ [EvClock r]\<rparr>)) \<Longrightarrow> tspec (Now A) w QC"
  "(\<And>r s'. Q r [EvSubPatch c sub b ob r] (w\<lparr>srv := s', hist := hist w @ [EvSubPatch c sub b ob r]\<rparr>))
    \<Longrightarrow> tspec (SubPatch A c sub b ob) w Q"
  "(\<And>r s'. Q r [EvSubUpdate c sub ob r] (w\<lparr>srv := s', hist := hist w @ [EvSubUpdate c sub ob r]\<rparr>))
    \<Longrightarrow> tspec (SubUpdate A c sub ob) w Q"
  "(\<And>r s'. QT r [EvCreateToken ns n tr r] (w\<lparr>srv := s', hist := hist w @ [EvCreateToken ns n tr r]\<rparr>))
    \<Longrightarrow> tspec (CreateToken A ns n tr) w QT"
  "(\<And>r s'. QR r [EvRand r] (w\<lparr>srv := s', hist := hist w @ [EvRand r]\<rparr>)) \<Longrightarrow> tspec (Rand A) w QR"
  by (auto simp: Get_def ListObjs_def Create_def Update_def StatusUpdate_def Patch_def
      StatusPatch_def PatchLabel_def Delete_def Now_def SubPatch_def SubUpdate_def CreateToken_def Rand_def intro: tspec_call)

lemmas typed_ops =
  get_node_def get_pod_def get_binding_def get_policy_def get_secret_def list_pods_def
  list_nodes_def list_policies_def update_node_def status_update_node_def

lemmas run_ops =
  typed_ops Get_def ListObjs_def Create_def Update_def StatusUpdate_def Patch_def
  StatusPatch_def PatchLabel_def Delete_def Now_def SubPatch_def SubUpdate_def CreateToken_def Rand_def call_def emit_def reads_def modifies_def on_ok_def on_ok_wrap_def

lemma decode_Inr: "decode f r = Inr x \<longleftrightarrow> (\<exists>ob. r = Inr ob \<and> f ob = Some x)"
  by (auto simp: decode_def split: sum.splits option.splits)

lemma the_obj_Some:
  "the_node ob = Some n \<longleftrightarrow> ob = ONode n"
  "the_pod ob = Some p \<longleftrightarrow> ob = OPod p"
  "the_binding ob = Some b \<longleftrightarrow> ob = OBinding b"
  "the_policy ob = Some pl \<longleftrightarrow> ob = OPolicy pl"
  "the_secret ob = Some s \<longleftrightarrow> ob = OSecret s"
  by (cases ob; auto)+

lemma map_sum_eq [simp]:
  "map_sum id f r = Inr y \<longleftrightarrow> (\<exists>x. r = Inr x \<and> y = f x)"
  "map_sum id f r = Inl e \<longleftrightarrow> r = Inl e"
  by (cases r; auto)+

lemmas decode_simps = decode_Inr the_obj_Some

section \<open>Compositional rules\<close>

text \<open>
  \<open>quiet m P\<close>: the program only makes calls, all of them in \<open>P\<close>, and leaves the controller's
  memory alone. \<open>keeps I m\<close>: the program keeps an invariant of the memory. Both have one rule
  per program constructor, so that a controller is checked by applying the rules.
\<close>

definition quiet :: "('s, 'm, 'a) prog \<Rightarrow> (event \<Rightarrow> bool) \<Rightarrow> bool" where
  "quiet m P \<longleftrightarrow> (\<forall>w. tspec m w (\<lambda>r evs w'.
     (\<exists>s. w' = w\<lparr>srv := s, hist := hist w @ evs\<rparr>) \<and> list_all P evs))"

named_theorems quiet_rules "calls and no memory"
named_theorems keeps_rules "invariants of the memory"

lemma srv_same [simp]: "w\<lparr>srv := srv w\<rparr> = w"
  by simp

lemma hist_same: "w\<lparr>srv := srv w, hist := hist w @ es\<rparr> = w\<lparr>hist := hist w @ es\<rparr>"
  by simp

lemma tspec_quiet:
  assumes "quiet m P"
    and "\<And>r evs s. list_all P evs \<Longrightarrow> Q r evs (w\<lparr>srv := s, hist := hist w @ evs\<rparr>)"
  shows "tspec m w Q"
  using assms(1) unfolding quiet_def
  by (elim allE [of _ w] tspec_mono) (auto intro: assms(2))

lemma quiet_mono: "quiet m P \<Longrightarrow> (\<And>e. P e \<Longrightarrow> P' e) \<Longrightarrow> quiet m P'"
  unfolding quiet_def list_all_iff by (intro allI, erule allE, erule tspec_mono) blast

lemma quiet_return [quiet_rules]: "quiet (return x) P"
  unfolding quiet_def
proof
  fix w
  show "tspec (return x) w (\<lambda>r evs w'. (\<exists>s. w' = w\<lparr>srv := s, hist := hist w @ evs\<rparr>) \<and> list_all P evs)"
    by (intro tspec_return conjI exI [of _ "srv w"]) simp_all
qed

lemma quiet_bind [quiet_rules]:
  assumes "quiet m P" and "\<And>x. quiet (f x) P"
  shows "quiet (m \<bind> f) P"
  unfolding quiet_def
proof
  fix w
  show "tspec (m \<bind> f) w (\<lambda>r evs w'. (\<exists>s. w' = w\<lparr>srv := s, hist := hist w @ evs\<rparr>) \<and> list_all P evs)"
    by (intro tspec_bind tspec_quiet [OF assms(1)] tspec_quiet [OF assms(2)]) auto
qed

lemma quiet_call [quiet_rules]: "(\<And>r. P (ev r)) \<Longrightarrow> quiet (call f ev) P"
  unfolding quiet_def by (intro allI tspec_call) auto

lemma quiet_emit [quiet_rules]: "P e \<Longrightarrow> quiet (emit e) P"
  unfolding quiet_def
proof
  fix w
  assume "P e"
  then show "tspec (emit e) w (\<lambda>r evs w'. (\<exists>s. w' = w\<lparr>srv := s, hist := hist w @ evs\<rparr>) \<and> list_all P evs)"
    by (intro tspec_emit conjI exI [of _ "srv w"]) simp_all
qed

lemma quiet_reads [quiet_rules]: "quiet (reads f) P"
  unfolding quiet_def
proof
  fix w
  show "tspec (reads f) w (\<lambda>r evs w'. (\<exists>s. w' = w\<lparr>srv := s, hist := hist w @ evs\<rparr>) \<and> list_all P evs)"
    by (intro tspec_reads conjI exI [of _ "srv w"]) simp_all
qed

lemma quiet_if [quiet_rules]: "(b \<Longrightarrow> quiet m P) \<Longrightarrow> (\<not> b \<Longrightarrow> quiet n P) \<Longrightarrow> quiet (if b then m else n) P"
  by simp

lemma quiet_sum [quiet_rules]:
  "(\<And>e. r = Inl e \<Longrightarrow> quiet (f e) P) \<Longrightarrow> (\<And>x. r = Inr x \<Longrightarrow> quiet (g x) P) \<Longrightarrow>
     quiet (case r of Inl e \<Rightarrow> f e | Inr x \<Rightarrow> g x) P"
  by (cases r) simp_all

lemma quiet_option [quiet_rules]:
  "(r = None \<Longrightarrow> quiet f P) \<Longrightarrow> (\<And>x. r = Some x \<Longrightarrow> quiet (g x) P) \<Longrightarrow>
     quiet (case r of None \<Rightarrow> f | Some x \<Rightarrow> g x) P"
  by (cases r) simp_all

lemma quiet_prod [quiet_rules]:
  "(\<And>a b. r = (a, b) \<Longrightarrow> quiet (f a b) P) \<Longrightarrow> quiet (case r of (a, b) \<Rightarrow> f a b) P"
  by (cases r) simp

lemma quiet_let [quiet_rules]: "quiet (f x) P \<Longrightarrow> quiet (let y = x in f y) P"
  by simp

lemma quiet_on_ok [quiet_rules]:
  "quiet m P \<Longrightarrow> (\<And>x. quiet (f x) P) \<Longrightarrow> quiet (on_ok m f) P"
  "quiet m P \<Longrightarrow> (\<And>x. quiet (f x) P) \<Longrightarrow> quiet (on_ok_wrap msg m f) P"
  unfolding on_ok_def on_ok_wrap_def by (intro quiet_rules | assumption)+

lemma quiet_ops [quiet_rules]:
  "(\<And>r. P (EvGet c k ns n r)) \<Longrightarrow> quiet (Get A c k ns n) P"
  "(\<And>r. P (EvList c k lo r)) \<Longrightarrow> quiet (ListObjs A c k lo) P"
  "(\<And>r. P (EvCreate c ob r)) \<Longrightarrow> quiet (Create A c ob) P"
  "(\<And>r. P (EvUpdate c ob r)) \<Longrightarrow> quiet (Update A c ob) P"
  "(\<And>r. P (EvStatusUpdate c ob r)) \<Longrightarrow> quiet (StatusUpdate A c ob) P"
  "(\<And>r. P (EvPatch c b ob r)) \<Longrightarrow> quiet (Patch A c b ob) P"
  "(\<And>r. P (EvStatusPatch c b ob r)) \<Longrightarrow> quiet (StatusPatch A c b ob) P"
  "(\<And>r. P (EvPatchLabel c ob k' v r)) \<Longrightarrow> quiet (PatchLabel A c ob k' v) P"
  "(\<And>r. P (EvDelete c k ns n opts r)) \<Longrightarrow> quiet (Delete A c k ns n opts) P"
  "(\<And>r. P (EvClock r)) \<Longrightarrow> quiet (Now A) P"
  "(\<And>r. P (EvSubPatch c sub b ob r)) \<Longrightarrow> quiet (SubPatch A c sub b ob) P"
  "(\<And>r. P (EvSubUpdate c sub ob r)) \<Longrightarrow> quiet (SubUpdate A c sub ob) P"
  "(\<And>r. P (EvCreateToken ns n tr r)) \<Longrightarrow> quiet (CreateToken A ns n tr) P"
  "(\<And>r. P (EvRand r)) \<Longrightarrow> quiet (Rand A) P"
  by (auto simp: Get_def ListObjs_def Create_def Update_def StatusUpdate_def Patch_def
      StatusPatch_def PatchLabel_def Delete_def Now_def SubPatch_def SubUpdate_def CreateToken_def Rand_def intro: quiet_call)

lemma quiet_typed [quiet_rules]:
  "(\<And>r. P (EvGet c KNode '''' n r)) \<Longrightarrow> quiet (get_node A c n) P"
  "(\<And>r. P (EvGet c KPod ns n r)) \<Longrightarrow> quiet (get_pod A c ns n) P"
  "(\<And>r. P (EvGet c KBinding '''' n r)) \<Longrightarrow> quiet (get_binding A c n) P"
  "(\<And>r. P (EvGet c KPolicy '''' n r)) \<Longrightarrow> quiet (get_policy A c n) P"
  "(\<And>r. P (EvGet c KSecret ns n r)) \<Longrightarrow> quiet (get_secret A c ns n) P"
  "(\<And>r. P (EvList c KPod lo r)) \<Longrightarrow> quiet (list_pods A c lo) P"
  "(\<And>r. P (EvList c KNode lo r)) \<Longrightarrow> quiet (list_nodes A c lo) P"
  "(\<And>r. P (EvList c KPolicy lo r)) \<Longrightarrow> quiet (list_policies A c lo) P"
  "(\<And>r. P (EvUpdate c (ONode nd) r)) \<Longrightarrow> quiet (update_node A c nd) P"
  "(\<And>r. P (EvStatusUpdate c (ONode nd) r)) \<Longrightarrow> quiet (status_update_node A c nd) P"
  unfolding typed_ops by (intro quiet_rules | simp)+

text \<open>\<open>calls m P\<close>: whatever the program does to the memory, all its calls are in \<open>P\<close>.\<close>

definition calls :: "('s, 'm, 'a) prog \<Rightarrow> (event \<Rightarrow> bool) \<Rightarrow> bool" where
  "calls m P \<longleftrightarrow> (\<forall>w. tspec m w (\<lambda>r evs w'. list_all P evs))"

named_theorems calls_rules "calls of programs with memory"

lemma tspec_calls: "calls m P \<Longrightarrow> (\<And>r evs w'. list_all P evs \<Longrightarrow> Q r evs w') \<Longrightarrow> tspec m w Q"
  unfolding calls_def by (erule allE, erule tspec_mono) blast

lemma calls_quiet: "quiet m P \<Longrightarrow> calls m P"
  unfolding calls_def by (intro allI tspec_quiet)

lemma calls_return [calls_rules]: "calls (return x) P"
  by (intro calls_quiet quiet_return)

lemma calls_bind [calls_rules]:
  assumes "calls m P" and "\<And>x. calls (f x) P"
  shows "calls (m \<bind> f) P"
  unfolding calls_def
  by (intro allI tspec_bind tspec_calls [OF assms(1)] tspec_calls [OF assms(2)]) simp

lemma calls_modifies [calls_rules]: "(\<And>w. hist (f w) = hist w) \<Longrightarrow> calls (modifies f) P"
  unfolding calls_def by (intro allI tspec_modifies) simp_all

lemma calls_reads [calls_rules]: "calls (reads f) P"
  by (intro calls_quiet quiet_reads)

lemma calls_if [calls_rules]: "(b \<Longrightarrow> calls m P) \<Longrightarrow> (\<not> b \<Longrightarrow> calls n P) \<Longrightarrow> calls (if b then m else n) P"
  by simp

lemma calls_sum [calls_rules]:
  "(\<And>e. r = Inl e \<Longrightarrow> calls (f e) P) \<Longrightarrow> (\<And>x. r = Inr x \<Longrightarrow> calls (g x) P) \<Longrightarrow>
     calls (case r of Inl e \<Rightarrow> f e | Inr x \<Rightarrow> g x) P"
  by (cases r) simp_all

lemma calls_option [calls_rules]:
  "(r = None \<Longrightarrow> calls f P) \<Longrightarrow> (\<And>x. r = Some x \<Longrightarrow> calls (g x) P) \<Longrightarrow>
     calls (case r of None \<Rightarrow> f | Some x \<Rightarrow> g x) P"
  by (cases r) simp_all

lemma calls_prod [calls_rules]:
  "(\<And>a b. r = (a, b) \<Longrightarrow> calls (f a b) P) \<Longrightarrow> calls (case r of (a, b) \<Rightarrow> f a b) P"
  by (cases r) simp

lemma calls_let [calls_rules]: "calls (f x) P \<Longrightarrow> calls (let y = x in f y) P"
  by simp

text \<open>The second program may rely on what the first one returned.\<close>

lemma calls_on_ok_post:
  assumes "\<And>w. tspec m w (\<lambda>r evs w'. list_all P evs \<and> (\<forall>x. r = Inr x \<longrightarrow> R x))"
    and "\<And>x. R x \<Longrightarrow> calls (f x) P"
  shows "calls (on_ok m f) P" and "calls (on_ok_wrap msg m f) P"
  unfolding calls_def
  by (intro allI tspec_on_ok tspec_on_ok_wrap tspec_mono [OF assms(1)] conjI impI tspec_calls [OF assms(2)];
      auto)+

lemma calls_on_ok [calls_rules]:
  "calls m P \<Longrightarrow> (\<And>x. calls (f x) P) \<Longrightarrow> calls (on_ok m f) P"
  "calls m P \<Longrightarrow> (\<And>x. calls (f x) P) \<Longrightarrow> calls (on_ok_wrap msg m f) P"
  unfolding on_ok_def on_ok_wrap_def by (intro calls_rules | assumption)+

text \<open>
  \<open>guarded G pre m Q\<close>: started after the calls \<open>pre\<close>, every call \<open>m\<close> makes is allowed by \<open>G\<close> given
  all the calls before it, and \<open>Q\<close> holds of the result and all calls so far. This is the
  judgement for order: what must have been read or done before a write.
\<close>

fun ordered :: "(event list \<Rightarrow> event \<Rightarrow> bool) \<Rightarrow> event list \<Rightarrow> event list \<Rightarrow> bool" where
  "ordered G pre [] \<longleftrightarrow> True"
| "ordered G pre (e # es) \<longleftrightarrow> G pre e \<and> ordered G (pre @ [e]) es"

lemma ordered_append [simp]: "ordered G pre (es @ es') \<longleftrightarrow> ordered G pre es \<and> ordered G (pre @ es) es'"
  by (induction es arbitrary: pre) auto

lemma ordered_nth: "ordered G pre (es @ e # es') \<Longrightarrow> G (pre @ es) e"
  by simp

definition guarded ::
  "(event list \<Rightarrow> event \<Rightarrow> bool) \<Rightarrow> event list \<Rightarrow> ('s, 'm, 'a) prog \<Rightarrow> ('a \<Rightarrow> event list \<Rightarrow> bool) \<Rightarrow> bool" where
  "guarded G pre m Q \<longleftrightarrow> (\<forall>w. tspec m w (\<lambda>r evs w'. ordered G pre evs \<and> Q r (pre @ evs)))"

named_theorems gvcg "verification conditions for the order of calls"

lemma guarded_tspec: "guarded G [] m Q \<Longrightarrow> tspec m w (\<lambda>r evs w'. ordered G [] evs \<and> Q r evs)"
  by (simp add: guarded_def)

lemma guarded_ordered: "guarded G [] m Q \<Longrightarrow> tspec m w (\<lambda>r evs w'. ordered G [] evs)"
  by (erule tspec_mono [OF guarded_tspec]) simp

lemma guarded_mono: "guarded G pre m Q \<Longrightarrow> (\<And>r pre'. Q r pre' \<Longrightarrow> Q' r pre') \<Longrightarrow> guarded G pre m Q'"
  unfolding guarded_def by (intro allI, erule allE, erule tspec_mono) blast

lemma guarded_return [gvcg]: "Q x pre \<Longrightarrow> guarded G pre (return x) Q"
  unfolding guarded_def by (intro allI tspec_return) simp

lemma guarded_bind [gvcg]:
  assumes "guarded G pre m (\<lambda>r pre'. guarded G pre' (f r) Q)"
  shows "guarded G pre (m \<bind> f) Q"
  unfolding guarded_def
proof
  fix w
  show "tspec (m \<bind> f) w (\<lambda>r evs w'. ordered G pre evs \<and> Q r (pre @ evs))"
    by (intro tspec_bind tspec_mono [OF assms [unfolded guarded_def, THEN spec, of w]])
      (auto elim!: allE tspec_mono)
qed

lemma guarded_call [gvcg]:
  assumes "\<And>r. G pre (ev r)" and "\<And>r. Q r (pre @ [ev r])"
  shows "guarded G pre (call f ev) Q"
  unfolding guarded_def by (intro allI tspec_call) (simp add: assms)

lemma guarded_emit [gvcg]: "G pre e \<Longrightarrow> Q () (pre @ [e]) \<Longrightarrow> guarded G pre (emit e) Q"
  unfolding guarded_def by (intro allI tspec_emit) simp

lemma guarded_reads [gvcg]: "(\<And>x. Q x pre) \<Longrightarrow> guarded G pre (reads f) Q"
  unfolding guarded_def by (intro allI tspec_reads) simp

lemma guarded_modifies [gvcg]: "(\<And>w. hist (f w) = hist w) \<Longrightarrow> Q () pre \<Longrightarrow> guarded G pre (modifies f) Q"
  unfolding guarded_def by (intro allI tspec_modifies) simp_all

lemma guarded_if [gvcg]:
  "(b \<Longrightarrow> guarded G pre m Q) \<Longrightarrow> (\<not> b \<Longrightarrow> guarded G pre n Q) \<Longrightarrow> guarded G pre (if b then m else n) Q"
  by simp

lemma guarded_sum [gvcg]:
  "(\<And>e. r = Inl e \<Longrightarrow> guarded G pre (f e) Q) \<Longrightarrow> (\<And>x. r = Inr x \<Longrightarrow> guarded G pre (g x) Q) \<Longrightarrow>
     guarded G pre (case r of Inl e \<Rightarrow> f e | Inr x \<Rightarrow> g x) Q"
  by (cases r) simp_all

lemma guarded_option [gvcg]:
  "(r = None \<Longrightarrow> guarded G pre f Q) \<Longrightarrow> (\<And>x. r = Some x \<Longrightarrow> guarded G pre (g x) Q) \<Longrightarrow>
     guarded G pre (case r of None \<Rightarrow> f | Some x \<Rightarrow> g x) Q"
  by (cases r) simp_all

lemma guarded_prod [gvcg]:
  "(\<And>a b. r = (a, b) \<Longrightarrow> guarded G pre (f a b) Q) \<Longrightarrow> guarded G pre (case r of (a, b) \<Rightarrow> f a b) Q"
  by (cases r) simp

lemma guarded_let [gvcg]: "guarded G pre (f x) Q \<Longrightarrow> guarded G pre (let y = x in f y) Q"
  by simp

lemma guarded_on_ok [gvcg]:
  "guarded G pre m (\<lambda>r pre'. case r of Inl e \<Rightarrow> Q (Inl e) pre' | Inr x \<Rightarrow> guarded G pre' (f x) Q) \<Longrightarrow>
     guarded G pre (on_ok m f) Q"
  "guarded G pre m (\<lambda>r pre'. case r of Inl e \<Rightarrow> Q (Inl (Wrapf msg e)) pre' | Inr x \<Rightarrow> guarded G pre' (f x) Q) \<Longrightarrow>
     guarded G pre (on_ok_wrap msg m f) Q"
  unfolding on_ok_def on_ok_wrap_def
  by (rule guarded_bind, erule guarded_mono, (auto intro!: gvcg split: sum.splits) [])+

lemma guarded_ops [gvcg]:
  "(\<And>r. G pre (EvGet c k ns n r)) \<Longrightarrow> (\<And>r. Q r (pre @ [EvGet c k ns n r])) \<Longrightarrow> guarded G pre (Get A c k ns n) Q"
  "(\<And>r. G pre (EvList c k lo r)) \<Longrightarrow> (\<And>r. QL r (pre @ [EvList c k lo r])) \<Longrightarrow> guarded G pre (ListObjs A c k lo) QL"
  "(\<And>r. G pre (EvCreate c ob r)) \<Longrightarrow> (\<And>r. Q r (pre @ [EvCreate c ob r])) \<Longrightarrow> guarded G pre (Create A c ob) Q"
  "(\<And>r. G pre (EvUpdate c ob r)) \<Longrightarrow> (\<And>r. Q r (pre @ [EvUpdate c ob r])) \<Longrightarrow> guarded G pre (Update A c ob) Q"
  "(\<And>r. G pre (EvStatusUpdate c ob r)) \<Longrightarrow> (\<And>r. Q r (pre @ [EvStatusUpdate c ob r])) \<Longrightarrow>
     guarded G pre (StatusUpdate A c ob) Q"
  "(\<And>r. G pre (EvPatch c b ob r)) \<Longrightarrow> (\<And>r. Q r (pre @ [EvPatch c b ob r])) \<Longrightarrow> guarded G pre (Patch A c b ob) Q"
  "(\<And>r. G pre (EvDelete c k ns n opts r)) \<Longrightarrow> (\<And>r. QU r (pre @ [EvDelete c k ns n opts r])) \<Longrightarrow>
     guarded G pre (Delete A c k ns n opts) QU"
  "(\<And>r. G pre (EvClock r)) \<Longrightarrow> (\<And>r. QC r (pre @ [EvClock r])) \<Longrightarrow> guarded G pre (Now A) QC"
  "(\<And>r. G pre (EvSubPatch c sub b ob r)) \<Longrightarrow> (\<And>r. Q r (pre @ [EvSubPatch c sub b ob r])) \<Longrightarrow>
     guarded G pre (SubPatch A c sub b ob) Q"
  "(\<And>r. G pre (EvSubUpdate c sub ob r)) \<Longrightarrow> (\<And>r. Q r (pre @ [EvSubUpdate c sub ob r])) \<Longrightarrow>
     guarded G pre (SubUpdate A c sub ob) Q"
  "(\<And>r. G pre (EvCreateToken ns n tr r)) \<Longrightarrow> (\<And>r. QT r (pre @ [EvCreateToken ns n tr r])) \<Longrightarrow>
     guarded G pre (CreateToken A ns n tr) QT"
  "(\<And>r. G pre (EvRand r)) \<Longrightarrow> (\<And>r. QR r (pre @ [EvRand r])) \<Longrightarrow> guarded G pre (Rand A) QR"
  by (auto simp: Get_def ListObjs_def Create_def Update_def StatusUpdate_def Patch_def
      Delete_def Now_def SubPatch_def SubUpdate_def CreateToken_def Rand_def intro: guarded_call)

definition keeps :: "(('s, 'm) world_scheme \<Rightarrow> bool) \<Rightarrow> ('s, 'm, 'a) prog \<Rightarrow> bool" where
  "keeps I m \<longleftrightarrow> (\<forall>w. I w \<longrightarrow> I (snd (run_state m w)))"

lemma keepsD: "keeps I m \<Longrightarrow> I w \<Longrightarrow> run_state m w = (r, w') \<Longrightarrow> I w'"
  unfolding keeps_def by (metis snd_conv)

lemma keeps_return [keeps_rules]: "keeps I (return x)"
  by (simp add: keeps_def)

lemma keeps_bind [keeps_rules]: "keeps I m \<Longrightarrow> (\<And>x. keeps I (f x)) \<Longrightarrow> keeps I (m \<bind> f)"
  by (auto simp: keeps_def split: prod.splits)

lemma keeps_reads [keeps_rules]: "keeps I (reads f)"
  by (simp add: keeps_def reads_def)

lemma keeps_if [keeps_rules]: "(b \<Longrightarrow> keeps I m) \<Longrightarrow> (\<not> b \<Longrightarrow> keeps I n) \<Longrightarrow> keeps I (if b then m else n)"
  by simp

lemma keeps_sum [keeps_rules]:
  "(\<And>e. keeps I (f e)) \<Longrightarrow> (\<And>x. keeps I (g x)) \<Longrightarrow> keeps I (case r of Inl e \<Rightarrow> f e | Inr x \<Rightarrow> g x)"
  by (cases r) simp_all

lemma keeps_option [keeps_rules]:
  "keeps I f \<Longrightarrow> (\<And>x. keeps I (g x)) \<Longrightarrow> keeps I (case r of None \<Rightarrow> f | Some x \<Rightarrow> g x)"
  by (cases r) simp_all

lemma keeps_prod [keeps_rules]: "(\<And>a b. keeps I (f a b)) \<Longrightarrow> keeps I (case r of (a, b) \<Rightarrow> f a b)"
  by (cases r) simp

lemma keeps_let [keeps_rules]: "(\<And>y. keeps I (f y)) \<Longrightarrow> keeps I (let y = x in f y)"
  by simp

lemma keeps_modifies: "(\<And>w. I w \<Longrightarrow> I (f w)) \<Longrightarrow> keeps I (modifies f)"
  by (simp add: keeps_def modifies_def)

lemma keeps_on_ok [keeps_rules]:
  "keeps I m \<Longrightarrow> (\<And>x. keeps I (f x)) \<Longrightarrow> keeps I (on_ok m f)"
  "keeps I m \<Longrightarrow> (\<And>x. keeps I (f x)) \<Longrightarrow> keeps I (on_ok_wrap msg m f)"
  unfolding on_ok_def on_ok_wrap_def by (intro keeps_rules | assumption)+

lemma keeps_quiet:
  assumes "quiet m P" and "\<And>w s h. I (w\<lparr>srv := s, hist := h\<rparr>) = I w"
  shows "keeps I m"
  unfolding keeps_def
proof (intro allI impI)
  fix w
  assume "I w"
  have "tspec m w (\<lambda>r evs w'. I w')"
    by (rule tspec_quiet [OF assms(1)]) (simp add: assms(2) \<open>I w\<close>)
  then show "I (snd (run_state m w))" by (auto simp: tspec_def split: prod.splits)
qed

subsection \<open>Sequencing\<close>

lemma guarded_prefix: "guarded G pre m Q \<Longrightarrow> guarded G pre m (\<lambda>r pre'. Q r pre' \<and> (\<exists>es. pre' = pre @ es))"
  unfolding guarded_def by simp

lemma guarded_calls:
  assumes "calls m P" and "\<And>pre e. P e \<Longrightarrow> G pre e" and "\<And>x es. list_all P es \<Longrightarrow> Q x (pre @ es)"
  shows "guarded G pre m Q"
proof -
  have "ordered G pre evs" if "list_all P evs" for pre evs
    using that by (induction evs arbitrary: pre) (auto intro: assms(2))
  then show ?thesis
    unfolding guarded_def using assms(1,3) by (auto intro!: tspec_calls)
qed

lemma guarded_on_ok_then:
  assumes "guarded G pre m R"
    and "\<And>x es. R (Inr x) (pre @ es) \<Longrightarrow> guarded G (pre @ es) (f x) Q"
    and "\<And>e es. R (Inl e) (pre @ es) \<Longrightarrow> Q (Inl e) (pre @ es)"
  shows "guarded G pre (on_ok m f) Q"
  by (rule guarded_on_ok, rule guarded_mono [OF guarded_prefix [OF assms(1)]]) (auto split: sum.splits intro: assms(2,3))

lemma guarded_on_ok_wrap_then:
  assumes "guarded G pre m R"
    and "\<And>x es. R (Inr x) (pre @ es) \<Longrightarrow> guarded G (pre @ es) (f x) Q"
    and "\<And>e es. R (Inl e) (pre @ es) \<Longrightarrow> Q (Inl (Wrapf msg e)) (pre @ es)"
  shows "guarded G pre (on_ok_wrap msg m f) Q"
  by (rule guarded_on_ok, rule guarded_mono [OF guarded_prefix [OF assms(1)]]) (auto split: sum.splits intro: assms(2,3))

lemma guarded_bind_then:
  assumes "guarded G pre m R" and "\<And>x es. R x (pre @ es) \<Longrightarrow> guarded G (pre @ es) (f x) Q"
  shows "guarded G pre (m \<bind> f) Q"
  by (rule guarded_bind, rule guarded_mono [OF guarded_prefix [OF assms(1)]]) (auto intro: assms(2))

section \<open>Effects outside the cluster\<close>

lemma tspec_outside [vcg]: "(\<And>r s. Q r [] (w\<lparr>srv := s\<rparr>)) \<Longrightarrow> tspec (outside f) w Q"
  by (simp add: tspec_def outside_def split: prod.splits)

lemma guarded_outside [gvcg]: "(\<And>r. Q r pre) \<Longrightarrow> guarded G pre (outside f) Q"
  unfolding guarded_def by (intro allI tspec_outside) simp

lemma quiet_outside [quiet_rules]: "quiet (outside f) P"
  unfolding quiet_def by (intro allI tspec_outside) auto

section \<open>A scripted server\<close>

text \<open>
  An instance of the parameter: the server state is the list of the answers still to give.
  It is used to exhibit concrete runs.
\<close>

datatype answer = AObj "obj res" | AList "obj list res" | AUnit "unit res" | AClock clock
  | AToken "token_request res" | ARand int

definition zero_clock :: clock where
  "zero_clock = \<lparr>ckNow = 0, ckWeekday = ''Monday'', ckHHMM = ''00:00'',
     ckRFC3339 = ''1970-01-01T00:00:00Z''\<rparr>"

fun next_obj :: "answer list \<Rightarrow> obj res \<times> answer list" where
  "next_obj (AObj r # as) = (r, as)"
| "next_obj as = (Inl (ApiError ''script''), as)"

fun next_list :: "answer list \<Rightarrow> obj list res \<times> answer list" where
  "next_list (AList r # as) = (r, as)"
| "next_list as = (Inl (ApiError ''script''), as)"

fun next_unit :: "answer list \<Rightarrow> unit res \<times> answer list" where
  "next_unit (AUnit r # as) = (r, as)"
| "next_unit as = (Inl (ApiError ''script''), as)"

fun next_clock :: "answer list \<Rightarrow> clock \<times> answer list" where
  "next_clock (AClock c # as) = (c, as)"
| "next_clock as = (zero_clock, as)"

fun next_token :: "answer list \<Rightarrow> token_request res \<times> answer list" where
  "next_token (AToken r # as) = (r, as)"
| "next_token as = (Inl (ApiError ''script''), as)"

fun next_rand :: "answer list \<Rightarrow> int \<times> answer list" where
  "next_rand (ARand n # as) = (n, as)"
| "next_rand as = (0, as)"

definition scripted :: "answer list api" where
  "scripted = \<lparr>api_get = (\<lambda>_ _ _ _. next_obj), api_list = (\<lambda>_ _ _. next_list),
     api_create = (\<lambda>_ _. next_obj), api_update = (\<lambda>_ _. next_obj),
     api_status_update = (\<lambda>_ _. next_obj), api_patch = (\<lambda>_ _ _. next_obj),
     api_status_patch = (\<lambda>_ _ _. next_obj), api_patch_label = (\<lambda>_ _ _ _. next_obj),
     api_delete = (\<lambda>_ _ _ _ _. next_unit), api_sub_patch = (\<lambda>_ _ _ _. next_obj), api_sub_update = (\<lambda>_ _ _. next_obj),
     api_create_token = (\<lambda>_ _ _. next_token), api_rand = next_rand, api_clock = next_clock\<rparr>"

end
