(* ===== verification/Node_Selector.thy ===== *)
theory Node_Selector
  imports Kube_Api
begin

text \<open>
  Node selectors, \<^verbatim>\<open>pkg/utils/node_selector.go\<close>. The selector packages of apimachinery
  (\<^verbatim>\<open>labels.NewRequirement\<close> with \<^verbatim>\<open>Requirement.Matches\<close>, and
  \<^verbatim>\<open>fields.SelectorFromSet\<close> with \<^verbatim>\<open>Selector.Matches\<close>) are the argument \<open>S\<close>; the
  documented behaviour of the field selectors is the hypothesis \<open>field_selectors_documented\<close>.
\<close>

datatype selection_op = In | NotIn | Exists | DoesNotExist | GreaterThan | LessThan

record selector_lib =
  NewRequirement :: "string \<Rightarrow> selection_op \<Rightarrow> string list \<Rightarrow> (smap \<Rightarrow> bool) res"
  FieldSetMatches :: "smap \<Rightarrow> smap \<Rightarrow> bool"

fun nodeSelectorRequirementsAsLabelSelector ::
  "selector_lib \<Rightarrow> node_requirement list \<Rightarrow> (smap \<Rightarrow> bool) res" where
  "nodeSelectorRequirementsAsLabelSelector S [] = Inr (\<lambda>_. True)"
| "nodeSelectorRequirementsAsLabelSelector S (req # reqs) =
    (let op = (case reqOperator req of
                 OpIn \<Rightarrow> Inr In
               | OpNotIn \<Rightarrow> Inr NotIn
               | OpExists \<Rightarrow> Inr Exists
               | OpDoesNotExist \<Rightarrow> Inr DoesNotExist
               | OpGt \<Rightarrow> Inr GreaterThan
               | OpLt \<Rightarrow> Inr LessThan
               | OpOther _ \<Rightarrow> Inl (Errorf ''unsupported node selector operator''))
     in case op of
          Inl e \<Rightarrow> Inl e
        | Inr op' \<Rightarrow>
           (case NewRequirement S (reqKey req) op' (reqValues req) of
              Inl e \<Rightarrow> Inl e
            | Inr requirement \<Rightarrow>
               (case nodeSelectorRequirementsAsLabelSelector S reqs of
                  Inl e \<Rightarrow> Inl e
                | Inr selector \<Rightarrow> Inr (\<lambda>ls. requirement ls \<and> selector ls))))"

text \<open>The loop that fills \<^verbatim>\<open>fieldSet\<close>; the accumulator is the set built so far.\<close>

fun fieldSetFrom :: "smap \<Rightarrow> node_requirement list \<Rightarrow> smap res" where
  "fieldSetFrom fieldSet [] = Inr fieldSet"
| "fieldSetFrom fieldSet (req # reqs) =
    (if reqKey req \<noteq> ''metadata.name''
     then Inl (Errorf ''field selector only supports metadata.name'')
     else (case reqOperator req of
        OpIn \<Rightarrow>
          (if length (reqValues req) = 1
           then fieldSetFrom (fieldSet(reqKey req \<mapsto> reqValues req ! 0)) reqs
           else Inl (Errorf ''field selector In operator requires exactly one value''))
      | OpOther _ \<Rightarrow> Inl (Errorf ''unsupported node selector operator'')
      | _ \<Rightarrow> Inl (Errorf ''field selector operator is not supported in this implementation'')))"

definition nodeSelectorRequirementsAsFieldSelector ::
  "selector_lib \<Rightarrow> node_requirement list \<Rightarrow> (smap \<Rightarrow> bool) res" where
  "nodeSelectorRequirementsAsFieldSelector S requirements =
    (case fieldSetFrom Map.empty requirements of
       Inl e \<Rightarrow> Inl e
     | Inr fieldSet \<Rightarrow> Inr (FieldSetMatches S fieldSet))"

definition matchesTerm :: "selector_lib \<Rightarrow> node_selector_term \<Rightarrow> smap \<Rightarrow> smap \<Rightarrow> bool" where
  "matchesTerm S trm nodeLabels nodeFields =
    (if length (MatchExpressions trm) = 0 \<and> length (MatchFields trm) = 0 then False
     else if length (MatchExpressions trm) > 0 \<and>
          (case nodeSelectorRequirementsAsLabelSelector S (MatchExpressions trm) of
             Inl _ \<Rightarrow> True | Inr labelSelector \<Rightarrow> \<not> labelSelector nodeLabels) then False
     else if length (MatchFields trm) > 0 \<and>
          (case nodeSelectorRequirementsAsFieldSelector S (MatchFields trm) of
             Inl _ \<Rightarrow> True | Inr fieldSelector \<Rightarrow> \<not> fieldSelector nodeFields) then False
     else True)"

definition MatchesSelector :: "selector_lib \<Rightarrow> node \<Rightarrow> node_selector \<Rightarrow> bool" where
  "MatchesSelector S nd nodeSelector =
    (case nodeSelector of
       None \<Rightarrow> True
     | Some terms \<Rightarrow>
        (if length terms = 0 then True
         else let nodeLabels = mLabels (nMeta nd);
                  nodeFields = [''metadata.name'' \<mapsto> mName (nMeta nd)]
              in list_ex (\<lambda>trm. matchesTerm S trm nodeLabels nodeFields) terms))"

section \<open>What a selector means\<close>

text \<open>
  The documentation of \<^verbatim>\<open>fields.SelectorFromSet\<close>: the selector matches exactly the field
  sets that agree with every pair of the given set.
\<close>

definition field_selectors_documented :: "selector_lib \<Rightarrow> bool" where
  "field_selectors_documented S \<longleftrightarrow>
     (\<forall>fs fields. FieldSetMatches S fs fields \<longleftrightarrow> (\<forall>k v. fs k = Some v \<longrightarrow> mget fields k = v))"

text \<open>The requirement \<^verbatim>\<open>labels.NewRequirement\<close> is called with, and whether labels meet it.\<close>

fun label_op :: "selector_op \<Rightarrow> selection_op option" where
  "label_op OpIn = Some In"
| "label_op OpNotIn = Some NotIn"
| "label_op OpExists = Some Exists"
| "label_op OpDoesNotExist = Some DoesNotExist"
| "label_op OpGt = Some GreaterThan"
| "label_op OpLt = Some LessThan"
| "label_op (OpOther _) = None"

definition req_compiles :: "selector_lib \<Rightarrow> node_requirement \<Rightarrow> (smap \<Rightarrow> bool) option" where
  "req_compiles S req = (case label_op (reqOperator req) of
     None \<Rightarrow> None
   | Some op \<Rightarrow> (case NewRequirement S (reqKey req) op (reqValues req) of
        Inl _ \<Rightarrow> None | Inr f \<Rightarrow> Some f))"

definition req_holds :: "selector_lib \<Rightarrow> smap \<Rightarrow> node_requirement \<Rightarrow> bool" where
  "req_holds S ls req \<longleftrightarrow> (case req_compiles S req of None \<Rightarrow> False | Some f \<Rightarrow> f ls)"

text \<open>A field requirement the code supports: the node name is In a list of one name.\<close>

definition name_req :: "node_requirement \<Rightarrow> bool" where
  "name_req req \<longleftrightarrow> reqKey req = ''metadata.name'' \<and> reqOperator req = OpIn \<and>
     length (reqValues req) = 1"

lemma labelSelector_Cons:
  "nodeSelectorRequirementsAsLabelSelector S (req # reqs) = Inr f \<longleftrightarrow>
     (\<exists>g h. req_compiles S req = Some g \<and>
        nodeSelectorRequirementsAsLabelSelector S reqs = Inr h \<and> f = (\<lambda>ls. g ls \<and> h ls))"
  by (cases "reqOperator req") (auto simp: req_compiles_def split: sum.splits)

lemma labelSelector_holds:
  "(\<exists>f. nodeSelectorRequirementsAsLabelSelector S reqs = Inr f \<and> f ls) \<longleftrightarrow>
     (\<forall>req\<in>set reqs. req_holds S ls req)"
proof (induction reqs)
  case (Cons req reqs)
  have "(\<exists>f. nodeSelectorRequirementsAsLabelSelector S (req # reqs) = Inr f \<and> f ls) \<longleftrightarrow>
      req_holds S ls req \<and> (\<exists>f. nodeSelectorRequirementsAsLabelSelector S reqs = Inr f \<and> f ls)"
    unfolding labelSelector_Cons by (auto simp: req_holds_def split: option.splits)
  with Cons show ?case by simp
qed simp

lemma fieldSetFrom_Cons:
  "name_req req \<Longrightarrow> fieldSetFrom fs (req # reqs) =
     fieldSetFrom (fs(''metadata.name'' \<mapsto> reqValues req ! 0)) reqs"
  "\<not> name_req req \<Longrightarrow> \<exists>e. fieldSetFrom fs (req # reqs) = Inl e"
  by (auto simp: name_req_def split: selector_op.splits)

lemma fieldSetFrom_spec:
  "fieldSetFrom fs reqs = Inr fs' \<longleftrightarrow>
     (\<forall>req\<in>set reqs. name_req req) \<and>
     fs' = (if reqs = [] then fs else fs(''metadata.name'' \<mapsto> reqValues (last reqs) ! 0))"
proof (induction reqs arbitrary: fs)
  case (Cons req reqs)
  show ?case
  proof (cases "name_req req")
    case True
    show ?thesis unfolding fieldSetFrom_Cons(1) [OF True] Cons.IH
      using True by (cases reqs) auto
  next
    case False
    then show ?thesis using fieldSetFrom_Cons(2) [OF False, of fs reqs]
      by (auto simp del: fieldSetFrom.simps)
  qed
qed auto

lemma fieldSelector_holds:
  assumes "field_selectors_documented S" and "reqs \<noteq> []"
  shows "(case nodeSelectorRequirementsAsFieldSelector S reqs of
            Inl _ \<Rightarrow> False | Inr f \<Rightarrow> f [''metadata.name'' \<mapsto> name]) \<longleftrightarrow>
         (\<forall>req\<in>set reqs. name_req req) \<and> reqValues (last reqs) = [name]"
proof (cases "fieldSetFrom Map.empty reqs")
  case (Inl e)
  then have "\<not> (\<forall>req\<in>set reqs. name_req req)"
    using fieldSetFrom_spec [of Map.empty reqs] assms(2) by (metis Inl_Inr_False)
  with Inl show ?thesis by (auto simp: nodeSelectorRequirementsAsFieldSelector_def)
next
  case (Inr fs)
  then have names: "\<forall>req\<in>set reqs. name_req req"
    and fs: "fs = [''metadata.name'' \<mapsto> reqValues (last reqs) ! 0]"
    using fieldSetFrom_spec [of Map.empty reqs fs] assms(2) by auto
  have "length (reqValues (last reqs)) = 1" using names assms(2) by (simp add: name_req_def)
  then have "reqValues (last reqs) = [reqValues (last reqs) ! 0]"
    by (metis One_nat_def length_0_conv length_Suc_conv nth_Cons_0)
  then have "reqValues (last reqs) ! 0 = name \<longleftrightarrow> reqValues (last reqs) = [name]"
    by (metis nth_Cons_0)
  moreover have "FieldSetMatches S fs [''metadata.name'' \<mapsto> name] \<longleftrightarrow>
      reqValues (last reqs) ! 0 = name"
    using assms(1) fs by (auto simp: field_selectors_documented_def)
  ultimately show ?thesis
    using Inr names by (simp add: nodeSelectorRequirementsAsFieldSelector_def)
qed

lemma MatchesSelector_terms:
  assumes "field_selectors_documented S"
  shows "MatchesSelector S nd sel \<longleftrightarrow> sel = None \<or> sel = Some [] \<or>
    (\<exists>trm\<in>set (case sel of None \<Rightarrow> [] | Some ts \<Rightarrow> ts).
       (MatchExpressions trm \<noteq> [] \<or> MatchFields trm \<noteq> []) \<and>
       (\<forall>req\<in>set (MatchExpressions trm). req_holds S (mLabels (nMeta nd)) req) \<and>
       (\<forall>req\<in>set (MatchFields trm). name_req req) \<and>
       (MatchFields trm \<noteq> [] \<longrightarrow> reqValues (last (MatchFields trm)) = [mName (nMeta nd)]))"
proof -
  have trm: "matchesTerm S trm ls [''metadata.name'' \<mapsto> name] \<longleftrightarrow>
      (MatchExpressions trm \<noteq> [] \<or> MatchFields trm \<noteq> []) \<and>
      (\<forall>req\<in>set (MatchExpressions trm). req_holds S ls req) \<and>
      (\<forall>req\<in>set (MatchFields trm). name_req req) \<and>
      (MatchFields trm \<noteq> [] \<longrightarrow> reqValues (last (MatchFields trm)) = [name])" for trm ls name
    using labelSelector_holds [of S "MatchExpressions trm" ls]
      fieldSelector_holds [OF assms, of "MatchFields trm" name]
    by (cases "nodeSelectorRequirementsAsLabelSelector S (MatchExpressions trm)";
        cases "MatchFields trm = []")
      (auto simp: matchesTerm_def split: sum.splits)
  show ?thesis
    by (cases sel) (auto simp: MatchesSelector_def list_ex_iff trm)
qed

text \<open>A concrete selector library: the label requirements of the four set operators.\<close>

definition set_selectors :: selector_lib where
  "set_selectors = \<lparr>
     NewRequirement = (\<lambda>k op vs. case op of
         In \<Rightarrow> Inr (\<lambda>ls. \<exists>v\<in>set vs. ls k = Some v)
       | NotIn \<Rightarrow> Inr (\<lambda>ls. \<forall>v\<in>set vs. ls k \<noteq> Some v)
       | Exists \<Rightarrow> Inr (\<lambda>ls. ls k \<noteq> None)
       | DoesNotExist \<Rightarrow> Inr (\<lambda>ls. ls k = None)
       | _ \<Rightarrow> Inl (Errorf ''numeric operator'')),
     FieldSetMatches = (\<lambda>fs fields. \<forall>k v. fs k = Some v \<longrightarrow> mget fields k = v)\<rparr>"

lemma set_selectors_documented [simp]: "field_selectors_documented set_selectors"
  by (simp add: field_selectors_documented_def set_selectors_def)

definition name_in :: "string list \<Rightarrow> node_requirement" where
  "name_in ns = \<lparr>reqKey = ''metadata.name'', reqOperator = OpIn, reqValues = ns\<rparr>"

definition named_node :: "string \<Rightarrow> node" where
  "named_node n = empty_node\<lparr>nMeta := empty_meta\<lparr>mName := n\<rparr>\<rparr>"

text \<open>
  Selector matching: a nil selector or one without terms selects every node; otherwise a
  node is selected iff it meets some term that is not empty, where a term is met when every
  label requirement can be compiled and holds, every field requirement is of the one supported
  form, and the node has the name the last field requirement gives.
\<close>

theorem MatchesSelector_iff:
  assumes "field_selectors_documented S"
  shows "MatchesSelector S nd sel \<longleftrightarrow> sel = None \<or> sel = Some [] \<or>
    (\<exists>trm\<in>set (case sel of None \<Rightarrow> [] | Some ts \<Rightarrow> ts).
       (MatchExpressions trm \<noteq> [] \<or> MatchFields trm \<noteq> []) \<and>
       (\<forall>req\<in>set (MatchExpressions trm). req_holds S (mLabels (nMeta nd)) req) \<and>
       (\<forall>req\<in>set (MatchFields trm). name_req req) \<and>
       (MatchFields trm \<noteq> [] \<longrightarrow> reqValues (last (MatchFields trm)) = [mName (nMeta nd)]))"
  by (rule MatchesSelector_terms [OF assms])

theorem MatchesSelector_iff_witness:
  "field_selectors_documented set_selectors \<and>
   MatchesSelector set_selectors (named_node ''n1'')
     (Some [\<lparr>MatchExpressions = [], MatchFields = [name_in [''n1'']]\<rparr>]) \<and>
   \<not> MatchesSelector set_selectors (named_node ''n2'')
     (Some [\<lparr>MatchExpressions = [], MatchFields = [name_in [''n1'']]\<rparr>])"
  using MatchesSelector_iff [OF set_selectors_documented, of "named_node ''n1''"
      "Some [\<lparr>MatchExpressions = [], MatchFields = [name_in [''n1'']]\<rparr>]"]
    MatchesSelector_iff [OF set_selectors_documented, of "named_node ''n2''"
      "Some [\<lparr>MatchExpressions = [], MatchFields = [name_in [''n1'']]\<rparr>]"]
  by (simp add: named_node_def name_in_def name_req_def)

text \<open>
  Two field requirements of one term do not both have to hold: the second overwrites the
  first, so the term that asks for the name \<open>a\<close> and for the name \<open>b\<close> selects the node \<open>b\<close>.
\<close>

theorem match_fields_overwrite:
  assumes "field_selectors_documented S"
  shows "MatchesSelector S (named_node b)
    (Some [\<lparr>MatchExpressions = [], MatchFields = [name_in [a], name_in [b]]\<rparr>])"
  by (subst MatchesSelector_terms [OF assms]) (simp add: name_req_def name_in_def named_node_def)

theorem match_fields_overwrite_witness:
  "field_selectors_documented set_selectors \<and> ''a'' \<noteq> ''b'' \<and>
   MatchesSelector set_selectors (named_node ''b'')
    (Some [\<lparr>MatchExpressions = [], MatchFields = [name_in [''a''], name_in [''b'']]\<rparr>])"
  using match_fields_overwrite [of set_selectors "''b''" "''a''"] by simp

end
