(* ===== verification/Port_Allocator.thy ===== *)
theory Port_Allocator
  imports Kube_Api
begin

text \<open>
  The proxier port of a virtual node: \<^verbatim>\<open>allocateProxierPort\<close>,
  \<^verbatim>\<open>releaseProxierPort\<close>, \<^verbatim>\<open>InitAllocatedPortsCache\<close> and \<^verbatim>\<open>hashString\<close> of
  \<^verbatim>\<open>physical_node_controller.go\<close>. The state is the pair of maps the reconciler keeps under
  \<^verbatim>\<open>portMutex\<close>; every operation holds the mutex throughout, so the concurrent workers act
  on it one operation at a time, in some order: \<open>port_reach\<close> has all these orders. The locale
  \<open>port_allocator\<close> is what the node controller relies on.
\<close>

unbundle bit_operations_syntax

record port_state =
  allocatedPorts :: "int \<rightharpoonup> string"
  nodeNameToPort :: "string \<rightharpoonup> int"

definition portMin :: int where "portMin = 15000"
definition portMax :: int where "portMax = 65535"

text \<open>
  \<^verbatim>\<open>range\<close> over a string decodes UTF-8: the first code point of the bytes and the bytes after it. A byte that begins no
  valid sequence counts as the replacement character, alone.
\<close>

definition between :: "nat \<Rightarrow> nat \<Rightarrow> nat \<Rightarrow> bool" where
  "between lo hi b \<longleftrightarrow> lo \<le> b \<and> b \<le> hi"

fun decodeRune :: "nat \<Rightarrow> nat list \<Rightarrow> nat \<times> nat list" where
  "decodeRune b bs = (if b < 0x80 then (b, bs)
     else if between 0xC2 0xDF b then (case bs of
         b1 # r \<Rightarrow> if between 0x80 0xBF b1 then (b mod 32 * 64 + b1 mod 64, r) else (0xFFFD, bs)
       | _ \<Rightarrow> (0xFFFD, bs))
     else if between 0xE0 0xEF b then (case bs of
         b1 # b2 # r \<Rightarrow>
           if between (if b = 0xE0 then 0xA0 else 0x80) (if b = 0xED then 0x9F else 0xBF) b1 \<and> between 0x80 0xBF b2
           then ((b mod 16 * 64 + b1 mod 64) * 64 + b2 mod 64, r) else (0xFFFD, bs)
       | _ \<Rightarrow> (0xFFFD, bs))
     else if between 0xF0 0xF4 b then (case bs of
         b1 # b2 # b3 # r \<Rightarrow>
           if between (if b = 0xF0 then 0x90 else 0x80) (if b = 0xF4 then 0x8F else 0xBF) b1 \<and>
             between 0x80 0xBF b2 \<and> between 0x80 0xBF b3
           then (((b mod 8 * 64 + b1 mod 64) * 64 + b2 mod 64) * 64 + b3 mod 64, r) else (0xFFFD, bs)
       | _ \<Rightarrow> (0xFFFD, bs))
     else (0xFFFD, bs))"

declare decodeRune.simps [simp del]

lemma decodeRune_rest: "length (snd (decodeRune b bs)) \<le> length bs"
  by (simp add: decodeRune.simps split: list.split)

function runes :: "nat list \<Rightarrow> nat list" where
  "runes [] = []"
| "runes (b # bs) = fst (decodeRune b bs) # runes (snd (decodeRune b bs))"
  by pat_completeness auto
termination
  by (relation "measure length") (auto simp: less_Suc_eq_le decodeRune_rest)

lemma runes_ascii: "list_all (\<lambda>b. b < 0x80) bs \<Longrightarrow> runes bs = bs"
  by (induction bs) (simp_all add: decodeRune.simps)

text \<open>FNV-1a on 32 bits, over code points; the product wraps around.\<close>

definition hashString :: "string \<Rightarrow> 32 word" where
  "hashString s = foldl (\<lambda>hash c. (hash XOR of_nat c) * 0x01000193) 0x811c9dc5 (runes (map of_char s))"

definition port_candidate :: "int \<Rightarrow> int \<Rightarrow> int" where
  "port_candidate basePort offset =
    (let candidate = basePort + offset
     in if candidate > portMax then portMin + (candidate - portMax - 1) else candidate)"

function scanPorts :: "(int \<rightharpoonup> string) \<Rightarrow> int \<Rightarrow> int \<Rightarrow> int option" where
  "scanPorts used basePort offset =
    (if offset \<le> portMax - portMin
     then (case used (port_candidate basePort offset) of
             None \<Rightarrow> Some (port_candidate basePort offset)
           | Some _ \<Rightarrow> scanPorts used basePort (offset + 1))
     else None)"
  by pat_completeness auto
termination
  by (relation "measure (\<lambda>(_, _, offset). nat (portMax - portMin + 1 - offset))") auto

declare scanPorts.simps [simp del]

definition basePort :: "string \<Rightarrow> int" where
  "basePort nodeName = portMin + uint (hashString nodeName mod word_of_int (portMax - portMin + 1))"

definition takePort :: "port_state \<Rightarrow> int \<Rightarrow> string \<Rightarrow> port_state" where
  "takePort st port nodeName =
     st\<lparr>allocatedPorts := (allocatedPorts st)(port \<mapsto> nodeName),
        nodeNameToPort := (nodeNameToPort st)(nodeName \<mapsto> port)\<rparr>"

definition allocateProxierPort :: "port_state \<Rightarrow> string \<Rightarrow> string res \<times> port_state" where
  "allocateProxierPort st nodeName =
    (case nodeNameToPort st nodeName of
       Some port \<Rightarrow> (Inr (Itoa port), st)
     | None \<Rightarrow>
        (let base = basePort nodeName in
         case allocatedPorts st base of
           None \<Rightarrow> (Inr (Itoa base), takePort st base nodeName)
         | Some _ \<Rightarrow>
            (case scanPorts (allocatedPorts st) base 1 of
               Some candidate \<Rightarrow> (Inr (Itoa candidate), takePort st candidate nodeName)
             | None \<Rightarrow> (Inl (Errorf ''no available ports for node''), st))))"

definition releaseProxierPort :: "port_state \<Rightarrow> string \<Rightarrow> port_state" where
  "releaseProxierPort st nodeName =
    (case nodeNameToPort st nodeName of
       Some port \<Rightarrow> st\<lparr>allocatedPorts := (allocatedPorts st)(port := None),
                      nodeNameToPort := (nodeNameToPort st)(nodeName := None)\<rparr>
     | None \<Rightarrow> st)"

definition no_ports :: port_state where
  "no_ports = \<lparr>allocatedPorts = Map.empty, nodeNameToPort = Map.empty\<rparr>"

definition loadPort :: "port_state \<Rightarrow> node \<Rightarrow> port_state" where
  "loadPort st vnode =
    (case mLabels (nMeta vnode) LabelProxierPort of
       None \<Rightarrow> st
     | Some portStr \<Rightarrow>
        (case Atoi portStr of
           None \<Rightarrow> st
         | Some port \<Rightarrow> takePort st port (mName (nMeta vnode))))"

definition InitAllocatedPortsCache :: "'s api \<Rightarrow> ('s, 'm, port_state \<times> unit res) prog" where
  "InitAllocatedPortsCache A = do {
     r \<leftarrow> list_nodes A VirtualClient list_all_objs;
     return (case r of
         Inl e \<Rightarrow> (no_ports, Inl e)
       | Inr vnodes \<Rightarrow> (foldl loadPort no_ports vnodes, Inr ()))
   }"

section \<open>The invariant\<close>

text \<open>The two maps are inverse to each other and every port is in range.\<close>

definition port_inv :: "port_state \<Rightarrow> bool" where
  "port_inv st \<longleftrightarrow>
     (\<forall>p n. allocatedPorts st p = Some n \<longleftrightarrow> nodeNameToPort st n = Some p) \<and>
     (\<forall>p. allocatedPorts st p \<noteq> None \<longrightarrow> portMin \<le> p \<and> p \<le> portMax)"

lemma basePort_range: "portMin \<le> basePort n \<and> basePort n \<le> portMax"
proof -
  have "uint (hashString n mod word_of_int (portMax - portMin + 1)) < portMax - portMin + 1"
    by (simp add: portMax_def portMin_def uint_mod)
  then show ?thesis by (simp add: basePort_def)
qed

lemma port_candidate_range:
  assumes "portMin \<le> b" "b \<le> portMax" "0 \<le> k" "k \<le> portMax - portMin"
  shows "portMin \<le> port_candidate b k \<and> port_candidate b k \<le> portMax"
  using assms by (auto simp: port_candidate_def Let_def)

text \<open>The probe sequence meets every port of the range.\<close>

lemma port_candidate_surj:
  assumes "portMin \<le> b" "b \<le> portMax" "portMin \<le> p" "p \<le> portMax" "p \<noteq> b"
  shows "\<exists>k. 1 \<le> k \<and> k \<le> portMax - portMin \<and> port_candidate b k = p"
proof (cases "b < p")
  case True
  with assms show ?thesis
    by (intro exI [of _ "p - b"]) (auto simp: port_candidate_def Let_def)
next
  case False
  with assms show ?thesis
    by (intro exI [of _ "p - b + (portMax - portMin + 1)"])
      (auto simp: port_candidate_def Let_def)
qed

lemma scanPorts_Some:
  assumes "scanPorts used b k = Some p"
  shows "used p = None \<and> (\<exists>j\<ge>k. j \<le> portMax - portMin \<and> p = port_candidate b j)"
  using assms
proof (induction used b k rule: scanPorts.induct)
  case (1 used b k)
  from "1.prems" have k: "k \<le> portMax - portMin"
    by (simp add: scanPorts.simps [of used b k] split: if_splits)
  show ?case
  proof (cases "used (port_candidate b k)")
    case None
    with "1.prems" k show ?thesis by (auto simp: scanPorts.simps [of used b k])
  next
    case (Some n)
    with "1.prems" k have "scanPorts used b (k + 1) = Some p"
      by (simp add: scanPorts.simps [of used b k])
    from "1.IH" [OF k Some this] obtain j where "used p = None" "k + 1 \<le> j"
      "j \<le> portMax - portMin" "p = port_candidate b j" by blast
    then show ?thesis by (intro conjI exI [of _ j]) simp_all
  qed
qed

lemma scanPorts_None:
  assumes "scanPorts used b k = None" and "k \<le> j" and "j \<le> portMax - portMin"
  shows "used (port_candidate b j) \<noteq> None"
  using assms
proof (induction used b k rule: scanPorts.induct)
  case (1 used b k)
  then have k: "k \<le> portMax - portMin" by simp
  with "1.prems"(1) obtain n where n: "used (port_candidate b k) = Some n"
    by (auto simp: scanPorts.simps [of used b k] split: option.splits)
  with "1.prems"(1) k have rest: "scanPorts used b (k + 1) = None"
    by (simp add: scanPorts.simps [of used b k])
  show ?case
  proof (cases "j = k")
    case False
    with "1.prems" "1.IH" [OF k n rest] show ?thesis by simp
  qed (simp add: n)
qed

lemma allocate_cases:
  obtains (held) p where "nodeNameToPort st n = Some p"
      "allocateProxierPort st n = (Inr (Itoa p), st)"
    | (taken) p where "nodeNameToPort st n = None" "allocatedPorts st p = None"
      "portMin \<le> p" "p \<le> portMax" "allocateProxierPort st n = (Inr (Itoa p), takePort st p n)"
    | (full) e where "nodeNameToPort st n = None"
      "\<And>p. portMin \<le> p \<Longrightarrow> p \<le> portMax \<Longrightarrow> allocatedPorts st p \<noteq> None"
      "allocateProxierPort st n = (Inl e, st)"
proof (cases "nodeNameToPort st n")
  case (Some p)
  then show thesis by (intro held) (simp_all add: allocateProxierPort_def Let_def)
next
  case none: None
  let ?b = "basePort n"
  show thesis
  proof (cases "allocatedPorts st ?b")
    case None
    with none show thesis using basePort_range [of n]
      by (intro taken [of ?b]) (simp_all add: allocateProxierPort_def Let_def)
  next
    case used: (Some m)
    show thesis
    proof (cases "scanPorts (allocatedPorts st) ?b 1")
      case (Some p)
      from scanPorts_Some [OF this] basePort_range [of n] have "allocatedPorts st p = None"
        "portMin \<le> p" "p \<le> portMax"
        using port_candidate_range by fastforce+
      with none used Some show thesis
        by (intro taken [of p]) (simp_all add: allocateProxierPort_def Let_def)
    next
      case None
      have "allocatedPorts st p \<noteq> None" if "portMin \<le> p" "p \<le> portMax" for p
        using scanPorts_None [OF None] port_candidate_surj [of ?b p] that basePort_range [of n] used
        by (cases "p = ?b") auto
      with none used None show thesis
        by (intro full) (simp_all add: allocateProxierPort_def Let_def)
    qed
  qed
qed

lemma takePort_inv:
  assumes "port_inv st" "nodeNameToPort st n = None" "allocatedPorts st p = None"
    "portMin \<le> p" "p \<le> portMax"
  shows "port_inv (takePort st p n)"
proof -
  have free: "nodeNameToPort st m \<noteq> Some p" "allocatedPorts st q \<noteq> Some n" for m q
    using assms unfolding port_inv_def by (metis option.distinct(1))+
  with assms show ?thesis by (simp add: port_inv_def takePort_def)
qed

lemma allocate_inv: "port_inv st \<Longrightarrow> port_inv (snd (allocateProxierPort st n))"
  by (rule allocate_cases [where st = st and n = n]) (simp_all add: takePort_inv)

lemma release_inv: "port_inv st \<Longrightarrow> port_inv (releaseProxierPort st n)"
proof (cases "nodeNameToPort st n")
  case (Some p)
  assume inv: "port_inv st"
  then have "nodeNameToPort st m = Some p \<longleftrightarrow> m = n" "allocatedPorts st q = Some n \<longleftrightarrow> q = p" for m q
    using Some unfolding port_inv_def by (metis option.inject)+
  note only = this
  have rel: "releaseProxierPort st n = st\<lparr>allocatedPorts := (allocatedPorts st)(p := None),
      nodeNameToPort := (nodeNameToPort st)(n := None)\<rparr>"
    using Some by (simp add: releaseProxierPort_def)
  have "((allocatedPorts st)(p := None)) q = Some m \<longleftrightarrow>
      ((nodeNameToPort st)(n := None)) m = Some q" for q m
    using only inv unfolding port_inv_def by (cases "q = p"; cases "m = n") auto
  moreover have "portMin \<le> q \<and> q \<le> portMax"
    if "((allocatedPorts st)(p := None)) q \<noteq> None" for q
    using that inv unfolding port_inv_def by (auto split: if_splits)
  ultimately show ?thesis unfolding rel port_inv_def by simp
qed (simp add: releaseProxierPort_def)

lemma port_inv_exclusive:
  "port_inv st \<Longrightarrow> nodeNameToPort st n = Some p \<Longrightarrow> nodeNameToPort st m = Some p \<Longrightarrow> n = m"
  unfolding port_inv_def by (metis option.inject)

lemma port_inv_range:
  "port_inv st \<Longrightarrow> nodeNameToPort st n = Some p \<Longrightarrow> portMin \<le> p \<and> p \<le> portMax"
  unfolding port_inv_def by (metis option.distinct(1))

section \<open>The interface\<close>

datatype port_op = Allocate string | Release string

fun run_port_ops ::
  "('s \<Rightarrow> string \<Rightarrow> string res \<times> 's) \<Rightarrow> ('s \<Rightarrow> string \<Rightarrow> 's) \<Rightarrow> 's \<Rightarrow> port_op list \<Rightarrow> 's" where
  "run_port_ops alloc release s [] = s"
| "run_port_ops alloc release s (Allocate n # ops) =
     run_port_ops alloc release (snd (alloc s n)) ops"
| "run_port_ops alloc release s (Release n # ops) = run_port_ops alloc release (release s n) ops"

locale port_allocator =
  fixes alloc :: "'s \<Rightarrow> string \<Rightarrow> string res \<times> 's"
    and release :: "'s \<Rightarrow> string \<Rightarrow> 's"
    and port_of :: "'s \<Rightarrow> string \<Rightarrow> int option"
    and inv :: "'s \<Rightarrow> bool"
  assumes alloc_keeps: "inv s \<Longrightarrow> inv (snd (alloc s n))"
    and release_keeps: "inv s \<Longrightarrow> inv (release s n)"
    and alloc_held: "port_of s n = Some p \<Longrightarrow> alloc s n = (Inr (Itoa p), s)"
    and alloc_ok: "alloc s n = (Inr t, s') \<Longrightarrow> \<exists>p. t = Itoa p \<and> port_of s' n = Some p"
    and alloc_frame: "m \<noteq> n \<Longrightarrow> port_of (snd (alloc s n)) m = port_of s m"
    and release_self: "port_of (release s n) n = None"
    and release_frame: "m \<noteq> n \<Longrightarrow> port_of (release s n) m = port_of s m"
    and exclusive: "inv s \<Longrightarrow> port_of s n = Some p \<Longrightarrow> port_of s m = Some p \<Longrightarrow> n = m"
    and in_int64: "inv s \<Longrightarrow> port_of s n = Some p \<Longrightarrow> int64_min \<le> p \<and> p \<le> int64_max"
begin

lemma run_keeps: "inv s \<Longrightarrow> inv (run_port_ops alloc release s ops)"
proof (induction ops arbitrary: s)
  case (Cons op ops)
  then show ?case by (cases op) (simp_all add: alloc_keeps release_keeps)
qed simp

lemma alloc_keeps_port: "port_of s n = Some p \<Longrightarrow> port_of (snd (alloc s m)) n = Some p"
  by (cases "m = n") (simp_all add: alloc_held alloc_frame)

lemma run_keeps_port:
  assumes "port_of s n = Some p" and "Release n \<notin> set ops"
  shows "port_of (run_port_ops alloc release s ops) n = Some p"
  using assms
proof (induction ops arbitrary: s)
  case (Cons op ops)
  then show ?case by (cases op) (simp_all add: alloc_keeps_port release_frame)
qed simp

text \<open>A node that asks again, whatever the others did meanwhile, gets the same answer.\<close>

lemma alloc_stable:
  assumes "alloc s n = (Inr t, s')" and "Release n \<notin> set ops"
  shows "alloc (run_port_ops alloc release s' ops) n =
    (Inr t, run_port_ops alloc release s' ops)"
proof -
  from alloc_ok [OF assms(1)] obtain p where "t = Itoa p" "port_of s' n = Some p" by blast
  with run_keeps_port [OF _ assms(2)] show ?thesis by (simp add: alloc_held)
qed

text \<open>Two nodes that hold ports at the same time were given different answers.\<close>

lemma alloc_distinct:
  assumes "inv s" "alloc s n = (Inr t, s')" "Release n \<notin> set ops" "m \<noteq> n"
    and "alloc (run_port_ops alloc release s' ops) m = (Inr u, s'')"
  shows "u \<noteq> t"
proof
  assume "u = t"
  let ?r = "run_port_ops alloc release s' ops"
  from alloc_ok [OF assms(2)] obtain p where p: "t = Itoa p" "port_of s' n = Some p" by blast
  have s'': "s'' = snd (alloc ?r m)" using assms(5) by simp
  have "inv s'" using alloc_keeps [OF assms(1), of n] assms(2) by simp
  then have "inv s''" using s'' by (simp add: alloc_keeps run_keeps)
  have n: "port_of s'' n = Some p"
    unfolding s'' by (intro alloc_keeps_port run_keeps_port p(2) assms(3))
  from alloc_ok [OF assms(5)] obtain q where q: "u = Itoa q" "port_of s'' m = Some q" by blast
  from q p \<open>u = t\<close> have "p = q"
    using in_int64 [OF \<open>inv s''\<close>] n q(2) by (intro Itoa_inject) auto
  with exclusive [OF \<open>inv s''\<close> n] q(2) assms(4) show False by auto
qed

end

lemma Itoa_takePort: "nodeNameToPort (takePort st p n) n = Some p"
  by (simp add: takePort_def)

lemma allocate_held:
  "nodeNameToPort st n = Some p \<Longrightarrow> allocateProxierPort st n = (Inr (Itoa p), st)"
  by (simp add: allocateProxierPort_def)

lemma release_port_of:
  "nodeNameToPort (releaseProxierPort st n) m = (if m = n then None else nodeNameToPort st m)"
  by (simp add: releaseProxierPort_def split: option.split)

interpretation pa: port_allocator allocateProxierPort releaseProxierPort nodeNameToPort port_inv
proof unfold_locales
  fix s :: port_state and n t s'
  assume ok: "allocateProxierPort s n = (Inr t, s')"
  show "\<exists>p. t = Itoa p \<and> nodeNameToPort s' n = Some p"
    by (rule allocate_cases [where st = s and n = n]) (use ok Itoa_takePort in auto)
next
  fix s :: port_state and n m :: string
  assume "m \<noteq> n"
  show "nodeNameToPort (snd (allocateProxierPort s n)) m = nodeNameToPort s m"
    by (rule allocate_cases [where st = s and n = n])
      (use \<open>m \<noteq> n\<close> in \<open>simp_all add: takePort_def\<close>)
next
  fix s :: port_state and n p
  assume "port_inv s" "nodeNameToPort s n = Some p"
  then have "portMin \<le> p \<and> p \<le> portMax" by (rule port_inv_range)
  then show "int64_min \<le> p \<and> p \<le> int64_max"
    by (simp add: portMin_def portMax_def int64_min_def int64_max_def)
qed (auto simp: allocate_inv release_inv allocate_held release_port_of intro: port_inv_exclusive)

section \<open>Every interleaving\<close>

inductive port_reach :: "port_state \<Rightarrow> port_state \<Rightarrow> bool" for init where
  start: "port_reach init init"
| allocate: "port_reach init st \<Longrightarrow> port_reach init (snd (allocateProxierPort st n))"
| release: "port_reach init st \<Longrightarrow> port_reach init (releaseProxierPort st n)"

inductive_cases port_reachE: "port_reach init st"

lemma port_reach_inv: "port_reach init st \<Longrightarrow> port_inv init \<Longrightarrow> port_inv st"
  by (induction rule: port_reach.induct) (simp_all add: pa.alloc_keeps pa.release_keeps)

text \<open>What the cache holds after a restart, for a cluster whose nodes have distinct names and ports.\<close>

definition vnode_port :: "node \<Rightarrow> int option" where
  "vnode_port vnode = Option.bind (mLabels (nMeta vnode) LabelProxierPort) Atoi"

definition ports_ok :: "node list \<Rightarrow> bool" where
  "ports_ok vnodes \<longleftrightarrow> distinct (map (mName \<circ> nMeta) vnodes) \<and>
     distinct (List.map_filter vnode_port vnodes) \<and>
     list_all (\<lambda>p. portMin \<le> p \<and> p \<le> portMax) (List.map_filter vnode_port vnodes)"

lemma loadPort_alt: "loadPort st vnode =
    (case vnode_port vnode of None \<Rightarrow> st | Some p \<Rightarrow> takePort st p (mName (nMeta vnode)))"
  by (simp add: loadPort_def vnode_port_def split: option.splits Option.bind_split)

lemma foldl_loadPort_inv:
  assumes "port_inv st" and "ports_ok vnodes"
    and "\<forall>v\<in>set vnodes. nodeNameToPort st (mName (nMeta v)) = None"
    and "\<forall>p\<in>set (List.map_filter vnode_port vnodes). allocatedPorts st p = None"
  shows "port_inv (foldl loadPort st vnodes)"
  using assms
proof (induction vnodes arbitrary: st)
  case (Cons v vs)
  show ?case
  proof (cases "vnode_port v")
    case None
    then have "loadPort st v = st" by (simp add: loadPort_alt)
    with Cons None show ?thesis by (simp add: ports_ok_def List.map_filter_simps)
  next
    case (Some p)
    let ?st = "takePort st p (mName (nMeta v))"
    from Cons.prems Some have "port_inv ?st"
      by (intro takePort_inv) (auto simp: ports_ok_def List.map_filter_simps)
    moreover from Cons.prems Some have "ports_ok vs"
      by (simp add: ports_ok_def List.map_filter_simps)
    moreover from Cons.prems Some have "\<forall>w\<in>set vs. nodeNameToPort ?st (mName (nMeta w)) = None"
      by (auto simp: takePort_def ports_ok_def image_iff)
    moreover from Cons.prems Some
    have "\<forall>q\<in>set (List.map_filter vnode_port vs). allocatedPorts ?st q = None"
      by (auto simp: takePort_def ports_ok_def List.map_filter_simps)
    ultimately have "port_inv (foldl loadPort ?st vs)" by (rule Cons.IH)
    moreover have "loadPort st v = ?st" using Some by (simp add: loadPort_alt)
    ultimately show ?thesis by simp
  qed
qed simp

lemma load_inv: "ports_ok vnodes \<Longrightarrow> port_inv (foldl loadPort no_ports vnodes)"
  by (rule foldl_loadPort_inv) (simp_all add: port_inv_def no_ports_def)

lemma foldl_loadPort_port:
  assumes "distinct (map (mName \<circ> nMeta) vnodes)" and "v \<in> set vnodes" and "vnode_port v = Some p"
  shows "nodeNameToPort (foldl loadPort st vnodes) (mName (nMeta v)) = Some p"
proof -
  have frame: "nodeNameToPort (foldl loadPort st vs) n = nodeNameToPort st n"
    if "n \<notin> (mName \<circ> nMeta) ` set vs" for st vs n
    using that
    by (induction vs arbitrary: st) (auto simp: loadPort_alt takePort_def split: option.splits)
  from assms(1,2) show ?thesis
  proof (induction vnodes arbitrary: st)
    case (Cons w ws)
    show ?case
    proof (cases "v \<in> set ws")
      case True
      with Cons show ?thesis by simp
    next
      case False
      with Cons.prems have "w = v" "mName (nMeta v) \<notin> (mName \<circ> nMeta) ` set ws" by auto
      moreover have "nodeNameToPort (loadPort st v) (mName (nMeta v)) = Some p"
        using assms(3) by (simp add: loadPort_alt takePort_def)
      ultimately show ?thesis by (simp add: frame)
    qed
  qed simp
qed

section \<open>Properties\<close>

text \<open>
  C8. After a start on a listing of virtual nodes whose port labels are distinct numbers in range, which the code does not check,
  and after any sequence of allocations and releases by the workers, two nodes that
  hold the same port are the same node, and the port lies between 15000 and 65535.
\<close>

theorem ports_exclusive:
  assumes "ports_ok vnodes" and "port_reach (foldl loadPort no_ports vnodes) st"
    and "nodeNameToPort st n = Some p" and "nodeNameToPort st m = Some p"
  shows "n = m \<and> 15000 \<le> p \<and> p \<le> 65535"
proof -
  have inv: "port_inv st" using port_reach_inv [OF assms(2) load_inv [OF assms(1)]] .
  from pa.exclusive [OF inv assms(3,4)] port_inv_range [OF inv assms(3)] show ?thesis
    by (simp add: portMin_def portMax_def)
qed

definition port_node :: "string \<Rightarrow> string \<Rightarrow> node" where
  "port_node n p = empty_node\<lparr>nMeta := empty_meta\<lparr>mName := n, mLabels := [LabelProxierPort \<mapsto> p]\<rparr>\<rparr>"

lemma vnode_port_port_node [simp]: "vnode_port (port_node n s) = Atoi s"
  by (simp add: vnode_port_def port_node_def)

lemma name_port_node [simp]: "mName (nMeta (port_node n s)) = n"
  by (simp add: port_node_def)

lemma Atoi_examples [simp]: "Atoi ''15001'' = Some 15001" "Atoi ''20000'' = Some 20000"
  by (simp_all add: Atoi_def Atoi_digits_def is_digit_def read_digits_def digit_val_def
      int64_min_def int64_max_def)

lemma ports_ok_example [simp]: "ports_ok [port_node ''v1'' ''15001'', port_node ''v2'' ''20000'']"
  by (simp add: ports_ok_def List.map_filter_simps portMin_def portMax_def)

theorem ports_exclusive_witness:
  "let vnodes = [port_node ''v1'' ''15001'', port_node ''v2'' ''20000''];
       st = releaseProxierPort (foldl loadPort no_ports vnodes) ''v1''
   in ports_ok vnodes \<and> port_reach (foldl loadPort no_ports vnodes) st \<and>
      nodeNameToPort st ''v2'' = Some 20000 \<and> (15000::int) \<le> 20000"
proof -
  let ?vs = "[port_node ''v1'' ''15001'', port_node ''v2'' ''20000'']"
  have r: "port_reach (foldl loadPort no_ports ?vs)
      (releaseProxierPort (foldl loadPort no_ports ?vs) ''v1'')"
    by (intro port_reach.intros)
  have p: "nodeNameToPort (releaseProxierPort (foldl loadPort no_ports ?vs) ''v1'') ''v2'' = Some 20000"
    by (simp add: release_port_of loadPort_alt takePort_def)
  show ?thesis
    using ports_exclusive [OF ports_ok_example r p p] r p by (simp add: Let_def)
qed

text \<open>
  The labels matter: started on two nodes with the same port label, the cache gives the port away once one of them is
  released, although the other still holds it.
\<close>

theorem duplicate_label_given_away:
  "let st = releaseProxierPort (foldl loadPort no_ports [port_node ''v1'' ''20000'', port_node ''v2'' ''20000'']) ''v1''
   in nodeNameToPort st ''v2'' = Some 20000 \<and> allocatedPorts st 20000 = None"
  by (simp add: Let_def loadPort_alt takePort_def releaseProxierPort_def no_ports_def)

text \<open>
  C9. The port search is complete: a node without a port is refused only when all 50536 ports
  of the range are taken, and otherwise gets one that nobody held; the state is unchanged on
  refusal.
\<close>

theorem allocate_complete:
  "case allocateProxierPort st n of
     (Inl e, st') \<Rightarrow> st' = st \<and> nodeNameToPort st n = None \<and>
        (\<forall>p. 15000 \<le> p \<longrightarrow> p \<le> 65535 \<longrightarrow> allocatedPorts st p \<noteq> None)
   | (Inr s, st') \<Rightarrow> \<exists>p. s = Itoa p \<and> nodeNameToPort st' n = Some p \<and>
        (nodeNameToPort st n = Some p \<and> st' = st \<or>
         nodeNameToPort st n = None \<and> allocatedPorts st p = None \<and> 15000 \<le> p \<and> p \<le> 65535)"
  by (rule allocate_cases [where st = st and n = n])
    (auto simp: Itoa_takePort portMin_def portMax_def)

theorem allocate_complete_witness:
  "let st = foldl loadPort no_ports [port_node ''v1'' ''15001'']
   in allocateProxierPort st ''v1'' = (Inr (Itoa 15001), st)"
  using allocate_complete [of "foldl loadPort no_ports [port_node ''v1'' ''15001'']" "''v1''"]
  by (simp add: Let_def allocate_held loadPort_alt takePort_def)

text \<open>
  The answers the node controller builds on: between its allocation and its release a
  node gets the same port every time it asks, whatever the other nodes do meanwhile, and no
  other node is given that port.
\<close>

theorem allocate_stable_distinct:
  assumes "port_inv st" and "allocateProxierPort st n = (Inr t, st')" and "Release n \<notin> set ops"
  shows "let later = run_port_ops allocateProxierPort releaseProxierPort st' ops
         in allocateProxierPort later n = (Inr t, later) \<and>
            (\<forall>m u later'. m \<noteq> n \<longrightarrow> allocateProxierPort later m = (Inr u, later') \<longrightarrow> u \<noteq> t)"
  unfolding Let_def using pa.alloc_stable [OF assms(2,3)] pa.alloc_distinct [OF assms] by blast

theorem allocate_stable_distinct_witness:
  "let st = foldl loadPort no_ports [port_node ''v1'' ''15001'', port_node ''v2'' ''20000''];
       later = run_port_ops allocateProxierPort releaseProxierPort st [Release ''v2'']
   in port_inv st \<and> allocateProxierPort later ''v1'' = (Inr (Itoa 15001), later)"
proof -
  let ?st = "foldl loadPort no_ports [port_node ''v1'' ''15001'', port_node ''v2'' ''20000'']"
  have inv: "port_inv ?st" by (rule load_inv) simp
  have "allocateProxierPort ?st ''v1'' = (Inr (Itoa 15001), ?st)"
    by (rule allocate_held) (simp add: loadPort_alt takePort_def)
  from allocate_stable_distinct [OF inv this, of "[Release ''v2'']"] inv show ?thesis
    by (simp only: Let_def) simp
qed

text \<open>
  A restart keeps the ports: when the cache is rebuilt from the listed virtual nodes, each
  node whose label is a number is given that number again, and the allocator starts in its
  invariant.
\<close>

theorem restart_keeps_ports:
  assumes "ports_ok vnodes"
    and "run_state (InitAllocatedPortsCache A) w = ((st, Inr ()), w')"
    and "hist w' = hist w @ [EvList VirtualClient KNode list_all_objs (Inr (map ONode vnodes))]"
    and "v \<in> set vnodes" and "mLabels (nMeta v) LabelProxierPort = Some s" and "Atoi s = Some p"
  shows "port_inv st \<and> allocateProxierPort st (mName (nMeta v)) = (Inr (Itoa p), st)"
proof -
  have nodes: "List.map_filter the_node (map ONode vs) = vs" for vs
    by (induction vs) (simp_all add: List.map_filter_simps)
  have st: "st = foldl loadPort no_ports vnodes"
    using assms(2,3)
    by (auto simp: InitAllocatedPortsCache_def run_ops nodes split: prod.splits sum.splits)
  have "vnode_port v = Some p" using assms(5,6) by (simp add: vnode_port_def)
  then have "nodeNameToPort st (mName (nMeta v)) = Some p"
    unfolding st using assms(1,4) by (intro foldl_loadPort_port) (simp_all add: ports_ok_def)
  then show ?thesis
    using load_inv [OF assms(1)] st by (simp add: allocate_held)
qed

theorem restart_keeps_ports_witness:
  "let vnodes = [port_node ''v1'' ''15001'', port_node ''v2'' ''20000''];
       r = run_state (InitAllocatedPortsCache scripted)
             \<lparr>srv = [AList (Inr (map ONode vnodes))], hist = []\<rparr>;
       st = fst (fst r)
   in snd (fst r) = Inr () \<and> allocateProxierPort st ''v2'' = (Inr (Itoa 20000), st)"
proof -
  let ?vs = "[port_node ''v1'' ''15001'', port_node ''v2'' ''20000'']"
  let ?w = "\<lparr>srv = [AList (Inr (map ONode ?vs))], hist = []\<rparr>"
  have run: "run_state (InitAllocatedPortsCache scripted) ?w =
      ((foldl loadPort no_ports ?vs, Inr ()), \<lparr>srv = [],
        hist = hist ?w @ [EvList VirtualClient KNode list_all_objs (Inr (map ONode ?vs))]\<rparr>)"
    by (simp add: InitAllocatedPortsCache_def run_ops scripted_def List.map_filter_simps)
  have "mLabels (nMeta (port_node ''v2'' ''20000'')) LabelProxierPort = Some ''20000''"
    by (simp add: port_node_def)
  from restart_keeps_ports [OF ports_ok_example run _ _ this, of 20000] run show ?thesis
    by (simp only: Let_def) simp
qed

end
