(* ===== verification/Go_Md5.thy ===== *)
theory Go_Md5
  imports Kube_Prelude
begin

unbundle bit_operations_syntax

text \<open>
  \<^verbatim>\<open>crypto/md5\<close> of the Go standard library (RFC 1321), which the program uses to shorten
  names: \<^verbatim>\<open>fmt.Sprintf("%x", md5.Sum([]byte(s)))\<close>. Executable; the lemmas used elsewhere
  are the length and the alphabet of the hexadecimal digest.
\<close>

type_synonym u32 = "32 word"

definition md5_K :: "u32 list" where
  "md5_K = [
     3614090360, 3905402710, 606105819, 3250441966, 4118548399, 1200080426, 2821735955, 4249261313,
     1770035416, 2336552879, 4294925233, 2304563134, 1804603682, 4254626195, 2792965006, 1236535329,
     4129170786, 3225465664, 643717713, 3921069994, 3593408605, 38016083, 3634488961, 3889429448,
     568446438, 3275163606, 4107603335, 1163531501, 2850285829, 4243563512, 1735328473, 2368359562,
     4294588738, 2272392833, 1839030562, 4259657740, 2763975236, 1272893353, 4139469664, 3200236656,
     681279174, 3936430074, 3572445317, 76029189, 3654602809, 3873151461, 530742520, 3299628645,
     4096336452, 1126891415, 2878612391, 4237533241, 1700485571, 2399980690, 4293915773, 2240044497,
     1873313359, 4264355552, 2734768916, 1309151649, 4149444226, 3174756917, 718787259, 3951481745]"

definition md5_S :: "nat list" where
  "md5_S = concat (replicate 4 [7, 12, 17, 22]) @ concat (replicate 4 [5, 9, 14, 20]) @
     concat (replicate 4 [4, 11, 16, 23]) @ concat (replicate 4 [6, 10, 15, 21])"

text \<open>The message as bytes, padded to a multiple of 64 with its bit length at the end.\<close>

definition le_bytes :: "nat \<Rightarrow> nat \<Rightarrow> nat list" where
  "le_bytes k n = map (\<lambda>i. n div 256 ^ i mod 256) [0..<k]"

definition md5_pad :: "nat list \<Rightarrow> nat list" where
  "md5_pad bs = bs @ [128] @ replicate ((119 - length bs mod 64) mod 64) 0 @
     le_bytes 8 (8 * length bs)"

definition le_word :: "nat list \<Rightarrow> u32" where
  "le_word bs = of_nat (foldr (\<lambda>b n. b + 256 * n) bs 0)"

fun chunks :: "nat \<Rightarrow> nat \<Rightarrow> 'a list \<Rightarrow> 'a list list" where
  "chunks 0 k xs = []"
| "chunks (Suc n) k xs = take k xs # chunks n k (drop k xs)"

fun md5_mix :: "nat \<Rightarrow> u32 \<Rightarrow> u32 \<Rightarrow> u32 \<Rightarrow> u32 \<times> nat" where
  "md5_mix i b c d =
    (if i < 16 then ((b AND c) OR (NOT b AND d), i)
     else if i < 32 then ((d AND b) OR (NOT d AND c), (5 * i + 1) mod 16)
     else if i < 48 then (b XOR c XOR d, (3 * i + 5) mod 16)
     else (c XOR (b OR NOT d), (7 * i) mod 16))"

fun md5_step :: "u32 list \<Rightarrow> nat \<Rightarrow> u32 \<times> u32 \<times> u32 \<times> u32 \<Rightarrow> u32 \<times> u32 \<times> u32 \<times> u32" where
  "md5_step M i (a, b, c, d) =
    (let (f, g) = md5_mix i b c d
     in (d, b + word_rotl (md5_S ! i) (f + a + md5_K ! i + M ! g), b, c))"

fun md5_block :: "nat list \<Rightarrow> u32 \<times> u32 \<times> u32 \<times> u32 \<Rightarrow> u32 \<times> u32 \<times> u32 \<times> u32" where
  "md5_block bs (a, b, c, d) =
    (let M = map le_word (chunks 16 4 bs);
         (a', b', c', d') = fold (md5_step M) [0..<64] (a, b, c, d)
     in (a + a', b + b', c + c', d + d'))"

definition md5_Sum :: "nat list \<Rightarrow> nat list" where
  "md5_Sum bs =
    (let p = md5_pad bs;
         (a, b, c, d) = fold md5_block (chunks (length p div 64) 64 p)
           (1732584193, 4023233417, 2562383102, 271733878)
     in concat (map (\<lambda>w. le_bytes 4 (unat w)) [a, b, c, d]))"

definition hex_char :: "nat \<Rightarrow> char" where
  "hex_char d = (if d < 10 then char_of (48 + d) else char_of (87 + d))"

definition hex_bytes :: "nat list \<Rightarrow> string" where
  "hex_bytes bs = concat (map (\<lambda>b. [hex_char (b div 16), hex_char (b mod 16)]) bs)"

definition md5_hex :: "string \<Rightarrow> string" where
  "md5_hex s = hex_bytes (md5_Sum (map of_char s))"

lemma length_le_bytes [simp]: "length (le_bytes k n) = k"
  by (simp add: le_bytes_def)

lemma le_bytes_less: "b \<in> set (le_bytes k n) \<Longrightarrow> b < 256"
  by (auto simp: le_bytes_def)

lemma length_md5_Sum [simp]: "length (md5_Sum bs) = 16"
  by (simp add: md5_Sum_def Let_def split: prod.splits)

lemma md5_Sum_less: "b \<in> set (md5_Sum bs) \<Longrightarrow> b < 256"
  by (auto simp: md5_Sum_def Let_def dest: le_bytes_less split: prod.splits)

lemma length_hex_bytes [simp]: "length (hex_bytes bs) = 2 * length bs"
  by (induction bs) (simp_all add: hex_bytes_def)

lemma length_md5_hex [simp]: "length (md5_hex s) = 32"
  by (simp add: md5_hex_def)

definition is_hex :: "char \<Rightarrow> bool" where
  "is_hex c \<longleftrightarrow> is_digit c \<or> 97 \<le> (of_char c :: nat) \<and> (of_char c :: nat) \<le> 102"

lemma is_hex_hex_char: "d < 16 \<Longrightarrow> is_hex (hex_char d)"
  by (auto simp: is_hex_def is_digit_def hex_char_def)

lemma hex_bytes_alphabet: "\<forall>b\<in>set bs. b < 256 \<Longrightarrow> list_all is_hex (hex_bytes bs)"
proof (induction bs)
  case Nil
  then show ?case by (simp add: hex_bytes_def)
next
  case (Cons b bs)
  then have "b div 16 < 16" by auto
  then have "is_hex (hex_char (b div 16))" and "is_hex (hex_char (b mod 16))"
    by (auto intro: is_hex_hex_char)
  with Cons show ?case by (simp add: hex_bytes_def)
qed

lemma md5_hex_alphabet: "list_all is_hex (md5_hex s)"
  unfolding md5_hex_def by (rule hex_bytes_alphabet) (auto dest: md5_Sum_less)

end
