(* ===== verification/Naming.thy ===== *)
theory Naming
  imports Kube_Objects Go_Md5 Kube_Api
begin

text \<open>
  The names the program derives: the virtual node of a physical node
  (\<^verbatim>\<open>pkg/utils/node.go\<close>), the physical copy of a namespaced resource
  (\<^verbatim>\<open>pkg/syncer/topdown/common/common.go\<close>) and the host name of a pod
  (\<^verbatim>\<open>pkg/utils/pod.go\<close>); and the two predicates on pods of \<^verbatim>\<open>pkg/utils/pod.go\<close>.
\<close>

definition VirtualNodePrefix :: string where [kube_consts]: "VirtualNodePrefix = ''vnode''"
definition MaxNodeNameLength :: nat where "MaxNodeNameLength = 63"
definition TruncatedPrefixLength :: nat where "TruncatedPrefixLength = 30"

definition originalName :: "string \<Rightarrow> string \<Rightarrow> string" where
  "originalName clusterID physicalNodeName =
     VirtualNodePrefix @ ''-'' @ clusterID @ ''-'' @ physicalNodeName"

definition GenerateVirtualNodeName :: "string \<Rightarrow> string \<Rightarrow> string" where
  "GenerateVirtualNodeName clusterID physicalNodeName =
    (let name = originalName clusterID physicalNodeName
     in if length name < 64 then name
        else take TruncatedPrefixLength name @ ''-'' @ md5_hex name)"

definition GeneratePhysicalResourceName :: "string \<Rightarrow> string \<Rightarrow> string" where
  "GeneratePhysicalResourceName name namespace =
    (let truncatedName = (if length name > 30 then take 30 name else name);
         input = namespace @ ''/'' @ name
     in truncatedName @ ''-'' @ md5_hex input)"

definition TruncateHostnameIfNeeded :: "string \<Rightarrow> string res" where
  "TruncateHostnameIfNeeded hostname =
    (if length hostname \<le> 63 then Inr hostname
     else let truncated = TrimRight (take 63 hostname) ''-.''
          in if length truncated = 0 then Inl (Errorf ''hostname was invalid'') else Inr truncated)"

definition systemNamespaces :: "string list" where
  "systemNamespaces = [''kube-system'', ''kube-public'', ''kube-node-lease'', ''kubeocean-system'',
     ''kubeocean-fake'']"

definition IsSystemPod :: "pod \<Rightarrow> bool" where
  "IsSystemPod pod \<longleftrightarrow> mNamespace (poMeta pod) \<in> set systemNamespaces"

definition IsDaemonSetPod :: "pod \<Rightarrow> bool" where
  "IsDaemonSetPod pod \<longleftrightarrow> list_ex (\<lambda>ref. orKind ref = ''DaemonSet'') (mOwnerReferences (poMeta pod))"

section \<open>Lengths\<close>

text \<open>
  Every generated virtual node name fits the 63 characters Kubernetes allows for a node
  name, whatever the lengths of the cluster ID and of the physical node name.
\<close>

theorem virtual_node_name_length: "length (GenerateVirtualNodeName c n) \<le> MaxNodeNameLength"
  by (simp add: GenerateVirtualNodeName_def Let_def MaxNodeNameLength_def TruncatedPrefixLength_def)

lemma physical_name_length: "length (GeneratePhysicalResourceName n ns) \<le> 63"
  by (simp add: GeneratePhysicalResourceName_def Let_def)

section \<open>Distinctness\<close>

lemma originalName_inject [simp]: "originalName c n = originalName c n' \<longleftrightarrow> n = n'"
  by (simp add: originalName_def)

text \<open>
  Within one cluster, two physical nodes get the same virtual node name only if they are
  the same node, or the MD5 digests of their long names collide, or a long name's digest form
  happens to be another node's short name.
\<close>

theorem virtual_node_name_inject:
  assumes "GenerateVirtualNodeName c n = GenerateVirtualNodeName c n'"
  shows "n = n' \<or>
    md5_hex (originalName c n) = md5_hex (originalName c n') \<or>
    originalName c n = take 30 (originalName c n') @ ''-'' @ md5_hex (originalName c n') \<or>
    originalName c n' = take 30 (originalName c n) @ ''-'' @ md5_hex (originalName c n)"
  using assms
  by (auto simp: GenerateVirtualNodeName_def Let_def TruncatedPrefixLength_def split: if_splits)

theorem virtual_node_name_inject_witness:
  "GenerateVirtualNodeName ''c1'' ''node-a'' = GenerateVirtualNodeName ''c1'' ''node-a'' \<and>
   (''node-a'' = ''node-a'' \<or>
    md5_hex (originalName ''c1'' ''node-a'') = md5_hex (originalName ''c1'' ''node-a'') \<or>
    originalName ''c1'' ''node-a'' = take 30 (originalName ''c1'' ''node-a'') @ ''-'' @
      md5_hex (originalName ''c1'' ''node-a'') \<or>
    originalName ''c1'' ''node-a'' = take 30 (originalName ''c1'' ''node-a'') @ ''-'' @
      md5_hex (originalName ''c1'' ''node-a''))"
  using virtual_node_name_inject [of "''c1''" "''node-a''" "''node-a''"] by blast

text \<open>
  Across clusters the names are not distinct: the separator of the format may occur in a
  cluster ID (its pattern allows inner dashes), and then the nodes of two clusters share a
  virtual node, whatever the node name.
\<close>

theorem virtual_node_name_collision:
  "GenerateVirtualNodeName (a @ ''-'' @ b) n = GenerateVirtualNodeName a (b @ ''-'' @ n)"
  by (simp add: GenerateVirtualNodeName_def originalName_def)

lemma append_sep_inject:
  assumes "a @ x # b = a' @ x # b'" and "x \<notin> set a" and "x \<notin> set a'"
  shows "a = a' \<and> b = b'"
  using assms
proof (induction a arbitrary: a')
  case Nil
  then show ?case by (cases a') auto
next
  case (Cons y a)
  then show ?case by (cases a') auto
qed

text \<open>
  Two different resources of the virtual cluster (namespaces contain no slash) get the same
  physical name only if MD5 collides on two different inputs.
\<close>

theorem physical_name_inject:
  assumes "GeneratePhysicalResourceName n ns = GeneratePhysicalResourceName n' ns'"
    and "CHR ''/'' \<notin> set ns" and "CHR ''/'' \<notin> set ns'"
  shows "(n = n' \<and> ns = ns') \<or>
    (ns @ ''/'' @ n \<noteq> ns' @ ''/'' @ n' \<and> md5_hex (ns @ ''/'' @ n) = md5_hex (ns' @ ''/'' @ n'))"
proof -
  from assms(1) have "md5_hex (ns @ ''/'' @ n) = md5_hex (ns' @ ''/'' @ n')"
    unfolding GeneratePhysicalResourceName_def Let_def
    by (simp only: append_assoc [symmetric] length_md5_hex append_eq_append_conv simp_thms)
  then show ?thesis
    using append_sep_inject [of ns "CHR ''/''" n ns' n'] assms(2,3) by auto
qed

theorem physical_name_inject_witness:
  "CHR ''/'' \<notin> set ''default'' \<and>
   (''cm'' = ''cm'' \<and> ''default'' = ''default'' \<or>
    ''default'' @ ''/'' @ ''cm'' \<noteq> ''default'' @ ''/'' @ ''cm'' \<and>
    md5_hex (''default'' @ ''/'' @ ''cm'') = md5_hex (''default'' @ ''/'' @ ''cm''))"
  using physical_name_inject [of "''cm''" "''default''" "''cm''" "''default''"] by simp

section \<open>Host names\<close>

text \<open>
  A host name derived from a pod name is a prefix of it of at most 63 characters; a
  truncated one does not end in a dash or a dot; the error occurs exactly when the first 63
  characters of a longer name are all dashes and dots.
\<close>

theorem TruncateHostname_spec:
  "case TruncateHostnameIfNeeded h of
     Inr r \<Rightarrow> length r \<le> 63 \<and> (\<exists>t. h = r @ t) \<and>
            (length h \<le> 63 \<and> r = h \<or> 63 < length h \<and> r \<noteq> [] \<and> last r \<notin> {CHR ''-'', CHR ''.''})
   | Inl e \<Rightarrow> 63 < length h \<and> set (take 63 h) \<subseteq> {CHR ''-'', CHR ''.''}"
proof (cases "length h \<le> 63")
  case True
  then show ?thesis by (simp add: TruncateHostnameIfNeeded_def)
next
  case False
  let ?r = "TrimRight (take 63 h) ''-.''"
  obtain t where t: "take 63 h = ?r @ t" using TrimRight_prefix by blast
  show ?thesis
  proof (cases "?r = []")
    case True
    then have "set (take 63 h) \<subseteq> {CHR ''-'', CHR ''.''}"
      by (auto simp: TrimRight_def)
    with False True show ?thesis by (simp add: TruncateHostnameIfNeeded_def Let_def)
  next
    case nonempty: False
    have "h = ?r @ t @ drop 63 h" using t by (metis append_assoc append_take_drop_id)
    moreover have "length ?r \<le> 63" using length_TrimRight [of "take 63 h" "''-.''"] by simp
    moreover have "last ?r \<notin> {CHR ''-'', CHR ''.''}" using TrimRight_last [OF nonempty] by simp
    ultimately show ?thesis using False nonempty
      by (auto simp: TruncateHostnameIfNeeded_def Let_def)
  qed
qed

end
