(* ===== verification/Resource_Leasing.thy ===== *)
theory Resource_Leasing
  imports Naming Time_Windows Node_Selector "HOL-Library.Product_Lexorder"
begin

text \<open>
  What a physical node offers to the virtual cluster: the policies that apply to it, the one
  that is used, the requests of the pods on it and the limits of the policy
  (\<^verbatim>\<open>physical_node_controller.go\<close>). \<^verbatim>\<open>resource.Quantity\<close> belongs to apimachinery: its
  methods are the argument \<open>Q\<close>, their documented behaviour the hypothesis
  \<open>quantities_documented\<close>. The range loops over resource lists treat every resource name on
  its own, so they are written pointwise.
\<close>

record quantity_lib =
  QAdd :: "quantity \<Rightarrow> quantity \<Rightarrow> quantity"
  QSub :: "quantity \<Rightarrow> quantity \<Rightarrow> quantity"
  QCmp :: "quantity \<Rightarrow> quantity \<Rightarrow> int"
  QSign :: "quantity \<Rightarrow> int"
  QIsZero :: "quantity \<Rightarrow> bool"
  QMilliValue :: "quantity \<Rightarrow> int"
  QValue :: "quantity \<Rightarrow> int"
  QNewQuantity :: "int \<Rightarrow> quantity_format \<Rightarrow> quantity"
  QNewMilliQuantity :: "int \<Rightarrow> quantity_format \<Rightarrow> quantity"
  QMustParse :: "string \<Rightarrow> quantity"
  QString :: "quantity \<Rightarrow> string"

text \<open>The fields of \<^verbatim>\<open>PhysicalNodeReconciler\<close> that are fixed when it is set up.\<close>

record node_reconciler =
  ClusterBindingName :: string
  ClusterBinding :: "cluster_binding option"
  PrometheusVNodeBasePort :: int

section \<open>Operations\<close>

definition getClusterID :: "node_reconciler \<Rightarrow> string" where
  "getClusterID r = (case ClusterBinding r of
     Some b \<Rightarrow> (if bClusterID b \<noteq> '''' then bClusterID b else '''') | None \<Rightarrow> '''')"

definition getClusterBindingName :: "node_reconciler \<Rightarrow> string" where
  "getClusterBindingName r = (if ClusterBindingName r \<noteq> '''' then ClusterBindingName r
     else case ClusterBinding r of Some b \<Rightarrow> mName (bMeta b) | None \<Rightarrow> '''')"

definition generateVirtualNodeName :: "node_reconciler \<Rightarrow> string \<Rightarrow> string" where
  "generateVirtualNodeName r physicalNodeName =
     GenerateVirtualNodeName (getClusterID r) physicalNodeName"

definition nodeMatchesCombinedSelector ::
  "selector_lib \<Rightarrow> node \<Rightarrow> node_selector \<Rightarrow> node_selector \<Rightarrow> bool" where
  "nodeMatchesCombinedSelector S nd policySelector clusterSelector =
    (if \<not> MatchesSelector S nd policySelector then False
     else if \<not> MatchesSelector S nd clusterSelector then False
     else True)"

definition getApplicablePolicies ::
  "selector_lib \<Rightarrow> 's api \<Rightarrow> node_reconciler \<Rightarrow> node \<Rightarrow> node_selector \<Rightarrow> ('s, 'm, policy list res) prog" where
  "getApplicablePolicies S A r nd clusterSelector = do {
     policyList \<leftarrow> list_policies A PhysicalClient list_all_objs;
     return (case policyList of
         Inl e \<Rightarrow> Inl (Wrapf ''failed to list ResourceLeasingPolicies'' e)
       | Inr items \<Rightarrow> Inr (filter (\<lambda>policy. mDeletionTimestamp (pMeta policy) = None \<and>
             pCluster policy = ClusterBindingName r \<and>
             nodeMatchesCombinedSelector S nd (pNodeSelector policy) clusterSelector) items))
   }"

text \<open>
  \<^verbatim>\<open>sort.Slice\<close> with the comparison of creation time, then name. The order is total on
  policies of different names, so the result does not depend on the sorting algorithm.
\<close>

definition policy_rank :: "policy \<Rightarrow> time \<times> string" where
  "policy_rank p = (mCreationTimestamp (pMeta p), mName (pMeta p))"

definition selectPolicies :: "policy list \<Rightarrow> policy list" where
  "selectPolicies policies =
    (if length policies > 1 then take 1 (sort_key policy_rank policies) else policies)"

definition isWithinTimeWindows :: "'s api \<Rightarrow> policy \<Rightarrow> ('s, 'm, bool) prog" where
  "isWithinTimeWindows A policy = do {
     now \<leftarrow> Now A;
     let currentDay = ToLower (ckWeekday now);
     let currentTime = ckHHMM now;
     return (IsWithinTimeWindowsAt policy currentDay currentTime)
   }"

definition addRequests :: "quantity_lib \<Rightarrow> resource_list \<Rightarrow> resource_list \<Rightarrow> resource_list" where
  "addRequests Q acc requests =
    (\<lambda>resourceName. case requests resourceName of
       None \<Rightarrow> acc resourceName
     | Some quantity \<Rightarrow> (case acc resourceName of
          Some existing \<Rightarrow> Some (QAdd Q existing quantity)
        | None \<Rightarrow> Some quantity))"

definition calculatePodResourceRequests :: "quantity_lib \<Rightarrow> pod \<Rightarrow> resource_list" where
  "calculatePodResourceRequests Q pod =
    (let totalRequests = [''cpu'' \<mapsto> QMustParse Q ''0'', ''memory'' \<mapsto> QMustParse Q ''0''];
         allContainers = poInitContainers pod @ poContainers pod;
         totalRequests = foldl (\<lambda>t container. addRequests Q t (ctRequests container))
                           totalRequests allContainers
     in foldl (\<lambda>t ephemeralContainer. addRequests Q t (ctRequests ephemeralContainer))
          totalRequests (poEphemeralContainers pod))"

definition countPod :: "quantity_lib \<Rightarrow> resource_list \<Rightarrow> resource_list" where
  "countPod Q usage = usage(''pods'' \<mapsto>
     QAdd Q (case usage ''pods'' of Some podCount \<Rightarrow> podCount
             | None \<Rightarrow> \<lparr>q_amount = 0, q_format = DecimalSI\<rparr>) (QMustParse Q ''1''))"

definition usageStep ::
  "quantity_lib \<Rightarrow> resource_list \<times> resource_list \<Rightarrow> pod \<Rightarrow> resource_list \<times> resource_list" where
  "usageStep Q usage pod = (case usage of (physicalUsage, kubeoceanUsage) \<Rightarrow>
    (if psPhase (poStatus pod) \<noteq> ''Running'' \<and> psPhase (poStatus pod) \<noteq> ''Pending''
     then (physicalUsage, kubeoceanUsage)
     else let podUsage = calculatePodResourceRequests Q pod in
       if mget (mLabels (poMeta pod)) LabelManagedBy = LabelManagedByValue
       then (physicalUsage, countPod Q (addRequests Q kubeoceanUsage podUsage))
       else (countPod Q (addRequests Q physicalUsage podUsage), kubeoceanUsage)))"

definition zeroUsage :: "quantity_lib \<Rightarrow> resource_list" where
  "zeroUsage Q = [''cpu'' \<mapsto> QMustParse Q ''0'', ''memory'' \<mapsto> QMustParse Q ''0'',
     ''pods'' \<mapsto> QMustParse Q ''0'']"

definition calculateNodeResourceUsage ::
  "quantity_lib \<Rightarrow> 's api \<Rightarrow> string \<Rightarrow> ('s, 'm, (resource_list \<times> resource_list) res) prog" where
  "calculateNodeResourceUsage Q A nodeName = do {
     podList \<leftarrow> list_pods A PhysicalClient (on_node nodeName);
     return (case podList of
         Inl e \<Rightarrow> Inl (Wrapf ''failed to list pods on node'' e)
       | Inr items \<Rightarrow> Inr (foldl (usageStep Q) (zeroUsage Q, zeroUsage Q) items))
   }"

definition getBaseResources :: "node \<Rightarrow> resource_list" where
  "getBaseResources nd =
    (let totalCapacity = nCapacity nd; baseResources = nAllocatable nd
     in if baseResources = Map.empty then totalCapacity else baseResources)"

definition calculatePercentageLimit :: "quantity_lib \<Rightarrow> quantity \<Rightarrow> int \<Rightarrow> quantity" where
  "calculatePercentageLimit Q currentAvailable percent =
    (if percent \<le> 0 \<or> percent > 100 then QMustParse Q ''0''
     else if q_format currentAvailable = DecimalSI
     then let milliValue = QMilliValue Q currentAvailable;
              percentValue = quot (int64_wrap (milliValue * percent)) 100
          in QNewMilliQuantity Q percentValue DecimalSI
     else if q_format currentAvailable = BinarySI
     then let val = QValue Q currentAvailable;
              percentValue = quot (int64_wrap (val * percent)) 100
          in QNewQuantity Q percentValue BinarySI
     else let val = QValue Q currentAvailable;
              percentValue = quot (int64_wrap (val * percent)) 100
          in QNewQuantity Q percentValue (q_format currentAvailable))"

fun minLimit :: "quantity_lib \<Rightarrow> quantity \<Rightarrow> quantity list \<Rightarrow> quantity" where
  "minLimit Q m [] = m"
| "minLimit Q m (l # ls) = minLimit Q (if QCmp Q l m < 0 then l else m) ls"

definition calculateEffectiveLimit ::
  "quantity_lib \<Rightarrow> resource_limit \<Rightarrow> quantity \<Rightarrow> quantity option" where
  "calculateEffectiveLimit Q limit currentAvailable =
    (let limits = (case rlQuantity limit of
                     Some q \<Rightarrow> (if \<not> QIsZero Q q then [q] else []) | None \<Rightarrow> []);
         limits = limits @ (case rlPercent limit of
                     Some percent \<Rightarrow> (if percent > 0
                        then [calculatePercentageLimit Q currentAvailable percent] else [])
                   | None \<Rightarrow> [])
     in case limits of [] \<Rightarrow> None | l # ls \<Rightarrow> Some (minLimit Q l ls))"

definition applyResourceLimit :: "quantity_lib \<Rightarrow> resource_list \<Rightarrow> resource_limit \<Rightarrow> resource_list" where
  "applyResourceLimit Q result limit =
    (case result (rlResource limit) of
       None \<Rightarrow> result
     | Some currentAvailable \<Rightarrow>
        (case calculateEffectiveLimit Q limit currentAvailable of
           Some effectiveLimit \<Rightarrow>
             (if QCmp Q effectiveLimit currentAvailable < 0
              then result(rlResource limit \<mapsto> effectiveLimit) else result)
         | None \<Rightarrow> result))"

definition applyResourceLimits ::
  "quantity_lib \<Rightarrow> resource_list \<Rightarrow> resource_limit list \<Rightarrow> resource_list" where
  "applyResourceLimits Q availableResources resourceLimits =
     foldl (applyResourceLimit Q) availableResources resourceLimits"

definition remainingResources :: "quantity_lib \<Rightarrow> resource_list \<Rightarrow> resource_list \<Rightarrow> resource_list" where
  "remainingResources Q allocatableResources currentUsage =
    (\<lambda>resourceName. case allocatableResources resourceName of
       None \<Rightarrow> None
     | Some allocatable \<Rightarrow>
        (let used = (case currentUsage resourceName of
                       Some usedQuantity \<Rightarrow> usedQuantity | None \<Rightarrow> QMustParse Q ''0'');
             remaining = QSub Q allocatable used
         in Some (if QSign Q remaining < 0 then QMustParse Q ''0'' else remaining)))"

definition calculateAvailableResources ::
  "quantity_lib \<Rightarrow> 's api \<Rightarrow> node_reconciler \<Rightarrow> node \<Rightarrow> policy option \<Rightarrow> ('s, 'm, resource_list res) prog" where
  "calculateAvailableResources Q A r nd policy = do {
     let allocatableResources = getBaseResources nd;
     usage \<leftarrow> calculateNodeResourceUsage Q A (mName (nMeta nd));
     case usage of
       Inl e \<Rightarrow> return (Inl (Wrapf ''failed to calculate node resource usage'' e))
     | Inr (currentUsage, kubeoceanUsage) \<Rightarrow> do {
         let actualAvailable = remainingResources Q allocatableResources currentUsage;
         let availableResources = (case policy of
               None \<Rightarrow> actualAvailable
             | Some p \<Rightarrow> applyResourceLimits Q actualAvailable (pResourceLimits p));
         emit (EvMetrics (generateVirtualNodeName r (mName (nMeta nd)))
                 allocatableResources availableResources currentUsage kubeoceanUsage);
         return (Inr availableResources)
       }
   }"

section \<open>Documented behaviour of quantities\<close>

text \<open>
  \<^verbatim>\<open>Add\<close>, \<^verbatim>\<open>Sub\<close>, \<^verbatim>\<open>Cmp\<close>, \<^verbatim>\<open>Sign\<close> and \<^verbatim>\<open>IsZero\<close> act on the
  amounts; \<^verbatim>\<open>Value\<close> and \<^verbatim>\<open>MilliValue\<close> round up to a unit and to a thousandth of a
  unit where the result fits in an \<^verbatim>\<open>int64\<close> (amounts that are not negative).
\<close>

definition ceil_div :: "int \<Rightarrow> int \<Rightarrow> int" where
  "ceil_div a u = (a + u - 1) div u"

definition nano :: int where "nano = 1000000000"
definition nano_per_milli :: int where "nano_per_milli = 1000000"

definition quantities_documented :: "quantity_lib \<Rightarrow> bool" where
  "quantities_documented Q \<longleftrightarrow>
     (\<forall>a b. q_amount (QAdd Q a b) = q_amount a + q_amount b) \<and>
     (\<forall>a b. q_amount (QSub Q a b) = q_amount a - q_amount b) \<and>
     (\<forall>a b. QCmp Q a b = sgn (q_amount a - q_amount b)) \<and>
     (\<forall>a. QSign Q a = sgn (q_amount a)) \<and>
     (\<forall>a. QIsZero Q a \<longleftrightarrow> q_amount a = 0) \<and>
     (\<forall>a. 0 \<le> q_amount a \<longrightarrow> ceil_div (q_amount a) nano_per_milli \<le> int64_max \<longrightarrow>
        QMilliValue Q a = ceil_div (q_amount a) nano_per_milli) \<and>
     (\<forall>a. 0 \<le> q_amount a \<longrightarrow> ceil_div (q_amount a) nano \<le> int64_max \<longrightarrow>
        QValue Q a = ceil_div (q_amount a) nano) \<and>
     (\<forall>v f. q_amount (QNewQuantity Q v f) = v * nano) \<and>
     (\<forall>v f. q_amount (QNewMilliQuantity Q v f) = v * nano_per_milli) \<and>
     q_amount (QMustParse Q ''0'') = 0 \<and> q_amount (QMustParse Q ''1'') = nano"

lemma documented_simps:
  assumes "quantities_documented Q"
  shows "q_amount (QAdd Q a b) = q_amount a + q_amount b"
    and "q_amount (QSub Q a b) = q_amount a - q_amount b"
    and "QCmp Q a b < 0 \<longleftrightarrow> q_amount a < q_amount b"
    and "QSign Q a < 0 \<longleftrightarrow> q_amount a < 0"
    and "QIsZero Q a \<longleftrightarrow> q_amount a = 0"
    and "q_amount (QNewQuantity Q v f) = v * nano"
    and "q_amount (QNewMilliQuantity Q v f) = v * nano_per_milli"
    and "q_amount (QMustParse Q ''0'') = 0"
    and "q_amount (QMustParse Q ''1'') = nano"
  using assms by (simp_all add: quantities_documented_def)

lemma documented_values:
  assumes "quantities_documented Q" and "0 \<le> q_amount a"
  shows "ceil_div (q_amount a) nano_per_milli \<le> int64_max \<Longrightarrow>
      QMilliValue Q a = ceil_div (q_amount a) nano_per_milli"
    and "ceil_div (q_amount a) nano \<le> int64_max \<Longrightarrow> QValue Q a = ceil_div (q_amount a) nano"
  using assms by (simp_all add: quantities_documented_def)

text \<open>Exact arithmetic satisfies it.\<close>

definition exact_quantities :: quantity_lib where
  "exact_quantities = \<lparr>
     QAdd = (\<lambda>a b. a\<lparr>q_amount := q_amount a + q_amount b\<rparr>),
     QSub = (\<lambda>a b. a\<lparr>q_amount := q_amount a - q_amount b\<rparr>),
     QCmp = (\<lambda>a b. sgn (q_amount a - q_amount b)),
     QSign = (\<lambda>a. sgn (q_amount a)),
     QIsZero = (\<lambda>a. q_amount a = 0),
     QMilliValue = (\<lambda>a. ceil_div (q_amount a) nano_per_milli),
     QValue = (\<lambda>a. ceil_div (q_amount a) nano),
     QNewQuantity = (\<lambda>v f. \<lparr>q_amount = v * nano, q_format = f\<rparr>),
     QNewMilliQuantity = (\<lambda>v f. \<lparr>q_amount = v * nano_per_milli, q_format = f\<rparr>),
     QMustParse = (\<lambda>s. \<lparr>q_amount = int (read_digits s) * nano, q_format = DecimalSI\<rparr>),
     QString = (\<lambda>a. Itoa (ceil_div (q_amount a) nano))\<rparr>"

lemma exact_documented [simp]: "quantities_documented exact_quantities"
  by (simp add: quantities_documented_def exact_quantities_def read_digits_def digit_val_def)

section \<open>Limits\<close>

definition unit_of :: "quantity \<Rightarrow> int" where
  "unit_of q = (if q_format q = DecimalSI then nano_per_milli else nano)"

lemma unit_of_pos [simp]: "0 < unit_of q"
  by (simp add: unit_of_def nano_def nano_per_milli_def)

lemma unit_of_le: "unit_of q \<le> nano"
  by (simp add: unit_of_def nano_def nano_per_milli_def)

lemma ceil_div_nonneg: "0 \<le> a \<Longrightarrow> 0 < u \<Longrightarrow> 0 \<le> ceil_div a u"
  by (simp add: ceil_div_def pos_imp_zdiv_nonneg_iff)

lemma percentage_limit_value:
  assumes Q: "quantities_documented Q" and a: "0 \<le> q_amount a" and p: "0 < p" "p \<le> 100"
    and fits: "ceil_div (q_amount a) (unit_of a) * p \<le> int64_max"
  shows "q_amount (calculatePercentageLimit Q a p) =
    ceil_div (q_amount a) (unit_of a) * p div 100 * unit_of a"
proof -
  let ?c = "ceil_div (q_amount a) (unit_of a)"
  have c0: "0 \<le> ?c" using a by (simp add: ceil_div_nonneg)
  moreover have "?c * 1 \<le> ?c * p" using c0 p by (intro mult_left_mono) auto
  ultimately have c: "?c \<le> int64_max" "0 \<le> ?c * p" "int64_min \<le> ?c * p"
    using fits p by (auto simp: int64_min_def)
  have wrap: "quot (int64_wrap (?c * p)) 100 = ?c * p div 100"
    using c fits by (simp add: int64_wrap_id)
  show ?thesis
  proof (cases "q_format a = DecimalSI")
    case True
    then have u: "unit_of a = nano_per_milli" by (simp add: unit_of_def)
    from documented_values(1) [OF Q a] c(1) wrap True p show ?thesis
      unfolding u by (simp add: calculatePercentageLimit_def documented_simps [OF Q])
  next
    case False
    then have u: "unit_of a = nano" by (simp add: unit_of_def)
    from documented_values(2) [OF Q a] c(1) wrap False p show ?thesis
      unfolding u by (simp add: calculatePercentageLimit_def documented_simps [OF Q])
  qed
qed

text \<open>
  The percentage limit: for an available amount whose product with the percentage fits in
  an \<open>int64\<close>, the limit is the percentage of the amount (rounded up to the unit the code
  computes in: thousandths for decimal quantities, units otherwise), rounded down to that unit.
\<close>

theorem percentage_limit_spec:
  assumes "quantities_documented Q" and "0 \<le> q_amount a" and "0 < p" and "p \<le> 100"
    and "ceil_div (q_amount a) (unit_of a) * p \<le> int64_max"
  shows "let lim = q_amount (calculatePercentageLimit Q a p);
             whole = ceil_div (q_amount a) (unit_of a) * unit_of a
         in 0 \<le> lim \<and> unit_of a dvd lim \<and> 100 * lim \<le> p * whole \<and> p * whole < 100 * (lim + unit_of a)"
proof -
  let ?c = "ceil_div (q_amount a) (unit_of a)" and ?u = "unit_of a"
  have c: "0 \<le> ?c" using assms(2) by (simp add: ceil_div_nonneg)
  have "100 * (?c * p div 100) \<le> ?c * p" by simp
  then have low: "100 * (?c * p div 100) * ?u \<le> ?c * p * ?u" by (rule mult_right_mono) (simp add: less_imp_le)
  have "?c * p < 100 * (?c * p div 100 + 1)" by simp
  then have high: "?c * p * ?u < 100 * (?c * p div 100 + 1) * ?u" by (rule mult_strict_right_mono) simp
  have pos: "0 \<le> ?c * p div 100 * ?u"
    using c assms(3) by (simp add: pos_imp_zdiv_nonneg_iff less_imp_le)
  show ?thesis
    unfolding Let_def percentage_limit_value [OF assms]
    using low high pos by (simp add: algebra_simps)
qed

theorem percentage_limit_spec_witness:
  "let a = \<lparr>q_amount = 3500 * nano_per_milli, q_format = DecimalSI\<rparr>
   in quantities_documented exact_quantities \<and> 0 \<le> q_amount a \<and>
      ceil_div (q_amount a) (unit_of a) * 50 \<le> int64_max \<and>
      0 \<le> q_amount (calculatePercentageLimit exact_quantities a 50) \<and>
      100 * q_amount (calculatePercentageLimit exact_quantities a 50) \<le> 50 * (3500 * nano_per_milli)"
  using percentage_limit_spec
    [of exact_quantities "\<lparr>q_amount = 3500 * nano_per_milli, q_format = DecimalSI\<rparr>" 50]
  by (simp add: Let_def unit_of_def ceil_div_def nano_per_milli_def int64_max_def)

text \<open>
  The product wraps around beyond that: all of an available \<open>100T\<close>, a decimal quantity of
  \<open>10\<^sup>1\<^sup>4\<close>, is turned into a negative limit by a limit of 100 percent, which then replaces the
  available amount.
\<close>

theorem percentage_limit_overflow:
  assumes "quantities_documented Q"
  shows "let a = \<lparr>q_amount = 100000000000000 * nano, q_format = DecimalSI\<rparr>;
             limit = \<lparr>rlResource = ''ephemeral-storage'', rlQuantity = None, rlPercent = Some 100\<rparr>
         in \<exists>q. applyResourceLimits Q [''ephemeral-storage'' \<mapsto> a] [limit] ''ephemeral-storage'' = Some q \<and>
            q_amount q < 0"
proof -
  let ?a = "\<lparr>q_amount = 100000000000000 * nano, q_format = DecimalSI\<rparr>"
  have "QMilliValue Q ?a = 100000000000000000"
    using documented_values(1) [OF assms, of ?a]
    by (simp add: ceil_div_def nano_def nano_per_milli_def int64_max_def)
  then have neg: "q_amount (calculatePercentageLimit Q ?a 100) < 0"
    by (simp add: calculatePercentageLimit_def documented_simps [OF assms] int64_wrap_def quot_def
        nano_per_milli_def)
  show ?thesis
    using neg documented_simps [OF assms]
    by (simp add: applyResourceLimits_def applyResourceLimit_def calculateEffectiveLimit_def nano_def)
qed

theorem percentage_limit_overflow_witness:
  "quantities_documented exact_quantities \<and>
   (\<exists>q. applyResourceLimits exact_quantities
      [''ephemeral-storage'' \<mapsto> \<lparr>q_amount = 100000000000000 * nano, q_format = DecimalSI\<rparr>]
      [\<lparr>rlResource = ''ephemeral-storage'', rlQuantity = None, rlPercent = Some 100\<rparr>]
      ''ephemeral-storage'' = Some q \<and> q_amount q < 0)"
  using percentage_limit_overflow [OF exact_documented] by (simp only: Let_def) simp

section \<open>Applying the limits of a policy\<close>

text \<open>Amounts for which no product with a percentage leaves \<^verbatim>\<open>int64\<close>.\<close>

definition small_amount :: "int \<Rightarrow> bool" where
  "small_amount a \<longleftrightarrow> 0 \<le> a \<and> 100 * ceil_div a nano_per_milli \<le> int64_max"

lemma ceil_div_le_iff: "0 < u \<Longrightarrow> ceil_div a u \<le> k \<longleftrightarrow> a \<le> k * u"
proof -
  assume u: "0 < u"
  define d where "d = (a + u - 1) div u"
  define m where "m = (a + u - 1) mod u"
  have eq: "a + u - 1 = d * u + m" by (simp add: d_def m_def)
  have m: "0 \<le> m" "m < u" using u by (simp_all add: m_def)
  show ?thesis
  proof (cases "d \<le> k")
    case True
    then have "d * u \<le> k * u" using u by (intro mult_right_mono) auto
    then have "a \<le> k * u" using eq m by linarith
    with True show ?thesis by (simp add: ceil_div_def flip: d_def)
  next
    case False
    then have "(k + 1) * u \<le> d * u" using u by (intro mult_right_mono) auto
    then have "k * u < a" using eq m by (simp add: distrib_right)
    with False show ?thesis by (simp add: ceil_div_def flip: d_def)
  qed
qed

lemma ceil_div_lt: "0 < u \<Longrightarrow> ceil_div a u * u < a + u"
  using ceil_div_le_iff [of u a "ceil_div a u - 1"] by (simp add: algebra_simps)

lemma ceil_div_mono: "0 < u \<Longrightarrow> a \<le> b \<Longrightarrow> ceil_div a u \<le> ceil_div b u"
  by (simp add: ceil_div_def zdiv_mono1)

lemma small_amount_mono: "small_amount a \<Longrightarrow> 0 \<le> b \<Longrightarrow> b \<le> a \<Longrightarrow> small_amount b"
  using ceil_div_mono [of nano_per_milli b a] by (auto simp: small_amount_def nano_per_milli_def)

lemma small_amount_fits:
  assumes "small_amount (q_amount a)" and "0 < p" and "p \<le> 100"
  shows "ceil_div (q_amount a) (unit_of a) * p \<le> int64_max"
proof -
  let ?m = "ceil_div (q_amount a) nano_per_milli"
  have "0 \<le> ?m" using assms(1) by (simp add: small_amount_def ceil_div_nonneg nano_per_milli_def)
  moreover have "q_amount a \<le> ?m * nano_per_milli"
    using ceil_div_le_iff [of nano_per_milli "q_amount a" ?m] by (simp add: nano_per_milli_def)
  ultimately have "ceil_div (q_amount a) (unit_of a) \<le> ?m"
    by (auto simp: unit_of_def ceil_div_le_iff nano_per_milli_def nano_def)
  then have "ceil_div (q_amount a) (unit_of a) * p \<le> ?m * p"
    using assms(2) by (intro mult_right_mono) auto
  also have "\<dots> \<le> ?m * 100" using assms(3) \<open>0 \<le> ?m\<close> by (intro mult_left_mono) auto
  finally show ?thesis using assms(1) by (simp add: small_amount_def)
qed

lemma percentage_limit_bounds:
  assumes Q: "quantities_documented Q" and a: "small_amount (q_amount a)" and p: "0 < p"
  shows "0 \<le> q_amount (calculatePercentageLimit Q a p) \<and>
    100 * q_amount (calculatePercentageLimit Q a p) \<le> p * (q_amount a + nano)"
proof (cases "p \<le> 100")
  case True
  let ?c = "ceil_div (q_amount a) (unit_of a)" and ?u = "unit_of a"
  have c: "0 \<le> ?c" using a by (simp add: small_amount_def ceil_div_nonneg)
  have val: "q_amount (calculatePercentageLimit Q a p) = ?c * p div 100 * ?u"
    using percentage_limit_value [OF Q _ p True small_amount_fits [OF a p True]] a
    by (simp add: small_amount_def)
  have "?c * ?u \<le> q_amount a + nano"
    using ceil_div_lt [of ?u "q_amount a", OF unit_of_pos] unit_of_le [of a] by linarith
  then have "p * (?c * ?u) \<le> p * (q_amount a + nano)" using p by (intro mult_left_mono) auto
  moreover have "100 * (?c * p div 100) * ?u \<le> ?c * p * ?u"
    by (intro mult_right_mono) (simp_all add: less_imp_le)
  moreover have "?c * p * ?u = p * (?c * ?u)" by (simp add: mult.assoc mult.left_commute)
  ultimately have "100 * (?c * p div 100 * ?u) \<le> p * (q_amount a + nano)"
    by linarith
  moreover have "0 \<le> ?c * p div 100 * ?u"
    using c p by (simp add: pos_imp_zdiv_nonneg_iff less_imp_le)
  ultimately show ?thesis unfolding val by blast
next
  case False
  then have "q_amount (calculatePercentageLimit Q a p) = 0"
    by (simp add: calculatePercentageLimit_def documented_simps [OF Q])
  moreover have "0 \<le> p * (q_amount a + nano)"
    using a p by (simp add: small_amount_def nano_def)
  ultimately show ?thesis by simp
qed

lemma minLimit_le:
  assumes "quantities_documented Q"
  shows "q_amount (minLimit Q m ls) \<le> q_amount m \<and>
    (\<forall>l\<in>set ls. q_amount (minLimit Q m ls) \<le> q_amount l) \<and> minLimit Q m ls \<in> set (m # ls)"
proof (induction ls arbitrary: m)
  case (Cons l ls)
  from Cons [of l] Cons [of m] show ?case by (auto simp: documented_simps [OF assms])
qed simp

text \<open>What one limit promises of the amount it leaves.\<close>

definition limit_obeyed :: "resource_limit \<Rightarrow> int \<Rightarrow> int \<Rightarrow> bool" where
  "limit_obeyed limit offered q \<longleftrightarrow>
     (\<forall>l. rlQuantity limit = Some l \<longrightarrow> q_amount l \<noteq> 0 \<longrightarrow> q \<le> q_amount l) \<and>
     (\<forall>p. rlPercent limit = Some p \<longrightarrow> 0 < p \<longrightarrow> 100 * q \<le> p * (offered + nano))"

definition nonneg_limit :: "resource_limit \<Rightarrow> bool" where
  "nonneg_limit limit \<longleftrightarrow> (\<forall>l. rlQuantity limit = Some l \<longrightarrow> 0 \<le> q_amount l)"

lemma limit_obeyed_mono:
  assumes "limit_obeyed l a q" and "a \<le> b" and "q' \<le> q"
  shows "limit_obeyed l b q'"
proof -
  have "100 * q' \<le> p * (b + nano)" if "rlPercent l = Some p" "0 < p" for p
  proof -
    have "p * (a + nano) \<le> p * (b + nano)" using that assms(2) by simp
    moreover have "100 * q \<le> p * (a + nano)" using that assms(1) by (simp add: limit_obeyed_def)
    ultimately show ?thesis using assms(3) by linarith
  qed
  with assms show ?thesis by (fastforce simp: limit_obeyed_def)
qed

lemma effective_limit_bounds:
  assumes Q: "quantities_documented Q" and a: "small_amount (q_amount a)" and "nonneg_limit l"
  shows "case calculateEffectiveLimit Q l a of
      None \<Rightarrow> limit_obeyed l (q_amount a) q
    | Some e \<Rightarrow> 0 \<le> q_amount e \<and> limit_obeyed l (q_amount a) (q_amount e)"
proof -
  define qs where "qs = (case rlQuantity l of
      Some q \<Rightarrow> (if \<not> QIsZero Q q then [q] else []) | None \<Rightarrow> [])"
  define ps where "ps = (case rlPercent l of
      Some p \<Rightarrow> (if p > 0 then [calculatePercentageLimit Q a p] else []) | None \<Rightarrow> [])"
  have eff: "calculateEffectiveLimit Q l a = (case qs @ ps of [] \<Rightarrow> None | x # xs \<Rightarrow> Some (minLimit Q x xs))"
    by (simp add: calculateEffectiveLimit_def qs_def ps_def)
  have obeyed: "limit_obeyed l (q_amount a) x" if "\<forall>y\<in>set (qs @ ps). x \<le> q_amount y" for x
    using that percentage_limit_bounds [OF Q a]
    by (fastforce simp: limit_obeyed_def qs_def ps_def documented_simps [OF Q] split: if_splits)
  have nonneg: "\<forall>y\<in>set (qs @ ps). 0 \<le> q_amount y"
    using assms(3) percentage_limit_bounds [OF Q a]
    by (auto simp: qs_def ps_def nonneg_limit_def split: option.splits if_splits)
  show ?thesis
  proof (cases "qs @ ps")
    case Nil
    then show ?thesis using obeyed [of q] eff by simp
  next
    case (Cons x xs)
    with eff minLimit_le [OF Q, of x xs] nonneg obeyed [of "q_amount (minLimit Q x xs)"]
    show ?thesis by auto
  qed
qed

lemma applyResourceLimit_other: "r \<noteq> rlResource l \<Longrightarrow> applyResourceLimit Q res l r = res r"
  by (simp add: applyResourceLimit_def split: option.splits)

lemma applyResourceLimit_self:
  assumes "quantities_documented Q" and "small_amount (q_amount a)" and "nonneg_limit l"
    and "res (rlResource l) = Some a"
  shows "\<exists>q. applyResourceLimit Q res l (rlResource l) = Some q \<and> 0 \<le> q_amount q \<and>
    q_amount q \<le> q_amount a \<and> limit_obeyed l (q_amount a) (q_amount q)"
proof (cases "calculateEffectiveLimit Q l a")
  case None
  with effective_limit_bounds [OF assms(1-3), of "q_amount a"] assms(2,4) show ?thesis
    by (simp add: applyResourceLimit_def small_amount_def)
next
  case (Some e)
  with effective_limit_bounds [OF assms(1-3), of "q_amount a"]
  have e: "0 \<le> q_amount e" "limit_obeyed l (q_amount a) (q_amount e)" by simp_all
  show ?thesis
  proof (cases "q_amount e < q_amount a")
    case True
    with Some e assms(4) show ?thesis
      by (simp add: applyResourceLimit_def documented_simps [OF assms(1)])
  next
    case False
    with Some limit_obeyed_mono [OF e(2), of "q_amount a" "q_amount a"] assms(2,4) show ?thesis
      by (simp add: applyResourceLimit_def documented_simps [OF assms(1)] small_amount_def)
  qed
qed

lemma applyResourceLimits_at:
  assumes "quantities_documented Q" and "small_amount (q_amount a)" and "\<forall>l\<in>set limits. nonneg_limit l"
    and "res r = Some a"
  shows "\<exists>q. applyResourceLimits Q res limits r = Some q \<and> 0 \<le> q_amount q \<and> q_amount q \<le> q_amount a \<and>
    (\<forall>l\<in>set limits. rlResource l = r \<longrightarrow> limit_obeyed l (q_amount a) (q_amount q))"
  using assms(2-4)
proof (induction limits arbitrary: res a)
  case Nil
  then show ?case by (simp add: applyResourceLimits_def small_amount_def)
next
  case (Cons l limits)
  have step: "applyResourceLimits Q res (l # limits) = applyResourceLimits Q (applyResourceLimit Q res l) limits"
    by (simp add: applyResourceLimits_def)
  show ?case
  proof (cases "rlResource l = r")
    case False
    with Cons.prems have "applyResourceLimit Q res l r = Some a" by (simp add: applyResourceLimit_other)
    then show ?thesis using Cons.IH [of a "applyResourceLimit Q res l"] Cons.prems(1,2) False step
      by simp
  next
    case True
    with applyResourceLimit_self [OF assms(1) Cons.prems(1)] Cons.prems(2,3)
    obtain b where b: "applyResourceLimit Q res l r = Some b" "0 \<le> q_amount b"
      "q_amount b \<le> q_amount a" "limit_obeyed l (q_amount a) (q_amount b)"
      by (metis list.set_intros(1))
    from small_amount_mono [OF Cons.prems(1) b(2,3)] have "small_amount (q_amount b)" .
    then obtain q where q:
      "applyResourceLimits Q (applyResourceLimit Q res l) limits r = Some q" "0 \<le> q_amount q"
      "q_amount q \<le> q_amount b"
      "\<forall>l\<in>set limits. rlResource l = r \<longrightarrow> limit_obeyed l (q_amount b) (q_amount q)"
      using Cons.IH [of b "applyResourceLimit Q res l"] b(1) Cons.prems(2) by auto
    have "limit_obeyed m (q_amount a) (q_amount q)" if "m \<in> set (l # limits)" "rlResource m = r" for m
      using that q b limit_obeyed_mono [of m "q_amount b" "q_amount q" "q_amount a" "q_amount q"]
        limit_obeyed_mono [of l "q_amount a" "q_amount b" "q_amount a" "q_amount q"] by auto
    with q b step show ?thesis by (metis order_trans)
  qed
qed

lemma applyResourceLimits_dom: "dom (applyResourceLimits Q res limits) = dom res"
  unfolding applyResourceLimits_def
proof (induction limits arbitrary: res)
  case (Cons l limits)
  have "dom (applyResourceLimit Q res l) = dom res"
    by (auto simp: applyResourceLimit_def split: option.splits if_splits)
  with Cons show ?case by simp
qed simp


definition cpu4 :: quantity where "cpu4 = \<lparr>q_amount = 4 * nano, q_format = DecimalSI\<rparr>"

lemma small_cpu4 [simp]: "small_amount (q_amount cpu4)"
  by (simp add: cpu4_def small_amount_def ceil_div_def nano_def nano_per_milli_def int64_max_def)

definition cpu_only :: resource_list where "cpu_only = [''cpu'' \<mapsto> cpu4]"


text \<open>
  A limit whose quantity is zero is no limit: the amount available passes unchanged.
\<close>

theorem zero_quantity_limit_ignored:
  assumes "quantities_documented Q" and "q_amount z = 0"
  shows "applyResourceLimits Q avail [\<lparr>rlResource = r, rlQuantity = Some z, rlPercent = None\<rparr>] = avail"
  using assms(2) documented_simps(5) [OF assms(1)]
  by (simp add: applyResourceLimits_def applyResourceLimit_def calculateEffectiveLimit_def
      split: option.split)

theorem zero_quantity_limit_ignored_witness:
  "quantities_documented exact_quantities \<and>
   applyResourceLimits exact_quantities [''cpu'' \<mapsto> cpu4]
     [\<lparr>rlResource = ''cpu'', rlQuantity = Some \<lparr>q_amount = 0, q_format = DecimalSI\<rparr>, rlPercent = None\<rparr>] =
     [''cpu'' \<mapsto> cpu4]"
  using zero_quantity_limit_ignored [OF exact_documented, of "\<lparr>q_amount = 0, q_format = DecimalSI\<rparr>"]
  by simp

section \<open>Usage\<close>

definition amount_of :: "resource_list \<Rightarrow> string \<Rightarrow> int" where
  "amount_of rl r = (case rl r of None \<Rightarrow> 0 | Some q \<Rightarrow> q_amount q)"

definition requested :: "pod \<Rightarrow> string \<Rightarrow> int" where
  "requested pod r = sum_list (map (\<lambda>c. amount_of (ctRequests c) r)
     (poInitContainers pod @ poContainers pod @ poEphemeralContainers pod))"

definition holds_resources :: "pod \<Rightarrow> bool" where
  "holds_resources pod \<longleftrightarrow> psPhase (poStatus pod) \<in> {''Running'', ''Pending''}"

definition managed_pod :: "pod \<Rightarrow> bool" where
  "managed_pod pod \<longleftrightarrow> mLabels (poMeta pod) LabelManagedBy = Some LabelManagedByValue"

text \<open>What the pods of a list that satisfy a predicate take of a resource.\<close>

definition used_by :: "(pod \<Rightarrow> bool) \<Rightarrow> pod list \<Rightarrow> string \<Rightarrow> int" where
  "used_by P pods r = sum_list (map (\<lambda>p. requested p r + (if r = ''pods'' then nano else 0))
     (filter (\<lambda>p. holds_resources p \<and> P p) pods))"

lemma managed_pod_mget:
  "mget (mLabels (poMeta pod)) LabelManagedBy = LabelManagedByValue \<longleftrightarrow> managed_pod pod"
  by (auto simp: managed_pod_def mget_def kube_consts split: option.splits)

lemma amount_addRequests:
  "quantities_documented Q \<Longrightarrow> amount_of (addRequests Q t u) r = amount_of t r + amount_of u r"
  by (simp add: amount_of_def addRequests_def documented_simps split: option.splits)

lemma amount_foldl_addRequests:
  "quantities_documented Q \<Longrightarrow> amount_of (foldl (\<lambda>t c. addRequests Q t (f c)) t cs) r =
     amount_of t r + sum_list (map (\<lambda>c. amount_of (f c) r) cs)"
  by (induction cs arbitrary: t) (simp_all add: amount_addRequests)

lemma amount_pod_requests:
  "quantities_documented Q \<Longrightarrow> amount_of (calculatePodResourceRequests Q pod) r = requested pod r"
  by (simp add: calculatePodResourceRequests_def Let_def amount_foldl_addRequests requested_def)
    (simp add: amount_of_def documented_simps)

lemma amount_countPod:
  "quantities_documented Q \<Longrightarrow>
     amount_of (countPod Q u) r = amount_of u r + (if r = ''pods'' then nano else 0)"
  by (simp add: amount_of_def countPod_def documented_simps split: option.splits)

lemma amount_zeroUsage: "quantities_documented Q \<Longrightarrow> amount_of (zeroUsage Q) r = 0"
  by (simp add: amount_of_def zeroUsage_def documented_simps)

lemmas amount_simps = amount_addRequests amount_pod_requests amount_countPod amount_zeroUsage

lemma amount_usage:
  assumes "quantities_documented Q"
  shows "amount_of (fst (foldl (usageStep Q) u pods)) r =
      amount_of (fst u) r + used_by (\<lambda>p. \<not> managed_pod p) pods r \<and>
    amount_of (snd (foldl (usageStep Q) u pods)) r =
      amount_of (snd u) r + used_by managed_pod pods r"
proof (induction pods arbitrary: u)
  case (Cons p pods)
  have step: "amount_of (fst (usageStep Q u p)) r = amount_of (fst u) r +
        used_by (\<lambda>p. \<not> managed_pod p) [p] r"
      "amount_of (snd (usageStep Q u p)) r = amount_of (snd u) r + used_by managed_pod [p] r"
    by (auto simp: usageStep_def used_by_def holds_resources_def managed_pod_mget
        amount_simps [OF assms] Let_def split: prod.splits)
  have cons: "used_by P (p # pods) r = used_by P [p] r + used_by P pods r" for P
    by (simp add: used_by_def)
  show ?case
    by (simp only: foldl_Cons Cons.IH [of "usageStep Q u p"] step cons [of managed_pod]
        cons [of "\<lambda>p. \<not> managed_pod p"] add.assoc simp_thms)
qed (simp add: used_by_def)

lemma remainingResources_at:
  assumes "quantities_documented Q" and "base r = Some a"
  shows "\<exists>q. remainingResources Q base usage r = Some q \<and>
    q_amount q = max 0 (q_amount a - amount_of usage r)"
  using assms
  by (auto simp: remainingResources_def Let_def documented_simps amount_of_def split: option.splits)

lemma remainingResources_dom: "dom (remainingResources Q base usage) = dom base"
  by (auto simp: remainingResources_def Let_def split: option.splits)

text \<open>The amounts a node may offer, given the pods on it.\<close>

definition offer_ok :: "node \<Rightarrow> policy \<Rightarrow> pod list \<Rightarrow> resource_list \<Rightarrow> bool" where
  "offer_ok nd p pods avail \<longleftrightarrow> dom avail = dom (getBaseResources nd) \<and>
    (\<forall>x a. getBaseResources nd x = Some a \<longrightarrow>
      (let used = used_by (\<lambda>p. \<not> managed_pod p) pods x; free = max 0 (q_amount a - used)
       in 0 \<le> used \<longrightarrow> (\<exists>q. avail x = Some q \<and> 0 \<le> q_amount q \<and> q_amount q \<le> free \<and>
            (\<forall>l\<in>set (pResourceLimits p). rlResource l = x \<longrightarrow> limit_obeyed l free (q_amount q)))))"

text \<open>
  C11. What a node offers: the controller lists the pods of the node; a failed listing is
  returned as an error and nothing is reported. Otherwise exactly the resources of the node
  are offered, each amount is not negative, at most the node's amount less the requests of the
  running and pending pods that the program does not manage (and less one per such pod for the
  resource \<open>pods\<close>), and within the limits of the policy; the same list is reported to the
  metrics collector.
\<close>

theorem calculateAvailableResources_spec:
  assumes "quantities_documented Q" and "\<forall>l\<in>set (pResourceLimits p). nonneg_limit l"
    and "\<forall>x a. getBaseResources nd x = Some a \<longrightarrow> small_amount (q_amount a)"
  shows "tspec (calculateAvailableResources Q A r nd (Some p)) w (\<lambda>res evs w'.
    \<exists>listing rest. evs = EvList PhysicalClient KPod (on_node (mName (nMeta nd))) listing # rest \<and>
     (case listing of
        Inl e \<Rightarrow> rest = [] \<and> (\<exists>e'. res = Inl e')
      | Inr items \<Rightarrow> (\<exists>avail u k. res = Inr avail \<and>
          rest = [EvMetrics (generateVirtualNodeName r (mName (nMeta nd))) (getBaseResources nd) avail u k] \<and>
          offer_ok nd p (List.map_filter the_pod items) avail)))"
proof -
  let ?base = "getBaseResources nd"
  have main: "\<exists>q. applyResourceLimits Q (remainingResources Q ?base u) (pResourceLimits p) x = Some q \<and>
      0 \<le> q_amount q \<and> q_amount q \<le> max 0 (q_amount a - used_by (\<lambda>p. \<not> managed_pod p) pods x) \<and>
      (\<forall>l\<in>set (pResourceLimits p). rlResource l = x \<longrightarrow>
         limit_obeyed l (max 0 (q_amount a - used_by (\<lambda>p. \<not> managed_pod p) pods x)) (q_amount q))"
    if u: "foldl (usageStep Q) (zeroUsage Q, zeroUsage Q) pods = (u, k)" and a: "?base x = Some a"
      and used: "0 \<le> used_by (\<lambda>p. \<not> managed_pod p) pods x" for x a pods u k
  proof -
    from remainingResources_at [where base = ?base and r = x, OF assms(1) a, of u] amount_usage [OF assms(1), of "(zeroUsage Q, zeroUsage Q)" pods x]
    obtain b where b: "remainingResources Q ?base u x = Some b"
      "q_amount b = max 0 (q_amount a - used_by (\<lambda>p. \<not> managed_pod p) pods x)"
      by (auto simp: amount_zeroUsage [OF assms(1)] u)
    from assms(3) a have "small_amount (q_amount a)" by blast
    moreover have "0 \<le> q_amount b" "q_amount b \<le> q_amount a"
      using b(2) used \<open>small_amount (q_amount a)\<close> by (auto simp: small_amount_def)
    ultimately have "small_amount (q_amount b)" by (rule small_amount_mono)
    from applyResourceLimits_at [where res = "remainingResources Q ?base u" and r = x,
        OF assms(1) this assms(2) b(1)] b(2) show ?thesis by auto
  qed
  show ?thesis
    unfolding calculateAvailableResources_def calculateNodeResourceUsage_def list_pods_def
    by (intro vcg)
      (auto simp: applyResourceLimits_dom remainingResources_dom Let_def map_sum_def offer_ok_def intro!: main
         split: sum.splits prod.splits)
qed

definition cpu_node :: node where
  "cpu_node = empty_node\<lparr>nMeta := empty_meta\<lparr>mName := ''n1''\<rparr>, nAllocatable := cpu_only\<rparr>"

definition plain_policy :: policy where
  "plain_policy = night_policy\<lparr>pResourceLimits :=
     [\<lparr>rlResource = ''cpu'', rlQuantity = Some \<lparr>q_amount = 3 * nano, q_format = DecimalSI\<rparr>,
       rlPercent = Some 50\<rparr>]\<rparr>"

definition example_reconciler :: node_reconciler where
  "example_reconciler = \<lparr>ClusterBindingName = ''b1'', ClusterBinding = Some
     \<lparr>bMeta = empty_meta\<lparr>mName := ''b1''\<rparr>, bClusterID = ''c1'', bNodeSelector = None,
      bMountNamespace = ''ns'', bDisableNodeDefaultTaint = False, bPodPriorityClassName = '''',
      bRunningDaemonsetByDefault = False, bDirectScheduling = False,
     bSecretRef = \<lparr>srName = '''', srNamespace = ''''\<rparr>, bServiceNamespaces = [], bPhase = '''', bConditions = [], bLastSyncTime = None\<rparr>,
     PrometheusVNodeBasePort = 9100\<rparr>"

lemma base_cpu_node [simp]: "getBaseResources cpu_node = cpu_only"
  by (simp add: getBaseResources_def cpu_node_def empty_node_def Let_def cpu_only_def)

theorem calculateAvailableResources_spec_witness:
  "tspec (calculateAvailableResources exact_quantities scripted example_reconciler cpu_node
            (Some plain_policy)) \<lparr>srv = [AList (Inr [])], hist = []\<rparr> (\<lambda>res evs w'.
     \<forall>avail. res = Inr avail \<longrightarrow> (\<exists>pods. offer_ok cpu_node plain_policy pods avail)) \<and>
   quantities_documented exact_quantities \<and> list_all nonneg_limit (pResourceLimits plain_policy)"
proof -
  have h: "\<forall>l\<in>set (pResourceLimits plain_policy). nonneg_limit l"
      "\<forall>x a. getBaseResources cpu_node x = Some a \<longrightarrow> small_amount (q_amount a)"
    by (simp_all add: plain_policy_def nonneg_limit_def nano_def cpu_only_def)
  have "tspec (calculateAvailableResources exact_quantities scripted example_reconciler cpu_node
      (Some plain_policy)) \<lparr>srv = [AList (Inr [])], hist = []\<rparr>
      (\<lambda>res evs w'. \<forall>avail. res = Inr avail \<longrightarrow> (\<exists>pods. offer_ok cpu_node plain_policy pods avail))"
    by (rule tspec_mono [OF calculateAvailableResources_spec [OF exact_documented h]])
      (elim exE, rename_tac listing rest, case_tac listing, auto)
  with h show ?thesis by (simp add: list_all_iff)
qed

section \<open>Choosing the policy\<close>

text \<open>
  The policy that governs a node: among the policies listed, those not being deleted,
  that name this cluster binding, and whose selector and the binding's selector both match the
  node apply; of them the one created first is used, the smaller name deciding between equal
  creation times.
\<close>

theorem selected_policy:
  "tspec (getApplicablePolicies S A r nd sel) w (\<lambda>res evs w'.
     \<forall>policies. res = Inr policies \<longrightarrow>
      (\<exists>items. evs = [EvList PhysicalClient KPolicy list_all_objs (Inr items)] \<and>
        set policies = {p. OPolicy p \<in> set items \<and> mDeletionTimestamp (pMeta p) = None \<and>
          pCluster p = ClusterBindingName r \<and> MatchesSelector S nd (pNodeSelector p) \<and>
          MatchesSelector S nd sel}) \<and>
      (policies \<noteq> [] \<longrightarrow> (\<exists>p\<in>set policies. selectPolicies policies = [p] \<and>
         (\<forall>q\<in>set policies. policy_rank p \<le> policy_rank q))))"
proof -
  have listed: "set (List.map_filter the_policy items) = {p. OPolicy p \<in> set items}" for items
    by (induction items) (auto simp: List.map_filter_simps the_obj_Some split: option.splits)
  have first: "\<exists>p\<in>set policies. selectPolicies policies = [p] \<and>
      (\<forall>q\<in>set policies. policy_rank p \<le> policy_rank q)" if "policies \<noteq> []" for policies
  proof (cases "length policies > 1")
    case True
    have "length (sort_key policy_rank policies) > 1" using True by simp
    then obtain p ps where s: "sort_key policy_rank policies = p # ps"
      by (cases "sort_key policy_rank policies") simp_all
    have "sorted (map policy_rank (p # ps))" using sorted_sort_key [of policy_rank policies] s by simp
    then have "\<forall>q\<in>set (p # ps). policy_rank p \<le> policy_rank q" by auto
    moreover have "set policies = set (p # ps)" unfolding s [symmetric] by simp
    ultimately show ?thesis using True s by (auto simp: selectPolicies_def)
  next
    case False
    with that show ?thesis by (cases policies) (auto simp: selectPolicies_def)
  qed
  show ?thesis
    unfolding getApplicablePolicies_def list_policies_def
    by (intro vcg allI impI conjI first)
      (auto simp: listed nodeMatchesCombinedSelector_def split: sum.split_asm if_splits)
qed

theorem selected_policy_witness:
  "tspec (getApplicablePolicies set_selectors scripted example_reconciler cpu_node None)
     \<lparr>srv = [AList (Inr [OPolicy night_policy])], hist = []\<rparr> (\<lambda>res evs w'.
     \<forall>policies. res = Inr policies \<longrightarrow> policies \<noteq> [] \<longrightarrow>
       (\<exists>p\<in>set policies. selectPolicies policies = [p]))"
proof (rule tspec_mono [OF selected_policy], intro allI impI)
  fix res evs w' policies
  assume post: "\<forall>policies. res = Inr policies \<longrightarrow>
      (\<exists>items. evs = [EvList PhysicalClient KPolicy list_all_objs (Inr items)] \<and>
        set policies = {p. OPolicy p \<in> set items \<and> mDeletionTimestamp (pMeta p) = None \<and>
          pCluster p = ClusterBindingName example_reconciler \<and>
          MatchesSelector set_selectors cpu_node (pNodeSelector p) \<and>
          MatchesSelector set_selectors cpu_node None}) \<and>
      (policies \<noteq> [] \<longrightarrow> (\<exists>p\<in>set policies. selectPolicies policies = [p] \<and>
         (\<forall>q\<in>set policies. policy_rank p \<le> policy_rank q)))"
    and "res = Inr policies" "policies \<noteq> []"
  then have "\<exists>p\<in>set policies. selectPolicies policies = [p] \<and>
      (\<forall>q\<in>set policies. policy_rank p \<le> policy_rank q)"
    by (intro post [rule_format, THEN conjunct2, rule_format])
  then show "\<exists>p\<in>set policies. selectPolicies policies = [p]" by blast
qed

end
