(* ===== verification/Node_Metadata.thy ===== *)
theory Node_Metadata
  imports Resource_Leasing
begin

text \<open>
  The metadata of a virtual node (\<^verbatim>\<open>physical_node_controller.go\<close>): the labels, annotations,
  taints and addresses derived from the physical node, and the merge that keeps what users
  added to the virtual node by hand. The controller remembers what it wrote in the annotation
  \<^verbatim>\<open>kubeocean.io/expected-metadata\<close>; the JSON text of that value (it contains apimachinery's
  types) and \<^verbatim>\<open>reflect.DeepEqual\<close> on apimachinery's structs are the argument \<open>N\<close>.
\<close>

definition LabelVirtualNodeType :: string where [kube_consts]: "LabelVirtualNodeType = ''type''"
definition VirtualNodeTypeValue :: string where [kube_consts]: "VirtualNodeTypeValue = ''virtual-kubelet''"
definition NodeInstanceTypeLabelBeta :: string where
  [kube_consts]: "NodeInstanceTypeLabelBeta = ''beta.kubernetes.io/instance-type''"
definition NodeInstanceTypeLabel :: string where
  [kube_consts]: "NodeInstanceTypeLabel = ''node.kubernetes.io/instance-type''"
definition NodeInstanceTypeVNode :: string where [kube_consts]: "NodeInstanceTypeVNode = ''vnode''"
definition TaintKeyVirtualNodeDeleting :: string where
  [kube_consts]: "TaintKeyVirtualNodeDeleting = ''kubeocean.io/vnode-deleting''"
definition AnnotationDeletionTaintTime :: string where
  [kube_consts]: "AnnotationDeletionTaintTime = ''kubeocean.io/deletion-taint-time''"

record expected_metadata =
  emLabels :: smap
  emAnnotations :: smap
  emTaints :: "taint list"

record node_lib =
  MarshalExpected :: "expected_metadata \<Rightarrow> string res"
  UnmarshalExpected :: "string \<Rightarrow> expected_metadata res"
  DeepEqualNode :: "node \<Rightarrow> node \<Rightarrow> bool"
  DeepEqualTaints :: "taint list \<Rightarrow> taint list \<Rightarrow> bool"

section \<open>What the virtual node should look like\<close>

definition getPhysicalNodeInternalIP :: "node \<Rightarrow> string" where
  "getPhysicalNodeInternalIP physicalNode =
    (case find (\<lambda>addr. aType addr = ''InternalIP'') (nAddresses physicalNode) of
       Some addr \<Rightarrow> aAddress addr | None \<Rightarrow> '''')"

definition buildVirtualNodeAddresses :: "string \<Rightarrow> string \<Rightarrow> node_address list" where
  "buildVirtualNodeAddresses internalIP virtualNodeName =
    [\<lparr>aType = ''InternalIP'', aAddress = internalIP\<rparr>, \<lparr>aType = ''Hostname'', aAddress = virtualNodeName\<rparr>]"

definition buildVirtualNodeLabels :: "node_reconciler \<Rightarrow> string \<Rightarrow> node \<Rightarrow> string \<Rightarrow> smap" where
  "buildVirtualNodeLabels r nodeName physicalNode proxierPort =
    (let labels = mLabels (nMeta physicalNode);
         labels = labels(LabelClusterBinding \<mapsto> ClusterBindingName r);
         labels = labels(LabelPhysicalClusterID \<mapsto> getClusterID r);
         labels = labels(LabelPhysicalNodeName \<mapsto> mName (nMeta physicalNode));
         labels = labels(LabelPhysicalNodeUID \<mapsto> mUID (nMeta physicalNode));
         labels = labels(LabelManagedBy \<mapsto> ''kubeocean'');
         labels = labels(LabelVirtualNodeType \<mapsto> VirtualNodeTypeValue);
         labels = labels(NodeInstanceTypeLabel \<mapsto> NodeInstanceTypeVNode);
         labels = labels(NodeInstanceTypeLabelBeta \<mapsto> NodeInstanceTypeVNode);
         labels = labels(''kubernetes.io/hostname'' \<mapsto> nodeName);
         physicalNodeIP = getPhysicalNodeInternalIP physicalNode;
         labels = (if physicalNodeIP \<noteq> '''' then labels(LabelPhysicalNodeInnerIP \<mapsto> physicalNodeIP)
                   else labels)
     in labels(LabelProxierPort \<mapsto> proxierPort))"

definition limitDetail :: "quantity_lib \<Rightarrow> resource_limit \<Rightarrow> string" where
  "limitDetail Q limit =
    (let quantity = (case rlQuantity limit of Some q \<Rightarrow> QString Q q | None \<Rightarrow> '''');
         percent = (case rlPercent limit of Some p \<Rightarrow> Itoa p @ ''%'' | None \<Rightarrow> '''')
     in rlResource limit @ ''='' @ quantity @ ''/'' @ percent)"

definition policyDetail :: "quantity_lib \<Rightarrow> policy \<Rightarrow> string" where
  "policyDetail Q policy = mName (pMeta policy) @
    (if length (pResourceLimits policy) > 0
     then ''('' @ Join (map (limitDetail Q) (pResourceLimits policy)) '','' @ '')'' else '''')"

definition prometheusURL :: "node_reconciler \<Rightarrow> node \<Rightarrow> string \<Rightarrow> string" where
  "prometheusURL r physicalNode internalIP =
    (let virtualNodeName = generateVirtualNodeName r (mName (nMeta physicalNode));
         port = PrometheusVNodeBasePort r;
         port = (if port = 0 then 9006 else port)
     in (if internalIP \<noteq> '''' then internalIP else ''<pending>'') @ '':'' @ Itoa port @ ''/'' @ virtualNodeName)"

definition buildVirtualNodeAnnotations ::
  "quantity_lib \<Rightarrow> 's api \<Rightarrow> node_reconciler \<Rightarrow> node \<Rightarrow> policy list \<Rightarrow> string \<Rightarrow> ('s, 'm, smap) prog" where
  "buildVirtualNodeAnnotations Q A r physicalNode policies internalIP = do {
     now \<leftarrow> Now A;
     let annotations = mAnnotations (nMeta physicalNode);
     let annotations = annotations(AnnotationLastSyncTime \<mapsto> ckRFC3339 now);
     let annotations = annotations(LabelPhysicalNodeName \<mapsto> mName (nMeta physicalNode));
     let annotations = annotations(''kubeocean.io/physical-node-uid'' \<mapsto> mUID (nMeta physicalNode));
     let annotations =
       (if length policies > 0
        then annotations(AnnotationPoliciesApplied \<mapsto> Join (map (mName \<circ> pMeta) policies) '','',
                         ''kubeocean.io/policy-details'' \<mapsto> Join (map (policyDetail Q) policies) '';'')
        else annotations(AnnotationPoliciesApplied \<mapsto> ''''));
     return (annotations(AnnotationPrometheusURL \<mapsto> prometheusURL r physicalNode internalIP))
   }"

definition transformTaint :: "taint \<Rightarrow> taint list" where
  "transformTaint t =
    (if tKey t = TaintOutOfTimeWindows then []
     else if tKey t = ''node.kubernetes.io/unschedulable''
     then [\<lparr>tKey = TaintPhysicalNodeUnschedulable, tValue = tValue t, tEffect = tEffect t, tTimeAdded = None\<rparr>]
     else [t])"

definition defaultTaint :: taint where
  "defaultTaint = \<lparr>tKey = TaintVnodeDefaultTaint, tValue = '''', tEffect = ''NoSchedule'', tTimeAdded = None\<rparr>"

definition transformTaints ::
  "'s api \<Rightarrow> taint list \<Rightarrow> bool \<Rightarrow> policy option \<Rightarrow> ('s, 'm, taint list) prog" where
  "transformTaints A physicalTaints disableNodeDefaultTaint policy = do {
     let virtualTaints = concat (map transformTaint physicalTaints);
     let virtualTaints = (if \<not> disableNodeDefaultTaint then virtualTaints @ [defaultTaint] else virtualTaints);
     case policy of
       None \<Rightarrow> return virtualTaints
     | Some p \<Rightarrow> do {
         active \<leftarrow> isWithinTimeWindows A p;
         if \<not> active then do {
           let effect = (if pForceReclaim p then ''NoExecute'' else ''NoSchedule'');
           now \<leftarrow> Now A;
           return (virtualTaints @ [\<lparr>tKey = TaintOutOfTimeWindows, tValue = ''true'', tEffect = effect,
                                     tTimeAdded = Some (ckNow now)\<rparr>])
         } else return virtualTaints
       }
   }"

section \<open>Keeping what users added\<close>

definition getExpectedMetadataFromAnnotation :: "node_lib \<Rightarrow> node \<Rightarrow> expected_metadata res" where
  "getExpectedMetadataFromAnnotation N nd =
    (case mAnnotations (nMeta nd) AnnotationExpectedMetadata of
       None \<Rightarrow> Inr \<lparr>emLabels = Map.empty, emAnnotations = Map.empty, emTaints = []\<rparr>
     | Some encodedMetadata \<Rightarrow>
        (case UnmarshalExpected N encodedMetadata of
           Inl e \<Rightarrow> Inl (Wrapf ''failed to unmarshal expected metadata'' e)
         | Inr metadata \<Rightarrow> Inr metadata))"

definition saveExpectedMetadataToAnnotation :: "node_lib \<Rightarrow> node \<Rightarrow> expected_metadata \<Rightarrow> node res" where
  "saveExpectedMetadataToAnnotation N nd metadata =
    (case MarshalExpected N metadata of
       Inl e \<Rightarrow> Inl (Wrapf ''failed to marshal expected metadata'' e)
     | Inr encodedMetadata \<Rightarrow>
        Inr (nd\<lparr>nMeta := (nMeta nd)\<lparr>mAnnotations :=
               (mAnnotations (nMeta nd))(AnnotationExpectedMetadata \<mapsto> encodedMetadata)\<rparr>\<rparr>))"

definition mergeMaps :: "(string \<Rightarrow> bool) \<Rightarrow> smap \<Rightarrow> smap \<Rightarrow> smap \<Rightarrow> smap \<Rightarrow> smap" where
  "mergeMaps skip existing new previousExpected currentExpected =
    (\<lambda>key. case currentExpected key of
       Some v \<Rightarrow> Some v
     | None \<Rightarrow> (case existing key of
          Some v \<Rightarrow> (if skip key then new key
                    else if previousExpected key = None then Some v else new key)
        | None \<Rightarrow> new key))"

definition mergeLabels :: "node \<Rightarrow> node \<Rightarrow> smap \<Rightarrow> smap \<Rightarrow> node" where
  "mergeLabels existing new previousExpected currentExpected =
     new\<lparr>nMeta := (nMeta new)\<lparr>mLabels := mergeMaps (\<lambda>_. False) (mLabels (nMeta existing))
            (mLabels (nMeta new)) previousExpected currentExpected\<rparr>\<rparr>"

definition mergeAnnotations :: "node \<Rightarrow> node \<Rightarrow> smap \<Rightarrow> smap \<Rightarrow> node" where
  "mergeAnnotations existing new previousExpected currentExpected =
     new\<lparr>nMeta := (nMeta new)\<lparr>mAnnotations := mergeMaps (\<lambda>key. key = AnnotationDeletionTaintTime)
            (mAnnotations (nMeta existing)) (mAnnotations (nMeta new)) previousExpected currentExpected\<rparr>\<rparr>"

definition taintToKey :: "taint \<Rightarrow> string" where
  "taintToKey t = tKey t"

definition taintsToMap :: "taint list \<Rightarrow> (string \<rightharpoonup> taint)" where
  "taintsToMap taints = foldl (\<lambda>result t. result(taintToKey t \<mapsto> t)) Map.empty taints"

definition restoreTimeAdded :: "taint list \<Rightarrow> taint \<Rightarrow> taint" where
  "restoreTimeAdded existingTaints t =
    (if tKey t = TaintOutOfTimeWindows
     then (case find (\<lambda>e. tKey e = TaintOutOfTimeWindows \<and> tTimeAdded e \<noteq> None) existingTaints of
             Some e \<Rightarrow> t\<lparr>tTimeAdded := tTimeAdded e\<rparr> | None \<Rightarrow> t)
     else t)"

definition mergeTaints :: "node \<Rightarrow> node \<Rightarrow> taint list \<Rightarrow> taint list \<Rightarrow> node" where
  "mergeTaints existing new previousExpected currentExpected =
    (let taints = map (restoreTimeAdded (nTaints existing)) currentExpected;
         previousExpectedMap = taintsToMap previousExpected;
         currentExpectedMap = taintsToMap currentExpected
     in new\<lparr>nTaints := taints @ filter (\<lambda>t. currentExpectedMap (tKey t) = None \<and>
                tKey t \<noteq> TaintKeyVirtualNodeDeleting \<and> previousExpectedMap (tKey t) = None)
              (nTaints existing)\<rparr>)"

definition mergeWithUserCustomizations ::
  "node \<Rightarrow> node \<Rightarrow> expected_metadata \<Rightarrow> expected_metadata \<Rightarrow> node" where
  "mergeWithUserCustomizations existing new previousExpected currentExpected =
    (let new = mergeLabels existing new (emLabels previousExpected) (emLabels currentExpected);
         new = mergeAnnotations existing new (emAnnotations previousExpected) (emAnnotations currentExpected)
     in mergeTaints existing new (emTaints previousExpected) (emTaints currentExpected))"

definition expectedOf :: "node \<Rightarrow> expected_metadata" where
  "expectedOf nd = \<lparr>emLabels = mLabels (nMeta nd), emAnnotations = mAnnotations (nMeta nd), emTaints = nTaints nd\<rparr>"

definition preserveUserCustomizations :: "node_lib \<Rightarrow> node \<Rightarrow> node \<Rightarrow> node res" where
  "preserveUserCustomizations N existing new =
    (case getExpectedMetadataFromAnnotation N existing of
       Inl e \<Rightarrow> Inl (Wrapf ''failed to get previous expected metadata'' e)
     | Inr previousExpected \<Rightarrow>
        (let currentExpected = expectedOf new in
         case saveExpectedMetadataToAnnotation N new currentExpected of
           Inl e \<Rightarrow> Inl (Wrapf ''failed to save current expected metadata'' e)
         | Inr new' \<Rightarrow> Inr (mergeWithUserCustomizations existing new' previousExpected currentExpected)))"

section \<open>The merge\<close>

lemma taintsToMap_None: "taintsToMap ts k = None \<longleftrightarrow> k \<notin> tKey ` set ts"
proof -
  have "foldl (\<lambda>m t. m(taintToKey t \<mapsto> t)) m ts k = None \<longleftrightarrow> m k = None \<and> k \<notin> tKey ` set ts" for m
    by (induction ts arbitrary: m) (auto simp: taintToKey_def)
  then show ?thesis by (simp add: taintsToMap_def)
qed

lemma tKey_restoreTimeAdded [simp]: "tKey (restoreTimeAdded ts t) = tKey t"
  by (simp add: restoreTimeAdded_def split: option.splits)

text \<open>
  The map after a merge: what the controller wants now, then what it never asked for and finds
  on the node; what it asked for before and no longer wants is dropped.
\<close>

definition merged :: "smap \<Rightarrow> smap \<Rightarrow> smap \<Rightarrow> smap" where
  "merged wanted before found =
    (\<lambda>k. case wanted k of Some v \<Rightarrow> Some v | None \<Rightarrow> if before k \<noteq> None then None else found k)"

definition merged_taints :: "taint list \<Rightarrow> taint list \<Rightarrow> taint list \<Rightarrow> taint set" where
  "merged_taints wanted before found = restoreTimeAdded found ` set wanted \<union>
    {t \<in> set found. tKey t \<notin> tKey ` set wanted \<and> tKey t \<notin> tKey ` set before \<and>
       tKey t \<noteq> TaintKeyVirtualNodeDeleting}"

lemma preserve_merges:
  assumes "preserveUserCustomizations N existing new = Inr m"
    and "getExpectedMetadataFromAnnotation N existing = Inr prev"
    and "mAnnotations (nMeta new) AnnotationExpectedMetadata = Some s"
  shows "mLabels (nMeta m) = merged (mLabels (nMeta new)) (emLabels prev) (mLabels (nMeta existing))"
    and "mAnnotations (nMeta m) = merged (mAnnotations (nMeta new)) (emAnnotations prev)
           ((mAnnotations (nMeta existing))(AnnotationDeletionTaintTime := None))"
    and "set (nTaints m) = merged_taints (nTaints new) (emTaints prev) (nTaints existing)"
proof -
  from assms obtain enc where m: "m = mergeWithUserCustomizations existing
      (new\<lparr>nMeta := (nMeta new)\<lparr>mAnnotations := (mAnnotations (nMeta new))(AnnotationExpectedMetadata \<mapsto> enc)\<rparr>\<rparr>)
      prev (expectedOf new)"
    by (auto simp: preserveUserCustomizations_def saveExpectedMetadataToAnnotation_def Let_def split: sum.splits)
  note merge_defs = mergeWithUserCustomizations_def mergeLabels_def mergeAnnotations_def
    mergeTaints_def mergeMaps_def expectedOf_def merged_def
  show "mLabels (nMeta m) = merged (mLabels (nMeta new)) (emLabels prev) (mLabels (nMeta existing))"
    by (rule ext) (simp add: m merge_defs Let_def split: option.splits)
  show "mAnnotations (nMeta m) = merged (mAnnotations (nMeta new)) (emAnnotations prev)
      ((mAnnotations (nMeta existing))(AnnotationDeletionTaintTime := None))"
    by (rule ext) (auto simp: m merge_defs Let_def assms(3) split: option.splits)
  show "set (nTaints m) = merged_taints (nTaints new) (emTaints prev) (nTaints existing)"
    by (auto simp: m merge_defs merged_taints_def taintsToMap_None Let_def)
qed

text \<open>
  C12. Updating a virtual node keeps user customizations: the labels, annotations and taints
  afterwards are those the controller wants now, plus those found on the node that it neither
  wants now nor asked for last time; those it asked for last time and wants no more go away.
  Its own deletion taint and deletion time are never kept, and the time of an
  out-of-time-windows taint is carried over, so that its grace period runs on.
\<close>

theorem user_customizations_kept:
  assumes "preserveUserCustomizations N existing new = Inr m"
    and "getExpectedMetadataFromAnnotation N existing = Inr prev"
    and "AnnotationExpectedMetadata \<in> dom (mAnnotations (nMeta new))"
  shows "mLabels (nMeta m) = merged (mLabels (nMeta new)) (emLabels prev) (mLabels (nMeta existing)) \<and>
    mAnnotations (nMeta m) = merged (mAnnotations (nMeta new)) (emAnnotations prev)
      ((mAnnotations (nMeta existing))(AnnotationDeletionTaintTime := None)) \<and>
    set (nTaints m) = merged_taints (nTaints new) (emTaints prev) (nTaints existing)"
  using assms preserve_merges [OF assms(1,2)] by blast

text \<open>
  The documented property of JSON and base64 the controller relies on: decoding what was
  encoded gives the same keys (the encoding of a time drops its fraction of a second).
\<close>

definition same_keys :: "expected_metadata \<Rightarrow> expected_metadata \<Rightarrow> bool" where
  "same_keys m m' \<longleftrightarrow> dom (emLabels m) = dom (emLabels m') \<and>
     dom (emAnnotations m) = dom (emAnnotations m') \<and> map tKey (emTaints m) = map tKey (emTaints m')"

definition codec_keeps_keys :: "node_lib \<Rightarrow> bool" where
  "codec_keeps_keys N \<longleftrightarrow> (\<forall>m s. MarshalExpected N m = Inr s \<longrightarrow>
     (\<exists>m'. UnmarshalExpected N s = Inr m' \<and> same_keys m m'))"

text \<open>A codec that knows three values and fails on others, for concrete runs.\<close>

definition em :: "smap \<Rightarrow> smap \<Rightarrow> expected_metadata" where
  "em ls as = \<lparr>emLabels = ls, emAnnotations = as, emTaints = []\<rparr>"

definition samples :: "(string \<times> expected_metadata) list" where
  "samples = [(''t'', em [''team'' \<mapsto> ''x''] Map.empty), (''z'', em [''zone'' \<mapsto> ''z''] Map.empty),
     (''n'', em [''zone'' \<mapsto> ''z''] [AnnotationExpectedMetadata \<mapsto> ''z''])]"

definition sample_lib :: node_lib where
  "sample_lib = \<lparr>
     MarshalExpected = (\<lambda>m. case find (\<lambda>(s, e). same_keys m e) samples of
        Some (s, e) \<Rightarrow> Inr s | None \<Rightarrow> Inl (Errorf ''unknown value'')),
     UnmarshalExpected = (\<lambda>s. case map_of samples s of
        Some e \<Rightarrow> Inr e | None \<Rightarrow> Inl (Errorf ''unknown text'')),
     DeepEqualNode = (\<lambda>_ _. False), DeepEqualTaints = (\<lambda>_ _. False)\<rparr>"

lemma sample_lib_keeps_keys [simp]: "codec_keeps_keys sample_lib"
  unfolding codec_keeps_keys_def
proof (intro allI impI)
  fix m s
  assume "MarshalExpected sample_lib m = Inr s"
  then obtain e where "find (\<lambda>(s, e). same_keys m e) samples = Some (s, e)"
    by (auto simp: sample_lib_def split: option.splits)
  then have "(s, e) \<in> set samples" "same_keys m e" using find_SomeD by fastforce+
  moreover have "distinct (map fst samples)" by (simp add: samples_def)
  ultimately show "\<exists>m'. UnmarshalExpected sample_lib s = Inr m' \<and> same_keys m m'"
    by (simp add: sample_lib_def)
qed

lemma sample_marshal:
  "MarshalExpected sample_lib (em [''team'' \<mapsto> u] Map.empty) = Inr ''t''"
  "MarshalExpected sample_lib (em [''zone'' \<mapsto> u] Map.empty) = Inr ''z''"
  "MarshalExpected sample_lib (em [''zone'' \<mapsto> u] [AnnotationExpectedMetadata \<mapsto> v]) = Inr ''n''"
  by (simp_all add: sample_lib_def samples_def em_def same_keys_def)

definition meta_node :: "smap \<Rightarrow> smap \<Rightarrow> node" where
  "meta_node ls as = empty_node\<lparr>nMeta := empty_meta\<lparr>mLabels := ls, mAnnotations := as\<rparr>\<rparr>"

theorem user_customizations_kept_witness:
  "let existing = meta_node [''team'' \<mapsto> ''a'', ''mine'' \<mapsto> ''b''] [AnnotationExpectedMetadata \<mapsto> ''t''];
       new = meta_node [''zone'' \<mapsto> ''z''] [AnnotationExpectedMetadata \<mapsto> ''z'']
   in \<exists>m. preserveUserCustomizations sample_lib existing new = Inr m \<and>
      mLabels (nMeta m) = merged [''zone'' \<mapsto> ''z''] [''team'' \<mapsto> ''x''] [''team'' \<mapsto> ''a'', ''mine'' \<mapsto> ''b''] \<and>
      mLabels (nMeta m) ''mine'' = Some ''b'' \<and> mLabels (nMeta m) ''team'' = None"
proof -
  let ?old = "meta_node [''team'' \<mapsto> ''a'', ''mine'' \<mapsto> ''b''] [AnnotationExpectedMetadata \<mapsto> ''t'']"
  let ?new = "meta_node [''zone'' \<mapsto> ''z''] [AnnotationExpectedMetadata \<mapsto> ''z'']"
  let ?prev = "em [''team'' \<mapsto> ''x''] Map.empty"
  have prev: "getExpectedMetadataFromAnnotation sample_lib ?old = Inr ?prev"
    by (simp add: getExpectedMetadataFromAnnotation_def sample_lib_def samples_def meta_node_def)
  have "expectedOf ?new = em [''zone'' \<mapsto> ''z''] [AnnotationExpectedMetadata \<mapsto> ''z'']"
    by (simp add: expectedOf_def meta_node_def em_def empty_node_def)
  with prev obtain m where m: "preserveUserCustomizations sample_lib ?old ?new = Inr m"
    by (simp add: preserveUserCustomizations_def saveExpectedMetadataToAnnotation_def sample_marshal Let_def)
  have "mLabels (nMeta m) = merged [''zone'' \<mapsto> ''z''] [''team'' \<mapsto> ''x''] [''team'' \<mapsto> ''a'', ''mine'' \<mapsto> ''b'']"
    using user_customizations_kept [OF m prev] by (simp add: meta_node_def em_def)
  with m show ?thesis by (auto simp: Let_def merged_def)
qed

text \<open>A node carries the record of a metadata value when its annotation is the text of it.\<close>

definition records :: "node_lib \<Rightarrow> node \<Rightarrow> expected_metadata \<Rightarrow> bool" where
  "records N nd meta \<longleftrightarrow>
     (\<exists>s. MarshalExpected N meta = Inr s \<and> mAnnotations (nMeta nd) AnnotationExpectedMetadata = Some s)"

lemma merged_cong: "dom b = dom b' \<Longrightarrow> merged w b f = merged w b' f"
  by (auto simp: merged_def fun_eq_iff dom_def set_eq_iff split: option.splits)

lemma merged_taints_cong: "map tKey b = map tKey b' \<Longrightarrow> merged_taints w b f = merged_taints w b' f"
  unfolding merged_taints_def by (metis list.set_map)

text \<open>
  Reconciliations compose: if the virtual node found records what the controller wanted
  in one round, however it was edited since, then the next round, wanting something else,
  merges against exactly those keys, and leaves the record of what it wants itself, so that
  the next round finds it.
\<close>

theorem customization_rounds:
  assumes "codec_keeps_keys N" and "records N existing wanted0"
    and "records N new wanted1" and "preserveUserCustomizations N existing new = Inr m"
  shows "mLabels (nMeta m) = merged (mLabels (nMeta new)) (emLabels wanted0) (mLabels (nMeta existing)) \<and>
    set (nTaints m) = merged_taints (nTaints new) (emTaints wanted0) (nTaints existing) \<and>
    records N m wanted1"
proof -
  from assms(2) obtain s where s: "MarshalExpected N wanted0 = Inr s"
    "mAnnotations (nMeta existing) AnnotationExpectedMetadata = Some s" by (auto simp: records_def)
  with assms(1) obtain prev where prev: "UnmarshalExpected N s = Inr prev" "same_keys wanted0 prev"
    unfolding codec_keeps_keys_def by blast
  then have got: "getExpectedMetadataFromAnnotation N existing = Inr prev"
    using s by (simp add: getExpectedMetadataFromAnnotation_def)
  from assms(3) obtain t where t: "MarshalExpected N wanted1 = Inr t"
    "mAnnotations (nMeta new) AnnotationExpectedMetadata = Some t" by (auto simp: records_def)
  note m = preserve_merges [OF assms(4) got t(2)]
  have "records N m wanted1" using t by (simp add: records_def m(2) merged_def)
  with m(1,3) prev(2) show ?thesis
    by (metis same_keys_def merged_cong merged_taints_cong)
qed

theorem customization_rounds_witness:
  "let existing = meta_node [''team'' \<mapsto> ''a'', ''mine'' \<mapsto> ''b''] [AnnotationExpectedMetadata \<mapsto> ''t''];
       new = meta_node [''zone'' \<mapsto> ''z''] [AnnotationExpectedMetadata \<mapsto> ''z'']
   in codec_keeps_keys sample_lib \<and> records sample_lib existing (em [''team'' \<mapsto> ''x''] Map.empty) \<and>
      (\<exists>m. preserveUserCustomizations sample_lib existing new = Inr m \<and>
         records sample_lib m (em [''zone'' \<mapsto> ''z''] Map.empty) \<and> mLabels (nMeta m) ''team'' = None)"
proof -
  let ?old = "meta_node [''team'' \<mapsto> ''a'', ''mine'' \<mapsto> ''b''] [AnnotationExpectedMetadata \<mapsto> ''t'']"
  let ?new = "meta_node [''zone'' \<mapsto> ''z''] [AnnotationExpectedMetadata \<mapsto> ''z'']"
  have old: "records sample_lib ?old (em [''team'' \<mapsto> ''x''] Map.empty)"
    and new: "records sample_lib ?new (em [''zone'' \<mapsto> ''z''] Map.empty)"
    by (simp_all add: records_def sample_marshal meta_node_def)
  have exp: "expectedOf ?new = em [''zone'' \<mapsto> ''z''] [AnnotationExpectedMetadata \<mapsto> ''z'']"
    by (simp add: expectedOf_def meta_node_def em_def empty_node_def)
  have "getExpectedMetadataFromAnnotation sample_lib ?old = Inr (em [''team'' \<mapsto> ''x''] Map.empty)"
    by (simp add: getExpectedMetadataFromAnnotation_def sample_lib_def samples_def meta_node_def)
  with exp obtain m where m: "preserveUserCustomizations sample_lib ?old ?new = Inr m"
    by (simp add: preserveUserCustomizations_def saveExpectedMetadataToAnnotation_def sample_marshal Let_def)
  from customization_rounds [OF sample_lib_keeps_keys old new m] m old show ?thesis
    by (auto simp: Let_def merged_def meta_node_def em_def)
qed

section \<open>Taints\<close>

text \<open>
  The taints of a virtual node: the unschedulable taint of the physical node is renamed,
  an out-of-time-windows taint is present exactly when the clock reading lies outside the
  windows of the policy (forbidding to run if reclaim is forced, and to schedule otherwise),
  the default taint is there unless disabled, and every other taint is taken over unchanged.
\<close>

theorem transformTaints_spec:
  "tspec (transformTaints A ts disable (Some p)) w (\<lambda>res evs w'. \<exists>now rest. evs = EvClock now # rest \<and>
     (let active = IsWithinTimeWindowsAt p (ToLower (ckWeekday now)) (ckHHMM now);
          keys = tKey ` set res
      in ''node.kubernetes.io/unschedulable'' \<notin> keys \<and>
         (TaintOutOfTimeWindows \<in> keys \<longleftrightarrow> \<not> active) \<and>
         (\<forall>t\<in>set res. tKey t = TaintOutOfTimeWindows \<longrightarrow>
            tEffect t = (if pForceReclaim p then ''NoExecute'' else ''NoSchedule'') \<and> tTimeAdded t \<noteq> None) \<and>
         (\<not> disable \<longrightarrow> TaintVnodeDefaultTaint \<in> keys) \<and>
         (''node.kubernetes.io/unschedulable'' \<in> tKey ` set ts \<longrightarrow> TaintPhysicalNodeUnschedulable \<in> keys) \<and>
         (\<forall>t\<in>set ts. tKey t \<notin> {TaintOutOfTimeWindows, ''node.kubernetes.io/unschedulable''} \<longrightarrow> t \<in> set res)))"
proof -
  define vs where "vs = concat (map transformTaint ts)"
  have vs: "\<forall>t\<in>set vs. tKey t \<noteq> TaintOutOfTimeWindows" "\<forall>t\<in>set vs. tKey t \<noteq> ''node.kubernetes.io/unschedulable''"
    "\<forall>t\<in>set ts. tKey t \<notin> {TaintOutOfTimeWindows, ''node.kubernetes.io/unschedulable''} \<longrightarrow> t \<in> set vs"
    by (auto simp: vs_def transformTaint_def kube_consts split: if_splits)
  have moved: "TaintPhysicalNodeUnschedulable \<in> tKey ` set vs"
    if "t \<in> set ts" "''node.kubernetes.io/unschedulable'' = tKey t" for t
  proof -
    let ?t = "\<lparr>tKey = TaintPhysicalNodeUnschedulable, tValue = tValue t, tEffect = tEffect t, tTimeAdded = None\<rparr>"
    have "transformTaint t = [?t]" using that(2) by (simp add: transformTaint_def kube_consts flip: that(2))
    with that have "?t \<in> set vs" by (force simp: vs_def)
    then show ?thesis by (rule rev_image_eqI) simp
  qed
  have keys: "TaintOutOfTimeWindows \<notin> tKey ` set vs" "''node.kubernetes.io/unschedulable'' \<notin> tKey ` set vs"
    using vs(1,2) by auto
  have keys': "TaintPhysicalNodeUnschedulable \<in> tKey ` set vs"
    if "''node.kubernetes.io/unschedulable'' \<in> tKey ` set ts"
    using that by (rule imageE) (rule moved)
  have ne: "TaintOutOfTimeWindows \<noteq> TaintVnodeDefaultTaint" "''node.kubernetes.io/unschedulable'' \<noteq> TaintOutOfTimeWindows"
    "''node.kubernetes.io/unschedulable'' \<noteq> TaintVnodeDefaultTaint"
    by (simp_all add: kube_consts)
  show ?thesis
    unfolding transformTaints_def isWithinTimeWindows_def vs_def [symmetric]
    by (intro vcg; cases disable)
      (simp_all add: Let_def defaultTaint_def vs(1,2) keys keys' ne ne(1) [symmetric], (use vs(3) in blast)+)
qed

theorem transformTaints_spec_witness:
  "tspec (transformTaints scripted [] False (Some night_policy))
     \<lparr>srv = [AClock (zero_clock\<lparr>ckHHMM := ''12:00''\<rparr>)], hist = []\<rparr>
     (\<lambda>res evs w'. TaintVnodeDefaultTaint \<in> tKey ` set res)"
  by (rule tspec_mono [OF transformTaints_spec]) (auto simp: Let_def)

end
