(* ===== verification/Go_Time.thy ===== *)
theory Go_Time
  imports Kube_Prelude
begin

text \<open>
  What the program uses of Go's package \<^verbatim>\<open>time\<close>: durations in nanoseconds,
  \<^verbatim>\<open>time.Since\<close> (whose difference saturates at the bounds of \<^verbatim>\<open>int64\<close>) and
  \<^verbatim>\<open>time.Parse(time.RFC3339, s)\<close>. Times are nanoseconds since the epoch. Of the texts
  \<^verbatim>\<open>time.Parse\<close> accepts, those of RFC 3339 are modelled: a date, a time, an optional
  fraction of at most nine digits, and a zone that is \<^verbatim>\<open>Z\<close> or a signed offset.
\<close>

definition Second :: int where "Second = 1000000000"

definition Since :: "int \<Rightarrow> int \<Rightarrow> int" where
  "Since now t = max int64_min (min int64_max (now - t))"

definition leap :: "int \<Rightarrow> bool" where
  "leap y \<longleftrightarrow> 4 dvd y \<and> (\<not> 100 dvd y \<or> 400 dvd y)"

definition daysIn :: "int \<Rightarrow> int \<Rightarrow> int" where
  "daysIn m y = (if m = 2 then (if leap y then 29 else 28) else if m \<in> {4, 6, 9, 11} then 30 else 31)"

definition daysBefore :: "int \<Rightarrow> int \<Rightarrow> int" where
  "daysBefore m y = sum_list (map (\<lambda>k. daysIn k y) [1..m - 1])"

definition daysFromEpoch :: "int \<Rightarrow> int \<Rightarrow> int \<Rightarrow> int" where
  "daysFromEpoch y m d =
    (let p = y - 1 in 365 * p + p div 4 - p div 100 + p div 400 + daysBefore m y + d - 1 - 719162)"

text \<open>\<^verbatim>\<open>n\<close> digits at position \<^verbatim>\<open>i\<close> of a text, in a range.\<close>

definition field :: "string \<Rightarrow> nat \<Rightarrow> nat \<Rightarrow> int \<Rightarrow> int \<Rightarrow> int option" where
  "field s i n lo hi =
    (let ds = take n (drop i s); v = int (read_digits ds)
     in if length ds = n \<and> list_all is_digit ds \<and> lo \<le> v \<and> v \<le> hi then Some v else None)"

definition fraction :: "string \<Rightarrow> (int \<times> string) option" where
  "fraction s = (case s of
     c # rest \<Rightarrow> (if c = CHR ''.'' then
        (let ds = takeWhile is_digit rest
         in if ds \<noteq> [] \<and> length ds \<le> 9
            then Some (int (read_digits ds) * 10 ^ (9 - length ds), drop (length ds) rest) else None)
        else Some (0, s))
   | [] \<Rightarrow> Some (0, s))"

definition zone :: "string \<Rightarrow> int option" where
  "zone s = (if s = ''Z'' then Some 0
     else if length s = 6 \<and> (s ! 0 = CHR ''+'' \<or> s ! 0 = CHR ''-'') \<and> s ! 3 = CHR '':''
     then (case (field s 1 2 0 23, field s 4 2 0 59) of
        (Some h, Some m) \<Rightarrow> Some ((if s ! 0 = CHR ''-'' then - 1 else 1) * (h * 3600 + m * 60))
      | _ \<Rightarrow> None)
     else None)"

definition ParseRFC3339 :: "string \<Rightarrow> int option" where
  "ParseRFC3339 s =
    (if length s < 20 \<or> s ! 4 \<noteq> CHR ''-'' \<or> s ! 7 \<noteq> CHR ''-'' \<or> s ! 10 \<noteq> CHR ''T'' \<or>
        s ! 13 \<noteq> CHR '':'' \<or> s ! 16 \<noteq> CHR '':'' then None
     else do {
       y \<leftarrow> field s 0 4 0 9999;
       m \<leftarrow> field s 5 2 1 12;
       d \<leftarrow> field s 8 2 1 (daysIn m y);
       h \<leftarrow> field s 11 2 0 23;
       mi \<leftarrow> field s 14 2 0 59;
       sec \<leftarrow> field s 17 2 0 59;
       (nanos, rest) \<leftarrow> fraction (drop 19 s);
       offset \<leftarrow> zone rest;
       Some ((daysFromEpoch y m d * 86400 + h * 3600 + mi * 60 + sec - offset) * Second + nanos)
     })"

lemma Since_small: "int64_min \<le> now - t \<Longrightarrow> now - t \<le> int64_max \<Longrightarrow> Since now t = now - t"
  by (simp add: Since_def)

end
