(* ===== verification/Node_Controller.thy ===== *)
theory Node_Controller
  imports Node_Metadata Port_Allocator Go_Time
begin

text \<open>
  The reconciler of physical nodes, \<^verbatim>\<open>pkg/syncer/bottomup/node/physical_node_controller.go\<close>:
  for every physical node it keeps, updates or removes the virtual node. Its memory is the port
  cache and the set of virtual nodes whose lease controller is started. The map of a Go object
  that two variables share is modelled where it is read again: \<open>shared_labels\<close> below.
\<close>

record libs =
  libS :: selector_lib
  libQ :: quantity_lib
  libN :: node_lib

record 's node_world = "'s world" +
  nwPorts :: port_state
  nwLeases :: "string set"

type_synonym ('s, 'm, 'a) node_prog = "(('s, 'm) node_world_scheme, 'a) state"

definition DefaultNodeSyncInterval :: int where "DefaultNodeSyncInterval = 300 * Second"

section \<open>The reconciler's memory\<close>

definition allocPort :: "string \<Rightarrow> ('s, 'm, string res) node_prog" where
  "allocPort nodeName = do {
     st \<leftarrow> reads nwPorts;
     let (r, st') = allocateProxierPort st nodeName;
     modifies (nwPorts_update (\<lambda>_. st'));
     return r
   }"

definition releasePort :: "string \<Rightarrow> ('s, 'm, unit) node_prog" where
  "releasePort nodeName = modifies (nwPorts_update (\<lambda>st. releaseProxierPort st nodeName))"

definition startLeaseController :: "string \<Rightarrow> ('s, 'm, unit) node_prog" where
  "startLeaseController virtualNodeName = do {
     ls \<leftarrow> reads nwLeases;
     if virtualNodeName \<in> ls then return ()
     else modifies (nwLeases_update (insert virtualNodeName))
   }"

definition stopLeaseController :: "string \<Rightarrow> ('s, 'm, unit) node_prog" where
  "stopLeaseController virtualNodeName = do {
     ls \<leftarrow> reads nwLeases;
     if virtualNodeName \<notin> ls then return ()
     else modifies (nwLeases_update (\<lambda>ls. ls - {virtualNodeName}))
   }"

definition stopAllLeaseControllers :: "('s, 'm, unit) node_prog" where
  "stopAllLeaseControllers = modifies (nwLeases_update (\<lambda>_. {}))"

section \<open>The label on the physical node\<close>

definition removePolicyAppliedLabel :: "'s api \<Rightarrow> string \<Rightarrow> ('s, 'm, unit res) prog" where
  "removePolicyAppliedLabel A physicalNodeName = do {
     r \<leftarrow> get_node A PhysicalClient physicalNodeName;
     case r of
       Inl e \<Rightarrow> (if IsNotFound e then return (Inr ())
                else return (Inl (Wrapf ''failed to get physical node for label removal'' e)))
     | Inr physicalNode \<Rightarrow>
        (if mLabels (nMeta physicalNode) = Map.empty then return (Inr ())
         else if mLabels (nMeta physicalNode) LabelPolicyApplied = None then return (Inr ())
         else on_ok_wrap ''failed to patch physical node to remove policy-applied label''
           (PatchLabel A PhysicalClient (ONode physicalNode) LabelPolicyApplied None)
           (\<lambda>_. return (Inr ())))
   }"

definition ensurePolicyAppliedLabel :: "'s api \<Rightarrow> node \<Rightarrow> string \<Rightarrow> ('s, 'm, unit res) prog" where
  "ensurePolicyAppliedLabel A physicalNode policyName =
    (if mLabels (nMeta physicalNode) LabelPolicyApplied = Some policyName then return (Inr ())
     else on_ok_wrap ''failed to patch physical node with policy-applied label''
       (PatchLabel A PhysicalClient (ONode physicalNode) LabelPolicyApplied (Some policyName))
       (\<lambda>_. return (Inr ())))"

section \<open>Deletion\<close>

definition hasDeletionTaint :: "node \<Rightarrow> bool" where
  "hasDeletionTaint virtualNode \<longleftrightarrow> list_ex (\<lambda>t. tKey t = TaintKeyVirtualNodeDeleting) (nTaints virtualNode)"

definition addDeletionTaint :: "'s api \<Rightarrow> node \<Rightarrow> ('s, 'm, node res) prog" where
  "addDeletionTaint A virtualNode = do {
     let taintExists = list_ex (\<lambda>t. tKey t = TaintKeyVirtualNodeDeleting) (nTaints virtualNode);
     if taintExists \<and> nUnschedulable virtualNode then return (Inr virtualNode)
     else do {
       let updatedNode = virtualNode;
       let updatedNode = (if \<not> taintExists
         then updatedNode\<lparr>nTaints := nTaints updatedNode @ [\<lparr>tKey = TaintKeyVirtualNodeDeleting,
                tValue = ''true'', tEffect = ''NoSchedule'', tTimeAdded = None\<rparr>]\<rparr>
         else updatedNode);
       let updatedNode = updatedNode\<lparr>nUnschedulable := True\<rparr>;
       now \<leftarrow> Now A;
       let updatedNode = updatedNode\<lparr>nMeta := (nMeta updatedNode)\<lparr>mAnnotations :=
             (mAnnotations (nMeta updatedNode))(AnnotationDeletionTaintTime \<mapsto> ckRFC3339 now)\<rparr>\<rparr>;
       on_ok_wrap ''failed to add deletion taint'' (update_node A VirtualClient updatedNode)
         (\<lambda>updatedNode. return (Inr updatedNode))
     }
   }"

definition getDeletionTaintTime :: "node \<Rightarrow> int res" where
  "getDeletionTaintTime virtualNode =
    (case mAnnotations (nMeta virtualNode) AnnotationDeletionTaintTime of
       None \<Rightarrow> Inl (Errorf ''deletion taint time annotation not found'')
     | Some taintTimeStr \<Rightarrow> (case ParseRFC3339 taintTimeStr of
          None \<Rightarrow> Inl (Errorf ''failed to parse deletion taint time'')
        | Some taintTime \<Rightarrow> Inr taintTime))"

definition activePodOn :: "string \<Rightarrow> pod \<Rightarrow> bool" where
  "activePodOn virtualNodeName pod \<longleftrightarrow> \<not> IsSystemPod pod \<and> poNodeName pod = virtualNodeName \<and>
     (psPhase (poStatus pod) = ''Pending'' \<or> psPhase (poStatus pod) = ''Running'')"

definition checkPodsOnVirtualNode :: "'s api \<Rightarrow> string \<Rightarrow> ('s, 'm, bool res) prog" where
  "checkPodsOnVirtualNode A virtualNodeName =
     on_ok_wrap ''failed to list pods on virtual node''
       (list_pods A VirtualClient (on_node virtualNodeName))
       (\<lambda>podList. return (Inr (list_ex (activePodOn virtualNodeName) podList)))"

definition hasTaintOutOfTimeWindowsToleration :: "pod \<Rightarrow> bool" where
  "hasTaintOutOfTimeWindowsToleration pod \<longleftrightarrow>
     list_ex (\<lambda>toleration. tolKey toleration = TaintOutOfTimeWindows) (poTolerations pod)"

text \<open>The loop of \<^verbatim>\<open>forceEvictPodsOnVirtualNode\<close>; it returns the deletion errors.\<close>

fun evictPods :: "'s api \<Rightarrow> string \<Rightarrow> bool \<Rightarrow> pod list \<Rightarrow> ('s, 'm, err list) prog" where
  "evictPods A virtualNodeName skip [] = return []"
| "evictPods A virtualNodeName skip (pod # pods) =
    (if poNodeName pod \<noteq> virtualNodeName then evictPods A virtualNodeName skip pods
     else if mDeletionTimestamp (poMeta pod) \<noteq> None then evictPods A virtualNodeName skip pods
     else if skip \<and> hasTaintOutOfTimeWindowsToleration pod then evictPods A virtualNodeName skip pods
     else do {
       r \<leftarrow> Delete A VirtualClient KPod (mNamespace (poMeta pod)) (mName (poMeta pod))
              (uid_precondition (mUID (poMeta pod)));
       errs \<leftarrow> evictPods A virtualNodeName skip pods;
       return (case r of
           Inl e \<Rightarrow> (if IsNotFound e then errs else Wrapf ''failed to delete pod'' e # errs)
         | Inr _ \<Rightarrow> errs)
     })"

definition forceEvictPodsOnVirtualNode :: "'s api \<Rightarrow> string \<Rightarrow> bool \<Rightarrow> ('s, 'm, unit res) prog" where
  "forceEvictPodsOnVirtualNode A virtualNodeName skip =
     on_ok_wrap ''failed to list pods on virtual node''
       (list_pods A VirtualClient (on_node virtualNodeName))
       (\<lambda>podList.
          if length podList = 0 then return (Inr ())
          else do {
            deletionErrors \<leftarrow> evictPods A virtualNodeName skip podList;
            return (if length deletionErrors > 0 then Inl (Errorf ''failed to delete pods'') else Inr ())
          })"

text \<open>Step 2 of \<^verbatim>\<open>handleNodeDeletion\<close>: \<^term>\<open>Some\<close> is an early return with a requeue.\<close>

definition reclaimStep ::
  "'s api \<Rightarrow> node \<Rightarrow> string \<Rightarrow> bool \<Rightarrow> int \<Rightarrow> ('s, 'm, int option res) prog" where
  "reclaimStep A virtualNode virtualNodeName forceReclaim gracefulReclaimPeriodSeconds =
    (if forceReclaim then
       (if gracefulReclaimPeriodSeconds = 0 then
          on_ok (forceEvictPodsOnVirtualNode A virtualNodeName False) (\<lambda>_. return (Inr None))
        else
          on_ok (return (getDeletionTaintTime virtualNode)) (\<lambda>taintTime. do {
            let gracefulDuration = gracefulReclaimPeriodSeconds * Second;
            now \<leftarrow> Now A;
            if Since (ckNow now) taintTime < gracefulDuration then do {
              now' \<leftarrow> Now A;
              return (Inr (Some (gracefulDuration - Since (ckNow now') taintTime)))
            } else
              on_ok (forceEvictPodsOnVirtualNode A virtualNodeName False) (\<lambda>_. return (Inr None))
          }))
     else return (Inr None))"

text \<open>Steps 3 and 4.\<close>

definition finishDeletion :: "'s api \<Rightarrow> node \<Rightarrow> string \<Rightarrow> ('s, 'm, ctrl_result res) node_prog" where
  "finishDeletion A virtualNode virtualNodeName =
     on_ok (checkPodsOnVirtualNode A virtualNodeName) (\<lambda>hasPods.
       if hasPods then return (Inr (Result (10 * Second)))
       else do {
         stopLeaseController virtualNodeName;
         releasePort virtualNodeName;
         let updatedVirtualNode = virtualNode\<lparr>nMeta := RemoveFinalizer (nMeta virtualNode) VirtualNodeFinalizer\<rparr>;
         r \<leftarrow> update_node A VirtualClient updatedVirtualNode;
         return (case r of
             Inl e \<Rightarrow> (if IsNotFound e then Inr (Result 0) else Inl e)
           | Inr _ \<Rightarrow> Inr (Result 0))
       })"

text \<open>Step 1.5 and the steps after it.\<close>

definition reclaimAndFinish ::
  "'s api \<Rightarrow> node \<Rightarrow> string \<Rightarrow> bool \<Rightarrow> int \<Rightarrow> ('s, 'm, ctrl_result res) node_prog" where
  "reclaimAndFinish A virtualNode virtualNodeName forceReclaim gracefulReclaimPeriodSeconds =
    (if mDeletionTimestamp (nMeta virtualNode) = None then do {
       d \<leftarrow> Delete A VirtualClient KNode '''' (mName (nMeta virtualNode))
              (uid_precondition (mUID (nMeta virtualNode)));
       return (case d of
           Inl e \<Rightarrow> (if IsNotFound e then Inr (Result 0) else Inl e)
         | Inr _ \<Rightarrow> Inr (Result 0))
     } else
       on_ok (reclaimStep A virtualNode virtualNodeName forceReclaim gracefulReclaimPeriodSeconds)
         (\<lambda>wait. case wait of
             Some remainingTime \<Rightarrow> return (Inr (Result remainingTime))
           | None \<Rightarrow> finishDeletion A virtualNode virtualNodeName))"

definition handleNodeDeletion ::
  "'s api \<Rightarrow> node_reconciler \<Rightarrow> string \<Rightarrow> bool \<Rightarrow> int \<Rightarrow> ('s, 'm, ctrl_result res) node_prog" where
  "handleNodeDeletion A r physicalNodeName forceReclaim gracefulReclaimPeriodSeconds =
    (if getClusterID r = '''' then return (Inl (Errorf ''clusterID is unknown, skipping handleNodeDeletion''))
     else on_ok (removePolicyAppliedLabel A physicalNodeName) (\<lambda>_. do {
       let virtualNodeName = generateVirtualNodeName r physicalNodeName;
       got \<leftarrow> get_node A VirtualClient virtualNodeName;
       case got of
         Inl e \<Rightarrow> (if IsNotFound e then return (Inr (Result 0)) else return (Inl e))
       | Inr virtualNode \<Rightarrow>
          on_ok (if \<not> hasDeletionTaint virtualNode then addDeletionTaint A virtualNode
                 else return (Inr virtualNode)) (\<lambda>virtualNode.
            reclaimAndFinish A virtualNode virtualNodeName forceReclaim gracefulReclaimPeriodSeconds)
     }))"

section \<open>Creating and updating the virtual node\<close>

definition getProxierPodIP :: "'s api \<Rightarrow> node_reconciler \<Rightarrow> ('s, 'm, string) prog" where
  "getProxierPodIP A r =
    (case ClusterBinding r of
       None \<Rightarrow> return ''''
     | Some b \<Rightarrow> do {
         podList \<leftarrow> list_pods A VirtualClient \<lparr>loNamespace = Some ''kubeocean-system'',
           loLabels = [(''app.kubernetes.io/name'', ''kubeocean-proxier''),
                       (''app.kubernetes.io/instance'', mName (bMeta b))], loNodeName = None\<rparr>;
         return (case podList of
             Inl _ \<Rightarrow> ''''
           | Inr items \<Rightarrow> (case find (\<lambda>pod. psPhase (poStatus pod) = ''Running'' \<and>
                                        psPodIP (poStatus pod) \<noteq> '''') items of
                Some pod \<Rightarrow> psPodIP (poStatus pod) | None \<Rightarrow> ''''))
       })"

definition getInternalIPFromNode :: "node \<Rightarrow> string" where
  "getInternalIPFromNode nd =
    (case find (\<lambda>addr. aType addr = ''InternalIP'') (nAddresses nd) of
       Some addr \<Rightarrow> aAddress addr | None \<Rightarrow> '''')"

definition buildVirtualNode ::
  "libs \<Rightarrow> 's api \<Rightarrow> node_reconciler \<Rightarrow> node \<Rightarrow> resource_list \<Rightarrow> policy list \<Rightarrow> bool \<Rightarrow> string \<Rightarrow> string \<Rightarrow>
   ('s, 'm, node res) prog" where
  "buildVirtualNode L A r physicalNode resources policies disableNodeDefaultTaint proxiedPodIP proxierPort = do {
     let virtualNodeName = generateVirtualNodeName r (mName (nMeta physicalNode));
     let proxierPortInt = (case Atoi proxierPort of Some p \<Rightarrow> p | None \<Rightarrow> 10250);
     let policy = (case policies of [] \<Rightarrow> None | p # _ \<Rightarrow> Some p);
     let labels = buildVirtualNodeLabels r virtualNodeName physicalNode proxierPort;
     annotations \<leftarrow> buildVirtualNodeAnnotations (libQ L) A r physicalNode policies proxiedPodIP;
     taints \<leftarrow> transformTaints A (nTaints physicalNode) disableNodeDefaultTaint policy;
     let virtualNode = \<lparr>
       nMeta = empty_meta\<lparr>mName := virtualNodeName, mLabels := labels, mAnnotations := annotations,
                 mFinalizers := [VirtualNodeFinalizer]\<rparr>,
       nTaints = taints, nUnschedulable = False, nCapacity = resources, nAllocatable = resources,
       nConditions = nConditions physicalNode, nNodeInfo = nNodeInfo physicalNode,
       nPhase = nPhase physicalNode, nAddresses = buildVirtualNodeAddresses proxiedPodIP virtualNodeName,
       nDaemonPort = int32_wrap proxierPortInt\<rparr>;
     return (case saveExpectedMetadataToAnnotation (libN L) virtualNode (expectedOf virtualNode) of
         Inl e \<Rightarrow> Inl (Wrapf ''failed to save expected metadata'' e)
       | Inr virtualNode \<Rightarrow> Inr virtualNode)
   }"

text \<open>
  \<^verbatim>\<open>buildVirtualNodeLabels\<close> writes into the map of the physical node, and the merge of user
  labels writes into the same map; the caller reads that map again for the policy label. A nil
  map (a node without labels) is not shared.
\<close>

definition shared_labels :: "node \<Rightarrow> node \<Rightarrow> node" where
  "shared_labels physicalNode virtualNode =
    (if mLabels (nMeta physicalNode) = Map.empty then physicalNode
     else physicalNode\<lparr>nMeta := (nMeta physicalNode)\<lparr>mLabels := mLabels (nMeta virtualNode)\<rparr>\<rparr>)"

definition updateVirtualNode :: "libs \<Rightarrow> 's api \<Rightarrow> node \<Rightarrow> node \<Rightarrow> ('s, 'm, unit res) prog" where
  "updateVirtualNode L A existingNode virtualNode = do {
     let newNode = existingNode\<lparr>nConditions := nConditions virtualNode, nPhase := nPhase virtualNode,
           nAllocatable := nAllocatable virtualNode, nCapacity := nCapacity virtualNode,
           nNodeInfo := nNodeInfo virtualNode, nTaints := nTaints virtualNode,
           nMeta := AddFinalizer ((nMeta existingNode)\<lparr>mLabels := mLabels (nMeta virtualNode),
             mAnnotations := mAnnotations (nMeta virtualNode)\<rparr>) VirtualNodeFinalizer,
           nAddresses := nAddresses virtualNode\<rparr>;
     on_ok (if \<not> DeepEqualNode (libN L) existingNode newNode
            then on_ok_wrap ''failed to update virtual node status''
                   (status_update_node A VirtualClient newNode) (\<lambda>n. return (Inr n))
            else return (Inr newNode)) (\<lambda>newNode.
       if \<not> DeepEqualTaints (libN L) (nTaints existingNode) (nTaints virtualNode)
       then on_ok_wrap ''failed to patch virtual node''
              (Patch A VirtualClient (ONode newNode) (ONode (newNode\<lparr>nTaints := nTaints virtualNode\<rparr>)))
              (\<lambda>_. return (Inr ()))
       else return (Inr ()))
   }"

text \<open>The result is the physical node as the caller sees it afterwards.\<close>

definition createOrUpdateVirtualNode ::
  "libs \<Rightarrow> 's api \<Rightarrow> node_reconciler \<Rightarrow> node \<Rightarrow> resource_list \<Rightarrow> policy list \<Rightarrow> bool \<Rightarrow>
   ('s, 'm, node res) node_prog" where
  "createOrUpdateVirtualNode L A r physicalNode resources policies disableNodeDefaultTaint = do {
     let virtualNodeName = generateVirtualNodeName r (mName (nMeta physicalNode));
     got \<leftarrow> get_node A VirtualClient virtualNodeName;
     case got of
       Inl e \<Rightarrow>
        (if IsNotFound e then do {
           proxiedPodIP \<leftarrow> getProxierPodIP A r;
           on_ok_wrap ''failed to allocate proxier port'' (allocPort virtualNodeName) (\<lambda>proxierPort.
             on_ok (buildVirtualNode L A r physicalNode resources policies disableNodeDefaultTaint
                      proxiedPodIP proxierPort) (\<lambda>virtualNode.
               on_ok (Create A VirtualClient (ONode virtualNode)) (\<lambda>_.
                 return (Inr (shared_labels physicalNode virtualNode)))))
         } else return (Inl (Wrapf ''failed to get virtual node'' e)))
     | Inr existingNode \<Rightarrow> do {
         let ip = getInternalIPFromNode existingNode;
         proxiedPodIP \<leftarrow> (if ip = '''' then getProxierPodIP A r else return ip);
         let label = mget (mLabels (nMeta existingNode)) LabelProxierPort;
         on_ok_wrap ''failed to allocate proxier port''
           (if label \<noteq> '''' then return (Inr label) else allocPort virtualNodeName) (\<lambda>proxierPort.
             on_ok (buildVirtualNode L A r physicalNode resources policies disableNodeDefaultTaint
                      proxiedPodIP proxierPort) (\<lambda>virtualNode.
               on_ok_wrap ''failed to preserve user customizations''
                 (return (preserveUserCustomizations (libN L) existingNode virtualNode)) (\<lambda>virtualNode.
                   on_ok (updateVirtualNode L A existingNode virtualNode) (\<lambda>_.
                     return (Inr (shared_labels physicalNode virtualNode))))))
       }
   }"

section \<open>Time windows\<close>

definition handleOutOfTimeWindows ::
  "'s api \<Rightarrow> node_reconciler \<Rightarrow> string \<Rightarrow> policy \<Rightarrow> ('s, 'm, ctrl_result res) prog" where
  "handleOutOfTimeWindows A r physicalNodeName policy = do {
     let virtualNodeName = generateVirtualNodeName r physicalNodeName;
     got \<leftarrow> get_node A VirtualClient virtualNodeName;
     case got of
       Inl e \<Rightarrow> (if IsNotFound e then return (Inr (Result 0))
                else return (Inl (Wrapf ''failed to get virtual node'' e)))
     | Inr virtualNode \<Rightarrow> do {
         let existingTaint = find (\<lambda>t. tKey t = TaintOutOfTimeWindows) (nTaints virtualNode);
         let gracefulPeriod = pGracefulReclaimPeriodSeconds policy;
         let evict = on_ok_wrap ''failed to delete virtual pods on node''
               (forceEvictPodsOnVirtualNode A virtualNodeName True)
               (\<lambda>_. return (Inr (Result DefaultNodeSyncInterval)));
         if \<not> pForceReclaim policy then return (Inr (Result DefaultNodeSyncInterval))
         else if gracefulPeriod = 0 then evict
         else (case existingTaint of
             None \<Rightarrow> return (Inl (Errorf ''no out-of-time-windows taint found''))
           | Some t \<Rightarrow> (case tTimeAdded t of
                None \<Rightarrow> evict
              | Some taintTime \<Rightarrow> do {
                  now \<leftarrow> Now A;
                  let timeSinceTaint = Since (ckNow now) taintTime;
                  let gracefulDuration = gracefulPeriod * Second;
                  if timeSinceTaint \<ge> gracefulDuration then evict
                  else return (Inr (Result (gracefulDuration - timeSinceTaint)))
                }))
       }
   }"

section \<open>Reconciliation\<close>

definition processNode ::
  "libs \<Rightarrow> 's api \<Rightarrow> node_reconciler \<Rightarrow> node \<Rightarrow> ('s, 'm, ctrl_result res) node_prog" where
  "processNode L A r physicalNode =
     on_ok (get_binding A VirtualClient (getClusterBindingName r)) (\<lambda>clusterBinding.
       let delete = handleNodeDeletion A r (mName (nMeta physicalNode)) True 0 in
       if mDeletionTimestamp (bMeta clusterBinding) \<noteq> None then delete
       else if \<not> MatchesSelector (libS L) physicalNode (bNodeSelector clusterBinding) then delete
       else if getClusterID r = '''' then
         return (Inl (Errorf ''clusterID is unknown, skipping virtual node checks''))
       else do {
         let virtualNodeName = generateVirtualNodeName r (mName (nMeta physicalNode));
         existing \<leftarrow> get_node A VirtualClient virtualNodeName;
         let check = (case existing of
             Inr existingVirtualNode \<Rightarrow>
               (if mget (mLabels (nMeta existingVirtualNode)) LabelPhysicalNodeUID \<noteq> mUID (nMeta physicalNode)
                then Inr False
                else if mDeletionTimestamp (nMeta existingVirtualNode) \<noteq> None then Inr False
                else Inr True)
           | Inl e \<Rightarrow> (if \<not> IsNotFound e then Inl e else Inr True));
         on_ok (return check) (\<lambda>proceed.
           if \<not> proceed then delete
           else on_ok (getApplicablePolicies (libS L) A r physicalNode (bNodeSelector clusterBinding))
            (\<lambda>policies.
             if length policies = 0 then delete
             else do {
               let policies = selectPolicies policies;
               let policy = policies ! 0;
               on_ok (calculateAvailableResources (libQ L) A r physicalNode (Some policy))
                (\<lambda>availableResources.
                 on_ok (createOrUpdateVirtualNode L A r physicalNode availableResources policies
                          (bDisableNodeDefaultTaint clusterBinding)) (\<lambda>physicalNode. do {
                   startLeaseController virtualNodeName;
                   on_ok (ensurePolicyAppliedLabel A physicalNode (mName (pMeta policy))) (\<lambda>_. do {
                     active \<leftarrow> isWithinTimeWindows A policy;
                     if \<not> active then
                       on_ok (handleOutOfTimeWindows A r (mName (nMeta physicalNode)) policy) (\<lambda>result.
                         if RequeueAfter result > 0 then return (Inr result)
                         else return (Inr (Result DefaultNodeSyncInterval)))
                     else return (Inr (Result DefaultNodeSyncInterval))
                   })
                 }))
             }))
       })"

definition ReconcileNode ::
  "libs \<Rightarrow> 's api \<Rightarrow> node_reconciler \<Rightarrow> string \<Rightarrow> ('s, 'm, ctrl_result res) node_prog" where
  "ReconcileNode L A r reqName = do {
     got \<leftarrow> get_node A PhysicalClient reqName;
     case got of
       Inl e \<Rightarrow> (if IsNotFound e then handleNodeDeletion A r reqName True 0 else return (Inl e))
     | Inr physicalNode \<Rightarrow>
        (if mDeletionTimestamp (nMeta physicalNode) \<noteq> None
         then handleNodeDeletion A r (mName (nMeta physicalNode)) True 0
         else processNode L A r physicalNode)
   }"

section \<open>Event handlers\<close>

definition handlePodEvent :: "pod option \<Rightarrow> pod option \<Rightarrow> string \<Rightarrow> ('s, 'm, unit) prog" where
  "handlePodEvent opod npod eventType =
    (if eventType = ''update'' then
       (case (opod, npod) of
          (Some old, Some new) \<Rightarrow>
            (if poNodeName new = '''' then return ()
             else if poNodeName old \<noteq> poNodeName new then emit (EvEnqueue (poNodeName new)) else return ())
        | _ \<Rightarrow> return ())
     else (case npod of
        None \<Rightarrow> return ()
      | Some new \<Rightarrow> (if poNodeName new = '''' then return () else emit (EvEnqueue (poNodeName new)))))"

definition handleVirtualNodeEvent :: "node_reconciler \<Rightarrow> node \<Rightarrow> ('s, 'm, unit) prog" where
  "handleVirtualNodeEvent r nd =
    (let ls = mLabels (nMeta nd) in
     if mget ls LabelManagedBy \<noteq> LabelManagedByValue then return ()
     else if mget ls LabelClusterBinding \<noteq> ClusterBindingName r then return ()
     else if mget ls LabelPhysicalNodeName = '''' then return ()
     else emit (EvEnqueue (mget ls LabelPhysicalNodeName)))"

definition excludedInstanceTypes :: "string list" where
  "excludedInstanceTypes = [''external'', NodeInstanceTypeVNode, ''eklet'']"

definition shouldProcessNode :: "node option \<Rightarrow> bool" where
  "shouldProcessNode nd = (case nd of None \<Rightarrow> False | Some n \<Rightarrow>
    (let ls = mLabels (nMeta n);
         excluded = (\<lambda>k. case ls k of Some t \<Rightarrow> t \<in> set excludedInstanceTypes | None \<Rightarrow> False) in
     if excluded NodeInstanceTypeLabel then False
     else if excluded NodeInstanceTypeLabelBeta then False
     else if ls LabelVirtualNodeType = Some VirtualNodeTypeValue then False
     else True))"

end
