(* ===== verification/Node_Lifecycle.thy ===== *)
theory Node_Lifecycle
  imports Node_Controller
begin

text \<open>
  Properties of the reconciler of physical nodes: what it writes and when, for every sequence
  of answers of the API servers.
\<close>

section \<open>Eviction\<close>

definition evictable :: "string \<Rightarrow> bool \<Rightarrow> pod \<Rightarrow> bool" where
  "evictable vn skip pod \<longleftrightarrow> poNodeName pod = vn \<and> mDeletionTimestamp (poMeta pod) = None \<and>
     \<not> (skip \<and> hasTaintOutOfTimeWindowsToleration pod)"

text \<open>The deletion of a pod, guarded by its UID, with its answer.\<close>

definition eviction :: "pod \<Rightarrow> unit res \<Rightarrow> event" where
  "eviction pod = EvDelete VirtualClient KPod (mNamespace (poMeta pod)) (mName (poMeta pod))
     (uid_precondition (mUID (poMeta pod)))"

definition failed :: "unit res \<Rightarrow> bool" where
  "failed r \<longleftrightarrow> (\<exists>e. r = Inl e \<and> \<not> IsNotFound e)"

text \<open>Exactly the evictable pods are deleted, in order, and errors are reported.\<close>

definition evicted :: "string \<Rightarrow> bool \<Rightarrow> pod list \<Rightarrow> bool \<Rightarrow> event list \<Rightarrow> bool" where
  "evicted vn skip pods ok evs \<longleftrightarrow>
     (\<exists>answers. length answers = length (filter (evictable vn skip) pods) \<and>
        evs = map2 eviction (filter (evictable vn skip) pods) answers \<and>
        (ok \<longleftrightarrow> (\<forall>r\<in>set answers. \<not> failed r)))"

lemma evicted_Nil: "evicted vn skip [] True []"
  by (simp add: evicted_def)

lemma evicted_skip: "\<not> evictable vn skip pod \<Longrightarrow> evicted vn skip (pod # pods) ok evs = evicted vn skip pods ok evs"
  by (simp add: evicted_def)

lemma evicted_Cons:
  assumes "evicted vn skip pods ok evs" and "evictable vn skip pod"
  shows "evicted vn skip (pod # pods) (ok \<and> \<not> failed r) (eviction pod r # evs)"
proof -
  from assms(1) obtain answers where "length answers = length (filter (evictable vn skip) pods)"
    "evs = map2 eviction (filter (evictable vn skip) pods) answers"
    "ok \<longleftrightarrow> (\<forall>r\<in>set answers. \<not> failed r)" by (auto simp: evicted_def)
  with assms(2) show ?thesis unfolding evicted_def by (intro exI [of _ "r # answers"]) auto
qed

lemma evictPods_spec:
  "tspec (evictPods A vn skip pods) w (\<lambda>errs evs w'. evicted vn skip pods (errs = []) evs)"
proof (induction pods arbitrary: w)
  case Nil
  show ?case by (simp, intro vcg) (simp add: evicted_Nil)
next
  case (Cons pod pods)
  show ?case
  proof (cases "evictable vn skip pod")
    case False
    then have same: "evictPods A vn skip (pod # pods) = evictPods A vn skip pods"
      by (auto simp: evictable_def)
    show ?thesis unfolding same evicted_skip [OF False] by (rule Cons.IH)
  next
    case True
    have step: "evicted vn skip pods ok evs \<Longrightarrow> evicted vn skip (pod # pods) ok (eviction pod (Inr ()) # evs)"
      "evicted vn skip pods ok evs \<Longrightarrow> IsNotFound e \<Longrightarrow> evicted vn skip (pod # pods) ok (eviction pod (Inl e) # evs)"
      "evicted vn skip pods ok evs \<Longrightarrow> \<not> IsNotFound e \<Longrightarrow> evicted vn skip (pod # pods) False (eviction pod (Inl e) # evs)"
      for ok evs e
      using evicted_Cons [OF _ True, of pods ok evs "Inr ()"] evicted_Cons [OF _ True, of pods ok evs "Inl e"]
      by (auto simp: failed_def)
    from True have "\<not> poNodeName pod \<noteq> vn" "\<not> mDeletionTimestamp (poMeta pod) \<noteq> None"
      "\<not> (skip \<and> hasTaintOutOfTimeWindowsToleration pod)" by (auto simp: evictable_def)
    then show ?thesis
      unfolding evictPods.simps
      by (simp only: if_False, intro vcg tspec_mono [OF Cons.IH])
        (use step in \<open>auto simp: eviction_def split: sum.split\<close>)
  qed
qed

lemma evictPods_quiet: "(\<And>pod r. P (eviction pod r)) \<Longrightarrow> quiet (evictPods A vn skip pods) P"
proof (induction pods)
  case (Cons pod pods)
  then show ?case by (auto intro!: quiet_rules simp: eviction_def)
qed (simp add: quiet_rules)

lemma forceEvict_quiet [quiet_rules]:
  "(\<And>r. P (EvList VirtualClient KPod (on_node vn) r)) \<Longrightarrow> (\<And>pod r. P (eviction pod r)) \<Longrightarrow>
     quiet (forceEvictPodsOnVirtualNode A vn skip) P"
  unfolding forceEvictPodsOnVirtualNode_def by (intro quiet_rules evictPods_quiet)

text \<open>
  C13. Eviction: after a successful listing the controller deletes, in order and each under the
  precondition of its UID, exactly the listed pods that are on the node, are not already being
  deleted and, when asked to, do not tolerate the out-of-time-windows taint; a failing deletion
  does not stop the others, and the result is an error iff some deletion failed other than by
  the pod being gone.
\<close>

theorem forceEvict_spec:
  "tspec (forceEvictPodsOnVirtualNode A vn skip) w (\<lambda>res evs w'.
     \<exists>listing rest. evs = EvList VirtualClient KPod (on_node vn) listing # rest \<and>
       (case listing of
          Inl e \<Rightarrow> rest = [] \<and> res = Inl (Wrapf ''failed to list pods on virtual node'' e)
        | Inr items \<Rightarrow> evicted vn skip (List.map_filter the_pod items) (res = Inr ()) rest))"
  unfolding forceEvictPodsOnVirtualNode_def list_pods_def
  by (intro vcg conjI allI impI tspec_mono [OF evictPods_spec]) (auto simp: evicted_Nil)

section \<open>Removing a virtual node\<close>

fun no_update :: "event \<Rightarrow> bool" where
  "no_update (EvUpdate VirtualClient _ _) = False"
| "no_update _ = True"

lemma no_update_eviction [simp]: "no_update (eviction pod r)"
  by (simp add: eviction_def)

lemma removePolicyAppliedLabel_quiet: "quiet (removePolicyAppliedLabel A n) no_update"
  unfolding removePolicyAppliedLabel_def by (intro quiet_rules | simp)+

lemma reclaimStep_quiet: "quiet (reclaimStep A v vn force grace) no_update"
  unfolding reclaimStep_def by (intro quiet_rules | simp)+

text \<open>Updates that only mark a node as being deleted: the finalizers are those that were read.\<close>

definition marks_only :: "string \<Rightarrow> event list \<Rightarrow> bool" where
  "marks_only vn evs \<longleftrightarrow> (\<forall>n u. EvUpdate VirtualClient (ONode n) u \<in> set evs \<longrightarrow>
     hasDeletionTaint n \<and> (\<exists>v. EvGet VirtualClient KNode '''' vn (Inr (ONode v)) \<in> set evs \<and>
       mFinalizers (nMeta n) = mFinalizers (nMeta v)))"

lemma marks_only_no_update: "list_all no_update evs \<Longrightarrow> marks_only vn evs"
  by (auto simp: marks_only_def list_all_iff)

lemma marks_only_append: "marks_only vn a \<Longrightarrow> marks_only vn b \<Longrightarrow> marks_only vn (a @ b)"
  unfolding marks_only_def set_append Un_iff by blast

definition node_kept :: "string \<Rightarrow> ('s, 'm) node_world_scheme \<Rightarrow> event list \<Rightarrow> ('s, 'm) node_world_scheme \<Rightarrow> bool" where
  "node_kept vn w evs w' \<longleftrightarrow> nwPorts w' = nwPorts w \<and> nwLeases w' = nwLeases w \<and> marks_only vn evs"

definition node_freed :: "string \<Rightarrow> ('s, 'm) node_world_scheme \<Rightarrow> event list \<Rightarrow> ('s, 'm) node_world_scheme \<Rightarrow> bool" where
  "node_freed vn w evs w' \<longleftrightarrow> (\<exists>pre items v u.
     evs = pre @ [EvList VirtualClient KPod (on_node vn) (Inr items),
                  EvUpdate VirtualClient (ONode (v\<lparr>nMeta := RemoveFinalizer (nMeta v) VirtualNodeFinalizer\<rparr>)) u] \<and>
     marks_only vn pre \<and> mDeletionTimestamp (nMeta v) \<noteq> None \<and>
     (\<forall>p. OPod p \<in> set items \<longrightarrow> \<not> activePodOn vn p) \<and>
     nwPorts w' = releaseProxierPort (nwPorts w) vn \<and> nwLeases w' = nwLeases w - {vn})"

lemma set_map_filter_the_pod: "set (List.map_filter the_pod items) = {p. OPod p \<in> set items}"
  by (induction items) (auto simp: List.map_filter_simps the_obj_Some split: option.splits)

lemma addDeletionTaint_spec:
  assumes "\<not> hasDeletionTaint v"
  shows "tspec (addDeletionTaint A v) w (\<lambda>res evs w'. (\<exists>s. w' = w\<lparr>srv := s, hist := hist w @ evs\<rparr>) \<and>
    (\<exists>now n u. evs = [EvClock now, EvUpdate VirtualClient (ONode n) u] \<and>
       hasDeletionTaint n \<and> mFinalizers (nMeta n) = mFinalizers (nMeta v)))"
  using assms unfolding addDeletionTaint_def update_node_def
  by (simp only: hasDeletionTaint_def if_False simp_thms if_True if_cancel, intro vcg conjI allI impI)
    (auto simp: hasDeletionTaint_def)

lemma finishDeletion_spec:
  assumes "mDeletionTimestamp (nMeta v) \<noteq> None"
  shows "tspec (finishDeletion A v vn) w (\<lambda>res evs w'.
    (list_all no_update evs \<and> nwPorts w' = nwPorts w \<and> nwLeases w' = nwLeases w) \<or> node_freed vn w evs w')"
proof -
  have freed: "node_freed vn w [EvList VirtualClient KPod (on_node vn) (Inr items),
      EvUpdate VirtualClient (ONode (v\<lparr>nMeta := RemoveFinalizer (nMeta v) VirtualNodeFinalizer\<rparr>)) u] w'"
    if "\<not> list_ex (activePodOn vn) (List.map_filter the_pod items)"
      "nwPorts w' = releaseProxierPort (nwPorts w) vn" "nwLeases w' = nwLeases w - {vn}" for items u w'
    unfolding node_freed_def using that assms
    by (intro exI [of _ "[]"] exI [of _ items] exI [of _ v] exI [of _ u])
      (auto simp: list_ex_iff set_map_filter_the_pod marks_only_def)
  show ?thesis
    unfolding finishDeletion_def checkPodsOnVirtualNode_def list_pods_def update_node_def
      stopLeaseController_def releasePort_def
    by (intro vcg conjI allI impI) (auto intro: freed)
qed

definition kept_or_freed :: "string \<Rightarrow> ('s, 'm) node_world_scheme \<Rightarrow> event list \<Rightarrow> ('s, 'm) node_world_scheme \<Rightarrow> bool" where
  "kept_or_freed vn w evs w' \<longleftrightarrow> node_kept vn w evs w' \<or> node_freed vn w evs w'"

lemma kept_or_freed_after:
  assumes "marks_only vn pre" and "nwPorts w1 = nwPorts w" and "nwLeases w1 = nwLeases w"
    and "(list_all no_update evs \<and> nwPorts w' = nwPorts w1 \<and> nwLeases w' = nwLeases w1) \<or> node_freed vn w1 evs w'"
  shows "kept_or_freed vn w (pre @ evs) w'"
  using assms(4)
proof
  assume "list_all no_update evs \<and> nwPorts w' = nwPorts w1 \<and> nwLeases w' = nwLeases w1"
  with assms(1-3) show ?thesis
    by (auto simp: kept_or_freed_def node_kept_def marks_only_append marks_only_no_update)
next
  assume "node_freed vn w1 evs w'"
  then obtain q items v u where freed: "evs = q @ [EvList VirtualClient KPod (on_node vn) (Inr items),
      EvUpdate VirtualClient (ONode (v\<lparr>nMeta := RemoveFinalizer (nMeta v) VirtualNodeFinalizer\<rparr>)) u]"
    "marks_only vn q" "mDeletionTimestamp (nMeta v) \<noteq> None"
    "\<forall>p. OPod p \<in> set items \<longrightarrow> \<not> activePodOn vn p"
    "nwPorts w' = releaseProxierPort (nwPorts w1) vn" "nwLeases w' = nwLeases w1 - {vn}"
    unfolding node_freed_def by (elim exE conjE) (rule that; assumption)
  have "marks_only vn (pre @ q)" using assms(1) freed(2) by (rule marks_only_append)
  with freed assms(2,3) have "node_freed vn w (pre @ evs) w'"
    unfolding node_freed_def
    by (intro exI [of _ "pre @ q"] exI [of _ items] exI [of _ v] exI [of _ u]) simp
  then show ?thesis by (simp add: kept_or_freed_def)
qed

lemma kept_calls:
  assumes "marks_only vn pre" and "nwPorts w1 = nwPorts w" and "nwLeases w1 = nwLeases w"
    and "list_all no_update evs"
  shows "kept_or_freed vn w (pre @ evs) (w1\<lparr>srv := s, hist := h\<rparr>)"
  using kept_or_freed_after [OF assms(1-3), of evs "w1\<lparr>srv := s, hist := h\<rparr>"] assms(4) by auto

lemma kept_calls_then:
  assumes "marks_only vn pre" and "nwPorts w1 = nwPorts w" and "nwLeases w1 = nwLeases w"
    and "list_all no_update evs"
    and "(list_all no_update evs' \<and> nwPorts w' = nwPorts w1 \<and> nwLeases w' = nwLeases w1) \<or>
      node_freed vn (w1\<lparr>srv := s1, hist := h1\<rparr>) evs' w'"
  shows "kept_or_freed vn w (pre @ evs @ evs') w'"
  using kept_or_freed_after [of vn "pre @ evs" "w1\<lparr>srv := s1, hist := h1\<rparr>" w evs' w'] assms
  by (simp add: marks_only_append marks_only_no_update)

text \<open>After the deletion timestamp is known: the reclaim step, then the end.\<close>

lemma reclaimAndFinish_spec:
  assumes "marks_only vn pre" and "nwPorts w1 = nwPorts w" and "nwLeases w1 = nwLeases w"
  shows "tspec (reclaimAndFinish A v vn force grace) w1 (\<lambda>res evs w'. kept_or_freed vn w (pre @ evs) w')"
  unfolding reclaimAndFinish_def
  by (intro vcg conjI allI impI tspec_quiet [OF reclaimStep_quiet] tspec_mono [OF finishDeletion_spec])
    (auto intro!: kept_calls [OF assms] kept_calls_then [OF assms])

lemma handleNodeDeletion_cases:
  "tspec (handleNodeDeletion A r n force grace) w
     (\<lambda>res evs w'. kept_or_freed (generateVirtualNodeName r n) w evs w')"
proof -
  let ?vn = "generateVirtualNodeName r n"
  have quiet: "kept_or_freed ?vn w evs (w\<lparr>srv := s, hist := h\<rparr>)"
    if "list_all no_update evs" for evs s h
    using that by (auto simp: kept_or_freed_def node_kept_def marks_only_no_update)
  have none: "kept_or_freed ?vn w [] w" by (simp add: kept_or_freed_def node_kept_def marks_only_def)
  have pre: "marks_only ?vn (evs @ [EvGet VirtualClient KNode '''' ?vn ob])"
    "ob = Inr (ONode v) \<Longrightarrow> hasDeletionTaint n' \<Longrightarrow> mFinalizers (nMeta n') = mFinalizers (nMeta v) \<Longrightarrow>
     marks_only ?vn (evs @ [EvGet VirtualClient KNode '''' ?vn ob, EvClock now, EvUpdate VirtualClient (ONode n') u])"
    if "list_all no_update evs" for evs ob v n' now u
    using marks_only_no_update [OF that] by (auto simp: marks_only_def)
  have tail1: "tspec (reclaimAndFinish A v ?vn force grace) (w\<lparr>srv := s, hist := h\<rparr>)
      (\<lambda>res evs'. kept_or_freed ?vn w (evs @ EvGet VirtualClient KNode '''' ?vn ob # evs'))"
    if "list_all no_update evs" for evs ob v s h
    using reclaimAndFinish_spec [where w = w and ?w1.0 = "w\<lparr>srv := s, hist := h\<rparr>", OF pre(1) [OF that]] by simp
  have tail2: "tspec (reclaimAndFinish A v' ?vn force grace) (w\<lparr>srv := s, hist := h\<rparr>)
      (\<lambda>res evs'. kept_or_freed ?vn w (evs @ EvGet VirtualClient KNode '''' ?vn (Inr (ONode v)) #
         EvClock now # EvUpdate VirtualClient (ONode n') u # evs'))"
    if "list_all no_update evs" "hasDeletionTaint n'" "mFinalizers (nMeta n') = mFinalizers (nMeta v)"
    for evs v v' n' now u s h
    using reclaimAndFinish_spec [where w = w and ?w1.0 = "w\<lparr>srv := s, hist := h\<rparr>",
        OF pre(2) [OF that(1) refl that(2,3)]] by simp
  have kept2: "kept_or_freed ?vn w (evs @ [EvGet VirtualClient KNode '''' ?vn (Inr (ONode v)), EvClock now,
      EvUpdate VirtualClient (ONode n') u]) (w\<lparr>srv := s, hist := h\<rparr>)"
    if "list_all no_update evs" "hasDeletionTaint n'" "mFinalizers (nMeta n') = mFinalizers (nMeta v)"
    for evs v n' now u s h
    using pre(2) [OF that(1) refl that(2,3)] by (simp add: kept_or_freed_def node_kept_def)
  show ?thesis
    unfolding handleNodeDeletion_def get_node_def Let_def
    by (intro vcg conjI allI impI tspec_quiet [OF removePolicyAppliedLabel_quiet]
        tspec_mono [OF addDeletionTaint_spec])
      (auto simp: decode_simps none intro!: tail1 tail2 kept2 intro: quiet)
qed

text \<open>
  C14. Removal of a virtual node, for every answer of the servers: either the reconciler keeps
  its port and its lease, and its updates of the node only mark it as being deleted, with the
  finalizers it read; or its last two calls are a listing of the pods on the virtual node, none
  of which is an active workload pod, and the update that drops the finalizer of a node whose
  deletion timestamp is set, and exactly then the port is released and the lease stopped.
\<close>

theorem handleNodeDeletion_safe:
  "tspec (handleNodeDeletion A r n force grace) w (\<lambda>res evs w'.
     node_kept (generateVirtualNodeName r n) w evs w' \<or>
     node_freed (generateVirtualNodeName r n) w evs w')"
  using handleNodeDeletion_cases unfolding kept_or_freed_def .

section \<open>Outside the time windows\<close>

fun is_delete :: "event \<Rightarrow> bool" where
  "is_delete (EvDelete _ _ _ _ _ _) = True"
| "is_delete _ = False"

text \<open>The grace period of the out-of-time-windows taint of a node is over at a reading of the clock.\<close>

definition grace_over :: "policy \<Rightarrow> node \<Rightarrow> event list \<Rightarrow> bool" where
  "grace_over p v evs \<longleftrightarrow> pGracefulReclaimPeriodSeconds p = 0 \<or>
    (\<exists>t. find (\<lambda>t. tKey t = TaintOutOfTimeWindows) (nTaints v) = Some t \<and>
      (case tTimeAdded t of None \<Rightarrow> True
       | Some since \<Rightarrow> (\<exists>now. EvClock now \<in> set evs \<and>
           pGracefulReclaimPeriodSeconds p * Second \<le> Since (ckNow now) since)))"

lemma grace_over_intros:
  "pGracefulReclaimPeriodSeconds p = 0 \<Longrightarrow> grace_over p v evs"
  "find (\<lambda>t. tKey t = TaintOutOfTimeWindows) (nTaints v) = Some t \<Longrightarrow> tTimeAdded t = None \<Longrightarrow>
     grace_over p v evs"
  "find (\<lambda>t. tKey t = TaintOutOfTimeWindows) (nTaints v) = Some t \<Longrightarrow> tTimeAdded t = Some since \<Longrightarrow>
     pGracefulReclaimPeriodSeconds p * Second \<le> Since (ckNow now) since \<Longrightarrow>
     grace_over p v (e # EvClock now # evs)"
  by (auto simp: grace_over_def)

text \<open>
  Outside the time windows of its policy a virtual node loses pods only if the policy
  forces the reclaim, and only once the grace period of the node's taint is over (or is zero,
  or the taint carries no time); until then the reconciler asks to come back after a time that
  is not negative.
\<close>

theorem out_of_windows_eviction:
  "tspec (handleOutOfTimeWindows A r n p) w (\<lambda>res evs w'.
     (list_ex is_delete evs \<longrightarrow> pForceReclaim p \<and>
        (\<exists>v. EvGet VirtualClient KNode '''' (generateVirtualNodeName r n) (Inr (ONode v)) \<in> set evs \<and>
           grace_over p v evs)) \<and>
     (\<forall>d. res = Inr (Result d) \<longrightarrow> 0 \<le> d))"
  unfolding handleOutOfTimeWindows_def get_node_def
  by (intro vcg conjI allI impI tspec_quiet [OF forceEvict_quiet [where P = "\<lambda>_. True"]])
    (auto simp: decode_simps DefaultNodeSyncInterval_def Second_def intro: grace_over_intros
      grace_over_intros(3) [unfolded Second_def])

theorem out_of_windows_eviction_witness:
  "tspec (handleOutOfTimeWindows scripted example_reconciler ''n1'' (night_policy\<lparr>pForceReclaim := False\<rparr>))
     \<lparr>srv = [AObj (Inr (ONode empty_node))], hist = []\<rparr> (\<lambda>res evs w'. \<not> list_ex is_delete evs)"
  by (rule tspec_mono [OF out_of_windows_eviction]) auto

section \<open>What a reconciliation writes\<close>

definition virtual_node_of :: "node_reconciler \<Rightarrow> node \<Rightarrow> node \<Rightarrow> bool" where
  "virtual_node_of r p n \<longleftrightarrow> mName (nMeta n) = generateVirtualNodeName r (mName (nMeta p)) \<and>
     ContainsFinalizer (nMeta n) VirtualNodeFinalizer \<and>
     mLabels (nMeta n) LabelManagedBy = Some LabelManagedByValue \<and>
     mLabels (nMeta n) LabelClusterBinding = Some (ClusterBindingName r) \<and>
     mLabels (nMeta n) LabelPhysicalNodeName = Some (mName (nMeta p)) \<and>
     mLabels (nMeta n) LabelPhysicalNodeUID = Some (mUID (nMeta p)) \<and>
     \<not> shouldProcessNode (Some n)"

text \<open>
  What the calls before have shown: the name of the physical node (the one asked for, or that of
  the node the server returned), and that a virtual node is the one the server gave for the
  generated name, or gave back after an update of it.
\<close>

definition physical_name :: "string \<Rightarrow> event list \<Rightarrow> string \<Rightarrow> bool" where
  "physical_name req pre nm \<longleftrightarrow> nm = req \<or>
     (\<exists>p. EvGet PhysicalClient KNode '''' req (Inr (ONode p)) \<in> set pre \<and> nm = mName (nMeta p))"

definition same_node :: "node \<Rightarrow> node \<Rightarrow> bool" where
  "same_node n v \<longleftrightarrow> mName (nMeta n) = mName (nMeta v) \<and> mUID (nMeta n) = mUID (nMeta v)"

definition virtual_seen :: "string \<Rightarrow> event list \<Rightarrow> node \<Rightarrow> bool" where
  "virtual_seen vn pre n \<longleftrightarrow> (\<exists>v. same_node n v \<and>
     (EvGet VirtualClient KNode '''' vn (Inr (ONode v)) \<in> set pre \<or>
      (\<exists>u. EvUpdate VirtualClient (ONode u) (Inr (ONode v)) \<in> set pre) \<or>
      (\<exists>u. EvStatusUpdate VirtualClient (ONode u) (Inr (ONode v)) \<in> set pre)))"

fun node_guard :: "node_reconciler \<Rightarrow> string \<Rightarrow> event list \<Rightarrow> event \<Rightarrow> bool" where
  "node_guard r req pre (EvCreate c ob _) \<longleftrightarrow> c = VirtualClient \<and>
     (\<exists>p n e. EvGet PhysicalClient KNode '''' req (Inr (ONode p)) \<in> set pre \<and> ob = ONode n \<and> virtual_node_of r p n \<and>
        EvGet VirtualClient KNode '''' (mName (nMeta n)) (Inl e) \<in> set pre \<and> IsNotFound e)"
| "node_guard r req pre (EvUpdate c ob _) \<longleftrightarrow> c = VirtualClient \<and>
     (\<exists>nm n. physical_name req pre nm \<and> ob = ONode n \<and> virtual_seen (generateVirtualNodeName r nm) pre n)"
| "node_guard r req pre (EvStatusUpdate c ob _) \<longleftrightarrow> c = VirtualClient \<and>
     (\<exists>nm n. physical_name req pre nm \<and> ob = ONode n \<and> virtual_seen (generateVirtualNodeName r nm) pre n)"
| "node_guard r req pre (EvPatch c b ob _) \<longleftrightarrow> c = VirtualClient \<and>
     (\<exists>nm n n'. physical_name req pre nm \<and> b = ONode n \<and> ob = ONode n' \<and> same_node n' n \<and>
        virtual_seen (generateVirtualNodeName r nm) pre n)"
| "node_guard r req pre (EvDelete c k ns n opts _) \<longleftrightarrow> c = VirtualClient \<and> (\<exists>nm. physical_name req pre nm \<and>
     (k = KNode \<and> ns = '''' \<and> (\<exists>v. virtual_seen (generateVirtualNodeName r nm) pre v \<and>
        n = mName (nMeta v) \<and> opts = uid_precondition (mUID (nMeta v))) \<or>
      k = KPod \<and> (\<exists>items pod. EvList VirtualClient KPod (on_node (generateVirtualNodeName r nm)) (Inr items) \<in> set pre \<and>
        OPod pod \<in> set items \<and> poNodeName pod = generateVirtualNodeName r nm \<and> mDeletionTimestamp (poMeta pod) = None \<and>
        ns = mNamespace (poMeta pod) \<and> n = mName (poMeta pod) \<and> opts = uid_precondition (mUID (poMeta pod)))))"
| "node_guard r req pre (EvPatchLabel c ob k v _) \<longleftrightarrow> c = PhysicalClient \<and> k = LabelPolicyApplied \<and>
     (\<exists>nm n p. physical_name req pre nm \<and> EvGet PhysicalClient KNode '''' nm (Inr (ONode p)) \<in> set pre \<and>
        ob = ONode n \<and> same_node n p)"
| "node_guard r req pre e \<longleftrightarrow> \<not> is_write e"

lemma node_guard_read [simp]: "\<not> is_write e \<Longrightarrow> node_guard r req pre e"
  by (cases e) simp_all

lemma physical_name_mono: "physical_name req pre nm \<Longrightarrow> set pre \<subseteq> set pre' \<Longrightarrow> physical_name req pre' nm"
  unfolding physical_name_def by blast

lemma virtual_seen_mono: "virtual_seen vn pre n \<Longrightarrow> set pre \<subseteq> set pre' \<Longrightarrow> virtual_seen vn pre' n"
  unfolding virtual_seen_def by blast

lemma same_node_refl [simp]: "same_node n n"
  by (simp add: same_node_def)

lemma virtual_seenI:
  "EvGet VirtualClient KNode '''' vn (Inr (ONode v)) \<in> set pre \<Longrightarrow> same_node n v \<Longrightarrow> virtual_seen vn pre n"
  "EvUpdate VirtualClient (ONode u) (Inr (ONode v)) \<in> set pre \<Longrightarrow> same_node n v \<Longrightarrow> virtual_seen vn pre n"
  "EvStatusUpdate VirtualClient (ONode u) (Inr (ONode v)) \<in> set pre \<Longrightarrow> same_node n v \<Longrightarrow> virtual_seen vn pre n"
  unfolding virtual_seen_def by blast+

lemma virtual_seen_same: "virtual_seen vn pre n \<Longrightarrow> same_node m n \<Longrightarrow> virtual_seen vn pre m"
  unfolding virtual_seen_def same_node_def by auto

lemma guarded_PatchLabel [gvcg]:
  "(\<And>r. G pre (EvPatchLabel c ob k v r)) \<Longrightarrow> (\<And>r. Q r (pre @ [EvPatchLabel c ob k v r])) \<Longrightarrow>
     guarded G pre (PatchLabel A c ob k v) Q"
  unfolding PatchLabel_def by (rule guarded_call) auto

lemma label_keys_distinct:
  "distinct [LabelClusterBinding, LabelPhysicalNodeName, LabelPhysicalNodeUID, LabelManagedBy,
     LabelVirtualNodeType, NodeInstanceTypeLabel, NodeInstanceTypeLabelBeta, ''kubernetes.io/hostname'',
     LabelPhysicalNodeInnerIP, LabelProxierPort, LabelPhysicalClusterID]"
  by (simp add: kube_consts)

lemma built_lookups [simp]:
  "buildVirtualNodeLabels r vn p port LabelManagedBy = Some LabelManagedByValue"
  "buildVirtualNodeLabels r vn p port LabelClusterBinding = Some (ClusterBindingName r)"
  "buildVirtualNodeLabels r vn p port LabelPhysicalNodeName = Some (mName (nMeta p))"
  "buildVirtualNodeLabels r vn p port LabelPhysicalNodeUID = Some (mUID (nMeta p))"
  "buildVirtualNodeLabels r vn p port LabelVirtualNodeType = Some VirtualNodeTypeValue"
  "buildVirtualNodeLabels r vn p port LabelProxierPort = Some port"
  using label_keys_distinct unfolding distinct.simps list.set insert_iff empty_iff de_Morgan_disj
  by (simp_all add: buildVirtualNodeLabels_def Let_def LabelManagedByValue_def)

lemma shouldProcessNode_virtual:
  "mLabels (nMeta n) LabelVirtualNodeType = Some VirtualNodeTypeValue \<Longrightarrow> \<not> shouldProcessNode (Some n)"
  by (simp add: shouldProcessNode_def Let_def)

lemma built_labels:
  assumes "nMeta n = empty_meta\<lparr>mName := generateVirtualNodeName r (mName (nMeta p)),
     mLabels := buildVirtualNodeLabels r vn p port, mAnnotations := as, mFinalizers := [VirtualNodeFinalizer]\<rparr>"
  shows "virtual_node_of r p n"
  using assms by (simp add: virtual_node_of_def ContainsFinalizer_def shouldProcessNode_virtual)

lemma saved_virtual_node:
  assumes "saveExpectedMetadataToAnnotation N n meta = Inr n'" and "virtual_node_of r p n"
  shows "virtual_node_of r p n'"
proof -
  from assms(1) obtain x where n': "n' = n\<lparr>nMeta := (nMeta n)\<lparr>mAnnotations := x\<rparr>\<rparr>"
    by (auto simp: saveExpectedMetadataToAnnotation_def split: sum.splits)
  have "shouldProcessNode (Some n') = shouldProcessNode (Some n)" by (simp add: n' shouldProcessNode_def)
  with assms(2) show ?thesis by (simp add: n' virtual_node_of_def ContainsFinalizer_def)
qed

lemma saved_case:
  assumes "(case saveExpectedMetadataToAnnotation N n meta of Inl e \<Rightarrow> Inl (Wrapf s e) | Inr v \<Rightarrow> Inr v) = Inr n'"
    and "nMeta n = empty_meta\<lparr>mName := generateVirtualNodeName r (mName (nMeta p)),
      mLabels := buildVirtualNodeLabels r vn p port, mAnnotations := as, mFinalizers := [VirtualNodeFinalizer]\<rparr>"
  shows "virtual_node_of r p n'"
  using assms(1) saved_virtual_node [OF _ built_labels [OF assms(2)]] by (auto split: sum.splits)

lemma guarded_use:
  assumes "guarded G pre m R" and "\<And>x es. R x (pre @ es) \<Longrightarrow> Q x (pre @ es)"
  shows "guarded G pre m Q"
  by (rule guarded_mono [OF guarded_prefix [OF assms(1)]]) (auto intro: assms(2))

lemma calls_read_guarded:
  assumes "calls m (\<lambda>e. \<not> is_write e)"
  shows "guarded (node_guard r req) pre m (\<lambda>_ _. True)"
  by (rule guarded_calls [OF assms]) simp_all

lemma buildVirtualNode_spec:
  "tspec (buildVirtualNode L A r p res pols dis ip port) w (\<lambda>out evs w'.
     list_all (\<lambda>e. \<not> is_write e) evs \<and> (\<forall>n. out = Inr n \<longrightarrow> virtual_node_of r p n))"
  unfolding buildVirtualNode_def buildVirtualNodeAnnotations_def transformTaints_def isWithinTimeWindows_def
  by (intro vcg conjI allI impI; (erule saved_case)?) simp_all

lemma ordered_reads: "list_all (\<lambda>e. \<not> is_write e) evs \<Longrightarrow> ordered (node_guard r req) pre evs"
  by (induction evs arbitrary: pre) auto

lemma guarded_build:
  "guarded (node_guard r req) pre (buildVirtualNode L A r p res pols dis ip port)
     (\<lambda>out _. \<forall>n. out = Inr n \<longrightarrow> virtual_node_of r p n)"
  unfolding guarded_def by (intro allI, rule tspec_mono [OF buildVirtualNode_spec]) (simp add: ordered_reads)

lemma guarded_updateVirtualNode:
  assumes "physical_name req pre nm" and "EvGet VirtualClient KNode '''' (generateVirtualNodeName r nm) (Inr (ONode e)) \<in> set pre"
  shows "guarded (node_guard r req) pre (updateVirtualNode L A e v) (\<lambda>_ _. True)"
proof -
  have seen: "virtual_seen (generateVirtualNodeName r nm) pre' n" "physical_name req pre' nm"
    if "same_node n e" "set pre \<subseteq> set pre'" for n pre'
    using that assms by (auto intro: virtual_seenI(1) physical_name_mono)
  have upd: "node_guard r req pre (EvStatusUpdate VirtualClient (ONode n) u)" if "same_node n e" for n u
    using seen [OF that order_refl] by auto
  have patch: "node_guard r req (pre @ [EvStatusUpdate VirtualClient (ONode m) (Inr (ONode n))])
      (EvPatch VirtualClient (ONode n) (ONode (n\<lparr>nTaints := ts\<rparr>)) u)" for m n ts u
    using physical_name_mono [OF assms(1), of "pre @ [EvStatusUpdate VirtualClient (ONode m) (Inr (ONode n))]"]
      virtual_seenI(3) [of m n "pre @ [EvStatusUpdate VirtualClient (ONode m) (Inr (ONode n))]" n "generateVirtualNodeName r nm"]
    by (auto simp: same_node_def)
  have seen': "\<exists>nm. physical_name req pre nm \<and> virtual_seen (generateVirtualNodeName r nm) pre n"
    if "mName (nMeta n) = mName (nMeta e)" "mUID (nMeta n) = mUID (nMeta e)" for n
    using seen [of n pre] that by (auto simp: same_node_def)
  show ?thesis
    unfolding updateVirtualNode_def status_update_node_def Let_def
    by (intro gvcg upd; (simp add: same_node_def AddFinalizer_def; fail)?)
      (auto simp: decode_simps same_node_def AddFinalizer_def split: sum.split intro!: gvcg patch seen')
qed

lemma guarded_createOrUpdateNode:
  assumes "EvGet PhysicalClient KNode '''' req (Inr (ONode p)) \<in> set pre"
  shows "guarded (node_guard r req) pre (createOrUpdateVirtualNode L A r p res pols dis)
     (\<lambda>out _. \<forall>n. out = Inr n \<longrightarrow> same_node n p)"
proof -
  let ?vn = "generateVirtualNodeName r (mName (nMeta p))"
  have pn: "physical_name req (pre @ es) (mName (nMeta p))" for es
    using assms by (auto simp: physical_name_def)
  have ip: "guarded (node_guard r req) pre' (getProxierPodIP A r) (\<lambda>_ _. True)" for pre'
    unfolding getProxierPodIP_def by (rule calls_read_guarded, rule calls_quiet) (intro quiet_rules | simp)+
  have port: "guarded (node_guard r req) pre' (allocPort n) (\<lambda>_ _. True)" for n pre'
    unfolding allocPort_def by (rule calls_read_guarded) (intro calls_rules | simp)+
  have shared: "same_node (shared_labels p n) p" for n by (simp add: shared_labels_def same_node_def)
  have missing: "decode the_node ra = Inl e \<Longrightarrow> IsNotFound e \<Longrightarrow> ra = Inl e" for ra e
    by (auto simp: decode_def split: sum.splits option.splits)
  have create: "node_guard r req (pre @ EvGet VirtualClient KNode '''' ?vn ra # es) (EvCreate VirtualClient (ONode n) u)"
    if "virtual_node_of r p n" "\<exists>e. decode the_node ra = Inl e \<and> IsNotFound e" for n u es ra
    using that(1) that(2) assms missing by (auto simp: virtual_node_of_def)
  have upd: "guarded (node_guard r req) (pre @ EvGet VirtualClient KNode '''' ?vn (Inr (ONode e)) # es)
      (updateVirtualNode L A e v) (\<lambda>_ _. True)" for e v es
    by (rule guarded_updateVirtualNode [OF pn]) simp
  show ?thesis
    unfolding createOrUpdateVirtualNode_def get_node_def Let_def
    by (intro gvcg)
      (auto simp: decode_simps shared simp del: node_guard.simps split: sum.split intro!: gvcg guarded_use [OF ip] guarded_use [OF port]
        guarded_use [OF guarded_build] create guarded_use [OF upd])
qed

lemma guarded_nodeReads:
  "guarded (node_guard r req) pre (checkPodsOnVirtualNode A vn) (\<lambda>_ _. True)"
  "guarded (node_guard r req) pre (getApplicablePolicies S A r nd sel) (\<lambda>_ _. True)"
  "guarded (node_guard r req) pre (calculateAvailableResources Q A r nd pl) (\<lambda>_ _. True)"
  "guarded (node_guard r req) pre (isWithinTimeWindows A pol) (\<lambda>_ _. True)"
  "guarded (node_guard r req) pre (startLeaseController vn) (\<lambda>_ _. True)"
  unfolding checkPodsOnVirtualNode_def getApplicablePolicies_def calculateAvailableResources_def
    calculateNodeResourceUsage_def isWithinTimeWindows_def startLeaseController_def
  by (rule calls_read_guarded, intro calls_rules calls_quiet quiet_rules; simp)+

lemma guarded_label:
  assumes "physical_name req pre nm"
  shows "guarded (node_guard r req) pre (removePolicyAppliedLabel A nm) (\<lambda>_ _. True)"
  using physical_name_mono [OF assms, of "pre @ es" for es]
  unfolding removePolicyAppliedLabel_def get_node_def
  by (intro gvcg) (auto simp: decode_simps split: sum.split intro!: gvcg exI [of _ nm])

lemma guarded_evict:
  fixes A :: "'s api"
  assumes "physical_name req pre nm"
  shows "guarded (node_guard r req) pre (forceEvictPodsOnVirtualNode A (generateVirtualNodeName r nm) skip :: ('s, 'm, unit res) prog) (\<lambda>_ _. True)"
proof -
  let ?vn = "generateVirtualNodeName r nm"
  have evict: "guarded (node_guard r req) pre' (evictPods A ?vn skip pods :: ('s, 'm, err list) prog) (\<lambda>_ _. True)"
    if "physical_name req pre' nm" "EvList VirtualClient KPod (on_node ?vn) (Inr items) \<in> set pre'"
      "\<And>p. p \<in> set pods \<Longrightarrow> OPod p \<in> set items" for pre' items pods
    using that
  proof (induction pods arbitrary: pre')
    case (Cons pod pods)
    have rest: "guarded (node_guard r req) (pre' @ es) (evictPods A ?vn skip pods :: ('s, 'm, err list) prog) (\<lambda>_ _. True)" for es
      using Cons.prems physical_name_mono [OF Cons.prems(1), of "pre' @ es"] by (intro Cons.IH) auto
    have "node_guard r req pre' (EvDelete VirtualClient KPod (mNamespace (poMeta pod)) (mName (poMeta pod))
        (uid_precondition (mUID (poMeta pod))) u)"
      if "poNodeName pod = ?vn" "mDeletionTimestamp (poMeta pod) = None" for u
      using that Cons.prems by auto
    with rest [of "[]"] rest show ?case
      by (auto simp del: node_guard.simps intro!: gvcg guarded_use [OF rest])
  qed (simp add: gvcg)
  show ?thesis
    unfolding forceEvictPodsOnVirtualNode_def list_pods_def
    by (intro gvcg) (auto simp: decode_simps set_map_filter_the_pod split: sum.split
        intro!: gvcg guarded_use [OF evict] physical_name_mono [OF assms])
qed

lemma guarded_addTaint:
  assumes "physical_name req pre nm" and "virtual_seen (generateVirtualNodeName r nm) pre v"
  shows "guarded (node_guard r req) pre (addDeletionTaint A v)
    (\<lambda>out pre'. \<forall>n. out = Inr n \<longrightarrow> virtual_seen (generateVirtualNodeName r nm) pre' n)"
proof -
  have upd: "node_guard r req (pre @ es) (EvUpdate VirtualClient (ONode n) u)" if "same_node n v" for n u es
    using assms that physical_name_mono [OF assms(1), of "pre @ es"]
      virtual_seen_mono [OF virtual_seen_same [OF assms(2) that], of "pre @ es"] by auto
  show ?thesis
    unfolding addDeletionTaint_def update_node_def Let_def
    by (intro gvcg upd; (simp add: same_node_def; fail)?) (auto simp: decode_simps assms(2) split: sum.split
        intro: virtual_seenI(2) [OF _ same_node_refl] intro!: gvcg)
qed

lemma guarded_reclaimAndFinish:
  assumes "physical_name req pre nm" and "virtual_seen (generateVirtualNodeName r nm) pre v"
  shows "guarded (node_guard r req) pre (reclaimAndFinish A v (generateVirtualNodeName r nm) force grace) (\<lambda>_ _. True)"
proof -
  have pn: "physical_name req (pre @ es) nm" for es using physical_name_mono [OF assms(1)] by auto
  have seen: "virtual_seen (generateVirtualNodeName r nm) (pre @ es) n" if "same_node n v" for n es
    using virtual_seen_mono [OF virtual_seen_same [OF assms(2) that]] by auto
  have upd: "node_guard r req (pre @ es) (EvUpdate VirtualClient (ONode n) u)" if "same_node n v" for n u es
    using pn [of es] seen [OF that, of es] by auto
  have del: "node_guard r req (pre @ es)
      (EvDelete VirtualClient KNode '''' (mName (nMeta v)) (uid_precondition (mUID (nMeta v))) u)" for u es
    using pn [of es] seen [OF same_node_refl, of es] by auto
  have evict: "guarded (node_guard r req) (pre @ es) (forceEvictPodsOnVirtualNode A (generateVirtualNodeName r nm) skip)
      (\<lambda>_ _. True)" for es skip
    by (rule guarded_evict [OF pn])
  have reclaim: "guarded (node_guard r req) pre (reclaimStep A v (generateVirtualNodeName r nm) force grace) (\<lambda>_ _. True)"
    unfolding reclaimStep_def Let_def using evict [of "[]"]
    by (intro gvcg) (auto simp del: node_guard.simps split: sum.split intro!: gvcg guarded_use [OF evict] guarded_use [OF evict [of "[]", simplified]])
  show ?thesis
    unfolding reclaimAndFinish_def finishDeletion_def stopLeaseController_def releasePort_def update_node_def Let_def
    using upd [where es = "[]", simplified append_Nil2] del [where es = "[]", simplified append_Nil2]
    by (intro gvcg)
      (auto simp: same_node_def RemoveFinalizer_def simp del: node_guard.simps split: sum.split option.split
        intro!: gvcg guarded_use [OF reclaim] guarded_use [OF guarded_nodeReads(1)] upd del)
qed

lemma guarded_nodeDeletion:
  assumes "physical_name req pre nm"
  shows "guarded (node_guard r req) pre (handleNodeDeletion A r nm force grace) (\<lambda>_ _. True)"
proof -
  let ?vn = "generateVirtualNodeName r nm"
  have pn: "physical_name req (pre @ es) nm" for es using physical_name_mono [OF assms] by auto
  have fin: "guarded (node_guard r req) (pre @ es) (reclaimAndFinish A v ?vn force grace) (\<lambda>_ _. True)"
    if "virtual_seen ?vn (pre @ es) v" for es v
    using pn that by (rule guarded_reclaimAndFinish)
  have fin': "guarded (node_guard r req) (pre @ es @ [e]) (reclaimAndFinish A v ?vn force grace) (\<lambda>_ _. True)"
    if "virtual_seen ?vn (pre @ es @ [e]) v" for es v e
    using fin that .
  have fin'': "guarded (node_guard r req) (pre @ es @ e # ds) (reclaimAndFinish A v ?vn force grace) (\<lambda>_ _. True)"
    if "virtual_seen ?vn (pre @ es @ e # ds) v" for es v e ds
    using fin that .
  have taint: "guarded (node_guard r req) (pre @ es @ [e]) (addDeletionTaint A v)
      (\<lambda>out pre'. \<forall>n. out = Inr n \<longrightarrow> virtual_seen ?vn pre' n)"
    if "virtual_seen ?vn (pre @ es @ [e]) v" for es v e
    using pn that by (rule guarded_addTaint)
  show ?thesis
    unfolding handleNodeDeletion_def get_node_def Let_def
    by (intro guarded_if guarded_return TrueI guarded_on_ok_then [OF guarded_label [OF assms]] gvcg)
      (auto simp: decode_simps split: sum.split
        intro!: gvcg fin fin' fin'' guarded_use [OF taint] virtual_seenI(1) [OF _ same_node_refl])
qed

lemma guarded_outOfWindows:
  assumes "physical_name req pre nm"
  shows "guarded (node_guard r req) pre (handleOutOfTimeWindows A r nm p) (\<lambda>_ _. True)"
proof -
  have evict: "guarded (node_guard r req) (pre @ es) (forceEvictPodsOnVirtualNode A (generateVirtualNodeName r nm) skip)
      (\<lambda>_ _. True)" for es skip
    by (rule guarded_evict) (use physical_name_mono [OF assms] in auto)
  show ?thesis
    unfolding handleOutOfTimeWindows_def get_node_def Let_def
    by (intro gvcg) (auto split: sum.split option.split intro!: gvcg guarded_use [OF evict])
qed

lemma guarded_ensureLabel:
  assumes "physical_name req pre nm" and "EvGet PhysicalClient KNode '''' nm (Inr (ONode p)) \<in> set pre" and "same_node n p"
  shows "guarded (node_guard r req) pre (ensurePolicyAppliedLabel A n pol) (\<lambda>_ _. True)"
  unfolding ensurePolicyAppliedLabel_def using assms
  by (intro gvcg) (auto split: sum.split intro!: gvcg)

lemma guarded_processNode:
  assumes "EvGet PhysicalClient KNode '''' req (Inr (ONode p)) \<in> set pre"
  shows "guarded (node_guard r req) pre (processNode L A r p) (\<lambda>_ _. True)"
proof -
  have pn: "physical_name req (pre @ es) (mName (nMeta p))" "physical_name req (pre @ es) req" for es
    using assms by (auto simp: physical_name_def)
  have del: "guarded (node_guard r req) (pre @ es) (handleNodeDeletion A r (mName (nMeta p)) force grace) (\<lambda>_ _. True)"
    for es force grace by (rule guarded_nodeDeletion [OF pn(1)])
  have out: "guarded (node_guard r req) (pre @ es) (handleOutOfTimeWindows A r (mName (nMeta n)) pol) (\<lambda>_ _. True)"
    if "same_node n p" for es pol n using guarded_outOfWindows [OF pn(1)] that by (simp add: same_node_def)
  have upd: "guarded (node_guard r req) (pre @ es) (createOrUpdateVirtualNode L A r p res pols dis)
     (\<lambda>out _. \<forall>n. out = Inr n \<longrightarrow> same_node n p)" for es res pols dis
    by (rule guarded_createOrUpdateNode) (use assms in auto)
  have lab: "guarded (node_guard r req) (pre @ es) (ensurePolicyAppliedLabel A n pol) (\<lambda>_ _. True)" if "same_node n p" for es n pol
    by (rule guarded_ensureLabel [OF pn(2) _ that]) (use assms in auto)
  show ?thesis
    unfolding processNode_def get_binding_def get_node_def Let_def
    by (intro gvcg)
      (auto simp del: node_guard.simps split: sum.split
        intro!: gvcg guarded_use [OF del] guarded_use [OF out] guarded_use [OF upd] guarded_use [OF lab]
          guarded_use [OF guarded_nodeReads(2)] guarded_use [OF guarded_nodeReads(3)] guarded_use [OF guarded_nodeReads(4)]
          guarded_use [OF guarded_nodeReads(5)])
qed

text \<open>
  C15. What reconciling a physical node writes, whatever the servers answer. In the physical
  cluster: nothing but the policy-applied label of that node, after reading it. In the virtual
  cluster: it creates only the virtual node of the physical node read, under the generated name
  and after that name was found missing, with the finalizer and the labels that identify the
  cluster binding, the node and its UID (and that keep the reconciler from treating it as a
  physical node); it updates and patches only the node the server gave for the generated name;
  it deletes only that node, under its UID, and pods that a listing of the pods on it returned,
  that run on it and are not being deleted yet, under their UIDs.
\<close>

theorem ReconcileNode_writes:
  "tspec (ReconcileNode L A r req) w (\<lambda>_ evs _. ordered (node_guard r req) [] evs)"
proof (rule guarded_ordered)
  have del: "guarded (node_guard r req) [EvGet PhysicalClient KNode '''' req ra] (handleNodeDeletion A r nm True 0) (\<lambda>_ _. True)"
    if "nm = req \<or> (\<exists>p. ra = Inr (ONode p) \<and> nm = mName (nMeta p))" for nm ra
    by (rule guarded_nodeDeletion) (use that in \<open>auto simp: physical_name_def\<close>)
  have proc: "guarded (node_guard r req) [EvGet PhysicalClient KNode '''' req (Inr (ONode p))] (processNode L A r p) (\<lambda>_ _. True)"
    for p by (rule guarded_processNode) simp
  show "guarded (node_guard r req) [] (ReconcileNode L A r req) (\<lambda>_ _. True)"
    unfolding ReconcileNode_def get_node_def Let_def
    by (intro gvcg) (auto simp: decode_simps intro!: gvcg del proc)
qed

section \<open>The port cache across reconciliations\<close>

text \<open>The port cache of a world is one that allocations and releases lead to from a given one.\<close>

definition ports_from :: "port_state \<Rightarrow> ('s, 'm) node_world_scheme \<Rightarrow> bool" where
  "ports_from st w \<longleftrightarrow> port_reach st (nwPorts w)"

lemma keeps_ports_quiet:
  fixes m :: "('s, 'm, 'b) node_prog"
  assumes "quiet m (\<lambda>_. True)"
  shows "keeps (ports_from st) m"
  by (rule keeps_quiet [OF assms]) (simp add: ports_from_def)

lemma ReconcileNode_keeps: "keeps (ports_from st) (ReconcileNode L A r req)"
proof -
  have alloc: "keeps (ports_from st) (allocPort n)" for n
    unfolding keeps_def ports_from_def allocPort_def
  proof (intro allI impI)
    fix w :: "('s, 'm) node_world_scheme"
    assume "port_reach st (nwPorts w)"
    from port_reach.allocate [OF this, of n]
    show "port_reach st (nwPorts (snd (run_state (do {
        st \<leftarrow> reads nwPorts; let (r, st') = allocateProxierPort st n;
        modifies (nwPorts_update (\<lambda>_. st')); return r }) w)))"
      by (cases "allocateProxierPort (nwPorts w) n") (simp add: reads_def modifies_def)
  qed
  have release: "keeps (ports_from st) (releasePort n)" for n
    unfolding releasePort_def by (rule keeps_modifies) (simp add: ports_from_def port_reach.release)
  have leases: "keeps (ports_from st) (startLeaseController n)" "keeps (ports_from st) (stopLeaseController n)" for n
    unfolding startLeaseController_def stopLeaseController_def
    by (intro keeps_rules keeps_modifies; simp add: ports_from_def)+
  have reads: "keeps (ports_from st) (get_node A c n)" "keeps (ports_from st) (get_binding A c n)"
    "keeps (ports_from st) (Create A c ob)" "keeps (ports_from st) (update_node A c nd)"
    "keeps (ports_from st) (Delete A c k ns n opts)" for c n ob nd k ns opts
    by (rule keeps_ports_quiet, intro quiet_rules, simp)+
  have subs: "quiet (getProxierPodIP A r) (\<lambda>_. True)"
    "quiet (buildVirtualNode L A r nd res pols dis ip port) (\<lambda>_. True)"
    "quiet (updateVirtualNode L A nd nd') (\<lambda>_. True)"
    "quiet (removePolicyAppliedLabel A n) (\<lambda>_. True)"
    "quiet (addDeletionTaint A nd) (\<lambda>_. True)"
    "quiet (reclaimStep A nd n force grace) (\<lambda>_. True)"
    "quiet (checkPodsOnVirtualNode A n) (\<lambda>_. True)"
    "quiet (getApplicablePolicies S A r nd sel) (\<lambda>_. True)"
    "quiet (calculateAvailableResources Q A r nd pl) (\<lambda>_. True)"
    "quiet (ensurePolicyAppliedLabel A nd n) (\<lambda>_. True)"
    "quiet (isWithinTimeWindows A p) (\<lambda>_. True)"
    "quiet (handleOutOfTimeWindows A r n p) (\<lambda>_. True)"
    for nd nd' res pols dis ip port n force grace S sel Q pl p
    unfolding getProxierPodIP_def buildVirtualNode_def buildVirtualNodeAnnotations_def transformTaints_def
      updateVirtualNode_def removePolicyAppliedLabel_def addDeletionTaint_def reclaimStep_def
      checkPodsOnVirtualNode_def getApplicablePolicies_def calculateAvailableResources_def
      calculateNodeResourceUsage_def ensurePolicyAppliedLabel_def isWithinTimeWindows_def handleOutOfTimeWindows_def
    by (intro quiet_rules TrueI)+
  note [keeps_rules] = subs [THEN keeps_ports_quiet]
  have del: "keeps (ports_from st) (handleNodeDeletion A r n force grace)" for n force grace
    unfolding handleNodeDeletion_def reclaimAndFinish_def finishDeletion_def
    by (intro keeps_rules reads release leases)
  have create: "keeps (ports_from st) (createOrUpdateVirtualNode L A r nd res pols dis)" for nd res pols dis
    unfolding createOrUpdateVirtualNode_def by (intro keeps_rules reads alloc)
  show ?thesis
    unfolding ReconcileNode_def processNode_def Let_def by (intro keeps_rules reads leases del create)
qed

text \<open>
  A reconciliation touches the port cache only by allocations and releases: from a cache
  that a start on a proper listing and any number of such operations led to, it leads to
  another such cache, in which no two virtual nodes hold the same port.
\<close>

theorem ReconcileNode_ports:
  assumes "ports_ok vnodes" and "port_reach (foldl loadPort no_ports vnodes) (nwPorts w)"
    and "run_state (ReconcileNode L A r req) w = (res, w')"
  shows "port_reach (foldl loadPort no_ports vnodes) (nwPorts w') \<and>
    inj_on (nodeNameToPort (nwPorts w')) (dom (nodeNameToPort (nwPorts w')))"
proof -
  have reach: "port_reach (foldl loadPort no_ports vnodes) (nwPorts w')"
    using keepsD [OF ReconcileNode_keeps _ assms(3)] assms(2) unfolding ports_from_def by blast
  have inv: "port_inv (nwPorts w')" using port_reach_inv [OF reach load_inv [OF assms(1)]] .
  have "inj_on (nodeNameToPort (nwPorts w')) (dom (nodeNameToPort (nwPorts w')))"
  proof (rule inj_onI)
    fix n m
    assume "n \<in> dom (nodeNameToPort (nwPorts w'))"
      and eq: "nodeNameToPort (nwPorts w') n = nodeNameToPort (nwPorts w') m"
    then obtain p where p: "nodeNameToPort (nwPorts w') n = Some p" by blast
    have "nodeNameToPort (nwPorts w') m = Some p" using eq p by simp
    with p show "n = m" by (rule pa.exclusive [OF inv])
  qed
  with reach show ?thesis by blast
qed

definition example_libs :: libs where
  "example_libs = \<lparr>libS = set_selectors, libQ = exact_quantities, libN = sample_lib\<rparr>"

theorem ReconcileNode_ports_witness:
  "let w = \<lparr>srv = [], hist = [], nwPorts = foldl loadPort no_ports [port_node ''v1'' ''15001''], nwLeases = {}\<rparr>;
       w' = snd (run_state (ReconcileNode example_libs scripted example_reconciler ''n1'') w)
   in ports_ok [port_node ''v1'' ''15001''] \<and>
      inj_on (nodeNameToPort (nwPorts w')) (dom (nodeNameToPort (nwPorts w')))"
proof -
  let ?vs = "[port_node ''v1'' ''15001'']"
  let ?w = "\<lparr>srv = [], hist = [], nwPorts = foldl loadPort no_ports ?vs, nwLeases = {}\<rparr>"
  have ok: "ports_ok ?vs" by (simp add: ports_ok_def List.map_filter_simps portMin_def portMax_def)
  obtain res w' where run: "run_state (ReconcileNode example_libs scripted example_reconciler ''n1'') ?w = (res, w')"
    by (cases "run_state (ReconcileNode example_libs scripted example_reconciler ''n1'') ?w")
  have "port_reach (foldl loadPort no_ports ?vs) (nwPorts ?w)"
    unfolding node_world.simps by (rule port_reach.start)
  from ReconcileNode_ports [OF ok this run] ok run show ?thesis by (simp only: Let_def snd_conv)
qed

end
