(* ===== verification/Policy_Controller.thy ===== *)
theory Policy_Controller
  imports Node_Controller
begin

text \<open>
  The reconciler of leasing policies, \<^verbatim>\<open>pkg/syncer/bottomup/rlp\<close>, and the two functions it
  is given by \<^verbatim>\<open>pkg/syncer/bottomup/bottomup_syncer.go\<close> to have nodes looked at again. It
  relies on them through the locale \<open>node_requeuer\<close>. \<^verbatim>\<open>%q\<close> is modelled for texts without
  characters to escape.
\<close>

definition DefaultPolicySyncInterval :: int where "DefaultPolicySyncInterval = 300 * Second"

section \<open>Requeuing nodes (BottomUpSyncer)\<close>

definition TriggerReconciliation :: "string \<Rightarrow> ('s, 'm, unit res) prog" where
  "TriggerReconciliation nodeName = do { emit (EvEnqueue nodeName); return (Inr ()) }"

fun RequeueNodes :: "string list \<Rightarrow> ('s, 'm, unit res) prog" where
  "RequeueNodes [] = return (Inr ())"
| "RequeueNodes (nodeName # nodeNames) = do { _ \<leftarrow> TriggerReconciliation nodeName; RequeueNodes nodeNames }"

definition GetNodesMatchingSelector ::
  "selector_lib \<Rightarrow> 's api \<Rightarrow> node_selector \<Rightarrow> ('s, 'm, string list res) prog" where
  "GetNodesMatchingSelector S A selector =
     on_ok_wrap ''failed to list nodes from physical cluster'' (list_nodes A PhysicalClient list_all_objs)
       (\<lambda>items. return (Inr (map (mName \<circ> nMeta) (filter (\<lambda>nd. MatchesSelector S nd selector) items))))"

section \<open>Validation and conditions\<close>

definition validDays :: "string list" where
  "validDays = [''monday'', ''tuesday'', ''wednesday'', ''thursday'', ''friday'', ''saturday'', ''sunday'']"

definition quoted :: "string \<Rightarrow> string" where
  "quoted s = [CHR 0x22] @ s @ [CHR 0x22]"

fun validateDays :: "int \<Rightarrow> int \<Rightarrow> string list \<Rightarrow> string option" where
  "validateDays i j [] = None"
| "validateDays i j (day # days) =
    (if ToLower day \<notin> set validDays
     then Some (''invalid day in time window '' @ Itoa i @ '', day '' @ Itoa j @ '': '' @ quoted day @
                '', expected one of: ['' @ Join validDays '' '' @ '']'')
     else validateDays i (j + 1) days)"

fun validateWindows :: "int \<Rightarrow> time_window list \<Rightarrow> string option" where
  "validateWindows i [] = None"
| "validateWindows i (window # ws) =
    (if \<not> isValidTimeFormat (Start window)
     then Some (''invalid start time format in time window '' @ Itoa i @ '': '' @ quoted (Start window) @
                '', expected HH:MM format'')
     else if \<not> isValidTimeFormat (End window)
     then Some (''invalid end time format in time window '' @ Itoa i @ '': '' @ quoted (End window) @
                '', expected HH:MM format'')
     else (case validateDays i 0 (Days window) of
         Some e \<Rightarrow> Some e
       | None \<Rightarrow> validateWindows (i + 1) ws))"

definition validateTimeWindows :: "policy \<Rightarrow> string option" where
  "validateTimeWindows policy = validateWindows 0 (pTimeWindows policy)"

fun updateFirst :: "('a \<Rightarrow> bool) \<Rightarrow> ('a \<Rightarrow> 'a) \<Rightarrow> 'a list \<Rightarrow> 'a list" where
  "updateFirst P f [] = []"
| "updateFirst P f (x # xs) = (if P x then f x # xs else x # updateFirst P f xs)"

text \<open>Find the condition of a type or append a new one, then set its fields.\<close>

definition setCondition ::
  "string \<Rightarrow> time \<Rightarrow> (condition \<Rightarrow> bool) \<Rightarrow> string \<Rightarrow> string \<Rightarrow> string \<Rightarrow> int \<Rightarrow> condition list \<Rightarrow> condition list" where
  "setCondition ty now changed st reason msg gen conds =
    (let conds = (if list_ex (\<lambda>c. cdType c = ty) conds then conds
                  else conds @ [\<lparr>cdType = ty, cdStatus = '''', cdReason = '''', cdMessage = '''',
                    cdLastTransitionTime = now, cdLastProbeTime = 0, cdObservedGeneration = 0\<rparr>])
     in updateFirst (\<lambda>c. cdType c = ty)
          (\<lambda>c. (if changed c then c\<lparr>cdLastTransitionTime := now\<rparr> else c)
                 \<lparr>cdStatus := st, cdReason := reason, cdMessage := msg, cdObservedGeneration := gen\<rparr>) conds)"

definition updatePolicyConditions :: "time \<Rightarrow> policy \<Rightarrow> bool \<Rightarrow> policy" where
  "updatePolicyConditions now policy isActive =
    (let gen = mGeneration (pMeta policy);
         conds = setCondition ''Valid'' now
           (\<lambda>c. cdStatus c \<noteq> ''True'' \<or> cdReason c \<noteq> ''ValidationPassed'')
           ''True'' ''ValidationPassed'' ''Policy validation passed successfully'' gen (pConditions policy);
         newStatus = (if isActive then ''True'' else ''False'');
         newReason = (if isActive then ''ActiveTimeWindow'' else ''InactiveTimeWindow'');
         newMessage = (if isActive then ''Policy is within active time window''
                       else ''Policy is outside of active time windows'');
         conds = setCondition ''Active'' now (\<lambda>c. cdStatus c \<noteq> newStatus) newStatus newReason newMessage gen conds
     in policy\<lparr>pConditions := conds\<rparr>)"

definition updatePolicyConditionsWithValidationError :: "time \<Rightarrow> policy \<Rightarrow> string \<Rightarrow> policy" where
  "updatePolicyConditionsWithValidationError now policy errorMessage =
    (let gen = mGeneration (pMeta policy);
         conds = setCondition ''Valid'' now
           (\<lambda>c. cdStatus c \<noteq> ''False'' \<or> cdReason c \<noteq> ''ValidationError'')
           ''False'' ''ValidationError'' (''Policy validation failed: '' @ errorMessage) gen (pConditions policy);
         conds = setCondition ''Active'' now
           (\<lambda>c. cdStatus c \<noteq> ''False'' \<or> cdReason c \<noteq> ''ValidationError'')
           ''False'' ''ValidationError'' ''Policy cannot be activated due to validation errors'' gen conds
     in policy\<lparr>pConditions := conds\<rparr>)"

section \<open>The reconciler\<close>

definition isPolicyActiveNow :: "'s api \<Rightarrow> policy \<Rightarrow> ('s, 'm, bool) prog" where
  "isPolicyActiveNow A policy = do {
     now \<leftarrow> Now A;
     return (IsWithinTimeWindowsAt policy (ToLower (ckWeekday now)) (ckHHMM now))
   }"

definition updatePolicyStatus :: "'s api \<Rightarrow> policy \<Rightarrow> ('s, 'm, bool res) prog" where
  "updatePolicyStatus A policy =
    (case validateTimeWindows policy of
       Some validationErr \<Rightarrow> do {
         let statusChanged = (pPhase policy \<noteq> ''Failed'');
         if statusChanged then do {
           now \<leftarrow> Now A;
           let policy = policy\<lparr>pPhase := ''Failed'', pActiveTimeWindow := False, pLastAppliedTime := Some (ckNow now)\<rparr>;
           now' \<leftarrow> Now A;
           let policy = updatePolicyConditionsWithValidationError (ckNow now') policy validationErr;
           on_ok (StatusUpdate A PhysicalClient (OPolicy policy)) (\<lambda>_. return (Inr statusChanged))
         } else return (Inr statusChanged)
       }
     | None \<Rightarrow> do {
         isActive \<leftarrow> isPolicyActiveNow A policy;
         let phase = (if isActive then ''Active'' else ''Inactive'');
         let statusChanged = (pPhase policy \<noteq> phase \<or> pActiveTimeWindow policy \<noteq> isActive);
         if statusChanged then do {
           now \<leftarrow> Now A;
           let policy = policy\<lparr>pPhase := phase, pActiveTimeWindow := isActive, pLastAppliedTime := Some (ckNow now)\<rparr>;
           now' \<leftarrow> Now A;
           let policy = updatePolicyConditions (ckNow now') policy isActive;
           on_ok (StatusUpdate A PhysicalClient (OPolicy policy)) (\<lambda>_. return (Inr statusChanged))
         } else return (Inr statusChanged)
       })"

definition triggerNodeReEvaluation ::
  "(node_selector \<Rightarrow> ('s, 'm, string list res) prog) \<Rightarrow> (string list \<Rightarrow> ('s, 'm, unit res) prog) \<Rightarrow>
   policy \<Rightarrow> ('s, 'm, unit res) prog" where
  "triggerNodeReEvaluation getNodes requeue policy =
     on_ok (getNodes (pNodeSelector policy)) (\<lambda>nodes.
       if length nodes > 0 then on_ok (requeue nodes) (\<lambda>_. return (Inr ()))
       else return (Inr ()))"

definition handlePolicyDeletion ::
  "(node_selector \<Rightarrow> ('s, 'm, string list res) prog) \<Rightarrow> (string list \<Rightarrow> ('s, 'm, unit res) prog) \<Rightarrow>
   's api \<Rightarrow> policy \<Rightarrow> ('s, 'm, ctrl_result res) prog" where
  "handlePolicyDeletion getNodes requeue A policy =
     on_ok (triggerNodeReEvaluation getNodes requeue policy) (\<lambda>_.
       on_ok (Update A PhysicalClient (OPolicy (policy\<lparr>pMeta := RemoveFinalizer (pMeta policy) PolicyFinalizerName\<rparr>)))
         (\<lambda>_. return (Inr (Result 0))))"

definition ReconcilePolicy ::
  "(node_selector \<Rightarrow> ('s, 'm, string list res) prog) \<Rightarrow> (string list \<Rightarrow> ('s, 'm, unit res) prog) \<Rightarrow>
   's api \<Rightarrow> string \<Rightarrow> string \<Rightarrow> ('s, 'm, ctrl_result res) prog" where
  "ReconcilePolicy getNodes requeue A bindingName reqName = do {
     got \<leftarrow> get_policy A PhysicalClient reqName;
     case got of
       Inl e \<Rightarrow> (if IsNotFound e then return (Inr (Result 0)) else return (Inl e))
     | Inr policy \<Rightarrow>
        (if pCluster policy \<noteq> bindingName then return (Inr (Result 0))
         else if mDeletionTimestamp (pMeta policy) \<noteq> None then handlePolicyDeletion getNodes requeue A policy
         else if \<not> ContainsFinalizer (pMeta policy) PolicyFinalizerName then
           on_ok (Update A PhysicalClient (OPolicy (policy\<lparr>pMeta := AddFinalizer (pMeta policy) PolicyFinalizerName\<rparr>)))
             (\<lambda>_. return (Inr (Result 0)))
         else on_ok (updatePolicyStatus A policy) (\<lambda>statusChanged.
           if statusChanged then return (Inr (Result DefaultPolicySyncInterval))
           else on_ok (triggerNodeReEvaluation getNodes requeue policy)
             (\<lambda>_. return (Inr (Result DefaultPolicySyncInterval)))))
   }"

section \<open>What the controller is given\<close>

text \<open>
  Both functions only make calls and write nothing; the first returns the names that what it read
  calls for (\<open>listed sel evs ns\<close>: after the calls \<open>evs\<close> the nodes of the selector are \<open>ns\<close>), the
  second puts exactly the nodes it is given on the queue. \<open>requeued listed evs\<close>: the calls are a
  listing and then the enqueuing of every node it calls for.
\<close>

definition requeued :: "(event list \<Rightarrow> string list \<Rightarrow> bool) \<Rightarrow> event list \<Rightarrow> bool" where
  "requeued listed evs \<longleftrightarrow> (\<exists>pre ns. evs = pre @ map EvEnqueue ns \<and> listed pre ns)"

locale node_requeuer =
  fixes getNodes :: "node_selector \<Rightarrow> ('s, 'm, string list res) prog"
    and requeue :: "string list \<Rightarrow> ('s, 'm, unit res) prog"
    and listed :: "node_selector \<Rightarrow> event list \<Rightarrow> string list \<Rightarrow> bool"
  assumes getNodes_reads: "quiet (getNodes sel) (\<lambda>e. \<not> is_write e)"
    and getNodes_names: "tspec (getNodes sel) w (\<lambda>r evs w'. \<forall>ns. r = Inr ns \<longrightarrow> listed sel evs ns)"
    and requeue_reads: "quiet (requeue ns) (\<lambda>e. \<not> is_write e)"
    and requeue_all: "tspec (requeue ns) w (\<lambda>r evs w'. r = Inr () \<longrightarrow> evs = map EvEnqueue ns)"
begin

lemma trigger_spec:
  "tspec (triggerNodeReEvaluation getNodes requeue policy) w (\<lambda>r evs w'.
     (\<forall>e\<in>set evs. \<not> is_write e) \<and> (r = Inr () \<longrightarrow> requeued (listed (pNodeSelector policy)) evs))"
proof -
  have get: "tspec (getNodes sel) w (\<lambda>r evs w'. (\<forall>e\<in>set evs. \<not> is_write e) \<and>
      (\<forall>ns. r = Inr ns \<longrightarrow> listed sel evs ns))" for sel w
    by (rule tspec_mono [OF tspec_conj [OF tspec_quiet [OF getNodes_reads, of "\<lambda>r evs w'. \<forall>e\<in>set evs. \<not> is_write e"]
            getNodes_names]]) (auto simp: list_all_iff)
  have req: "tspec (requeue ns) w (\<lambda>r evs w'. (\<forall>e\<in>set evs. \<not> is_write e) \<and>
      (r = Inr () \<longrightarrow> evs = map EvEnqueue ns))" for ns w
    by (rule tspec_mono [OF tspec_conj [OF tspec_quiet [OF requeue_reads, of "\<lambda>r evs w'. \<forall>e\<in>set evs. \<not> is_write e"]
            requeue_all]]) (auto simp: list_all_iff)
  show ?thesis
    unfolding triggerNodeReEvaluation_def
    by (intro vcg conjI allI impI tspec_mono [OF get] tspec_mono [OF req])
      (auto simp: requeued_def)
qed

text \<open>The finalizer of a policy goes only after every matching node was requeued.\<close>

lemma deletion_requeues:
  "tspec (handlePolicyDeletion getNodes requeue A policy) w (\<lambda>r evs w'.
     (\<forall>e\<in>set evs. \<not> is_write e) \<and> (\<exists>e. r = Inl e) \<or>
     (\<exists>pre u. evs = pre @ [EvUpdate PhysicalClient
          (OPolicy (policy\<lparr>pMeta := RemoveFinalizer (pMeta policy) PolicyFinalizerName\<rparr>)) u] \<and>
        (\<forall>e\<in>set pre. \<not> is_write e) \<and> requeued (listed (pNodeSelector policy)) pre))"
  unfolding handlePolicyDeletion_def
  by (intro vcg conjI allI impI tspec_mono [OF trigger_spec]) auto

end

definition matching_nodes :: "selector_lib \<Rightarrow> node_selector \<Rightarrow> event list \<Rightarrow> string list \<Rightarrow> bool" where
  "matching_nodes S sel evs ns \<longleftrightarrow> (\<exists>items. evs = [EvList PhysicalClient KNode list_all_objs (Inr items)] \<and>
     ns = map (mName \<circ> nMeta) (filter (\<lambda>nd. MatchesSelector S nd sel) (List.map_filter the_node items)))"

lemma RequeueNodes_quiet: "quiet (RequeueNodes ns) (\<lambda>e. \<not> is_write e)"
  by (induction ns) (auto simp: TriggerReconciliation_def intro!: quiet_rules)

lemma RequeueNodes_all:
  "tspec (RequeueNodes ns) w (\<lambda>r evs w'. r = Inr () \<longrightarrow> evs = map EvEnqueue ns)"
proof (induction ns arbitrary: w)
  case Nil
  show ?case by (simp, intro vcg) simp
next
  case (Cons n ns)
  show ?case
    unfolding RequeueNodes.simps TriggerReconciliation_def
    by (intro vcg tspec_mono [OF Cons.IH]) auto
qed

interpretation nr: node_requeuer "GetNodesMatchingSelector S A" RequeueNodes "matching_nodes S" for S A
proof unfold_locales
  fix sel
  show "quiet (GetNodesMatchingSelector S A sel) (\<lambda>e. \<not> is_write e)"
    unfolding GetNodesMatchingSelector_def by (intro quiet_rules) simp
next
  fix sel and w :: "('a, 'b) world_scheme"
  show "tspec (GetNodesMatchingSelector S A sel) w (\<lambda>r evs w'. \<forall>ns. r = Inr ns \<longrightarrow> matching_nodes S sel evs ns)"
    unfolding GetNodesMatchingSelector_def list_nodes_def
    by (intro vcg conjI allI impI) (auto simp: matching_nodes_def)
qed (rule RequeueNodes_quiet RequeueNodes_all)+

section \<open>Properties\<close>

text \<open>
  C16. Deleting a policy never loses a node, with the functions the syncer provides: a run that
  succeeds consists of a listing of all physical nodes, the enqueuing of exactly those the selector
  of the policy matches, and then, as its last call, the update that drops the finalizer of the
  policy; a run in which anything fails before that update writes nothing, so the policy keeps its
  finalizer.
\<close>

theorem policy_deletion_requeues:
  "tspec (handlePolicyDeletion (GetNodesMatchingSelector S A) RequeueNodes A policy) w (\<lambda>r evs w'.
     (\<forall>e\<in>set evs. \<not> is_write e) \<and> (\<exists>e. r = Inl e) \<or>
     (\<exists>items u. evs = EvList PhysicalClient KNode list_all_objs (Inr items) #
        map (EvEnqueue \<circ> mName \<circ> nMeta) (filter (\<lambda>nd. MatchesSelector S nd (pNodeSelector policy)) (List.map_filter the_node items)) @
        [EvUpdate PhysicalClient (OPolicy (policy\<lparr>pMeta := RemoveFinalizer (pMeta policy) PolicyFinalizerName\<rparr>)) u]))"
  by (rule tspec_mono [OF nr.deletion_requeues]) (auto simp: requeued_def matching_nodes_def comp_assoc)

theorem policy_deletion_requeues_witness:
  "tspec (handlePolicyDeletion (GetNodesMatchingSelector set_selectors scripted) RequeueNodes scripted night_policy)
     \<lparr>srv = [AList (Inr [ONode (named_node ''n1'')]), AObj (Inr (OPolicy night_policy))], hist = []\<rparr>
     (\<lambda>r evs w'. (\<exists>e. r = Inl e) \<or> (\<exists>items rest. evs = EvList PhysicalClient KNode list_all_objs (Inr items) # rest))"
  by (rule tspec_mono [OF policy_deletion_requeues]) blast

text \<open>The status a policy should have at two readings of the clock.\<close>

definition status_right :: "policy \<Rightarrow> event list \<Rightarrow> policy \<Rightarrow> bool" where
  "status_right policy evs p \<longleftrightarrow>
    (if validateTimeWindows policy \<noteq> None then pPhase p = ''Failed'' \<and> \<not> pActiveTimeWindow p
     else \<exists>now. EvClock now \<in> set evs \<and>
       pActiveTimeWindow p = IsWithinTimeWindowsAt policy (ToLower (ckWeekday now)) (ckHHMM now) \<and>
       pPhase p = (if pActiveTimeWindow p then ''Active'' else ''Inactive'')) \<and>
    (\<exists>phase active applied conds. p = policy\<lparr>pPhase := phase, pActiveTimeWindow := active,
       pLastAppliedTime := applied, pConditions := conds\<rparr>)"

text \<open>
  The status the reconciler writes is the truth: a status update carries the phase Failed
  for a policy whose time windows do not validate, and otherwise Active or Inactive according
  to whether the clock reading lies in its windows; nothing but the status is changed. A
  status update is the only write, and only a changed phase or flag is written.
\<close>

theorem updatePolicyStatus_right:
  "tspec (updatePolicyStatus A policy) w (\<lambda>r evs w'.
     (\<forall>e\<in>set evs. is_write e \<longrightarrow> (\<exists>p u. e = EvStatusUpdate PhysicalClient (OPolicy p) u \<and>
        status_right policy evs p \<and> (pPhase p \<noteq> pPhase policy \<or> pActiveTimeWindow p \<noteq> pActiveTimeWindow policy))) \<and>
     (r = Inr False \<longrightarrow> (\<forall>e\<in>set evs. \<not> is_write e)))"
proof -
  have conds: "\<exists>phase active applied conds. updatePolicyConditions n (policy\<lparr>pPhase := a, pActiveTimeWindow := b, pLastAppliedTime := c\<rparr>) d =
      policy\<lparr>pPhase := phase, pActiveTimeWindow := active, pLastAppliedTime := applied, pConditions := conds\<rparr>"
    "\<exists>phase active applied conds. updatePolicyConditionsWithValidationError n (policy\<lparr>pPhase := a, pActiveTimeWindow := b, pLastAppliedTime := c\<rparr>) m =
      policy\<lparr>pPhase := phase, pActiveTimeWindow := active, pLastAppliedTime := applied, pConditions := conds\<rparr>"
    for n a b c d m
    unfolding updatePolicyConditions_def updatePolicyConditionsWithValidationError_def Let_def
    by (intro exI, rule policy.equality; simp)+
  have phase: "pPhase (updatePolicyConditions n p d) = pPhase p"
    "pActiveTimeWindow (updatePolicyConditions n p d) = pActiveTimeWindow p"
    "pPhase (updatePolicyConditionsWithValidationError n p m) = pPhase p"
    "pActiveTimeWindow (updatePolicyConditionsWithValidationError n p m) = pActiveTimeWindow p" for n p d m
    by (simp_all add: updatePolicyConditions_def updatePolicyConditionsWithValidationError_def Let_def)
  show ?thesis
    unfolding updatePolicyStatus_def isPolicyActiveNow_def
    by (intro vcg conjI allI impI) (auto simp: status_right_def phase intro!: conds)
qed

theorem updatePolicyStatus_right_witness:
  "tspec (updatePolicyStatus scripted night_policy)
     \<lparr>srv = [AClock zero_clock, AClock zero_clock, AClock zero_clock, AObj (Inr (OPolicy night_policy))], hist = []\<rparr>
     (\<lambda>r evs w'. \<forall>e\<in>set evs. is_write e \<longrightarrow>
        (\<exists>p u. e = EvStatusUpdate PhysicalClient (OPolicy p) u \<and> status_right night_policy evs p))"
  by (rule tspec_mono [OF updatePolicyStatus_right]) blast

text \<open>A policy with one window over the whole day and one that does not validate.\<close>

definition broken_policy :: policy where
  "broken_policy = night_policy\<lparr>pTimeWindows :=
     [\<lparr>Start = ''00:00'', End = ''23:59'', Days = []\<rparr>, \<lparr>Start = ''9:00'', End = ''17:00'', Days = []\<rparr>]\<rparr>"

text \<open>
  A policy that fails validation is marked Failed, but still leases: the node controller
  looks only at the windows, and one valid window next to an invalid one keeps the policy
  within its windows at every time of every day.
\<close>

theorem failed_policy_still_active:
  "validateTimeWindows broken_policy \<noteq> None \<and>
   (\<forall>day h m. h < 24 \<longrightarrow> m < 60 \<longrightarrow> IsWithinTimeWindowsAt broken_policy day (hhmm h m))"
proof (intro conjI allI impI)
  have "\<not> isValidTimeFormat ''9:00''" "isValidTimeFormat ''00:00''" "isValidTimeFormat ''23:59''"
    by (simp_all add: time_eval)
  note valid = this
  then show "validateTimeWindows broken_policy \<noteq> None"
    by (simp add: validateTimeWindows_def broken_policy_def)
  fix day :: string and h m :: nat
  assume "h < 24" "m < 60"
  then have "isTimeInRange (hhmm h m) ''00:00'' ''23:59''"
    using valid minutes_bound [of "hhmm h m"]
    by (subst isTimeInRange_minutes) (simp_all add: window_minutes_def, simp add: minutes_def digit_val_def)
  then show "IsWithinTimeWindowsAt broken_policy day (hhmm h m)"
    by (simp add: IsWithinTimeWindowsAt_def IsWithinTimeWindows_def broken_policy_def dayMatches_def)
qed

theorem failed_policy_still_active_witness:
  "validateTimeWindows broken_policy \<noteq> None \<and> IsWithinTimeWindowsAt broken_policy ''sunday'' (hhmm 3 30)"
  using failed_policy_still_active by simp

section \<open>Conditions\<close>

lemma updateFirst_types [simp]:
  "(\<And>c. cdType (f c) = cdType c) \<Longrightarrow> map cdType (updateFirst P f cs) = map cdType cs"
  by (induction cs) auto

lemma updateFirst_other: "\<not> P c \<Longrightarrow> (\<And>c. P (f c) = P c) \<Longrightarrow> c \<in> set (updateFirst P f cs) \<longleftrightarrow> c \<in> set cs"
  by (induction cs) auto

lemma updateFirst_hit: "list_ex P cs \<Longrightarrow> \<exists>c. P c \<and> f c \<in> set (updateFirst P f cs)"
  by (induction cs) auto

text \<open>
  What setting a condition does to a list with one condition per type: still one per type, the
  given type has the given status, the conditions of other types are as before.
\<close>

lemma setCondition_spec:
  assumes "distinct (map cdType conds)"
  shows "distinct (map cdType (setCondition ty now ch st rs msg gen conds))"
    and "\<exists>c\<in>set (setCondition ty now ch st rs msg gen conds).
      cdType c = ty \<and> cdStatus c = st \<and> cdReason c = rs \<and> cdObservedGeneration c = gen"
    and "cdType c \<noteq> ty \<Longrightarrow> c \<in> set (setCondition ty now ch st rs msg gen conds) \<longleftrightarrow> c \<in> set conds"
proof -
  let ?base = "if list_ex (\<lambda>c. cdType c = ty) conds then conds
    else conds @ [\<lparr>cdType = ty, cdStatus = '''', cdReason = '''', cdMessage = '''',
      cdLastTransitionTime = now, cdLastProbeTime = 0, cdObservedGeneration = 0\<rparr>]"
  let ?f = "\<lambda>c. (if ch c then c\<lparr>cdLastTransitionTime := now\<rparr> else c)
      \<lparr>cdStatus := st, cdReason := rs, cdMessage := msg, cdObservedGeneration := gen\<rparr>"
  have set: "setCondition ty now ch st rs msg gen conds = updateFirst (\<lambda>c. cdType c = ty) ?f ?base"
    by (simp only: setCondition_def Let_def)
  have "distinct (map cdType ?base)" using assms by (auto simp: list_ex_iff)
  then show "distinct (map cdType (setCondition ty now ch st rs msg gen conds))"
    unfolding set by (subst updateFirst_types) auto
  have "list_ex (\<lambda>c. cdType c = ty) ?base" by simp
  from updateFirst_hit [OF this, of ?f] obtain d where "cdType d = ty"
    "?f d \<in> set (setCondition ty now ch st rs msg gen conds)" unfolding set by blast
  then show "\<exists>c\<in>set (setCondition ty now ch st rs msg gen conds).
      cdType c = ty \<and> cdStatus c = st \<and> cdReason c = rs \<and> cdObservedGeneration c = gen"
    by (intro bexI [of _ "?f d"]) auto
  show "c \<in> set (setCondition ty now ch st rs msg gen conds) \<longleftrightarrow> c \<in> set conds" if "cdType c \<noteq> ty"
    using that unfolding set by (subst updateFirst_other) auto
qed

text \<open>
  The conditions of a policy stay well formed: one per type, with Valid true, Active
  telling whether the policy is in its windows, both of the generation that was looked at, and
  every condition of another type untouched.
\<close>

theorem updatePolicyConditions_spec:
  assumes "distinct (map cdType (pConditions p))"
  shows "let conds = pConditions (updatePolicyConditions now p active) in
    distinct (map cdType conds) \<and>
    (\<exists>c\<in>set conds. cdType c = ''Valid'' \<and> cdStatus c = ''True'' \<and> cdObservedGeneration c = mGeneration (pMeta p)) \<and>
    (\<exists>c\<in>set conds. cdType c = ''Active'' \<and> cdStatus c = (if active then ''True'' else ''False'') \<and>
       cdObservedGeneration c = mGeneration (pMeta p)) \<and>
    (\<forall>c. cdType c \<notin> {''Valid'', ''Active''} \<longrightarrow> (c \<in> set conds \<longleftrightarrow> c \<in> set (pConditions p)))"
proof -
  let ?gen = "mGeneration (pMeta p)"
  define cs where "cs = setCondition ''Valid'' now (\<lambda>c. cdStatus c \<noteq> ''True'' \<or> cdReason c \<noteq> ''ValidationPassed'')
    ''True'' ''ValidationPassed'' ''Policy validation passed successfully'' ?gen (pConditions p)"
  define ds where "ds = pConditions (updatePolicyConditions now p active)"
  have ds: "ds = setCondition ''Active'' now (\<lambda>c. cdStatus c \<noteq> (if active then ''True'' else ''False''))
      (if active then ''True'' else ''False'') (if active then ''ActiveTimeWindow'' else ''InactiveTimeWindow'')
      (if active then ''Policy is within active time window'' else ''Policy is outside of active time windows'') ?gen cs"
    unfolding ds_def updatePolicyConditions_def cs_def Let_def by simp
  have d: "distinct (map cdType cs)" unfolding cs_def by (rule setCondition_spec(1) [OF assms])
  obtain v where v: "v \<in> set cs" "cdType v = ''Valid''" "cdStatus v = ''True''" "cdObservedGeneration v = ?gen"
    using setCondition_spec(2) [OF assms] unfolding cs_def by blast
  have "v \<in> set ds" unfolding ds using v by (subst setCondition_spec(3) [OF d]) auto
  moreover have "distinct (map cdType ds)" unfolding ds by (rule setCondition_spec(1) [OF d])
  moreover have "\<exists>c\<in>set ds. cdType c = ''Active'' \<and> cdStatus c = (if active then ''True'' else ''False'') \<and>
      cdObservedGeneration c = ?gen"
    unfolding ds using setCondition_spec(2) [OF d] by blast
  moreover have "c \<in> set ds \<longleftrightarrow> c \<in> set (pConditions p)" if "cdType c \<notin> {''Valid'', ''Active''}" for c
    using that unfolding ds by (subst setCondition_spec(3) [OF d]) (auto simp: cs_def setCondition_spec(3) [OF assms])
  ultimately show ?thesis using v unfolding Let_def ds_def [symmetric] by blast
qed

theorem updatePolicyConditions_spec_witness:
  "distinct (map cdType (pConditions night_policy)) \<and>
   distinct (map cdType (pConditions (updatePolicyConditions 5 night_policy True)))"
proof -
  have h: "distinct (map cdType (pConditions night_policy))" by (simp add: night_policy_def)
  with updatePolicyConditions_spec [OF h, of 5 True] show ?thesis unfolding Let_def by blast
qed

end
