(* ===== verification/Pod_Sync_Up.thy ===== *)
theory Pod_Sync_Up
  imports Kube_Api
begin

text \<open>
  The reconciler of physical pods, \<^verbatim>\<open>pkg/syncer/bottomup/pod/physical_pod_controller.go\<close>:
  it copies the status of a managed physical pod to its virtual pod, and deletes a managed
  physical pod that has lost its virtual pod. \<^verbatim>\<open>reflect.DeepEqual\<close> on apimachinery's
  \<^verbatim>\<open>PodStatus\<close> is the argument \<open>E\<close>.
\<close>

section \<open>Which pods belong together\<close>

definition isKubeoceanManagedPod :: "pod \<Rightarrow> bool" where
  "isKubeoceanManagedPod pod \<longleftrightarrow> mLabels (poMeta pod) LabelManagedBy = Some LabelManagedByValue"

definition hasRequiredAnnotations :: "pod \<Rightarrow> bool" where
  "hasRequiredAnnotations physicalPod \<longleftrightarrow>
     list_all (\<lambda>annotation. mget (mAnnotations (poMeta physicalPod)) annotation \<noteq> '''')
       [AnnotationVirtualPodNamespace, AnnotationVirtualPodName, AnnotationVirtualPodUID]"

text \<open>The three results of the code: the virtual pod, whether it matched, an error.\<close>

definition getAndValidateVirtualPod :: "'s api \<Rightarrow> pod \<Rightarrow> ('s, 'm, (pod option \<times> bool) res) prog" where
  "getAndValidateVirtualPod A physicalPod = do {
     let as = mAnnotations (poMeta physicalPod);
     let expectedUID = mget as AnnotationVirtualPodUID;
     got \<leftarrow> get_pod A VirtualClient (mget as AnnotationVirtualPodNamespace) (mget as AnnotationVirtualPodName);
     return (case got of
         Inl e \<Rightarrow> (if IsNotFound e then Inr (None, True) else Inl (Wrapf ''failed to get virtual pod'' e))
       | Inr virtualPod \<Rightarrow> (if mUID (poMeta virtualPod) \<noteq> expectedUID then Inr (None, False)
                           else Inr (Some virtualPod, True)))
   }"

definition validateVirtualPodAnnotations :: "pod \<Rightarrow> pod \<Rightarrow> bool" where
  "validateVirtualPodAnnotations virtualPod physicalPod \<longleftrightarrow>
     mAnnotations (poMeta virtualPod) AnnotationPhysicalPodNamespace = Some (mNamespace (poMeta physicalPod)) \<and>
     mAnnotations (poMeta virtualPod) AnnotationPhysicalPodName = Some (mName (poMeta physicalPod))"

section \<open>Deleting a physical pod\<close>

definition tokenSecretName :: "volume \<Rightarrow> string" where
  "tokenSecretName volume =
    (case vSecret volume of
       Some ref \<Rightarrow> refName ref
     | None \<Rightarrow> (case vProjected volume of
          Some sources \<Rightarrow> foldl (\<lambda>secretName source. case psSecret source of
              Some ref \<Rightarrow> refName ref | None \<Rightarrow> secretName) '''' sources
        | None \<Rightarrow> ''''))"

fun findTokenSecrets :: "'s api \<Rightarrow> string \<Rightarrow> volume list \<Rightarrow> ('s, 'm, string list) prog" where
  "findTokenSecrets A namespace [] = return []"
| "findTokenSecrets A namespace (volume # volumes) =
    (if \<not> HasPrefix (vName volume) ''kube-api-access-'' then findTokenSecrets A namespace volumes
     else if tokenSecretName volume = '''' then findTokenSecrets A namespace volumes
     else do {
       got \<leftarrow> get_secret A PhysicalClient namespace (tokenSecretName volume);
       rest \<leftarrow> findTokenSecrets A namespace volumes;
       return (case got of
           Inl _ \<Rightarrow> rest
         | Inr secret \<Rightarrow> (if mLabels (seMeta secret) LabelServiceAccountToken = Some ''true''
                         then tokenSecretName volume # rest else rest))
     })"

fun deleteSecrets :: "'s api \<Rightarrow> string \<Rightarrow> string list \<Rightarrow> ('s, 'm, unit res) prog" where
  "deleteSecrets A namespace [] = return (Inr ())"
| "deleteSecrets A namespace (secretName # names) = do {
     r \<leftarrow> Delete A PhysicalClient KSecret namespace secretName no_opts;
     case r of
       Inl e \<Rightarrow> (if \<not> IsNotFound e then return (Inl (Wrapf ''failed to delete serviceAccountToken secret'' e))
                else deleteSecrets A namespace names)
     | Inr _ \<Rightarrow> deleteSecrets A namespace names
   }"

definition deleteServiceAccountTokenSecretsFromSpec :: "'s api \<Rightarrow> string \<Rightarrow> volume list \<Rightarrow> ('s, 'm, unit res) prog" where
  "deleteServiceAccountTokenSecretsFromSpec A namespace volumes = do {
     secretsToDelete \<leftarrow> findTokenSecrets A namespace volumes;
     deleteSecrets A namespace secretsToDelete
   }"

definition deletePhysicalPod :: "'s api \<Rightarrow> pod \<Rightarrow> ('s, 'm, ctrl_result res) prog" where
  "deletePhysicalPod A physicalPod =
    (if mDeletionTimestamp (poMeta physicalPod) \<noteq> None then return (Inr (Result 0))
     else do {
       r \<leftarrow> Delete A PhysicalClient KPod (mNamespace (poMeta physicalPod)) (mName (poMeta physicalPod))
              (uid_precondition (mUID (poMeta physicalPod)));
       on_ok (return (case r of Inl e \<Rightarrow> (if \<not> IsNotFound e then Inl e else Inr ()) | Inr _ \<Rightarrow> Inr ())) (\<lambda>_.
         on_ok (deleteServiceAccountTokenSecretsFromSpec A (mNamespace (poMeta physicalPod)) (poVolumes physicalPod))
           (\<lambda>_. return (Inr (Result 0))))
     })"

section \<open>Copying the status\<close>

definition mergeConditions :: "condition list \<Rightarrow> condition list \<Rightarrow> condition list" where
  "mergeConditions virtualConditions physicalConditions =
    (case find (\<lambda>c. cdType c = ''PodScheduled'') virtualConditions of
       Some virtualPodScheduled \<Rightarrow>
         virtualPodScheduled # filter (\<lambda>c. cdType c \<noteq> ''PodScheduled'') physicalConditions
     | None \<Rightarrow> physicalConditions)"

definition internalLabels :: "string list" where
  "internalLabels = [LabelVirtualNamespace, LabelWorkloadType, LabelWorkloadName]"

definition internalAnnotations :: "string list" where
  "internalAnnotations = [AnnotationVirtualPodNamespace, AnnotationVirtualPodName, AnnotationVirtualPodUID,
     AnnotationPhysicalPodNamespace, AnnotationPhysicalPodName, AnnotationPhysicalPodUID,
     AnnotationVirtualNodeName, AnnotationExpectedMetadata]"

definition syncAnnotations :: "pod \<Rightarrow> pod \<Rightarrow> smap" where
  "syncAnnotations physicalPod virtualPod =
    (let va = mAnnotations (poMeta virtualPod);
         as = mfilter (\<lambda>k. k \<notin> set internalAnnotations) (mAnnotations (poMeta physicalPod));
         as = as(AnnotationPhysicalPodNamespace \<mapsto> mget va AnnotationPhysicalPodNamespace);
         as = as(AnnotationPhysicalPodName \<mapsto> mget va AnnotationPhysicalPodName);
         as = as(AnnotationPhysicalPodUID \<mapsto> mget va AnnotationPhysicalPodUID);
         as = (if mget as AnnotationPhysicalPodUID = ''''
               then as(AnnotationPhysicalPodUID \<mapsto> mUID (poMeta physicalPod)) else as)
     in as(AnnotationLastSyncTime \<mapsto> mget va AnnotationLastSyncTime))"

definition buildSyncPod :: "pod \<Rightarrow> pod \<Rightarrow> pod" where
  "buildSyncPod physicalPod virtualPod =
    (let ps = poStatus physicalPod; vs = poStatus virtualPod in
     virtualPod\<lparr>
       poMeta := (poMeta virtualPod)\<lparr>
         mLabels := mfilter (\<lambda>k. k \<notin> set internalLabels) (mLabels (poMeta physicalPod)),
         mAnnotations := syncAnnotations physicalPod virtualPod\<rparr>,
       poStatus := vs\<lparr>psPhase := psPhase ps, psConditions := mergeConditions (psConditions vs) (psConditions ps),
         psMessage := psMessage ps, psReason := psReason ps, psHostIP := psHostIP ps, psPodIP := psPodIP ps,
         psPodIPs := psPodIPs ps, psStartTime := psStartTime ps, psContainerStatuses := psContainerStatuses ps,
         psInitContainerStatuses := psInitContainerStatuses ps,
         psEphemeralContainerStatuses := psEphemeralContainerStatuses ps\<rparr>\<rparr>)"

definition isPodsStatusEqual :: "(pod_status \<Rightarrow> pod_status \<Rightarrow> bool) \<Rightarrow> pod \<Rightarrow> pod \<Rightarrow> bool" where
  "isPodsStatusEqual E pod1 pod2 =
    (if \<not> E (poStatus pod1) (poStatus pod2) then False
     else if mAnnotations (poMeta pod1) \<noteq> mAnnotations (poMeta pod2) then False
     else if mLabels (poMeta pod1) \<noteq> mLabels (poMeta pod2) then False
     else True)"

definition stampSync :: "string \<Rightarrow> pod \<Rightarrow> pod" where
  "stampSync now pod = pod\<lparr>poMeta := (poMeta pod)\<lparr>mAnnotations :=
     (mAnnotations (poMeta pod))(AnnotationLastSyncTime \<mapsto> now)\<rparr>\<rparr>"

definition syncPhysicalPodToVirtual ::
  "(pod_status \<Rightarrow> pod_status \<Rightarrow> bool) \<Rightarrow> 's api \<Rightarrow> pod \<Rightarrow> pod \<Rightarrow> ('s, 'm, ctrl_result res) prog" where
  "syncPhysicalPodToVirtual E A physicalPod virtualPod = do {
     let syncPod = buildSyncPod physicalPod virtualPod;
     if isPodsStatusEqual E syncPod virtualPod then return (Inr (Result 0))
     else do {
       now \<leftarrow> Now A;
       let syncPod = stampSync (ckRFC3339 now) syncPod;
       on_ok (StatusUpdate A VirtualClient (OPod syncPod)) (\<lambda>_. return (Inr (Result 0)))
     }
   }"

definition ReconcilePhysicalPod ::
  "(pod_status \<Rightarrow> pod_status \<Rightarrow> bool) \<Rightarrow> 's api \<Rightarrow> string \<Rightarrow> string \<Rightarrow> ('s, 'm, ctrl_result res) prog" where
  "ReconcilePhysicalPod E A reqNamespace reqName = do {
     got \<leftarrow> get_pod A PhysicalClient reqNamespace reqName;
     case got of
       Inl e \<Rightarrow> (if IsNotFound e then return (Inr (Result 0)) else return (Inl e))
     | Inr physicalPod \<Rightarrow>
        (if \<not> isKubeoceanManagedPod physicalPod then return (Inr (Result 0))
         else if \<not> hasRequiredAnnotations physicalPod then deletePhysicalPod A physicalPod
         else on_ok (getAndValidateVirtualPod A physicalPod) (\<lambda>found. case found of
           (virtualPod, isVirtualPodMatched) \<Rightarrow>
            (case virtualPod of
               None \<Rightarrow> deletePhysicalPod A physicalPod
             | Some virtualPod \<Rightarrow>
                (if \<not> isVirtualPodMatched then deletePhysicalPod A physicalPod
                 else if \<not> validateVirtualPodAnnotations virtualPod physicalPod then deletePhysicalPod A physicalPod
                 else syncPhysicalPodToVirtual E A physicalPod virtualPod))))
   }"

section \<open>Deletions\<close>

text \<open>The calls \<^verbatim>\<open>deletePhysicalPod\<close> may make for a pod.\<close>

definition token_secret :: "pod \<Rightarrow> string \<Rightarrow> bool" where
  "token_secret pod s \<longleftrightarrow> s \<noteq> '''' \<and> (\<exists>v\<in>set (poVolumes pod). HasPrefix (vName v) ''kube-api-access-'' \<and> tokenSecretName v = s)"

definition labelled_secret :: "string \<Rightarrow> string \<Rightarrow> event \<Rightarrow> bool" where
  "labelled_secret ns s e \<longleftrightarrow> (\<exists>sec. e = EvGet PhysicalClient KSecret ns s (Inr (OSecret sec)) \<and>
     mLabels (seMeta sec) LabelServiceAccountToken = Some ''true'')"

lemma findTokenSecrets_spec:
  "tspec (findTokenSecrets A ns vols) w (\<lambda>names evs w'. (\<forall>e\<in>set evs. \<not> is_write e) \<and>
     (\<forall>s\<in>set names. s \<noteq> '''' \<and> (\<exists>v\<in>set vols. HasPrefix (vName v) ''kube-api-access-'' \<and> tokenSecretName v = s) \<and>
        (\<exists>e\<in>set evs. labelled_secret ns s e)))"
proof (induction vols arbitrary: w)
  case Nil
  show ?case by (simp, intro vcg) simp
next
  case (Cons v vols)
  show ?case
    unfolding findTokenSecrets.simps get_secret_def
    by (intro vcg tspec_mono [OF Cons.IH])
      (auto simp: decode_simps labelled_secret_def split: sum.splits if_splits)
qed

lemma deleteSecrets_spec:
  "tspec (deleteSecrets A ns names) w (\<lambda>r evs w'.
     \<forall>e\<in>set evs. \<exists>s\<in>set names. \<exists>u. e = EvDelete PhysicalClient KSecret ns s no_opts u)"
proof (induction names arbitrary: w)
  case Nil
  show ?case by (simp, intro vcg) simp
next
  case (Cons n names)
  show ?case
    unfolding deleteSecrets.simps by (intro vcg tspec_mono [OF Cons.IH]) auto
qed

definition pod_deletion :: "pod \<Rightarrow> event list \<Rightarrow> event \<Rightarrow> bool" where
  "pod_deletion p evs e \<longleftrightarrow> mDeletionTimestamp (poMeta p) = None \<and>
    ((\<exists>u. e = EvDelete PhysicalClient KPod (mNamespace (poMeta p)) (mName (poMeta p))
           (uid_precondition (mUID (poMeta p))) u) \<or>
     (\<exists>s u. e = EvDelete PhysicalClient KSecret (mNamespace (poMeta p)) s no_opts u \<and> token_secret p s \<and>
        (\<exists>e'\<in>set evs. labelled_secret (mNamespace (poMeta p)) s e')))"

lemma deletePhysicalPod_spec:
  "tspec (deletePhysicalPod A p) w (\<lambda>r evs w'. \<forall>e\<in>set evs. is_write e \<longrightarrow> pod_deletion p evs e)"
  unfolding deletePhysicalPod_def deleteServiceAccountTokenSecretsFromSpec_def
  by (intro vcg conjI allI impI tspec_mono [OF findTokenSecrets_spec] tspec_mono [OF deleteSecrets_spec])
    (fastforce simp: pod_deletion_def token_secret_def)+

section \<open>Properties\<close>

text \<open>The virtual pod a physical pod belongs to, as read in a run.\<close>

definition paired :: "pod \<Rightarrow> pod \<Rightarrow> event list \<Rightarrow> bool" where
  "paired p v evs \<longleftrightarrow>
     EvGet VirtualClient KPod (mget (mAnnotations (poMeta p)) AnnotationVirtualPodNamespace)
       (mget (mAnnotations (poMeta p)) AnnotationVirtualPodName) (Inr (OPod v)) \<in> set evs \<and>
     mUID (poMeta v) = mget (mAnnotations (poMeta p)) AnnotationVirtualPodUID \<and>
     validateVirtualPodAnnotations v p"

definition pod_write_ok :: "pod \<Rightarrow> event list \<Rightarrow> event \<Rightarrow> bool" where
  "pod_write_ok p evs e \<longleftrightarrow> isKubeoceanManagedPod p \<and>
    (pod_deletion p evs e \<and> (\<forall>v. \<not> (hasRequiredAnnotations p \<and> paired p v evs)) \<or>
     (\<exists>v now u. paired p v evs \<and> e = EvStatusUpdate VirtualClient (OPod (stampSync now (buildSyncPod p v))) u))"

lemma pod_deletion_mono: "pod_deletion p evs e \<Longrightarrow> set evs \<subseteq> set evs' \<Longrightarrow> pod_deletion p evs' e"
  unfolding pod_deletion_def by blast

fun gets_virtual_pod :: "event \<Rightarrow> bool" where
  "gets_virtual_pod (EvGet VirtualClient KPod _ _ _) = True"
| "gets_virtual_pod _ = False"

lemma findTokenSecrets_quiet: "quiet (findTokenSecrets A ns vols) (\<lambda>e. \<not> gets_virtual_pod e)"
proof (induction vols)
  case (Cons v vols)
  then show ?case by (auto intro!: quiet_rules)
qed (simp add: quiet_rules)

lemma deleteSecrets_quiet: "quiet (deleteSecrets A ns names) (\<lambda>e. \<not> gets_virtual_pod e)"
proof (induction names)
  case (Cons n names)
  then show ?case unfolding deleteSecrets.simps by (intro quiet_rules; simp)
qed (simp add: quiet_rules)

lemma deletePhysicalPod_quiet: "quiet (deletePhysicalPod A p) (\<lambda>e. \<not> gets_virtual_pod e)"
  unfolding deletePhysicalPod_def deleteServiceAccountTokenSecretsFromSpec_def
  by (intro quiet_rules findTokenSecrets_quiet deleteSecrets_quiet; simp)

lemma deletePhysicalPod_post:
  "tspec (deletePhysicalPod A p) w (\<lambda>r evs w'. (\<forall>e\<in>set evs. is_write e \<longrightarrow> pod_deletion p evs e) \<and>
     (\<forall>e\<in>set evs. \<not> gets_virtual_pod e))"
  by (rule tspec_mono [OF tspec_conj [OF deletePhysicalPod_spec tspec_quiet [OF deletePhysicalPod_quiet,
            of "\<lambda>r evs w'. \<forall>e\<in>set evs. \<not> gets_virtual_pod e"]]])
    (auto simp: list_all_iff)

lemma orphan_writes:
  assumes "isKubeoceanManagedPod p" and "\<forall>v. \<not> (hasRequiredAnnotations p \<and> paired p v pre)"
    and "\<forall>e\<in>set evs. is_write e \<longrightarrow> pod_deletion p evs e" and "\<forall>e\<in>set evs. \<not> gets_virtual_pod e"
    and "e \<in> set evs" and "is_write e"
  shows "pod_write_ok p (pre @ evs) e"
proof -
  have "pod_deletion p (pre @ evs) e" using assms(3,5,6) pod_deletion_mono by (metis Un_upper2 set_append)
  moreover have "\<not> (hasRequiredAnnotations p \<and> paired p v (pre @ evs))" for v
    using assms(2,4) by (force simp: paired_def)
  ultimately show ?thesis using assms(1) by (simp add: pod_write_ok_def)
qed

definition pod_writes_ok :: "string \<Rightarrow> string \<Rightarrow> event list \<Rightarrow> bool" where
  "pod_writes_ok ns n evs \<longleftrightarrow> (\<forall>e\<in>set evs. is_write e \<longrightarrow>
     (\<exists>p. EvGet PhysicalClient KPod ns n (Inr (OPod p)) \<in> set evs \<and> pod_write_ok p evs e))"

lemma pod_writes_ok_reads: "\<forall>e\<in>set evs. \<not> is_write e \<Longrightarrow> pod_writes_ok ns n evs"
  by (simp add: pod_writes_ok_def)

lemma orphan_spec:
  assumes "isKubeoceanManagedPod p" and "\<forall>v. \<not> (hasRequiredAnnotations p \<and> paired p v pre)"
    and "\<forall>e\<in>set pre. \<not> is_write e" and "EvGet PhysicalClient KPod ns n (Inr (OPod p)) \<in> set pre"
  shows "tspec (deletePhysicalPod A p) w (\<lambda>r evs w'. pod_writes_ok ns n (pre @ evs))"
  by (rule tspec_mono [OF deletePhysicalPod_post], elim conjE)
    (use assms orphan_writes [OF assms(1,2)] in \<open>auto simp: pod_writes_ok_def\<close>)

lemma sync_writes:
  assumes "isKubeoceanManagedPod p" and "paired p v evs" and "EvGet PhysicalClient KPod ns n (Inr (OPod p)) \<in> set evs"
    and "\<forall>e\<in>set evs. is_write e \<longrightarrow> (\<exists>now u. e = EvStatusUpdate VirtualClient (OPod (stampSync now (buildSyncPod p v))) u)"
  shows "pod_writes_ok ns n evs"
  using assms unfolding pod_writes_ok_def pod_write_ok_def by blast

lemma decode_OPod [simp]: "decode the_pod (Inr (OPod v)) = Inr v"
  by (simp add: decode_def)

lemma ReconcilePhysicalPod_ok: "tspec (ReconcilePhysicalPod E A ns n) w (\<lambda>res evs w'. pod_writes_ok ns n evs)"
proof -
  let ?G = "\<lambda>p. EvGet PhysicalClient KPod ns n (Inr (OPod p))"
  let ?V = "\<lambda>p r. EvGet VirtualClient KPod (mget (mAnnotations (poMeta p)) AnnotationVirtualPodNamespace)
       (mget (mAnnotations (poMeta p)) AnnotationVirtualPodName) r"
  have orphan1: "tspec (deletePhysicalPod A p) w (\<lambda>r evs w'. pod_writes_ok ns n (?G p # evs))"
    if "isKubeoceanManagedPod p" "\<not> hasRequiredAnnotations p" for p w
    using orphan_spec [of p "[?G p]" ns n A w] that by simp
  have orphan2: "tspec (deletePhysicalPod A p) w (\<lambda>_ evs w'. pod_writes_ok ns n (?G p # ?V p r # evs))"
    if "isKubeoceanManagedPod p" "\<And>v. r = Inr (OPod v) \<Longrightarrow> mUID (poMeta v) \<noteq> mget (mAnnotations (poMeta p)) AnnotationVirtualPodUID \<or>
        \<not> validateVirtualPodAnnotations v p" for p r w
    using orphan_spec [of p "[?G p, ?V p r]" ns n A w] that by (auto simp: paired_def)
  have sync: "pod_writes_ok ns n [?G p, ?V p (Inr (OPod v)), EvClock c, EvStatusUpdate VirtualClient (OPod (stampSync t (buildSyncPod p v))) u]"
    if "isKubeoceanManagedPod p" "mUID (poMeta v) = mget (mAnnotations (poMeta p)) AnnotationVirtualPodUID"
       "validateVirtualPodAnnotations v p" for p v c t u
    using that by (intro sync_writes [of p v]) (auto simp: paired_def)
  show ?thesis
    unfolding ReconcilePhysicalPod_def get_pod_def getAndValidateVirtualPod_def syncPhysicalPodToVirtual_def
    by (intro vcg conjI allI impI)
      (auto simp: decode_simps pod_writes_ok_reads intro!: orphan1 orphan2 sync split: sum.splits if_splits)
qed

text \<open>
  C17. What the reconciler of physical pods may write, for every answer of the servers: the pod
  it was called for is managed by the program; it deletes that pod (under the precondition of
  its UID) and the token secrets its volumes name (after reading their label) only if the pod
  is not already being deleted and has no virtual pod that carries its recorded UID and points
  back to it; and if it has such a virtual pod, the only write is the status update of it.
\<close>

theorem ReconcilePhysicalPod_writes:
  "tspec (ReconcilePhysicalPod E A ns n) w (\<lambda>res evs w'. \<forall>e\<in>set evs. is_write e \<longrightarrow>
     (\<exists>p. EvGet PhysicalClient KPod ns n (Inr (OPod p)) \<in> set evs \<and> pod_write_ok p evs e))"
  using ReconcilePhysicalPod_ok unfolding pod_writes_ok_def .

theorem ReconcilePhysicalPod_writes_witness:
  "tspec (ReconcilePhysicalPod (=) scripted ''ns'' ''p1'') \<lparr>srv = [AObj (Inl (NotFound ''p1''))], hist = []\<rparr>
     (\<lambda>res evs w'. \<forall>e\<in>set evs. is_write e \<longrightarrow> (\<exists>p. pod_write_ok p evs e))"
  by (rule tspec_mono [OF ReconcilePhysicalPod_writes]) blast

lemma annotation_neqs:
  "AnnotationPhysicalPodNamespace \<noteq> AnnotationPhysicalPodName" "AnnotationPhysicalPodName \<noteq> AnnotationPhysicalPodNamespace"
  "AnnotationPhysicalPodNamespace \<noteq> AnnotationPhysicalPodUID" "AnnotationPhysicalPodUID \<noteq> AnnotationPhysicalPodNamespace"
  "AnnotationPhysicalPodNamespace \<noteq> AnnotationVirtualPodUID" "AnnotationVirtualPodUID \<noteq> AnnotationPhysicalPodNamespace"
  "AnnotationPhysicalPodNamespace \<noteq> AnnotationVirtualPodName" "AnnotationVirtualPodName \<noteq> AnnotationPhysicalPodNamespace"
  "AnnotationPhysicalPodNamespace \<noteq> AnnotationVirtualPodNamespace" "AnnotationVirtualPodNamespace \<noteq> AnnotationPhysicalPodNamespace"
  "AnnotationPhysicalPodNamespace \<noteq> AnnotationLastSyncTime" "AnnotationLastSyncTime \<noteq> AnnotationPhysicalPodNamespace"
  "AnnotationPhysicalPodNamespace \<noteq> AnnotationVirtualNodeName" "AnnotationVirtualNodeName \<noteq> AnnotationPhysicalPodNamespace"
  "AnnotationPhysicalPodNamespace \<noteq> AnnotationExpectedMetadata" "AnnotationExpectedMetadata \<noteq> AnnotationPhysicalPodNamespace"
  "AnnotationPhysicalPodName \<noteq> AnnotationPhysicalPodUID" "AnnotationPhysicalPodUID \<noteq> AnnotationPhysicalPodName"
  "AnnotationPhysicalPodName \<noteq> AnnotationVirtualPodUID" "AnnotationVirtualPodUID \<noteq> AnnotationPhysicalPodName"
  "AnnotationPhysicalPodName \<noteq> AnnotationVirtualPodName" "AnnotationVirtualPodName \<noteq> AnnotationPhysicalPodName"
  "AnnotationPhysicalPodName \<noteq> AnnotationVirtualPodNamespace" "AnnotationVirtualPodNamespace \<noteq> AnnotationPhysicalPodName"
  "AnnotationPhysicalPodName \<noteq> AnnotationLastSyncTime" "AnnotationLastSyncTime \<noteq> AnnotationPhysicalPodName"
  "AnnotationPhysicalPodName \<noteq> AnnotationVirtualNodeName" "AnnotationVirtualNodeName \<noteq> AnnotationPhysicalPodName"
  "AnnotationPhysicalPodName \<noteq> AnnotationExpectedMetadata" "AnnotationExpectedMetadata \<noteq> AnnotationPhysicalPodName"
  "AnnotationPhysicalPodUID \<noteq> AnnotationVirtualPodUID" "AnnotationVirtualPodUID \<noteq> AnnotationPhysicalPodUID"
  "AnnotationPhysicalPodUID \<noteq> AnnotationVirtualPodName" "AnnotationVirtualPodName \<noteq> AnnotationPhysicalPodUID"
  "AnnotationPhysicalPodUID \<noteq> AnnotationVirtualPodNamespace" "AnnotationVirtualPodNamespace \<noteq> AnnotationPhysicalPodUID"
  "AnnotationPhysicalPodUID \<noteq> AnnotationLastSyncTime" "AnnotationLastSyncTime \<noteq> AnnotationPhysicalPodUID"
  "AnnotationPhysicalPodUID \<noteq> AnnotationVirtualNodeName" "AnnotationVirtualNodeName \<noteq> AnnotationPhysicalPodUID"
  "AnnotationPhysicalPodUID \<noteq> AnnotationExpectedMetadata" "AnnotationExpectedMetadata \<noteq> AnnotationPhysicalPodUID"
  "AnnotationVirtualPodUID \<noteq> AnnotationVirtualPodName" "AnnotationVirtualPodName \<noteq> AnnotationVirtualPodUID"
  "AnnotationVirtualPodUID \<noteq> AnnotationVirtualPodNamespace" "AnnotationVirtualPodNamespace \<noteq> AnnotationVirtualPodUID"
  "AnnotationVirtualPodUID \<noteq> AnnotationLastSyncTime" "AnnotationLastSyncTime \<noteq> AnnotationVirtualPodUID"
  "AnnotationVirtualPodUID \<noteq> AnnotationVirtualNodeName" "AnnotationVirtualNodeName \<noteq> AnnotationVirtualPodUID"
  "AnnotationVirtualPodUID \<noteq> AnnotationExpectedMetadata" "AnnotationExpectedMetadata \<noteq> AnnotationVirtualPodUID"
  "AnnotationVirtualPodName \<noteq> AnnotationVirtualPodNamespace" "AnnotationVirtualPodNamespace \<noteq> AnnotationVirtualPodName"
  "AnnotationVirtualPodName \<noteq> AnnotationLastSyncTime" "AnnotationLastSyncTime \<noteq> AnnotationVirtualPodName"
  "AnnotationVirtualPodName \<noteq> AnnotationVirtualNodeName" "AnnotationVirtualNodeName \<noteq> AnnotationVirtualPodName"
  "AnnotationVirtualPodName \<noteq> AnnotationExpectedMetadata" "AnnotationExpectedMetadata \<noteq> AnnotationVirtualPodName"
  "AnnotationVirtualPodNamespace \<noteq> AnnotationLastSyncTime" "AnnotationLastSyncTime \<noteq> AnnotationVirtualPodNamespace"
  "AnnotationVirtualPodNamespace \<noteq> AnnotationVirtualNodeName" "AnnotationVirtualNodeName \<noteq> AnnotationVirtualPodNamespace"
  "AnnotationVirtualPodNamespace \<noteq> AnnotationExpectedMetadata" "AnnotationExpectedMetadata \<noteq> AnnotationVirtualPodNamespace"
  "AnnotationLastSyncTime \<noteq> AnnotationVirtualNodeName" "AnnotationVirtualNodeName \<noteq> AnnotationLastSyncTime"
  "AnnotationLastSyncTime \<noteq> AnnotationExpectedMetadata" "AnnotationExpectedMetadata \<noteq> AnnotationLastSyncTime"
  "AnnotationVirtualNodeName \<noteq> AnnotationExpectedMetadata" "AnnotationExpectedMetadata \<noteq> AnnotationVirtualNodeName"
  by (simp_all add: kube_consts)

lemma syncAnnotations_lookups:
  "syncAnnotations p v AnnotationPhysicalPodNamespace = Some (mget (mAnnotations (poMeta v)) AnnotationPhysicalPodNamespace)"
  "syncAnnotations p v AnnotationPhysicalPodName = Some (mget (mAnnotations (poMeta v)) AnnotationPhysicalPodName)"
  "syncAnnotations p v AnnotationPhysicalPodUID = Some
     (if mget (mAnnotations (poMeta v)) AnnotationPhysicalPodUID = '''' then mUID (poMeta p)
      else mget (mAnnotations (poMeta v)) AnnotationPhysicalPodUID)"
  "syncAnnotations p v AnnotationVirtualPodUID = None"
  "syncAnnotations p v AnnotationVirtualPodName = None"
  "syncAnnotations p v AnnotationVirtualPodNamespace = None"
  by (simp_all add: syncAnnotations_def Let_def internalAnnotations_def annotation_neqs)

text \<open>
  A status update is faithful: the virtual pod keeps its identity and spec and still points
  to the same physical pod; its phase, addresses and container statuses are those of the
  physical pod; the annotations by which the physical pod points to it are not copied onto it;
  and its own PodScheduled condition survives.
\<close>

theorem sync_faithful:
  assumes "validateVirtualPodAnnotations v p"
  shows "let v' = stampSync t (buildSyncPod p v) in
    validateVirtualPodAnnotations v' p \<and>
    (\<exists>ls as st. v' = v\<lparr>poMeta := (poMeta v)\<lparr>mLabels := ls, mAnnotations := as\<rparr>, poStatus := st\<rparr>) \<and>
    psPhase (poStatus v') = psPhase (poStatus p) \<and> psPodIP (poStatus v') = psPodIP (poStatus p) \<and>
    psHostIP (poStatus v') = psHostIP (poStatus p) \<and>
    psContainerStatuses (poStatus v') = psContainerStatuses (poStatus p) \<and>
    mAnnotations (poMeta v') AnnotationVirtualPodUID = None \<and>
    mAnnotations (poMeta v') AnnotationVirtualPodName = None \<and>
    (\<forall>c. find (\<lambda>c. cdType c = ''PodScheduled'') (psConditions (poStatus v)) = Some c \<longrightarrow>
       find (\<lambda>c. cdType c = ''PodScheduled'') (psConditions (poStatus v')) = Some c)"
proof -
  let ?v' = "stampSync t (buildSyncPod p v)"
  have as: "mAnnotations (poMeta ?v') = (syncAnnotations p v)(AnnotationLastSyncTime \<mapsto> t)"
    by (simp add: stampSync_def buildSyncPod_def Let_def)
  have "validateVirtualPodAnnotations ?v' p"
    using assms unfolding validateVirtualPodAnnotations_def as by (simp add: syncAnnotations_lookups annotation_neqs)
  moreover have "\<exists>ls as st. ?v' = v\<lparr>poMeta := (poMeta v)\<lparr>mLabels := ls, mAnnotations := as\<rparr>, poStatus := st\<rparr>"
    unfolding stampSync_def buildSyncPod_def Let_def by (intro exI, rule pod.equality) simp_all
  moreover have "mAnnotations (poMeta ?v') AnnotationVirtualPodUID = None"
    "mAnnotations (poMeta ?v') AnnotationVirtualPodName = None"
    unfolding as by (simp_all add: syncAnnotations_lookups annotation_neqs)
  moreover have "find (\<lambda>c. cdType c = ''PodScheduled'') (psConditions (poStatus ?v')) = Some c"
    if "find (\<lambda>c. cdType c = ''PodScheduled'') (psConditions (poStatus v)) = Some c" for c
    using that find_SomeD [OF that] by (simp add: stampSync_def buildSyncPod_def Let_def mergeConditions_def)
  ultimately show ?thesis by (simp add: Let_def) (simp add: stampSync_def buildSyncPod_def Let_def)
qed

text \<open>
  \<^verbatim>\<open>reflect.DeepEqual\<close> on statuses: equal statuses with at least one condition are deeply
  equal (a nil and an empty slice are not), and different ones are not.
\<close>

definition status_deep_equal :: "(pod_status \<Rightarrow> pod_status \<Rightarrow> bool) \<Rightarrow> bool" where
  "status_deep_equal E \<longleftrightarrow> (\<forall>s. psConditions s \<noteq> [] \<longrightarrow> E s s) \<and> (\<forall>s s'. E s s' \<longrightarrow> s = s')"

lemma sync_fixpoint:
  assumes "list_ex (\<lambda>c. cdType c = ''PodScheduled'') (psConditions (poStatus v))" and "mUID (poMeta p) \<noteq> ''''"
  shows "let v' = stampSync t (buildSyncPod p v) in
    poStatus (buildSyncPod p v') = poStatus v' \<and> mLabels (poMeta (buildSyncPod p v')) = mLabels (poMeta v') \<and>
    mAnnotations (poMeta (buildSyncPod p v')) = mAnnotations (poMeta v')"
proof -
  let ?v' = "stampSync t (buildSyncPod p v)"
  obtain c where c: "find (\<lambda>c. cdType c = ''PodScheduled'') (psConditions (poStatus v)) = Some c"
    using assms(1) by (metis (mono_tags, lifting) find_None_all list_ex_iff option.exhaust)
  from find_SomeD [OF c] have "cdType c = ''PodScheduled''" by simp
  with c have "poStatus (buildSyncPod p ?v') = poStatus ?v'"
    by (simp add: stampSync_def buildSyncPod_def Let_def mergeConditions_def)
  moreover have as: "mAnnotations (poMeta ?v') = (syncAnnotations p v)(AnnotationLastSyncTime \<mapsto> t)"
    by (simp add: stampSync_def buildSyncPod_def Let_def)
  have "syncAnnotations p ?v' = (syncAnnotations p v)(AnnotationLastSyncTime \<mapsto> t)"
  proof
    fix k
    show "syncAnnotations p ?v' k = ((syncAnnotations p v)(AnnotationLastSyncTime \<mapsto> t)) k"
      using assms(2) unfolding syncAnnotations_def [of p ?v'] as Let_def
      by (simp add: mget_def [of "syncAnnotations p v"] syncAnnotations_lookups annotation_neqs)
        (simp add: syncAnnotations_def Let_def internalAnnotations_def annotation_neqs)
  qed
  then have "mAnnotations (poMeta (buildSyncPod p ?v')) = mAnnotations (poMeta ?v')"
    unfolding as by (simp add: buildSyncPod_def Let_def)
  moreover have "mLabels (poMeta (buildSyncPod p ?v')) = mLabels (poMeta ?v')"
    by (simp add: stampSync_def buildSyncPod_def Let_def)
  ultimately show ?thesis by (simp add: Let_def)
qed

text \<open>
  Status synchronization converges: once the update of a scheduled virtual pod is stored,
  reconciling the unchanged physical pod again writes nothing (the time stamp of the last
  synchronization alone does not count as a change).
\<close>

theorem sync_converges:
  assumes "status_deep_equal E" and "list_ex (\<lambda>c. cdType c = ''PodScheduled'') (psConditions (poStatus v))"
    and "mUID (poMeta p) \<noteq> ''''"
  shows "run_state (syncPhysicalPodToVirtual E A p (stampSync t (buildSyncPod p v))) w = (Inr (Result 0), w)"
proof -
  let ?v' = "stampSync t (buildSyncPod p v)"
  have fix': "poStatus (buildSyncPod p ?v') = poStatus ?v'" "mLabels (poMeta (buildSyncPod p ?v')) = mLabels (poMeta ?v')"
    "mAnnotations (poMeta (buildSyncPod p ?v')) = mAnnotations (poMeta ?v')"
    using sync_fixpoint [OF assms(2,3), of t] unfolding Let_def by blast+
  have "psConditions (poStatus ?v') \<noteq> []"
    using assms(2)
    by (auto simp: stampSync_def buildSyncPod_def Let_def mergeConditions_def find_None_all list_ex_iff split: option.splits)
  then have "E (poStatus ?v') (poStatus ?v')" using assms(1) by (simp add: status_deep_equal_def)
  then have "isPodsStatusEqual E (buildSyncPod p ?v') ?v'" unfolding isPodsStatusEqual_def fix' by simp
  then show ?thesis by (simp add: syncPhysicalPodToVirtual_def)
qed

definition scheduled_pod :: pod where
  "scheduled_pod = empty_pod\<lparr>
     poMeta := empty_meta\<lparr>mName := ''v'', mAnnotations := [AnnotationPhysicalPodNamespace \<mapsto> ''ns'', AnnotationPhysicalPodName \<mapsto> ''p'']\<rparr>,
     poStatus := empty_status\<lparr>psConditions := [\<lparr>cdType = ''PodScheduled'', cdStatus = ''True'', cdReason = '''',
       cdMessage = '''', cdLastTransitionTime = 0, cdLastProbeTime = 0, cdObservedGeneration = 0\<rparr>]\<rparr>\<rparr>"

definition physical_pod :: pod where
  "physical_pod = empty_pod\<lparr>poMeta := empty_meta\<lparr>mName := ''p'', mNamespace := ''ns'', mUID := ''u''\<rparr>,
     poStatus := empty_status\<lparr>psPhase := ''Running''\<rparr>\<rparr>"

theorem sync_faithful_witness:
  "validateVirtualPodAnnotations scheduled_pod physical_pod \<and>
   psPhase (poStatus (stampSync ''t'' (buildSyncPod physical_pod scheduled_pod))) = psPhase (poStatus physical_pod)"
proof -
  have h: "validateVirtualPodAnnotations scheduled_pod physical_pod"
    by (simp add: validateVirtualPodAnnotations_def scheduled_pod_def physical_pod_def kube_consts)
  from sync_faithful [OF h, of "''t''"] h show ?thesis by (simp add: Let_def)
qed

theorem sync_converges_witness:
  "status_deep_equal (=) \<and>
   run_state (syncPhysicalPodToVirtual (=) scripted physical_pod
     (stampSync ''t'' (buildSyncPod physical_pod scheduled_pod))) \<lparr>srv = [], hist = []\<rparr> =
     (Inr (Result 0), \<lparr>srv = [], hist = []\<rparr>)"
proof -
  have "list_ex (\<lambda>c. cdType c = ''PodScheduled'') (psConditions (poStatus scheduled_pod))" "mUID (poMeta physical_pod) \<noteq> ''''"
    by (simp_all add: scheduled_pod_def physical_pod_def)
  with sync_converges [of "(=)" scheduled_pod physical_pod scripted "''t''" "\<lparr>srv = [], hist = []\<rparr>"]
  show ?thesis by (simp add: status_deep_equal_def)
qed

end
