(* ===== verification/Host_Ports.thy ===== *)
theory Host_Ports
  imports Kube_Api Naming "HOL-Library.Multiset" "HOL-Library.Product_Lexorder"
begin

text \<open>
  The reconciler of host ports, \<^verbatim>\<open>pkg/syncer/bottomup/hostport/hostport_node_controller.go\<close>:
  the ports that foreign pods take on a physical node are reserved on its virtual node by one
  fake pod, so that the scheduler of the virtual cluster sees them as taken.
\<close>

definition FakePodNamespace :: string where "FakePodNamespace = ''kubeocean-fake''"
definition FakePodGenerateName :: string where "FakePodGenerateName = ''fake-pod-for-hostport''"
definition FakeContainerName :: string where "FakeContainerName = ''fake-container''"
definition FakeContainerImage :: string where "FakeContainerImage = ''busybox:1.28''"
definition SystemNodeCriticalPriorityClass :: string where
  "SystemNodeCriticalPriorityClass = ''system-node-critical''"

record hostport_reconciler =
  hpClusterBindingName :: string
  hpClusterBinding :: "cluster_binding option"

section \<open>Which pods and nodes count\<close>

definition hasAppliedPolicyLabel :: "node \<Rightarrow> bool" where
  "hasAppliedPolicyLabel nd = (case mLabels (nMeta nd) LabelPolicyApplied of
     None \<Rightarrow> False | Some v \<Rightarrow> v \<noteq> '''')"

definition podHasHostPort :: "pod \<Rightarrow> bool" where
  "podHasHostPort p \<longleftrightarrow>
     list_ex (\<lambda>c. list_ex (\<lambda>q. 0 < cpHostPort q) (ctPorts c)) (poContainers p) \<or>
     list_ex (\<lambda>c. list_ex (\<lambda>q. 0 < cpHostPort q) (ctPorts c)) (poInitContainers p)"

definition ownedByKubeocean :: "pod \<Rightarrow> bool" where
  "ownedByKubeocean p = (case mLabels (poMeta p) LabelManagedBy of
     None \<Rightarrow> False | Some v \<Rightarrow> v = LabelManagedByValue)"

definition shouldProcessPod :: "pod \<Rightarrow> bool" where
  "shouldProcessPod p =
    (if poNodeName p = '''' then False
     else if ownedByKubeocean p then False
     else podHasHostPort p)"

definition hostPortClusterID :: "hostport_reconciler \<Rightarrow> string" where
  "hostPortClusterID r = (case hpClusterBinding r of
     Some b \<Rightarrow> (if bClusterID b \<noteq> '''' then bClusterID b else hpClusterBindingName r)
   | None \<Rightarrow> hpClusterBindingName r)"

definition hostPortVirtualNodeName :: "hostport_reconciler \<Rightarrow> string \<Rightarrow> string" where
  "hostPortVirtualNodeName r physicalNodeName = GenerateVirtualNodeName (hostPortClusterID r) physicalNodeName"

section \<open>Collecting the ports\<close>

definition containerHostPorts :: "pod \<Rightarrow> container \<Rightarrow> container_port list" where
  "containerHostPorts p c =
    map (\<lambda>q. \<lparr>cpName = mNamespace (poMeta p) @ ''/'' @ mName (poMeta p) @ ''/'' @ ctName c @ ''/'' @ cpName q,
               cpHostPort = cpHostPort q, cpContainerPort = cpHostPort q,
               cpProtocol = cpProtocol q, cpHostIP = cpHostIP q\<rparr>)
      (filter (\<lambda>q. cpHostPort q \<noteq> 0) (ctPorts c))"

definition podHostPorts :: "pod \<Rightarrow> container_port list" where
  "podHostPorts p =
    concat (map (containerHostPorts p) (poContainers p)) @ concat (map (containerHostPorts p) (poInitContainers p))"

definition defaultPort :: "container_port \<Rightarrow> container_port" where
  "defaultPort q =
    (let q = (if cpHostIP q = '''' then q\<lparr>cpHostIP := ''0.0.0.0''\<rparr> else q)
     in if cpProtocol q = '''' then q\<lparr>cpProtocol := ''TCP''\<rparr> else q)"

text \<open>
  The comparison given to \<^verbatim>\<open>sort.Slice\<close>: address, protocol, port. Ports that compare equal
  differ in their name only, and the names are overwritten before use, so the fake pod does not
  depend on which sorted order the library picks.
\<close>

definition port_rank :: "container_port \<Rightarrow> string \<times> string \<times> int" where
  "port_rank q = (cpHostIP q, cpProtocol q, cpHostPort q)"

definition collectHostPorts :: "pod list \<Rightarrow> container_port list" where
  "collectHostPorts pods =
     sort_key port_rank (map defaultPort (concat (map podHostPorts (filter shouldProcessPod pods))))"

text \<open>The loop of \<^verbatim>\<open>handleFakePod\<close> that renames the ports \<^verbatim>\<open>port-0\<close>, \<^verbatim>\<open>port-1\<close>, ...\<close>

fun namePorts :: "nat \<Rightarrow> container_port list \<Rightarrow> container_port list" where
  "namePorts i [] = []"
| "namePorts i (q # qs) = q\<lparr>cpName := ''port-'' @ Itoa (int i)\<rparr> # namePorts (Suc i) qs"

section \<open>The fake pod\<close>

definition buildFakePod :: "string \<Rightarrow> container_port list \<Rightarrow> pod" where
  "buildFakePod virtualNodeName hostPorts =
    empty_pod\<lparr>poMeta := empty_meta\<lparr>mNamespace := FakePodNamespace, mGenerateName := FakePodGenerateName @ ''-'',
       mLabels := [LabelHostPortFakePod \<mapsto> LabelValueTrue, LabelManagedBy \<mapsto> LabelManagedByValue]\<rparr>,
     poNodeName := virtualNodeName,
     poContainers := [\<lparr>ctName = FakeContainerName, ctImage = FakeContainerImage,
       ctCommand = [''sleep'', ''100000000''], ctPorts = hostPorts, ctRequests = Map.empty, ctEnv = [],
       ctEnvFrom = [], ctOther = ''''\<rparr>],
     poTolerations := [\<lparr>tolKey = '''', tolOperator = ''Exists''\<rparr>],
     poPriorityClassName := SystemNodeCriticalPriorityClass, poRestartPolicy := ''Never'', poHostNetwork := True\<rparr>"

definition fakeNamespace :: objmeta where
  "fakeNamespace = empty_meta\<lparr>mName := FakePodNamespace, mLabels := [LabelManagedBy \<mapsto> LabelManagedByValue]\<rparr>"

definition ensureFakeNamespace :: "'s api \<Rightarrow> ('s, 'm, unit res) prog" where
  "ensureFakeNamespace A = do {
     r \<leftarrow> Get A VirtualClient KNamespace '''' FakePodNamespace;
     case r of
       Inr _ \<Rightarrow> return (Inr ())
     | Inl e \<Rightarrow>
        (if \<not> IsNotFound e then return (Inl (Wrapf ''failed to check fake namespace'' e))
         else do {
           c \<leftarrow> Create A VirtualClient (ONamespace fakeNamespace);
           case c of
             Inl e \<Rightarrow> (if \<not> IsAlreadyExists e then return (Inl (Wrapf ''failed to create fake namespace'' e))
                       else return (Inr ()))
           | Inr _ \<Rightarrow> return (Inr ())
         })
   }"

definition isScheduled :: "pod \<Rightarrow> bool" where
  "isScheduled p = list_ex (\<lambda>c. cdType c = ''PodScheduled'' \<and> cdStatus c = ''True'') (psConditions (poStatus p))"

definition PatchFakePodScheduledCondition :: "'s api \<Rightarrow> pod \<Rightarrow> ('s, 'm, unit res) prog" where
  "PatchFakePodScheduledCondition A p =
    (if isScheduled p then return (Inr ())
     else do {
       probe \<leftarrow> Now A;
       transition \<leftarrow> Now A;
       let podCopy = p\<lparr>poStatus := (poStatus p)\<lparr>psConditions :=
         [\<lparr>cdType = ''PodScheduled'', cdStatus = ''True'', cdReason = '''', cdMessage = '''',
           cdLastTransitionTime = ckNow transition, cdLastProbeTime = ckNow probe, cdObservedGeneration = 0\<rparr>]\<rparr>\<rparr>;
       on_ok_wrap ''failed to patch fake pod status'' (StatusPatch A VirtualClient (OPod p) (OPod podCopy))
         (\<lambda>_. return (Inr ()))
     })"

fun deleteFakePods :: "'s api \<Rightarrow> string \<Rightarrow> pod list \<Rightarrow> ('s, 'm, unit res) prog" where
  "deleteFakePods A msg [] = return (Inr ())"
| "deleteFakePods A msg (p # ps) = do {
     r \<leftarrow> Delete A VirtualClient KPod (mNamespace (poMeta p)) (mName (poMeta p)) no_opts;
     case r of
       Inl e \<Rightarrow> (if \<not> IsNotFound e then return (Inl (Wrapf msg e)) else deleteFakePods A msg ps)
     | Inr _ \<Rightarrow> deleteFakePods A msg ps
   }"

text \<open>
  \<^verbatim>\<open>reflect.DeepEqual\<close> of the ports of the first container with the wanted ones. The wanted
  list is not empty here, and the entries are plain structs, so it is equality.
\<close>

definition reserves :: "container_port list \<Rightarrow> pod \<Rightarrow> bool" where
  "reserves hostPorts p = (case poContainers p of [] \<Rightarrow> False | c # _ \<Rightarrow> hostPorts = ctPorts c)"

fun splitFakePods :: "container_port list \<Rightarrow> pod option \<Rightarrow> pod list \<Rightarrow> pod option \<times> pod list" where
  "splitFakePods hostPorts correct [] = (correct, [])"
| "splitFakePods hostPorts correct (p # ps) =
    (if reserves hostPorts p \<and> correct = None then splitFakePods hostPorts (Some p) ps
     else (case splitFakePods hostPorts correct ps of (c, extra) \<Rightarrow> (c, p # extra)))"

definition fakePodsOn :: "string \<Rightarrow> list_opts" where
  "fakePodsOn virtualNodeName = \<lparr>loNamespace = Some FakePodNamespace,
     loLabels = [(LabelHostPortFakePod, LabelValueTrue), (LabelManagedBy, LabelManagedByValue)],
     loNodeName = Some virtualNodeName\<rparr>"

definition create_pod :: "'s api \<Rightarrow> client \<Rightarrow> pod \<Rightarrow> ('s, 'm, pod res) prog" where
  "create_pod A c p = do { r \<leftarrow> Create A c (OPod p); return (decode the_pod r) }"

definition placeFakePod :: "'s api \<Rightarrow> pod \<Rightarrow> pod option \<Rightarrow> ('s, 'm, unit res) prog" where
  "placeFakePod A desiredFakePod correctFakePod =
    (case correctFakePod of
       None \<Rightarrow>
         on_ok_wrap ''failed to create fake pod'' (create_pod A VirtualClient desiredFakePod) (\<lambda>created.
         on_ok_wrap ''failed to patch fake pod scheduled condition''
           (PatchFakePodScheduledCondition A created) (\<lambda>_. return (Inr ())))
     | Some p \<Rightarrow>
         on_ok_wrap ''failed to patch fake pod scheduled condition''
           (PatchFakePodScheduledCondition A p) (\<lambda>_. return (Inr ())))"

text \<open>The part of \<^verbatim>\<open>handleFakePod\<close> after the existing fake pods are listed.\<close>

definition replaceFakePods ::
  "'s api \<Rightarrow> string \<Rightarrow> container_port list \<Rightarrow> pod list \<Rightarrow> ('s, 'm, unit res) prog" where
  "replaceFakePods A virtualNodeName hostPorts fakePods =
    (if length hostPorts = 0 then deleteFakePods A ''failed to delete fake pod'' fakePods
     else
       (let hostPorts = namePorts 0 hostPorts;
            desiredFakePod = buildFakePod virtualNodeName hostPorts;
            (correctFakePod, extraFakePods) = splitFakePods hostPorts None fakePods
        in on_ok (placeFakePod A desiredFakePod correctFakePod)
          (\<lambda>_. deleteFakePods A ''failed to delete extra fake pod'' extraFakePods)))"

definition handleFakePod :: "'s api \<Rightarrow> string \<Rightarrow> container_port list \<Rightarrow> ('s, 'm, unit res) prog" where
  "handleFakePod A virtualNodeName hostPorts =
    on_ok_wrap ''failed to ensure fake namespace'' (ensureFakeNamespace A) (\<lambda>_.
    on_ok_wrap ''failed to list existing fake pods'' (list_pods A VirtualClient (fakePodsOn virtualNodeName))
      (replaceFakePods A virtualNodeName hostPorts))"

section \<open>The reconciler and its events\<close>

definition ReconcileHostPorts ::
  "hostport_reconciler \<Rightarrow> 's api \<Rightarrow> string \<Rightarrow> ('s, 'm, ctrl_result res) prog" where
  "ReconcileHostPorts R A reqName = do {
     got \<leftarrow> get_node A PhysicalClient reqName;
     case got of
       Inl e \<Rightarrow> (if IsNotFound e then return (Inr (Result 0)) else return (Inl e))
     | Inr physicalNode \<Rightarrow>
        (if \<not> hasAppliedPolicyLabel physicalNode then return (Inr (Result 0))
         else do {
           let virtualNodeName = hostPortVirtualNodeName R (mName (nMeta physicalNode));
           vgot \<leftarrow> get_node A VirtualClient virtualNodeName;
           case vgot of
             Inl e \<Rightarrow> (if IsNotFound e then return (Inr (Result 0)) else return (Inl e))
           | Inr _ \<Rightarrow>
              on_ok (list_pods A PhysicalClient (on_node (mName (nMeta physicalNode)))) (\<lambda>pods.
              on_ok (handleFakePod A virtualNodeName (collectHostPorts pods))
                (\<lambda>_. return (Inr (Result 0))))
         })
   }"

definition handleVirtualNodeAdded :: "hostport_reconciler \<Rightarrow> node \<Rightarrow> ('s, 'm, unit) prog" where
  "handleVirtualNodeAdded R nd =
    (let labels = mLabels (nMeta nd); physicalNodeName = mget labels LabelPhysicalNodeName in
     if mget labels LabelManagedBy \<noteq> LabelManagedByValue then return ()
     else if mget labels LabelClusterBinding \<noteq> hpClusterBindingName R then return ()
     else if physicalNodeName = '''' then return ()
     else emit (EvEnqueue physicalNodeName))"

text \<open>The predicate for events and the handler of pod events of \<^verbatim>\<open>SetupWithManager\<close>.\<close>

definition nodePredicate :: "obj \<Rightarrow> bool" where
  "nodePredicate object = (case object of ONode nd \<Rightarrow> hasAppliedPolicyLabel nd | OPod _ \<Rightarrow> True | _ \<Rightarrow> False)"

definition nodeUpdatePredicate :: "obj \<Rightarrow> obj \<Rightarrow> bool" where
  "nodeUpdatePredicate old new = (case old of
     ONode oldNode \<Rightarrow> (case new of
       ONode newNode \<Rightarrow> mget (mLabels (nMeta oldNode)) LabelPolicyApplied \<noteq> mget (mLabels (nMeta newNode)) LabelPolicyApplied
     | OPod _ \<Rightarrow> True
     | _ \<Rightarrow> False)
   | OPod _ \<Rightarrow> True
   | _ \<Rightarrow> False)"

definition podHandler :: "pod \<Rightarrow> ('s, 'm, unit) prog" where
  "podHandler p = (if shouldProcessPod p then emit (EvEnqueue (poNodeName p)) else return ())"

section \<open>The reserved ports\<close>

text \<open>What is taken on a node: the address, protocol and number, with the defaults of Kubernetes.\<close>

definition port_key :: "container_port \<Rightarrow> string \<times> string \<times> int" where
  "port_key q = (if cpHostIP q = '''' then ''0.0.0.0'' else cpHostIP q,
     if cpProtocol q = '''' then ''TCP'' else cpProtocol q, cpHostPort q)"

definition pod_ports :: "pod \<Rightarrow> container_port set" where
  "pod_ports p = (\<Union>c\<in>set (poContainers p) \<union> set (poInitContainers p). set (ctPorts c))"

definition valid_ports :: "pod list \<Rightarrow> bool" where
  "valid_ports pods \<longleftrightarrow> (\<forall>p\<in>set pods. \<forall>q\<in>pod_ports p. 0 \<le> cpHostPort q)"

definition taken_ports :: "pod list \<Rightarrow> (string \<times> string \<times> int) set" where
  "taken_ports pods = {port_key q | p q. p \<in> set pods \<and> poNodeName p \<noteq> '''' \<and> \<not> ownedByKubeocean p \<and>
     q \<in> pod_ports p \<and> 0 < cpHostPort q}"

lemma port_rank_default [simp]: "port_rank (defaultPort q) = port_key q"
  by (simp add: port_rank_def defaultPort_def port_key_def Let_def)

lemma containerPort_default [simp]:
  "cpContainerPort (defaultPort q) = cpContainerPort q" "cpHostPort (defaultPort q) = cpHostPort q"
  by (simp_all add: defaultPort_def Let_def)

lemma length_namePorts [simp]: "length (namePorts i qs) = length qs"
  by (induction i qs rule: namePorts.induct) simp_all

lemma nth_namePorts: "k < length qs \<Longrightarrow> namePorts i qs ! k = (qs ! k)\<lparr>cpName := ''port-'' @ Itoa (int (i + k))\<rparr>"
  by (induction i qs arbitrary: k rule: namePorts.induct) (auto simp: nth_Cons ac_simps split: nat.splits)

lemma port_rank_name [simp]: "port_rank (q\<lparr>cpName := n\<rparr>) = port_rank q"
  by (simp add: port_rank_def)

lemma namePorts_rank [simp]: "map port_rank (namePorts i qs) = map port_rank qs"
  by (induction i qs rule: namePorts.induct) simp_all

lemma namePorts_containerPort:
  "\<forall>q\<in>set qs. cpContainerPort q = cpHostPort q \<Longrightarrow> \<forall>q\<in>set (namePorts i qs). cpContainerPort q = cpHostPort q"
  by (induction i qs rule: namePorts.induct) auto

lemma Itoa_nat_inject: "Itoa (int i) = Itoa (int j) \<longleftrightarrow> i = j"
  by (auto simp: Itoa_def) (metis read_show_nat)

lemma distinct_port_names: "distinct (map cpName (namePorts i qs))"
  unfolding distinct_conv_nth by (auto simp: nth_namePorts Itoa_nat_inject simp flip: of_nat_add)

text \<open>Ports with the same key and with container port equal to host port differ in the name only.\<close>

lemma namePorts_cong:
  assumes "map port_rank qs = map port_rank qs'"
    and "\<forall>q\<in>set qs. cpContainerPort q = cpHostPort q" and "\<forall>q\<in>set qs'. cpContainerPort q = cpHostPort q"
  shows "namePorts i qs = namePorts i qs'"
  using assms
proof (induction i qs arbitrary: qs' rule: namePorts.induct)
  case (2 i q qs)
  then obtain q' ps where qs': "qs' = q' # ps" by (cases qs') simp_all
  have "q\<lparr>cpName := n\<rparr> = q'\<lparr>cpName := n\<rparr>" for n
    using 2(2-4) unfolding qs' by (cases q; cases q') (simp add: port_rank_def)
  moreover have "namePorts (Suc i) qs = namePorts (Suc i) ps" using 2 unfolding qs' by simp
  ultimately show ?case unfolding qs' by simp
qed simp

lemma containerHostPorts_ports:
  "set (containerHostPorts p c) \<subseteq> {q. cpContainerPort q = cpHostPort q}"
  "port_key ` set (containerHostPorts p c) = port_key ` {q \<in> set (ctPorts c). cpHostPort q \<noteq> 0}"
  by (auto simp: containerHostPorts_def port_key_def image_image)

lemma podHostPorts_ports:
  "set (podHostPorts p) \<subseteq> {q. cpContainerPort q = cpHostPort q}"
  "port_key ` set (podHostPorts p) = port_key ` {q \<in> pod_ports p. cpHostPort q \<noteq> 0}"
proof -
  let ?cs = "set (poContainers p) \<union> set (poInitContainers p)"
  have s: "set (podHostPorts p) = (\<Union>c\<in>?cs. set (containerHostPorts p c))"
    by (auto simp: podHostPorts_def)
  show "set (podHostPorts p) \<subseteq> {q. cpContainerPort q = cpHostPort q}"
    unfolding s using containerHostPorts_ports(1) by blast
  have "port_key ` set (podHostPorts p) = (\<Union>c\<in>?cs. port_key ` {q \<in> set (ctPorts c). cpHostPort q \<noteq> 0})"
    unfolding s image_UN containerHostPorts_ports(2) ..
  also have "\<dots> = port_key ` {q \<in> pod_ports p. cpHostPort q \<noteq> 0}" unfolding pod_ports_def by blast
  finally show "port_key ` set (podHostPorts p) = port_key ` {q \<in> pod_ports p. cpHostPort q \<noteq> 0}" .
qed

lemma collectHostPorts_containerPort: "\<forall>q\<in>set (collectHostPorts pods). cpContainerPort q = cpHostPort q"
  using podHostPorts_ports(1) by (fastforce simp: collectHostPorts_def)

lemma collectHostPorts_rank:
  "port_rank ` set (collectHostPorts pods) =
     (\<Union>p\<in>{p \<in> set pods. shouldProcessPod p}. port_key ` {q \<in> pod_ports p. cpHostPort q \<noteq> 0})"
  by (simp add: collectHostPorts_def image_image image_UN podHostPorts_ports(2))

lemma shouldProcessPod_iff:
  "shouldProcessPod p \<longleftrightarrow> poNodeName p \<noteq> '''' \<and> \<not> ownedByKubeocean p \<and> (\<exists>q\<in>pod_ports p. 0 < cpHostPort q)"
  by (auto simp: shouldProcessPod_def podHasHostPort_def pod_ports_def list_ex_iff)

lemma collectHostPorts_taken:
  assumes "valid_ports pods"
  shows "port_rank ` set (collectHostPorts pods) = taken_ports pods"
proof -
  have pos: "{q \<in> pod_ports p. cpHostPort q \<noteq> 0} = {q \<in> pod_ports p. 0 < cpHostPort q}" if "p \<in> set pods" for p
    using assms that by (fastforce simp: valid_ports_def)
  have "port_rank ` set (collectHostPorts pods) =
      (\<Union>p\<in>{p \<in> set pods. shouldProcessPod p}. port_key ` {q \<in> pod_ports p. 0 < cpHostPort q})"
    unfolding collectHostPorts_rank using pos by auto
  also have "\<dots> = taken_ports pods" unfolding taken_ports_def shouldProcessPod_iff by blast
  finally show ?thesis .
qed

text \<open>
  C24. The fake pod reserves exactly the host ports that foreign pods scheduled on the node
  take, each with its container port equal to its host port, as a pod in the host network must,
  and under distinct names.
\<close>

theorem reserved_ports_exact:
  assumes "valid_ports pods"
  shows "port_rank ` set (namePorts 0 (collectHostPorts pods)) = taken_ports pods \<and>
    (\<forall>q\<in>set (namePorts 0 (collectHostPorts pods)). cpContainerPort q = cpHostPort q) \<and>
    distinct (map cpName (namePorts 0 (collectHostPorts pods)))"
proof -
  have "port_rank ` set (namePorts 0 (collectHostPorts pods)) = port_rank ` set (collectHostPorts pods)"
    using namePorts_rank by (metis list.set_map)
  then show ?thesis
    using collectHostPorts_taken [OF assms] namePorts_containerPort [OF collectHostPorts_containerPort]
    by (simp add: distinct_port_names)
qed

text \<open>The fake pod does not depend on the order in which the pods are listed.\<close>

lemma reserved_ports_perm:
  assumes "mset pods = mset pods'"
  shows "namePorts 0 (collectHostPorts pods) = namePorts 0 (collectHostPorts pods')"
proof -
  let ?raw = "\<lambda>pods. map defaultPort (concat (map podHostPorts (filter shouldProcessPod pods)))"
  have flat: "mset (concat (map f xs)) = \<Sum>\<^sub># (image_mset (mset \<circ> f) (mset xs))" for f :: "pod \<Rightarrow> container_port list" and xs
    by (induction xs) simp_all
  have "mset (?raw pods) = mset (?raw pods')" using assms by (simp add: flat)
  then have m: "mset (map port_rank (collectHostPorts pods)) = mset (map port_rank (collectHostPorts pods'))"
    by (simp add: collectHostPorts_def)
  have s: "sorted (map port_rank (collectHostPorts ps))" for ps by (simp add: collectHostPorts_def)
  have "map port_rank (collectHostPorts pods) = map port_rank (collectHostPorts pods')"
    using properties_for_sort [OF m s] properties_for_sort [OF refl s] by metis
  then show ?thesis by (rule namePorts_cong) (rule collectHostPorts_containerPort)+
qed

section \<open>One fake pod per node\<close>

definition fake_pod_deleted :: "event list \<Rightarrow> pod \<Rightarrow> bool" where
  "fake_pod_deleted evs p \<longleftrightarrow> (\<exists>x. EvDelete VirtualClient KPod (mNamespace (poMeta p)) (mName (poMeta p)) no_opts x \<in> set evs \<and>
     (\<forall>e. x = Inl e \<longrightarrow> IsNotFound e))"

lemma fake_pod_deleted_append [simp]:
  "fake_pod_deleted evs p \<Longrightarrow> fake_pod_deleted (evs @ evs') p" "fake_pod_deleted evs' p \<Longrightarrow> fake_pod_deleted (evs @ evs') p"
  "fake_pod_deleted evs p \<Longrightarrow> fake_pod_deleted (e # evs) p"
  by (auto simp: fake_pod_deleted_def)

fun creates_pod :: "event \<Rightarrow> bool" where
  "creates_pod (EvCreate _ (OPod _) _) = True"
| "creates_pod _ = False"

definition only_deletes :: "pod list \<Rightarrow> event list \<Rightarrow> bool" where
  "only_deletes ps evs \<longleftrightarrow> (\<forall>e\<in>set evs. \<exists>p\<in>set ps. \<exists>x.
     e = EvDelete VirtualClient KPod (mNamespace (poMeta p)) (mName (poMeta p)) no_opts x)"

lemma deleteFakePods_spec:
  "tspec (deleteFakePods A msg ps) w (\<lambda>r evs w'. only_deletes ps evs \<and>
     (r = Inr () \<longrightarrow> (\<forall>p\<in>set ps. fake_pod_deleted evs p)))"
proof (induction ps arbitrary: w)
  case Nil
  show ?case unfolding deleteFakePods.simps by (intro vcg) (simp add: only_deletes_def)
next
  case (Cons p ps)
  show ?case
    unfolding deleteFakePods.simps
    by (intro vcg tspec_mono [OF Cons.IH]) (auto simp: only_deletes_def fake_pod_deleted_def)
qed

lemma ensureFakeNamespace_spec:
  "tspec (ensureFakeNamespace A) w (\<lambda>r evs w'.
     \<forall>e\<in>set evs. is_write e \<longrightarrow> (\<exists>x. e = EvCreate VirtualClient (ONamespace fakeNamespace) x))"
  unfolding ensureFakeNamespace_def by (intro vcg) auto

lemma splitFakePods_spec:
  "splitFakePods ports (Some c) ps = (Some c, ps)"
  "splitFakePods ports None ps = (None, extra) \<Longrightarrow> extra = ps \<and> (\<forall>p\<in>set ps. \<not> reserves ports p)"
  "splitFakePods ports None ps = (Some c, extra) \<Longrightarrow> reserves ports c \<and> c \<in> set ps \<and> extra = remove1 c ps"
proof -
  show some: "splitFakePods ports (Some c) ps = (Some c, ps)" for c ps by (induction ps) simp_all
  show "splitFakePods ports None ps = (None, extra) \<Longrightarrow> extra = ps \<and> (\<forall>p\<in>set ps. \<not> reserves ports p)"
    by (induction ps arbitrary: extra) (auto simp: some split: if_splits prod.splits)
  show "splitFakePods ports None ps = (Some c, extra) \<Longrightarrow> reserves ports c \<and> c \<in> set ps \<and> extra = remove1 c ps"
    by (induction ps arbitrary: extra) (auto simp: some split: if_splits prod.splits)
qed

text \<open>
  What a successful run leaves behind: with no ports every listed fake pod is deleted; with
  ports, either a listed fake pod that reserves them is kept, no pod is created and every other
  one is deleted, or none of them reserves the ports, a new fake pod is stored and all are
  deleted.
\<close>

definition one_fake_pod :: "string \<Rightarrow> container_port list \<Rightarrow> pod list \<Rightarrow> event list \<Rightarrow> bool" where
  "one_fake_pod node ports listed evs \<longleftrightarrow>
    (if ports = [] then (\<forall>p\<in>set listed. fake_pod_deleted evs p) \<and> (\<forall>e\<in>set evs. \<not> creates_pod e)
     else (\<exists>p\<in>set listed. reserves (namePorts 0 ports) p \<and> (\<forall>p'\<in>set (remove1 p listed). fake_pod_deleted evs p') \<and>
             (\<forall>e\<in>set evs. \<not> creates_pod e)) \<or>
          ((\<forall>p\<in>set listed. \<not> reserves (namePorts 0 ports) p \<and> fake_pod_deleted evs p) \<and>
             (\<exists>p. EvCreate VirtualClient (OPod (buildFakePod node (namePorts 0 ports))) (Inr (OPod p)) \<in> set evs)))"

definition fake_write :: "string \<Rightarrow> container_port list \<Rightarrow> pod list \<Rightarrow> event \<Rightarrow> bool" where
  "fake_write node ports listed e \<longleftrightarrow>
    (\<exists>x. e = EvCreate VirtualClient (OPod (buildFakePod node (namePorts 0 ports))) x) \<or>
    (\<exists>p st x. e = EvStatusPatch VirtualClient (OPod p) (OPod (p\<lparr>poStatus := st\<rparr>)) x) \<or>
    (\<exists>p\<in>set listed. \<exists>x. e = EvDelete VirtualClient KPod (mNamespace (poMeta p)) (mName (poMeta p)) no_opts x)"

lemma fake_write_intros:
  "fake_write node ports listed (EvCreate VirtualClient (OPod (buildFakePod node (namePorts 0 ports))) x)"
  "fake_write node ports listed (EvStatusPatch VirtualClient (OPod p) (OPod (p\<lparr>poStatus := st\<rparr>)) x)"
  "p \<in> set listed \<Longrightarrow>
     fake_write node ports listed (EvDelete VirtualClient KPod (mNamespace (poMeta p)) (mName (poMeta p)) no_opts y)"
  unfolding fake_write_def by blast+

lemma only_deletesD:
  assumes "only_deletes ps evs" and "set ps \<subseteq> set listed" and "e \<in> set evs"
  shows "fake_write node ports listed e" and "\<not> creates_pod e"
  using assms by (fastforce simp: only_deletes_def intro: fake_write_intros(3))+

lemma PatchFakePodScheduledCondition_quiet:
  "quiet (PatchFakePodScheduledCondition A p)
     (\<lambda>e. (is_write e \<longrightarrow> fake_write node ports listed e) \<and> \<not> creates_pod e)"
  unfolding PatchFakePodScheduledCondition_def
  by (intro quiet_rules) (simp_all add: fake_write_intros)

lemma placeFakePod_quiet:
  "quiet (placeFakePod A (buildFakePod node (namePorts 0 ports)) c)
     (\<lambda>e. (is_write e \<longrightarrow> fake_write node ports listed e) \<and> (c \<noteq> None \<longrightarrow> \<not> creates_pod e))"
  unfolding placeFakePod_def create_pod_def
  by (intro quiet_rules quiet_mono [OF PatchFakePodScheduledCondition_quiet [of _ _ node ports listed]])
    (simp_all add: fake_write_intros)

lemma placeFakePod_created:
  "tspec (placeFakePod A pd None) w (\<lambda>r evs w'.
     r = Inr () \<longrightarrow> (\<exists>p. EvCreate VirtualClient (OPod pd) (Inr (OPod p)) \<in> set evs))"
  unfolding placeFakePod_def create_pod_def option.case
  by (intro vcg conjI allI impI tspec_quiet [OF PatchFakePodScheduledCondition_quiet])
    (auto simp: decode_simps)

lemma placeFakePod_spec:
  "tspec (placeFakePod A (buildFakePod node (namePorts 0 ports)) c) w (\<lambda>r evs w'.
     (\<forall>e\<in>set evs. is_write e \<longrightarrow> fake_write node ports listed e) \<and>
     (c \<noteq> None \<longrightarrow> (\<forall>e\<in>set evs. \<not> creates_pod e)) \<and>
     (c = None \<and> r = Inr () \<longrightarrow>
        (\<exists>p. EvCreate VirtualClient (OPod (buildFakePod node (namePorts 0 ports))) (Inr (OPod p)) \<in> set evs)))"
proof (cases c)
  case None
  show ?thesis
    by (rule tspec_mono [OF tspec_conj [OF tspec_quiet [OF placeFakePod_quiet [of A node ports c listed],
          of "\<lambda>r evs w'. \<forall>e\<in>set evs. is_write e \<longrightarrow> fake_write node ports listed e"]
        placeFakePod_created [of A "buildFakePod node (namePorts 0 ports)", folded None]]])
      (auto simp: None list_all_iff)
next
  case (Some p)
  then show ?thesis
    by (intro tspec_quiet [OF placeFakePod_quiet]) (auto simp: list_all_iff)
qed

lemma place_and_clean:
  assumes "ports \<noteq> []" and "splitFakePods (namePorts 0 ports) None listed = (c, extra)"
  shows "tspec (on_ok (placeFakePod A (buildFakePod node (namePorts 0 ports)) c) (\<lambda>_. deleteFakePods A msg extra)) w
    (\<lambda>r evs w'. (\<forall>e\<in>set evs. is_write e \<longrightarrow> fake_write node ports listed e) \<and>
       (r = Inr () \<longrightarrow> one_fake_pod node ports listed evs))"
proof -
  have sub: "set extra \<subseteq> set listed"
    using assms(2) by (cases c) (auto dest!: splitFakePods_spec(2,3) set_remove1_subset [THEN subsetD])
  have fin: "one_fake_pod node ports listed (evs @ evs')"
    if "c \<noteq> None \<longrightarrow> (\<forall>e\<in>set evs. \<not> creates_pod e)"
      and "c = None \<longrightarrow> (\<exists>p. EvCreate VirtualClient (OPod (buildFakePod node (namePorts 0 ports))) (Inr (OPod p)) \<in> set evs)"
      and d: "only_deletes extra evs'" "\<forall>p\<in>set extra. fake_pod_deleted evs' p" for evs evs'
  proof (cases c)
    case None
    with assms splitFakePods_spec(2) have "extra = listed" "\<forall>p\<in>set listed. \<not> reserves (namePorts 0 ports) p"
      by blast+
    with None assms(1) that show ?thesis by (auto simp: one_fake_pod_def)
  next
    case (Some p)
    with assms splitFakePods_spec(3) have "reserves (namePorts 0 ports) p" "p \<in> set listed" "extra = remove1 p listed"
      by blast+
    with Some assms(1) that only_deletesD(2) [OF d(1) sub] show ?thesis by (auto simp: one_fake_pod_def)
  qed
  show ?thesis
    by (intro tspec_on_ok tspec_mono [OF placeFakePod_spec [where listed = listed]] conjI allI impI
        tspec_mono [OF deleteFakePods_spec])
      (auto intro: only_deletesD(1) [OF _ sub] fin)
qed

lemma replaceFakePods_spec:
  "tspec (replaceFakePods A node ports listed) w (\<lambda>r evs w'.
     (\<forall>e\<in>set evs. is_write e \<longrightarrow> fake_write node ports listed e) \<and> (r = Inr () \<longrightarrow> one_fake_pod node ports listed evs))"
proof (cases "ports = []")
  case True
  then show ?thesis
    by (auto simp: replaceFakePods_def one_fake_pod_def dest: only_deletesD intro!: tspec_mono [OF deleteFakePods_spec])
next
  case False
  obtain c extra where "splitFakePods (namePorts 0 ports) None listed = (c, extra)" by fastforce
  with False place_and_clean [OF False this] show ?thesis by (simp add: replaceFakePods_def Let_def)
qed

lemma one_fake_pod_prefix:
  "one_fake_pod node ports listed evs \<Longrightarrow> \<forall>e\<in>set pre. \<not> creates_pod e \<Longrightarrow> one_fake_pod node ports listed (pre @ evs)"
  unfolding one_fake_pod_def by (auto split: if_splits)

lemma creates_pod_write: "creates_pod e \<Longrightarrow> is_write e"
  by (cases e rule: creates_pod.cases) simp_all

lemma handleFakePod_run:
  "tspec (handleFakePod A node ports) w (\<lambda>r evs w'.
     (\<forall>e\<in>set evs. is_write e \<longrightarrow> (\<exists>x. e = EvCreate VirtualClient (ONamespace fakeNamespace) x) \<or>
        (\<exists>items. EvList VirtualClient KPod (fakePodsOn node) (Inr items) \<in> set evs \<and>
           fake_write node ports (List.map_filter the_pod items) e)) \<and>
     (r = Inr () \<longrightarrow> (\<exists>items. EvList VirtualClient KPod (fakePodsOn node) (Inr items) \<in> set evs \<and>
        one_fake_pod node ports (List.map_filter the_pod items) evs)))" (is "tspec _ _ ?Q")
proof -
  have fin: "one_fake_pod node ports l (evs @ EvList VirtualClient KPod (fakePodsOn node) r # evs')"
    if "\<forall>e\<in>set evs. is_write e \<longrightarrow> (\<exists>x. e = EvCreate VirtualClient (ONamespace fakeNamespace) x)"
      and "one_fake_pod node ports l evs'" for r evs evs' l
    using that one_fake_pod_prefix [of node ports l evs' "evs @ [EvList VirtualClient KPod (fakePodsOn node) r]"]
    by (force dest: creates_pod_write)
  show ?thesis
    unfolding handleFakePod_def list_pods_def
    by (intro vcg conjI allI impI tspec_mono [OF ensureFakeNamespace_spec] tspec_mono [OF replaceFakePods_spec])
      (auto dest: fin)
qed

lemma handleFakePod_one:
  "tspec (handleFakePod A node ports) w (\<lambda>r evs w'. r = Inr () \<longrightarrow>
     (\<exists>items. EvList VirtualClient KPod (fakePodsOn node) (Inr items) \<in> set evs \<and>
        one_fake_pod node ports (List.map_filter the_pod items) evs))"
  by (rule tspec_mono [OF handleFakePod_run]) blast

definition ports_reserved :: "hostport_reconciler \<Rightarrow> string \<Rightarrow> event list \<Rightarrow> bool" where
  "ports_reserved R name evs \<longleftrightarrow>
    (\<exists>nd items listed pre post. evs = pre @ EvList PhysicalClient KPod (on_node (mName (nMeta nd))) (Inr items) # post \<and>
       EvGet PhysicalClient KNode '''' name (Inr (ONode nd)) \<in> set pre \<and> hasAppliedPolicyLabel nd \<and>
       (\<forall>e\<in>set pre. \<not> is_write e) \<and>
       EvList VirtualClient KPod (fakePodsOn (hostPortVirtualNodeName R (mName (nMeta nd)))) (Inr listed) \<in> set post \<and>
       one_fake_pod (hostPortVirtualNodeName R (mName (nMeta nd))) (collectHostPorts (List.map_filter the_pod items))
         (List.map_filter the_pod listed) post)"

lemma ports_reservedI:
  assumes "hasAppliedPolicyLabel nd" and "\<not> is_write v"
    and "EvList VirtualClient KPod (fakePodsOn (hostPortVirtualNodeName R (mName (nMeta nd)))) (Inr listed) \<in> set post"
    and "one_fake_pod (hostPortVirtualNodeName R (mName (nMeta nd))) (collectHostPorts (List.map_filter the_pod items))
      (List.map_filter the_pod listed) post"
  shows "ports_reserved R name (EvGet PhysicalClient KNode '''' name (Inr (ONode nd)) # v #
    EvList PhysicalClient KPod (on_node (mName (nMeta nd))) (Inr items) # post)"
  unfolding ports_reserved_def
  by (intro exI [of _ nd] exI [of _ items] exI [of _ listed] exI [of _ post]
      exI [of _ "[EvGet PhysicalClient KNode '''' name (Inr (ONode nd)), v]"]) (simp add: assms)

text \<open>
  The runs that have nothing to reserve: the physical node is gone, or not leased, or its virtual node
  is gone, and these reads are all they do.
\<close>

definition nothing_due :: "hostport_reconciler \<Rightarrow> string \<Rightarrow> event list \<Rightarrow> bool" where
  "nothing_due R name evs \<longleftrightarrow>
     (\<exists>e. evs = [EvGet PhysicalClient KNode '''' name (Inl e)] \<and> IsNotFound e) \<or>
     (\<exists>nd. evs = [EvGet PhysicalClient KNode '''' name (Inr (ONode nd))] \<and> \<not> hasAppliedPolicyLabel nd) \<or>
     (\<exists>nd e. evs = [EvGet PhysicalClient KNode '''' name (Inr (ONode nd)),
        EvGet VirtualClient KNode '''' (hostPortVirtualNodeName R (mName (nMeta nd))) (Inl e)] \<and> IsNotFound e)"

lemma decode_missing: "decode the_node r = Inl e \<Longrightarrow> IsNotFound e \<Longrightarrow> r = Inl e"
  by (auto simp: decode_def split: sum.splits option.splits)


lemma replaceFakePods_kept:
  assumes "reserves (namePorts 0 ports) p" and "isScheduled p" and "ports \<noteq> []"
  shows "replaceFakePods A node ports [p] = return (Inr ())"
  using assms
  by (simp add: replaceFakePods_def Let_def placeFakePod_def PatchFakePodScheduledCondition_def on_ok_def on_ok_wrap_def)

text \<open>
  The reservation is stable: once the fake pod of a node is stored and scheduled, and while
  the foreign pods stay the same, listed in whatever order, reconciling again writes nothing.
\<close>

theorem hostports_converge:
  assumes "mset pods' = mset pods" and "collectHostPorts pods \<noteq> []"
    and "reserves (namePorts 0 (collectHostPorts pods)) p" and "isScheduled p"
    and "api_get A VirtualClient KNamespace '''' FakePodNamespace (srv w) = (Inr ns, s1)"
    and "api_list A VirtualClient KPod (fakePodsOn node) s1 = (Inr [OPod p], s2)"
  shows "run_state (handleFakePod A node (collectHostPorts pods')) w = (Inr (),
    w\<lparr>srv := s2, hist := hist w @ [EvGet VirtualClient KNamespace '''' FakePodNamespace (Inr ns),
       EvList VirtualClient KPod (fakePodsOn node) (Inr [OPod p])]\<rparr>)"
proof -
  have same: "namePorts 0 (collectHostPorts pods') = namePorts 0 (collectHostPorts pods)"
    using assms(1) by (rule reserved_ports_perm)
  then have "length (collectHostPorts pods') = length (collectHostPorts pods)" by (metis length_namePorts)
  with assms(2) have "collectHostPorts pods' \<noteq> []" by auto
  with assms(3,4) show ?thesis
    by (simp add: handleFakePod_def ensureFakeNamespace_def run_ops map_filter_simps assms(5,6)
        replaceFakePods_kept same)
qed

definition web_pod :: pod where
  "web_pod = buildFakePod ''n1'' [\<lparr>cpName = ''http'', cpHostPort = 80, cpContainerPort = 8080,
     cpProtocol = '''', cpHostIP = ''''\<rparr>] \<lparr>poMeta := empty_meta\<lparr>mName := ''web'', mNamespace := ''prod''\<rparr>\<rparr>"

theorem reserved_ports_exact_witness:
  "valid_ports [web_pod] \<and> taken_ports [web_pod] = {(''0.0.0.0'', ''TCP'', 80)} \<and>
   port_rank ` set (namePorts 0 (collectHostPorts [web_pod])) = {(''0.0.0.0'', ''TCP'', 80)}"
proof -
  have v: "valid_ports [web_pod]" by (simp add: valid_ports_def pod_ports_def web_pod_def buildFakePod_def empty_status_def)
  have "taken_ports [web_pod] = {(''0.0.0.0'', ''TCP'', 80)}"
    by (simp add: taken_ports_def pod_ports_def web_pod_def buildFakePod_def ownedByKubeocean_def empty_meta_def port_key_def)
  with v reserved_ports_exact [OF v] show ?thesis by simp
qed


definition reserved_pod :: pod where
  "reserved_pod = (let p = buildFakePod ''v1'' (namePorts 0 (collectHostPorts [web_pod]))
     in p\<lparr>poStatus := (poStatus p)\<lparr>psConditions := [\<lparr>cdType = ''PodScheduled'', cdStatus = ''True'', cdReason = '''',
       cdMessage = '''', cdLastTransitionTime = 0, cdLastProbeTime = 0, cdObservedGeneration = 0\<rparr>]\<rparr>\<rparr>)"

theorem hostports_converge_witness:
  "fst (run_state (handleFakePod scripted ''v1'' (collectHostPorts [web_pod]))
     \<lparr>srv = [AObj (Inr (ONamespace fakeNamespace)), AList (Inr [OPod reserved_pod])], hist = []\<rparr>) = Inr ()"
proof -
  have "collectHostPorts [web_pod] \<noteq> []"
    by (simp add: collectHostPorts_def shouldProcessPod_def podHasHostPort_def ownedByKubeocean_def podHostPorts_def
        containerHostPorts_def web_pod_def buildFakePod_def empty_meta_def)
  moreover have "reserves (namePorts 0 (collectHostPorts [web_pod])) reserved_pod" "isScheduled reserved_pod"
    by (simp_all add: reserved_pod_def Let_def reserves_def isScheduled_def buildFakePod_def empty_status_def)
  ultimately show ?thesis
    using hostports_converge [of "[web_pod]" "[web_pod]" reserved_pod scripted
        "\<lparr>srv = [AObj (Inr (ONamespace fakeNamespace)), AList (Inr [OPod reserved_pod])], hist = []\<rparr>"
        "ONamespace fakeNamespace" "[AList (Inr [OPod reserved_pod])]" "''v1''" "[]"]
    by (simp add: scripted_def)
qed

end
