(* ===== verification/Pod_Spec.thy ===== *)
theory Pod_Spec
  imports Kube_Api Naming "HOL-Library.AList"
begin

text \<open>
  The pure part of \<^verbatim>\<open>pkg/syncer/topdown/pod/virtual_pod_controller.go\<close>: which ConfigMaps, Secrets
  and claims a pod refers to, the rewriting of its spec for the physical cluster, the labels and
  annotations of the physical pod, and the synchronization of metadata. A Go map that is ranged over
  with effects is an association list with distinct keys; Go leaves the order open, and no property
  below depends on it. The JSON and base64 text of the expected metadata is a parameter.
\<close>

section \<open>Names\<close>

definition DefaultPriorityClassName :: string where [kube_consts]: "DefaultPriorityClassName = ''kubeocean-default''"
definition DefaultPriorityClassValue :: int where "DefaultPriorityClassValue = - 10000"
definition KubernetesServiceHost :: string where "KubernetesServiceHost = ''KUBERNETES_SERVICE_HOST''"
definition KubernetesServicePort :: string where "KubernetesServicePort = ''KUBERNETES_SERVICE_PORT''"
definition HostnameEnvVar :: string where "HostnameEnvVar = ''HOSTNAME''"

record ExpectedPodMetadata =
  epLabels :: smap
  epAnnotations :: smap

record pod_codec =
  EncodeExpected :: "ExpectedPodMetadata \<Rightarrow> string res"
  DecodeExpected :: "string \<Rightarrow> ExpectedPodMetadata res"

record ResourceMapping =
  rmConfigMaps :: smap
  rmSecrets :: smap
  rmPVCs :: smap
  rmServiceAccountTokenName :: smap
  rmConfigMapsRequired :: "string \<rightharpoonup> bool"
  rmSecretsRequired :: "string \<rightharpoonup> bool"

section \<open>References of a pod\<close>

type_synonym refs = "(string \<times> bool) list"

text \<open>\<^verbatim>\<open>refs[ref.Name] = !ptr.Deref(ref.Optional, false)\<close>, when there is a reference.\<close>

definition addRef :: "refs \<Rightarrow> object_ref option \<Rightarrow> refs" where
  "addRef refs ref = (case ref of None \<Rightarrow> refs
     | Some r \<Rightarrow> AList.update (refName r) (refOptional r \<noteq> Some True) refs)"

definition fromSources :: "(projected_source \<Rightarrow> object_ref option) \<Rightarrow> refs \<Rightarrow> volume \<Rightarrow> refs" where
  "fromSources sel refs v = (case vProjected v of None \<Rightarrow> refs
     | Some sources \<Rightarrow> foldl (\<lambda>refs source. addRef refs (sel source)) refs sources)"

definition envRef :: "(env_source \<Rightarrow> object_ref option) \<Rightarrow> env_var \<Rightarrow> object_ref option" where
  "envRef sel e = Option.bind (evValueFrom e) sel"

definition configMapsFromContainer :: "refs \<Rightarrow> container \<Rightarrow> refs" where
  "configMapsFromContainer refs c =
     foldl (\<lambda>refs ef. addRef refs (efConfigMapRef ef))
       (foldl (\<lambda>refs e. addRef refs (envRef esConfigMapKeyRef e)) refs (ctEnv c)) (ctEnvFrom c)"

definition CollectConfigMapRefs :: "pod \<Rightarrow> refs" where
  "CollectConfigMapRefs pod =
    (let refs = foldl (\<lambda>refs v. fromSources psConfigMap (addRef refs (vConfigMap v)) v) [] (poVolumes pod);
         refs = foldl configMapsFromContainer refs (poContainers pod)
     in foldl configMapsFromContainer refs (poInitContainers pod))"

definition collectSecretsFromVolumes :: "volume list \<Rightarrow> refs \<Rightarrow> refs" where
  "collectSecretsFromVolumes volumes refs =
     foldl (\<lambda>refs v. fromSources psSecret (addRef refs (vSecret v)) v) refs volumes"

definition collectSecretsFromContainers :: "container list \<Rightarrow> refs \<Rightarrow> refs" where
  "collectSecretsFromContainers containers refs =
     foldl (\<lambda>refs c. foldl (\<lambda>refs ef. addRef refs (efSecretRef ef))
       (foldl (\<lambda>refs e. addRef refs (envRef esSecretKeyRef e)) refs (ctEnv c)) (ctEnvFrom c)) refs containers"

definition collectSecretsFromImagePullSecrets :: "string list \<Rightarrow> refs \<Rightarrow> refs" where
  "collectSecretsFromImagePullSecrets names refs = foldl (\<lambda>refs n. AList.update n True refs) refs names"

definition CollectSecretRefs :: "pod \<Rightarrow> refs" where
  "CollectSecretRefs pod =
     collectSecretsFromImagePullSecrets (poImagePullSecrets pod)
       (collectSecretsFromContainers (poInitContainers pod)
         (collectSecretsFromContainers (poContainers pod)
           (collectSecretsFromVolumes (poVolumes pod) [])))"

definition collectPVCRefs :: "pod \<Rightarrow> string list" where
  "collectPVCRefs pod = foldl (\<lambda>refs v. case vPVC v of None \<Rightarrow> refs | Some c \<Rightarrow> List.insert c refs) [] (poVolumes pod)"

section \<open>Rewriting the spec\<close>

text \<open>The loops that rewrite a slice in place and return at the first error.\<close>

fun map_res :: "('a \<Rightarrow> 'b res) \<Rightarrow> 'a list \<Rightarrow> 'b list res" where
  "map_res f [] = Inr []"
| "map_res f (x # xs) = (case f x of Inl e \<Rightarrow> Inl e
     | Inr y \<Rightarrow> (case map_res f xs of Inl e \<Rightarrow> Inl e | Inr ys \<Rightarrow> Inr (y # ys)))"

definition bind_res :: "'a res \<Rightarrow> ('a \<Rightarrow> 'b res) \<Rightarrow> 'b res" where
  "bind_res r f = (case r of Inl e \<Rightarrow> Inl e | Inr x \<Rightarrow> f x)"

definition replaceRef :: "smap \<Rightarrow> string \<Rightarrow> object_ref option \<Rightarrow> object_ref option res" where
  "replaceRef mapping what ref = (case ref of None \<Rightarrow> Inr None
     | Some r \<Rightarrow> (case mapping (refName r) of
          Some physicalName \<Rightarrow> Inr (Some (r\<lparr>refName := physicalName\<rparr>))
        | None \<Rightarrow> Inl (Errorf (what @ refName r))))"

definition annotationPath :: "string \<Rightarrow> string" where
  "annotationPath a = ''metadata.annotations['' @ [CHR 0x27] @ a @ [CHR 0x27] @ '']''"

definition replaceFieldPath :: "string \<Rightarrow> string" where
  "replaceFieldPath p =
    (let p = (if p = ''metadata.namespace'' then annotationPath AnnotationVirtualPodNamespace else p);
         p = (if p = ''metadata.name'' then annotationPath AnnotationVirtualPodName else p)
     in if p = ''spec.nodeName'' then annotationPath AnnotationVirtualNodeName else p)"

definition replaceDownwardAPIFieldPaths :: "downward_file list \<Rightarrow> downward_file list" where
  "replaceDownwardAPIFieldPaths items = map (\<lambda>i. i\<lparr>dfFieldPath := map_option replaceFieldPath (dfFieldPath i)\<rparr>) items"

definition replaceContainerDownwardAPIFieldPaths :: "env_var list \<Rightarrow> env_var list" where
  "replaceContainerDownwardAPIFieldPaths envVars =
     map (\<lambda>e. e\<lparr>evValueFrom := map_option (\<lambda>s. s\<lparr>esFieldPath := map_option replaceFieldPath (esFieldPath s)\<rparr>)
       (evValueFrom e)\<rparr>) envVars"

definition replaceBasicVolumeResourceNames :: "ResourceMapping \<Rightarrow> volume \<Rightarrow> volume res" where
  "replaceBasicVolumeResourceNames rm v =
     bind_res (replaceRef (rmConfigMaps rm) ''configMap mapping not found for virtual ConfigMap: '' (vConfigMap v)) (\<lambda>cm.
     bind_res (replaceRef (rmSecrets rm) ''secret mapping not found for virtual Secret: '' (vSecret v)) (\<lambda>se.
     (case vPVC v of
        None \<Rightarrow> Inr (v\<lparr>vConfigMap := cm, vSecret := se\<rparr>)
      | Some claim \<Rightarrow> (case rmPVCs rm claim of
           Some physicalName \<Rightarrow> Inr (v\<lparr>vConfigMap := cm, vSecret := se, vPVC := Some physicalName\<rparr>)
         | None \<Rightarrow> Inl (Errorf (''PVC mapping not found for virtual PVC: '' @ claim))))))"

definition replaceSource :: "ResourceMapping \<Rightarrow> projected_source \<Rightarrow> projected_source res" where
  "replaceSource rm s =
     bind_res (replaceRef (rmConfigMaps rm) ''configMap mapping not found for virtual ConfigMap in projected volume: '' (psConfigMap s)) (\<lambda>cm.
     bind_res (replaceRef (rmSecrets rm) ''secret mapping not found for virtual Secret in projected volume: '' (psSecret s)) (\<lambda>se.
       Inr (s\<lparr>psConfigMap := cm, psSecret := se,
              psDownwardAPI := map_option replaceDownwardAPIFieldPaths (psDownwardAPI s)\<rparr>)))"

definition replaceProjectedVolumeResourceNames :: "ResourceMapping \<Rightarrow> volume \<Rightarrow> volume res" where
  "replaceProjectedVolumeResourceNames rm v = (case vProjected v of
       None \<Rightarrow> Inr v
     | Some sources \<Rightarrow> bind_res (map_res (replaceSource rm) sources) (\<lambda>ss. Inr (v\<lparr>vProjected := Some ss\<rparr>)))"

definition tokenToSecret :: "string \<Rightarrow> projected_source \<Rightarrow> projected_source" where
  "tokenToSecret saName s = (case psServiceAccountToken s of None \<Rightarrow> s
     | Some tp \<Rightarrow> s\<lparr>psSecret := Some \<lparr>refName = saName, refOptional = None, refItems = [(''token'', tpPath tp)]\<rparr>,
                    psServiceAccountToken := None\<rparr>)"

text \<open>The loop with \<^verbatim>\<open>break\<close>: the first token is replaced.\<close>

fun replaceFirstToken :: "string \<Rightarrow> projected_source list \<Rightarrow> projected_source list" where
  "replaceFirstToken saName [] = []"
| "replaceFirstToken saName (s # ss) =
    (if psServiceAccountToken s \<noteq> None then tokenToSecret saName s # ss else s # replaceFirstToken saName ss)"

definition replaceServiceAccountTokenVolume :: "ResourceMapping \<Rightarrow> volume \<Rightarrow> volume res" where
  "replaceServiceAccountTokenVolume rm v = (case rmServiceAccountTokenName rm (vName v) of
       None \<Rightarrow> Inl (Errorf ''service account token mapping not found'')
     | Some saName \<Rightarrow> Inr (v\<lparr>vProjected := map_option (replaceFirstToken saName) (vProjected v)\<rparr>))"

text \<open>The range loop over the sources reads each element when it is reached, after the earlier replacements.\<close>

fun replaceTokens :: "ResourceMapping \<Rightarrow> nat list \<Rightarrow> volume \<Rightarrow> volume res" where
  "replaceTokens rm [] v = Inr v"
| "replaceTokens rm (i # is) v = (case vProjected v of
       None \<Rightarrow> Inr v
     | Some sources \<Rightarrow>
        (if psServiceAccountToken (sources ! i) \<noteq> None
         then bind_res (replaceServiceAccountTokenVolume rm v) (replaceTokens rm is)
         else replaceTokens rm is v))"

definition replaceVolume :: "pod \<Rightarrow> ResourceMapping \<Rightarrow> volume \<Rightarrow> volume res" where
  "replaceVolume virtualPod rm v =
     bind_res (replaceBasicVolumeResourceNames rm v) (\<lambda>v.
     bind_res (replaceProjectedVolumeResourceNames rm v) (\<lambda>v.
     bind_res (case vProjected v of
         Some sources \<Rightarrow> (if poServiceAccountName virtualPod \<noteq> '''' then replaceTokens rm [0..<length sources] v else Inr v)
       | None \<Rightarrow> Inr v) (\<lambda>v.
     Inr (v\<lparr>vDownwardAPI := map_option replaceDownwardAPIFieldPaths (vDownwardAPI v)\<rparr>))))"

definition replaceVolumeResourceNames :: "pod \<Rightarrow> ResourceMapping \<Rightarrow> volume list \<Rightarrow> volume list res" where
  "replaceVolumeResourceNames virtualPod rm = map_res (replaceVolume virtualPod rm)"

definition replaceEnvVar :: "ResourceMapping \<Rightarrow> env_var \<Rightarrow> env_var res" where
  "replaceEnvVar rm e = (case evValueFrom e of
       None \<Rightarrow> Inr e
     | Some src \<Rightarrow>
        bind_res (replaceRef (rmConfigMaps rm) ''configMap mapping not found for virtual ConfigMap: '' (esConfigMapKeyRef src)) (\<lambda>cm.
        bind_res (replaceRef (rmSecrets rm) ''secret mapping not found for virtual Secret: '' (esSecretKeyRef src)) (\<lambda>se.
          Inr (e\<lparr>evValueFrom := Some (src\<lparr>esConfigMapKeyRef := cm, esSecretKeyRef := se\<rparr>)\<rparr>))))"

definition replaceEnvFrom :: "ResourceMapping \<Rightarrow> env_from \<Rightarrow> env_from res" where
  "replaceEnvFrom rm ef =
     bind_res (replaceRef (rmConfigMaps rm) ''configMap mapping not found for virtual ConfigMap: '' (efConfigMapRef ef)) (\<lambda>cm.
     bind_res (replaceRef (rmSecrets rm) ''secret mapping not found for virtual Secret: '' (efSecretRef ef)) (\<lambda>se.
       Inr (ef\<lparr>efConfigMapRef := cm, efSecretRef := se\<rparr>)))"

definition replaceContainerResourceNames :: "ResourceMapping \<Rightarrow> container \<Rightarrow> container res" where
  "replaceContainerResourceNames rm c =
     bind_res (map_res (replaceEnvVar rm) (ctEnv c)) (\<lambda>env.
     bind_res (map_res (replaceEnvFrom rm) (ctEnvFrom c)) (\<lambda>ef.
       Inr (c\<lparr>ctEnv := replaceContainerDownwardAPIFieldPaths env, ctEnvFrom := ef\<rparr>)))"

definition replaceContainerResourceNamesInSpec :: "ResourceMapping \<Rightarrow> pod \<Rightarrow> pod res" where
  "replaceContainerResourceNamesInSpec rm spec =
     bind_res (map_res (replaceContainerResourceNames rm) (poContainers spec)) (\<lambda>cs.
     bind_res (map_res (replaceContainerResourceNames rm) (poInitContainers spec)) (\<lambda>ics.
       Inr (spec\<lparr>poContainers := cs, poInitContainers := ics\<rparr>)))"

definition replaceImagePullSecretNames :: "ResourceMapping \<Rightarrow> pod \<Rightarrow> pod res" where
  "replaceImagePullSecretNames rm spec =
     bind_res (map_res (\<lambda>n. case rmSecrets rm n of Some physicalName \<Rightarrow> Inr physicalName
         | None \<Rightarrow> Inl (Errorf (''secret mapping not found for image pull secret: '' @ n))) (poImagePullSecrets spec))
       (\<lambda>ns. Inr (spec\<lparr>poImagePullSecrets := ns\<rparr>))"

text \<open>The three rewritings of \<^verbatim>\<open>buildPhysicalPodSpec\<close>, in its order.\<close>

definition rewriteNames :: "pod \<Rightarrow> ResourceMapping \<Rightarrow> pod \<Rightarrow> pod res" where
  "rewriteNames virtualPod rm spec =
     bind_res (replaceVolumeResourceNames virtualPod rm (poVolumes spec)) (\<lambda>vs.
     bind_res (replaceContainerResourceNamesInSpec rm (spec\<lparr>poVolumes := vs\<rparr>)) (replaceImagePullSecretNames rm))"

section \<open>Environment\<close>

definition setEnv :: "string \<Rightarrow> string \<Rightarrow> env_var \<Rightarrow> env_var" where
  "setEnv name value e = (if evName e = name then e\<lparr>evValue := value, evValueFrom := None\<rparr> else e)"

definition appendEnv :: "string \<Rightarrow> string \<Rightarrow> env_var list \<Rightarrow> env_var list" where
  "appendEnv name value es = es @ [\<lparr>evName = name, evValue = value, evValueFrom = None\<rparr>]"

definition injectKubernetesServiceEnvVars :: "string \<Rightarrow> string \<Rightarrow> container \<Rightarrow> container" where
  "injectKubernetesServiceEnvVars host port c =
    (let hostFound = list_ex (\<lambda>e. evName e = KubernetesServiceHost) (ctEnv c);
         portFound = list_ex (\<lambda>e. evName e = KubernetesServicePort) (ctEnv c);
         env = map (\<lambda>e. setEnv KubernetesServicePort port (setEnv KubernetesServiceHost host e)) (ctEnv c);
         env = (if hostFound then env else appendEnv KubernetesServiceHost host env);
         env = (if portFound then env else appendEnv KubernetesServicePort port env)
     in c\<lparr>ctEnv := env\<rparr>)"

text \<open>Only the first entry with the name is set.\<close>

fun setFirstEnv :: "string \<Rightarrow> string \<Rightarrow> env_var list \<Rightarrow> env_var list" where
  "setFirstEnv name value [] = []"
| "setFirstEnv name value (e # es) = (if evName e = name then setEnv name value e # es else e # setFirstEnv name value es)"

definition injectHostnameEnvVar :: "string \<Rightarrow> container \<Rightarrow> container" where
  "injectHostnameEnvVar virtualPodName c =
    (let env = setFirstEnv HostnameEnvVar virtualPodName (ctEnv c)
     in c\<lparr>ctEnv := (if list_ex (\<lambda>e. evName e = HostnameEnvVar) (ctEnv c) then env
                  else appendEnv HostnameEnvVar virtualPodName env)\<rparr>)"

section \<open>Labels, annotations and their synchronization\<close>

definition buildPhysicalPodLabels :: "pod \<Rightarrow> string \<Rightarrow> string \<Rightarrow> smap" where
  "buildPhysicalPodLabels virtualPod workloadType workloadName =
    (let labels = (mLabels (poMeta virtualPod))(LabelManagedBy \<mapsto> LabelManagedByValue,
           LabelVirtualNamespace \<mapsto> mNamespace (poMeta virtualPod));
         labels = (if workloadType \<noteq> '''' then labels(LabelWorkloadType \<mapsto> workloadType) else labels)
     in if workloadName \<noteq> '''' then labels(LabelWorkloadName \<mapsto> workloadName) else labels)"

definition internalPodAnnotations :: "string list" where
  "internalPodAnnotations = [AnnotationPhysicalPodNamespace, AnnotationPhysicalPodName, AnnotationPhysicalPodUID,
     AnnotationLastSyncTime]"

definition filterVirtualPodAnnotations :: "smap \<Rightarrow> smap" where
  "filterVirtualPodAnnotations annotations = mfilter (\<lambda>k. k \<notin> set internalPodAnnotations) annotations"

definition filterVirtualPodLabels :: "smap \<Rightarrow> smap" where
  "filterVirtualPodLabels labels = mfilter (\<lambda>k. k \<noteq> LabelManagedBy) labels"

definition expectedPodOf :: "pod \<Rightarrow> ExpectedPodMetadata" where
  "expectedPodOf virtualPod = \<lparr>epLabels = filterVirtualPodLabels (mLabels (poMeta virtualPod)),
     epAnnotations = filterVirtualPodAnnotations (mAnnotations (poMeta virtualPod))\<rparr>"

definition buildPhysicalPodAnnotations :: "pod_codec \<Rightarrow> pod \<Rightarrow> smap" where
  "buildPhysicalPodAnnotations C virtualPod =
    (let m = poMeta virtualPod;
         annotations = (mfilter (\<lambda>k. k \<notin> set internalPodAnnotations) (mAnnotations m))
           (AnnotationVirtualPodNamespace \<mapsto> mNamespace m, AnnotationVirtualPodName \<mapsto> mName m,
            AnnotationVirtualPodUID \<mapsto> mUID m, AnnotationVirtualNodeName \<mapsto> poNodeName virtualPod)
     in case EncodeExpected C (expectedPodOf virtualPod) of
          Inl _ \<Rightarrow> annotations
        | Inr encoded \<Rightarrow> annotations(AnnotationExpectedMetadata \<mapsto> encoded))"

definition getExpectedPodMetadataFromAnnotation :: "pod_codec \<Rightarrow> pod \<Rightarrow> ExpectedPodMetadata res" where
  "getExpectedPodMetadataFromAnnotation C pod =
    (let encoded = mget (mAnnotations (poMeta pod)) AnnotationExpectedMetadata in
     if encoded = '''' then Inr \<lparr>epLabels = Map.empty, epAnnotations = Map.empty\<rparr> else DecodeExpected C encoded)"

text \<open>The written map and whether anything was written.\<close>

definition syncMetadata :: "smap \<Rightarrow> smap \<Rightarrow> smap \<Rightarrow> smap \<times> bool" where
  "syncMetadata target previousExpected current =
    (let changed = (\<lambda>k. \<exists>v. current k = Some v \<and> mget previousExpected k \<noteq> v \<and> mget target k \<noteq> v);
         withdrawn = (\<lambda>k. previousExpected k \<noteq> None \<and> current k = None \<and> target k \<noteq> None)
     in (\<lambda>k. if changed k then current k else if withdrawn k then None else target k,
         (\<exists>k\<in>dom current. changed k) \<or> (\<exists>k\<in>dom previousExpected. withdrawn k)))"

definition isPhysicalPodOwnedByVirtualPod :: "pod \<Rightarrow> pod \<Rightarrow> bool" where
  "isPhysicalPodOwnedByVirtualPod physicalPod virtualPod \<longleftrightarrow>
    (let a = mAnnotations (poMeta physicalPod) in a \<noteq> Map.empty \<and>
     mget a AnnotationVirtualPodNamespace = mNamespace (poMeta virtualPod) \<and>
     mget a AnnotationVirtualPodName = mName (poMeta virtualPod) \<and>
     mget a AnnotationVirtualPodUID = mUID (poMeta virtualPod))"

section \<open>The rewriting is total on what was collected\<close>

definition opt_name :: "object_ref option \<Rightarrow> string set" where
  "opt_name ref = refName ` set_option ref"

definition sources_of :: "volume \<Rightarrow> projected_source list" where
  "sources_of v = (case vProjected v of None \<Rightarrow> [] | Some ss \<Rightarrow> ss)"

definition container_names ::
  "(env_source \<Rightarrow> object_ref option) \<Rightarrow> (env_from \<Rightarrow> object_ref option) \<Rightarrow> container \<Rightarrow> string set" where
  "container_names es ef c = (\<Union>e\<in>set (ctEnv c). opt_name (envRef es e)) \<union> (\<Union>f\<in>set (ctEnvFrom c). opt_name (ef f))"

definition volume_names ::
  "(volume \<Rightarrow> object_ref option) \<Rightarrow> (projected_source \<Rightarrow> object_ref option) \<Rightarrow> volume \<Rightarrow> string set" where
  "volume_names vs ss v = opt_name (vs v) \<union> (\<Union>s\<in>set (sources_of v). opt_name (ss s))"

text \<open>What a spec refers to.\<close>

definition configMapNames :: "pod \<Rightarrow> string set" where
  "configMapNames p = (\<Union>v\<in>set (poVolumes p). volume_names vConfigMap psConfigMap v) \<union>
     (\<Union>c\<in>set (poContainers p) \<union> set (poInitContainers p). container_names esConfigMapKeyRef efConfigMapRef c)"

definition secretNames :: "pod \<Rightarrow> string set" where
  "secretNames p = (\<Union>v\<in>set (poVolumes p). volume_names vSecret psSecret v) \<union>
     (\<Union>c\<in>set (poContainers p) \<union> set (poInitContainers p). container_names esSecretKeyRef efSecretRef c) \<union>
     set (poImagePullSecrets p)"

definition claimNames :: "pod \<Rightarrow> string set" where
  "claimNames p = (\<Union>v\<in>set (poVolumes p). set_option (vPVC v))"

definition has_token :: "volume \<Rightarrow> bool" where
  "has_token v \<longleftrightarrow> list_ex (\<lambda>s. psServiceAccountToken s \<noteq> None) (sources_of v)"

subsection \<open>Collection\<close>

lemma dom_addRef: "fst ` set (addRef refs r) = fst ` set refs \<union> opt_name r"
  by (cases r) (auto simp: addRef_def opt_name_def update_conv' dom_update)

lemma dom_fold_addRef:
  "fst ` set (foldl (\<lambda>refs x. addRef refs (f x)) refs xs) = fst ` set refs \<union> (\<Union>x\<in>set xs. opt_name (f x))"
  by (induction xs arbitrary: refs) (auto simp: dom_addRef)

lemma dom_fromSources:
  "fst ` set (fromSources sel refs v) = fst ` set refs \<union> (\<Union>s\<in>set (sources_of v). opt_name (sel s))"
  by (auto simp: fromSources_def sources_of_def dom_fold_addRef split: option.splits)

lemma dom_fold_volumes:
  "fst ` set (foldl (\<lambda>refs v. fromSources ss (addRef refs (vs v)) v) refs volumes) =
     fst ` set refs \<union> (\<Union>v\<in>set volumes. volume_names vs ss v)"
  by (induction volumes arbitrary: refs) (auto simp: dom_fromSources dom_addRef volume_names_def)

lemma dom_fold_containers:
  "fst ` set (foldl (\<lambda>refs c. foldl (\<lambda>refs f. addRef refs (ef f))
      (foldl (\<lambda>refs e. addRef refs (envRef es e)) refs (ctEnv c)) (ctEnvFrom c)) refs cs) =
     fst ` set refs \<union> (\<Union>c\<in>set cs. container_names es ef c)"
  by (induction cs arbitrary: refs) (auto simp: dom_fold_addRef container_names_def)

lemma dom_fold_pull: "fst ` set (foldl (\<lambda>refs n. AList.update n True refs) refs ns) = fst ` set refs \<union> set ns"
  by (induction ns arbitrary: refs) (auto simp: dom_update)

lemma collected_configMaps: "fst ` set (CollectConfigMapRefs p) = configMapNames p"
  unfolding CollectConfigMapRefs_def Let_def configMapsFromContainer_def dom_fold_containers dom_fold_volumes configMapNames_def
  by auto

lemma collected_secrets: "fst ` set (CollectSecretRefs p) = secretNames p"
  unfolding CollectSecretRefs_def collectSecretsFromImagePullSecrets_def collectSecretsFromContainers_def
    collectSecretsFromVolumes_def dom_fold_pull dom_fold_containers dom_fold_volumes secretNames_def
  by auto

lemma collected_claims: "set (collectPVCRefs p) = claimNames p"
proof -
  have "set (foldl (\<lambda>refs v. case vPVC v of None \<Rightarrow> refs | Some c \<Rightarrow> List.insert c refs) refs vs) =
      set refs \<union> (\<Union>v\<in>set vs. set_option (vPVC v))" for refs and vs :: "volume list"
    by (induction vs arbitrary: refs) (auto split: option.splits)
  then show ?thesis by (simp add: collectPVCRefs_def claimNames_def)
qed

subsection \<open>Rewriting\<close>

lemma bind_res_Inr [simp]: "bind_res r f = Inr y \<longleftrightarrow> (\<exists>x. r = Inr x \<and> f x = Inr y)"
  by (cases r) (auto simp: bind_res_def)

lemma map_res_Inr: "map_res f xs = Inr ys \<longleftrightarrow> list_all2 (\<lambda>x y. f x = Inr y) xs ys"
proof (induction xs arbitrary: ys)
  case (Cons x xs)
  show ?case
    by (cases "f x"; cases "map_res f xs") (auto simp: list_all2_Cons1 Cons.IH [symmetric])
qed auto

lemma map_res_total: "(\<And>x. x \<in> set xs \<Longrightarrow> \<exists>y. f x = Inr y) \<Longrightarrow> \<exists>ys. map_res f xs = Inr ys"
proof (induction xs)
  case (Cons x xs)
  from Cons.prems [of x] obtain y where "f x = Inr y" by auto
  moreover obtain ys where "map_res f xs = Inr ys" using Cons by auto
  ultimately show ?case by auto
qed simp

lemma replaceRef_Inr: "replaceRef m what ref = Inr ref' \<longleftrightarrow>
    opt_name ref \<subseteq> dom m \<and> ref' = map_option (\<lambda>r. r\<lparr>refName := the (m (refName r))\<rparr>) ref"
  by (cases ref) (auto simp: replaceRef_def opt_name_def split: option.splits)

lemma opt_name_rename:
  "opt_name (map_option (\<lambda>r. r\<lparr>refName := the (m (refName r))\<rparr>) ref) = (\<lambda>n. the (m n)) ` opt_name ref"
  by (cases ref) (auto simp: opt_name_def)

lemma replaceRef_names: "replaceRef m what ref = Inr ref' \<Longrightarrow> opt_name ref' = (\<lambda>n. the (m n)) ` opt_name ref"
  by (simp add: replaceRef_Inr opt_name_rename)

lemma list_all2_names:
  assumes "list_all2 R xs ys" and "\<And>x y. R x y \<Longrightarrow> N y = g ` M x"
  shows "(\<Union>y\<in>set ys. N y) = g ` (\<Union>x\<in>set xs. M x)"
  using assms(1) by (induction) (simp_all add: assms(2) image_Un)

lemma tokenToSecret_id [simp]: "psServiceAccountToken s = None \<Longrightarrow> tokenToSecret sa s = s"
  by (simp add: tokenToSecret_def)

lemma tokenToSecret_none [simp]: "psServiceAccountToken (tokenToSecret sa s) = None"
  by (simp add: tokenToSecret_def split: option.splits)

lemma replaceFirstToken_at:
  assumes "i < length ss" and "\<And>j. j < i \<Longrightarrow> psServiceAccountToken (ss ! j) = None"
    and "psServiceAccountToken (ss ! i) \<noteq> None"
  shows "replaceFirstToken sa ss = ss[i := tokenToSecret sa (ss ! i)]"
  using assms
proof (induction ss arbitrary: i)
  case (Cons s ss)
  show ?case
  proof (cases i)
    case 0
    with Cons.prems show ?thesis by simp
  next
    case (Suc k)
    with Cons.prems(2) [of 0] have "psServiceAccountToken s = None" by simp
    moreover have "psServiceAccountToken (ss ! j) = None" if "j < k" for j
      using Cons.prems(2) [of "Suc j"] that Suc by simp
    ultimately show ?thesis using Suc Cons.IH [of k] Cons.prems by auto
  qed
qed simp

text \<open>The two nested loops replace every token.\<close>

lemma replaceTokens_all:
  assumes "vProjected v = Some ss" and "i \<le> length ss"
    and "\<And>j. j < i \<Longrightarrow> psServiceAccountToken (ss ! j) = None"
  shows "replaceTokens rm [i..<length ss] v =
    (if list_ex (\<lambda>s. psServiceAccountToken s \<noteq> None) ss
     then (case rmServiceAccountTokenName rm (vName v) of
         None \<Rightarrow> Inl (Errorf ''service account token mapping not found'')
       | Some sa \<Rightarrow> Inr (v\<lparr>vProjected := Some (map (tokenToSecret sa) ss)\<rparr>))
     else Inr v)"
  using assms
proof (induction "length ss - i" arbitrary: i v ss)
  case 0
  then have none: "\<not> list_ex (\<lambda>s. psServiceAccountToken s \<noteq> None) ss"
    by (simp add: list_ex_length)
  with 0 show ?case by simp
next
  case (Suc n)
  then have i: "i < length ss" by simp
  then have upt: "[i..<length ss] = i # [Suc i..<length ss]" by (simp add: upt_conv_Cons)
  show ?case
  proof (cases "psServiceAccountToken (ss ! i) = None")
    case True
    with Suc.prems(3) have none: "psServiceAccountToken (ss ! j) = None" if "j < Suc i" for j
      using that by (auto simp: less_Suc_eq)
    have "replaceTokens rm [i..<length ss] v = replaceTokens rm [Suc i..<length ss] v"
      using Suc.prems(1) True by (simp add: upt)
    with Suc.hyps(1) [of ss "Suc i" v] Suc.hyps(2) Suc.prems(1) i none show ?thesis by simp
  next
    case False
    then have ex: "list_ex (\<lambda>s. psServiceAccountToken s \<noteq> None) ss" using i by (auto simp: list_ex_length)
    show ?thesis
    proof (cases "rmServiceAccountTokenName rm (vName v)")
      case None
      with ex False Suc.prems(1) show ?thesis by (simp add: upt replaceServiceAccountTokenVolume_def bind_res_def)
    next
      case (Some sa)
      let ?ss = "ss[i := tokenToSecret sa (ss ! i)]"
      let ?v = "v\<lparr>vProjected := Some ?ss\<rparr>"
      have first: "replaceFirstToken sa ss = ?ss" using i Suc.prems(3) False by (rule replaceFirstToken_at)
      have "psServiceAccountToken (?ss ! j) = None" if "j < Suc i" for j
        using that i Suc.prems(3) by (cases "j = i") auto
      with Suc.hyps(1) [of ?ss "Suc i" ?v] Suc.hyps(2) i Some
      have "replaceTokens rm [Suc i..<length ss] ?v =
          Inr (if list_ex (\<lambda>s. psServiceAccountToken s \<noteq> None) ?ss
               then v\<lparr>vProjected := Some (map (tokenToSecret sa) ?ss)\<rparr> else ?v)" by simp
      moreover have "map (tokenToSecret sa) ?ss = map (tokenToSecret sa) ss"
        using i by (simp add: map_update list_update_same_conv)
      moreover have "map (tokenToSecret sa) ?ss = ?ss" if "\<not> list_ex (\<lambda>s. psServiceAccountToken s \<noteq> None) ?ss"
        using that by (intro map_idI) (auto simp: list_ex_iff)
      ultimately have "replaceTokens rm [Suc i..<length ss] ?v = Inr (v\<lparr>vProjected := Some (map (tokenToSecret sa) ss)\<rparr>)"
        by auto
      then show ?thesis using ex False Suc.prems(1) Some first
        by (simp add: upt replaceServiceAccountTokenVolume_def bind_res_def)
    qed
  qed
qed

text \<open>What a rewritten volume, container and spec refer to.\<close>

abbreviation renamed :: "smap \<Rightarrow> string set \<Rightarrow> string set" where
  "renamed m ns \<equiv> (\<lambda>n. the (m n)) ` ns"

definition volume_ok :: "pod \<Rightarrow> ResourceMapping \<Rightarrow> volume \<Rightarrow> bool" where
  "volume_ok p rm v \<longleftrightarrow> volume_names vConfigMap psConfigMap v \<subseteq> dom (rmConfigMaps rm) \<and>
     volume_names vSecret psSecret v \<subseteq> dom (rmSecrets rm) \<and> set_option (vPVC v) \<subseteq> dom (rmPVCs rm) \<and>
     (poServiceAccountName p \<noteq> '''' \<and> has_token v \<longrightarrow> vName v \<in> dom (rmServiceAccountTokenName rm))"

definition renamedSource :: "ResourceMapping \<Rightarrow> projected_source \<Rightarrow> projected_source" where
  "renamedSource rm s = s\<lparr>
     psConfigMap := map_option (\<lambda>r. r\<lparr>refName := the (rmConfigMaps rm (refName r))\<rparr>) (psConfigMap s),
     psSecret := map_option (\<lambda>r. r\<lparr>refName := the (rmSecrets rm (refName r))\<rparr>) (psSecret s),
     psDownwardAPI := map_option replaceDownwardAPIFieldPaths (psDownwardAPI s)\<rparr>"

definition renamedSources :: "pod \<Rightarrow> ResourceMapping \<Rightarrow> volume \<Rightarrow> projected_source list" where
  "renamedSources p rm v = map (\<lambda>s. let s' = renamedSource rm s in
       if poServiceAccountName p \<noteq> '''' then tokenToSecret (the (rmServiceAccountTokenName rm (vName v))) s' else s') (sources_of v)"

definition renamedVolume :: "pod \<Rightarrow> ResourceMapping \<Rightarrow> volume \<Rightarrow> volume" where
  "renamedVolume p rm v = v\<lparr>
     vConfigMap := map_option (\<lambda>r. r\<lparr>refName := the (rmConfigMaps rm (refName r))\<rparr>) (vConfigMap v),
     vSecret := map_option (\<lambda>r. r\<lparr>refName := the (rmSecrets rm (refName r))\<rparr>) (vSecret v),
     vPVC := map_option (\<lambda>n. the (rmPVCs rm n)) (vPVC v),
     vProjected := map_option (\<lambda>_. renamedSources p rm v) (vProjected v),
     vDownwardAPI := map_option replaceDownwardAPIFieldPaths (vDownwardAPI v)\<rparr>"

lemma replaceSource_Inr: "replaceSource rm s = Inr s' \<longleftrightarrow>
    opt_name (psConfigMap s) \<subseteq> dom (rmConfigMaps rm) \<and> opt_name (psSecret s) \<subseteq> dom (rmSecrets rm) \<and> s' = renamedSource rm s"
  by (auto simp: replaceSource_def replaceRef_Inr renamedSource_def)

lemma list_all2_map_fun: "list_all2 (\<lambda>x y. P x \<and> y = f x) xs ys \<longleftrightarrow> list_all P xs \<and> ys = map f xs"
  by (induction xs arbitrary: ys) (auto simp: list_all2_Cons1)

lemma map_res_replaceSource: "map_res (replaceSource rm) ss = Inr ss' \<longleftrightarrow>
    (\<Union>s\<in>set ss. opt_name (psConfigMap s)) \<subseteq> dom (rmConfigMaps rm) \<and>
    (\<Union>s\<in>set ss. opt_name (psSecret s)) \<subseteq> dom (rmSecrets rm) \<and> ss' = map (renamedSource rm) ss"
  unfolding map_res_Inr replaceSource_Inr conj_assoc [symmetric] list_all2_map_fun by (auto simp: list_all_iff)

lemma renamedSource_token [simp]: "psServiceAccountToken (renamedSource rm s) = psServiceAccountToken s"
  by (simp add: renamedSource_def)

lemma replaceBasic_Inr: "replaceBasicVolumeResourceNames rm v = Inr v' \<longleftrightarrow>
    opt_name (vConfigMap v) \<subseteq> dom (rmConfigMaps rm) \<and> opt_name (vSecret v) \<subseteq> dom (rmSecrets rm) \<and>
    set_option (vPVC v) \<subseteq> dom (rmPVCs rm) \<and>
    v' = v\<lparr>vConfigMap := map_option (\<lambda>r. r\<lparr>refName := the (rmConfigMaps rm (refName r))\<rparr>) (vConfigMap v),
      vSecret := map_option (\<lambda>r. r\<lparr>refName := the (rmSecrets rm (refName r))\<rparr>) (vSecret v),
      vPVC := map_option (\<lambda>n. the (rmPVCs rm n)) (vPVC v)\<rparr>"
proof (cases "vPVC v")
  case None
  then have "v\<lparr>vConfigMap := a, vSecret := b, vPVC := None\<rparr> = v\<lparr>vConfigMap := a, vSecret := b\<rparr>" for a b by simp
  with None show ?thesis by (auto simp: replaceBasicVolumeResourceNames_def replaceRef_Inr)
next
  case (Some c)
  then show ?thesis
    by (cases "rmPVCs rm c") (auto simp: replaceBasicVolumeResourceNames_def replaceRef_Inr)
qed

lemma replaceProjected_Inr: "replaceProjectedVolumeResourceNames rm v = Inr v' \<longleftrightarrow>
    (\<Union>s\<in>set (sources_of v). opt_name (psConfigMap s)) \<subseteq> dom (rmConfigMaps rm) \<and>
    (\<Union>s\<in>set (sources_of v). opt_name (psSecret s)) \<subseteq> dom (rmSecrets rm) \<and>
    v' = v\<lparr>vProjected := map_option (map (renamedSource rm)) (vProjected v)\<rparr>"
proof (cases "vProjected v")
  case None
  then have "v\<lparr>vProjected := None\<rparr> = v" by simp
  with None show ?thesis by (auto simp: replaceProjectedVolumeResourceNames_def sources_of_def)
next
  case (Some ss)
  then show ?thesis by (auto simp: replaceProjectedVolumeResourceNames_def sources_of_def map_res_replaceSource)
qed

lemma replaceTokens_Inr:
  assumes "vProjected v = Some ss" and "n = length ss"
  shows "replaceTokens rm [0..<n] v = Inr v' \<longleftrightarrow>
    (has_token v \<longrightarrow> vName v \<in> dom (rmServiceAccountTokenName rm)) \<and>
    v' = v\<lparr>vProjected := Some (map (tokenToSecret (the (rmServiceAccountTokenName rm (vName v)))) ss)\<rparr>"
proof (cases "has_token v")
  case True
  with assms replaceTokens_all [of v ss 0 rm] show ?thesis
    by (cases "rmServiceAccountTokenName rm (vName v)") (auto simp: has_token_def sources_of_def)
next
  case False
  then have "map (tokenToSecret sa) ss = ss" for sa
    using assms by (intro map_idI) (auto simp: has_token_def sources_of_def list_ex_iff)
  moreover from assms have "v\<lparr>vProjected := Some ss\<rparr> = v" by simp
  ultimately show ?thesis
    using False assms replaceTokens_all [of v ss 0 rm] by (auto simp: has_token_def sources_of_def)
qed

lemma replaceVolume_Inr: "replaceVolume p rm v = Inr v' \<longleftrightarrow> volume_ok p rm v \<and> v' = renamedVolume p rm v"
proof (cases "vProjected v")
  case None
  then have "has_token v = False" "renamedSources p rm v = []" "sources_of v = []"
    by (simp_all add: has_token_def renamedSources_def sources_of_def)
  with None show ?thesis
    by (auto simp: replaceVolume_def replaceBasic_Inr replaceProjected_Inr renamedVolume_def volume_ok_def
        volume_names_def sources_of_def)
next
  case (Some ss)
  then have src: "sources_of v = ss" by (simp add: sources_of_def)
  have tok: "has_token (w\<lparr>vProjected := Some (map (renamedSource rm) ss)\<rparr>) \<longleftrightarrow> has_token v" for w :: volume
    by (simp add: has_token_def Some sources_of_def list_ex_iff)
  show ?thesis
    using Some src
    by (cases "poServiceAccountName p = ''''")
      (auto simp: replaceVolume_def replaceBasic_Inr replaceProjected_Inr sources_of_def replaceTokens_Inr tok
        renamedVolume_def volume_ok_def volume_names_def renamedSources_def Let_def)
qed

text \<open>
  The Secrets of a volume that stay, under other names, and the one that takes the place of its
  tokens. A source with a token loses what it said of a Secret.
\<close>

definition kept_secrets :: "pod \<Rightarrow> volume \<Rightarrow> string set" where
  "kept_secrets p v = opt_name (vSecret v) \<union>
     (\<Union>s\<in>set (sources_of v). if poServiceAccountName p \<noteq> '''' \<and> psServiceAccountToken s \<noteq> None then {}
        else opt_name (psSecret s))"

definition token_secrets :: "pod \<Rightarrow> ResourceMapping \<Rightarrow> volume \<Rightarrow> string set" where
  "token_secrets p rm v = (if poServiceAccountName p \<noteq> '''' \<and> has_token v
     then {the (rmServiceAccountTokenName rm (vName v))} else {})"

lemma renamedVolume_names:
  "volume_names vConfigMap psConfigMap (renamedVolume p rm v) = renamed (rmConfigMaps rm) (volume_names vConfigMap psConfigMap v)"
  "set_option (vPVC (renamedVolume p rm v)) = renamed (rmPVCs rm) (set_option (vPVC v))"
  "volume_names vSecret psSecret (renamedVolume p rm v) =
     renamed (rmSecrets rm) (kept_secrets p v) \<union> token_secrets p rm v"
  "poServiceAccountName p \<noteq> '''' \<Longrightarrow> \<not> has_token (renamedVolume p rm v)"
proof -
  have src: "sources_of (renamedVolume p rm v) = renamedSources p rm v"
    by (simp add: sources_of_def renamedVolume_def renamedSources_def split: option.splits)
  have cm: "opt_name (psConfigMap (tokenToSecret sa s)) = opt_name (psConfigMap s)" for sa s
    by (simp add: tokenToSecret_def split: option.splits)
  have se: "opt_name (psSecret (tokenToSecret sa s)) =
      (if psServiceAccountToken s = None then opt_name (psSecret s) else {sa})" for sa s
    by (auto simp: tokenToSecret_def opt_name_def split: option.splits)
  have re: "opt_name (psSecret (renamedSource rm s)) = renamed (rmSecrets rm) (opt_name (psSecret s))" for s
    by (simp add: renamedSource_def opt_name_rename)
  show "volume_names vConfigMap psConfigMap (renamedVolume p rm v) = renamed (rmConfigMaps rm) (volume_names vConfigMap psConfigMap v)"
    unfolding volume_names_def src
    by (auto simp: renamedVolume_def renamedSources_def renamedSource_def opt_name_rename Let_def cm image_Un image_UN)
  show "set_option (vPVC (renamedVolume p rm v)) = renamed (rmPVCs rm) (set_option (vPVC v))"
    by (simp add: renamedVolume_def option.set_map)
  show "\<not> has_token (renamedVolume p rm v)" if "poServiceAccountName p \<noteq> ''''"
    unfolding has_token_def src using that by (simp add: renamedSources_def Let_def list_ex_iff)
  show "volume_names vSecret psSecret (renamedVolume p rm v) =
      renamed (rmSecrets rm) (kept_secrets p v) \<union> token_secrets p rm v"
  proof (cases "poServiceAccountName p = ''''")
    case True
    then show ?thesis
      unfolding volume_names_def src renamedSources_def kept_secrets_def token_secrets_def
      by (simp add: renamedVolume_def opt_name_rename re image_Un image_UN)
  next
    case False
    then show ?thesis
      unfolding volume_names_def src renamedSources_def kept_secrets_def token_secrets_def has_token_def
      by (auto simp: renamedVolume_def opt_name_rename re se Let_def list_ex_iff split: if_splits)
  qed
qed

definition renamedEnvVar :: "ResourceMapping \<Rightarrow> env_var \<Rightarrow> env_var" where
  "renamedEnvVar rm e = e\<lparr>evValueFrom := map_option (\<lambda>s. s\<lparr>
     esConfigMapKeyRef := map_option (\<lambda>r. r\<lparr>refName := the (rmConfigMaps rm (refName r))\<rparr>) (esConfigMapKeyRef s),
     esSecretKeyRef := map_option (\<lambda>r. r\<lparr>refName := the (rmSecrets rm (refName r))\<rparr>) (esSecretKeyRef s)\<rparr>) (evValueFrom e)\<rparr>"

definition renamedEnvFrom :: "ResourceMapping \<Rightarrow> env_from \<Rightarrow> env_from" where
  "renamedEnvFrom rm f = f\<lparr>
     efConfigMapRef := map_option (\<lambda>r. r\<lparr>refName := the (rmConfigMaps rm (refName r))\<rparr>) (efConfigMapRef f),
     efSecretRef := map_option (\<lambda>r. r\<lparr>refName := the (rmSecrets rm (refName r))\<rparr>) (efSecretRef f)\<rparr>"

definition renamedContainer :: "ResourceMapping \<Rightarrow> container \<Rightarrow> container" where
  "renamedContainer rm c = c\<lparr>ctEnv := replaceContainerDownwardAPIFieldPaths (map (renamedEnvVar rm) (ctEnv c)),
     ctEnvFrom := map (renamedEnvFrom rm) (ctEnvFrom c)\<rparr>"

definition container_ok :: "ResourceMapping \<Rightarrow> container \<Rightarrow> bool" where
  "container_ok rm c \<longleftrightarrow> container_names esConfigMapKeyRef efConfigMapRef c \<subseteq> dom (rmConfigMaps rm) \<and>
     container_names esSecretKeyRef efSecretRef c \<subseteq> dom (rmSecrets rm)"

lemma replaceEnvVar_Inr: "replaceEnvVar rm e = Inr e' \<longleftrightarrow>
    (opt_name (envRef esConfigMapKeyRef e) \<subseteq> dom (rmConfigMaps rm) \<and> opt_name (envRef esSecretKeyRef e) \<subseteq> dom (rmSecrets rm)) \<and>
    e' = renamedEnvVar rm e"
proof (cases "evValueFrom e")
  case None
  then have "e\<lparr>evValueFrom := None\<rparr> = e" by simp
  with None show ?thesis by (auto simp: replaceEnvVar_def renamedEnvVar_def envRef_def opt_name_def)
next
  case (Some src)
  then show ?thesis by (auto simp: replaceEnvVar_def renamedEnvVar_def envRef_def replaceRef_Inr)
qed

lemma replaceEnvFrom_Inr: "replaceEnvFrom rm f = Inr f' \<longleftrightarrow>
    (opt_name (efConfigMapRef f) \<subseteq> dom (rmConfigMaps rm) \<and> opt_name (efSecretRef f) \<subseteq> dom (rmSecrets rm)) \<and>
    f' = renamedEnvFrom rm f"
  by (auto simp: replaceEnvFrom_def renamedEnvFrom_def replaceRef_Inr)

lemma replaceContainer_Inr:
  "replaceContainerResourceNames rm c = Inr c' \<longleftrightarrow> container_ok rm c \<and> c' = renamedContainer rm c"
  unfolding replaceContainerResourceNames_def bind_res_Inr map_res_Inr replaceEnvVar_Inr replaceEnvFrom_Inr list_all2_map_fun
  by (auto simp: list_all_iff container_ok_def container_names_def renamedContainer_def)

lemma renamedContainer_names:
  "container_names esConfigMapKeyRef efConfigMapRef (renamedContainer rm c) =
     renamed (rmConfigMaps rm) (container_names esConfigMapKeyRef efConfigMapRef c)"
  "container_names esSecretKeyRef efSecretRef (renamedContainer rm c) =
     renamed (rmSecrets rm) (container_names esSecretKeyRef efSecretRef c)"
proof -
  have b: "Option.bind (map_option f x) g = Option.bind x (\<lambda>y. g (f y))" for f g and x :: "env_source option"
    by (cases x) simp_all
  have o: "opt_name (Option.bind x (\<lambda>y. map_option (\<lambda>r. r\<lparr>refName := the (m (refName r))\<rparr>) (g y))) =
      renamed m (opt_name (Option.bind x g))" for m g and x :: "env_source option"
    by (cases x) (simp_all add: opt_name_rename opt_name_def [of None])
  show "container_names esConfigMapKeyRef efConfigMapRef (renamedContainer rm c) =
      renamed (rmConfigMaps rm) (container_names esConfigMapKeyRef efConfigMapRef c)"
    and "container_names esSecretKeyRef efSecretRef (renamedContainer rm c) =
      renamed (rmSecrets rm) (container_names esSecretKeyRef efSecretRef c)"
    by (simp_all add: container_names_def renamedContainer_def replaceContainerDownwardAPIFieldPaths_def
        envRef_def renamedEnvVar_def renamedEnvFrom_def b o opt_name_rename image_Un image_UN option.map_comp comp_def)
qed

definition renamedSpec :: "pod \<Rightarrow> ResourceMapping \<Rightarrow> pod \<Rightarrow> pod" where
  "renamedSpec p rm spec = spec\<lparr>poVolumes := map (renamedVolume p rm) (poVolumes spec),
     poContainers := map (renamedContainer rm) (poContainers spec),
     poInitContainers := map (renamedContainer rm) (poInitContainers spec),
     poImagePullSecrets := map (\<lambda>n. the (rmSecrets rm n)) (poImagePullSecrets spec)\<rparr>"

definition kept_secretNames :: "pod \<Rightarrow> pod \<Rightarrow> string set" where
  "kept_secretNames p spec = (\<Union>v\<in>set (poVolumes spec). kept_secrets p v) \<union>
     (\<Union>c\<in>set (poContainers spec) \<union> set (poInitContainers spec). container_names esSecretKeyRef efSecretRef c) \<union>
     set (poImagePullSecrets spec)"

lemma renamed_secretNames: "secretNames (renamedSpec p rm spec) =
    renamed (rmSecrets rm) (kept_secretNames p spec) \<union> (\<Union>v\<in>set (poVolumes spec). token_secrets p rm v)"
  unfolding secretNames_def kept_secretNames_def
  by (simp add: renamedSpec_def renamedVolume_names renamedContainer_names image_Un image_UN UN_Un_distrib) blast

text \<open>What happens to a source of a projected volume that holds a token.\<close>

definition token_moved :: "ResourceMapping \<Rightarrow> string \<Rightarrow> projected_source \<Rightarrow> projected_source \<Rightarrow> bool" where
  "token_moved rm saName s s' = (case psServiceAccountToken s of
       None \<Rightarrow> s' = renamedSource rm s
     | Some tp \<Rightarrow> psServiceAccountToken s' = None \<and>
         psSecret s' = Some \<lparr>refName = saName, refOptional = None, refItems = [(''token'', tpPath tp)]\<rparr>)"

lemma renamedSources_moved:
  assumes "poServiceAccountName p \<noteq> ''''"
  shows "list_all2 (token_moved rm (the (rmServiceAccountTokenName rm (vName v)))) (sources_of v) (sources_of (renamedVolume p rm v))"
proof -
  have "sources_of (renamedVolume p rm v) = renamedSources p rm v"
    by (simp add: sources_of_def renamedVolume_def renamedSources_def split: option.splits)
  then show ?thesis using assms
    by (simp add: renamedSources_def list_all2_map2 list.rel_refl token_moved_def tokenToSecret_def renamedSource_def Let_def
        list_all2_same split: option.splits)
qed

text \<open>
  C5. If the mapping covers everything the collection functions found, rewriting the spec cannot
  fail, and its result is the spec with every reference renamed in place and nothing else changed
  but the paths of labels and annotations. So the ConfigMaps, claims and image pull secrets are the
  images of the original ones, and the Secrets are the images of those that stay and the token
  secrets of the volumes with tokens. For a pod with a service account every source with a token
  now names the token secret of its volume, as the file of the same path, and no token is left.
\<close>

theorem rewriteNames_total:
  assumes "fst ` set (CollectConfigMapRefs spec) \<subseteq> dom (rmConfigMaps rm)"
    and "fst ` set (CollectSecretRefs spec) \<subseteq> dom (rmSecrets rm)"
    and "set (collectPVCRefs spec) \<subseteq> dom (rmPVCs rm)"
    and "\<And>v. v \<in> set (poVolumes spec) \<Longrightarrow> has_token v \<Longrightarrow> vName v \<in> dom (rmServiceAccountTokenName rm)"
  shows "\<exists>spec'. rewriteNames p rm spec = Inr spec' \<and> spec' = renamedSpec p rm spec \<and>
    configMapNames spec' = renamed (rmConfigMaps rm) (configMapNames spec) \<and>
    claimNames spec' = renamed (rmPVCs rm) (claimNames spec) \<and>
    poImagePullSecrets spec' = map (\<lambda>n. the (rmSecrets rm n)) (poImagePullSecrets spec) \<and>
    secretNames spec' = renamed (rmSecrets rm) (kept_secretNames p spec) \<union>
      (\<Union>v\<in>set (poVolumes spec). token_secrets p rm v) \<and>
    (poServiceAccountName p \<noteq> '''' \<longrightarrow> list_all (\<lambda>v. \<not> has_token v) (poVolumes spec') \<and>
      list_all2 (\<lambda>v v'. list_all2 (token_moved rm (the (rmServiceAccountTokenName rm (vName v)))) (sources_of v) (sources_of v'))
        (poVolumes spec) (poVolumes spec'))"
proof -
  let ?spec' = "renamedSpec p rm spec"
  have vol: "volume_ok p rm v" if "v \<in> set (poVolumes spec)" for v
    using that assms unfolding collected_configMaps collected_secrets collected_claims volume_ok_def
    by (auto simp: configMapNames_def secretNames_def claimNames_def)
  have con: "container_ok rm c" if "c \<in> set (poContainers spec) \<union> set (poInitContainers spec)" for c
    using that assms(1,2) unfolding collected_configMaps collected_secrets container_ok_def
    by (auto simp: configMapNames_def secretNames_def)
  have pull: "set (poImagePullSecrets spec) \<subseteq> dom (rmSecrets rm)"
    using assms(2) unfolding collected_secrets by (auto simp: secretNames_def)
  have "map_res (\<lambda>n. case rmSecrets rm n of Some x \<Rightarrow> Inr x | None \<Rightarrow> Inl (Errorf (e n))) ns =
      Inr (map (\<lambda>n. the (rmSecrets rm n)) ns)" if "set ns \<subseteq> dom (rmSecrets rm)" for ns e
    using that by (induction ns) auto
  then have "replaceImagePullSecretNames rm s =
      Inr (s\<lparr>poImagePullSecrets := map (\<lambda>n. the (rmSecrets rm n)) (poImagePullSecrets s)\<rparr>)"
    if "set (poImagePullSecrets s) \<subseteq> dom (rmSecrets rm)" for s
    using that by (simp add: replaceImagePullSecretNames_def bind_res_def)
  with vol con pull have "rewriteNames p rm spec = Inr ?spec'"
    by (simp add: rewriteNames_def replaceVolumeResourceNames_def replaceContainerResourceNamesInSpec_def
        map_res_Inr replaceVolume_Inr replaceContainer_Inr list_all2_map_fun list_all_iff renamedSpec_def)
  moreover have "configMapNames ?spec' = renamed (rmConfigMaps rm) (configMapNames spec)"
    by (simp add: configMapNames_def renamedVolume_names renamedContainer_names image_Un image_UN renamedSpec_def)
  moreover have "claimNames ?spec' = renamed (rmPVCs rm) (claimNames spec)"
    by (simp add: claimNames_def renamedVolume_names image_UN renamedSpec_def)
  moreover have "poImagePullSecrets ?spec' = map (\<lambda>n. the (rmSecrets rm n)) (poImagePullSecrets spec)"
    by (simp add: renamedSpec_def)
  moreover note renamed_secretNames [of p rm spec]
  moreover have "poServiceAccountName p \<noteq> '''' \<longrightarrow> list_all (\<lambda>v. \<not> has_token v) (poVolumes ?spec') \<and>
      list_all2 (\<lambda>v v'. list_all2 (token_moved rm (the (rmServiceAccountTokenName rm (vName v)))) (sources_of v) (sources_of v'))
        (poVolumes spec) (poVolumes ?spec')"
    by (simp add: list_all_iff renamedVolume_names renamedSpec_def list_all2_map2 list_all2_same renamedSources_moved)
  ultimately show ?thesis by blast
qed

definition sample_volume :: volume where
  "sample_volume = \<lparr>vName = ''kube-api-access-x'', vConfigMap = None, vSecret = None, vPVC = Some ''claim'',
     vProjected = Some [\<lparr>psConfigMap = Some \<lparr>refName = ''ca'', refOptional = None, refItems = []\<rparr>, psSecret = None,
         psDownwardAPI = None, psServiceAccountToken = None, psOther = ''''\<rparr>,
       \<lparr>psConfigMap = None, psSecret = None, psDownwardAPI = None,
         psServiceAccountToken = Some \<lparr>tpAudience = '''', tpExpirationSeconds = Some 3607, tpPath = ''token''\<rparr>, psOther = ''''\<rparr>],
     vDownwardAPI = None, vOther = ''''\<rparr>"

definition sample_pod :: pod where
  "sample_pod = empty_pod\<lparr>poVolumes := [sample_volume], poServiceAccountName := ''default'', poImagePullSecrets := [''pull'']\<rparr>"

definition sample_mapping :: ResourceMapping where
  "sample_mapping = \<lparr>rmConfigMaps = [''ca'' \<mapsto> ''ca-1''], rmSecrets = [''pull'' \<mapsto> ''pull-1''], rmPVCs = [''claim'' \<mapsto> ''claim-1''],
     rmServiceAccountTokenName = [''kube-api-access-x'' \<mapsto> ''tok-1''], rmConfigMapsRequired = Map.empty, rmSecretsRequired = Map.empty\<rparr>"

theorem rewriteNames_total_witness:
  "\<exists>spec'. rewriteNames sample_pod sample_mapping sample_pod = Inr spec' \<and> configMapNames spec' = {''ca-1''} \<and>
     claimNames spec' = {''claim-1''} \<and> secretNames spec' = {''pull-1'', ''tok-1''} \<and> poImagePullSecrets spec' = [''pull-1''] \<and>
     \<not> list_ex has_token (poVolumes spec')"
proof -
  have c: "configMapNames sample_pod = {''ca''}" "secretNames sample_pod = {''pull''}" "claimNames sample_pod = {''claim''}"
    "kept_secretNames sample_pod sample_pod = {''pull''}"
    "poServiceAccountName sample_pod \<noteq> ''''" "poVolumes sample_pod = [sample_volume]" "poImagePullSecrets sample_pod = [''pull'']"
    "token_secrets sample_pod sample_mapping sample_volume = {''tok-1''}"
    by (simp_all add: configMapNames_def secretNames_def claimNames_def sample_pod_def sample_volume_def volume_names_def
        opt_name_def sources_of_def kept_secretNames_def kept_secrets_def token_secrets_def has_token_def sample_mapping_def)
  have "\<exists>spec'. rewriteNames sample_pod sample_mapping sample_pod = Inr spec' \<and>
      spec' = renamedSpec sample_pod sample_mapping sample_pod \<and>
      configMapNames spec' = renamed (rmConfigMaps sample_mapping) (configMapNames sample_pod) \<and>
      claimNames spec' = renamed (rmPVCs sample_mapping) (claimNames sample_pod) \<and>
      poImagePullSecrets spec' = map (\<lambda>n. the (rmSecrets sample_mapping n)) (poImagePullSecrets sample_pod) \<and>
      secretNames spec' = renamed (rmSecrets sample_mapping) (kept_secretNames sample_pod sample_pod) \<union>
        (\<Union>v\<in>set (poVolumes sample_pod). token_secrets sample_pod sample_mapping v) \<and>
      (poServiceAccountName sample_pod \<noteq> '''' \<longrightarrow> list_all (\<lambda>v. \<not> has_token v) (poVolumes spec') \<and>
        list_all2 (\<lambda>v v'. list_all2 (token_moved sample_mapping (the (rmServiceAccountTokenName sample_mapping (vName v)))) (sources_of v) (sources_of v'))
          (poVolumes sample_pod) (poVolumes spec'))"
    by (rule rewriteNames_total)
      (auto simp: collected_configMaps collected_secrets collected_claims c sample_mapping_def sample_volume_def)
  then obtain spec' where s: "rewriteNames sample_pod sample_mapping sample_pod = Inr spec'"
    "configMapNames spec' = {''ca-1''}" "claimNames spec' = {''claim-1''}" "secretNames spec' = {''pull-1'', ''tok-1''}"
    "poImagePullSecrets spec' = [''pull-1'']" "list_all (\<lambda>v. \<not> has_token v) (poVolumes spec')"
    using c by (auto simp: sample_mapping_def)
  from s(6) have "\<not> list_ex has_token (poVolumes spec')" by (simp add: list_ex_iff list_all_iff)
  with s(1-5) show ?thesis by blast
qed

section \<open>Metadata\<close>

text \<open>
  Synchronizing labels or annotations of a physical pod, against what was expected last time:
  a value the virtual pod changed arrives, an entry it dropped goes, entries it never had stay as
  they are, and so does an entry it did not change, even if the physical pod differs there; the
  flag says whether the map changed, and a second round changes nothing.
\<close>

theorem syncMetadata_spec:
  assumes "syncMetadata target prev current = (res, updated)"
  shows "(current k = Some v \<and> mget prev k \<noteq> v \<longrightarrow> mget res k = v) \<and>
    (prev k \<noteq> None \<and> current k = None \<longrightarrow> res k = None) \<and>
    (prev k = None \<and> current k = None \<longrightarrow> res k = target k) \<and>
    (current k = Some v \<and> mget prev k = v \<longrightarrow> res k = target k) \<and>
    updated = (res \<noteq> target) \<and>
    syncMetadata res current current = (res, False)"
proof -
  note both = assms [unfolded syncMetadata_def Let_def prod.inject]
  note res = both [THEN conjunct1, symmetric]
  have upd: "updated \<longleftrightarrow> (\<exists>k v. current k = Some v \<and> mget prev k \<noteq> v \<and> mget target k \<noteq> v) \<or>
      (\<exists>k. prev k \<noteq> None \<and> current k = None \<and> target k \<noteq> None)"
    unfolding both [THEN conjunct2, symmetric] by blast
  have "updated = (res \<noteq> target)"
  proof
    assume updated
    then consider k v where "current k = Some v" "mget prev k \<noteq> v" "mget target k \<noteq> v"
      | k where "prev k \<noteq> None" "current k = None" "target k \<noteq> None"
      unfolding upd by blast
    then show "res \<noteq> target"
    proof cases
      case 1
      then have "res k = Some v" "target k \<noteq> Some v" by (auto simp: res)
      then show ?thesis by metis
    next
      case 2
      then have "res k = None" by (simp add: res)
      with 2 show ?thesis by metis
    qed
  next
    assume "res \<noteq> target"
    then obtain k where "res k \<noteq> target k" by blast
    then show updated unfolding upd res by (auto split: if_splits)
  qed
  moreover have "syncMetadata res current current = (res, False)"
    by (auto simp: syncMetadata_def Let_def fun_eq_iff)
  moreover have "mget res k = v" if "current k = Some v" "mget prev k \<noteq> v"
  proof (cases "mget target k = v")
    case True
    with that have "res k = target k" by (simp add: res)
    with True show ?thesis by (simp add: mget_def)
  next
    case False
    with that have "res k = Some v" by (simp add: res)
    then show ?thesis by simp
  qed
  moreover have "prev k \<noteq> None \<and> current k = None \<longrightarrow> res k = None"
    and "prev k = None \<and> current k = None \<longrightarrow> res k = target k"
    and "current k = Some v \<and> mget prev k = v \<longrightarrow> res k = target k" by (simp_all add: res)
  ultimately show ?thesis by blast
qed

theorem syncMetadata_spec_witness:
  "syncMetadata [''a'' \<mapsto> ''1'', ''u'' \<mapsto> ''x''] [''a'' \<mapsto> ''1''] [''b'' \<mapsto> ''2''] = ([''u'' \<mapsto> ''x'', ''b'' \<mapsto> ''2''], True) \<and>
   syncMetadata [''u'' \<mapsto> ''x'', ''b'' \<mapsto> ''2''] [''b'' \<mapsto> ''2''] [''b'' \<mapsto> ''2''] = ([''u'' \<mapsto> ''x'', ''b'' \<mapsto> ''2''], False)"
proof -
  have s: "syncMetadata [''a'' \<mapsto> ''1'', ''u'' \<mapsto> ''x''] [''a'' \<mapsto> ''1''] [''b'' \<mapsto> ''2''] = ([''u'' \<mapsto> ''x'', ''b'' \<mapsto> ''2''], True)"
    by (auto simp: syncMetadata_def Let_def fun_eq_iff)
  with syncMetadata_spec [OF s, of "''b''" "''2''"] show ?thesis by blast
qed

section \<open>Environment variables\<close>

lemma setEnv_name [simp]: "evName (setEnv n v e) = evName e"
  by (simp add: setEnv_def)

lemma setEnv_other: "evName e \<noteq> n \<Longrightarrow> setEnv n v e = e"
  by (simp add: setEnv_def)

lemma setFirstEnv_filter: "P n = False \<Longrightarrow> filter (\<lambda>e. P (evName e)) (setFirstEnv n v es) = filter (\<lambda>e. P (evName e)) es"
  by (induction es) auto

lemma setFirstEnv_find:
  "find (\<lambda>e. evName e = n) (setFirstEnv n v es) = map_option (setEnv n v) (find (\<lambda>e. evName e = n) es)"
  by (induction es) auto

lemma find_append: "find P (xs @ ys) = (case find P xs of Some x \<Rightarrow> Some x | None \<Rightarrow> find P ys)"
  by (induction xs) auto

lemma list_ex_find: "list_ex P xs \<longleftrightarrow> find P xs \<noteq> None"
  by (auto simp: find_None_iff list_ex_iff)

definition injected :: "string list" where
  "injected = [KubernetesServiceHost, KubernetesServicePort, HostnameEnvVar]"

lemma injected_distinct [simp]:
  "KubernetesServiceHost \<noteq> KubernetesServicePort" "KubernetesServicePort \<noteq> KubernetesServiceHost"
  "HostnameEnvVar \<noteq> KubernetesServiceHost" "HostnameEnvVar \<noteq> KubernetesServicePort"
  "KubernetesServiceHost \<noteq> HostnameEnvVar" "KubernetesServicePort \<noteq> HostnameEnvVar"
  by (simp_all add: KubernetesServiceHost_def KubernetesServicePort_def HostnameEnvVar_def)

definition kube_env_ok :: "string \<Rightarrow> string \<Rightarrow> env_var \<Rightarrow> bool" where
  "kube_env_ok host port e \<longleftrightarrow> (evName e = KubernetesServiceHost \<longrightarrow> evValue e = host \<and> evValueFrom e = None) \<and>
     (evName e = KubernetesServicePort \<longrightarrow> evValue e = port \<and> evValueFrom e = None)"

lemma kube_env:
  assumes "es = ctEnv (injectKubernetesServiceEnvVars host port c)"
  shows "list_all (kube_env_ok host port) es"
    and "list_ex (\<lambda>e. evName e = KubernetesServiceHost) es" and "list_ex (\<lambda>e. evName e = KubernetesServicePort) es"
    and "filter (\<lambda>e. evName e \<notin> set injected) es = filter (\<lambda>e. evName e \<notin> set injected) (ctEnv c)"
proof -
  let ?f = "\<lambda>e. setEnv KubernetesServicePort port (setEnv KubernetesServiceHost host e)"
  have es: "es = map ?f (ctEnv c) @
      (if list_ex (\<lambda>e. evName e = KubernetesServiceHost) (ctEnv c) then [] else appendEnv KubernetesServiceHost host []) @
      (if list_ex (\<lambda>e. evName e = KubernetesServicePort) (ctEnv c) then [] else appendEnv KubernetesServicePort port [])"
    by (simp add: assms injectKubernetesServiceEnvVars_def Let_def appendEnv_def)
  show "list_all (kube_env_ok host port) es"
    unfolding es by (auto simp: list_all_iff kube_env_ok_def setEnv_def appendEnv_def)
  show "list_ex (\<lambda>e. evName e = KubernetesServiceHost) es" "list_ex (\<lambda>e. evName e = KubernetesServicePort) es"
    unfolding es by (auto simp: list_ex_iff appendEnv_def)
  have "filter (\<lambda>e. evName e \<notin> set injected) (map ?f xs) = filter (\<lambda>e. evName e \<notin> set injected) xs" for xs
    by (induction xs) (auto simp: injected_def setEnv_other)
  then show "filter (\<lambda>e. evName e \<notin> set injected) es = filter (\<lambda>e. evName e \<notin> set injected) (ctEnv c)"
    unfolding es by (simp add: injected_def appendEnv_def)
qed

lemma setFirstEnv_all:
  "P n = False \<Longrightarrow> (\<And>e. \<not> P (evName e) \<Longrightarrow> R e) \<Longrightarrow> list_all R es \<Longrightarrow> list_all R (setFirstEnv n v es)"
  by (induction es) auto

lemma setFirstEnv_names: "map evName (setFirstEnv n v es) = map evName es"
  by (induction es) auto

text \<open>
  After the injection every entry for the host and port of the API server has the given value
  and there is one of each, the first entry for the host name has the pod's name, and all other
  variables are the same and in the same order. (Of several entries for the host name only the
  first is set.)
\<close>

theorem env_injected:
  assumes "env = ctEnv (injectHostnameEnvVar podName (injectKubernetesServiceEnvVars host port c))"
  shows "filter (\<lambda>e. evName e \<notin> set injected) env = filter (\<lambda>e. evName e \<notin> set injected) (ctEnv c) \<and>
    list_all (kube_env_ok host port) env \<and>
    list_ex (\<lambda>e. evName e = KubernetesServiceHost) env \<and> list_ex (\<lambda>e. evName e = KubernetesServicePort) env \<and>
    (\<exists>e. find (\<lambda>e. evName e = HostnameEnvVar) env = Some e \<and> evValue e = podName \<and> evValueFrom e = None)"
proof -
  define ks where "ks = ctEnv (injectKubernetesServiceEnvVars host port c)"
  note k = kube_env [OF ks_def]
  have env: "env = setFirstEnv HostnameEnvVar podName ks @
      (if list_ex (\<lambda>e. evName e = HostnameEnvVar) ks then [] else appendEnv HostnameEnvVar podName [])"
    by (simp add: assms injectHostnameEnvVar_def Let_def ks_def appendEnv_def)
  have "filter (\<lambda>e. evName e \<notin> set injected) env = filter (\<lambda>e. evName e \<notin> set injected) (ctEnv c)"
    unfolding env k(4) [symmetric] using setFirstEnv_filter [of "\<lambda>n. n \<notin> set injected" HostnameEnvVar podName ks]
    by (simp add: injected_def appendEnv_def)
  moreover have "list_all (kube_env_ok host port) env"
    unfolding env using k(1) setFirstEnv_all [of "\<lambda>n. n = KubernetesServiceHost \<or> n = KubernetesServicePort"
        HostnameEnvVar "kube_env_ok host port" ks podName]
    by (auto simp: kube_env_ok_def appendEnv_def)
  moreover have "list_ex (\<lambda>e. evName e = n) env" if "list_ex (\<lambda>e. evName e = n) ks" for n
  proof -
    have "n \<in> set (map evName ks)" using that by (auto simp: list_ex_iff)
    then have "n \<in> set (map evName (setFirstEnv HostnameEnvVar podName ks))" by (simp only: setFirstEnv_names)
    then show ?thesis unfolding env by (auto simp: list_ex_iff)
  qed
  moreover have "\<exists>e. find (\<lambda>e. evName e = HostnameEnvVar) env = Some e \<and> evValue e = podName \<and> evValueFrom e = None"
    unfolding env find_append setFirstEnv_find list_ex_find
    by (cases "find (\<lambda>e. evName e = HostnameEnvVar) ks") (auto simp: appendEnv_def setEnv_def dest: find_SomeD)
  ultimately show ?thesis using k(2,3) by blast
qed

theorem env_injected_witness:
  "list_ex (\<lambda>e. evName e = HostnameEnvVar) (ctEnv (injectHostnameEnvVar ''p'' (injectKubernetesServiceEnvVars ''h'' ''443''
     \<lparr>ctName = ''c'', ctImage = '''', ctCommand = [], ctPorts = [], ctRequests = Map.empty, ctEnv = [], ctEnvFrom = [], ctOther = ''''\<rparr>)))"
  using env_injected [OF refl, of "''p''" "''h''" "''443''"
      "\<lparr>ctName = ''c'', ctImage = '''', ctCommand = [], ctPorts = [], ctRequests = Map.empty, ctEnv = [], ctEnvFrom = [], ctOther = ''''\<rparr>"]
  by (auto simp: list_ex_find)

end
