(* ===== verification/Token_Manager.thy ===== *)
theory Token_Manager
  imports Kube_Api Go_Time
begin

text \<open>
  \<^verbatim>\<open>pkg/syncer/topdown/token/token_manager.go\<close>: the cache of service account tokens. The key the code
  prints from name, namespace, audiences, expiration and bound object (with \<^verbatim>\<open>%q\<close> and \<^verbatim>\<open>%#v\<close>, which
  keep these apart) is the tuple itself. Whether the API server has the TokenRequest endpoint, which
  only decides the text of an error, is a parameter. The jitter is a random number of whole seconds
  below ten.
\<close>

type_synonym token_key = "string \<times> string \<times> string list \<times> int \<times> bound_object_ref"

record 's token_world = "'s world" +
  tmCache :: "token_key \<rightharpoonup> token_request"

type_synonym ('s, 'm, 'a) token_prog = "(('s, 'm) token_world_scheme, 'a) state"

definition maxTTL :: int where "maxTTL = 24 * 3600 * Second"

definition keyFunc :: "string \<Rightarrow> string \<Rightarrow> token_request \<Rightarrow> token_key" where
  "keyFunc name namespace tr =
     (name, namespace, trAudiences tr, (case trExpirationSeconds tr of None \<Rightarrow> 0 | Some n \<Rightarrow> n), trBoundObjectRef tr)"

definition token_expired :: "time \<Rightarrow> token_request \<Rightarrow> bool" where
  "token_expired now t \<longleftrightarrow> trExpirationTimestamp t < now"

definition requiresRefresh :: "'s api \<Rightarrow> token_request \<Rightarrow> ('s, 'm, bool) prog" where
  "requiresRefresh A tr = (case trExpirationSeconds tr of
       None \<Rightarrow> return False
     | Some secs \<Rightarrow> do {
         c \<leftarrow> Now A;
         let now = ckNow c;
         let exp = trExpirationTimestamp tr;
         let iat = exp + - 1 * secs * Second;
         n \<leftarrow> Rand A;
         let jitter = n mod 10 * Second;
         if iat + (maxTTL - jitter) < now then return True
         else if exp + (- 1 * quot (secs * 20) 100 * Second - jitter) < now then return True
         else return False
       })"

definition getToken :: "bool \<Rightarrow> 's api \<Rightarrow> string \<Rightarrow> string \<Rightarrow> token_request \<Rightarrow> ('s, 'm, token_request res) prog" where
  "getToken tokenRequestsSupported A name namespace tr = do {
     r \<leftarrow> CreateToken A namespace name tr;
     return (case r of
         Inl err \<Rightarrow> (if IsNotFound err \<and> \<not> tokenRequestsSupported
                    then Inl (Errorf ''the API server does not have TokenRequest endpoints enabled'') else Inl err)
       | Inr t \<Rightarrow> Inr t)
   }"

definition setToken :: "token_key \<Rightarrow> token_request \<Rightarrow> ('s, 'm, unit) token_prog" where
  "setToken key tr = modifies (tmCache_update (\<lambda>m. m(key \<mapsto> tr)))"

text \<open>The second half of \<^verbatim>\<open>GetServiceAccountToken\<close>: a new token, or the old one while it is valid.\<close>

definition refreshToken ::
  "bool \<Rightarrow> 's api \<Rightarrow> string \<Rightarrow> string \<Rightarrow> token_request \<Rightarrow> token_request option \<Rightarrow> ('s, 'm, token_request res) token_prog" where
  "refreshToken supported A namespace name tr cached = do {
     r \<leftarrow> getToken supported A name namespace tr;
     case r of
       Inl err \<Rightarrow> (case cached of
           None \<Rightarrow> return (Inl (Errorf ''failed to fetch token''))
         | Some ctr \<Rightarrow> do {
             c \<leftarrow> Now A;
             if token_expired (ckNow c) ctr then return (Inl (Errorf ''token expired and refresh failed''))
             else return (Inr ctr)
           })
     | Inr t \<Rightarrow> do { setToken (keyFunc name namespace tr) t; return (Inr t) }
   }"

definition GetServiceAccountToken ::
  "bool \<Rightarrow> 's api \<Rightarrow> string \<Rightarrow> string \<Rightarrow> token_request \<Rightarrow> ('s, 'm, token_request res) token_prog" where
  "GetServiceAccountToken supported A namespace name tr = do {
     cached \<leftarrow> reads (\<lambda>w. tmCache w (keyFunc name namespace tr));
     case cached of
       None \<Rightarrow> refreshToken supported A namespace name tr None
     | Some ctr \<Rightarrow> do {
         refresh \<leftarrow> requiresRefresh A ctr;
         if \<not> refresh then return (Inr ctr) else refreshToken supported A namespace name tr (Some ctr)
       }
   }"

text \<open>
  The code reads \<^verbatim>\<open>tr.Spec.BoundObjectRef.UID\<close> and would panic on a cached answer without that reference. Every
  request of the pod controller carries one and the server answers with the spec it was sent, so a
  \<open>token_request\<close> always has one here.
\<close>

definition DeleteServiceAccountToken :: "string \<Rightarrow> ('s, 'm, unit) token_prog" where
  "DeleteServiceAccountToken podUID = modifies (tmCache_update (\<lambda>m k. case m k of
       None \<Rightarrow> None
     | Some tr \<Rightarrow> (if boUID (trBoundObjectRef tr) = podUID then None else Some tr)))"

text \<open>The clock is read for every entry: \<open>now\<close> is what it says at each of them.\<close>

definition cleanupTokens :: "(token_key \<Rightarrow> time) \<Rightarrow> ('s, 'm, unit) token_prog" where
  "cleanupTokens now = modifies (tmCache_update (\<lambda>m k. case m k of
       None \<Rightarrow> None | Some tr \<Rightarrow> (if token_expired (now k) tr then None else Some tr)))"

section \<open>Where tokens come from\<close>

text \<open>A cached token was answered to a request with the same key.\<close>

definition issued :: "event list \<Rightarrow> token_key \<Rightarrow> token_request \<Rightarrow> bool" where
  "issued evs key t \<longleftrightarrow> (\<exists>namespace name tr. EvCreateToken namespace name tr (Inr t) \<in> set evs \<and> key = keyFunc name namespace tr)"

definition cache_sound :: "('s, 'm) token_world_scheme \<Rightarrow> bool" where
  "cache_sound w \<longleftrightarrow> (\<forall>key t. tmCache w key = Some t \<longrightarrow> issued (hist w) key t)"

lemma issued_mono: "issued evs key t \<Longrightarrow> set evs \<subseteq> set evs' \<Longrightarrow> issued evs' key t"
  unfolding issued_def by blast

definition token_answer ::
  "string \<Rightarrow> string \<Rightarrow> token_request \<Rightarrow> ('s, 'm) token_world_scheme \<Rightarrow> token_request res \<Rightarrow> event list \<Rightarrow>
   ('s, 'm) token_world_scheme \<Rightarrow> bool" where
  "token_answer namespace name tr w r evs w' \<longleftrightarrow> (case r of
       Inl _ \<Rightarrow> tmCache w' = tmCache w
     | Inr t \<Rightarrow> (EvCreateToken namespace name tr (Inr t) \<in> set evs \<and> tmCache w' = (tmCache w)(keyFunc name namespace tr \<mapsto> t)) \<or>
         (tmCache w (keyFunc name namespace tr) = Some t \<and> tmCache w' = tmCache w \<and>
           (trExpirationSeconds t = None \<or> (\<exists>s. trExpirationSeconds t = Some s \<and> s < 0) \<or>
            (\<exists>c. EvClock c \<in> set evs \<and> \<not> token_expired (ckNow c) t))))"

lemma not_due_not_expired:
  assumes "0 \<le> secs" and "\<not> exp + (- 1 * quot (secs * 20) 100 * Second - n mod 10 * Second) < now"
  shows "\<not> exp < now"
proof -
  have "0 \<le> quot (secs * 20) 100" using assms(1) by simp
  moreover have "0 \<le> n mod 10" by simp
  ultimately show ?thesis using assms(2) by (simp add: Second_def)
qed

lemma requiresRefresh_spec:
  "tspec (requiresRefresh A t) w (\<lambda>r evs w'. (\<exists>s. w' = w\<lparr>srv := s, hist := hist w @ evs\<rparr>) \<and>
     (\<not> r \<longrightarrow> trExpirationSeconds t = None \<or> (\<exists>s. trExpirationSeconds t = Some s \<and> s < 0) \<or>
       (\<exists>c. EvClock c \<in> set evs \<and> \<not> token_expired (ckNow c) t)))"
proof (cases "trExpirationSeconds t")
  case None
  then show ?thesis unfolding requiresRefresh_def by (auto intro!: vcg exI [of _ "srv w"])
next
  case (Some secs)
  then show ?thesis unfolding requiresRefresh_def Let_def
    by (auto intro!: vcg simp: token_expired_def intro: leI dest: not_due_not_expired [rotated])
qed

lemma token_answer_mono:
  "token_answer ns n tr w r evs w' \<Longrightarrow> tmCache w0 = tmCache w \<Longrightarrow> set evs \<subseteq> set evs' \<Longrightarrow> token_answer ns n tr w0 r evs' w'"
  by (auto simp: token_answer_def split: sum.splits)

lemma refreshToken_answer:
  "tmCache w (keyFunc name namespace tr) = cached \<Longrightarrow>
   tspec (refreshToken supported A namespace name tr cached) w (token_answer namespace name tr w)"
  unfolding refreshToken_def getToken_def setToken_def
  by (intro vcg) (auto simp: token_answer_def split: sum.splits if_splits)

lemma GetServiceAccountToken_answer:
  "tspec (GetServiceAccountToken supported A namespace name tr) w (token_answer namespace name tr w)"
  unfolding GetServiceAccountToken_def
proof (intro tspec_bind tspec_reads tspec_option)
  assume "tmCache w (keyFunc name namespace tr) = None"
  then show "tspec (refreshToken supported A namespace name tr None) w
      (\<lambda>r' evs'. token_answer namespace name tr w r' ([] @ evs'))"
    using refreshToken_answer by simp
next
  fix ctr
  assume c: "tmCache w (keyFunc name namespace tr) = Some ctr"
  show "tspec (requiresRefresh A ctr) w (\<lambda>r evs w'. tspec (if \<not> r then return (Inr ctr)
      else refreshToken supported A namespace name tr (Some ctr)) w'
        (\<lambda>r' evs' w''. token_answer namespace name tr w r' ([] @ evs @ evs') w''))"
    by (rule tspec_mono [OF requiresRefresh_spec])
      (auto intro!: tspec_if tspec_return tspec_mono [OF refreshToken_answer] simp: c elim: token_answer_mono,
        auto simp: token_answer_def c)
qed

text \<open>
  Getting a token returns either one the API server has just issued for this very request,
  which is then cached, or the cached one of a request with the same key, and that has no declared
  lifetime (or a negative one) or had not expired at a clock reading of this call. An error leaves
  the cache as it is.
\<close>

theorem GetServiceAccountToken_spec:
  "tspec (GetServiceAccountToken supported A namespace name tr) w (token_answer namespace name tr w)"
  by (rule GetServiceAccountToken_answer)

lemma token_answer_sound:
  assumes "cache_sound w" and "hist w' = hist w @ evs" and "token_answer ns n tr w r evs w'"
  shows "cache_sound w'"
  using assms unfolding cache_sound_def token_answer_def issued_def
  by (auto split: sum.splits if_splits) blast+

inductive token_step :: "'s api \<Rightarrow> ('s, 'm) token_world_scheme \<Rightarrow> ('s, 'm) token_world_scheme \<Rightarrow> bool" for A where
  get: "run_state (GetServiceAccountToken supported A namespace name tr) w = (r, w') \<Longrightarrow> token_step A w w'"
| forget: "run_state (DeleteServiceAccountToken uid) w = (r, w') \<Longrightarrow> token_step A w w'"
| clean: "run_state (cleanupTokens now) w = (r, w') \<Longrightarrow> token_step A w w'"

lemma token_step_sound:
  assumes "token_step A w w'" and "cache_sound w"
  shows "cache_sound w'"
  using assms(1)
proof cases
  case (get supported namespace name tr r)
  from tspec_run [OF GetServiceAccountToken_answer get] obtain evs
    where "hist w' = hist w @ evs" "token_answer namespace name tr w r evs w'" by blast
  with assms(2) show ?thesis by (rule token_answer_sound)
next
  case (forget uid r)
  with assms(2) show ?thesis
    by (auto simp: DeleteServiceAccountToken_def modifies_def cache_sound_def split: option.splits if_splits)
next
  case (clean now r)
  with assms(2) show ?thesis
    by (auto simp: cleanupTokens_def modifies_def cache_sound_def split: option.splits if_splits)
qed

text \<open>
  C6. Tokens do not cross pods: whatever sequence of requests, pod deletions and cleanups the
  manager serves, from an empty cache every cached token was issued for a request with the key it
  is stored under, hence for the same account, audience and pod; and after a pod is forgotten no
  cached token is bound to it.
\<close>

theorem tokens_stay_with_pod:
  assumes "(token_step A)\<^sup>*\<^sup>* w w'" and "tmCache w = Map.empty"
  shows "cache_sound w' \<and>
    (\<forall>key t. tmCache (snd (run_state (DeleteServiceAccountToken uid) w')) key = Some t \<longrightarrow> boUID (trBoundObjectRef t) \<noteq> uid)"
proof
  from assms(1) show "cache_sound w'"
    by (induction rule: rtranclp_induct) (simp add: cache_sound_def assms(2), blast intro: token_step_sound)
  show "\<forall>key t. tmCache (snd (run_state (DeleteServiceAccountToken uid) w')) key = Some t \<longrightarrow> boUID (trBoundObjectRef t) \<noteq> uid"
    by (auto simp: DeleteServiceAccountToken_def modifies_def split: option.splits if_splits)
qed

definition sample_request :: token_request where
  "sample_request = \<lparr>trAudiences = [], trExpirationSeconds = Some 3607,
     trBoundObjectRef = \<lparr>boKind = ''Pod'', boName = ''p'', boUID = ''u1''\<rparr>, trToken = '''', trExpirationTimestamp = 0\<rparr>"

theorem tokens_stay_with_pod_witness:
  "cache_sound (snd (run_state (GetServiceAccountToken True scripted ''ns'' ''sa'' sample_request)
     \<lparr>srv = [AToken (Inr (sample_request\<lparr>trToken := ''t''\<rparr>))], hist = [], tmCache = Map.empty\<rparr>))"
proof -
  let ?w = "\<lparr>srv = [AToken (Inr (sample_request\<lparr>trToken := ''t''\<rparr>))], hist = [], tmCache = Map.empty\<rparr>"
  obtain r w' where run: "run_state (GetServiceAccountToken True scripted ''ns'' ''sa'' sample_request) ?w = (r, w')"
    by (cases "run_state (GetServiceAccountToken True scripted ''ns'' ''sa'' sample_request) ?w")
  from r_into_rtranclp [of "token_step scripted", OF token_step.get [OF run]]
  have "cache_sound w'" using tokens_stay_with_pod [of scripted ?w w'] by simp
  with run show ?thesis by simp
qed

end
