(* ===== verification/Resource_Sync.thy ===== *)
theory Resource_Sync
  imports Kube_Api Naming
begin

text \<open>
  \<^verbatim>\<open>pkg/syncer/topdown/common/common.go\<close>: what the top-down controllers share. A ConfigMap,
  Secret, PVC or PV of the virtual cluster has a copy in the physical cluster; the virtual object
  carries, for every cluster it is copied to, a finalizer and a label, and the name of the copy as
  an annotation. An absent and an empty map are not distinguished (the code sets emptied maps to
  nil), so its nil tests are emptiness tests; the \<^verbatim>\<open>%T\<close> of error texts is left out. The CSI source of a PV is a shared pointer in the
  code, written through in \<^verbatim>\<open>BuildPhysicalResource\<close>; the virtual PV is not read after that.
\<close>

datatype resource_type = RTConfigMap | RTSecret | RTPVC | RTPV | RTOther string

record sync_resource_opt =
  PhysicalPVName :: string
  IsPVRefSecret :: bool
  PhysicalPVRefSecretName :: string

fun resource_kind :: "resource_type \<Rightarrow> kind option" where
  "resource_kind RTConfigMap = Some KConfigMap"
| "resource_kind RTSecret = Some KSecret"
| "resource_kind RTPVC = Some KPVC"
| "resource_kind RTPV = Some KPV"
| "resource_kind (RTOther _) = None"

fun resource_name :: "resource_type \<Rightarrow> string" where
  "resource_name RTConfigMap = ''ConfigMap''"
| "resource_name RTSecret = ''Secret''"
| "resource_name RTPVC = ''PVC''"
| "resource_name RTPV = ''PV''"
| "resource_name (RTOther s) = s"

section \<open>Looking for the copy\<close>

text \<open>
  The cached client first, with the type of the object the caller passes; if it is not there, the
  direct client. \<^term>\<open>Inr None\<close> is the answer that the copy does not exist.
\<close>

definition CheckPhysicalResourceExists ::
  "'s api \<Rightarrow> resource_type \<Rightarrow> string \<Rightarrow> string \<Rightarrow> kind \<Rightarrow> ('s, 'm, obj option res) prog" where
  "CheckPhysicalResourceExists A resourceType physicalName physicalNamespace srckind = do {
     r \<leftarrow> Get A PhysicalClient srckind physicalNamespace physicalName;
     case r of
       Inr ob \<Rightarrow> return (Inr (Some ob))
     | Inl err \<Rightarrow>
        (if IsNotFound err then
          (case resource_kind resourceType of
             None \<Rightarrow> return (Inl (Errorf (''unsupported resource type: '' @ resource_name resourceType)))
           | Some k \<Rightarrow> do {
               d \<leftarrow> Get A PhysicalK8sClient k (if k = KPV then '''' else physicalNamespace) physicalName;
               case d of
                 Inl directErr \<Rightarrow> (if IsNotFound directErr then return (Inr None) else return (Inl directErr))
               | Inr directObj \<Rightarrow> return (Inr (Some directObj))
             })
         else return (Inl err))
   }"

section \<open>Building and creating the copy\<close>

definition BuildPhysicalResourceLabels :: "objmeta \<Rightarrow> smap" where
  "BuildPhysicalResourceLabels m = (mLabels m)(LabelManagedBy \<mapsto> LabelManagedByValue)"

definition BuildPhysicalResourceLabelsWithClusterID :: "objmeta \<Rightarrow> string \<Rightarrow> smap" where
  "BuildPhysicalResourceLabelsWithClusterID m clusterID =
     (BuildPhysicalResourceLabels m)(LabelManagedByClusterIDPrefix @ clusterID \<mapsto> LabelValueTrue)"

definition droppedAnnotations :: "string list" where
  "droppedAnnotations = [AnnotationPhysicalPodNamespace, AnnotationPhysicalPodName, AnnotationPhysicalPodUID,
     AnnotationPhysicalNamespace, AnnotationPhysicalName, AnnotationLastSyncTime]"

definition BuildPhysicalResourceAnnotations :: "objmeta \<Rightarrow> smap" where
  "BuildPhysicalResourceAnnotations m =
     (mfilter (\<lambda>k. k \<notin> set droppedAnnotations) (mAnnotations m))
       (AnnotationVirtualNamespace \<mapsto> mNamespace m, AnnotationVirtualName \<mapsto> mName m)"

definition copyMeta :: "objmeta \<Rightarrow> string \<Rightarrow> string \<Rightarrow> smap \<Rightarrow> objmeta" where
  "copyMeta m physicalName physicalNamespace labels =
     empty_meta\<lparr>mName := physicalName, mNamespace := physicalNamespace, mLabels := labels,
       mAnnotations := BuildPhysicalResourceAnnotations m\<rparr>"

definition BuildPhysicalResource ::
  "resource_type \<Rightarrow> obj \<Rightarrow> string \<Rightarrow> string \<Rightarrow> sync_resource_opt option \<Rightarrow> obj res" where
  "BuildPhysicalResource resourceType virtualObj physicalName physicalNamespace opt =
    (let m = obj_meta virtualObj; labels = BuildPhysicalResourceLabels m in
     case resourceType of
       RTConfigMap \<Rightarrow> (case virtualObj of
         OConfigMap cm \<Rightarrow> Inr (OConfigMap (cm\<lparr>cmMeta := copyMeta m physicalName physicalNamespace labels\<rparr>))
       | _ \<Rightarrow> Inl (Errorf ''invalid object type for ConfigMap''))
     | RTSecret \<Rightarrow> (case virtualObj of
         OSecret se \<Rightarrow>
           (let labels = (case opt of
                Some so \<Rightarrow> if IsPVRefSecret so then labels(LabelUsedByPV \<mapsto> LabelValueTrue) else labels
              | None \<Rightarrow> labels)
            in Inr (OSecret (se\<lparr>seMeta := copyMeta m physicalName physicalNamespace labels\<rparr>)))
       | _ \<Rightarrow> Inl (Errorf ''invalid object type for Secret''))
     | RTPVC \<Rightarrow> (case virtualObj of
         OPVC c \<Rightarrow>
           (let c' = c\<lparr>pvcMeta := copyMeta m physicalName physicalNamespace labels,
                       pvcStorageClassName := None, pvcPhase := ''Pending''\<rparr>
            in Inr (OPVC (case opt of
                 Some so \<Rightarrow> if PhysicalPVName so \<noteq> '''' then c'\<lparr>pvcVolumeName := PhysicalPVName so\<rparr> else c'
               | None \<Rightarrow> c')))
       | _ \<Rightarrow> Inl (Errorf ''invalid object type for PVC''))
     | RTPV \<Rightarrow> (case virtualObj of
         OPV v \<Rightarrow>
           (let v' = v\<lparr>pvMeta := copyMeta m physicalName '''' labels, pvClaimRef := None,
                       pvReclaimPolicy := ''Retain'', pvStatus := ''''\<rparr>
            in Inr (OPV (case (opt, pvCSI v) of
                 (Some so, Some csi) \<Rightarrow> (case csiNodePublishSecretRef csi of
                    Some ref \<Rightarrow> if PhysicalPVRefSecretName so \<noteq> ''''
                      then v'\<lparr>pvCSI := Some (csi\<lparr>csiNodePublishSecretRef :=
                             Some (ref\<lparr>srName := PhysicalPVRefSecretName so\<rparr>)\<rparr>)\<rparr>
                      else v'
                  | None \<Rightarrow> v')
               | _ \<Rightarrow> v')))
       | _ \<Rightarrow> Inl (Errorf ''invalid object type for PV''))
     | RTOther s \<Rightarrow> Inl (Errorf (''unsupported resource type: '' @ s)))"

definition CreatePhysicalResourceWithOpt ::
  "'s api \<Rightarrow> resource_type \<Rightarrow> obj \<Rightarrow> string \<Rightarrow> string \<Rightarrow> sync_resource_opt option \<Rightarrow> ('s, 'm, unit res) prog" where
  "CreatePhysicalResourceWithOpt A resourceType virtualObj physicalName physicalNamespace opt =
    (case BuildPhysicalResource resourceType virtualObj physicalName physicalNamespace opt of
       Inl e \<Rightarrow> return (Inl e)
     | Inr physicalObj \<Rightarrow> do {
         r \<leftarrow> Create A PhysicalClient physicalObj;
         case r of
           Inl err \<Rightarrow> (if IsAlreadyExists err then return (Inr ()) else return (Inl err))
         | Inr _ \<Rightarrow> return (Inr ())
       })"

definition CreatePhysicalResource ::
  "'s api \<Rightarrow> resource_type \<Rightarrow> obj \<Rightarrow> string \<Rightarrow> string \<Rightarrow> ('s, 'm, unit res) prog" where
  "CreatePhysicalResource A resourceType virtualObj physicalName physicalNamespace =
     CreatePhysicalResourceWithOpt A resourceType virtualObj physicalName physicalNamespace None"

section \<open>Marks on the virtual object\<close>

definition GetManagedByClusterIDLabel :: "string \<Rightarrow> string" where
  "GetManagedByClusterIDLabel clusterID = LabelManagedByClusterIDPrefix @ clusterID"

definition GetClusterSpecificFinalizer :: "string \<Rightarrow> string" where
  "GetClusterSpecificFinalizer clusterID = FinalizerClusterIDPrefix @ clusterID"

definition RemoveSyncedResourceFinalizerWithClusterID ::
  "'s api \<Rightarrow> obj \<Rightarrow> string \<Rightarrow> ('s, 'm, unit res) prog" where
  "RemoveSyncedResourceFinalizerWithClusterID A ob clusterID =
    (let f = FinalizerClusterIDPrefix @ clusterID in
     if \<not> ContainsFinalizer (obj_meta ob) f then return (Inr ())
     else on_ok (Update A VirtualClient (set_obj_meta (RemoveFinalizer (obj_meta ob) f) ob)) (\<lambda>_. return (Inr ())))"

definition removeLabels :: "bool \<Rightarrow> string \<Rightarrow> string \<Rightarrow> objmeta \<Rightarrow> objmeta" where
  "removeLabels finalizerExists clusterSpecificFinalizer managedByClusterIDLabel m =
    (let others = filter (\<lambda>f. HasPrefix f FinalizerClusterIDPrefix \<and> f \<noteq> clusterSpecificFinalizer) (mFinalizers m);
         labelsToRemove = [managedByClusterIDLabel, LabelUsedByPV] @
           (if finalizerExists \<and> length others = 0 then [LabelManagedBy] else [])
     in m\<lparr>mLabels := mfilter (\<lambda>k. k \<notin> set labelsToRemove) (mLabels m)\<rparr>)"

definition removeAnnotations :: "string \<Rightarrow> objmeta \<Rightarrow> objmeta" where
  "removeAnnotations clusterID m =
    (let annotationsToRemove = [AnnotationPhysicalName, AnnotationPhysicalNamespace,
           GetClusterBindingDeletingAnnotation clusterID]
     in m\<lparr>mAnnotations := mfilter (\<lambda>k. k \<notin> set annotationsToRemove) (mAnnotations m)\<rparr>)"

definition nothingToRemove :: "string \<Rightarrow> objmeta \<Rightarrow> bool" where
  "nothingToRemove clusterID m \<longleftrightarrow>
     \<not> ContainsFinalizer m (FinalizerClusterIDPrefix @ clusterID) \<and>
     mget (mLabels m) (GetManagedByClusterIDLabel clusterID) = '''' \<and> mget (mLabels m) LabelUsedByPV = '''' \<and>
     mget (mAnnotations m) AnnotationPhysicalName = '''' \<and> mget (mAnnotations m) AnnotationPhysicalNamespace = ''''"

definition unmarkSynced :: "string \<Rightarrow> objmeta \<Rightarrow> objmeta" where
  "unmarkSynced clusterID m =
    (let f = FinalizerClusterIDPrefix @ clusterID; finalizerExists = ContainsFinalizer m f;
         m = (if finalizerExists then RemoveFinalizer m f else m);
         m = removeLabels finalizerExists f (GetManagedByClusterIDLabel clusterID) m
     in removeAnnotations clusterID m)"

definition RemoveSyncedResourceFinalizerAndLabels ::
  "'s api \<Rightarrow> obj \<Rightarrow> string \<Rightarrow> ('s, 'm, unit res) prog" where
  "RemoveSyncedResourceFinalizerAndLabels A ob clusterID =
    (if nothingToRemove clusterID (obj_meta ob) then return (Inr ())
     else on_ok (Update A VirtualClient (set_obj_meta (unmarkSynced clusterID (obj_meta ob)) ob))
       (\<lambda>_. return (Inr ())))"

definition AddClusterBindingDeletingAnnotation ::
  "'s api \<Rightarrow> obj \<Rightarrow> string \<Rightarrow> string \<Rightarrow> ('s, 'm, unit res) prog" where
  "AddClusterBindingDeletingAnnotation A ob clusterID clusterBindingName =
    (let k = GetClusterBindingDeletingAnnotation clusterID; m = obj_meta ob in
     if mAnnotations m \<noteq> Map.empty \<and> mget (mAnnotations m) k = clusterBindingName then return (Inr ())
     else on_ok_wrap ''failed to add clusterbinding-deleting annotation''
       (Update A VirtualClient (set_obj_meta (m\<lparr>mAnnotations := (mAnnotations m)(k \<mapsto> clusterBindingName)\<rparr>) ob))
       (\<lambda>_. return (Inr ())))"

definition isPVRefSecretOpt :: "sync_resource_opt option \<Rightarrow> bool" where
  "isPVRefSecretOpt opt = (case opt of Some so \<Rightarrow> IsPVRefSecret so | None \<Rightarrow> False)"

definition allFieldsMatch ::
  "string \<Rightarrow> objmeta \<Rightarrow> string \<Rightarrow> string \<Rightarrow> sync_resource_opt option \<Rightarrow> bool" where
  "allFieldsMatch clusterID m physicalName physicalNamespace opt \<longleftrightarrow>
     mAnnotations m \<noteq> Map.empty \<and>
     mget (mAnnotations m) AnnotationPhysicalName = physicalName \<and>
     mget (mAnnotations m) AnnotationPhysicalNamespace = physicalNamespace \<and>
     mget (mLabels m) LabelManagedBy = LabelManagedByValue \<and>
     mget (mLabels m) (GetManagedByClusterIDLabel clusterID) = LabelValueTrue \<and>
     ContainsFinalizer m (GetClusterSpecificFinalizer clusterID) \<and>
     (isPVRefSecretOpt opt \<longrightarrow> mget (mLabels m) LabelUsedByPV = LabelValueTrue)"

definition markSynced ::
  "string \<Rightarrow> string \<Rightarrow> string \<Rightarrow> sync_resource_opt option \<Rightarrow> objmeta \<Rightarrow> objmeta" where
  "markSynced clusterID physicalName physicalNamespace opt m =
    (let labels = (mLabels m)(LabelManagedBy \<mapsto> LabelManagedByValue,
                              GetManagedByClusterIDLabel clusterID \<mapsto> LabelValueTrue);
         labels = (if isPVRefSecretOpt opt then labels(LabelUsedByPV \<mapsto> ''true'') else labels);
         annotations = (mAnnotations m)(AnnotationPhysicalName \<mapsto> physicalName,
                                        AnnotationPhysicalNamespace \<mapsto> physicalNamespace)
     in AddFinalizer (m\<lparr>mLabels := labels, mAnnotations := annotations\<rparr>) (GetClusterSpecificFinalizer clusterID))"

definition UpdateVirtualResourceLabelsAndAnnotations ::
  "'s api \<Rightarrow> string \<Rightarrow> obj \<Rightarrow> string \<Rightarrow> string \<Rightarrow> sync_resource_opt option \<Rightarrow> ('s, 'm, unit res) prog" where
  "UpdateVirtualResourceLabelsAndAnnotations A clusterID ob physicalName physicalNamespace opt =
    (let m = obj_meta ob; existing = mget (mAnnotations m) AnnotationPhysicalName in
     if allFieldsMatch clusterID m physicalName physicalNamespace opt then return (Inr ())
     else if existing \<noteq> '''' \<and> existing \<noteq> physicalName
     then return (Inl (Errorf (''physical name annotation already exists but doesn't match, physicalName: '' @
       existing @ '', newPhysicalName: '' @ physicalName)))
     else on_ok (Update A VirtualClient (set_obj_meta (markSynced clusterID physicalName physicalNamespace opt m) ob))
       (\<lambda>_. return (Inr ())))"

section \<open>Deleting the copy\<close>

definition DeletePhysicalResource ::
  "'s api \<Rightarrow> resource_type \<Rightarrow> string \<Rightarrow> string \<Rightarrow> obj option \<Rightarrow> ('s, 'm, unit res) prog" where
  "DeletePhysicalResource A resourceType physicalName physicalNamespace physicalResource =
    (case physicalResource of
       None \<Rightarrow> return (Inr ())
     | Some ob \<Rightarrow>
        (case resource_kind resourceType of
           None \<Rightarrow> return (Inl (Errorf (''unsupported resource type: '' @ resource_name resourceType)))
         | Some k \<Rightarrow> do {
             r \<leftarrow> Delete A PhysicalClient k (if k = KPV then '''' else physicalNamespace) physicalName
               (uid_precondition (mUID (obj_meta ob)));
             case r of
               Inl err \<Rightarrow> (if IsNotFound err then return (Inr ()) else return (Inl err))
             | Inr _ \<Rightarrow> return (Inr ())
           }))"

section \<open>Marks come and go\<close>

lemma cluster_keys [simp]:
  "LabelManagedBy \<noteq> GetManagedByClusterIDLabel c" "GetManagedByClusterIDLabel c \<noteq> LabelManagedBy"
  "LabelUsedByPV \<noteq> GetManagedByClusterIDLabel c" "GetManagedByClusterIDLabel c \<noteq> LabelUsedByPV"
  "LabelManagedBy \<noteq> LabelUsedByPV" "LabelUsedByPV \<noteq> LabelManagedBy"
  "AnnotationPhysicalName \<noteq> AnnotationPhysicalNamespace" "AnnotationPhysicalNamespace \<noteq> AnnotationPhysicalName"
  "GetClusterBindingDeletingAnnotation c \<noteq> AnnotationPhysicalName"
  "GetClusterBindingDeletingAnnotation c \<noteq> AnnotationPhysicalNamespace"
  by (simp_all add: GetManagedByClusterIDLabel_def GetClusterBindingDeletingAnnotation_def kube_consts)

lemma cluster_keys_inject [simp]:
  "GetManagedByClusterIDLabel c = GetManagedByClusterIDLabel c' \<longleftrightarrow> c = c'"
  "GetClusterSpecificFinalizer c = GetClusterSpecificFinalizer c' \<longleftrightarrow> c = c'"
  "FinalizerClusterIDPrefix @ c = GetClusterSpecificFinalizer c' \<longleftrightarrow> c = c'"
  "HasPrefix (GetClusterSpecificFinalizer c) FinalizerClusterIDPrefix"
  by (auto simp: GetManagedByClusterIDLabel_def GetClusterSpecificFinalizer_def)

definition other_clusters :: "string \<Rightarrow> objmeta \<Rightarrow> string list" where
  "other_clusters clusterID m =
     filter (\<lambda>f. HasPrefix f FinalizerClusterIDPrefix \<and> f \<noteq> GetClusterSpecificFinalizer clusterID) (mFinalizers m)"

lemma removed_finalizers:
  "mFinalizers (if ContainsFinalizer m f then RemoveFinalizer m f else m) = filter (\<lambda>g. g \<noteq> f) (mFinalizers m)"
  by (auto simp: ContainsFinalizer_def RemoveFinalizer_def intro!: filter_True [symmetric])

lemma unmarkSynced_eq:
  "unmarkSynced c m = m\<lparr>mFinalizers := filter (\<lambda>f. f \<noteq> GetClusterSpecificFinalizer c) (mFinalizers m),
     mLabels := mfilter (\<lambda>k. k \<noteq> GetManagedByClusterIDLabel c \<and> k \<noteq> LabelUsedByPV \<and>
       \<not> (k = LabelManagedBy \<and> ContainsFinalizer m (GetClusterSpecificFinalizer c) \<and> other_clusters c m = [])) (mLabels m),
     mAnnotations := mfilter (\<lambda>k. k \<noteq> AnnotationPhysicalName \<and> k \<noteq> AnnotationPhysicalNamespace \<and>
       k \<noteq> GetClusterBindingDeletingAnnotation c) (mAnnotations m)\<rparr>"
proof -
  let ?f = "GetClusterSpecificFinalizer c"
  let ?m = "if ContainsFinalizer m ?f then RemoveFinalizer m ?f else m"
  have m: "?m = m\<lparr>mFinalizers := filter (\<lambda>g. g \<noteq> ?f) (mFinalizers m)\<rparr>"
    using removed_finalizers [of m ?f] by (auto simp: RemoveFinalizer_def split: if_splits)
  have f: "FinalizerClusterIDPrefix @ c = ?f" by (simp add: GetClusterSpecificFinalizer_def)
  have o: "filter (\<lambda>g. g \<noteq> ?f \<and> HasPrefix g FinalizerClusterIDPrefix \<and> g \<noteq> ?f) (mFinalizers m) =
      other_clusters c m" unfolding other_clusters_def by (rule filter_cong) auto
  show ?thesis
    unfolding unmarkSynced_def removeLabels_def removeAnnotations_def Let_def f m
    by (simp add: mfilter_def o)
qed

lemma unmarkSynced_fields:
  "mFinalizers (unmarkSynced c m) = filter (\<lambda>f. f \<noteq> GetClusterSpecificFinalizer c) (mFinalizers m)"
  "mLabels (unmarkSynced c m) = mfilter (\<lambda>k. k \<noteq> GetManagedByClusterIDLabel c \<and> k \<noteq> LabelUsedByPV \<and>
     \<not> (k = LabelManagedBy \<and> ContainsFinalizer m (GetClusterSpecificFinalizer c) \<and> other_clusters c m = [])) (mLabels m)"
  "mAnnotations (unmarkSynced c m) = mfilter (\<lambda>k. k \<noteq> AnnotationPhysicalName \<and> k \<noteq> AnnotationPhysicalNamespace \<and>
     k \<noteq> GetClusterBindingDeletingAnnotation c) (mAnnotations m)"
  by (simp_all add: unmarkSynced_eq)

lemma unmarkSynced_other:
  "unmarkSynced c m = m\<lparr>mFinalizers := mFinalizers (unmarkSynced c m), mLabels := mLabels (unmarkSynced c m),
     mAnnotations := mAnnotations (unmarkSynced c m)\<rparr>"
  by (simp add: unmarkSynced_def removeLabels_def removeAnnotations_def Let_def RemoveFinalizer_def)

lemma markSynced_fields:
  "mFinalizers (markSynced c n ns opt m) = mFinalizers (AddFinalizer m (GetClusterSpecificFinalizer c))"
  "mLabels (markSynced c n ns opt m) = (let labels = (mLabels m)(LabelManagedBy \<mapsto> LabelManagedByValue,
       GetManagedByClusterIDLabel c \<mapsto> LabelValueTrue)
     in if isPVRefSecretOpt opt then labels(LabelUsedByPV \<mapsto> LabelValueTrue) else labels)"
  "mAnnotations (markSynced c n ns opt m) =
     (mAnnotations m)(AnnotationPhysicalName \<mapsto> n, AnnotationPhysicalNamespace \<mapsto> ns)"
  by (simp_all add: markSynced_def AddFinalizer_def Let_def LabelValueTrue_def)

text \<open>An object that carries no mark of the synchronization.\<close>

definition unmarked :: "string \<Rightarrow> objmeta \<Rightarrow> bool" where
  "unmarked clusterID m \<longleftrightarrow>
     list_all (\<lambda>f. \<not> HasPrefix f FinalizerClusterIDPrefix) (mFinalizers m) \<and>
     list_all (\<lambda>k. mLabels m k = None) [LabelManagedBy, LabelUsedByPV, GetManagedByClusterIDLabel clusterID] \<and>
     list_all (\<lambda>k. mAnnotations m k = None)
       [AnnotationPhysicalName, AnnotationPhysicalNamespace, GetClusterBindingDeletingAnnotation clusterID]"

lemma unmarked_filters:
  assumes "unmarked c m"
  shows "GetClusterSpecificFinalizer c \<notin> set (mFinalizers m)"
    and "other_clusters c (markSynced c n ns opt m) = []"
  using assms by (auto simp: unmarked_def list_all_iff other_clusters_def markSynced_fields AddFinalizer_def filter_empty_conv)

text \<open>
  Marking an object as synchronized and taking the marks off again gives back the object,
  and marking it twice changes nothing.
\<close>

theorem marks_round_trip:
  assumes "unmarked c m"
  shows "unmarkSynced c (markSynced c n ns opt m) = m \<and> allFieldsMatch c (markSynced c n ns opt m) n ns opt"
proof -
  let ?m' = "markSynced c n ns opt m"
  note f = unmarked_filters [OF assms]
  have "mFinalizers (unmarkSynced c ?m') = mFinalizers m"
    using f(1) by (auto simp: unmarkSynced_fields markSynced_fields AddFinalizer_def intro!: filter_True)
  moreover have "mLabels (unmarkSynced c ?m') = mLabels m"
    unfolding unmarkSynced_fields f(2) using assms
    by (auto simp: unmarked_def markSynced_fields Let_def ContainsFinalizer_def AddFinalizer_def)
  moreover have "mAnnotations (unmarkSynced c ?m') = mAnnotations m"
    unfolding unmarkSynced_fields using assms by (auto simp: unmarked_def markSynced_fields)
  moreover have "?m'\<lparr>mFinalizers := F, mLabels := L, mAnnotations := N\<rparr> = m\<lparr>mFinalizers := F, mLabels := L, mAnnotations := N\<rparr>" for F L N
    by (simp add: markSynced_def AddFinalizer_def Let_def)
  ultimately have "unmarkSynced c ?m' = m" by (subst unmarkSynced_other) simp
  moreover have "allFieldsMatch c ?m' n ns opt"
    by (auto simp: allFieldsMatch_def markSynced_fields Let_def ContainsFinalizer_def AddFinalizer_def dest: fun_cong)
  ultimately show ?thesis by simp
qed

theorem marks_round_trip_witness:
  "unmarked ''c1'' empty_meta \<and> unmarkSynced ''c1'' (markSynced ''c1'' ''cm-x'' ''mnt'' None empty_meta) = empty_meta"
proof -
  have u: "unmarked ''c1'' empty_meta" by (simp add: unmarked_def empty_meta_def)
  from marks_round_trip [OF u, of "''cm-x''" "''mnt''" None] u show ?thesis by simp
qed

text \<open>
  Taking off the marks of one cluster leaves those of the others: their finalizers and
  labels stay, and so does the common managed-by label while another cluster still holds the
  object; the finalizer and label of the cluster itself are gone, and nothing but finalizers,
  labels and annotations changes.
\<close>

theorem unmark_isolated:
  assumes "c' \<noteq> c" and "ContainsFinalizer m (GetClusterSpecificFinalizer c')"
  shows "ContainsFinalizer (unmarkSynced c m) (GetClusterSpecificFinalizer c') \<and>
    mLabels (unmarkSynced c m) (GetManagedByClusterIDLabel c') = mLabels m (GetManagedByClusterIDLabel c') \<and>
    mLabels (unmarkSynced c m) LabelManagedBy = mLabels m LabelManagedBy \<and>
    \<not> ContainsFinalizer (unmarkSynced c m) (GetClusterSpecificFinalizer c) \<and>
    mLabels (unmarkSynced c m) (GetManagedByClusterIDLabel c) = None \<and>
    (\<exists>fs ls as. unmarkSynced c m = m\<lparr>mFinalizers := fs, mLabels := ls, mAnnotations := as\<rparr>)"
proof -
  have "GetClusterSpecificFinalizer c' \<in> set (other_clusters c m)"
    using assms by (simp add: other_clusters_def ContainsFinalizer_def)
  then have "other_clusters c m \<noteq> []" by auto
  with assms show ?thesis
    using unmarkSynced_other [of c m] by (auto simp: unmarkSynced_fields ContainsFinalizer_def)
qed

definition two_clusters :: objmeta where
  "two_clusters = markSynced ''c2'' ''cm-x'' ''mnt'' None (markSynced ''c1'' ''cm-x'' ''mnt'' None empty_meta)"

lemma two_clusters_marks:
  "ContainsFinalizer two_clusters (GetClusterSpecificFinalizer ''c1'')"
  "ContainsFinalizer two_clusters (GetClusterSpecificFinalizer ''c2'')"
  by (simp_all add: two_clusters_def ContainsFinalizer_def markSynced_fields AddFinalizer_def)

theorem unmark_isolated_witness:
  "ContainsFinalizer (unmarkSynced ''c1'' two_clusters) (GetClusterSpecificFinalizer ''c2'') \<and>
   \<not> ContainsFinalizer (unmarkSynced ''c1'' two_clusters) (GetClusterSpecificFinalizer ''c1'')"
  using unmark_isolated [of "''c2''" "''c1''" two_clusters] two_clusters_marks by simp

end
