(* ===== verification/Synced_Resources.thy ===== *)
theory Synced_Resources
  imports Resource_Sync
begin

text \<open>
  The controllers of the objects that pods depend on: \<^verbatim>\<open>virtual_configmap_controller.go\<close>,
  \<^verbatim>\<open>virtual_secret_controller.go\<close>, \<^verbatim>\<open>virtual_pv_controller.go\<close> and
  \<^verbatim>\<open>virtual_pvc_controller.go\<close> under \<^verbatim>\<open>pkg/syncer/topdown\<close>. The first two keep a table of
  the objects that running pods need, which is their memory. \<^verbatim>\<open>reflect.DeepEqual\<close> on data maps
  is a parameter, since an absent and an empty map are not distinguished here.
\<close>

section \<open>The table of needed objects\<close>

text \<open>Both maps have \<^verbatim>\<open>namespace/name\<close> keys; a Go set of names is a list of its elements.\<close>

record sync_table =
  needsSynced :: "string \<rightharpoonup> string list"
  podRefs :: "string \<rightharpoonup> string list"

definition no_needs :: sync_table where
  "no_needs = \<lparr>needsSynced = Map.empty, podRefs = Map.empty\<rparr>"

definition key_of :: "string \<Rightarrow> string \<Rightarrow> string" where
  "key_of namespace name = namespace @ ''/'' @ name"

definition isNeeded :: "sync_table \<Rightarrow> string \<Rightarrow> string \<Rightarrow> bool" where
  "isNeeded t namespace name \<longleftrightarrow> needsSynced t (key_of namespace name) \<noteq> None"

definition addPod :: "string \<Rightarrow> (string \<rightharpoonup> string list) \<Rightarrow> string \<Rightarrow> (string \<rightharpoonup> string list)" where
  "addPod podKey m key = m(key \<mapsto> List.insert podKey (case m key of None \<Rightarrow> [] | Some ps \<Rightarrow> ps))"

definition addNeeded :: "string \<Rightarrow> string list \<Rightarrow> string \<Rightarrow> string \<Rightarrow> sync_table \<Rightarrow> sync_table" where
  "addNeeded namespace names podNamespace podName t =
    (if length names = 0 then t
     else let podKey = key_of podNamespace podName in
       t\<lparr>needsSynced := foldl (\<lambda>m name. addPod podKey m (key_of namespace name)) (needsSynced t) names,
         podRefs := (podRefs t)(podKey \<mapsto> names)\<rparr>)"

definition removePod :: "string \<Rightarrow> (string \<rightharpoonup> string list) \<Rightarrow> string \<Rightarrow> (string \<rightharpoonup> string list)" where
  "removePod podKey m key = (case m key of None \<Rightarrow> m | Some ps \<Rightarrow> m(key \<mapsto> remove1 podKey ps))"

definition deleteNeeded :: "string \<Rightarrow> string \<Rightarrow> sync_table \<Rightarrow> sync_table" where
  "deleteNeeded podNamespace podName t =
    (let podKey = key_of podNamespace podName;
         names = (case podRefs t podKey of None \<Rightarrow> [] | Some ns \<Rightarrow> ns)
     in t\<lparr>needsSynced := foldl (\<lambda>m name. removePod podKey m (key_of podNamespace name)) (needsSynced t) names,
          podRefs := (podRefs t)(podKey := None)\<rparr>)"

definition unsetNeeded :: "string \<Rightarrow> string \<Rightarrow> sync_table \<Rightarrow> sync_table" where
  "unsetNeeded namespace name t = t\<lparr>needsSynced := (needsSynced t)(key_of namespace name := None)\<rparr>"

text \<open>The operations of the Secret controller are those of the ConfigMap controller on its own table.\<close>

definition IsSecretNeedsSynced :: "sync_table \<Rightarrow> string \<Rightarrow> string \<Rightarrow> bool" where
  "IsSecretNeedsSynced = isNeeded"

definition AddSecretsNeedsSynced :: "string \<Rightarrow> string list \<Rightarrow> string \<Rightarrow> string \<Rightarrow> sync_table \<Rightarrow> sync_table" where
  "AddSecretsNeedsSynced = addNeeded"

definition DeleteSecretsNeedsSynced :: "string \<Rightarrow> string \<Rightarrow> sync_table \<Rightarrow> sync_table" where
  "DeleteSecretsNeedsSynced = deleteNeeded"

definition UnsetSecretNeedsSynced :: "string \<Rightarrow> string \<Rightarrow> sync_table \<Rightarrow> sync_table" where
  "UnsetSecretNeedsSynced = unsetNeeded"

record 's table_world = "'s world" +
  twTable :: sync_table

type_synonym ('s, 'm, 'a) table_prog = "(('s, 'm) table_world_scheme, 'a) state"

definition unsetInTable :: "string \<Rightarrow> string \<Rightarrow> ('s, 'm, unit) table_prog" where
  "unsetInTable namespace name = modifies (twTable_update (unsetNeeded namespace name))"

section \<open>Reading the objects\<close>

record sync_reconciler =
  srClusterID :: string
  srBinding :: cluster_binding

fun the_configmap :: "obj \<Rightarrow> config_map option" where
  "the_configmap (OConfigMap c) = Some c" | "the_configmap _ = None"

fun the_pvc :: "obj \<Rightarrow> pvc option" where
  "the_pvc (OPVC c) = Some c" | "the_pvc _ = None"

fun the_pv :: "obj \<Rightarrow> pv option" where
  "the_pv (OPV v) = Some v" | "the_pv _ = None"

lemma the_copy_Some:
  "the_configmap ob = Some c \<longleftrightarrow> ob = OConfigMap c"
  "the_pvc ob = Some d \<longleftrightarrow> ob = OPVC d"
  "the_pv ob = Some v \<longleftrightarrow> ob = OPV v"
  by (cases ob; auto)+

text \<open>The type assertion after the existence check.\<close>

definition checkTyped ::
  "(obj \<Rightarrow> 'a option) \<Rightarrow> 's api \<Rightarrow> resource_type \<Rightarrow> kind \<Rightarrow> string \<Rightarrow> string \<Rightarrow> string \<Rightarrow> ('s, 'm, 'a option res) prog" where
  "checkTyped sel A rt k msg physicalNamespace physicalName =
    on_ok (CheckPhysicalResourceExists A rt physicalName physicalNamespace k) (\<lambda>r.
      return (case r of
          None \<Rightarrow> Inr None
        | Some ob \<Rightarrow> (case sel ob of None \<Rightarrow> Inl (Errorf msg) | Some x \<Rightarrow> Inr (Some x))))"

definition checkPhysicalConfigMapExists ::
  "sync_reconciler \<Rightarrow> 's api \<Rightarrow> string \<Rightarrow> ('s, 'm, config_map option res) prog" where
  "checkPhysicalConfigMapExists r A physicalName =
     checkTyped the_configmap A RTConfigMap KConfigMap ''expected ConfigMap'' (bMountNamespace (srBinding r)) physicalName"

definition checkPhysicalSecretExists ::
  "'s api \<Rightarrow> string \<Rightarrow> string \<Rightarrow> ('s, 'm, secret option res) prog" where
  "checkPhysicalSecretExists A physicalNamespace physicalName =
     checkTyped the_secret A RTSecret KSecret ''expected Secret'' physicalNamespace physicalName"

definition checkPhysicalPVExists :: "'s api \<Rightarrow> string \<Rightarrow> ('s, 'm, pv option res) prog" where
  "checkPhysicalPVExists A physicalName =
     checkTyped the_pv A RTPV KPV ''expected PersistentVolume'' '''' physicalName"

definition checkPhysicalPVCExists ::
  "sync_reconciler \<Rightarrow> 's api \<Rightarrow> string \<Rightarrow> ('s, 'm, pvc option res) prog" where
  "checkPhysicalPVCExists r A physicalName =
     checkTyped the_pvc A RTPVC KPVC ''expected PersistentVolumeClaim'' (bMountNamespace (srBinding r)) physicalName"

section \<open>Shared tests\<close>

definition managedHere :: "sync_reconciler \<Rightarrow> objmeta \<Rightarrow> bool" where
  "managedHere r m \<longleftrightarrow> mget (mLabels m) LabelManagedBy = LabelManagedByValue \<and>
     mget (mLabels m) (GetManagedByClusterIDLabel (srClusterID r)) = LabelValueTrue"

definition bindingDeleting :: "sync_reconciler \<Rightarrow> objmeta \<Rightarrow> bool" where
  "bindingDeleting r m \<longleftrightarrow> mAnnotations m \<noteq> Map.empty \<and>
     mget (mAnnotations m) (GetClusterBindingDeletingAnnotation (srClusterID r)) = mName (bMeta (srBinding r))"

text \<open>The four \<^verbatim>\<open>validatePhysical\<close> functions: \<^term>\<open>None\<close> is no error.\<close>

definition validateCopy :: "string \<Rightarrow> objmeta \<Rightarrow> objmeta \<Rightarrow> err option" where
  "validateCopy what vm pm =
    (if mget (mLabels pm) LabelManagedBy \<noteq> LabelManagedByValue
     then Some (Errorf (''physical '' @ what @ '' is not managed by Kubeocean''))
     else if mAnnotations pm = Map.empty \<or> mget (mAnnotations pm) AnnotationVirtualName \<noteq> mName vm
     then Some (Errorf (''physical '' @ what @ '' virtual name annotation does not point to current virtual '' @ what))
     else None)"

definition validatePhysicalConfigMap :: "config_map \<Rightarrow> config_map \<Rightarrow> err option" where
  "validatePhysicalConfigMap v p = validateCopy ''ConfigMap'' (cmMeta v) (cmMeta p)"

definition validatePhysicalSecret :: "secret \<Rightarrow> secret \<Rightarrow> err option" where
  "validatePhysicalSecret v p = validateCopy ''Secret'' (seMeta v) (seMeta p)"

definition validatePhysicalPV :: "pv \<Rightarrow> pv \<Rightarrow> err option" where
  "validatePhysicalPV v p = validateCopy ''PV'' (pvMeta v) (pvMeta p)"

definition validatePhysicalPVC :: "pvc \<Rightarrow> pvc \<Rightarrow> err option" where
  "validatePhysicalPVC v p = validateCopy ''PVC'' (pvcMeta v) (pvcMeta p)"

definition done_with :: "('w, unit res) state \<Rightarrow> ('w, ctrl_result res) state" where
  "done_with m = on_ok m (\<lambda>_. return (Inr (Result 0)))"

text \<open>A marked object: both labels, the name of the copy and the finalizer of the cluster.\<close>

definition fullyMarked :: "sync_reconciler \<Rightarrow> objmeta \<Rightarrow> bool" where
  "fullyMarked r m \<longleftrightarrow> managedHere r m \<and> mAnnotations m \<noteq> Map.empty \<and>
     mget (mAnnotations m) AnnotationPhysicalName \<noteq> '''' \<and>
     length (mFinalizers m) \<noteq> 0 \<and> ContainsFinalizer m (GetClusterSpecificFinalizer (srClusterID r))"

definition askNeeded :: "objmeta \<Rightarrow> ('s, 'm, bool) table_prog" where
  "askNeeded m = reads (\<lambda>w. isNeeded (twTable w) (mNamespace m) (mName m))"

section \<open>ConfigMaps\<close>

definition shouldSkipSyncConfigMap :: "sync_reconciler \<Rightarrow> config_map \<Rightarrow> ('s, 'm, bool) table_prog" where
  "shouldSkipSyncConfigMap r virtualConfigMap =
    (if managedHere r (cmMeta virtualConfigMap) then return False
     else do { needed \<leftarrow> askNeeded (cmMeta virtualConfigMap); return (\<not> needed) })"

text \<open>The result says whether the object was updated.\<close>

definition updateVirtualConfigMapLabelsAndAnnotations ::
  "sync_reconciler \<Rightarrow> 's api \<Rightarrow> config_map \<Rightarrow> ('s, 'm, bool res) table_prog" where
  "updateVirtualConfigMapLabelsAndAnnotations r A virtualConfigMap = do {
     let m = cmMeta virtualConfigMap;
     needed \<leftarrow> askNeeded m;
     if \<not> needed then return (Inr False)
     else if \<not> fullyMarked r m
     then on_ok (UpdateVirtualResourceLabelsAndAnnotations A (srClusterID r) (OConfigMap virtualConfigMap)
            (GeneratePhysicalResourceName (mName m) (mNamespace m)) (bMountNamespace (srBinding r)) None)
          (\<lambda>_. return (Inr True))
     else return (Inr False)
   }"

definition shouldConfigmapNeedsSynced :: "sync_reconciler \<Rightarrow> sync_table \<Rightarrow> config_map \<Rightarrow> bool" where
  "shouldConfigmapNeedsSynced r t c \<longleftrightarrow>
     managedHere r (cmMeta c) \<or> isNeeded t (mNamespace (cmMeta c)) (mName (cmMeta c))"

definition handleVirtualConfigMapDeletion ::
  "sync_reconciler \<Rightarrow> 's api \<Rightarrow> config_map \<Rightarrow> string \<Rightarrow> config_map option \<Rightarrow> ('s, 'm, ctrl_result res) table_prog" where
  "handleVirtualConfigMapDeletion r A virtualConfigMap physicalName physicalConfigMap = do {
     unsetInTable (mNamespace (cmMeta virtualConfigMap)) (mName (cmMeta virtualConfigMap));
     let release = done_with (RemoveSyncedResourceFinalizerAndLabels A (OConfigMap virtualConfigMap) (srClusterID r));
     if physicalConfigMap = None then release
     else on_ok (DeletePhysicalResource A RTConfigMap physicalName (bMountNamespace (srBinding r))
            (map_option OConfigMap physicalConfigMap)) (\<lambda>_. release)
   }"

definition createPhysicalConfigMap ::
  "sync_reconciler \<Rightarrow> 's api \<Rightarrow> config_map \<Rightarrow> string \<Rightarrow> ('s, 'm, ctrl_result res) prog" where
  "createPhysicalConfigMap r A virtualConfigMap physicalName =
     done_with (CreatePhysicalResource A RTConfigMap (OConfigMap virtualConfigMap) physicalName
       (bMountNamespace (srBinding r)))"

definition updatedConfigMap :: "config_map \<Rightarrow> config_map \<Rightarrow> config_map" where
  "updatedConfigMap virtualConfigMap physicalConfigMap =
     physicalConfigMap\<lparr>cmData := cmData virtualConfigMap, cmBinaryData := cmBinaryData virtualConfigMap,
       cmMeta := (cmMeta physicalConfigMap)\<lparr>mLabels := BuildPhysicalResourceLabels (cmMeta virtualConfigMap),
         mAnnotations := BuildPhysicalResourceAnnotations (cmMeta virtualConfigMap)\<rparr>\<rparr>"

definition updatePhysicalConfigMapIfNeeded ::
  "(smap \<Rightarrow> smap \<Rightarrow> bool) \<Rightarrow> 's api \<Rightarrow> config_map \<Rightarrow> config_map \<Rightarrow> ('s, 'm, ctrl_result res) prog" where
  "updatePhysicalConfigMapIfNeeded E A virtualConfigMap physicalConfigMap =
    (if E (cmData virtualConfigMap) (cmData physicalConfigMap) \<and>
        E (cmBinaryData virtualConfigMap) (cmBinaryData physicalConfigMap) then return (Inr (Result 0))
     else on_ok (Update A PhysicalClient (OConfigMap (updatedConfigMap virtualConfigMap physicalConfigMap)))
       (\<lambda>_. return (Inr (Result 0))))"

definition syncConfigMapCopy ::
  "(smap \<Rightarrow> smap \<Rightarrow> bool) \<Rightarrow> sync_reconciler \<Rightarrow> 's api \<Rightarrow> config_map \<Rightarrow> string \<Rightarrow> config_map option \<Rightarrow>
   ('s, 'm, ctrl_result res) table_prog" where
  "syncConfigMapCopy E r A virtualConfigMap physicalName physicalConfigMap =
    (if mDeletionTimestamp (cmMeta virtualConfigMap) \<noteq> None
     then handleVirtualConfigMapDeletion r A virtualConfigMap physicalName physicalConfigMap
     else if bindingDeleting r (cmMeta virtualConfigMap)
     then handleVirtualConfigMapDeletion r A virtualConfigMap physicalName physicalConfigMap
     else (case physicalConfigMap of
         None \<Rightarrow> createPhysicalConfigMap r A virtualConfigMap physicalName
       | Some p \<Rightarrow> updatePhysicalConfigMapIfNeeded E A virtualConfigMap p))"

definition ReconcileConfigMap ::
  "(smap \<Rightarrow> smap \<Rightarrow> bool) \<Rightarrow> sync_reconciler \<Rightarrow> 's api \<Rightarrow> string \<Rightarrow> string \<Rightarrow> ('s, 'm, ctrl_result res) table_prog" where
  "ReconcileConfigMap E r A namespace name = do {
     got \<leftarrow> Get A VirtualClient KConfigMap namespace name;
     case decode the_configmap got of
       Inl err \<Rightarrow> (if IsNotFound err then do { unsetInTable namespace name; return (Inr (Result 0)) }
                   else return (Inl err))
     | Inr virtualConfigMap \<Rightarrow> do {
         skip \<leftarrow> shouldSkipSyncConfigMap r virtualConfigMap;
         if skip then return (Inr (Result 0))
         else on_ok (updateVirtualConfigMapLabelsAndAnnotations r A virtualConfigMap) (\<lambda>updated.
           if updated then return (Inr (Result 0))
           else (let physicalName = mget (mAnnotations (cmMeta virtualConfigMap)) AnnotationPhysicalName in
             if physicalName = '''' then return (Inr (Result 0))
             else on_ok (checkPhysicalConfigMapExists r A physicalName) (\<lambda>physicalConfigMap.
               case Option.bind physicalConfigMap (validatePhysicalConfigMap virtualConfigMap) of
                 Some err \<Rightarrow> return (Inl err)
               | None \<Rightarrow> syncConfigMapCopy E r A virtualConfigMap physicalName physicalConfigMap)))
       }
   }"

section \<open>Secrets\<close>

definition usedByPV :: "secret \<Rightarrow> bool" where
  "usedByPV s \<longleftrightarrow> mget (mLabels (seMeta s)) LabelUsedByPV = LabelValueTrue"

definition shouldSkipSyncSecret :: "sync_reconciler \<Rightarrow> secret \<Rightarrow> ('s, 'm, bool) table_prog" where
  "shouldSkipSyncSecret r virtualSecret =
    (if managedHere r (seMeta virtualSecret) then return False
     else do { needed \<leftarrow> askNeeded (seMeta virtualSecret); return (\<not> needed) })"

definition updateVirtualSecretLabelsAndAnnotations ::
  "sync_reconciler \<Rightarrow> 's api \<Rightarrow> secret \<Rightarrow> ('s, 'm, bool res) table_prog" where
  "updateVirtualSecretLabelsAndAnnotations r A virtualSecret =
    (if usedByPV virtualSecret then return (Inr False)
     else do {
       let m = seMeta virtualSecret;
       needed \<leftarrow> askNeeded m;
       if \<not> needed then return (Inr False)
       else if \<not> fullyMarked r m
       then on_ok (UpdateVirtualResourceLabelsAndAnnotations A (srClusterID r) (OSecret virtualSecret)
              (GeneratePhysicalResourceName (mName m) (mNamespace m)) (bMountNamespace (srBinding r)) None)
            (\<lambda>_. return (Inr True))
       else return (Inr False)
     })"

definition shouldSecretNeedsSynced :: "sync_reconciler \<Rightarrow> sync_table \<Rightarrow> secret \<Rightarrow> bool" where
  "shouldSecretNeedsSynced r t s \<longleftrightarrow>
     managedHere r (seMeta s) \<or> isNeeded t (mNamespace (seMeta s)) (mName (seMeta s))"

definition handleVirtualSecretDeletion ::
  "sync_reconciler \<Rightarrow> 's api \<Rightarrow> secret \<Rightarrow> string \<Rightarrow> string \<Rightarrow> secret option \<Rightarrow> ('s, 'm, ctrl_result res) table_prog" where
  "handleVirtualSecretDeletion r A virtualSecret physicalNamespace physicalName physicalSecret = do {
     unsetInTable (mNamespace (seMeta virtualSecret)) (mName (seMeta virtualSecret));
     let release = done_with (RemoveSyncedResourceFinalizerAndLabels A (OSecret virtualSecret) (srClusterID r));
     if physicalSecret = None then release
     else on_ok (DeletePhysicalResource A RTSecret physicalName physicalNamespace
            (map_option OSecret physicalSecret)) (\<lambda>_. release)
   }"

definition createPhysicalSecret ::
  "sync_reconciler \<Rightarrow> 's api \<Rightarrow> secret \<Rightarrow> string \<Rightarrow> ('s, 'm, ctrl_result res) prog" where
  "createPhysicalSecret r A virtualSecret physicalName =
     done_with (CreatePhysicalResource A RTSecret (OSecret virtualSecret) physicalName (bMountNamespace (srBinding r)))"

definition updatedSecret :: "secret \<Rightarrow> secret \<Rightarrow> secret" where
  "updatedSecret virtualSecret physicalSecret =
     physicalSecret\<lparr>seData := seData virtualSecret, seStringData := seStringData virtualSecret,
       seType := seType virtualSecret,
       seMeta := (seMeta physicalSecret)\<lparr>mLabels := BuildPhysicalResourceLabels (seMeta virtualSecret),
         mAnnotations := BuildPhysicalResourceAnnotations (seMeta virtualSecret)\<rparr>\<rparr>"

definition updatePhysicalSecretIfNeeded ::
  "(smap \<Rightarrow> smap \<Rightarrow> bool) \<Rightarrow> 's api \<Rightarrow> secret \<Rightarrow> secret \<Rightarrow> ('s, 'm, ctrl_result res) prog" where
  "updatePhysicalSecretIfNeeded E A virtualSecret physicalSecret =
    (if E (seData virtualSecret) (seData physicalSecret) \<and>
        E (seStringData virtualSecret) (seStringData physicalSecret) \<and>
        seType virtualSecret = seType physicalSecret then return (Inr (Result 0))
     else on_ok (Update A PhysicalClient (OSecret (updatedSecret virtualSecret physicalSecret)))
       (\<lambda>_. return (Inr (Result 0))))"

definition syncSecretCopy ::
  "(smap \<Rightarrow> smap \<Rightarrow> bool) \<Rightarrow> sync_reconciler \<Rightarrow> 's api \<Rightarrow> secret \<Rightarrow> string \<Rightarrow> string \<Rightarrow> secret option \<Rightarrow>
   ('s, 'm, ctrl_result res) table_prog" where
  "syncSecretCopy E r A virtualSecret physicalNamespace physicalName physicalSecret =
    (if mDeletionTimestamp (seMeta virtualSecret) \<noteq> None
     then handleVirtualSecretDeletion r A virtualSecret physicalNamespace physicalName physicalSecret
     else if bindingDeleting r (seMeta virtualSecret)
     then handleVirtualSecretDeletion r A virtualSecret physicalNamespace physicalName physicalSecret
     else (case physicalSecret of
         None \<Rightarrow> (if usedByPV virtualSecret then return (Inr (Result 0))
                 else createPhysicalSecret r A virtualSecret physicalName)
       | Some p \<Rightarrow> updatePhysicalSecretIfNeeded E A virtualSecret p))"

definition ReconcileSecret ::
  "(smap \<Rightarrow> smap \<Rightarrow> bool) \<Rightarrow> sync_reconciler \<Rightarrow> 's api \<Rightarrow> string \<Rightarrow> string \<Rightarrow> ('s, 'm, ctrl_result res) table_prog" where
  "ReconcileSecret E r A namespace name = do {
     got \<leftarrow> get_secret A VirtualClient namespace name;
     case got of
       Inl err \<Rightarrow> (if IsNotFound err then do { unsetInTable namespace name; return (Inr (Result 0)) }
                   else return (Inl err))
     | Inr virtualSecret \<Rightarrow> do {
         skip \<leftarrow> shouldSkipSyncSecret r virtualSecret;
         if skip then return (Inr (Result 0))
         else on_ok (updateVirtualSecretLabelsAndAnnotations r A virtualSecret) (\<lambda>updated.
           if updated then return (Inr (Result 0))
           else (let physicalName = mget (mAnnotations (seMeta virtualSecret)) AnnotationPhysicalName;
                     physicalNamespace = mget (mAnnotations (seMeta virtualSecret)) AnnotationPhysicalNamespace in
             if physicalName = '''' then return (Inr (Result 0))
             else if physicalNamespace = '''' then return (Inr (Result 0))
             else on_ok (checkPhysicalSecretExists A physicalNamespace physicalName) (\<lambda>physicalSecret.
               case Option.bind physicalSecret (validatePhysicalSecret virtualSecret) of
                 Some err \<Rightarrow> return (Inl err)
               | None \<Rightarrow> syncSecretCopy E r A virtualSecret physicalNamespace physicalName physicalSecret)))
       }
   }"

section \<open>PersistentVolumes\<close>

text \<open>These two controllers only delete: the pod controller creates the copies.\<close>

definition handleVirtualPVDeletion ::
  "sync_reconciler \<Rightarrow> 's api \<Rightarrow> pv \<Rightarrow> string \<Rightarrow> pv option \<Rightarrow> ('s, 'm, ctrl_result res) prog" where
  "handleVirtualPVDeletion r A virtualPV physicalName physicalPV =
    (let release = done_with (RemoveSyncedResourceFinalizerAndLabels A (OPV virtualPV) (srClusterID r)) in
     if physicalPV = None then release
     else on_ok (DeletePhysicalResource A RTPV physicalName '''' (map_option OPV physicalPV)) (\<lambda>_. release))"

definition ReconcilePV :: "sync_reconciler \<Rightarrow> 's api \<Rightarrow> string \<Rightarrow> ('s, 'm, ctrl_result res) prog" where
  "ReconcilePV r A name = do {
     got \<leftarrow> Get A VirtualClient KPV '''' name;
     case decode the_pv got of
       Inl err \<Rightarrow> (if IsNotFound err then return (Inr (Result 0)) else return (Inl err))
     | Inr virtualPV \<Rightarrow>
        (let m = pvMeta virtualPV; physicalName = mget (mAnnotations m) AnnotationPhysicalName in
         if mget (mLabels m) LabelManagedBy \<noteq> LabelManagedByValue then return (Inr (Result 0))
         else if mget (mLabels m) (GetManagedByClusterIDLabel (srClusterID r)) \<noteq> LabelValueTrue
         then return (Inr (Result 0))
         else if physicalName = '''' then return (Inr (Result 0))
         else on_ok (checkPhysicalPVExists A physicalName) (\<lambda>physicalPV.
           case Option.bind physicalPV (validatePhysicalPV virtualPV) of
             Some err \<Rightarrow> return (Inl err)
           | None \<Rightarrow>
              (if mDeletionTimestamp m \<noteq> None then handleVirtualPVDeletion r A virtualPV physicalName physicalPV
               else if bindingDeleting r m then handleVirtualPVDeletion r A virtualPV physicalName physicalPV
               else return (Inr (Result 0)))))
   }"

definition pvFilter :: "sync_reconciler \<Rightarrow> pv \<Rightarrow> bool" where
  "pvFilter r v =
    (let m = pvMeta v in
     if mget (mLabels m) LabelManagedBy \<noteq> LabelManagedByValue then False
     else if mAnnotations m = Map.empty \<or> mget (mAnnotations m) AnnotationPhysicalName = '''' then False
     else mget (mLabels m) (GetManagedByClusterIDLabel (srClusterID r)) = LabelValueTrue)"

section \<open>PersistentVolumeClaims\<close>

definition handleVirtualPVCDeletion ::
  "sync_reconciler \<Rightarrow> 's api \<Rightarrow> pvc \<Rightarrow> string \<Rightarrow> pvc option \<Rightarrow> ('s, 'm, ctrl_result res) prog" where
  "handleVirtualPVCDeletion r A virtualPVC physicalName physicalPVC =
    (let release = done_with (RemoveSyncedResourceFinalizerAndLabels A (OPVC virtualPVC) (srClusterID r)) in
     if physicalPVC = None then release
     else on_ok (DeletePhysicalResource A RTPVC physicalName (bMountNamespace (srBinding r))
            (map_option OPVC physicalPVC)) (\<lambda>_. release))"

definition ReconcilePVC :: "sync_reconciler \<Rightarrow> 's api \<Rightarrow> string \<Rightarrow> string \<Rightarrow> ('s, 'm, ctrl_result res) prog" where
  "ReconcilePVC r A namespace name = do {
     got \<leftarrow> Get A VirtualClient KPVC namespace name;
     case decode the_pvc got of
       Inl err \<Rightarrow> (if IsNotFound err then return (Inr (Result 0)) else return (Inl err))
     | Inr virtualPVC \<Rightarrow>
        (let m = pvcMeta virtualPVC; physicalName = mget (mAnnotations m) AnnotationPhysicalName in
         if mget (mLabels m) LabelManagedBy \<noteq> LabelManagedByValue then return (Inr (Result 0))
         else if mget (mLabels m) (GetManagedByClusterIDLabel (srClusterID r)) \<noteq> LabelValueTrue
         then return (Inr (Result 0))
         else if physicalName = '''' then return (Inr (Result 0))
         else on_ok (checkPhysicalPVCExists r A physicalName) (\<lambda>physicalPVC.
           case Option.bind physicalPVC (validatePhysicalPVC virtualPVC) of
             Some err \<Rightarrow> return (Inl err)
           | None \<Rightarrow>
              (if mDeletionTimestamp m \<noteq> None then handleVirtualPVCDeletion r A virtualPVC physicalName physicalPVC
               else if bindingDeleting r m then handleVirtualPVCDeletion r A virtualPVC physicalName physicalPVC
               else return (Inr (Result 0)))))
   }"

definition pvcFilter :: "sync_reconciler \<Rightarrow> pvc \<Rightarrow> bool" where
  "pvcFilter r c =
    (let m = pvcMeta c in
     if mget (mLabels m) LabelManagedBy \<noteq> LabelManagedByValue then False
     else if mAnnotations m = Map.empty \<or> mget (mAnnotations m) AnnotationPhysicalName = '''' then False
     else mget (mLabels m) (GetManagedByClusterIDLabel (srClusterID r)) = LabelValueTrue)"

section \<open>What the controllers may do, and when\<close>

text \<open>
  The calls before a write: the copy was not there, for both clients; it was read; it was deleted
  under the UID it was read with, or was found to be gone already.
\<close>

definition copy_absent :: "kind \<Rightarrow> string \<times> string \<Rightarrow> event list \<Rightarrow> bool" where
  "copy_absent k at pre \<longleftrightarrow> (\<exists>e e'. EvGet PhysicalClient k (fst at) (snd at) (Inl e) \<in> set pre \<and> IsNotFound e \<and>
     EvGet PhysicalK8sClient k (fst at) (snd at) (Inl e') \<in> set pre \<and> IsNotFound e')"

definition copy_read :: "kind \<Rightarrow> string \<times> string \<Rightarrow> obj \<Rightarrow> event list \<Rightarrow> bool" where
  "copy_read k at p pre \<longleftrightarrow> EvGet PhysicalClient k (fst at) (snd at) (Inr p) \<in> set pre \<or>
     EvGet PhysicalK8sClient k (fst at) (snd at) (Inr p) \<in> set pre"

definition copy_deleted :: "kind \<Rightarrow> string \<times> string \<Rightarrow> event list \<Rightarrow> bool" where
  "copy_deleted k at pre \<longleftrightarrow> (\<exists>p res. copy_read k at p pre \<and>
     EvDelete PhysicalClient k (fst at) (snd at) (uid_precondition (mUID (obj_meta p))) res \<in> set pre \<and>
     (case res of Inl e \<Rightarrow> IsNotFound e | Inr _ \<Rightarrow> True))"

text \<open>The virtual object is to lose its copy: it or the cluster binding is being deleted.\<close>

definition leaving :: "sync_reconciler \<Rightarrow> objmeta \<Rightarrow> bool" where
  "leaving r m \<longleftrightarrow> mDeletionTimestamp m \<noteq> None \<or> bindingDeleting r m"

text \<open>A physical object that may be touched: managed, and made for the virtual object.\<close>

definition own_copy :: "obj \<Rightarrow> obj \<Rightarrow> bool" where
  "own_copy v p \<longleftrightarrow> mLabels (obj_meta p) LabelManagedBy = Some LabelManagedByValue \<and>
     mget (mAnnotations (obj_meta p)) AnnotationVirtualName = mName (obj_meta v)"

fun same_content :: "obj \<Rightarrow> obj \<Rightarrow> bool" where
  "same_content (OConfigMap a) (OConfigMap b) \<longleftrightarrow> cmData a = cmData b \<and> cmBinaryData a = cmBinaryData b"
| "same_content (OSecret a) (OSecret b) \<longleftrightarrow> seType a = seType b \<and> seData a = seData b \<and> seStringData a = seStringData b"
| "same_content _ _ \<longleftrightarrow> False"

text \<open>
  The rule for every call of a controller of objects of type \<open>rt\<close>, kind \<open>k\<close>, reconciling
  \<open>ns/n\<close>; \<open>place\<close> is where the copy of the object is.
\<close>

fun sync_guard ::
  "sync_reconciler \<Rightarrow> resource_type \<Rightarrow> kind \<Rightarrow> (objmeta \<Rightarrow> string \<times> string) \<Rightarrow> string \<Rightarrow> string \<Rightarrow>
   event list \<Rightarrow> event \<Rightarrow> bool" where
  "sync_guard r rt k place ns n pre (EvUpdate c ob _) \<longleftrightarrow>
    (\<exists>v. EvGet VirtualClient k ns n (Inr v) \<in> set pre \<and>
      (case c of
        VirtualClient \<Rightarrow>
          ob = set_obj_meta (markSynced (srClusterID r) (GeneratePhysicalResourceName (mName (obj_meta v)) (mNamespace (obj_meta v)))
                 (bMountNamespace (srBinding r)) None (obj_meta v)) v \<or>
          ob = set_obj_meta (unmarkSynced (srClusterID r) (obj_meta v)) v \<and> leaving r (obj_meta v) \<and>
            (copy_absent k (place (obj_meta v)) pre \<or> copy_deleted k (place (obj_meta v)) pre)
      | PhysicalClient \<Rightarrow> \<not> leaving r (obj_meta v) \<and>
          (\<exists>p. copy_read k (place (obj_meta v)) p pre \<and> own_copy v p \<and> same_content ob v \<and> own_copy v ob \<and>
             mName (obj_meta ob) = mName (obj_meta p) \<and> mNamespace (obj_meta ob) = mNamespace (obj_meta p) \<and>
             mUID (obj_meta ob) = mUID (obj_meta p))
      | PhysicalK8sClient \<Rightarrow> False))"
| "sync_guard r rt k place ns n pre (EvCreate c ob _) \<longleftrightarrow>
    (\<exists>v. EvGet VirtualClient k ns n (Inr v) \<in> set pre \<and> c = PhysicalClient \<and> \<not> leaving r (obj_meta v) \<and>
       copy_absent k (place (obj_meta v)) pre \<and>
       BuildPhysicalResource rt v (snd (place (obj_meta v))) (bMountNamespace (srBinding r)) None = Inr ob)"
| "sync_guard r rt k place ns n pre (EvDelete c k' ns' n' opts _) \<longleftrightarrow>
    (\<exists>v p. EvGet VirtualClient k ns n (Inr v) \<in> set pre \<and> c = PhysicalClient \<and> leaving r (obj_meta v) \<and>
       k' = k \<and> (ns', n') = place (obj_meta v) \<and> copy_read k (place (obj_meta v)) p pre \<and> own_copy v p \<and>
       opts = uid_precondition (mUID (obj_meta p)))"
| "sync_guard r rt k place ns n pre e \<longleftrightarrow> \<not> is_write e"

lemma copy_simps [simp]:
  "copy_absent k at pre \<Longrightarrow> copy_absent k at (pre @ es)"
  "copy_read k at p pre \<Longrightarrow> copy_read k at p (pre @ es)"
  by (auto simp: copy_absent_def copy_read_def)

lemma copy_deletedI:
  "copy_read k at p pre \<Longrightarrow> (case res of Inl e \<Rightarrow> IsNotFound e | Inr _ \<Rightarrow> True) \<Longrightarrow>
     copy_deleted k at (pre @ [EvDelete PhysicalClient k (fst at) (snd at) (uid_precondition (mUID (obj_meta p))) res])"
  unfolding copy_deleted_def by (intro exI [of _ p] exI [of _ res]) auto

definition reads_free :: "(event list \<Rightarrow> event \<Rightarrow> bool) \<Rightarrow> bool" where
  "reads_free G \<longleftrightarrow> (\<forall>pre c k ns n res. G pre (EvGet c k ns n res))"

lemma reads_freeD [simp]: "reads_free G \<Longrightarrow> G pre (EvGet c k ns n res)"
  by (simp add: reads_free_def)

lemma sync_guard_reads [simp]: "reads_free (sync_guard r rt k place ns n)"
  by (simp add: reads_free_def)

lemma guarded_checkTyped:
  assumes "reads_free G" and "resource_kind rt = Some k" and "k = KPV \<Longrightarrow> ns = ''''"
    and "\<And>e es. Q (Inl e) (pre @ es)"
    and "\<And>es. copy_absent k (ns, pn) es \<Longrightarrow> Q (Inr None) (pre @ es)"
    and "\<And>p x es. copy_read k (ns, pn) p es \<Longrightarrow> sel p = Some x \<Longrightarrow> Q (Inr (Some x)) (pre @ es)"
  shows "guarded G pre (checkTyped sel A rt k msg ns pn) Q"
proof -
  have "(if k = KPV then '''' else ns) = ns" using assms(3) by simp
  then show ?thesis
    unfolding checkTyped_def CheckPhysicalResourceExists_def assms(2)
    by (intro gvcg)
      (auto simp: assms(1) copy_absent_def copy_read_def split: option.splits
        intro!: gvcg assms(4-6))
qed

lemma validateCopy_own:
  "validateCopy what (obj_meta v) (obj_meta p) = None \<Longrightarrow> own_copy v p"
  by (auto simp: validateCopy_def own_copy_def LabelManagedByValue_def split: if_splits intro: mget_nonemptyD)

definition copy_state :: "sync_reconciler \<Rightarrow> kind \<Rightarrow> (objmeta \<Rightarrow> string \<times> string) \<Rightarrow> string \<Rightarrow> string \<Rightarrow> obj \<Rightarrow> obj option \<Rightarrow> event list \<Rightarrow> bool" where
  "copy_state r k place ns n v po pre \<longleftrightarrow> EvGet VirtualClient k ns n (Inr v) \<in> set pre \<and>
     (case po of None \<Rightarrow> copy_absent k (place (obj_meta v)) pre
      | Some p \<Rightarrow> copy_read k (place (obj_meta v)) p pre \<and> own_copy v p)"

lemma guarded_release:
  assumes "EvGet VirtualClient k ns n (Inr v) \<in> set pre" and "leaving r (obj_meta v)"
    and "copy_absent k (place (obj_meta v)) pre \<or> copy_deleted k (place (obj_meta v)) pre"
  shows "guarded (sync_guard r rt k place ns n) pre
    (done_with (RemoveSyncedResourceFinalizerAndLabels A v (srClusterID r))) (\<lambda>_ _. True)"
  unfolding done_with_def RemoveSyncedResourceFinalizerAndLabels_def
  by (intro gvcg) (use assms in \<open>auto split: sum.splits intro!: gvcg\<close>)

lemma guarded_delete_release:
  assumes "copy_state r k place ns n v po pre" and "leaving r (obj_meta v)"
    and "resource_kind rt = Some k" and "place (obj_meta v) = (pns, pn)" and "k = KPV \<Longrightarrow> pns = ''''"
    and "b \<longleftrightarrow> po = None"
  shows "guarded (sync_guard r rt k place ns n) pre
    (if b then done_with (RemoveSyncedResourceFinalizerAndLabels A v (srClusterID r))
     else on_ok (DeletePhysicalResource A rt pn pns po)
       (\<lambda>_. done_with (RemoveSyncedResourceFinalizerAndLabels A v (srClusterID r)))) (\<lambda>_ _. True)"
proof (cases po)
  case None
  with assms show ?thesis by (auto simp: copy_state_def intro: guarded_release)
next
  case (Some p)
  have k: "(if k = KPV then '''' else pns) = pns" using assms(5) by simp
  have v: "EvGet VirtualClient k ns n (Inr v) \<in> set pre" and p: "copy_read k (place (obj_meta v)) p pre" "own_copy v p"
    using assms(1) Some by (auto simp: copy_state_def)
  from p(1) have gone: "case res of Inl e \<Rightarrow> IsNotFound e | Inr _ \<Rightarrow> True \<Longrightarrow> copy_deleted k (place (obj_meta v))
      (pre @ [EvDelete PhysicalClient k pns pn (uid_precondition (mUID (obj_meta p))) res])" for res
    using copy_deletedI [of k "(pns, pn)" p pre res] assms(4) by simp
  have del: "sync_guard r rt k place ns n pre
      (EvDelete PhysicalClient k pns pn (uid_precondition (mUID (obj_meta p))) res)" for res
    unfolding sync_guard.simps by (rule exI [of _ v], rule exI [of _ p]) (simp add: v p assms(2) assms(4) [symmetric])
  show ?thesis
    unfolding assms(6) Some DeletePhysicalResource_def assms(3) option.case k
    by (simp, intro gvcg del) (auto split: sum.splits intro!: gvcg guarded_release gone simp: v assms(2))
qed

lemma guarded_mark:
  assumes "EvGet VirtualClient k ns n (Inr v) \<in> set pre" and "m = obj_meta v"
    and "\<And>es. Q (Inr ()) (pre @ es)" and "\<And>e es. Q (Inl e) (pre @ es)"
  shows "guarded (sync_guard r rt k place ns n) pre
    (UpdateVirtualResourceLabelsAndAnnotations A (srClusterID r) v (GeneratePhysicalResourceName (mName m) (mNamespace m))
       (bMountNamespace (srBinding r)) None) Q"
  unfolding UpdateVirtualResourceLabelsAndAnnotations_def assms(2)
  using assms(1) assms(3) [of "[]"] assms(4) [of _ "[]"]
  by (intro gvcg) (auto intro!: gvcg assms(3,4) split: sum.splits)

lemma guarded_create:
  assumes "copy_state r k place ns n v None pre" and "\<not> leaving r (obj_meta v)"
    and "pn = snd (place (obj_meta v))"
  shows "guarded (sync_guard r rt k place ns n) pre
    (done_with (CreatePhysicalResource A rt v pn (bMountNamespace (srBinding r)))) (\<lambda>_ _. True)"
  unfolding done_with_def CreatePhysicalResource_def CreatePhysicalResourceWithOpt_def
  by (intro gvcg) (use assms in \<open>auto simp: copy_state_def split: sum.splits intro!: gvcg\<close>)

lemma guarded_rewrite:
  assumes "copy_state r k place ns n v (Some p) pre" and "\<not> leaving r (obj_meta v)"
    and "same_content ob v" and "own_copy v ob" and "mName (obj_meta ob) = mName (obj_meta p)"
    and "mNamespace (obj_meta ob) = mNamespace (obj_meta p)" and "mUID (obj_meta ob) = mUID (obj_meta p)"
  shows "guarded (sync_guard r rt k place ns n) pre (on_ok (Update A PhysicalClient ob) (\<lambda>_. return x)) (\<lambda>_ _. True)"
proof -
  have "sync_guard r rt k place ns n pre (EvUpdate PhysicalClient ob res)" for res
    unfolding sync_guard.simps client.case
    by (rule exI [of _ v], intro conjI exI [of _ p]) (use assms in \<open>simp_all add: copy_state_def\<close>)
  then show ?thesis by (intro gvcg) (auto split: sum.splits intro!: gvcg)
qed

lemma updated_own_copy:
  "own_copy (OConfigMap v) (OConfigMap (updatedConfigMap v p))"
  "own_copy (OSecret s) (OSecret (updatedSecret s q))"
  by (simp_all add: own_copy_def updatedConfigMap_def updatedSecret_def BuildPhysicalResourceLabels_def
      BuildPhysicalResourceAnnotations_def)

lemma guarded_syncConfigMapCopy:
  assumes "copy_state r KConfigMap place ns n (OConfigMap v) (map_option OConfigMap po) pre"
    and "place (cmMeta v) = (bMountNamespace (srBinding r), pn)"
  shows "guarded (sync_guard r RTConfigMap KConfigMap place ns n) pre (syncConfigMapCopy E r A v pn po) (\<lambda>_ _. True)"
proof -
  have del: "guarded (sync_guard r RTConfigMap KConfigMap place ns n) pre
      (handleVirtualConfigMapDeletion r A v pn po) (\<lambda>_ _. True)" if "leaving r (cmMeta v)"
    unfolding handleVirtualConfigMapDeletion_def unsetInTable_def Let_def
    by (intro guarded_bind guarded_modifies guarded_delete_release [OF assms(1)]) (simp_all add: that assms(2))
  have upd: "guarded (sync_guard r RTConfigMap KConfigMap place ns n) pre
      (updatePhysicalConfigMapIfNeeded E A v p) (\<lambda>_ _. True)" if "\<not> leaving r (cmMeta v)" "po = Some p" for p
    unfolding updatePhysicalConfigMapIfNeeded_def using assms(1) that updated_own_copy(1) [of v p]
    by (intro guarded_if guarded_return guarded_rewrite [of _ _ _ _ _ "OConfigMap v" "OConfigMap p"])
      (simp_all add: updatedConfigMap_def)
  have new: "guarded (sync_guard r RTConfigMap KConfigMap place ns n) pre
      (createPhysicalConfigMap r A v pn) (\<lambda>_ _. True)" if "\<not> leaving r (cmMeta v)" "po = None"
    unfolding createPhysicalConfigMap_def using assms that by (intro guarded_create) simp_all
  show ?thesis
    unfolding syncConfigMapCopy_def by (intro gvcg del upd new) (auto simp: leaving_def)
qed

lemma guarded_then:
  assumes "guarded G pre m R" and "\<And>x pre'. R (Inr x) pre' \<Longrightarrow> guarded G pre' (f x) (\<lambda>_ _. True)"
  shows "guarded G pre (on_ok m f) (\<lambda>_ _. True)"
  using assms by (intro guarded_on_ok guarded_mono [OF assms(1)]) (auto split: sum.splits)

lemma guarded_validated:
  assumes v: "EvGet VirtualClient k ns n (Inr v) \<in> set pre"
    and check: "resource_kind rt = Some k" "k = KPV \<Longrightarrow> pns = ''''" "place (obj_meta v) = (pns, pn)"
    and sel: "\<And>p x. sel p = Some x \<Longrightarrow> p = mk x" "\<And>x. valid x = None \<Longrightarrow> own_copy v (mk x)"
    and f: "\<And>po pre'. copy_state r k place ns n v (map_option mk po) pre' \<Longrightarrow>
      guarded (sync_guard r rt k place ns n) pre' (f po) (\<lambda>_ _. True)"
  shows "guarded (sync_guard r rt k place ns n) pre (on_ok (checkTyped sel A rt k msg pns pn)
     (\<lambda>po. case Option.bind po valid of Some err \<Rightarrow> return (Inl err) | None \<Rightarrow> f po)) (\<lambda>_ _. True)"
proof (rule guarded_then)
  let ?R = "\<lambda>res pre'. \<forall>po. res = Inr po \<longrightarrow> Option.bind po valid = None \<longrightarrow>
    copy_state r k place ns n v (map_option mk po) pre'"
  show "guarded (sync_guard r rt k place ns n) pre (checkTyped sel A rt k msg pns pn) ?R"
    using v check by (intro guarded_checkTyped) (auto simp: copy_state_def copy_absent_def copy_read_def dest!: sel)
  show "guarded (sync_guard r rt k place ns n) pre'
      (case Option.bind po valid of Some err \<Rightarrow> return (Inl err) | None \<Rightarrow> f po) (\<lambda>_ _. True)"
    if "?R (Inr po) pre'" for po pre'
    using that by (intro gvcg f) simp_all
qed

text \<open>
  C38. Every call of the ConfigMap controller is in order, for every answer of the servers. The
  virtual object is updated only to mark it, or, when it or the binding is being deleted, to take
  the marks and the finalizer off after its copy was found absent by both clients or was deleted.
  The copy is created only after it was found absent, and updated or deleted only after it was
  read and found to be managed and made for the virtual object; the deletion carries the UID that
  was read. An update keeps the identity of the copy and gives it the content of the virtual object.
\<close>

theorem ReconcileConfigMap_ordered:
  "tspec (ReconcileConfigMap E r A ns n) w (\<lambda>res evs w'. ordered
     (sync_guard r RTConfigMap KConfigMap (\<lambda>m. (bMountNamespace (srBinding r), mget (mAnnotations m) AnnotationPhysicalName)) ns n) [] evs)"
proof (intro guarded_ordered)
  let ?place = "\<lambda>m. (bMountNamespace (srBinding r), mget (mAnnotations m) AnnotationPhysicalName)"
  let ?G = "sync_guard r RTConfigMap KConfigMap ?place ns n"
  have mark: "guarded ?G pre (updateVirtualConfigMapLabelsAndAnnotations r A v)
      (\<lambda>_ pre'. EvGet VirtualClient KConfigMap ns n (Inr (OConfigMap v)) \<in> set pre')"
    if "EvGet VirtualClient KConfigMap ns n (Inr (OConfigMap v)) \<in> set pre" for v pre
    unfolding updateVirtualConfigMapLabelsAndAnnotations_def askNeeded_def Let_def
    using that by (intro gvcg guarded_mark) (auto intro!: gvcg)
  show "guarded ?G [] (ReconcileConfigMap E r A ns n) (\<lambda>_ _. True)"
    unfolding ReconcileConfigMap_def shouldSkipSyncConfigMap_def askNeeded_def unsetInTable_def
      checkPhysicalConfigMapExists_def Let_def
    by (intro guarded_bind guarded_ops guarded_sum guarded_if guarded_return guarded_modifies guarded_reads
        guarded_then [OF mark] guarded_validated [where mk = OConfigMap] guarded_syncConfigMapCopy)
      (auto simp: decode_simps the_copy_Some validatePhysicalConfigMap_def intro: validateCopy_own)
qed

lemma guarded_syncSecretCopy:
  assumes "copy_state r KSecret place ns n (OSecret v) (map_option OSecret po) pre"
    and "place (seMeta v) = (pns, pn)"
  shows "guarded (sync_guard r RTSecret KSecret place ns n) pre (syncSecretCopy E r A v pns pn po) (\<lambda>_ _. True)"
proof -
  have del: "guarded (sync_guard r RTSecret KSecret place ns n) pre
      (handleVirtualSecretDeletion r A v pns pn po) (\<lambda>_ _. True)" if "leaving r (seMeta v)"
    unfolding handleVirtualSecretDeletion_def unsetInTable_def Let_def
    by (intro guarded_bind guarded_modifies guarded_delete_release [OF assms(1)]) (simp_all add: that assms(2))
  have upd: "guarded (sync_guard r RTSecret KSecret place ns n) pre
      (updatePhysicalSecretIfNeeded E A v p) (\<lambda>_ _. True)" if "\<not> leaving r (seMeta v)" "po = Some p" for p
    unfolding updatePhysicalSecretIfNeeded_def using assms(1) that updated_own_copy(2) [of v p]
    by (intro guarded_if guarded_return guarded_rewrite [of _ _ _ _ _ "OSecret v" "OSecret p"])
      (simp_all add: updatedSecret_def)
  have new: "guarded (sync_guard r RTSecret KSecret place ns n) pre
      (createPhysicalSecret r A v pn) (\<lambda>_ _. True)" if "\<not> leaving r (seMeta v)" "po = None"
    unfolding createPhysicalSecret_def using assms that by (intro guarded_create) simp_all
  show ?thesis
    unfolding syncSecretCopy_def by (intro gvcg del upd new) (auto simp: leaving_def)
qed

text \<open>
  The same holds of the Secret controller; its copies are in the namespace the annotation of
  the virtual secret names.
\<close>

theorem ReconcileSecret_ordered:
  "tspec (ReconcileSecret E r A ns n) w (\<lambda>res evs w'. ordered
     (sync_guard r RTSecret KSecret
       (\<lambda>m. (mget (mAnnotations m) AnnotationPhysicalNamespace, mget (mAnnotations m) AnnotationPhysicalName)) ns n) [] evs)"
proof (intro guarded_ordered)
  let ?place = "\<lambda>m. (mget (mAnnotations m) AnnotationPhysicalNamespace, mget (mAnnotations m) AnnotationPhysicalName)"
  let ?G = "sync_guard r RTSecret KSecret ?place ns n"
  have mark: "guarded ?G pre (updateVirtualSecretLabelsAndAnnotations r A v)
      (\<lambda>_ pre'. EvGet VirtualClient KSecret ns n (Inr (OSecret v)) \<in> set pre')"
    if "EvGet VirtualClient KSecret ns n (Inr (OSecret v)) \<in> set pre" for v pre
    unfolding updateVirtualSecretLabelsAndAnnotations_def askNeeded_def Let_def
    using that by (intro gvcg guarded_mark) (auto intro!: gvcg)
  show "guarded ?G [] (ReconcileSecret E r A ns n) (\<lambda>_ _. True)"
    unfolding ReconcileSecret_def get_secret_def shouldSkipSyncSecret_def askNeeded_def unsetInTable_def
      checkPhysicalSecretExists_def Let_def
    by (intro guarded_bind guarded_ops guarded_sum guarded_if guarded_return guarded_modifies guarded_reads
        guarded_then [OF mark] guarded_validated [where mk = OSecret] guarded_syncSecretCopy)
      (auto simp: decode_simps the_copy_Some validatePhysicalSecret_def intro: validateCopy_own)
qed

lemma guarded_PVDeletion:
  assumes "copy_state r KPV place ns n (OPV v) (map_option OPV po) pre"
    and "place (pvMeta v) = ('''', pn)" and "leaving r (pvMeta v)"
  shows "guarded (sync_guard r RTPV KPV place ns n) pre (handleVirtualPVDeletion r A v pn po) (\<lambda>_ _. True)"
  unfolding handleVirtualPVDeletion_def Let_def
  by (intro guarded_delete_release [OF assms(1)]) (simp_all add: assms(2,3))

lemma guarded_PVCDeletion:
  assumes "copy_state r KPVC place ns n (OPVC v) (map_option OPVC po) pre"
    and "place (pvcMeta v) = (bMountNamespace (srBinding r), pn)" and "leaving r (pvcMeta v)"
  shows "guarded (sync_guard r RTPVC KPVC place ns n) pre (handleVirtualPVCDeletion r A v pn po) (\<lambda>_ _. True)"
  unfolding handleVirtualPVCDeletion_def Let_def
  by (intro guarded_delete_release [OF assms(1)]) (simp_all add: assms(2,3))

fun only_release :: "event \<Rightarrow> bool" where
  "only_release (EvDelete c _ _ _ _ _) \<longleftrightarrow> c = PhysicalClient"
| "only_release (EvUpdate c _ _) \<longleftrightarrow> c = VirtualClient"
| "only_release e \<longleftrightarrow> \<not> is_write e"

lemma quiet_volume_parts [quiet_rules]:
  "(\<And>e. only_release e \<Longrightarrow> P e) \<Longrightarrow> quiet (checkTyped sel A rt k msg pns pn) P"
  "(\<And>e. only_release e \<Longrightarrow> P e) \<Longrightarrow> quiet (handleVirtualPVDeletion r A v pn po) P"
  "(\<And>e. only_release e \<Longrightarrow> P e) \<Longrightarrow> quiet (handleVirtualPVCDeletion r A c pn pco) P"
  unfolding checkTyped_def CheckPhysicalResourceExists_def handleVirtualPVDeletion_def handleVirtualPVCDeletion_def
    done_with_def RemoveSyncedResourceFinalizerAndLabels_def DeletePhysicalResource_def Let_def
  by (intro quiet_rules; simp)+

text \<open>
  The controllers of volumes and claims obey the same rule, and a run of theirs writes
  nothing but the deletion of the copy and the release of the virtual object, in this order.
\<close>

theorem volume_controllers_ordered:
  "tspec (ReconcilePV r A n) w (\<lambda>res evs w'. list_all only_release evs \<and> ordered
     (sync_guard r RTPV KPV (\<lambda>m. ('''', mget (mAnnotations m) AnnotationPhysicalName)) '''' n) [] evs) \<and>
   tspec (ReconcilePVC r A ns n) w (\<lambda>res evs w'. list_all only_release evs \<and> ordered
     (sync_guard r RTPVC KPVC (\<lambda>m. (bMountNamespace (srBinding r), mget (mAnnotations m) AnnotationPhysicalName)) ns n) [] evs)"
proof (intro conjI tspec_conj guarded_ordered)
  let ?G = "sync_guard r RTPV KPV (\<lambda>m. ('''', mget (mAnnotations m) AnnotationPhysicalName)) '''' n"
  show "guarded ?G [] (ReconcilePV r A n) (\<lambda>_ _. True)"
    unfolding ReconcilePV_def checkPhysicalPVExists_def Let_def
    by (intro guarded_bind guarded_ops guarded_sum guarded_if guarded_return
        guarded_validated [where mk = OPV] guarded_PVDeletion)
      (auto simp: decode_simps the_copy_Some validatePhysicalPV_def leaving_def intro: validateCopy_own)
  let ?G = "sync_guard r RTPVC KPVC (\<lambda>m. (bMountNamespace (srBinding r), mget (mAnnotations m) AnnotationPhysicalName)) ns n"
  show "guarded ?G [] (ReconcilePVC r A ns n) (\<lambda>_ _. True)"
    unfolding ReconcilePVC_def checkPhysicalPVCExists_def Let_def
    by (intro guarded_bind guarded_ops guarded_sum guarded_if guarded_return
        guarded_validated [where mk = OPVC] guarded_PVCDeletion)
      (auto simp: decode_simps the_copy_Some validatePhysicalPVC_def leaving_def intro: validateCopy_own)
  have "quiet (ReconcilePV r A n) only_release" "quiet (ReconcilePVC r A ns n) only_release"
    unfolding ReconcilePV_def ReconcilePVC_def checkPhysicalPVExists_def checkPhysicalPVCExists_def Let_def
    by (intro quiet_rules; simp)+
  then show "tspec (ReconcilePV r A n) w (\<lambda>res evs w'. list_all only_release evs)"
    and "tspec (ReconcilePVC r A ns n) w (\<lambda>res evs w'. list_all only_release evs)"
    by (auto intro: tspec_quiet)
qed

section \<open>One cluster after the other\<close>

text \<open>
  The name of the copy is one annotation for all clusters. Once one cluster has released a
  volume or claim, the controller of another cluster that still holds it finds no name and returns
  without a further call: its finalizer stays, and the object cannot be deleted.
\<close>

theorem released_by_one_blocks_other:
  assumes "srClusterID r \<noteq> c" and "ContainsFinalizer m (GetClusterSpecificFinalizer (srClusterID r))"
    and "api_get A VirtualClient KPV '''' n (srv w) = (Inr (OPV v), s)" and "pvMeta v = unmarkSynced c m"
    and "api_get A VirtualClient KPVC ns n (srv w) = (Inr (OPVC d), s')" and "pvcMeta d = unmarkSynced c m"
  shows "ContainsFinalizer (unmarkSynced c m) (GetClusterSpecificFinalizer (srClusterID r)) \<and>
    run_state (ReconcilePV r A n) w =
      (Inr (Result 0), w\<lparr>srv := s, hist := hist w @ [EvGet VirtualClient KPV '''' n (Inr (OPV v))]\<rparr>) \<and>
    run_state (ReconcilePVC r A ns n) w =
      (Inr (Result 0), w\<lparr>srv := s', hist := hist w @ [EvGet VirtualClient KPVC ns n (Inr (OPVC d))]\<rparr>)"
proof -
  have "mget (mAnnotations (unmarkSynced c m)) AnnotationPhysicalName = ''''"
    by (simp add: unmarkSynced_fields mget_def)
  then show ?thesis using assms
    by (simp add: ReconcilePV_def ReconcilePVC_def Get_def call_def decode_def Let_def unmarkSynced_fields
        ContainsFinalizer_def)
qed

definition held_pv :: pv where
  "held_pv = \<lparr>pvMeta = unmarkSynced ''c1'' two_clusters, pvClaimRef = None, pvReclaimPolicy = ''Retain'',
     pvCSI = None, pvSpecOther = '''', pvStatus = ''''\<rparr>"

definition held_pvc :: pvc where
  "held_pvc = \<lparr>pvcMeta = unmarkSynced ''c1'' two_clusters, pvcVolumeName = '''', pvcStorageClassName = None,
     pvcSpecOther = '''', pvcPhase = '''', pvcStatusOther = ''''\<rparr>"

definition sample_binding :: cluster_binding where
  "sample_binding = \<lparr>bMeta = empty_meta\<lparr>mName := ''b''\<rparr>, bClusterID = ''c2'', bNodeSelector = None,
     bMountNamespace = ''mnt'', bDisableNodeDefaultTaint = False, bPodPriorityClassName = '''',
     bRunningDaemonsetByDefault = False, bDirectScheduling = False,
     bSecretRef = \<lparr>srName = '''', srNamespace = ''''\<rparr>, bServiceNamespaces = [], bPhase = '''', bConditions = [], bLastSyncTime = None\<rparr>"

definition sample_sync :: sync_reconciler where
  "sample_sync = \<lparr>srClusterID = ''c2'', srBinding = sample_binding\<rparr>"

definition held_server :: "unit api" where
  "held_server = \<lparr>api_get = (\<lambda>_ k _ _ s. (Inr (if k = KPV then OPV held_pv else OPVC held_pvc), s)),
     api_list = (\<lambda>_ _ _ s. (Inr [], s)), api_create = (\<lambda>_ ob s. (Inr ob, s)), api_update = (\<lambda>_ ob s. (Inr ob, s)),
     api_status_update = (\<lambda>_ ob s. (Inr ob, s)), api_patch = (\<lambda>_ _ ob s. (Inr ob, s)),
     api_status_patch = (\<lambda>_ _ ob s. (Inr ob, s)), api_patch_label = (\<lambda>_ ob _ _ s. (Inr ob, s)),
     api_delete = (\<lambda>_ _ _ _ _ s. (Inr (), s)), api_sub_patch = (\<lambda>_ _ _ ob s. (Inr ob, s)), api_sub_update = (\<lambda>_ _ ob s. (Inr ob, s)),
     api_create_token = (\<lambda>_ _ tr s. (Inr tr, s)), api_rand = (\<lambda>s. (0, s)), api_clock = (\<lambda>s. (zero_clock, s))\<rparr>"

theorem released_by_one_blocks_other_witness:
  "ContainsFinalizer (pvMeta held_pv) (GetClusterSpecificFinalizer ''c2'') \<and>
   hist (snd (run_state (ReconcilePV sample_sync held_server ''v'') \<lparr>srv = (), hist = []\<rparr>)) =
     [EvGet VirtualClient KPV '''' ''v'' (Inr (OPV held_pv))]"
  using released_by_one_blocks_other [of sample_sync "''c1''" two_clusters held_server "''v''"
      "\<lparr>srv = (), hist = []\<rparr>" held_pv "()" "''ns''" held_pvc "()"] two_clusters_marks
  by (simp add: sample_sync_def held_server_def held_pv_def held_pvc_def)

section \<open>The table follows the pods\<close>

text \<open>
  The operations on a table: a pod asks for objects of its own namespace, with any names each time; a pod
  is gone; and a reconciler found that the object is gone or being deleted. Namespaces have no slash.
\<close>

datatype table_op = AskFor string "string list" string | Forget string string | Unset string string

fun table_exec :: "table_op \<Rightarrow> sync_table \<Rightarrow> sync_table" where
  "table_exec (AskFor ns names pod) t = addNeeded ns names ns pod t"
| "table_exec (Forget ns pod) t = deleteNeeded ns pod t"
| "table_exec (Unset ns name) t = unsetNeeded ns name t"

definition table_run :: "table_op list \<Rightarrow> sync_table" where
  "table_run ops = foldl (\<lambda>t op. table_exec op t) no_needs ops"

lemma table_run_simps [simp]: "table_run [] = no_needs" "table_run (ops @ [op]) = table_exec op (table_run ops)"
  by (simp_all add: table_run_def)

fun op_namespace :: "table_op \<Rightarrow> string" where
  "op_namespace (AskFor ns _ _) = ns" | "op_namespace (Forget ns _) = ns" | "op_namespace (Unset ns _) = ns"

abbreviation namespaces_ok :: "table_op list \<Rightarrow> bool" where
  "namespaces_ok ops \<equiv> list_all (\<lambda>op. CHR ''/'' \<notin> set (op_namespace op)) ops"

fun asks :: "string \<Rightarrow> string \<Rightarrow> table_op \<Rightarrow> bool" where
  "asks ns name (AskFor ns' names _) \<longleftrightarrow> ns' = ns \<and> name \<in> set names" | "asks ns name _ \<longleftrightarrow> False"

text \<open>Something of a kind happened, and something else did not happen after it.\<close>

definition since :: "('a \<Rightarrow> bool) \<Rightarrow> 'a \<Rightarrow> 'a list \<Rightarrow> bool" where
  "since P u xs \<longleftrightarrow> (\<exists>pre x post. xs = pre @ x # post \<and> P x \<and> u \<notin> set post)"

lemma since_Nil [simp]: "\<not> since P u []"
  by (simp add: since_def)

lemma since_snoc [simp]: "since P u (xs @ [y]) \<longleftrightarrow> P y \<or> (y \<noteq> u \<and> since P u xs)"
proof
  assume "since P u (xs @ [y])"
  then obtain pre x post where d: "xs @ [y] = pre @ x # post" "P x" "u \<notin> set post" unfolding since_def by blast
  then show "P y \<or> (y \<noteq> u \<and> since P u xs)"
    by (cases post rule: rev_cases) (auto simp: since_def simp flip: append_assoc append_Cons)
next
  assume "P y \<or> (y \<noteq> u \<and> since P u xs)"
  then show "since P u (xs @ [y])"
  proof
    assume "P y"
    then show ?thesis unfolding since_def by (intro exI [of _ xs] exI [of _ y] exI [of _ "[]"]) simp
  next
    assume "y \<noteq> u \<and> since P u xs"
    then obtain pre x post where "xs = pre @ x # post" "P x" "u \<notin> set post" "y \<noteq> u" unfolding since_def by blast
    then show ?thesis unfolding since_def by (intro exI [of _ pre] exI [of _ x] exI [of _ "post @ [y]"]) simp
  qed
qed

lemma key_of_inject:
  "CHR ''/'' \<notin> set ns \<Longrightarrow> CHR ''/'' \<notin> set ns' \<Longrightarrow> key_of ns n = key_of ns' n' \<longleftrightarrow> ns = ns' \<and> n = n'"
  by (auto simp: key_of_def append_eq_append_conv2 append_eq_Cons_conv Cons_eq_append_conv)

lemma foldl_addPod:
  "foldl (\<lambda>m name. addPod p m (key_of ns name)) m names key =
    (if \<exists>name\<in>set names. key = key_of ns name
     then Some (List.insert p (case m key of None \<Rightarrow> [] | Some ps \<Rightarrow> ps)) else m key)"
  by (induction names arbitrary: m) (auto simp: addPod_def split: option.splits)

lemma foldl_removePod:
  "distinct (case m key of None \<Rightarrow> [] | Some ps \<Rightarrow> ps) \<Longrightarrow>
   foldl (\<lambda>m name. removePod p m (key_of ns name)) m names key =
    (if \<exists>name\<in>set names. key = key_of ns name then map_option (remove1 p) (m key) else m key)"
proof (induction names arbitrary: m)
  case (Cons a names)
  have "distinct (case removePod p m (key_of ns a) key of None \<Rightarrow> [] | Some ps \<Rightarrow> ps)"
    using Cons.prems by (auto simp: removePod_def split: option.splits)
  from Cons.IH [of "removePod p m (key_of ns a)", OF this] Cons.prems show ?case
    by (auto simp: removePod_def remove1_idem split: option.splits)
qed simp

lemma needsSynced_add:
  "needsSynced (addNeeded ns names ns' pod t) key =
    (if \<exists>name\<in>set names. key = key_of ns name
     then Some (List.insert (key_of ns' pod) (case needsSynced t key of None \<Rightarrow> [] | Some ps \<Rightarrow> ps))
     else needsSynced t key)"
  by (simp add: addNeeded_def Let_def foldl_addPod)

text \<open>No pod is listed twice under a key.\<close>

definition table_inv :: "sync_table \<Rightarrow> bool" where
  "table_inv t \<longleftrightarrow> (\<forall>key ps. needsSynced t key = Some ps \<longrightarrow> distinct ps)"

lemma needsSynced_delete:
  assumes "table_inv t"
  shows "needsSynced (deleteNeeded ns pod t) key =
    (if \<exists>names name. podRefs t (key_of ns pod) = Some names \<and> name \<in> set names \<and> key = key_of ns name
     then map_option (remove1 (key_of ns pod)) (needsSynced t key) else needsSynced t key)"
proof -
  have "distinct (case needsSynced t key of None \<Rightarrow> [] | Some ps \<Rightarrow> ps)"
    using assms by (auto simp: table_inv_def split: option.splits)
  from foldl_removePod [of "needsSynced t" key, OF this] show ?thesis
    by (cases "podRefs t (key_of ns pod)") (auto simp: deleteNeeded_def Let_def)
qed

lemma table_exec_inv: "table_inv t \<Longrightarrow> table_inv (table_exec op t)"
proof (cases op)
  case (AskFor ns names pod)
  then show "table_inv t \<Longrightarrow> ?thesis"
    by (auto simp: table_inv_def needsSynced_add split: option.splits)
next
  case (Forget ns pod)
  assume inv: "table_inv t"
  with Forget show ?thesis by (auto simp: table_inv_def needsSynced_delete [OF inv])
next
  case (Unset ns name)
  then show "table_inv t \<Longrightarrow> ?thesis" by (auto simp: table_inv_def unsetNeeded_def split: if_splits)
qed

lemma table_run_inv: "table_inv (table_run ops)"
  by (induction ops rule: rev_induct) (simp add: table_inv_def no_needs_def, simp add: table_exec_inv)

lemma isNeeded_exec:
  assumes "table_inv t" and "CHR ''/'' \<notin> set ns" and "CHR ''/'' \<notin> set (op_namespace op)"
  shows "isNeeded (table_exec op t) ns name \<longleftrightarrow> asks ns name op \<or> (op \<noteq> Unset ns name \<and> isNeeded t ns name)"
proof (cases op)
  case (AskFor ns' names pod)
  with assms show ?thesis by (auto simp: isNeeded_def needsSynced_add key_of_inject)
next
  case (Forget ns' pod)
  then show ?thesis by (auto simp: isNeeded_def needsSynced_delete [OF assms(1)])
next
  case (Unset ns' name')
  with assms show ?thesis by (auto simp: isNeeded_def unsetNeeded_def key_of_inject)
qed

text \<open>A pod is listed as one that uses an object.\<close>

definition listedFor :: "sync_table \<Rightarrow> string \<Rightarrow> string \<Rightarrow> string \<Rightarrow> bool" where
  "listedFor t ns name podKey \<longleftrightarrow> (\<exists>ps. needsSynced t (key_of ns name) = Some ps \<and> podKey \<in> set ps)"

definition lastAsked :: "sync_table \<Rightarrow> string \<Rightarrow> string \<Rightarrow> string list" where
  "lastAsked t ns pod = (case podRefs t (key_of ns pod) of None \<Rightarrow> [] | Some names \<Rightarrow> names)"



section \<open>The copy settles\<close>

lemma built_own_copy:
  "validateCopy what m (copyMeta m pn pns (BuildPhysicalResourceLabels m)) = None"
  "validateCopy what m (M\<lparr>mLabels := BuildPhysicalResourceLabels m, mAnnotations := BuildPhysicalResourceAnnotations m\<rparr>) = None"
proof -
  have "BuildPhysicalResourceAnnotations m \<noteq> Map.empty"
    by (auto simp: BuildPhysicalResourceAnnotations_def dest: fun_cong [of _ _ AnnotationVirtualName])
  then show "validateCopy what m (copyMeta m pn pns (BuildPhysicalResourceLabels m)) = None"
    and "validateCopy what m (M\<lparr>mLabels := BuildPhysicalResourceLabels m, mAnnotations := BuildPhysicalResourceAnnotations m\<rparr>) = None"
    by (simp_all add: validateCopy_def copyMeta_def BuildPhysicalResourceLabels_def BuildPhysicalResourceAnnotations_def)
qed

text \<open>
  C40. A copy the ConfigMap or Secret controller has created or updated passes its own validation,
  and the next run on the unchanged virtual object does nothing with it.
\<close>

theorem copies_converge:
  assumes "\<And>m. E m m" and "\<not> leaving r (cmMeta v)" and "\<not> leaving r (seMeta s)"
    and "BuildPhysicalResource RTConfigMap (OConfigMap v) pn pns None = Inr (OConfigMap p) \<or> p = updatedConfigMap v p'"
    and "BuildPhysicalResource RTSecret (OSecret s) sn sns None = Inr (OSecret q) \<or> q = updatedSecret s q'"
  shows "validatePhysicalConfigMap v p = None \<and> syncConfigMapCopy E r A v pn (Some p) = return (Inr (Result 0)) \<and>
    validatePhysicalSecret s q = None \<and> syncSecretCopy E r A s sns sn (Some q) = return (Inr (Result 0))"
  using assms
  by (auto simp: BuildPhysicalResource_def Let_def validatePhysicalConfigMap_def validatePhysicalSecret_def
      updatedConfigMap_def updatedSecret_def built_own_copy leaving_def syncConfigMapCopy_def syncSecretCopy_def
      updatePhysicalConfigMapIfNeeded_def updatePhysicalSecretIfNeeded_def)

definition sample_cm :: config_map where
  "sample_cm = \<lparr>cmMeta = empty_meta\<lparr>mName := ''cm'', mNamespace := ''ns''\<rparr>, cmData = [''k'' \<mapsto> ''v''], cmBinaryData = Map.empty\<rparr>"

definition sample_secret :: secret where
  "sample_secret = \<lparr>seMeta = empty_meta\<lparr>mName := ''se''\<rparr>, seType = ''Opaque'', seData = [''k'' \<mapsto> ''v''], seStringData = Map.empty\<rparr>"

theorem copies_converge_witness:
  "validatePhysicalConfigMap sample_cm (updatedConfigMap sample_cm sample_cm) = None \<and>
   validatePhysicalSecret sample_secret (updatedSecret sample_secret sample_secret) = None"
proof -
  have "\<not> leaving sample_sync (cmMeta sample_cm)" "\<not> leaving sample_sync (seMeta sample_secret)"
    by (simp_all add: leaving_def bindingDeleting_def sample_cm_def sample_secret_def empty_meta_def)
  from copies_converge [of "\<lambda>a b. True", OF TrueI this disjI2 disjI2, OF refl refl]
  show ?thesis by blast
qed

end
