(* ===== verification/Pod_Sync_Down.thy ===== *)
theory Pod_Sync_Down
  imports Pod_Spec Token_Manager Synced_Resources
begin

text \<open>
  \<^verbatim>\<open>pkg/syncer/topdown/pod/virtual_pod_controller.go\<close>: the controller that turns the pods scheduled
  on a virtual node into pods of the physical cluster, with everything they depend on. Its memory is
  the cluster binding (which it reads again when it builds a pod), the two tables of needed objects
  it shares with the ConfigMap and Secret controllers, the token cache and the cached addresses of
  two services. \<^verbatim>\<open>wait.PollUntilContextTimeout\<close> is the parameter \<open>poll\<close>; the clients, the event
  recorder, the token manager and the other controllers are set, as \<^verbatim>\<open>SetupWithManager\<close> leaves them.
  Counters of the metrics library are not modelled.
\<close>

record 's pod_world = "'s token_world" +
  pwConfigMaps :: sync_table
  pwSecrets :: sync_table
  pwBinding :: cluster_binding
  pwIntranetIP :: string
  pwIntranetPort :: string
  pwDnsIP :: string

type_synonym ('s, 'm, 'a) pod_prog = "(('s, 'm) pod_world_scheme, 'a) state"

text \<open>The codec of the expected metadata, the TokenRequest support and \<^verbatim>\<open>reflect.DeepEqual\<close> on container lists.\<close>

record pod_lib =
  plCodec :: pod_codec
  plTokenRequests :: bool
  plDeepEqual :: "container list \<Rightarrow> container list \<Rightarrow> bool"

record pod_reconciler =
  prClusterID :: string
  prLib :: pod_lib

definition binding :: "('s, 'm, cluster_binding) pod_prog" where
  "binding = reads pwBinding"

section \<open>Go's library\<close>

definition base64_alphabet :: string where
  "base64_alphabet = ''ABCDEFGHIJKLMNOPQRSTUVWXYZabcdefghijklmnopqrstuvwxyz0123456789+/''"

definition b64 :: "nat \<Rightarrow> char" where
  "b64 n = base64_alphabet ! n"

fun EncodeToString :: "string \<Rightarrow> string" where
  "EncodeToString [] = []"
| "EncodeToString [a] = (let x = of_char a in [b64 (x div 4), b64 ((x mod 4) * 16), CHR ''='', CHR ''=''])"
| "EncodeToString [a, b] = (let x = of_char a; y = of_char b in
     [b64 (x div 4), b64 ((x mod 4) * 16 + y div 16), b64 ((y mod 16) * 4), CHR ''=''])"
| "EncodeToString (a # b # c # s) = (let x = of_char a; y = of_char b; z = of_char c in
     [b64 (x div 4), b64 ((x mod 4) * 16 + y div 16), b64 ((y mod 16) * 4 + z div 64), b64 (z mod 64)] @ EncodeToString s)"

text \<open>The zero \<^verbatim>\<open>time.Time\<close>, 1 January of the year 1.\<close>

definition zeroTime :: time where "zeroTime = - 62135596800 * Second"

section \<open>Reading\<close>

fun the_service :: "obj \<Rightarrow> service option" where
  "the_service (OService s) = Some s" | "the_service _ = None"

fun the_replicaset :: "obj \<Rightarrow> objmeta option" where
  "the_replicaset (OReplicaSet m) = Some m" | "the_replicaset _ = None"

definition getPhysicalPodWithFallback :: "'s api \<Rightarrow> string \<Rightarrow> string \<Rightarrow> ('s, 'm, pod res) prog" where
  "getPhysicalPodWithFallback A namespace name = do {
     r \<leftarrow> get_pod A PhysicalClient namespace name;
     case r of
       Inr p \<Rightarrow> return (Inr p)
     | Inl err \<Rightarrow> (if IsNotFound err then get_pod A PhysicalK8sClient namespace name else return (Inl err))
   }"

definition IsRunningDaemonsetByDefault :: "'s api \<Rightarrow> string \<Rightarrow> ('s, 'm, bool res) prog" where
  "IsRunningDaemonsetByDefault A clusterBindingName =
    (if clusterBindingName = '''' then return (Inl (Errorf ''clusterBindingName is empty''))
     else on_ok (get_binding A VirtualClient clusterBindingName) (\<lambda>b. return (Inr (bRunningDaemonsetByDefault b))))"

definition shouldCreatePhysicalPod :: "'s api \<Rightarrow> pod \<Rightarrow> ('s, 'm, bool) pod_prog" where
  "shouldCreatePhysicalPod A virtualPod =
    (if poNodeName virtualPod = '''' then return False
     else if IsSystemPod virtualPod then return False
     else do {
       b \<leftarrow> binding;
       skip \<leftarrow> (if IsDaemonSetPod virtualPod then do {
                  runningds \<leftarrow> IsRunningDaemonsetByDefault A (mName (bMeta b));
                  return (runningds \<noteq> Inr True \<and>
                    mget (mAnnotations (poMeta virtualPod)) AnnotationRunningDaemonSet \<noteq> LabelValueTrue)
                } else return False);
       return (\<not> skip \<and> mget (mLabels (poMeta virtualPod)) LabelHostPortFakePod \<noteq> LabelValueTrue)
     })"

definition managedByBinding :: "pod_reconciler \<Rightarrow> cluster_binding \<Rightarrow> node \<Rightarrow> (bool \<times> string) res" where
  "managedByBinding r b virtualNode =
    (let physicalClusterName = mget (mAnnotations (nMeta virtualNode)) ''kubeocean.io/physical-cluster-name'';
         physicalClusterID = mget (mLabels (nMeta virtualNode)) LabelPhysicalClusterID;
         physicalNodeName = mget (mLabels (nMeta virtualNode)) LabelPhysicalNodeName in
     if mget (mLabels (nMeta virtualNode)) LabelManagedBy \<noteq> ''kubeocean'' then Inr (False, '''')
     else if physicalClusterName \<noteq> '''' \<and> physicalClusterName \<noteq> mName (bMeta b) then Inr (False, '''')
     else if physicalClusterName = '''' \<and> physicalClusterID \<noteq> '''' \<and> physicalClusterID \<noteq> prClusterID r then Inr (False, '''')
     else if physicalNodeName = '''' then Inl (Errorf ''virtual node missing physical node name label'')
     else Inr (True, physicalNodeName))"

definition shouldManageVirtualPod :: "pod_reconciler \<Rightarrow> 's api \<Rightarrow> pod \<Rightarrow> ('s, 'm, (bool \<times> string) res) pod_prog" where
  "shouldManageVirtualPod r A virtualPod =
    (if poNodeName virtualPod = '''' then return (Inr (False, ''''))
     else do {
       got \<leftarrow> get_node A VirtualClient (poNodeName virtualPod);
       case got of
         Inl err \<Rightarrow> (if IsNotFound err then return (Inr (False, ''''))
                    else return (Inl (Wrapf ''failed to get virtual node'' err)))
       | Inr virtualNode \<Rightarrow> do { b \<leftarrow> binding; return (managedByBinding r b virtualNode) }
     })"

definition physicalPlace :: "pod \<Rightarrow> string \<times> string" where
  "physicalPlace virtualPod = (mget (mAnnotations (poMeta virtualPod)) AnnotationPhysicalPodNamespace,
     mget (mAnnotations (poMeta virtualPod)) AnnotationPhysicalPodName)"

definition checkPhysicalPodExists :: "'s api \<Rightarrow> pod \<Rightarrow> ('s, 'm, pod option res) prog" where
  "checkPhysicalPodExists A virtualPod =
    (case physicalPlace virtualPod of (physicalNamespace, physicalName) \<Rightarrow>
      if physicalNamespace = '''' \<or> physicalName = '''' then return (Inr None)
      else do {
        got \<leftarrow> getPhysicalPodWithFallback A physicalNamespace physicalName;
        return (case got of
            Inl err \<Rightarrow> (if IsNotFound err then Inr None else Inl err)
          | Inr p \<Rightarrow> Inr (Some p))
      })"

section \<open>Deleting pods\<close>

definition ignoreNotFound :: "('w, unit res) state \<Rightarrow> ('w, unit res) state" where
  "ignoreNotFound m = do { r \<leftarrow> m; return (case r of Inl e \<Rightarrow> (if \<not> IsNotFound e then Inl e else Inr ()) | Inr _ \<Rightarrow> Inr ()) }"

definition deletePod :: "'s api \<Rightarrow> pod \<Rightarrow> ('s, 'm, unit res) prog" where
  "deletePod A p = ignoreNotFound (Delete A PhysicalClient KPod (mNamespace (poMeta p)) (mName (poMeta p)) no_opts)"

definition deletePhysicalPodOf :: "'s api \<Rightarrow> pod \<Rightarrow> ('s, 'm, ctrl_result res) prog" where
  "deletePhysicalPodOf A physicalPod =
    (if mDeletionTimestamp (poMeta physicalPod) \<noteq> None then return (Inr (Result 0))
     else done_with (deletePod A physicalPod))"

definition forceDeleteVirtualPod :: "'s api \<Rightarrow> pod \<Rightarrow> ('s, 'm, ctrl_result res) prog" where
  "forceDeleteVirtualPod A virtualPod =
     done_with (ignoreNotFound (Delete A VirtualClient KPod (mNamespace (poMeta virtualPod)) (mName (poMeta virtualPod))
       \<lparr>doUID = Some (mUID (poMeta virtualPod)), doGracePeriodSeconds = Some 0\<rparr>))"

definition belongsTo :: "pod \<Rightarrow> pod \<Rightarrow> bool" where
  "belongsTo physicalPod virtualPod \<longleftrightarrow>
     mget (mAnnotations (poMeta physicalPod)) AnnotationVirtualPodNamespace = mNamespace (poMeta virtualPod) \<and>
     mget (mAnnotations (poMeta physicalPod)) AnnotationVirtualPodName = mName (poMeta virtualPod)"

definition deleteMismatchedPhysicalPodIfNeeded :: "'s api \<Rightarrow> pod \<Rightarrow> pod \<Rightarrow> ('s, 'm, unit res) prog" where
  "deleteMismatchedPhysicalPodIfNeeded A virtualPod physicalPod =
    (let physicalPodVirtualUID = mget (mAnnotations (poMeta physicalPod)) AnnotationVirtualPodUID in
     if \<not> belongsTo physicalPod virtualPod then return (Inr ())
     else if physicalPodVirtualUID \<noteq> '''' \<and> physicalPodVirtualUID \<noteq> mUID (poMeta virtualPod)
     then on_ok (deletePod A physicalPod) (\<lambda>_. return (Inl (Errorf ''physical pod has mismatched virtual pod UID'')))
     else return (Inr ()))"

definition handleUnScheduledPhysicalPod :: "'s api \<Rightarrow> pod \<Rightarrow> pod \<Rightarrow> ('s, 'm, ctrl_result res) prog" where
  "handleUnScheduledPhysicalPod A virtualPod physicalPod = do {
     let created = mCreationTimestamp (poMeta physicalPod);
     let timeout = 300 * Second;
     late \<leftarrow> (if created = zeroTime then return True
              else do { c \<leftarrow> Now A; return (Since (ckNow c) created > timeout) });
     if late then on_ok (deletePod A physicalPod) (\<lambda>_. do {
         emit (EvRecord (mNamespace (poMeta virtualPod)) (mName (poMeta virtualPod)) ''FailedSchedulingPod'');
         return (Inr (Result 0)) })
     else do { c \<leftarrow> Now A; return (Inr (Result (timeout - Since (ckNow c) created))) }
   }"

section \<open>Service account tokens\<close>

definition tokenSources :: "pod \<Rightarrow> (string \<times> token_projection) list" where
  "tokenSources pod = concat (map (\<lambda>v. concat (map (\<lambda>s. case psServiceAccountToken s of
     None \<Rightarrow> [] | Some tp \<Rightarrow> [(vName v, tp)]) (sources_of v))) (poVolumes pod))"

definition tokenSecretNameFor :: "pod \<Rightarrow> string \<Rightarrow> string" where
  "tokenSecretNameFor virtualPod volumeName =
     GeneratePhysicalResourceName (mName (poMeta virtualPod) @ ''-'' @ volumeName @ ''-'' @ mUID (poMeta virtualPod))
       (mNamespace (poMeta virtualPod))"

definition deleteServiceAccountTokenSecret :: "'s api \<Rightarrow> string \<Rightarrow> string \<Rightarrow> ('s, 'm, unit res) prog" where
  "deleteServiceAccountTokenSecret A secretName secretNamespace = do {
     r \<leftarrow> Delete A PhysicalClient KSecret secretNamespace secretName no_opts;
     return (case r of
         Inl err \<Rightarrow> (if IsNotFound err then Inr () else Inl (Errorf (''failed to delete service account token secret: '' @ error_text err)))
       | Inr _ \<Rightarrow> Inr ())
   }"

fun deleteTokenSecrets :: "'s api \<Rightarrow> string \<Rightarrow> string list \<Rightarrow> ('s, 'm, unit res) prog" where
  "deleteTokenSecrets A ns [] = return (Inr ())"
| "deleteTokenSecrets A ns (n # names) =
     on_ok (deleteServiceAccountTokenSecret A n ns) (\<lambda>_. deleteTokenSecrets A ns names)"

definition cleanupServiceAccountToken :: "'s api \<Rightarrow> pod \<Rightarrow> ('s, 'm, unit res) pod_prog" where
  "cleanupServiceAccountToken A virtualPod =
    (if poServiceAccountName virtualPod = '''' then return (Inr ())
     else do {
       DeleteServiceAccountToken (mUID (poMeta virtualPod));
       b \<leftarrow> binding;
       deleteTokenSecrets A (bMountNamespace b)
         (GeneratePhysicalResourceName (mName (poMeta virtualPod) @ ''-'' @ mUID (poMeta virtualPod)) (mNamespace (poMeta virtualPod))
          # map (\<lambda>(volumeName, _). tokenSecretNameFor virtualPod volumeName) (tokenSources virtualPod))
     })"

definition tokenRequest :: "pod \<Rightarrow> token_projection \<Rightarrow> token_request" where
  "tokenRequest virtualPod tp = \<lparr>trAudiences = (if length (tpAudience tp) \<noteq> 0 then [tpAudience tp] else []),
     trExpirationSeconds = tpExpirationSeconds tp,
     trBoundObjectRef = \<lparr>boKind = ''Pod'', boName = mName (poMeta virtualPod), boUID = mUID (poMeta virtualPod)\<rparr>,
     trToken = '''', trExpirationTimestamp = zeroTime\<rparr>"

definition tokenSecret :: "pod \<Rightarrow> string \<Rightarrow> string \<Rightarrow> string \<Rightarrow> secret" where
  "tokenSecret virtualPod namespace name token =
     \<lparr>seMeta = empty_meta\<lparr>mName := name, mNamespace := namespace,
        mLabels := [LabelManagedBy \<mapsto> LabelManagedByValue, LabelServiceAccountToken \<mapsto> ''true''],
        mAnnotations := [AnnotationVirtualPodName \<mapsto> mName (poMeta virtualPod),
          AnnotationVirtualPodNamespace \<mapsto> mNamespace (poMeta virtualPod),
          AnnotationVirtualPodUID \<mapsto> mUID (poMeta virtualPod),
          ''kubeocean.io/service-account'' \<mapsto> poServiceAccountName virtualPod]\<rparr>,
      seType = ''Opaque'', seData = [''token'' \<mapsto> token], seStringData = Map.empty\<rparr>"

definition storeToken :: "'s api \<Rightarrow> pod \<Rightarrow> string \<Rightarrow> string \<Rightarrow> string \<Rightarrow> bool \<Rightarrow> ('s, 'm, string res) prog" where
  "storeToken A virtualPod ns name token createIfNotExists = do {
     got \<leftarrow> get_secret A PhysicalClient ns name;
     case got of
       Inl err \<Rightarrow>
        (if \<not> IsNotFound err then return (Inl (Errorf (''failed to check if service account token secret exists: '' @ error_text err)))
         else if \<not> createIfNotExists then return (Inl err)
         else do {
           r \<leftarrow> Create A PhysicalClient (OSecret (tokenSecret virtualPod ns name token));
           return (case r of Inl e \<Rightarrow> Inl (Errorf (''failed to create service account token secret: '' @ error_text e)) | Inr _ \<Rightarrow> Inr name)
         })
     | Inr existingSecret \<Rightarrow>
        (if mget (seData existingSecret) ''token'' = EncodeToString token then return (Inr name)
         else do {
           r \<leftarrow> Update A PhysicalClient (OSecret (existingSecret\<lparr>seData := (seData existingSecret)(''token'' \<mapsto> token)\<rparr>));
           return (case r of Inl e \<Rightarrow> Inl (Errorf (''failed to update service account token secret: '' @ error_text e)) | Inr _ \<Rightarrow> Inr name)
         })
   }"

definition syncServiceAccountToken ::
  "pod_reconciler \<Rightarrow> 's api \<Rightarrow> string \<Rightarrow> token_projection \<Rightarrow> pod \<Rightarrow> bool \<Rightarrow> ('s, 'm, string res) pod_prog" where
  "syncServiceAccountToken r A volumeName tp virtualPod createIfNotExists = do {
     got \<leftarrow> GetServiceAccountToken (plTokenRequests (prLib r)) A (mNamespace (poMeta virtualPod))
       (poServiceAccountName virtualPod) (tokenRequest virtualPod tp);
     case got of
       Inl err \<Rightarrow> return (Inl (Errorf (''failed to get service account token: '' @ error_text err)))
     | Inr token \<Rightarrow> do {
         b \<leftarrow> binding;
         storeToken A virtualPod (bMountNamespace b) (tokenSecretNameFor virtualPod volumeName) (trToken token) createIfNotExists
       }
   }"

fun syncTokens ::
  "pod_reconciler \<Rightarrow> 's api \<Rightarrow> pod \<Rightarrow> bool \<Rightarrow> (string \<times> token_projection) list \<Rightarrow> (string \<times> string) list \<Rightarrow>
   ('s, 'm, (string \<times> string) list res) pod_prog" where
  "syncTokens r A virtualPod createIfNotExists [] names = return (Inr names)"
| "syncTokens r A virtualPod createIfNotExists ((volumeName, tp) # rest) names = do {
     got \<leftarrow> syncServiceAccountToken r A volumeName tp virtualPod createIfNotExists;
     case got of
       Inl err \<Rightarrow> (if \<not> createIfNotExists \<and> IsNotFound err then return (Inl err)
                  else return (Inl (Errorf (''failed to sync service account token: '' @ error_text err))))
     | Inr saName \<Rightarrow> syncTokens r A virtualPod createIfNotExists rest (AList.update volumeName saName names)
   }"

definition syncServiceAccountTokens ::
  "pod_reconciler \<Rightarrow> 's api \<Rightarrow> pod \<Rightarrow> bool \<Rightarrow> ('s, 'm, (string \<times> string) list res) pod_prog" where
  "syncServiceAccountTokens r A virtualPod createIfNotExists =
     syncTokens r A virtualPod createIfNotExists (tokenSources virtualPod) []"

section \<open>Dependent resources\<close>

definition expectKind :: "kind \<Rightarrow> obj res \<Rightarrow> obj res" where
  "expectKind k = decode (\<lambda>ob. if obj_kind ob = k then Some ob else None)"

definition syncResource ::
  "pod_reconciler \<Rightarrow> 's api \<Rightarrow> resource_type \<Rightarrow> kind \<Rightarrow> string \<Rightarrow> string \<Rightarrow> string \<Rightarrow> sync_resource_opt option \<Rightarrow>
   ('s, 'm, string res) prog" where
  "syncResource r A resourceType k virtualNamespace resourceName physicalNamespace opt = do {
     got \<leftarrow> Get A VirtualClient k virtualNamespace resourceName;
     case expectKind k got of
       Inl err \<Rightarrow> (if IsNotFound err then return (Inl (Errorf (''virtual resource not found: '' @ error_text err)))
                  else return (Inl err))
     | Inr virtualObj \<Rightarrow> do {
         let physicalName = GeneratePhysicalResourceName resourceName virtualNamespace;
         on_ok (CheckPhysicalResourceExists A resourceType physicalName physicalNamespace k) (\<lambda>physical.
           if (case physical of None \<Rightarrow> False | Some ob \<Rightarrow>
                mget (mAnnotations (obj_meta ob)) AnnotationVirtualName \<noteq> resourceName \<or>
                mget (mAnnotations (obj_meta ob)) AnnotationVirtualNamespace \<noteq> virtualNamespace)
           then return (Inl (Errorf ''physical resource is owned by a different virtual resource''))
           else on_ok (UpdateVirtualResourceLabelsAndAnnotations A (prClusterID r) virtualObj physicalName physicalNamespace opt) (\<lambda>_.
             if physical = None
             then on_ok (CreatePhysicalResourceWithOpt A resourceType virtualObj physicalName physicalNamespace opt)
               (\<lambda>_. return (Inr physicalName))
             else return (Inr physicalName)))
       }
   }"

definition syncConfigMap :: "pod_reconciler \<Rightarrow> 's api \<Rightarrow> string \<Rightarrow> string \<Rightarrow> ('s, 'm, string res) pod_prog" where
  "syncConfigMap r A virtualNamespace configMapName = do {
     b \<leftarrow> binding; syncResource r A RTConfigMap KConfigMap virtualNamespace configMapName (bMountNamespace b) None }"

definition syncSecret :: "pod_reconciler \<Rightarrow> 's api \<Rightarrow> string \<Rightarrow> string \<Rightarrow> ('s, 'm, string res) pod_prog" where
  "syncSecret r A virtualNamespace secretName = do {
     b \<leftarrow> binding; syncResource r A RTSecret KSecret virtualNamespace secretName (bMountNamespace b) None }"

definition no_sync_opt :: sync_resource_opt where
  "no_sync_opt = \<lparr>PhysicalPVName = '''', IsPVRefSecret = False, PhysicalPVRefSecretName = ''''\<rparr>"

definition syncPV :: "pod_reconciler \<Rightarrow> 's api \<Rightarrow> string \<Rightarrow> ('s, 'm, string res) prog" where
  "syncPV r A pvName = do {
     got \<leftarrow> Get A VirtualClient KPV '''' pvName;
     case decode the_pv got of
       Inl err \<Rightarrow> return (Inl (Wrapf ''failed to get virtual PV'' err))
     | Inr virtualPV \<Rightarrow> (case Option.bind (pvCSI virtualPV) csiNodePublishSecretRef of
          None \<Rightarrow> syncResource r A RTPV KPV '''' pvName '''' None
        | Some secretRef \<Rightarrow>
            on_ok_wrap ''failed to sync CSI secret''
              (syncResource r A RTSecret KSecret (srNamespace secretRef) (srName secretRef) (srNamespace secretRef)
                (Some (no_sync_opt\<lparr>IsPVRefSecret := True\<rparr>)))
              (\<lambda>physicalSecretName. syncResource r A RTPV KPV '''' pvName ''''
                (Some (no_sync_opt\<lparr>PhysicalPVRefSecretName := physicalSecretName\<rparr>))))
   }"

definition syncPVC :: "pod_reconciler \<Rightarrow> 's api \<Rightarrow> string \<Rightarrow> string \<Rightarrow> ('s, 'm, string res) pod_prog" where
  "syncPVC r A virtualNamespace pvcName = do {
     got \<leftarrow> Get A VirtualClient KPVC virtualNamespace pvcName;
     case decode the_pvc got of
       Inl err \<Rightarrow> return (Inl (Wrapf ''failed to get PVC'' err))
     | Inr pvc \<Rightarrow>
        (if pvcPhase pvc \<noteq> ''Bound'' then return (Inl (Errorf ''PVC is not bound''))
         else if pvcVolumeName pvc = '''' then return (Inl (Errorf ''PVC is bound but has no volumeName''))
         else on_ok_wrap ''failed to sync associated PV'' (syncPV r A (pvcVolumeName pvc)) (\<lambda>physicalPVName. do {
           b \<leftarrow> binding;
           syncResource r A RTPVC KPVC virtualNamespace pvcName (bMountNamespace b)
             (Some (no_sync_opt\<lparr>PhysicalPVName := physicalPVName\<rparr>)) }))
   }"

text \<open>The loops over the references: the result is the mapping from virtual to physical names.\<close>

fun syncRefs ::
  "(string \<Rightarrow> ('w, string res) state) \<Rightarrow> string \<Rightarrow> refs \<Rightarrow> ('w, (string \<times> string) list res) state" where
  "syncRefs sync ns [] = return (Inr [])"
| "syncRefs sync ns ((name, required) # refs) = do {
     got \<leftarrow> sync name;
     case got of
       Inl err \<Rightarrow>
        (if \<not> required \<and> Contains (error_text err) ''virtual resource not found''
         then on_ok (syncRefs sync ns refs) (\<lambda>m. return (Inr ((name, GeneratePhysicalResourceName name ns) # m)))
         else return (Inl err))
     | Inr physicalName \<Rightarrow> on_ok (syncRefs sync ns refs) (\<lambda>m. return (Inr ((name, physicalName) # m)))
   }"

definition addConfigMapsOf :: "pod \<Rightarrow> ('s, 'm, unit) pod_prog" where
  "addConfigMapsOf pod = (let refs = CollectConfigMapRefs pod; m = poMeta pod in
     if length refs > 0
     then modifies (pwConfigMaps_update (addNeeded (mNamespace m) (map fst refs) (mNamespace m) (mName m)))
     else return ())"

definition addSecretsOf :: "pod \<Rightarrow> ('s, 'm, unit) pod_prog" where
  "addSecretsOf pod = (let refs = CollectSecretRefs pod; m = poMeta pod in
     if length refs > 0
     then modifies (pwSecrets_update (AddSecretsNeedsSynced (mNamespace m) (map fst refs) (mNamespace m) (mName m)))
     else return ())"

definition syncConfigMaps :: "pod_reconciler \<Rightarrow> 's api \<Rightarrow> pod \<Rightarrow> ('s, 'm, (string \<times> string) list res) pod_prog" where
  "syncConfigMaps r A virtualPod = do {
     addConfigMapsOf virtualPod;
     syncRefs (syncConfigMap r A (mNamespace (poMeta virtualPod))) (mNamespace (poMeta virtualPod)) (CollectConfigMapRefs virtualPod)
   }"

definition syncSecrets :: "pod_reconciler \<Rightarrow> 's api \<Rightarrow> pod \<Rightarrow> ('s, 'm, (string \<times> string) list res) pod_prog" where
  "syncSecrets r A virtualPod = do {
     addSecretsOf virtualPod;
     syncRefs (syncSecret r A (mNamespace (poMeta virtualPod))) (mNamespace (poMeta virtualPod)) (CollectSecretRefs virtualPod)
   }"

definition syncPVCs :: "pod_reconciler \<Rightarrow> 's api \<Rightarrow> pod \<Rightarrow> ('s, 'm, (string \<times> string) list res) pod_prog" where
  "syncPVCs r A virtualPod =
     syncRefs (syncPVC r A (mNamespace (poMeta virtualPod))) (mNamespace (poMeta virtualPod))
       (map (\<lambda>n. (n, True)) (collectPVCRefs virtualPod))"

text \<open>One attempt of the poll: all copies that are required are in the cache of the physical cluster.\<close>

fun allExist :: "'s api \<Rightarrow> string \<Rightarrow> (kind \<times> string) list \<Rightarrow> ('s, 'm, bool res) prog" where
  "allExist A ns [] = return (Inr True)"
| "allExist A ns ((k, n) # xs) = do {
     got \<leftarrow> Get A PhysicalClient k ns n;
     case got of
       Inl err \<Rightarrow> (if \<not> IsNotFound err then return (Inl err) else return (Inr False))
     | Inr _ \<Rightarrow> allExist A ns xs
   }"

definition toPoll ::
  "refs \<Rightarrow> refs \<Rightarrow> (string \<times> string) list \<Rightarrow> (string \<times> string) list \<Rightarrow> (string \<times> string) list \<Rightarrow> (string \<times> string) list \<Rightarrow> (kind \<times> string) list" where
  "toPoll cmRefs seRefs cms ses pvcs tokens =
     map (\<lambda>(_, n). (KConfigMap, n)) (filter (\<lambda>(v, _). map_of cmRefs v = Some True) cms) @
     map (\<lambda>(_, n). (KSecret, n)) (filter (\<lambda>(v, _). map_of seRefs v = Some True) ses) @
     map (\<lambda>(_, n). (KPVC, n)) pvcs @ map (\<lambda>(_, n). (KSecret, n)) tokens"

definition pollPhysicalResources ::
  "(('s, 'm, bool res) pod_prog \<Rightarrow> ('s, 'm, unit res) pod_prog) \<Rightarrow> 's api \<Rightarrow> (kind \<times> string) list \<Rightarrow> ('s, 'm, unit res) pod_prog" where
  "pollPhysicalResources poll A wanted = do {
     b \<leftarrow> binding;
     on_ok_wrap ''error polling physical resources'' (poll (allExist A (bMountNamespace b) wanted)) (\<lambda>_. return (Inr ()))
   }"

definition syncDependentResources ::
  "(('s, 'm, bool res) pod_prog \<Rightarrow> ('s, 'm, unit res) pod_prog) \<Rightarrow> pod_reconciler \<Rightarrow> 's api \<Rightarrow> pod \<Rightarrow>
   ('s, 'm, ResourceMapping res) pod_prog" where
  "syncDependentResources poll r A virtualPod =
     on_ok (syncConfigMaps r A virtualPod) (\<lambda>cms.
     on_ok (syncSecrets r A virtualPod) (\<lambda>ses.
     on_ok (syncPVCs r A virtualPod) (\<lambda>pvcs.
     on_ok (if poServiceAccountName virtualPod \<noteq> '''' then syncServiceAccountTokens r A virtualPod True else return (Inr [])) (\<lambda>tokens.
     on_ok (pollPhysicalResources poll A (toPoll (CollectConfigMapRefs virtualPod) (CollectSecretRefs virtualPod) cms ses pvcs tokens)) (\<lambda>_.
       return (Inr \<lparr>rmConfigMaps = map_of cms, rmSecrets = map_of ses, rmPVCs = map_of pvcs,
         rmServiceAccountTokenName = map_of tokens, rmConfigMapsRequired = map_of (CollectConfigMapRefs virtualPod),
         rmSecretsRequired = map_of (CollectSecretRefs virtualPod)\<rparr>))))))"

section \<open>The spec of the physical pod\<close>

definition getKubernetesIntranetIPAndPort :: "'s api \<Rightarrow> ('s, 'm, (string \<times> string) res) pod_prog" where
  "getKubernetesIntranetIPAndPort A = do {
     ip0 \<leftarrow> reads pwIntranetIP;
     port0 \<leftarrow> reads pwIntranetPort;
     if ip0 \<noteq> '''' \<and> port0 \<noteq> '''' then return (Inr (ip0, port0))
     else do {
       got \<leftarrow> Get A VirtualClient KService ''default'' ''kubernetes-intranet'';
       case decode the_service got of
         Inl err \<Rightarrow> return (Inl (Errorf (''failed to get kubernetes-intranet service: '' @ error_text err)))
       | Inr service \<Rightarrow> (case (svIngressIPs service, svPorts service) of
            ([], _) \<Rightarrow> return (Inl (Errorf ''kubernetes-intranet service has no loadbalancer ingress''))
          | (ip # _, ports) \<Rightarrow>
              (if ip = '''' then return (Inl (Errorf ''kubernetes-intranet service loadbalancer ingress IP is empty''))
               else (case ports of
                   [] \<Rightarrow> return (Inl (Errorf ''kubernetes-intranet service has no ports''))
                 | port # _ \<Rightarrow>
                    (if port = 0 then return (Inl (Errorf ''kubernetes-intranet service first port is invalid''))
                     else do {
                       modifies (pwIntranetIP_update (\<lambda>_. ip));
                       modifies (pwIntranetPort_update (\<lambda>_. Itoa port));
                       return (Inr (ip, Itoa port))
                     }))))
     }
   }"

definition getKubeDnsIntranetIP :: "'s api \<Rightarrow> ('s, 'm, string res) pod_prog" where
  "getKubeDnsIntranetIP A = do {
     ip0 \<leftarrow> reads pwDnsIP;
     if ip0 \<noteq> '''' then return (Inr ip0)
     else do {
       got \<leftarrow> Get A VirtualClient KService ''kube-system'' ''kube-dns-intranet'';
       case decode the_service got of
         Inl err \<Rightarrow> return (Inl (Errorf (''failed to get kube-dns-intranet service: '' @ error_text err)))
       | Inr service \<Rightarrow> (case svIngressIPs service of
            [] \<Rightarrow> return (Inl (Errorf ''kube-dns-intranet service has no loadbalancer ingress''))
          | ip # _ \<Rightarrow>
              (if ip = '''' then return (Inl (Errorf ''kube-dns-intranet service loadbalancer ingress IP is empty''))
               else do { modifies (pwDnsIP_update (\<lambda>_. ip)); return (Inr ip) }))
     }
   }"

definition defaultPriorityClass :: priority_class where
  "defaultPriorityClass = \<lparr>pcMeta = empty_meta\<lparr>mName := DefaultPriorityClassName,
       mLabels := [LabelManagedBy \<mapsto> LabelManagedByValue]\<rparr>, pcValue = DefaultPriorityClassValue,
     pcPreemptionPolicy = Some ''PreemptLowerPriority'', pcDescription = ''Default PriorityClass for Kubeocean physical pods''\<rparr>"

definition ensureDefaultPriorityClass :: "'s api \<Rightarrow> ('s, 'm, unit res) prog" where
  "ensureDefaultPriorityClass A = do {
     got \<leftarrow> Get A PhysicalClient KPriorityClass '''' DefaultPriorityClassName;
     case got of
       Inr _ \<Rightarrow> return (Inr ())
     | Inl err \<Rightarrow>
        (if \<not> IsNotFound err then return (Inl err)
         else do {
           r \<leftarrow> Create A PhysicalClient (OPriorityClass defaultPriorityClass);
           return (case r of Inl e \<Rightarrow> (if \<not> IsAlreadyExists e then Inl e else Inr ()) | Inr _ \<Rightarrow> Inr ())
         })
   }"

definition pinTo :: "string \<Rightarrow> affinity" where
  "pinTo node = NodeAffinity [\<lparr>MatchExpressions = [],
     MatchFields = [\<lparr>reqKey = ''metadata.name'', reqOperator = OpIn, reqValues = [node]\<rparr>]\<rparr>]"

definition scheduleSpec :: "cluster_binding \<Rightarrow> string \<Rightarrow> pod \<Rightarrow> pod" where
  "scheduleSpec b physicalNodeName spec =
    (let spec = (if bDirectScheduling b then spec\<lparr>poNodeName := physicalNodeName, poAffinity := None\<rparr>
                 else spec\<lparr>poNodeName := '''', poAffinity := Some (pinTo physicalNodeName)\<rparr>)
     in spec\<lparr>poNodeSelector := Map.empty, poSchedulerName := ''''\<rparr>)"

definition prioritySpec :: "string \<Rightarrow> pod \<Rightarrow> pod" where
  "prioritySpec priorityClassName spec = spec\<lparr>poPriorityClassName := priorityClassName, poPriority := None,
     poPreemptionPolicy := None, poServiceAccountName := '''', poDeprecatedServiceAccount := ''''\<rparr>"

definition hostAliasesSpec :: "string \<Rightarrow> string \<Rightarrow> string \<Rightarrow> pod \<Rightarrow> pod" where
  "hostAliasesSpec ip port virtualPodName spec =
    (let inject = (\<lambda>c. injectHostnameEnvVar virtualPodName (injectKubernetesServiceEnvVars ip port c))
     in spec\<lparr>poHostAliases := poHostAliases spec @ [(ip, [''kubernetes.default.svc'', ''kubernetes.default'', ''kubernetes'',
               ''kubernetes.default.svc.cluster.local''])],
             poContainers := map inject (poContainers spec), poInitContainers := map inject (poInitContainers spec)\<rparr>)"

definition addHostAliasesAndEnvVars :: "'s api \<Rightarrow> pod \<Rightarrow> string \<Rightarrow> ('s, 'm, pod res) pod_prog" where
  "addHostAliasesAndEnvVars A spec virtualPodName = do {
     got \<leftarrow> getKubernetesIntranetIPAndPort A;
     return (case got of
         Inl err \<Rightarrow> Inl (Errorf (''failed to get kubernetes-intranet IP and port: '' @ error_text err))
       | Inr (ip, port) \<Rightarrow> Inr (hostAliasesSpec ip port virtualPodName spec))
   }"

definition configureDNSPolicy :: "'s api \<Rightarrow> pod \<Rightarrow> string \<Rightarrow> ('s, 'm, pod res) pod_prog" where
  "configureDNSPolicy A spec namespace =
    (if poDNSPolicy spec = ''ClusterFirst'' \<or> poDNSPolicy spec = ''ClusterFirstWithHostNet'' then do {
       got \<leftarrow> getKubeDnsIntranetIP A;
       return (case got of
           Inl err \<Rightarrow> Inl (Errorf (''failed to get kube-dns-intranet IP: '' @ error_text err))
         | Inr ip \<Rightarrow> Inr (spec\<lparr>poDNSPolicy := ''None'', poDNSConfig := Some \<lparr>dnsNameservers = [ip],
             dnsOptions = [(''ndots'', Some ''5'')],
             dnsSearches = [namespace @ ''.svc.cluster.local'', ''svc.cluster.local'', ''cluster.local'']\<rparr>\<rparr>))
     } else return (Inr spec))"

definition hostnameSpec :: "pod \<Rightarrow> pod \<Rightarrow> pod res" where
  "hostnameSpec virtualPod spec =
    (if poHostname spec \<noteq> '''' then Inr spec
     else (case TruncateHostnameIfNeeded (mName (poMeta virtualPod)) of
         Inl err \<Rightarrow> Inl (Wrapf ''failed to truncate hostname'' err)
       | Inr hostname \<Rightarrow> Inr (spec\<lparr>poHostname := hostname\<rparr>)))"

definition buildPhysicalPodSpec ::
  "'s api \<Rightarrow> pod \<Rightarrow> string \<Rightarrow> ResourceMapping \<Rightarrow> ('s, 'm, pod res) pod_prog" where
  "buildPhysicalPodSpec A virtualPod physicalNodeName resourceMapping = do {
     b \<leftarrow> binding;
     on_ok_wrap ''failed to get cluster binding'' (get_binding A VirtualClient (mName (bMeta b))) (\<lambda>cb. do {
       modifies (pwBinding_update (\<lambda>_. cb));
       let spec = scheduleSpec cb physicalNodeName virtualPod;
       let custom = bPodPriorityClassName cb;
       on_ok_wrap ''failed to ensure default PriorityClass''
         (if custom = '''' then ensureDefaultPriorityClass A else return (Inr ())) (\<lambda>_. do {
           let spec = prioritySpec (if custom = '''' then DefaultPriorityClassName else custom) spec;
           case bind_res (hostnameSpec virtualPod spec) (rewriteNames virtualPod resourceMapping) of
             Inl err \<Rightarrow> return (Inl err)
           | Inr spec \<Rightarrow>
               on_ok (addHostAliasesAndEnvVars A spec (mName (poMeta virtualPod))) (\<lambda>spec.
                 configureDNSPolicy A spec (mNamespace (poMeta virtualPod)))
         })
     })
   }"

definition getDeploymentFromReplicaSet :: "'s api \<Rightarrow> string \<Rightarrow> string \<Rightarrow> ('s, 'm, string res) prog" where
  "getDeploymentFromReplicaSet A namespace replicasetName = do {
     got \<leftarrow> Get A VirtualClient KReplicaSet namespace replicasetName;
     return (case decode the_replicaset got of
         Inl err \<Rightarrow> Inl (Wrapf ''failed to get ReplicaSet'' err)
       | Inr m \<Rightarrow> Inr (case find (\<lambda>ref. orKind ref = ''Deployment'') (mOwnerReferences m) of
            Some ref \<Rightarrow> orName ref | None \<Rightarrow> ''''))
   }"

definition getWorkloadInfo :: "'s api \<Rightarrow> pod \<Rightarrow> ('s, 'm, (string \<times> string) res) prog" where
  "getWorkloadInfo A pod = (case mOwnerReferences (poMeta pod) of
       [] \<Rightarrow> return (Inr (''pod'', ''''))
     | ref # _ \<Rightarrow>
        (if orKind ref = ''ReplicaSet'' then
           on_ok_wrap ''failed to get deployment from replicaset''
             (getDeploymentFromReplicaSet A (mNamespace (poMeta pod)) (orName ref)) (\<lambda>deploymentName.
               if deploymentName \<noteq> '''' then return (Inr (''deployment'', deploymentName))
               else return (Inr (''replicaset'', orName ref)))
         else if orKind ref = ''Deployment'' then return (Inr (''deployment'', orName ref))
         else if orKind ref = ''DaemonSet'' then return (Inr (''daemonset'', orName ref))
         else if orKind ref = ''StatefulSet'' then return (Inr (''statefulset'', orName ref))
         else if orKind ref = ''CronJob'' then return (Inr (''cronjob'', orName ref))
         else if orKind ref = ''Job'' then return (Inr (''job'', orName ref))
         else return (Inr (ToLower (orKind ref), orName ref))))"

section \<open>Creating the pod\<close>

definition physicalPodFor :: "pod_codec \<Rightarrow> pod \<Rightarrow> pod \<Rightarrow> string \<Rightarrow> string \<Rightarrow> pod" where
  "physicalPodFor C virtualPod spec workloadType workloadName =
     spec\<lparr>poMeta := empty_meta\<lparr>mName := snd (physicalPlace virtualPod), mNamespace := fst (physicalPlace virtualPod),
        mLabels := buildPhysicalPodLabels virtualPod workloadType workloadName,
        mAnnotations := buildPhysicalPodAnnotations C virtualPod\<rparr>, poStatus := empty_status\<rparr>"

definition createPhysicalPod ::
  "(('s, 'm, bool res) pod_prog \<Rightarrow> ('s, 'm, unit res) pod_prog) \<Rightarrow> pod_reconciler \<Rightarrow> 's api \<Rightarrow> pod \<Rightarrow> string \<Rightarrow>
   ('s, 'm, unit res) pod_prog" where
  "createPhysicalPod poll r A virtualPod physicalNodeName =
     on_ok (syncDependentResources poll r A virtualPod) (\<lambda>resourceMapping.
     on_ok (buildPhysicalPodSpec A virtualPod physicalNodeName resourceMapping) (\<lambda>podSpec.
     on_ok (getWorkloadInfo A virtualPod) (\<lambda>(workloadType, workloadName). do {
       created \<leftarrow> Create A PhysicalClient (OPod (physicalPodFor (plCodec (prLib r)) virtualPod podSpec workloadType workloadName));
       case created of
         Inr _ \<Rightarrow> return (Inr ())
       | Inl err \<Rightarrow>
          (if IsAlreadyExists err
           then on_ok (getPhysicalPodWithFallback A (fst (physicalPlace virtualPod)) (snd (physicalPlace virtualPod)))
             (\<lambda>_. return (Inr ()))
           else return (Inl err))
     })))"

definition annotatePod :: "pod \<Rightarrow> (string \<times> string) list \<Rightarrow> pod" where
  "annotatePod p kvs = p\<lparr>poMeta := (poMeta p)\<lparr>mAnnotations := mAnnotations (poMeta p) ++ map_of kvs\<rparr>\<rparr>"

definition statusUpdatePod :: "'s api \<Rightarrow> pod \<Rightarrow> ('s, 'm, ctrl_result res) prog" where
  "statusUpdatePod A p = on_ok (StatusUpdate A VirtualClient (OPod p)) (\<lambda>_. return (Inr (Result 0)))"

definition updateVirtualPodWithPhysicalUID :: "'s api \<Rightarrow> pod \<Rightarrow> string \<Rightarrow> ('s, 'm, ctrl_result res) prog" where
  "updateVirtualPodWithPhysicalUID A virtualPod physicalUID =
     statusUpdatePod A (annotatePod virtualPod [(AnnotationPhysicalPodUID, physicalUID)])"

definition setVirtualPodFailed :: "'s api \<Rightarrow> pod \<Rightarrow> string \<Rightarrow> ('s, 'm, ctrl_result res) prog" where
  "setVirtualPodFailed A virtualPod reason =
     statusUpdatePod A (virtualPod\<lparr>poStatus := (poStatus virtualPod)\<lparr>psPhase := ''Failed'',
       psReason := ''PhysicalPodLost'', psMessage := reason\<rparr>\<rparr>)"

definition recordPhysicalPodMapping :: "'s api \<Rightarrow> pod \<Rightarrow> pod \<Rightarrow> ('s, 'm, ctrl_result res) prog" where
  "recordPhysicalPodMapping A virtualPod physicalPod =
     statusUpdatePod A (annotatePod virtualPod [(AnnotationPhysicalPodNamespace, mNamespace (poMeta physicalPod)),
       (AnnotationPhysicalPodName, mName (poMeta physicalPod)), (AnnotationPhysicalPodUID, mUID (poMeta physicalPod))])"

definition generatePhysicalPodMapping :: "'s api \<Rightarrow> pod \<Rightarrow> ('s, 'm, ctrl_result res) pod_prog" where
  "generatePhysicalPodMapping A virtualPod = do {
     b \<leftarrow> binding;
     let physicalNamespace = bMountNamespace b;
     let physicalName = GeneratePhysicalResourceName (mName (poMeta virtualPod)) (mNamespace (poMeta virtualPod));
     if physicalNamespace = '''' then return (Inl (Errorf ''ClusterBinding MountNamespace is empty''))
     else do {
       got \<leftarrow> getPhysicalPodWithFallback A physicalNamespace physicalName;
       case got of
         Inr existingPod \<Rightarrow>
          (if isPhysicalPodOwnedByVirtualPod existingPod virtualPod then recordPhysicalPodMapping A virtualPod existingPod
           else on_ok (deleteMismatchedPhysicalPodIfNeeded A virtualPod existingPod)
             (\<lambda>_. return (Inl (Errorf ''physical pod name conflict''))))
       | Inl err \<Rightarrow>
          (if \<not> IsNotFound err then return (Inl err)
           else statusUpdatePod A (annotatePod virtualPod [(AnnotationPhysicalPodNamespace, physicalNamespace),
             (AnnotationPhysicalPodName, physicalName)]))
     }
   }"

definition handlePhysicalPodCreation ::
  "(('s, 'm, bool res) pod_prog \<Rightarrow> ('s, 'm, unit res) pod_prog) \<Rightarrow> pod_reconciler \<Rightarrow> 's api \<Rightarrow> pod \<Rightarrow> string \<Rightarrow>
   ('s, 'm, ctrl_result res) pod_prog" where
  "handlePhysicalPodCreation poll r A virtualPod physicalNodeName =
    (let physicalNamespace = fst (physicalPlace virtualPod); physicalName = snd (physicalPlace virtualPod);
         physicalUID = mget (mAnnotations (poMeta virtualPod)) AnnotationPhysicalPodUID in
     if physicalNamespace \<noteq> '''' \<and> physicalName \<noteq> '''' \<and> physicalUID \<noteq> ''''
     then setVirtualPodFailed A virtualPod ''Physical pod was deleted unexpectedly''
     else if physicalUID = '''' \<and> physicalName = '''' then generatePhysicalPodMapping A virtualPod
     else if physicalUID = '''' \<and> physicalName \<noteq> '''' \<and> physicalNamespace \<noteq> '''' then do {
       made \<leftarrow> createPhysicalPod poll r A virtualPod physicalNodeName;
       case made of
         Inl err \<Rightarrow> do {
           emit (EvRecord (mNamespace (poMeta virtualPod)) (mName (poMeta virtualPod)) ''FailedCreatePod'');
           return (Inl err) }
       | Inr _ \<Rightarrow> return (Inr (Result 0))
     }
     else return (Inr (Result 0)))"

section \<open>Synchronizing metadata\<close>

definition syncedPod :: "pod_codec \<Rightarrow> pod \<Rightarrow> pod \<Rightarrow> ExpectedPodMetadata \<Rightarrow> string \<Rightarrow> pod \<times> bool" where
  "syncedPod C virtualPod physicalPod previousExpected encoded =
    (let m = poMeta physicalPod; new = expectedPodOf virtualPod;
         (annotations, changedA) = syncMetadata (mAnnotations m) (epAnnotations previousExpected) (epAnnotations new);
         (labels, changedL) = syncMetadata (mLabels m) (epLabels previousExpected) (epLabels new);
         changedE = (encoded \<noteq> mget annotations AnnotationExpectedMetadata);
         annotations = (if changedE then annotations(AnnotationExpectedMetadata \<mapsto> encoded) else annotations);
         changedD = (poActiveDeadlineSeconds physicalPod \<noteq> poActiveDeadlineSeconds virtualPod)
     in (physicalPod\<lparr>poMeta := m\<lparr>mAnnotations := annotations, mLabels := labels\<rparr>,
           poActiveDeadlineSeconds := poActiveDeadlineSeconds virtualPod\<rparr>,
         changedA \<or> changedL \<or> changedE \<or> changedD))"

definition syncEphemeral :: "pod_lib \<Rightarrow> 's api \<Rightarrow> pod \<Rightarrow> pod \<Rightarrow> ('s, 'm, unit res) prog" where
  "syncEphemeral L A virtualPod updatedPhysicalPod =
    (if plDeepEqual L (poEphemeralContainers updatedPhysicalPod) (poEphemeralContainers virtualPod) then return (Inr ())
     else on_ok_wrap ''failed to patch physical pod ephemeral containers''
       (SubPatch A PhysicalClient ''ephemeralcontainers'' (OPod updatedPhysicalPod)
         (OPod (updatedPhysicalPod\<lparr>poEphemeralContainers := poEphemeralContainers virtualPod\<rparr>)))
       (\<lambda>_. return (Inr ())))"

text \<open>\<^verbatim>\<open>client.Update\<close> leaves the server's answer in the object, which is then compared again.\<close>

definition syncVirtualPodMetadataAndSpecToPhysicalPod ::
  "pod_reconciler \<Rightarrow> 's api \<Rightarrow> pod \<Rightarrow> pod \<Rightarrow> ('s, 'm, unit res) prog" where
  "syncVirtualPodMetadataAndSpecToPhysicalPod r A virtualPod physicalPod =
    (let C = plCodec (prLib r) in
     if mget (mAnnotations (poMeta physicalPod)) AnnotationExpectedMetadata = '''' then return (Inr ())
     else (case getExpectedPodMetadataFromAnnotation C physicalPod of
         Inl err \<Rightarrow> return (Inl (Wrapf ''failed to get previous expected metadata'' err))
       | Inr previousExpected \<Rightarrow>
         (case EncodeExpected C (expectedPodOf virtualPod) of
            Inl err \<Rightarrow> return (Inl (Wrapf ''failed to generate expected metadata'' err))
          | Inr encoded \<Rightarrow>
            (case syncedPod C virtualPod physicalPod previousExpected encoded of (updatedPhysicalPod, needsUpdate) \<Rightarrow>
               if needsUpdate then do {
                 u \<leftarrow> Update A PhysicalClient (OPod updatedPhysicalPod);
                 case decode the_pod u of
                   Inl err \<Rightarrow> return (Inl (Wrapf ''failed to update physical pod metadata'' err))
                 | Inr answer \<Rightarrow> syncEphemeral (prLib r) A virtualPod answer
               }
               else syncEphemeral (prLib r) A virtualPod updatedPhysicalPod))))"

section \<open>Reconcile\<close>

definition handleVirtualPodDeletion :: "'s api \<Rightarrow> pod \<Rightarrow> ('s, 'm, ctrl_result res) pod_prog" where
  "handleVirtualPodDeletion A virtualPod =
     on_ok (if poServiceAccountName virtualPod \<noteq> '''' then cleanupServiceAccountToken A virtualPod else return (Inr ())) (\<lambda>_.
       case physicalPlace virtualPod of (physicalNamespace, physicalName) \<Rightarrow>
       if physicalNamespace = '''' \<or> physicalName = '''' then forceDeleteVirtualPod A virtualPod
       else do {
         got \<leftarrow> getPhysicalPodWithFallback A physicalNamespace physicalName;
         case got of
           Inl err \<Rightarrow> (if IsNotFound err then forceDeleteVirtualPod A virtualPod else return (Inl err))
         | Inr physicalPod \<Rightarrow>
            (if \<not> belongsTo physicalPod virtualPod then forceDeleteVirtualPod A virtualPod
             else deletePhysicalPodOf A physicalPod)
       })"

definition handleVirtualPodNotFound :: "'s api \<Rightarrow> string \<Rightarrow> string \<Rightarrow> ('s, 'm, ctrl_result res) pod_prog" where
  "handleVirtualPodNotFound A namespace name = do {
     modifies (pwConfigMaps_update (deleteNeeded namespace name));
     modifies (pwSecrets_update (DeleteSecretsNeedsSynced namespace name));
     b \<leftarrow> binding;
     let physicalNamespace = bMountNamespace b;
     if physicalNamespace = '''' then return (Inr (Result 0))
     else do {
       got \<leftarrow> getPhysicalPodWithFallback A physicalNamespace (GeneratePhysicalResourceName name namespace);
       case got of
         Inl err \<Rightarrow> (if IsNotFound err then return (Inr (Result 0)) else return (Inl err))
       | Inr physicalPod \<Rightarrow> deletePhysicalPodOf A physicalPod
     }
   }"

definition syncExistingPod :: "pod_reconciler \<Rightarrow> 's api \<Rightarrow> pod \<Rightarrow> pod \<Rightarrow> ('s, 'm, ctrl_result res) pod_prog" where
  "syncExistingPod r A virtualPod physicalPod =
    (if mget (mAnnotations (poMeta virtualPod)) AnnotationPhysicalPodUID = ''''
     then updateVirtualPodWithPhysicalUID A virtualPod (mUID (poMeta physicalPod))
     else on_ok (syncVirtualPodMetadataAndSpecToPhysicalPod r A virtualPod physicalPod) (\<lambda>_.
       if poNodeName physicalPod = '''' then handleUnScheduledPhysicalPod A virtualPod physicalPod
       else if poServiceAccountName virtualPod \<noteq> '''' then do {
         got \<leftarrow> syncServiceAccountTokens r A virtualPod False;
         case got of
           Inl err \<Rightarrow> (if \<not> IsNotFound err then return (Inl err) else return (Inr (Result 0)))
         | Inr _ \<Rightarrow> return (Inr (Result (600 * Second)))
       }
       else return (Inr (Result 0))))"

definition ReconcileVirtualPod ::
  "(('s, 'm, bool res) pod_prog \<Rightarrow> ('s, 'm, unit res) pod_prog) \<Rightarrow> pod_reconciler \<Rightarrow> 's api \<Rightarrow> string \<Rightarrow> string \<Rightarrow>
   ('s, 'm, ctrl_result res) pod_prog" where
  "ReconcileVirtualPod poll r A namespace name = do {
     got \<leftarrow> get_pod A VirtualClient namespace name;
     case got of
       Inl err \<Rightarrow> (if IsNotFound err then handleVirtualPodNotFound A namespace name else return (Inl err))
     | Inr virtualPod \<Rightarrow>
        (if poNodeName virtualPod = '''' then return (Inr (Result 0))
         else on_ok (shouldManageVirtualPod r A virtualPod) (\<lambda>(shouldManage, physicalNodeName).
           if \<not> shouldManage then return (Inr (Result 0))
           else if mDeletionTimestamp (poMeta virtualPod) \<noteq> None then handleVirtualPodDeletion A virtualPod
           else do {
             create \<leftarrow> shouldCreatePhysicalPod A virtualPod;
             if \<not> create then return (Inr (Result 0))
             else on_ok (checkPhysicalPodExists A virtualPod) (\<lambda>physical. case physical of
                 None \<Rightarrow> handlePhysicalPodCreation poll r A virtualPod physicalNodeName
               | Some physicalPod \<Rightarrow> on_ok (deleteMismatchedPhysicalPodIfNeeded A virtualPod physicalPod) (\<lambda>_.
                   syncExistingPod r A virtualPod physicalPod))
           }))
   }"

section \<open>Start and events\<close>

fun initPods :: "pod_reconciler \<Rightarrow> 's api \<Rightarrow> pod list \<Rightarrow> ('s, 'm, unit res) pod_prog" where
  "initPods r A [] = return (Inr ())"
| "initPods r A (pod # pods) = do {
     create \<leftarrow> shouldCreatePhysicalPod A pod;
     if \<not> create then initPods r A pods
     else on_ok (shouldManageVirtualPod r A pod) (\<lambda>(shouldManage, _).
       if \<not> shouldManage then initPods r A pods
       else do { addConfigMapsOf pod; addSecretsOf pod; initPods r A pods })
   }"

definition InitPodConfigmapsAndSecrets :: "pod_reconciler \<Rightarrow> 's api \<Rightarrow> ('s, 'm, unit res) pod_prog" where
  "InitPodConfigmapsAndSecrets r A =
     on_ok_wrap ''failed to list pods'' (list_pods A VirtualClient list_all_objs) (initPods r A)"

definition handlePhysicalPodEvent :: "pod \<Rightarrow> ('s, 'm, unit) prog" where
  "handlePhysicalPodEvent pod =
    (let a = mAnnotations (poMeta pod) in
     if mget (mLabels (poMeta pod)) LabelManagedBy \<noteq> LabelManagedByValue then return ()
     else if mget a AnnotationVirtualPodNamespace = '''' \<or> mget a AnnotationVirtualPodName = '''' \<or>
             mget a AnnotationVirtualPodUID = '''' then return ()
     else emit (EvEnqueue (key_of (mget a AnnotationVirtualPodNamespace) (mget a AnnotationVirtualPodName))))"

definition virtualPodFilter :: "'s api \<Rightarrow> pod \<Rightarrow> ('s, 'm, bool) pod_prog" where
  "virtualPodFilter A pod =
    (if poNodeName pod = '''' then return False
     else if mDeletionTimestamp (poMeta pod) \<noteq> None then return True
     else if IsSystemPod pod then return False
     else if IsDaemonSetPod pod then do {
       b \<leftarrow> binding;
       runningds \<leftarrow> IsRunningDaemonsetByDefault A (mName (bMeta b));
       return (\<not> (runningds \<noteq> Inr True \<and> mget (mAnnotations (poMeta pod)) AnnotationRunningDaemonSet \<noteq> LabelValueTrue))
     }
     else return True)"

end
