(* ===== verification/Pod_Sync_Order.thy ===== *)
theory Pod_Sync_Order
  imports Pod_Sync_Down
begin

text \<open>
  What the virtual pod controller may do to the two clusters, and after which answers: \<open>pod_guard\<close> gives for
  every writing call the reads that must precede it, and the theorem of this theory shows that every run of
  \<open>ReconcileVirtualPod\<close> keeps to it, whatever the API servers answer. The proof follows the handlers with the
  rules \<open>gvcg\<close>.
\<close>

section \<open>What the controller may do, and when\<close>

definition virtual_read :: "string \<Rightarrow> string \<Rightarrow> pod \<Rightarrow> event list \<Rightarrow> bool" where
  "virtual_read ns n v pre \<longleftrightarrow> EvGet VirtualClient KPod ns n (Inr (OPod v)) \<in> set pre"

text \<open>Nothing of the pod is left in the physical cluster.\<close>

definition no_physical :: "pod \<Rightarrow> event list \<Rightarrow> bool" where
  "no_physical v pre \<longleftrightarrow> fst (physicalPlace v) = '''' \<or> snd (physicalPlace v) = '''' \<or>
     copy_absent KPod (physicalPlace v) pre \<or>
     (\<exists>p. copy_read KPod (physicalPlace v) (OPod p) pre \<and> \<not> belongsTo p v)"

definition overdue :: "pod \<Rightarrow> event list \<Rightarrow> bool" where
  "overdue p pre \<longleftrightarrow> poNodeName p = '''' \<and> (mCreationTimestamp (poMeta p) = zeroTime \<or>
     (\<exists>c. EvClock c \<in> set pre \<and> Since (ckNow c) (mCreationTimestamp (poMeta p)) > 300 * Second))"

definition may_delete :: "string \<Rightarrow> string \<Rightarrow> pod \<Rightarrow> event list \<Rightarrow> bool" where
  "may_delete ns n p pre \<longleftrightarrow>
     (\<exists>e mount. EvGet VirtualClient KPod ns n (Inl e) \<in> set pre \<and> IsNotFound e \<and>
        copy_read KPod (mount, GeneratePhysicalResourceName n ns) (OPod p) pre) \<or>
     (\<exists>v at. virtual_read ns n v pre \<and> copy_read KPod at (OPod p) pre \<and>
        (belongsTo p v \<and> (mDeletionTimestamp (poMeta v) \<noteq> None \<or>
           mget (mAnnotations (poMeta p)) AnnotationVirtualPodUID \<notin> {'''', mUID (poMeta v)}) \<or>
         at = physicalPlace v \<and> overdue p pre))"

definition may_create :: "string \<Rightarrow> string \<Rightarrow> pod \<Rightarrow> event list \<Rightarrow> bool" where
  "may_create ns n p pre \<longleftrightarrow> (\<exists>v. virtual_read ns n v pre \<and> mDeletionTimestamp (poMeta v) = None \<and>
     physicalPlace v = (mNamespace (poMeta p), mName (poMeta p)) \<and> copy_absent KPod (physicalPlace v) pre \<and>
     isPhysicalPodOwnedByVirtualPod p v \<and> mLabels (poMeta p) LabelManagedBy = Some LabelManagedByValue)"

definition may_annotate :: "string \<Rightarrow> string \<Rightarrow> pod \<Rightarrow> event list \<Rightarrow> bool" where
  "may_annotate ns n v' pre \<longleftrightarrow> (\<exists>v a s. virtual_read ns n v pre \<and>
     v' = v\<lparr>poMeta := (poMeta v)\<lparr>mAnnotations := a\<rparr>, poStatus := s\<rparr> \<and>
     (a AnnotationPhysicalPodUID = mAnnotations (poMeta v) AnnotationPhysicalPodUID \<or>
      (\<exists>p at. copy_read KPod at (OPod p) pre \<and> a AnnotationPhysicalPodUID = Some (mUID (poMeta p)))))"

fun pod_guard :: "pod_reconciler \<Rightarrow> string \<Rightarrow> string \<Rightarrow> event list \<Rightarrow> event \<Rightarrow> bool" where
  "pod_guard r ns n pre (EvDelete c k ns' n' opts _) \<longleftrightarrow>
     (c = VirtualClient \<and> k = KPod \<and> (\<exists>v. virtual_read ns n v pre \<and> mDeletionTimestamp (poMeta v) \<noteq> None \<and>
        (ns', n') = (mNamespace (poMeta v), mName (poMeta v)) \<and>
        opts = \<lparr>doUID = Some (mUID (poMeta v)), doGracePeriodSeconds = Some 0\<rparr> \<and> no_physical v pre)) \<or>
     (c = PhysicalClient \<and> k = KPod \<and> (\<exists>p. (ns', n') = (mNamespace (poMeta p), mName (poMeta p)) \<and> may_delete ns n p pre)) \<or>
     (c = PhysicalClient \<and> k = KSecret \<and> (\<exists>v. virtual_read ns n v pre \<and> mDeletionTimestamp (poMeta v) \<noteq> None))"
| "pod_guard r ns n pre (EvCreate c ob _) \<longleftrightarrow> c = PhysicalClient \<and>
     (case ob of OPod p \<Rightarrow> may_create ns n p pre | _ \<Rightarrow> mLabels (obj_meta ob) LabelManagedBy = Some LabelManagedByValue)"
| "pod_guard r ns n pre (EvUpdate c ob _) \<longleftrightarrow> (case c of
       VirtualClient \<Rightarrow> obj_kind ob \<noteq> KPod \<and> ContainsFinalizer (obj_meta ob) (GetClusterSpecificFinalizer (prClusterID r))
     | PhysicalClient \<Rightarrow> (case ob of
          OPod p' \<Rightarrow> (\<exists>p at. copy_read KPod at (OPod p) pre \<and>
            (\<exists>a l d. p' = p\<lparr>poMeta := (poMeta p)\<lparr>mAnnotations := a, mLabels := l\<rparr>, poActiveDeadlineSeconds := d\<rparr>))
        | OSecret s' \<Rightarrow> (\<exists>s t sns sn. EvGet PhysicalClient KSecret sns sn (Inr (OSecret s)) \<in> set pre \<and>
            s' = s\<lparr>seData := (seData s)(''token'' \<mapsto> t)\<rparr>)
        | _ \<Rightarrow> False)
     | PhysicalK8sClient \<Rightarrow> False)"
| "pod_guard r ns n pre (EvStatusUpdate c ob _) \<longleftrightarrow> c = VirtualClient \<and> (\<exists>v. ob = OPod v \<and> may_annotate ns n v pre)"
| "pod_guard r ns n pre (EvSubPatch c sub base ob _) \<longleftrightarrow> c = PhysicalClient \<and> sub = ''ephemeralcontainers'' \<and>
     (\<exists>p cs. base = OPod p \<and> ob = OPod (p\<lparr>poEphemeralContainers := cs\<rparr>))"
| "pod_guard r ns n pre e \<longleftrightarrow> \<not> is_write e"

lemma pod_guard_read [simp]: "\<not> is_write e \<Longrightarrow> pod_guard r ns n pre e"
  by (cases e) auto

lemma pod_guard_reads [simp]: "reads_free (pod_guard r ns n)"
  by (simp add: reads_free_def)

lemma virtual_read_mono [simp]: "virtual_read ns n v pre \<Longrightarrow> virtual_read ns n v (pre @ es)"
  by (simp add: virtual_read_def)

lemma copy_mono [simp]:
  "copy_read k at p pre \<Longrightarrow> copy_read k at p (pre @ es)" "copy_read k at p es \<Longrightarrow> copy_read k at p (pre @ es)"
  "copy_absent k at pre \<Longrightarrow> copy_absent k at (pre @ es)" "copy_absent k at es \<Longrightarrow> copy_absent k at (pre @ es)"
  "copy_read k at p (pre @ es) \<Longrightarrow> copy_read k at p (pre @ es @ fs)"
  unfolding copy_read_def copy_absent_def by auto

subsection \<open>Reading\<close>

lemma guarded_fallback:
  assumes "reads_free G"
    and "\<And>p es. copy_read KPod (pns, pn) (OPod p) es \<Longrightarrow> Q (Inr p) (pre @ es)"
    and "\<And>e es. (IsNotFound e \<Longrightarrow> copy_absent KPod (pns, pn) es) \<Longrightarrow> Q (Inl e) (pre @ es)"
  shows "guarded G pre (getPhysicalPodWithFallback A pns pn) Q"
  unfolding getPhysicalPodWithFallback_def get_pod_def
  by (intro gvcg) (auto simp: assms(1) decode_simps intro!: assms(2,3) gvcg simp: copy_read_def copy_absent_def decode_def
      split: sum.splits option.splits)

lemma guarded_virtual_pod:
  assumes "reads_free G"
    and "\<And>v. virtual_read ns n v [EvGet VirtualClient KPod ns n (Inr (OPod v))] \<Longrightarrow>
       Q (Inr v) (pre @ [EvGet VirtualClient KPod ns n (Inr (OPod v))])"
    and "\<And>e es. (IsNotFound e \<Longrightarrow> EvGet VirtualClient KPod ns n (Inl e) \<in> set es) \<Longrightarrow> Q (Inl e) (pre @ es)"
  shows "guarded G pre (get_pod A VirtualClient ns n) Q"
  unfolding get_pod_def
  by (intro gvcg) (auto simp: assms(1) decode_simps virtual_read_def decode_def intro!: assms(2,3)
      split: sum.splits option.splits)

subsection \<open>Dependent resources\<close>

fun dep_ok :: "pod_reconciler \<Rightarrow> event \<Rightarrow> bool" where
  "dep_ok r (EvUpdate c ob _) \<longleftrightarrow> c = VirtualClient \<and> obj_kind ob \<noteq> KPod \<and>
     ContainsFinalizer (obj_meta ob) (GetClusterSpecificFinalizer (prClusterID r))"
| "dep_ok r (EvCreate c ob _) \<longleftrightarrow> c = PhysicalClient \<and> obj_kind ob \<noteq> KPod \<and>
     mLabels (obj_meta ob) LabelManagedBy = Some LabelManagedByValue"
| "dep_ok r e \<longleftrightarrow> \<not> is_write e"

lemma dep_ok_guard: "dep_ok r e \<Longrightarrow> pod_guard r ns n pre e"
  by (cases e) (auto split: obj.splits)

lemma dep_ok_read [simp]: "\<not> is_write e \<Longrightarrow> dep_ok r e"
  by (cases e) auto

lemma calls_more [calls_rules]:
  "(xs = [] \<Longrightarrow> calls f P) \<Longrightarrow> (\<And>y ys. xs = y # ys \<Longrightarrow> calls (g y ys) P) \<Longrightarrow>
     calls (case xs of [] \<Rightarrow> f | y # ys \<Rightarrow> g y ys) P"
  "(\<And>r. P (EvGet c k ns n r)) \<Longrightarrow> calls (Get A c k ns n) P"
  "(\<And>r. P (EvGet c KBinding '''' n r)) \<Longrightarrow> calls (get_binding A c n) P"
  by (cases xs; simp) (auto intro!: calls_quiet quiet_rules)

lemma markSynced_finalizer: "ContainsFinalizer (markSynced c n ns opt m) (GetClusterSpecificFinalizer c)"
  by (simp add: ContainsFinalizer_def markSynced_fields AddFinalizer_def)

lemma quiet_copy_parts [quiet_rules]:
  "(\<And>e. \<not> is_write e \<Longrightarrow> P e) \<Longrightarrow> quiet (CheckPhysicalResourceExists A rt pn pns k) P"
  "obj_kind ob \<noteq> KPod \<Longrightarrow> (\<And>e. dep_ok r e \<Longrightarrow> P e) \<Longrightarrow>
     quiet (UpdateVirtualResourceLabelsAndAnnotations A (prClusterID r) ob pn pns opt) P"
  unfolding CheckPhysicalResourceExists_def UpdateVirtualResourceLabelsAndAnnotations_def Let_def
  by (intro quiet_rules; simp add: markSynced_finalizer)+

lemma built_managed:
  "BuildPhysicalResource rt ob pn pns opt = Inr ob' \<Longrightarrow>
     obj_kind ob' \<noteq> KPod \<and> mLabels (obj_meta ob') LabelManagedBy = Some LabelManagedByValue"
  by (auto simp: BuildPhysicalResource_def Let_def copyMeta_def BuildPhysicalResourceLabels_def
      split: resource_type.splits obj.splits option.splits if_splits)

lemma quiet_create_copy [quiet_rules]:
  "(\<And>e. dep_ok r e \<Longrightarrow> P e) \<Longrightarrow> quiet (CreatePhysicalResourceWithOpt A rt ob pn pns opt) P"
  unfolding CreatePhysicalResourceWithOpt_def by (intro quiet_rules) (auto dest: built_managed)

lemma expectKind_Inr: "expectKind k r = Inr ob \<longleftrightarrow> r = Inr ob \<and> obj_kind ob = k"
  by (auto simp: expectKind_def decode_def split: sum.splits option.splits if_splits)

lemma quiet_syncResource [quiet_rules]: "k \<noteq> KPod \<Longrightarrow> quiet (syncResource r A rt k vns n pns opt) (dep_ok r)"
  unfolding syncResource_def Let_def
  by (intro quiet_rules) (auto simp: expectKind_Inr)

lemma quiet_syncPV [quiet_rules]: "quiet (syncPV r A n) (dep_ok r)"
  unfolding syncPV_def by (intro quiet_rules) simp_all

lemma quiet_syncs [quiet_rules]:
  "quiet (syncConfigMap r A ns n) (dep_ok r)"
  "quiet (syncSecret r A ns n) (dep_ok r)"
  "quiet (syncPVC r A ns n) (dep_ok r)"
  unfolding syncConfigMap_def syncSecret_def syncPVC_def binding_def by (intro quiet_rules; simp)+

lemma quiet_syncRefs: "(\<And>n. quiet (sync n) P) \<Longrightarrow> quiet (syncRefs sync ns refs) P"
  by (induction refs rule: syncRefs.induct) (auto intro!: quiet_rules)

lemma calls_add [calls_rules]: "calls (addConfigMapsOf p) P" "calls (addSecretsOf p) P"
  unfolding addConfigMapsOf_def addSecretsOf_def Let_def by (intro calls_rules; simp)+

lemma calls_syncs [calls_rules]:
  "calls (syncConfigMaps r A p) (dep_ok r)"
  "calls (syncSecrets r A p) (dep_ok r)"
  "calls (syncPVCs r A p) (dep_ok r)"
  unfolding syncConfigMaps_def syncSecrets_def syncPVCs_def
  by (intro calls_rules calls_quiet [OF quiet_syncRefs] quiet_rules)+

lemma quiet_allExist [quiet_rules]: "(\<And>e. \<not> is_write e \<Longrightarrow> P e) \<Longrightarrow> quiet (allExist A ns xs) P"
  by (induction A ns xs rule: allExist.induct) (auto intro!: quiet_rules)

text \<open>The documented behaviour of polling: it runs its condition, and does nothing else to the outside.\<close>

definition poll_documented :: "(('s, 'm, bool res) pod_prog \<Rightarrow> ('s, 'm, unit res) pod_prog) \<Rightarrow> bool" where
  "poll_documented poll \<longleftrightarrow> (\<forall>c P. calls c P \<longrightarrow> calls (poll c) P)"

lemma calls_poll [calls_rules]: "poll_documented poll \<Longrightarrow> calls (pollPhysicalResources poll A wanted) (dep_ok r)"
  unfolding pollPhysicalResources_def binding_def poll_documented_def
  by (intro calls_rules) (simp add: calls_quiet quiet_allExist)

lemma calls_ensure [calls_rules]: "calls (ensureDefaultPriorityClass A) (dep_ok r)"
  unfolding ensureDefaultPriorityClass_def
  by (intro calls_quiet quiet_rules) (simp_all add: defaultPriorityClass_def)

lemma calls_services [calls_rules]:
  "calls (getKubernetesIntranetIPAndPort A) (dep_ok r)"
  "calls (getKubeDnsIntranetIP A) (dep_ok r)"
  unfolding getKubernetesIntranetIPAndPort_def getKubeDnsIntranetIP_def
  by (intro calls_rules; simp)+

lemma calls_spec [calls_rules]: "calls (buildPhysicalPodSpec A v node rm) (dep_ok r)"
  unfolding buildPhysicalPodSpec_def binding_def addHostAliasesAndEnvVars_def configureDNSPolicy_def Let_def
  by (intro calls_rules; simp)

lemma calls_workload [calls_rules]: "calls (getWorkloadInfo A p) (dep_ok r)"
  unfolding getWorkloadInfo_def getDeploymentFromReplicaSet_def
  by (cases "mOwnerReferences (poMeta p)"; intro calls_quiet; simp; intro conjI impI quiet_rules; simp)

subsection \<open>Tokens\<close>

lemma calls_token [calls_rules]: "calls (GetServiceAccountToken b A ns n tr) (\<lambda>e. \<not> is_write e)"
  unfolding GetServiceAccountToken_def refreshToken_def requiresRefresh_def getToken_def setToken_def Let_def
  by (intro calls_rules; (intro calls_quiet quiet_rules)?; simp)

lemma guarded_reading:
  assumes "calls m (\<lambda>e. \<not> is_write e)" and "\<And>x es. Q x (pre @ es)"
  shows "guarded (pod_guard r ns n) pre m Q"
  by (rule guarded_calls [OF assms(1)]) (simp_all add: assms(2))

lemma guarded_storeToken: "guarded (pod_guard r ns n) pre (storeToken A v sns sn t create) (\<lambda>_ _. True)"
  unfolding storeToken_def get_secret_def
  by (intro gvcg) (auto simp: tokenSecret_def decode_simps LabelManagedBy_def LabelServiceAccountToken_def)

lemma guarded_syncTokens: "guarded (pod_guard r ns n) pre (syncTokens r A v create ts names) (\<lambda>_ _. True)"
proof (induction ts arbitrary: pre names)
  case (Cons t ts)
  obtain vn tp where t: "t = (vn, tp)" by force
  have one: "guarded (pod_guard r ns n) pre (syncServiceAccountToken r A vn tp v create) (\<lambda>_ _. True)" for pre
    unfolding syncServiceAccountToken_def binding_def
    by (intro guarded_bind_then [OF guarded_reading [OF calls_token]])
      (auto intro!: gvcg guarded_storeToken)
  show ?case
    unfolding t syncTokens.simps by (rule guarded_bind_then [OF one]) (auto intro!: gvcg Cons.IH)
qed (auto intro!: gvcg)

lemma guarded_deleteTokenSecrets:
  assumes "virtual_read ns n v pre" and "mDeletionTimestamp (poMeta v) \<noteq> None"
  shows "guarded (pod_guard r ns n) pre (deleteTokenSecrets A sns names) (\<lambda>_ _. True)"
  using assms(1)
proof (induction names arbitrary: pre)
  case (Cons x names)
  have "guarded (pod_guard r ns n) pre (deleteServiceAccountTokenSecret A x sns) (\<lambda>_ _. True)"
    unfolding deleteServiceAccountTokenSecret_def by (intro gvcg) (use Cons.prems assms(2) in auto)
  then show ?case
    unfolding deleteTokenSecrets.simps
    by (rule guarded_on_ok_then) (simp_all add: Cons.IH Cons.prems)
qed (auto intro!: gvcg)

lemma guarded_cleanup:
  assumes "virtual_read ns n v pre" and "mDeletionTimestamp (poMeta v) \<noteq> None"
  shows "guarded (pod_guard r ns n) pre (cleanupServiceAccountToken A v) (\<lambda>_ _. True)"
  unfolding cleanupServiceAccountToken_def DeleteServiceAccountToken_def binding_def
  by (intro gvcg guarded_deleteTokenSecrets [OF assms]) simp_all

subsection \<open>Pods\<close>

lemma guarded_deletePod:
  assumes "may_delete ns n p pre"
  shows "guarded (pod_guard r ns n) pre (deletePod A p) (\<lambda>_ _. True)"
  unfolding deletePod_def ignoreNotFound_def by (intro gvcg) (use assms in auto)

lemma guarded_deletePhysicalPodOf:
  "may_delete ns n p pre \<Longrightarrow> guarded (pod_guard r ns n) pre (deletePhysicalPodOf A p) (\<lambda>_ _. True)"
  unfolding deletePhysicalPodOf_def done_with_def
  by (intro guarded_if guarded_return guarded_on_ok_then [OF guarded_deletePod] gvcg) simp_all

lemma guarded_forceDelete:
  assumes "virtual_read ns n v pre" and "mDeletionTimestamp (poMeta v) \<noteq> None" and "no_physical v pre"
  shows "guarded (pod_guard r ns n) pre (forceDeleteVirtualPod A v) (\<lambda>_ _. True)"
  unfolding forceDeleteVirtualPod_def done_with_def ignoreNotFound_def
  by (intro gvcg) (use assms in \<open>auto split: sum.splits intro!: gvcg\<close>)

lemma guarded_statusUpdate:
  "may_annotate ns n v' pre \<Longrightarrow> guarded (pod_guard r ns n) pre (statusUpdatePod A v') (\<lambda>_ _. True)"
  unfolding statusUpdatePod_def by (intro gvcg) (auto split: sum.splits intro!: gvcg)

lemma annotatePod_eq: "annotatePod v kvs =
    v\<lparr>poMeta := (poMeta v)\<lparr>mAnnotations := mAnnotations (poMeta v) ++ map_of kvs\<rparr>, poStatus := poStatus v\<rparr>"
  by (simp add: annotatePod_def)

lemma built_annotations:
  "isPhysicalPodOwnedByVirtualPod (physicalPodFor C v spec wt wn) v"
  "mLabels (poMeta (physicalPodFor C v spec wt wn)) LabelManagedBy = Some LabelManagedByValue"
  "physicalPlace v = (mNamespace (poMeta (physicalPodFor C v spec wt wn)), mName (poMeta (physicalPodFor C v spec wt wn)))"
proof -
  have a: "buildPhysicalPodAnnotations C v AnnotationVirtualPodNamespace = Some (mNamespace (poMeta v))"
    "buildPhysicalPodAnnotations C v AnnotationVirtualPodName = Some (mName (poMeta v))"
    "buildPhysicalPodAnnotations C v AnnotationVirtualPodUID = Some (mUID (poMeta v))"
    by (simp_all add: buildPhysicalPodAnnotations_def Let_def kube_consts split: sum.splits)
  then have "buildPhysicalPodAnnotations C v \<noteq> Map.empty" by (metis option.distinct(1))
  with a show "isPhysicalPodOwnedByVirtualPod (physicalPodFor C v spec wt wn) v"
    by (simp add: isPhysicalPodOwnedByVirtualPod_def physicalPodFor_def Let_def)
  show "mLabels (poMeta (physicalPodFor C v spec wt wn)) LabelManagedBy = Some LabelManagedByValue"
    by (simp add: physicalPodFor_def buildPhysicalPodLabels_def Let_def kube_consts)
  show "physicalPlace v = (mNamespace (poMeta (physicalPodFor C v spec wt wn)), mName (poMeta (physicalPodFor C v spec wt wn)))"
    by (simp add: physicalPodFor_def)
qed

lemma may_create_built:
  "virtual_read ns n v pre \<Longrightarrow> mDeletionTimestamp (poMeta v) = None \<Longrightarrow> copy_absent KPod (physicalPlace v) pre \<Longrightarrow>
     may_create ns n (physicalPodFor C v spec wt wn) pre"
  unfolding may_create_def using built_annotations by blast

lemma guarded_dep:
  "calls m (dep_ok r) \<Longrightarrow> guarded (pod_guard r ns n) pre m (\<lambda>_ _. True)"
  by (rule guarded_calls [where P = "dep_ok r"]) (auto intro: dep_ok_guard)

lemma guarded_createPhysicalPod:
  assumes "poll_documented poll" and "virtual_read ns n v pre" and "mDeletionTimestamp (poMeta v) = None"
    and "copy_absent KPod (physicalPlace v) pre"
  shows "guarded (pod_guard r ns n) pre (createPhysicalPod poll r A v node) (\<lambda>_ _. True)"
proof -
  have tok: "guarded (pod_guard r ns n) pre (if poServiceAccountName v \<noteq> '''' then syncServiceAccountTokens r A v True
      else return (Inr [])) (\<lambda>_ _. True)" for pre
    unfolding syncServiceAccountTokens_def by (intro guarded_if guarded_syncTokens guarded_return) simp
  have dep: "guarded (pod_guard r ns n) pre (syncDependentResources poll r A v) (\<lambda>_ _. True)" for pre
    unfolding syncDependentResources_def
    by (rule guarded_on_ok_then [OF guarded_dep [OF calls_syncs(1)]],
        rule guarded_on_ok_then [OF guarded_dep [OF calls_syncs(2)]],
        rule guarded_on_ok_then [OF guarded_dep [OF calls_syncs(3)]],
        rule guarded_on_ok_then [OF tok],
        rule guarded_on_ok_then [OF guarded_dep [OF calls_poll [OF assms(1)]]])
      (simp_all add: guarded_return)
  have create: "guarded (pod_guard r ns n) (pre @ es) (do {
       created \<leftarrow> Create A PhysicalClient (OPod (physicalPodFor C v spec wt wn));
       case created of Inr _ \<Rightarrow> return (Inr ())
       | Inl err \<Rightarrow> (if IsAlreadyExists err
           then on_ok (getPhysicalPodWithFallback A (fst (physicalPlace v)) (snd (physicalPlace v))) (\<lambda>_. return (Inr ()))
           else return (Inl err)) }) (\<lambda>_ _. True)" for es C spec wt wn
    by (intro gvcg guarded_fallback) (use assms in \<open>auto intro!: may_create_built gvcg\<close>)
  show ?thesis
    unfolding createPhysicalPod_def
    by (rule guarded_on_ok_then [OF dep], rule guarded_on_ok_then [OF guarded_dep [OF calls_spec]],
        rule guarded_on_ok_then [OF guarded_dep [OF calls_workload]])
      (auto simp: append_assoc intro!: create simp del: append_assoc [symmetric] split: prod.splits)
qed

lemma may_deleteI:
  "virtual_read ns n v pre \<Longrightarrow> copy_read KPod at (OPod p) pre \<Longrightarrow> belongsTo p v \<Longrightarrow>
     mDeletionTimestamp (poMeta v) \<noteq> None \<or> mget (mAnnotations (poMeta p)) AnnotationVirtualPodUID \<notin> {'''', mUID (poMeta v)} \<Longrightarrow>
     may_delete ns n p pre"
  unfolding may_delete_def by blast

lemma guarded_mismatched:
  assumes "virtual_read ns n v pre" and "copy_read KPod at (OPod p) pre"
  shows "guarded (pod_guard r ns n) pre (deleteMismatchedPhysicalPodIfNeeded A v p) (\<lambda>_ _. True)"
  unfolding deleteMismatchedPhysicalPodIfNeeded_def Let_def
  by (intro guarded_if guarded_return guarded_on_ok_then [OF guarded_deletePod] may_deleteI [OF assms]) auto

lemma may_annotate_place:
  assumes "virtual_read ns n v pre"
  shows "may_annotate ns n (annotatePod v [(AnnotationPhysicalPodNamespace, a), (AnnotationPhysicalPodName, b)]) pre"
  unfolding may_annotate_def annotatePod_eq
  using assms
  by (intro exI [of _ v] exI [of _ "mAnnotations (poMeta v) ++ map_of [(AnnotationPhysicalPodNamespace, a), (AnnotationPhysicalPodName, b)]"]
      exI [of _ "poStatus v"]) (simp add: kube_consts map_add_def)

lemma may_annotate_uid:
  assumes "virtual_read ns n v pre" and "copy_read KPod at (OPod p) pre"
    and "map_of kvs AnnotationPhysicalPodUID = Some (mUID (poMeta p))"
  shows "may_annotate ns n (annotatePod v kvs) pre"
  unfolding may_annotate_def annotatePod_eq
  using assms
  by (intro exI [of _ v] exI [of _ "mAnnotations (poMeta v) ++ map_of kvs"] exI [of _ "poStatus v"]
      conjI disjI2 exI [of _ p] exI [of _ "at"]) (simp_all add: map_add_def)

lemma guarded_mapping:
  assumes "virtual_read ns n v pre"
  shows "guarded (pod_guard r ns n) pre (generatePhysicalPodMapping A v) (\<lambda>_ _. True)"
  unfolding generatePhysicalPodMapping_def Let_def binding_def recordPhysicalPodMapping_def
proof (intro guarded_bind guarded_reads guarded_if guarded_return TrueI guarded_fallback pod_guard_reads)
  fix b :: cluster_binding and p es
  assume "copy_read KPod (bMountNamespace b, GeneratePhysicalResourceName (mName (poMeta v)) (mNamespace (poMeta v))) (OPod p) es"
  then have c: "copy_read KPod (bMountNamespace b, GeneratePhysicalResourceName (mName (poMeta v)) (mNamespace (poMeta v))) (OPod p) (pre @ es)"
    by (auto simp: copy_read_def)
  have v: "virtual_read ns n v (pre @ es)" using assms by simp
  show "guarded (pod_guard r ns n) (pre @ es) (case Inr p of
       Inr existingPod \<Rightarrow>
        (if isPhysicalPodOwnedByVirtualPod existingPod v
         then statusUpdatePod A (annotatePod v [(AnnotationPhysicalPodNamespace, mNamespace (poMeta existingPod)),
           (AnnotationPhysicalPodName, mName (poMeta existingPod)), (AnnotationPhysicalPodUID, mUID (poMeta existingPod))])
         else on_ok (deleteMismatchedPhysicalPodIfNeeded A v existingPod) (\<lambda>_. return (Inl (Errorf ''physical pod name conflict''))))
     | Inl err \<Rightarrow> (if \<not> IsNotFound err then return (Inl err)
         else statusUpdatePod A (annotatePod v [(AnnotationPhysicalPodNamespace, bMountNamespace b),
           (AnnotationPhysicalPodName, GeneratePhysicalResourceName (mName (poMeta v)) (mNamespace (poMeta v)))]))) (\<lambda>_ _. True)"
    unfolding sum.case
    by (intro guarded_if guarded_statusUpdate may_annotate_uid [OF v c] guarded_on_ok_then [OF guarded_mismatched [OF v c]]
        guarded_return) (simp_all add: kube_consts)
qed (auto intro!: gvcg guarded_statusUpdate may_annotate_place simp: assms)

lemma guarded_creation:
  assumes "poll_documented poll" and "virtual_read ns n v pre" and "mDeletionTimestamp (poMeta v) = None"
    and "fst (physicalPlace v) \<noteq> '''' \<and> snd (physicalPlace v) \<noteq> '''' \<Longrightarrow> copy_absent KPod (physicalPlace v) pre"
  shows "guarded (pod_guard r ns n) pre (handlePhysicalPodCreation poll r A v node) (\<lambda>_ _. True)"
proof -
  have failed: "guarded (pod_guard r ns n) pre (setVirtualPodFailed A v msg) (\<lambda>_ _. True)" for msg
    unfolding setVirtualPodFailed_def
    by (rule guarded_statusUpdate, unfold may_annotate_def, rule exI [of _ v], rule exI [of _ "mAnnotations (poMeta v)"])
      (use assms(2) in auto)
  show ?thesis
    unfolding handlePhysicalPodCreation_def Let_def
    by (intro guarded_if failed guarded_mapping [OF assms(2)]
        guarded_bind_then [OF guarded_createPhysicalPod [OF assms(1-3)]] guarded_return TrueI)
      (auto simp: assms(4) intro!: gvcg)
qed

lemma syncedPod_shape:
  "\<exists>a l d. fst (syncedPod C v p prev enc) = p\<lparr>poMeta := (poMeta p)\<lparr>mAnnotations := a, mLabels := l\<rparr>, poActiveDeadlineSeconds := d\<rparr>"
  unfolding syncedPod_def Let_def case_prod_beta fst_conv by blast

lemma guarded_syncMetadata:
  assumes "copy_read KPod at (OPod p) pre"
  shows "guarded (pod_guard r ns n) pre (syncVirtualPodMetadataAndSpecToPhysicalPod r A v p) (\<lambda>_ _. True)"
proof -
  have eph: "guarded (pod_guard r ns n) pre (syncEphemeral L A v q) (\<lambda>_ _. True)" for pre L q
    unfolding syncEphemeral_def by (intro gvcg) (auto split: sum.splits intro!: gvcg)
  have "pod_guard r ns n pre (EvUpdate PhysicalClient (OPod (fst (syncedPod C v p prev enc))) res)" for C prev enc res
    using assms syncedPod_shape [of C v p prev enc] by (simp only: pod_guard.simps client.case obj.case) blast
  then have upd: "pod_guard r ns n pre (EvUpdate PhysicalClient (OPod q) res)"
    if "syncedPod C v p prev enc = (q, b)" for q b C prev enc res using that by (metis fst_conv)
  show ?thesis
    unfolding syncVirtualPodMetadataAndSpecToPhysicalPod_def Let_def
    by (intro guarded_if guarded_sum guarded_prod guarded_return guarded_bind guarded_ops eph upd TrueI)
qed

lemma guarded_unscheduled:
  assumes "virtual_read ns n v pre" and "copy_read KPod (physicalPlace v) (OPod p) pre" and "poNodeName p = ''''"
  shows "guarded (pod_guard r ns n) pre (handleUnScheduledPhysicalPod A v p) (\<lambda>_ _. True)"
proof -
  let ?t = "mCreationTimestamp (poMeta p)"
  have late: "guarded (pod_guard r ns n) pre
      (if ?t = zeroTime then return True else do { c \<leftarrow> Now A; return (Since (ckNow c) ?t > 300 * Second) })
      (\<lambda>b pre'. b \<longrightarrow> overdue p pre')"
    by (intro gvcg) (auto simp: overdue_def assms(3))
  have "may_delete ns n p (pre @ es)" if "overdue p (pre @ es)" for es
    unfolding may_delete_def using assms that
    by (intro disjI2 exI [of _ v] exI [of _ "physicalPlace v"]) simp
  then show ?thesis
    unfolding handleUnScheduledPhysicalPod_def Let_def
    by (intro guarded_bind_then [OF late] guarded_if guarded_on_ok_then [OF guarded_deletePod] gvcg) auto
qed

lemma guarded_existing:
  assumes "virtual_read ns n v pre" and "copy_read KPod (physicalPlace v) (OPod p) pre"
  shows "guarded (pod_guard r ns n) pre (syncExistingPod r A v p) (\<lambda>_ _. True)"
  unfolding syncExistingPod_def updateVirtualPodWithPhysicalUID_def syncServiceAccountTokens_def
  by (intro guarded_if guarded_statusUpdate may_annotate_uid [OF assms] guarded_on_ok_then [OF guarded_syncMetadata [OF assms(2)]]
      guarded_unscheduled guarded_bind_then [OF guarded_syncTokens])
    (use assms in \<open>auto intro!: gvcg\<close>)

lemma guarded_deletion:
  assumes "virtual_read ns n v pre" and "mDeletionTimestamp (poMeta v) \<noteq> None"
  shows "guarded (pod_guard r ns n) pre (handleVirtualPodDeletion A v) (\<lambda>_ _. True)"
proof -
  have clean: "guarded (pod_guard r ns n) pre (if poServiceAccountName v \<noteq> '''' then cleanupServiceAccountToken A v
      else return (Inr ())) (\<lambda>_ _. True)"
    by (intro guarded_if guarded_cleanup [OF assms] guarded_return TrueI)
  have v: "virtual_read ns n v (pre @ es)" for es using assms(1) by simp
  have gone: "guarded (pod_guard r ns n) (pre @ es) (forceDeleteVirtualPod A v) (\<lambda>_ _. True)"
    if "no_physical v (pre @ es)" for es
    by (rule guarded_forceDelete [OF v assms(2) that])
  have found: "guarded (pod_guard r ns n) (pre @ es) (do {
         got \<leftarrow> getPhysicalPodWithFallback A (fst (physicalPlace v)) (snd (physicalPlace v));
         case got of
           Inl err \<Rightarrow> (if IsNotFound err then forceDeleteVirtualPod A v else return (Inl err))
         | Inr p \<Rightarrow> (if \<not> belongsTo p v then forceDeleteVirtualPod A v else deletePhysicalPodOf A p) }) (\<lambda>_ _. True)" for es
    by (intro guarded_bind guarded_fallback pod_guard_reads; (unfold sum.case append_assoc)?;
        intro guarded_if gone guarded_deletePhysicalPodOf guarded_return TrueI may_deleteI [OF v, where ?at = "physicalPlace v"])
      (use assms(2) in \<open>auto simp: no_physical_def\<close>)
  show ?thesis
    unfolding handleVirtualPodDeletion_def
    by (rule guarded_on_ok_then [OF clean]; (unfold case_prod_beta)?; intro guarded_if gone found TrueI)
      (auto simp: no_physical_def)
qed

lemma guarded_notFound:
  assumes "EvGet VirtualClient KPod ns n (Inl e) \<in> set pre" and "IsNotFound e"
  shows "guarded (pod_guard r ns n) pre (handleVirtualPodNotFound A ns n) (\<lambda>_ _. True)"
proof -
  have del: "may_delete ns n p (pre @ es)"
    if "copy_read KPod (mount, GeneratePhysicalResourceName n ns) (OPod p) es" for mount p es
    unfolding may_delete_def using assms that by (intro disjI1 exI [of _ e] exI [of _ mount]) simp
  show ?thesis
    unfolding handleVirtualPodNotFound_def binding_def Let_def
    by (intro guarded_bind guarded_modifies guarded_reads guarded_if guarded_return guarded_fallback pod_guard_reads TrueI;
        (unfold sum.case)?; (intro guarded_if guarded_return TrueI guarded_deletePhysicalPodOf del)?) simp_all
qed

lemma calls_decides [calls_rules]:
  "calls (shouldManageVirtualPod r A v) (\<lambda>e. \<not> is_write e)"
  "calls (shouldCreatePhysicalPod A v) (\<lambda>e. \<not> is_write e)"
  unfolding shouldManageVirtualPod_def shouldCreatePhysicalPod_def IsRunningDaemonsetByDefault_def binding_def get_node_def
  by (intro calls_rules; (intro calls_quiet quiet_rules)?; simp)+

lemma guarded_exists:
  "guarded (pod_guard r ns n) pre (checkPhysicalPodExists A v)
     (\<lambda>x pre'. \<forall>got. x = Inr got \<longrightarrow> (case got of
        None \<Rightarrow> fst (physicalPlace v) \<noteq> '''' \<and> snd (physicalPlace v) \<noteq> '''' \<longrightarrow> copy_absent KPod (physicalPlace v) pre'
      | Some p \<Rightarrow> copy_read KPod (physicalPlace v) (OPod p) pre'))"
  unfolding checkPhysicalPodExists_def case_prod_beta
  by (intro guarded_bind guarded_if guarded_return guarded_fallback pod_guard_reads) auto




text \<open>An instance of polling: a number of attempts.\<close>

fun pollTimes :: "nat \<Rightarrow> ('w, bool res) state \<Rightarrow> ('w, unit res) state" where
  "pollTimes 0 c = return (Inl (Errorf ''timed out waiting for the condition''))"
| "pollTimes (Suc k) c = on_ok c (\<lambda>ok. if ok then return (Inr ()) else pollTimes k c)"

lemma calls_pollTimes: "calls c P \<Longrightarrow> calls (pollTimes k c) P"
  by (induction k) (auto intro!: calls_rules)

lemma pollTimes_documented: "poll_documented (pollTimes k)"
  by (simp add: poll_documented_def calls_pollTimes)

definition example_codec :: pod_codec where
  "example_codec = \<lparr>EncodeExpected = (\<lambda>_. Inr ''{}''), DecodeExpected = (\<lambda>_. Inr \<lparr>epLabels = Map.empty, epAnnotations = Map.empty\<rparr>)\<rparr>"

definition example_pods :: pod_reconciler where
  "example_pods = \<lparr>prClusterID = ''c1'', prLib = \<lparr>plCodec = example_codec, plTokenRequests = True, plDeepEqual = (=)\<rparr>\<rparr>"

definition pod_start :: "answer list \<Rightarrow> answer list pod_world" where
  "pod_start script = \<lparr>srv = script, hist = [], tmCache = Map.empty, pwConfigMaps = no_needs, pwSecrets = no_needs,
     pwBinding = \<lparr>bMeta = empty_meta\<lparr>mName := ''b''\<rparr>, bClusterID = ''c1'', bNodeSelector = None, bMountNamespace = ''mount'',
       bDisableNodeDefaultTaint = False, bPodPriorityClassName = '''', bRunningDaemonsetByDefault = False, bDirectScheduling = True,
     bSecretRef = \<lparr>srName = '''', srNamespace = ''''\<rparr>, bServiceNamespaces = [], bPhase = '''', bConditions = [], bLastSyncTime = None\<rparr>,
     pwIntranetIP = '''', pwIntranetPort = '''', pwDnsIP = ''''\<rparr>"


section \<open>Synchronizing settles\<close>

text \<open>The documented round trip of the codec, on what the virtual pod expects.\<close>

definition codec_roundtrip :: "pod_codec \<Rightarrow> pod \<Rightarrow> bool" where
  "codec_roundtrip C v \<longleftrightarrow> (case EncodeExpected C (expectedPodOf v) of
     Inl _ \<Rightarrow> False | Inr enc \<Rightarrow> enc \<noteq> '''' \<and> DecodeExpected C enc = Inr (expectedPodOf v))"

lemma syncMetadata_same [simp]: "syncMetadata t e e = (t, False)"
  by (auto simp: syncMetadata_def fun_eq_iff)

lemma up_to_date_untouched:
  assumes "codec_roundtrip (plCodec (prLib r)) v" and "EncodeExpected (plCodec (prLib r)) (expectedPodOf v) = Inr enc"
    and "mAnnotations (poMeta p) AnnotationExpectedMetadata = Some enc"
    and "poActiveDeadlineSeconds p = poActiveDeadlineSeconds v"
    and "plDeepEqual (prLib r) (poEphemeralContainers p) (poEphemeralContainers v)"
  shows "syncVirtualPodMetadataAndSpecToPhysicalPod r A v p = return (Inr ())"
proof -
  have "syncedPod (plCodec (prLib r)) v p (expectedPodOf v) enc = (p, False)"
    using assms(3,4) by (simp add: syncedPod_def Let_def)
  then show ?thesis
    using assms by (simp add: syncVirtualPodMetadataAndSpecToPhysicalPod_def codec_roundtrip_def syncEphemeral_def
        getExpectedPodMetadataFromAnnotation_def Let_def)
qed

text \<open>
  C3. Synchronization settles: a physical pod the controller has created for a virtual pod, once the
  server has given it its UID, its time and its status, is neither taken for another pod's copy nor
  written to again; and the pod that an update of the metadata writes needs no further update, whatever
  it looked like before and whatever had been expected of it. The codec is only assumed to read back
  what it wrote for this pod.
\<close>

theorem synchronization_settles:
  assumes "codec_roundtrip (plCodec (prLib r)) v" and "poActiveDeadlineSeconds spec = poActiveDeadlineSeconds v"
    and "plDeepEqual (prLib r) (poEphemeralContainers spec) (poEphemeralContainers v)"
    and "plDeepEqual (prLib r) (poEphemeralContainers p) (poEphemeralContainers v)"
    and "EncodeExpected (plCodec (prLib r)) (expectedPodOf v) = Inr enc"
  shows "(let made = physicalPodFor (plCodec (prLib r)) v spec wt wn;
              q = made\<lparr>poMeta := (poMeta made)\<lparr>mUID := uid, mCreationTimestamp := t\<rparr>, poStatus := st\<rparr>
          in belongsTo q v \<and> deleteMismatchedPhysicalPodIfNeeded A v q = return (Inr ()) \<and>
             syncVirtualPodMetadataAndSpecToPhysicalPod r A v q = return (Inr ())) \<and>
    syncVirtualPodMetadataAndSpecToPhysicalPod r A v (fst (syncedPod (plCodec (prLib r)) v p prev enc)) = return (Inr ())"
proof
  have a: "mAnnotations (poMeta (physicalPodFor (plCodec (prLib r)) v spec wt wn)) AnnotationExpectedMetadata = Some enc"
    using assms(5) by (simp add: physicalPodFor_def buildPhysicalPodAnnotations_def Let_def)
  have b: "poActiveDeadlineSeconds (physicalPodFor (plCodec (prLib r)) v spec wt wn) = poActiveDeadlineSeconds v"
    "poEphemeralContainers (physicalPodFor (plCodec (prLib r)) v spec wt wn) = poEphemeralContainers spec"
    using assms(2) by (simp_all add: physicalPodFor_def)
  have own: "mAnnotations (poMeta (physicalPodFor C v spec wt wn)) AnnotationVirtualPodNamespace = Some (mNamespace (poMeta v))"
     "mAnnotations (poMeta (physicalPodFor C v spec wt wn)) AnnotationVirtualPodName = Some (mName (poMeta v))"
     "mAnnotations (poMeta (physicalPodFor C v spec wt wn)) AnnotationVirtualPodUID = Some (mUID (poMeta v))" for C
    by (simp_all add: physicalPodFor_def buildPhysicalPodAnnotations_def Let_def kube_consts split: sum.splits)
  show "let made = physicalPodFor (plCodec (prLib r)) v spec wt wn;
              q = made\<lparr>poMeta := (poMeta made)\<lparr>mUID := uid, mCreationTimestamp := t\<rparr>, poStatus := st\<rparr>
          in belongsTo q v \<and> deleteMismatchedPhysicalPodIfNeeded A v q = return (Inr ()) \<and>
             syncVirtualPodMetadataAndSpecToPhysicalPod r A v q = return (Inr ())"
    using assms a b own by (simp add: Let_def up_to_date_untouched belongsTo_def deleteMismatchedPhysicalPodIfNeeded_def)
  have "mAnnotations (poMeta (fst (syncedPod (plCodec (prLib r)) v p prev enc))) AnnotationExpectedMetadata = Some enc \<or> enc = ''''"
    by (auto simp: syncedPod_def Let_def case_prod_beta mget_def split: option.splits)
  moreover have "enc \<noteq> ''''" using assms(1,5) by (simp add: codec_roundtrip_def)
  ultimately show "syncVirtualPodMetadataAndSpecToPhysicalPod r A v (fst (syncedPod (plCodec (prLib r)) v p prev enc)) = return (Inr ())"
    using assms by (intro up_to_date_untouched) (auto simp: syncedPod_def Let_def case_prod_beta)
qed

theorem synchronization_settles_witness:
  "syncVirtualPodMetadataAndSpecToPhysicalPod example_pods scripted empty_pod
     (fst (syncedPod example_codec empty_pod (empty_pod\<lparr>poActiveDeadlineSeconds := Some 5\<rparr>)
       \<lparr>epLabels = [''app'' \<mapsto> ''old''], epAnnotations = Map.empty\<rparr> ''{}'')) = return (Inr ())"
proof -
  have codec: "plCodec (prLib example_pods) = example_codec" by (simp add: example_pods_def)
  have "codec_roundtrip example_codec empty_pod"
    by (simp add: codec_roundtrip_def example_codec_def expectedPodOf_def filterVirtualPodAnnotations_def
        filterVirtualPodLabels_def mfilter_def empty_meta_def fun_eq_iff)
  then show ?thesis
    by (rule synchronization_settles [where r = example_pods and spec = empty_pod, THEN conjunct2, unfolded codec])
      (simp_all add: example_pods_def example_codec_def)
qed

section \<open>Where the pod may run\<close>

definition pinned :: "cluster_binding \<Rightarrow> string \<Rightarrow> pod \<Rightarrow> bool" where
  "pinned cb node spec \<longleftrightarrow>
     (if bDirectScheduling cb then poNodeName spec = node \<and> poAffinity spec = None
      else poNodeName spec = '''' \<and> poAffinity spec = Some (pinTo node)) \<and>
     poNodeSelector spec = Map.empty \<and> poSchedulerName spec = '''' \<and>
     poServiceAccountName spec = '''' \<and> poDeprecatedServiceAccount spec = '''' \<and>
     poPriorityClassName spec = (if bPodPriorityClassName cb = '''' then DefaultPriorityClassName else bPodPriorityClassName cb) \<and>
     poPriority spec = None \<and> poPreemptionPolicy spec = None"

lemma pinned_stages:
  "pinned cb node (prioritySpec (if bPodPriorityClassName cb = '''' then DefaultPriorityClassName else bPodPriorityClassName cb)
     (scheduleSpec cb node v))"
  "pinned cb node spec \<Longrightarrow> hostnameSpec v spec = Inr spec' \<Longrightarrow> pinned cb node spec'"
  "pinned cb node spec \<Longrightarrow> rewriteNames v rm spec = Inr spec' \<Longrightarrow> pinned cb node spec'"
  "pinned cb node spec \<Longrightarrow> pinned cb node (hostAliasesSpec ip port nm spec)"
  "pinned cb node (spec\<lparr>poDNSPolicy := d, poDNSConfig := c\<rparr>) = pinned cb node spec"
      apply (simp add: pinned_def prioritySpec_def scheduleSpec_def Let_def)
     apply (auto simp: pinned_def hostnameSpec_def split: if_splits sum.splits) []
    apply (auto simp: pinned_def rewriteNames_def replaceContainerResourceNamesInSpec_def replaceImagePullSecretNames_def split: if_splits) []
   apply (simp add: pinned_def hostAliasesSpec_def Let_def)
  apply (simp add: pinned_def)
  done

definition binding_answered :: "string \<Rightarrow> cluster_binding \<Rightarrow> event list \<Rightarrow> bool" where
  "binding_answered name cb evs \<longleftrightarrow> EvGet VirtualClient KBinding '''' name (Inr (OBinding cb)) \<in> set evs"

lemma tail_pinned:
  assumes "pinned cb node spec"
  shows "tspec (on_ok (addHostAliasesAndEnvVars A spec nm) (\<lambda>spec. configureDNSPolicy A spec ns)) w
    (\<lambda>r evs w'. pwBinding w' = pwBinding w \<and> (\<forall>spec'. r = Inr spec' \<longrightarrow> pinned cb node spec'))"
proof -
  have one: "tspec (addHostAliasesAndEnvVars A spec nm) w
      (\<lambda>r evs w'. pwBinding w' = pwBinding w \<and> (\<forall>spec'. r = Inr spec' \<longrightarrow> pinned cb node spec'))" for w
    unfolding addHostAliasesAndEnvVars_def getKubernetesIntranetIPAndPort_def
    by (intro vcg) (auto simp: assms pinned_stages(4) split: sum.splits prod.splits list.splits intro!: vcg)
  have two: "tspec (configureDNSPolicy A spec' ns) w
      (\<lambda>r evs w'. pwBinding w' = pwBinding w \<and> (\<forall>spec'. r = Inr spec' \<longrightarrow> pinned cb node spec'))"
    if "pinned cb node spec'" for w spec'
    unfolding configureDNSPolicy_def getKubeDnsIntranetIP_def
    by (intro vcg) (auto simp: that pinned_stages(5) split: sum.splits prod.splits list.splits intro!: vcg)
  show ?thesis
    by (intro vcg) (rule tspec_mono [OF one], auto split: sum.splits intro!: tspec_mono [OF two])
qed

text \<open>
  C4. A pod that is built for the physical cluster can only run on the physical node behind its virtual
  node: with direct scheduling it names that node, otherwise its only affinity requires that node, and
  neither the selector nor the scheduler of the virtual pod survives. It runs without a service account
  of the physical cluster and with the priority class that the binding, as read by this very call, names.
\<close>

theorem buildPhysicalPodSpec_pinned:
  "tspec (buildPhysicalPodSpec A v node rm) w (\<lambda>r evs w'. \<forall>spec. r = Inr spec \<longrightarrow>
     binding_answered (mName (bMeta (pwBinding w))) (pwBinding w') evs \<and> pinned (pwBinding w') node spec)"
proof -
  have ensure: "tspec (if b then ensureDefaultPriorityClass A else return (Inr ())) w (\<lambda>_ _ w'. pwBinding w' = pwBinding w)" for b w
    unfolding ensureDefaultPriorityClass_def by (intro vcg) simp_all
  have rest: "tspec (case bind_res (hostnameSpec v spec) (rewriteNames v rm) of Inl err \<Rightarrow> return (Inl err)
      | Inr spec \<Rightarrow> on_ok (addHostAliasesAndEnvVars A spec nm) (\<lambda>spec. configureDNSPolicy A spec ns)) w
      (\<lambda>r evs w'. \<forall>spec. r = Inr spec \<longrightarrow> pwBinding w' = pwBinding w \<and> pinned cb node spec)"
    if "pinned cb node spec" for spec nm ns w cb
    by (intro tspec_sum tspec_return, simp, rule tspec_mono [OF tail_pinned [where cb = cb and node = node]])
      (auto intro: pinned_stages(3) [OF pinned_stages(2) [OF that]])
  have inner: "tspec (do {
        modifies (pwBinding_update (\<lambda>_. cb));
        on_ok_wrap ''failed to ensure default PriorityClass''
         (if bPodPriorityClassName cb = '''' then ensureDefaultPriorityClass A else return (Inr ())) (\<lambda>_.
           case bind_res (hostnameSpec v (prioritySpec (if bPodPriorityClassName cb = '''' then DefaultPriorityClassName
               else bPodPriorityClassName cb) (scheduleSpec cb node v))) (rewriteNames v rm) of Inl err \<Rightarrow> return (Inl err)
           | Inr spec \<Rightarrow> on_ok (addHostAliasesAndEnvVars A spec nm) (\<lambda>spec. configureDNSPolicy A spec ns)) }) w
      (\<lambda>r evs w'. \<forall>spec. r = Inr spec \<longrightarrow> pwBinding w' = cb \<and> pinned cb node spec)" for cb nm ns w
    apply (intro tspec_bind tspec_modifies tspec_on_ok_wrap)
     apply simp
    apply (rule tspec_mono [OF ensure], intro conjI allI impI tspec_mono [OF rest [OF pinned_stages(1)]])
    apply simp_all
    done
  show ?thesis
    unfolding buildPhysicalPodSpec_def binding_def get_binding_def Let_def
    by (intro tspec_bind tspec_reads tspec_on_ok_wrap tspec_ops tspec_return conjI allI impI tspec_mono [OF inner])
      (simp_all add: decode_simps binding_answered_def)
qed

theorem buildPhysicalPodSpec_pinned_witness:
  "tspec (buildPhysicalPodSpec scripted empty_pod ''n1''
       \<lparr>rmConfigMaps = Map.empty, rmSecrets = Map.empty, rmPVCs = Map.empty, rmServiceAccountTokenName = Map.empty,
         rmConfigMapsRequired = Map.empty, rmSecretsRequired = Map.empty\<rparr>)
     ((pod_start [AObj (Inr (OBinding (pwBinding (pod_start []))))])\<lparr>pwIntranetIP := ''10.0.0.1'', pwIntranetPort := ''443''\<rparr>)
     (\<lambda>r evs w'. \<forall>spec. r = Inr spec \<longrightarrow> binding_answered ''b'' (pwBinding w') evs \<and> pinned (pwBinding w') ''n1'' spec)"
  by (rule tspec_mono [OF buildPhysicalPodSpec_pinned]) (simp add: pod_start_def)

section \<open>Two behaviours of the code\<close>

lemma EncodeToString_longer: "t \<noteq> [] \<Longrightarrow> length t < length (EncodeToString t)"
proof (induction t rule: EncodeToString.induct)
  case (4 a b c s)
  then have "s \<noteq> [] \<Longrightarrow> length s < length (EncodeToString s)" by blast
  then show ?case by (cases "s = []") (simp_all add: Let_def less_SucI)
qed (auto simp: Let_def)

text \<open>
  The secret that holds a token is written again at every synchronization, even when it already holds
  exactly this token: what is stored is the token, and what it is compared with is the base64 text of the
  token, which is never equal to it.
\<close>

theorem token_always_rewritten:
  assumes "t \<noteq> ''''" and "seData s ''token'' = Some t"
  shows "tspec (storeToken A v ns n t create) w (\<lambda>_ evs _. EvGet PhysicalClient KSecret ns n (Inr (OSecret s)) \<in> set evs \<longrightarrow>
     (\<exists>res. EvUpdate PhysicalClient (OSecret s) res \<in> set evs))"
proof -
  have ne: "t \<noteq> EncodeToString t" using EncodeToString_longer [OF assms(1)] by (metis less_irrefl)
  have same: "s\<lparr>seData := (seData s)(''token'' \<mapsto> t)\<rparr> = s"
    using assms(2) by (simp add: fun_upd_idem)
  show ?thesis
    unfolding storeToken_def get_secret_def
    by (intro vcg) (use assms ne same in \<open>auto simp: decode_simps decode_def\<close>)
qed

theorem token_always_rewritten_witness:
  "tspec (storeToken scripted empty_pod ''m'' ''s'' ''abc'' False)
     (pod_start [AObj (Inr (OSecret (tokenSecret empty_pod ''m'' ''s'' ''abc''))), AObj (Inl (ApiError ''x''))])
     (\<lambda>_ evs _. EvGet PhysicalClient KSecret ''m'' ''s'' (Inr (OSecret (tokenSecret empty_pod ''m'' ''s'' ''abc''))) \<in> set evs \<longrightarrow>
       (\<exists>res. EvUpdate PhysicalClient (OSecret (tokenSecret empty_pod ''m'' ''s'' ''abc'')) res \<in> set evs))"
  by (rule token_always_rewritten) (simp_all add: tokenSecret_def)

lemma on_ok_return: "on_ok (return (Inr x)) f = f x"
  by (simp add: on_ok_def)

lemma mismatched_foreign: "\<not> belongsTo p v \<Longrightarrow> deleteMismatchedPhysicalPodIfNeeded A v p = return (Inr ())"
  by (simp add: deleteMismatchedPhysicalPodIfNeeded_def Let_def)

lemma sync_unexpected:
  "mAnnotations (poMeta p) AnnotationExpectedMetadata = None \<Longrightarrow>
     syncVirtualPodMetadataAndSpecToPhysicalPod r A v p = return (Inr ())"
  by (simp add: syncVirtualPodMetadataAndSpecToPhysicalPod_def Let_def mget_def)

text \<open>
  A physical pod that carries no trace of belonging to the virtual pod, but lies at the place recorded on
  it, is treated as its copy: when the clock says that it has not been scheduled for more than five minutes,
  it is deleted.
\<close>

theorem foreign_pod_deleted:
  assumes "\<not> belongsTo p v" and "mget (mAnnotations (poMeta v)) AnnotationPhysicalPodUID \<noteq> ''''"
    and "mAnnotations (poMeta p) AnnotationExpectedMetadata = None" and "poNodeName p = ''''"
    and "mCreationTimestamp (poMeta p) \<noteq> zeroTime"
  shows "tspec (on_ok (deleteMismatchedPhysicalPodIfNeeded A v p) (\<lambda>_. syncExistingPod r A v p)) w (\<lambda>_ evs _.
    \<exists>c es. evs = EvClock c # es \<and> (Since (ckNow c) (mCreationTimestamp (poMeta p)) > 300 * Second \<longrightarrow>
      (\<exists>res. EvDelete PhysicalClient KPod (mNamespace (poMeta p)) (mName (poMeta p)) no_opts res \<in> set es)))"
  using assms
  by (simp add: syncExistingPod_def on_ok_return mismatched_foreign sync_unexpected)
    (unfold handleUnScheduledPhysicalPod_def deletePod_def ignoreNotFound_def Let_def, intro vcg, auto intro!: vcg)

theorem foreign_pod_deleted_witness:
  "tspec (on_ok (deleteMismatchedPhysicalPodIfNeeded scripted
        (empty_pod\<lparr>poMeta := empty_meta\<lparr>mName := ''p'', mAnnotations := [AnnotationPhysicalPodUID \<mapsto> ''u'']\<rparr>\<rparr>)
        (empty_pod\<lparr>poMeta := empty_meta\<lparr>mName := ''x'', mCreationTimestamp := 0\<rparr>\<rparr>))
      (\<lambda>_. syncExistingPod example_pods scripted
        (empty_pod\<lparr>poMeta := empty_meta\<lparr>mName := ''p'', mAnnotations := [AnnotationPhysicalPodUID \<mapsto> ''u'']\<rparr>\<rparr>)
        (empty_pod\<lparr>poMeta := empty_meta\<lparr>mName := ''x'', mCreationTimestamp := 0\<rparr>\<rparr>)))
     (pod_start [AClock (zero_clock\<lparr>ckNow := 301 * Second\<rparr>), AUnit (Inr ())])
     (\<lambda>_ evs _. \<exists>c es. evs = EvClock c # es \<and> (Since (ckNow c) 0 > 300 * Second \<longrightarrow>
        (\<exists>res. EvDelete PhysicalClient KPod '''' ''x'' no_opts res \<in> set es)))"
  by (rule tspec_mono [OF foreign_pod_deleted])
    (auto simp: belongsTo_def empty_meta_def empty_pod_def zeroTime_def Second_def)

end
