(* ===== verification/Binding_Syncer.thy ===== *)
theory Binding_Syncer
  imports Policy_Controller Resource_Sync
begin

text \<open>
  \<^verbatim>\<open>pkg/syncer/clusterbinding/clusterbinding.go\<close>: the controller that follows the cluster binding of
  this syncer. A changed node selector or taint setting puts the affected physical nodes on the queue;
  a binding that is being deleted keeps its finalizer until nothing of it is left in either cluster.
  The memory is the binding that the bottom-up syncer caches. The two functions of the bottom-up syncer
  are arguments, as in \<open>Policy_Controller\<close>. \<^verbatim>\<open>reflect.DeepEqual\<close> on node selectors is equality; nil and
  empty slices inside a term coincide in the model. The syncer and the two clients are set when the reconciler is
  built (\<^verbatim>\<open>kubeocean_syncer.go\<close>), so the tests for nil are left out.
\<close>

definition ClusterBindingSyncerFinalizer :: string where [kube_consts]:
  "ClusterBindingSyncerFinalizer = ''kubeocean.io/clusterbinding-syncer''"

record 's binding_world = "'s world" +
  bwCached :: "cluster_binding option"

type_synonym ('s, 'm, 'a) binding_prog = "(('s, 'm) binding_world_scheme, 'a) state"

section \<open>Changes of the spec\<close>

definition hasNodeSelectorChanged :: "cluster_binding \<Rightarrow> ('s, 'm, bool) binding_prog" where
  "hasNodeSelectorChanged newBinding = do {
     oldBinding \<leftarrow> reads bwCached;
     return (case oldBinding of None \<Rightarrow> True | Some b \<Rightarrow> bNodeSelector b \<noteq> bNodeSelector newBinding)
   }"

definition hasDisableNodeDefaultTaintChanged :: "cluster_binding \<Rightarrow> ('s, 'm, bool) binding_prog" where
  "hasDisableNodeDefaultTaintChanged newBinding = do {
     oldBinding \<leftarrow> reads bwCached;
     return (case oldBinding of None \<Rightarrow> True
       | Some b \<Rightarrow> bDisableNodeDefaultTaint b \<noteq> bDisableNodeDefaultTaint newBinding)
   }"

text \<open>The keys of the set, in the order of their first insertion; Go leaves the order open.\<close>

definition unionAndDeduplicateNodes :: "string list \<Rightarrow> string list \<Rightarrow> string list" where
  "unionAndDeduplicateNodes oldNodes newNodes =
     foldl (\<lambda>nodeSet node. if node \<in> set nodeSet then nodeSet else nodeSet @ [node]) [] (oldNodes @ newNodes)"

definition hasTerms :: "node_selector \<Rightarrow> bool" where
  "hasTerms sel \<longleftrightarrow> (case sel of None \<Rightarrow> False | Some terms \<Rightarrow> length terms > 0)"

text \<open>The end both handlers share: the cache is set, then the nodes are put on the queue.\<close>

definition adoptBinding ::
  "(string list \<Rightarrow> ('s, 'm, unit res) binding_prog) \<Rightarrow> cluster_binding \<Rightarrow> string list \<Rightarrow> ('s, 'm, ctrl_result res) binding_prog" where
  "adoptBinding requeue newBinding affectedNodes = do {
     modifies (bwCached_update (\<lambda>_. Some newBinding));
     if length affectedNodes > 0 then on_ok (requeue affectedNodes) (\<lambda>_. return (Inr (Result 0)))
     else return (Inr (Result 0))
   }"

definition handleNodeSelectorChange ::
  "(node_selector \<Rightarrow> ('s, 'm, string list res) binding_prog) \<Rightarrow> (string list \<Rightarrow> ('s, 'm, unit res) binding_prog) \<Rightarrow>
   cluster_binding \<Rightarrow> ('s, 'm, ctrl_result res) binding_prog" where
  "handleNodeSelectorChange getNodes requeue newBinding = do {
     oldBinding \<leftarrow> reads bwCached;
     let oldSelector = (case oldBinding of None \<Rightarrow> None | Some b \<Rightarrow> bNodeSelector b);
     on_ok (if hasTerms oldSelector then getNodes oldSelector else return (Inr [])) (\<lambda>oldNodes.
       on_ok (getNodes (bNodeSelector newBinding)) (\<lambda>newNodes.
         adoptBinding requeue newBinding (unionAndDeduplicateNodes oldNodes newNodes)))
   }"

definition handleDisableNodeDefaultTaintChange ::
  "(node_selector \<Rightarrow> ('s, 'm, string list res) binding_prog) \<Rightarrow> (string list \<Rightarrow> ('s, 'm, unit res) binding_prog) \<Rightarrow>
   cluster_binding \<Rightarrow> ('s, 'm, ctrl_result res) binding_prog" where
  "handleDisableNodeDefaultTaintChange getNodes requeue newBinding =
     on_ok (if hasTerms (bNodeSelector newBinding) then getNodes (bNodeSelector newBinding) else return (Inr []))
       (adoptBinding requeue newBinding)"

section \<open>Deletion\<close>

definition labelled :: "(string \<times> string) list \<Rightarrow> list_opts" where
  "labelled kvs = \<lparr>loNamespace = None, loLabels = kvs, loNodeName = None\<rparr>"

definition getVirtualNodesByClusterBinding :: "'s api \<Rightarrow> string \<Rightarrow> ('s, 'm, node list res) prog" where
  "getVirtualNodesByClusterBinding A clusterBindingName =
     on_ok_wrap ''failed to list virtual nodes by cluster binding''
       (list_nodes A VirtualClient (labelled [(LabelClusterBinding, clusterBindingName)])) (\<lambda>items. return (Inr items))"

definition getPhysicalNodesFromVirtualNodes :: "node list \<Rightarrow> string list" where
  "getPhysicalNodesFromVirtualNodes virtualNodes =
     List.map_filter (\<lambda>nd. mLabels (nMeta nd) LabelPhysicalNodeName) virtualNodes"

definition describe :: "string \<Rightarrow> string list \<Rightarrow> string list" where
  "describe plural names = (if length names > 0 then [plural @ '': ['' @ Join names '', '' @ '']''] else [])"

definition fakePodOpts :: list_opts where
  "fakePodOpts = labelled [(LabelHostPortFakePod, LabelValueTrue), (LabelManagedBy, LabelManagedByValue)]"

fun deleteListedPods :: "'s api \<Rightarrow> pod list \<Rightarrow> ('s, 'm, unit res) prog" where
  "deleteListedPods A [] = return (Inr ())"
| "deleteListedPods A (pod # pods) = do {
     r \<leftarrow> Delete A VirtualClient KPod (mNamespace (poMeta pod)) (mName (poMeta pod))
            \<lparr>doUID = None, doGracePeriodSeconds = Some 0\<rparr>;
     case r of
       Inl err \<Rightarrow> (if \<not> IsNotFound err then return (Inl (Wrapf (''failed to delete fake pod '' @ mName (poMeta pod)) err))
                  else deleteListedPods A pods)
     | Inr _ \<Rightarrow> deleteListedPods A pods
   }"

definition checkAndCleanFakePods :: "'s api \<Rightarrow> ('s, 'm, string list res) prog" where
  "checkAndCleanFakePods A =
     on_ok_wrap ''failed to list fake pods for hostport'' (list_pods A VirtualClient fakePodOpts) (\<lambda>items.
       on_ok (deleteListedPods A items) (\<lambda>_. return (Inr (map (mName \<circ> poMeta) items))))"

fun markDeleting :: "'s api \<Rightarrow> string \<Rightarrow> cluster_binding \<Rightarrow> obj list \<Rightarrow> ('s, 'm, unit res) prog" where
  "markDeleting A what b [] = return (Inr ())"
| "markDeleting A what b (ob # obs) =
     on_ok_wrap (''failed to update '' @ what @ '' '' @ mName (obj_meta ob) @ '' with clusterbinding-deleting annotation'')
       (AddClusterBindingDeletingAnnotation A ob (bClusterID b) (mName (bMeta b))) (\<lambda>_. markDeleting A what b obs)"

definition of_kind :: "kind \<Rightarrow> obj list \<Rightarrow> obj list" where
  "of_kind k = filter (\<lambda>ob. obj_kind ob = k)"

definition cleanKind ::
  "'s api \<Rightarrow> string \<Rightarrow> cluster_binding \<Rightarrow> kind \<times> string \<times> string \<Rightarrow> ('s, 'm, string list res) prog" where
  "cleanKind A labelKey b kwp = (case kwp of (k, what, plural) \<Rightarrow>
     on_ok_wrap (''failed to list '' @ plural) (ListObjs A VirtualClient k (labelled [(labelKey, LabelValueTrue)])) (\<lambda>items.
       on_ok (markDeleting A what b (of_kind k items)) (\<lambda>_.
         return (Inr (describe plural (map (mName \<circ> obj_meta) (of_kind k items)))))))"

fun cleanKinds ::
  "'s api \<Rightarrow> string \<Rightarrow> cluster_binding \<Rightarrow> (kind \<times> string \<times> string) list \<Rightarrow> ('s, 'm, string list res) prog" where
  "cleanKinds A labelKey b [] = return (Inr [])"
| "cleanKinds A labelKey b (k # ks) = on_ok (cleanKind A labelKey b k) (\<lambda>names.
     on_ok (cleanKinds A labelKey b ks) (\<lambda>rest. return (Inr (names @ rest))))"

definition virtualKinds :: "(kind \<times> string \<times> string) list" where
  "virtualKinds = [(KConfigMap, ''ConfigMap'', ''configmaps''), (KSecret, ''Secret'', ''secrets''),
     (KPV, ''PV'', ''persistent volumes''), (KPVC, ''PVC'', ''persistent volume claims'')]"

definition checkAndCleanVirtualResources :: "'s api \<Rightarrow> string \<Rightarrow> cluster_binding \<Rightarrow> ('s, 'm, string res) prog" where
  "checkAndCleanVirtualResources A labelKey b =
     on_ok_wrap ''failed to check and clean fake pods'' (checkAndCleanFakePods A) (\<lambda>fakePodNames.
       on_ok (cleanKinds A labelKey b virtualKinds) (\<lambda>names.
         return (Inr (Join (describe ''fake pods'' fakePodNames @ names) ''; ''))))"

text \<open>The five lists of the physical cluster: the first that is not empty ends the search.\<close>

fun findManaged :: "'s api \<Rightarrow> (kind \<times> string) list \<Rightarrow> ('s, 'm, string res) prog" where
  "findManaged A [] = return (Inr '''')"
| "findManaged A ((k, plural) # ks) =
     on_ok_wrap (''failed to list '' @ plural)
       (ListObjs A PhysicalClient k (labelled [(LabelManagedBy, LabelManagedByValue)])) (\<lambda>items.
         if length (of_kind k items) > 0 then return (Inr (hd (describe plural (map (mName \<circ> obj_meta) (of_kind k items)))))
         else findManaged A ks)"

definition physicalKinds :: "(kind \<times> string) list" where
  "physicalKinds = [(KPod, ''pods''), (KConfigMap, ''configmaps''), (KSecret, ''secrets''),
     (KPVC, ''persistent volume claims''), (KPV, ''persistent volumes'')]"

definition checkPhysicalResourcesExist :: "'s api \<Rightarrow> ('s, 'm, string res) prog" where
  "checkPhysicalResourcesExist A = findManaged A physicalKinds"

definition handleClusterBindingDeletion ::
  "(string list \<Rightarrow> ('s, 'm, unit res) prog) \<Rightarrow> 's api \<Rightarrow> string \<Rightarrow> cluster_binding \<Rightarrow> ('s, 'm, ctrl_result res) prog" where
  "handleClusterBindingDeletion requeue A bindingName clusterBinding =
     on_ok (getVirtualNodesByClusterBinding A bindingName) (\<lambda>virtualNodes.
       if length virtualNodes > 0 then
         (let physicalNodeNames = getPhysicalNodesFromVirtualNodes virtualNodes in
          on_ok (if length physicalNodeNames > 0 then requeue physicalNodeNames else return (Inr ()))
            (\<lambda>_. return (Inr (Result (5 * Second)))))
       else on_ok (checkAndCleanVirtualResources A (GetManagedByClusterIDLabel (bClusterID clusterBinding)) clusterBinding) (\<lambda>resourcesNames.
         if length resourcesNames > 0
         then return (Inl (Errorf (''virtual resources still exist, cannot complete deletion, resources: '' @ resourcesNames)))
         else on_ok (checkPhysicalResourcesExist A) (\<lambda>physicalResourcesNames.
           if length physicalResourcesNames > 0
           then return (Inl (Errorf (''physical resources still exist, cannot complete deletion, resources: '' @ physicalResourcesNames)))
           else if \<not> ContainsFinalizer (bMeta clusterBinding) ClusterBindingSyncerFinalizer then return (Inr (Result 0))
           else on_ok (Update A VirtualClient (OBinding (clusterBinding\<lparr>bMeta :=
                  RemoveFinalizer (bMeta clusterBinding) ClusterBindingSyncerFinalizer\<rparr>)))
             (\<lambda>_. return (Inr (Result 0))))))"

section \<open>Reconcile\<close>

definition adoptChanges ::
  "(node_selector \<Rightarrow> ('s, 'm, string list res) binding_prog) \<Rightarrow> (string list \<Rightarrow> ('s, 'm, unit res) binding_prog) \<Rightarrow>
   cluster_binding \<Rightarrow> ('s, 'm, ctrl_result res) binding_prog" where
  "adoptChanges getNodes requeue clusterBinding = do {
     selectorChanged \<leftarrow> hasNodeSelectorChanged clusterBinding;
     if selectorChanged then handleNodeSelectorChange getNodes requeue clusterBinding
     else do {
       taintChanged \<leftarrow> hasDisableNodeDefaultTaintChanged clusterBinding;
       if taintChanged then handleDisableNodeDefaultTaintChange getNodes requeue clusterBinding
       else return (Inr (Result 0))
     }
   }"

text \<open>\<^verbatim>\<open>Update\<close> leaves the server's answer in the object that is used from then on.\<close>

definition ReconcileBinding ::
  "(node_selector \<Rightarrow> ('s, 'm, string list res) binding_prog) \<Rightarrow> (string list \<Rightarrow> ('s, 'm, unit res) binding_prog) \<Rightarrow>
   's api \<Rightarrow> string \<Rightarrow> string \<Rightarrow> ('s, 'm, ctrl_result res) binding_prog" where
  "ReconcileBinding getNodes requeue A bindingName reqName =
    (if reqName \<noteq> bindingName then return (Inr (Result 0))
     else do {
       got \<leftarrow> get_binding A VirtualClient reqName;
       case got of
         Inl err \<Rightarrow> (if IsNotFound err then return (Inr (Result 0)) else return (Inl err))
       | Inr clusterBinding \<Rightarrow>
          (if mDeletionTimestamp (bMeta clusterBinding) \<noteq> None
           then handleClusterBindingDeletion requeue A bindingName clusterBinding
           else if \<not> ContainsFinalizer (bMeta clusterBinding) ClusterBindingSyncerFinalizer then do {
             u \<leftarrow> Update A VirtualClient (OBinding (clusterBinding\<lparr>bMeta :=
                    AddFinalizer (bMeta clusterBinding) ClusterBindingSyncerFinalizer\<rparr>));
             case decode the_binding u of
               Inl err \<Rightarrow> return (Inl err)
             | Inr answer \<Rightarrow> adoptChanges getNodes requeue answer
           }
           else adoptChanges getNodes requeue clusterBinding)
     })"

definition bindingFilter :: "string \<Rightarrow> cluster_binding \<Rightarrow> bool" where
  "bindingFilter bindingName obj \<longleftrightarrow> mName (bMeta obj) = bindingName"

section \<open>What the controller may do, and when\<close>

definition binding_read :: "string \<Rightarrow> cluster_binding \<Rightarrow> event list \<Rightarrow> bool" where
  "binding_read name b pre \<longleftrightarrow> EvGet VirtualClient KBinding '''' name (Inr (OBinding b)) \<in> set pre"

definition seen_empty :: "client \<Rightarrow> kind \<Rightarrow> list_opts \<Rightarrow> event list \<Rightarrow> bool" where
  "seen_empty c k lo pre \<longleftrightarrow> (\<exists>obs. EvList c k lo (Inr obs) \<in> set pre \<and> of_kind k obs = [])"

abbreviation heldBy :: "cluster_binding \<Rightarrow> list_opts" where
  "heldBy b \<equiv> labelled [(GetManagedByClusterIDLabel (bClusterID b), LabelValueTrue)]"

abbreviation managedObjs :: list_opts where
  "managedObjs \<equiv> labelled [(LabelManagedBy, LabelManagedByValue)]"

definition nothing_left :: "string \<Rightarrow> cluster_binding \<Rightarrow> event list \<Rightarrow> bool" where
  "nothing_left name b pre \<longleftrightarrow>
     seen_empty VirtualClient KNode (labelled [(LabelClusterBinding, name)]) pre \<and>
     seen_empty VirtualClient KPod fakePodOpts pre \<and>
     (\<forall>k\<in>{KConfigMap, KSecret, KPV, KPVC}. seen_empty VirtualClient k (heldBy b) pre) \<and>
     (\<forall>k\<in>{KPod, KConfigMap, KSecret, KPVC, KPV}. seen_empty PhysicalClient k managedObjs pre)"

text \<open>The binding was read, is being deleted, and has no virtual node any more.\<close>

definition cleaning :: "string \<Rightarrow> cluster_binding \<Rightarrow> event list \<Rightarrow> bool" where
  "cleaning name b pre \<longleftrightarrow> binding_read name b pre \<and> mDeletionTimestamp (bMeta b) \<noteq> None \<and>
     seen_empty VirtualClient KNode (labelled [(LabelClusterBinding, name)]) pre"

fun binding_guard :: "string \<Rightarrow> event list \<Rightarrow> event \<Rightarrow> bool" where
  "binding_guard name pre (EvUpdate c ob _) \<longleftrightarrow> c = VirtualClient \<and> (\<exists>b. binding_read name b pre \<and>
     (if mDeletionTimestamp (bMeta b) = None
      then \<not> ContainsFinalizer (bMeta b) ClusterBindingSyncerFinalizer \<and>
        ob = OBinding (b\<lparr>bMeta := AddFinalizer (bMeta b) ClusterBindingSyncerFinalizer\<rparr>)
      else (ob = OBinding (b\<lparr>bMeta := RemoveFinalizer (bMeta b) ClusterBindingSyncerFinalizer\<rparr>) \<and> nothing_left name b pre) \<or>
        cleaning name b pre \<and> (\<exists>k obs ob0. EvList VirtualClient k (heldBy b) (Inr obs) \<in> set pre \<and> ob0 \<in> set obs \<and>
           ob = set_obj_meta ((obj_meta ob0)\<lparr>mAnnotations := (mAnnotations (obj_meta ob0))
             (GetClusterBindingDeletingAnnotation (bClusterID b) \<mapsto> mName (bMeta b))\<rparr>) ob0)))"
| "binding_guard name pre (EvDelete c k ns n opts _) \<longleftrightarrow> c = VirtualClient \<and> k = KPod \<and>
     opts = \<lparr>doUID = None, doGracePeriodSeconds = Some 0\<rparr> \<and> (\<exists>b. cleaning name b pre) \<and>
     (\<exists>obs p. EvList VirtualClient KPod fakePodOpts (Inr obs) \<in> set pre \<and> OPod p \<in> set obs \<and>
        (ns, n) = (mNamespace (poMeta p), mName (poMeta p)))"
| "binding_guard name pre e \<longleftrightarrow> \<not> is_write e"

lemma binding_guard_read [simp]: "\<not> is_write e \<Longrightarrow> binding_guard name pre e"
  by (cases e) auto

lemma binding_read_mono [simp]: "binding_read name b pre \<Longrightarrow> binding_read name b (pre @ es)"
  by (simp add: binding_read_def)

lemma seen_empty_mono [simp]:
  "seen_empty c k lo pre \<Longrightarrow> seen_empty c k lo (pre @ es)"
  "seen_empty c k lo (pre @ es) \<Longrightarrow> seen_empty c k lo (pre @ es @ fs)"
  by (auto simp: seen_empty_def)

lemma cleaning_mono [simp]: "cleaning name b pre \<Longrightarrow> cleaning name b (pre @ es)"
  by (simp add: cleaning_def)

lemma cleaningD: "cleaning name b pre \<Longrightarrow> binding_read name b pre" "cleaning name b pre \<Longrightarrow> mDeletionTimestamp (bMeta b) \<noteq> None"
  by (simp_all add: cleaning_def)

lemma seen_empty_later: "seen_empty c k lo pre \<Longrightarrow> set pre \<subseteq> set pre' \<Longrightarrow> seen_empty c k lo pre'"
  by (auto simp: seen_empty_def)

lemma seen_emptyI [intro]: "of_kind k obs = [] \<Longrightarrow> seen_empty c k lo (pre @ EvList c k lo (Inr obs) # es)"
  by (auto simp: seen_empty_def)

lemma guarded_deleteListedPods:
  assumes "EvList VirtualClient KPod fakePodOpts (Inr obs) \<in> set pre" and "OPod ` set ps \<subseteq> set obs"
    and "cleaning name b pre"
  shows "guarded (binding_guard name) pre (deleteListedPods A ps) (\<lambda>_ _. True)"
  using assms
proof (induction ps arbitrary: pre)
  case (Cons p ps)
  then show ?case
    unfolding deleteListedPods.simps by (intro gvcg Cons.IH) auto
qed (auto intro!: gvcg)

lemma guarded_markDeleting:
  assumes "EvList VirtualClient k (heldBy b) (Inr obs) \<in> set pre" and "set xs \<subseteq> set obs"
    and "cleaning name b pre"
  shows "guarded (binding_guard name) pre (markDeleting A what b xs) (\<lambda>_ _. True)"
  using assms
proof (induction xs arbitrary: pre)
  case (Cons x xs)
  have one: "guarded (binding_guard name) pre (AddClusterBindingDeletingAnnotation A x (bClusterID b) (mName (bMeta b))) (\<lambda>_ _. True)"
    unfolding AddClusterBindingDeletingAnnotation_def Let_def
    by (intro gvcg, unfold binding_guard.simps)
      (use Cons.prems cleaningD [OF Cons.prems(3)] in \<open>auto split: sum.splits intro!: gvcg exI [of _ b] exI [of _ k] exI [of _ obs] exI [of _ x]\<close>)
  show ?case
    unfolding markDeleting.simps
    by (rule guarded_on_ok_wrap_then [OF one]) (use Cons.prems in \<open>auto intro!: Cons.IH\<close>)
qed (auto intro!: gvcg)

lemma describe_empty [simp]: "describe plural names = [] \<longleftrightarrow> names = []"
  by (simp add: describe_def)

lemma guarded_cleanKind:
  assumes "cleaning name b pre"
  shows "guarded (binding_guard name) pre (cleanKind A (GetManagedByClusterIDLabel (bClusterID b)) b (k, what, plural))
    (\<lambda>r pre'. \<forall>names. r = Inr names \<longrightarrow> '''' \<notin> set names \<and> (names = [] \<longrightarrow> seen_empty VirtualClient k (heldBy b) pre'))"
proof -
  have "'''' \<notin> set (describe plural names)" for names by (simp add: describe_def)
  then show ?thesis
    unfolding cleanKind_def prod.case
    by (intro guarded_on_ok guarded_ops)
      (use assms in \<open>auto split: sum.splits simp: of_kind_def
         intro!: guarded_on_ok_then [OF guarded_markDeleting] guarded_return seen_emptyI\<close>)
qed

lemma guarded_cleanKinds:
  assumes "cleaning name b pre"
  shows "guarded (binding_guard name) pre (cleanKinds A (GetManagedByClusterIDLabel (bClusterID b)) b ks)
    (\<lambda>r pre'. \<forall>names. r = Inr names \<longrightarrow> '''' \<notin> set names \<and>
       (names = [] \<longrightarrow> (\<forall>k\<in>fst ` set ks. seen_empty VirtualClient k (heldBy b) pre')))"
  using assms
proof (induction ks arbitrary: pre)
  case (Cons x ks)
  obtain k what plural where x: "x = (k, what, plural)" by (cases x)
  show ?case
    unfolding cleanKinds.simps
    unfolding x
    by (rule guarded_on_ok_then [OF guarded_cleanKind [OF Cons.prems]], rule guarded_on_ok_then [OF Cons.IH])
      (use Cons.prems in \<open>auto intro!: guarded_return\<close>)
qed (auto intro!: gvcg)

lemma guarded_fakePods:
  assumes "cleaning name b pre"
  shows "guarded (binding_guard name) pre (checkAndCleanFakePods A)
    (\<lambda>r pre'. r = Inr [] \<longrightarrow> seen_empty VirtualClient KPod fakePodOpts pre')"
proof -
  have pods: "OPod ` set (List.map_filter the_pod obs) \<subseteq> set obs" for obs
    by (auto simp: map_filter_def the_obj_Some)
  have none: "List.map_filter the_pod obs = [] \<Longrightarrow> of_kind KPod obs = []" for obs
  proof (induction obs)
    case (Cons ob obs) then show ?case by (cases ob) (auto simp: List.map_filter_simps of_kind_def)
  qed (simp add: of_kind_def)
  show ?thesis
    unfolding checkAndCleanFakePods_def list_pods_def
    by (intro guarded_on_ok guarded_bind guarded_ops guarded_return)
      (use assms none in \<open>auto split: sum.splits
         intro!: guarded_return guarded_on_ok_then [OF guarded_deleteListedPods [where b = b, OF _ pods]] seen_emptyI\<close>)
qed

lemma guarded_findManaged:
  "guarded (binding_guard name) pre (findManaged A ks)
    (\<lambda>r pre'. r = Inr '''' \<longrightarrow> (\<forall>k\<in>fst ` set ks. seen_empty PhysicalClient k managedObjs pre'))"
proof (induction ks arbitrary: pre)
  case (Cons x ks)
  obtain k plural where x: "x = (k, plural)" by (cases x)
  have ne: "xs \<noteq> [] \<Longrightarrow> hd (describe plural (map f xs)) \<noteq> ''''" for xs and f :: "obj \<Rightarrow> string"
    by (simp add: describe_def)
  show ?case
    unfolding x findManaged.simps
    by (intro guarded_on_ok guarded_ops)
      (use ne in \<open>auto split: sum.splits intro!: guarded_return guarded_mono [OF guarded_prefix [OF Cons.IH]] seen_emptyI\<close>)
qed (auto intro!: gvcg)

lemma Join_empty: "'''' \<notin> set xs \<Longrightarrow> Join xs sep = '''' \<longleftrightarrow> xs = []"
  by (induction xs sep rule: Join.induct) auto

lemma guarded_virtualResources:
  assumes "cleaning name b pre"
  shows "guarded (binding_guard name) pre (checkAndCleanVirtualResources A (GetManagedByClusterIDLabel (bClusterID b)) b)
    (\<lambda>r pre'. r = Inr '''' \<longrightarrow> seen_empty VirtualClient KPod fakePodOpts pre' \<and>
       (\<forall>k\<in>{KConfigMap, KSecret, KPV, KPVC}. seen_empty VirtualClient k (heldBy b) pre'))"
proof -
  have join: "Join (describe plural names @ names') sep = '''' \<longleftrightarrow> names = [] \<and> names' = []" if "'''' \<notin> set names'"
    for plural names names' sep
    using that by (subst Join_empty) (auto simp: describe_def)
  show ?thesis
    unfolding checkAndCleanVirtualResources_def
    by (intro guarded_on_ok_wrap_then [OF guarded_fakePods [OF assms]], rule guarded_on_ok_then [OF guarded_cleanKinds])
      (use assms in \<open>auto simp: join virtualKinds_def intro!: guarded_return\<close>)
qed

lemma guarded_bindingDeletion:
  assumes "binding_read name b pre" and "mDeletionTimestamp (bMeta b) \<noteq> None"
    and "\<And>ns. calls (requeue ns) (\<lambda>e. \<not> is_write e)"
  shows "guarded (binding_guard name) pre (handleClusterBindingDeletion requeue A name b) (\<lambda>_ _. True)"
proof -
  have none: "List.map_filter the_node obs = [] \<Longrightarrow> of_kind KNode obs = []" for obs
  proof (induction obs)
    case (Cons ob obs) then show ?case by (cases ob) (auto simp: List.map_filter_simps of_kind_def)
  qed (simp add: of_kind_def)
  have nodes: "guarded (binding_guard name) pre (getVirtualNodesByClusterBinding A name)
      (\<lambda>r pre'. r = Inr [] \<longrightarrow> seen_empty VirtualClient KNode (labelled [(LabelClusterBinding, name)]) pre')"
    unfolding getVirtualNodesByClusterBinding_def list_nodes_def
    by (intro guarded_on_ok guarded_bind guarded_ops guarded_return)
      (use none in \<open>auto split: sum.splits intro!: guarded_return seen_emptyI\<close>)
  have requeue: "guarded (binding_guard name) pre (if c then requeue ns else return (Inr ())) (\<lambda>_ _. True)" for pre c ns
    by (intro guarded_if guarded_return TrueI guarded_calls [OF assms(3)]) simp_all
  have last: "guarded (binding_guard name) pre' 
      (on_ok (Update A VirtualClient (OBinding (b\<lparr>bMeta := RemoveFinalizer (bMeta b) ClusterBindingSyncerFinalizer\<rparr>)))
        (\<lambda>_. return (Inr (Result 0)))) (\<lambda>_ _. True)"
    if "binding_read name b pre'" "nothing_left name b pre'" for pre'
    by (intro gvcg) (use that assms(2) in \<open>auto split: sum.splits intro!: gvcg\<close>)
  show ?thesis
    unfolding handleClusterBindingDeletion_def Let_def checkPhysicalResourcesExist_def
    by (rule guarded_on_ok_then [OF nodes], intro guarded_if guarded_on_ok_then [OF requeue] guarded_return TrueI
        guarded_on_ok_then [OF guarded_virtualResources] guarded_on_ok_then [OF guarded_findManaged] last)
      (use assms(1,2) in \<open>auto simp: nothing_left_def cleaning_def physicalKinds_def elim: seen_empty_later\<close>)
qed

section \<open>Relying on the bottom-up syncer\<close>

definition cachedSelector :: "('s, 'm) binding_world_scheme \<Rightarrow> node_selector" where
  "cachedSelector w = (case bwCached w of None \<Rightarrow> None | Some b \<Rightarrow> bNodeSelector b)"

text \<open>
  \<open>adopted listed b old evs w'\<close>: the binding is cached, and the calls are a listing for the old
  selector, if that has terms, one for the new selector, and then the enqueuing of exactly the
  nodes that the two call for, each once.
\<close>

definition adopted ::
  "(node_selector \<Rightarrow> event list \<Rightarrow> string list \<Rightarrow> bool) \<Rightarrow> cluster_binding \<Rightarrow> node_selector \<Rightarrow> event list \<Rightarrow>
   ('s, 'm) binding_world_scheme \<Rightarrow> bool" where
  "adopted listed b old evs w' \<longleftrightarrow> bwCached w' = Some b \<and> (\<exists>e1 e2 n1 n2.
     evs = e1 @ e2 @ map EvEnqueue (unionAndDeduplicateNodes n1 n2) \<and>
     (if hasTerms old then listed old e1 n1 else e1 = [] \<and> n1 = []) \<and> listed (bNodeSelector b) e2 n2)"

lemma adoptedI:
  "bwCached w' = Some b \<Longrightarrow> listed (bNodeSelector b) e2 n2 \<Longrightarrow> (if hasTerms old then listed old e1 n1 else e1 = [] \<and> n1 = []) \<Longrightarrow>
     e3 = map EvEnqueue (unionAndDeduplicateNodes n1 n2) \<Longrightarrow> adopted listed b old (e1 @ e2 @ e3) w'"
  unfolding adopted_def by blast

lemma set_union [simp]: "set (unionAndDeduplicateNodes xs ys) = set xs \<union> set ys"
proof -
  have "set (foldl (\<lambda>acc x. if x \<in> set acc then acc else acc @ [x]) acc zs) = set acc \<union> set zs" for acc zs :: "string list"
    by (induction zs arbitrary: acc) auto
  then show ?thesis by (simp add: unionAndDeduplicateNodes_def)
qed

lemma union_empty [simp]: "unionAndDeduplicateNodes xs ys = [] \<longleftrightarrow> xs = [] \<and> ys = []"
  by (metis set_union set_empty sup_eq_bot_iff)

locale binding_requeuer = node_requeuer getNodes requeue listed
  for getNodes :: "node_selector \<Rightarrow> ('s, 'm, string list res) binding_prog"
    and requeue :: "string list \<Rightarrow> ('s, 'm, unit res) binding_prog"
    and listed :: "node_selector \<Rightarrow> event list \<Rightarrow> string list \<Rightarrow> bool"
begin

lemma get_spec:
  "tspec (getNodes sel) w (\<lambda>r evs w'. bwCached w' = bwCached w \<and> (\<forall>ns. r = Inr ns \<longrightarrow> listed sel evs ns))"
  by (rule tspec_mono [OF tspec_conj [OF tspec_quiet [OF getNodes_reads, of "\<lambda>r evs w'. bwCached w' = bwCached w"] getNodes_names]])
    auto

lemma adopt_spec:
  "tspec (adoptBinding requeue b ns) w (\<lambda>r evs w'. bwCached w' = Some b \<and>
     (\<forall>res. r = Inr res \<longrightarrow> evs = map EvEnqueue ns))"
proof -
  have req: "tspec (requeue ns) w (\<lambda>r evs w'. bwCached w' = bwCached w \<and>
      (r = Inr () \<longrightarrow> evs = map EvEnqueue ns))" for w
    by (rule tspec_mono [OF tspec_conj [OF tspec_quiet [OF requeue_reads, of "\<lambda>r evs w'. bwCached w' = bwCached w"] requeue_all]])
      auto
  show ?thesis
    unfolding adoptBinding_def
    by (intro tspec_bind tspec_modifies tspec_if tspec_on_ok tspec_mono [OF req] tspec_return) (auto intro!: tspec_return)
qed

lemma selector_change:
  "tspec (handleNodeSelectorChange getNodes requeue b) w (\<lambda>r evs w'. \<forall>res. r = Inr res \<longrightarrow>
     adopted listed b (cachedSelector w) evs w')"
proof -
  have old: "tspec (if c then getNodes sel else return (Inr [])) w (\<lambda>r evs w'.
      \<forall>ns. r = Inr ns \<longrightarrow> (if c then listed sel evs ns else evs = [] \<and> ns = []))" for c sel w
    by (intro tspec_if tspec_return tspec_mono [OF get_spec]) auto
  show ?thesis
    unfolding handleNodeSelectorChange_def Let_def cachedSelector_def [symmetric]
    by (intro tspec_bind tspec_reads tspec_on_ok tspec_mono [OF old] conjI allI impI tspec_mono [OF get_spec]
        tspec_mono [OF adopt_spec]; (simp; fail)?)
      (auto simp: cachedSelector_def [symmetric] intro!: adoptedI)
qed

lemma taint_change:
  "tspec (handleDisableNodeDefaultTaintChange getNodes requeue b) w (\<lambda>r evs w'. \<forall>res. r = Inr res \<longrightarrow>
     bwCached w' = Some b \<and> (hasTerms (bNodeSelector b) \<longrightarrow> requeued (listed (bNodeSelector b)) evs))"
proof -
  have new: "tspec (if c then getNodes sel else return (Inr [])) w (\<lambda>r evs w'.
      \<forall>ns. r = Inr ns \<longrightarrow> (if c then listed sel evs ns else evs = [] \<and> ns = []))" for c sel w
    by (intro tspec_if tspec_return tspec_mono [OF get_spec]) auto
  show ?thesis
    unfolding handleDisableNodeDefaultTaintChange_def
    by (intro tspec_on_ok tspec_mono [OF new] conjI allI impI tspec_mono [OF adopt_spec]; (simp; fail)?)
      (auto simp: requeued_def)
qed

lemma calls_adopt: "calls (adoptBinding requeue b ns) (\<lambda>e. \<not> is_write e)"
  unfolding adoptBinding_def by (intro calls_rules calls_quiet [OF requeue_reads]) simp

lemma calls_adoptChanges: "calls (adoptChanges getNodes requeue b) (\<lambda>e. \<not> is_write e)"
  unfolding adoptChanges_def hasNodeSelectorChanged_def hasDisableNodeDefaultTaintChanged_def
    handleNodeSelectorChange_def handleDisableNodeDefaultTaintChange_def Let_def
  by (intro calls_rules calls_adopt calls_quiet [OF getNodes_reads])

lemma reconcile_ordered:
  "tspec (ReconcileBinding getNodes requeue A name reqName) w (\<lambda>_ evs _. ordered (binding_guard name) [] evs)"
proof (rule guarded_ordered)
  have adopt: "guarded (binding_guard name) pre (adoptChanges getNodes requeue b) (\<lambda>_ _. True)" for pre b
    by (rule guarded_calls [OF calls_adoptChanges]) simp_all
  show "guarded (binding_guard name) [] (ReconcileBinding getNodes requeue A name reqName) (\<lambda>_ _. True)"
    unfolding ReconcileBinding_def get_binding_def
    by (intro guarded_if guarded_bind guarded_ops guarded_sum guarded_return TrueI guarded_bindingDeletion
        calls_quiet [OF requeue_reads] adopt)
      (auto simp: decode_simps binding_read_def)
qed

end

interpretation br: binding_requeuer "GetNodesMatchingSelector S A" RequeueNodes "matching_nodes S" for S A
  by unfold_locales

section \<open>Properties\<close>

text \<open>
  C19. Deleting a binding loses nothing: whatever the API servers answer, the finalizer of the binding of that
  name is removed only after, in this very run, it was read as being deleted and the list of its virtual nodes, of the
  fake pods, of the four kinds of virtual objects that its cluster holds and of the five kinds of managed objects
  in the physical cluster all came back empty. The other writes are these: the finalizer is added to the binding
  read alive and without it; and once the binding was read as being deleted and its virtual nodes were listed and gone,
  objects listed under the label of its cluster ID are marked with the annotation of that cluster, and listed fake
  pods are deleted. The fake pods are those of every cluster: their list is not restricted to the binding.
\<close>

theorem ReconcileBinding_ordered:
  "tspec (ReconcileBinding (GetNodesMatchingSelector S A) RequeueNodes A name reqName) w
     (\<lambda>_ evs _. ordered (binding_guard name) [] evs)"
  by (rule br.reconcile_ordered)

definition plain_binding :: "node_selector \<Rightarrow> cluster_binding" where
  "plain_binding sel = \<lparr>bMeta = empty_meta\<lparr>mName := ''b''\<rparr>, bClusterID = ''c1'', bNodeSelector = sel, bMountNamespace = ''mount'',
     bDisableNodeDefaultTaint = False, bPodPriorityClassName = '''', bRunningDaemonsetByDefault = False, bDirectScheduling = False,
     bSecretRef = \<lparr>srName = '''', srNamespace = ''''\<rparr>, bServiceNamespaces = [], bPhase = '''', bConditions = [], bLastSyncTime = None\<rparr>"

definition only_node :: "string \<Rightarrow> node_selector" where
  "only_node n = Some [\<lparr>MatchExpressions = [], MatchFields = [\<lparr>reqKey = ''metadata.name'', reqOperator = OpIn, reqValues = [n]\<rparr>]\<rparr>]"

text \<open>
  A successful change of the node selector is complete and exact: the new binding is cached, and after
  listing the physical nodes once for the old selector, if that selector has terms, and once for the new one,
  the nodes put on the queue are those that one of the two matches.
\<close>

theorem selector_change_requeues:
  "tspec (handleNodeSelectorChange (GetNodesMatchingSelector S A) RequeueNodes b) w (\<lambda>r evs w'. \<forall>res. r = Inr res \<longrightarrow>
     adopted (matching_nodes S) b (cachedSelector w) evs w')"
  by (rule br.selector_change)

theorem selector_change_requeues_witness:
  "tspec (handleNodeSelectorChange (GetNodesMatchingSelector set_selectors scripted) RequeueNodes (plain_binding (only_node ''n2'')))
     \<lparr>srv = [AList (Inr [ONode (named_node ''n1'')]), AList (Inr [ONode (named_node ''n2'')])], hist = [],
       bwCached = Some (plain_binding (only_node ''n1''))\<rparr>
     (\<lambda>r evs w'. \<forall>res. r = Inr res \<longrightarrow> adopted (matching_nodes set_selectors) (plain_binding (only_node ''n2'')) (only_node ''n1'') evs w')"
  by (rule tspec_mono [OF selector_change_requeues]) (simp add: cachedSelector_def plain_binding_def)

definition listed_match :: "selector_lib \<Rightarrow> node_selector \<Rightarrow> event list \<Rightarrow> string \<Rightarrow> bool" where
  "listed_match S sel evs n \<longleftrightarrow> (\<exists>obs nd. EvList PhysicalClient KNode list_all_objs (Inr obs) \<in> set evs \<and>
     ONode nd \<in> set obs \<and> mName (nMeta nd) = n \<and> MatchesSelector S nd sel)"

lemma GetNodes_listed:
  "tspec (GetNodesMatchingSelector S A sel) w (\<lambda>r evs w'. (\<forall>n. EvEnqueue n \<notin> set evs) \<and>
     (\<forall>ns. r = Inr ns \<longrightarrow> (\<forall>n\<in>set ns. listed_match S sel evs n)))"
  unfolding GetNodesMatchingSelector_def list_nodes_def
  by (intro vcg conjI allI impI; simp)
    (force simp: listed_match_def map_filter_def the_obj_Some)

lemma RequeueNodes_only: "tspec (RequeueNodes ns) w (\<lambda>_ evs _. \<forall>n. EvEnqueue n \<in> set evs \<longrightarrow> n \<in> set ns)"
proof (induction ns arbitrary: w)
  case (Cons n ns)
  show ?case unfolding RequeueNodes.simps TriggerReconciliation_def by (intro vcg tspec_mono [OF Cons.IH]) auto
qed (simp, intro vcg, simp)

lemma adoptBinding_only:
  "tspec (adoptBinding RequeueNodes b ns) w (\<lambda>_ evs _. \<forall>n. EvEnqueue n \<in> set evs \<longrightarrow> n \<in> set ns)"
  unfolding adoptBinding_def
  by (intro tspec_bind tspec_modifies tspec_if tspec_on_ok tspec_mono [OF RequeueNodes_only] tspec_return) (auto intro!: tspec_return)

text \<open>
  A selector without terms is not followed: such a selector matches every node, but when it is replaced,
  only the nodes that the new selector matches are put on the queue, so the nodes that have just
  been deselected are not looked at; and when the taint setting changes under such a selector, no node is
  put on the queue at all, although all are affected.
\<close>

theorem empty_selector_not_followed:
  assumes "\<not> hasTerms (cachedSelector w)"
  shows "MatchesSelector S nd (cachedSelector w) \<and>
    tspec (handleNodeSelectorChange (GetNodesMatchingSelector S A) RequeueNodes b) w
      (\<lambda>_ evs _. \<forall>n. EvEnqueue n \<in> set evs \<longrightarrow> listed_match S (bNodeSelector b) evs n) \<and>
    (bNodeSelector b = cachedSelector w \<longrightarrow>
      tspec (handleDisableNodeDefaultTaintChange (GetNodesMatchingSelector S A) RequeueNodes b) w
        (\<lambda>r evs w'. r = Inr (Result 0) \<and> evs = [] \<and> bwCached w' = Some b))"
proof (intro conjI impI)
  show "MatchesSelector S nd (cachedSelector w)"
    using assms by (auto simp: MatchesSelector_def hasTerms_def split: option.splits)
  have grow: "listed_match S sel (evs @ es) n" if "listed_match S sel evs n" for sel evs es n
    using that unfolding listed_match_def by auto
  show "tspec (handleNodeSelectorChange (GetNodesMatchingSelector S A) RequeueNodes b) w
      (\<lambda>_ evs _. \<forall>n. EvEnqueue n \<in> set evs \<longrightarrow> listed_match S (bNodeSelector b) evs n)"
    using assms unfolding handleNodeSelectorChange_def Let_def cachedSelector_def [symmetric]
    by (intro tspec_bind tspec_reads tspec_on_ok tspec_if tspec_return conjI allI impI tspec_mono [OF GetNodes_listed]
        tspec_mono [OF adoptBinding_only]; simp add: cachedSelector_def)
      (auto simp: unionAndDeduplicateNodes_def intro!: grow)
  show "tspec (handleDisableNodeDefaultTaintChange (GetNodesMatchingSelector S A) RequeueNodes b) w
      (\<lambda>r evs w'. r = Inr (Result 0) \<and> evs = [] \<and> bwCached w' = Some b)" if "bNodeSelector b = cachedSelector w"
    unfolding handleDisableNodeDefaultTaintChange_def adoptBinding_def
    using assms that by (intro vcg) (auto intro!: vcg)
qed

theorem empty_selector_not_followed_witness:
  "tspec (handleNodeSelectorChange (GetNodesMatchingSelector set_selectors scripted) RequeueNodes (plain_binding (only_node ''n2'')))
     \<lparr>srv = [AList (Inr [ONode (named_node ''n1''), ONode (named_node ''n2'')])], hist = [], bwCached = Some (plain_binding None)\<rparr>
     (\<lambda>_ evs _. \<forall>n. EvEnqueue n \<in> set evs \<longrightarrow> listed_match set_selectors (only_node ''n2'') evs n)"
  by (rule tspec_mono [OF empty_selector_not_followed [THEN conjunct2, THEN conjunct1]])
    (simp_all add: cachedSelector_def plain_binding_def hasTerms_def)

end
