(* ===== verification/CSINode_Controller.thy ===== *)
theory CSINode_Controller
  imports Node_Metadata
begin

text \<open>
  \<^verbatim>\<open>pkg/syncer/bottomup/node/physical_csinode_controller.go\<close>: every CSINode of the physical cluster
  whose node is exposed has a copy under the name of the virtual node. The guard \<open>csi_guard\<close> says which
  reads must precede each write; the copy is compared with its original by \<open>mirrors\<close>.
\<close>

record csi_reconciler =
  csiClusterBindingName :: string
  csiClusterBinding :: "cluster_binding option"

definition csiClusterID :: "csi_reconciler \<Rightarrow> string" where
  "csiClusterID r = (case csiClusterBinding r of Some b \<Rightarrow> bClusterID b | None \<Rightarrow> '''')"

fun the_csinode :: "obj \<Rightarrow> csi_node option" where
  "the_csinode (OCSINode c) = Some c" | "the_csinode _ = None"

definition get_csinode :: "'s api \<Rightarrow> client \<Rightarrow> string \<Rightarrow> ('s, 'm, csi_node res) prog" where
  "get_csinode A c n = do { r \<leftarrow> Get A c KCSINode '''' n; return (decode the_csinode r) }"

section \<open>The copy\<close>

definition buildVirtualCSINodeLabels :: "csi_reconciler \<Rightarrow> csi_node \<Rightarrow> smap" where
  "buildVirtualCSINodeLabels r physicalCSINode = (mLabels (cnMeta physicalCSINode))
     (LabelManagedBy \<mapsto> LabelManagedByValue, LabelClusterBinding \<mapsto> csiClusterBindingName r,
      LabelPhysicalClusterID \<mapsto> csiClusterID r, LabelPhysicalNodeName \<mapsto> mName (cnMeta physicalCSINode))"

definition buildVirtualCSINodeAnnotations :: "clock \<Rightarrow> csi_node \<Rightarrow> smap" where
  "buildVirtualCSINodeAnnotations now physicalCSINode = (mAnnotations (cnMeta physicalCSINode))
     (AnnotationLastSyncTime \<mapsto> ckRFC3339 now, LabelPhysicalNodeName \<mapsto> mName (cnMeta physicalCSINode),
      ''kubeocean.io/physical-csinode-uid'' \<mapsto> mUID (cnMeta physicalCSINode))"

definition validateVirtualNodeLabels :: "csi_reconciler \<Rightarrow> node \<Rightarrow> string \<Rightarrow> bool" where
  "validateVirtualNodeLabels r virtualNode physicalNodeName \<longleftrightarrow>
    (let labels = mLabels (nMeta virtualNode) in
     if mget labels LabelManagedBy \<noteq> LabelManagedByValue then False
     else if mget labels LabelClusterBinding \<noteq> csiClusterBindingName r then False
     else if mget labels LabelPhysicalClusterID \<noteq> csiClusterID r then False
     else if mget labels LabelPhysicalNodeName \<noteq> physicalNodeName then False
     else True)"

definition createOrUpdateVirtualCSINode ::
  "'s api \<Rightarrow> csi_reconciler \<Rightarrow> csi_node \<Rightarrow> string \<Rightarrow> ('s, 'm, unit res) prog" where
  "createOrUpdateVirtualCSINode A r physicalCSINode virtualNodeName = do {
     now \<leftarrow> Now A;
     let virtualCSINode = \<lparr>cnMeta = empty_meta\<lparr>mName := virtualNodeName,
           mLabels := buildVirtualCSINodeLabels r physicalCSINode,
           mAnnotations := buildVirtualCSINodeAnnotations now physicalCSINode\<rparr>,
         cnDrivers = cnDrivers physicalCSINode\<rparr>;
     got \<leftarrow> get_csinode A VirtualClient virtualNodeName;
     case got of
       Inl err \<Rightarrow> (if IsNotFound err
                  then on_ok (Create A VirtualClient (OCSINode virtualCSINode)) (\<lambda>_. return (Inr ()))
                  else return (Inl (Wrapf ''failed to get virtual CSINode'' err)))
     | Inr existingCSINode \<Rightarrow>
        (if mget (mLabels (cnMeta existingCSINode)) LabelManagedBy \<noteq> LabelManagedByValue then return (Inr ())
         else let newCSINode = existingCSINode\<lparr>cnDrivers := cnDrivers virtualCSINode,
                cnMeta := (cnMeta existingCSINode)\<lparr>mAnnotations := mAnnotations (cnMeta virtualCSINode),
                  mLabels := mLabels (cnMeta virtualCSINode)\<rparr>\<rparr>
              in if existingCSINode \<noteq> newCSINode
                 then on_ok_wrap ''failed to update virtual CSINode''
                   (Update A VirtualClient (OCSINode newCSINode)) (\<lambda>_. return (Inr ()))
                 else return (Inr ()))
   }"

section \<open>Deletion\<close>

definition deleteVirtualCSINode :: "'s api \<Rightarrow> string \<Rightarrow> ('s, 'm, ctrl_result res) prog" where
  "deleteVirtualCSINode A virtualNodeName = do {
     got \<leftarrow> get_csinode A VirtualClient virtualNodeName;
     case got of
       Inl err \<Rightarrow> (if IsNotFound err then return (Inr (Result 0)) else return (Inl err))
     | Inr virtualCSINode \<Rightarrow>
        (if mget (mLabels (cnMeta virtualCSINode)) LabelManagedBy \<noteq> LabelManagedByValue then return (Inr (Result 0))
         else do {
           d \<leftarrow> Delete A VirtualClient KCSINode '''' (mName (cnMeta virtualCSINode))
                 (uid_precondition (mUID (cnMeta virtualCSINode)));
           case d of
             Inl err \<Rightarrow> (if \<not> IsNotFound err then return (Inl err) else return (Inr (Result 0)))
           | Inr _ \<Rightarrow> return (Inr (Result 0))
         })
   }"

definition handleCSINodeDeletion :: "'s api \<Rightarrow> csi_reconciler \<Rightarrow> string \<Rightarrow> ('s, 'm, ctrl_result res) prog" where
  "handleCSINodeDeletion A r physicalCSINodeName =
    (if csiClusterID r = '''' then return (Inl (Errorf ''clusterID is unknown, skipping handleCSINodeDeletion''))
     else deleteVirtualCSINode A (GenerateVirtualNodeName (csiClusterID r) physicalCSINodeName))"

section \<open>Reconcile\<close>

definition processCSINode :: "'s api \<Rightarrow> csi_reconciler \<Rightarrow> csi_node \<Rightarrow> ('s, 'm, ctrl_result res) prog" where
  "processCSINode A r physicalCSINode =
    (if csiClusterID r = '''' then return (Inl (Errorf ''clusterID is unknown, skipping processCSINode''))
     else do {
       let virtualNodeName = GenerateVirtualNodeName (csiClusterID r) (mName (cnMeta physicalCSINode));
       got \<leftarrow> get_node A VirtualClient virtualNodeName;
       case got of
         Inl err \<Rightarrow> (if IsNotFound err then deleteVirtualCSINode A virtualNodeName else return (Inl err))
       | Inr virtualNode \<Rightarrow>
          (if \<not> validateVirtualNodeLabels r virtualNode (mName (cnMeta physicalCSINode)) then return (Inr (Result 0))
           else on_ok (createOrUpdateVirtualCSINode A r physicalCSINode virtualNodeName) (\<lambda>_. return (Inr (Result 0))))
     })"

definition ReconcileCSINode :: "'s api \<Rightarrow> csi_reconciler \<Rightarrow> string \<Rightarrow> ('s, 'm, ctrl_result res) prog" where
  "ReconcileCSINode A r reqName = do {
     got \<leftarrow> get_csinode A PhysicalClient reqName;
     case got of
       Inl err \<Rightarrow> (if IsNotFound err then handleCSINodeDeletion A r reqName else return (Inl err))
     | Inr physicalCSINode \<Rightarrow>
        (if mDeletionTimestamp (cnMeta physicalCSINode) \<noteq> None
         then handleCSINodeDeletion A r (mName (cnMeta physicalCSINode))
         else processCSINode A r physicalCSINode)
   }"

section \<open>Events\<close>

text \<open>
  \<^verbatim>\<open>TriggerReconciliation\<close> adds the name to the work queue, which \<^verbatim>\<open>SetupWithManager\<close> has created
  before any handler runs. The handlers for nodes and for CSINodes make the same tests on the labels.
\<close>

definition triggerCSINode :: "csi_reconciler \<Rightarrow> smap \<Rightarrow> ('s, 'm, unit) prog" where
  "triggerCSINode r labels =
    (if mget labels LabelManagedBy \<noteq> LabelManagedByValue then return ()
     else if mget labels LabelClusterBinding \<noteq> csiClusterBindingName r then return ()
     else if mget labels LabelPhysicalNodeName = '''' then return ()
     else emit (EvEnqueue (mget labels LabelPhysicalNodeName)))"

definition handleCSIVirtualNodeEvent :: "csi_reconciler \<Rightarrow> node \<Rightarrow> ('s, 'm, unit) prog" where
  "handleCSIVirtualNodeEvent r nd = triggerCSINode r (mLabels (nMeta nd))"

definition handleVirtualCSINodeEvent :: "csi_reconciler \<Rightarrow> csi_node \<Rightarrow> ('s, 'm, unit) prog" where
  "handleVirtualCSINodeEvent r csinode = triggerCSINode r (mLabels (cnMeta csinode))"

section \<open>What the controller may do, and when\<close>

text \<open>\<open>mirrors r p v\<close>: the copy \<open>v\<close> belongs to the original \<open>p\<close>, shows its drivers and keeps its other labels.\<close>

definition csi_marks :: "string set" where
  "csi_marks = {LabelManagedBy, LabelClusterBinding, LabelPhysicalClusterID, LabelPhysicalNodeName}"

definition mirrors :: "csi_reconciler \<Rightarrow> csi_node \<Rightarrow> csi_node \<Rightarrow> bool" where
  "mirrors r p v \<longleftrightarrow> cnDrivers v = cnDrivers p \<and>
     mLabels (cnMeta v) LabelManagedBy = Some LabelManagedByValue \<and>
     mLabels (cnMeta v) LabelClusterBinding = Some (csiClusterBindingName r) \<and>
     mLabels (cnMeta v) LabelPhysicalClusterID = Some (csiClusterID r) \<and>
     mLabels (cnMeta v) LabelPhysicalNodeName = Some (mName (cnMeta p)) \<and>
     (\<forall>k. k \<notin> csi_marks \<longrightarrow> mLabels (cnMeta v) k = mLabels (cnMeta p) k) \<and>
     mAnnotations (cnMeta v) ''kubeocean.io/physical-csinode-uid'' = Some (mUID (cnMeta p))"

definition missing :: "client \<Rightarrow> kind \<Rightarrow> string \<Rightarrow> event list \<Rightarrow> bool" where
  "missing c k n pre \<longleftrightarrow> (\<exists>e. IsNotFound e \<and> EvGet c k '''' n (Inl e) \<in> set pre)"

definition original_read :: "string \<Rightarrow> csi_node \<Rightarrow> event list \<Rightarrow> bool" where
  "original_read name p pre \<longleftrightarrow> EvGet PhysicalClient KCSINode '''' name (Inr (OCSINode p)) \<in> set pre"

definition csi_copy_read :: "string \<Rightarrow> csi_node \<Rightarrow> event list \<Rightarrow> bool" where
  "csi_copy_read vn v pre \<longleftrightarrow> EvGet VirtualClient KCSINode '''' vn (Inr (OCSINode v)) \<in> set pre \<and>
     mLabels (cnMeta v) LabelManagedBy = Some LabelManagedByValue"

definition exposed :: "csi_reconciler \<Rightarrow> csi_node \<Rightarrow> string \<Rightarrow> event list \<Rightarrow> bool" where
  "exposed r p vn pre \<longleftrightarrow> mDeletionTimestamp (cnMeta p) = None \<and>
     vn = GenerateVirtualNodeName (csiClusterID r) (mName (cnMeta p)) \<and>
     (\<exists>nd. EvGet VirtualClient KNode '''' vn (Inr (ONode nd)) \<in> set pre \<and>
        validateVirtualNodeLabels r nd (mName (cnMeta p)))"

definition unexposed :: "csi_reconciler \<Rightarrow> string \<Rightarrow> string \<Rightarrow> event list \<Rightarrow> bool" where
  "unexposed r name vn pre \<longleftrightarrow>
     missing PhysicalClient KCSINode name pre \<and> vn = GenerateVirtualNodeName (csiClusterID r) name \<or>
     (\<exists>p. original_read name p pre \<and> vn = GenerateVirtualNodeName (csiClusterID r) (mName (cnMeta p)) \<and>
        (mDeletionTimestamp (cnMeta p) \<noteq> None \<or> missing VirtualClient KNode vn pre))"

fun csi_guard :: "csi_reconciler \<Rightarrow> string \<Rightarrow> event list \<Rightarrow> event \<Rightarrow> bool" where
  "csi_guard r name pre (EvCreate c ob _) \<longleftrightarrow> c = VirtualClient \<and> csiClusterID r \<noteq> '''' \<and>
     (\<exists>p v vn. ob = OCSINode v \<and> original_read name p pre \<and> exposed r p vn pre \<and>
        missing VirtualClient KCSINode vn pre \<and> mName (cnMeta v) = vn \<and> mirrors r p v)"
| "csi_guard r name pre (EvUpdate c ob _) \<longleftrightarrow> c = VirtualClient \<and> csiClusterID r \<noteq> '''' \<and>
     (\<exists>p v v0 vn ls as. ob = OCSINode v \<and> original_read name p pre \<and> exposed r p vn pre \<and> csi_copy_read vn v0 pre \<and>
        mirrors r p v \<and> cnMeta v = (cnMeta v0)\<lparr>mLabels := ls, mAnnotations := as\<rparr> \<and> v \<noteq> v0)"
| "csi_guard r name pre (EvDelete c k ns n opts _) \<longleftrightarrow> c = VirtualClient \<and> k = KCSINode \<and> csiClusterID r \<noteq> '''' \<and>
     (\<exists>v vn. csi_copy_read vn v pre \<and> unexposed r name vn pre \<and> n = mName (cnMeta v) \<and>
        opts = uid_precondition (mUID (cnMeta v)))"
| "csi_guard r name pre e \<longleftrightarrow> \<not> is_write e"

lemma csi_guard_read [simp]: "\<not> is_write e \<Longrightarrow> csi_guard r name pre e"
  by (cases e) auto

lemma the_csinode_Some [simp]: "the_csinode ob = Some c \<longleftrightarrow> ob = OCSINode c"
  by (cases ob) auto

lemma decode_NotFound: "decode f r = Inl e \<Longrightarrow> IsNotFound e \<Longrightarrow> r = Inl e"
  by (auto simp: decode_def split: sum.splits option.splits)

lemma managed_mget: "mget m LabelManagedBy = LabelManagedByValue \<longleftrightarrow> m LabelManagedBy = Some LabelManagedByValue"
  by (auto simp: mget_def kube_consts split: option.splits)

lemma built_mirrors:
  "cnDrivers v = cnDrivers p \<Longrightarrow> mLabels (cnMeta v) = buildVirtualCSINodeLabels r p \<Longrightarrow>
     mAnnotations (cnMeta v) = buildVirtualCSINodeAnnotations now p \<Longrightarrow> mirrors r p v"
  by (auto simp: mirrors_def csi_marks_def buildVirtualCSINodeLabels_def buildVirtualCSINodeAnnotations_def kube_consts)

lemma csi_reads_kept [simp]:
  "missing c k n pre \<Longrightarrow> missing c k n (pre @ es)"
  "original_read name p pre \<Longrightarrow> original_read name p (pre @ es)"
  "exposed r p vn pre \<Longrightarrow> exposed r p vn (pre @ es)"
  "csi_copy_read vn v pre \<Longrightarrow> csi_copy_read vn v (pre @ es)"
  "unexposed r name vn pre \<Longrightarrow> unexposed r name vn (pre @ es)"
  by (auto simp: missing_def original_read_def exposed_def csi_copy_read_def unexposed_def)

lemma csi_reads_now:
  "decode the_csinode a = Inr p \<Longrightarrow> EvGet PhysicalClient KCSINode '''' name a \<in> set pre \<Longrightarrow> original_read name p pre"
  "decode the_csinode a = Inr v \<Longrightarrow> mget (mLabels (cnMeta v)) LabelManagedBy = LabelManagedByValue \<Longrightarrow>
     EvGet VirtualClient KCSINode '''' vn a \<in> set pre \<Longrightarrow> csi_copy_read vn v pre"
  "decode f a = Inl e \<Longrightarrow> IsNotFound e \<Longrightarrow> EvGet c k '''' n a \<in> set pre \<Longrightarrow> missing c k n pre"
  by (auto simp: original_read_def csi_copy_read_def missing_def decode_Inr managed_mget dest: decode_NotFound)

text \<open>The three writes of the controller, each with what it needs.\<close>

lemma csi_guard_create:
  assumes "csiClusterID r \<noteq> ''''" and "original_read name p pre" and "exposed r p vn pre" and "missing VirtualClient KCSINode vn pre"
  shows "csi_guard r name pre (EvCreate VirtualClient (OCSINode \<lparr>cnMeta = empty_meta\<lparr>mName := vn,
      mLabels := buildVirtualCSINodeLabels r p, mAnnotations := buildVirtualCSINodeAnnotations now p\<rparr>, cnDrivers = cnDrivers p\<rparr>) a)"
  using assms by (auto intro!: exI [of _ p] built_mirrors)

lemma csi_guard_update:
  assumes "csiClusterID r \<noteq> ''''" and "original_read name p pre" and "exposed r p vn pre" and "csi_copy_read vn v0 pre"
    and "v0 \<noteq> v" and "v = v0\<lparr>cnDrivers := cnDrivers p, cnMeta := (cnMeta v0)\<lparr>mAnnotations := buildVirtualCSINodeAnnotations now p,
      mLabels := buildVirtualCSINodeLabels r p\<rparr>\<rparr>"
  shows "csi_guard r name pre (EvUpdate VirtualClient (OCSINode v) a)"
proof -
  have "mirrors r p v" unfolding assms(6) by (rule built_mirrors) auto
  moreover have "cnMeta v = (cnMeta v0)\<lparr>mLabels := mLabels (cnMeta v), mAnnotations := mAnnotations (cnMeta v)\<rparr>"
    unfolding assms(6) by simp
  ultimately show ?thesis using assms(1-5) by auto metis
qed

lemma csi_guard_delete:
  assumes "csiClusterID r \<noteq> ''''" and "unexposed r name vn pre" and "csi_copy_read vn v pre"
  shows "csi_guard r name pre (EvDelete VirtualClient KCSINode ns (mName (cnMeta v)) (uid_precondition (mUID (cnMeta v))) a)"
  using assms by auto

lemma guarded_deleteVirtualCSINode:
  assumes "csiClusterID r \<noteq> ''''" and "unexposed r name vn pre"
  shows "guarded (csi_guard r name) pre (deleteVirtualCSINode A vn) (\<lambda>_ _. True)"
  unfolding deleteVirtualCSINode_def get_csinode_def
  by (intro gvcg csi_guard_delete) (use assms in \<open>auto intro: csi_reads_now\<close>)

lemma guarded_createOrUpdate:
  assumes "csiClusterID r \<noteq> ''''" and "original_read name p pre" and "exposed r p vn pre"
  shows "guarded (csi_guard r name) pre (createOrUpdateVirtualCSINode A r p vn) (\<lambda>_ _. True)"
  unfolding createOrUpdateVirtualCSINode_def get_csinode_def Let_def csi_node.select_convs objmeta.select_convs objmeta.update_convs
  by (intro gvcg csi_guard_create csi_guard_update [where p = p and vn = vn])
    (use assms in \<open>auto intro: csi_reads_now split: sum.splits intro!: gvcg\<close>)

lemma guarded_processCSINode:
  assumes "original_read name p pre" and "mDeletionTimestamp (cnMeta p) = None"
  shows "guarded (csi_guard r name) pre (processCSINode A r p) (\<lambda>_ _. True)"
proof -
  have exposed: "exposed r p vn (pre @ [EvGet VirtualClient KNode '''' vn a])"
    if "decode the_node a = Inr nd" and "validateVirtualNodeLabels r nd (mName (cnMeta p))"
      and "vn = GenerateVirtualNodeName (csiClusterID r) (mName (cnMeta p))" for a nd vn
    using that assms by (auto simp: exposed_def decode_simps)
  have unexposed: "unexposed r name vn (pre @ [EvGet VirtualClient KNode '''' vn a])"
    if "decode the_node a = Inl e" and "IsNotFound e"
      and "vn = GenerateVirtualNodeName (csiClusterID r) (mName (cnMeta p))" for a e vn
    unfolding unexposed_def using that assms by (auto intro!: exI [of _ p] intro: csi_reads_now)
  show ?thesis
    unfolding processCSINode_def Let_def get_node_def
    by (intro guarded_if guarded_bind guarded_ops guarded_return guarded_sum guarded_deleteVirtualCSINode
        guarded_on_ok_then [OF guarded_createOrUpdate] TrueI)
      (use assms exposed unexposed in auto)
qed

lemma guarded_handleCSINodeDeletion:
  assumes "unexposed r name (GenerateVirtualNodeName (csiClusterID r) n) pre"
  shows "guarded (csi_guard r name) pre (handleCSINodeDeletion A r n) (\<lambda>_ _. True)"
  unfolding handleCSINodeDeletion_def by (intro guarded_if guarded_return TrueI guarded_deleteVirtualCSINode) (use assms in auto)

lemma unexposed_gone:
  "missing PhysicalClient KCSINode name pre \<Longrightarrow> unexposed r name (GenerateVirtualNodeName (csiClusterID r) name) pre"
  by (simp add: unexposed_def)

lemma unexposed_going:
  "original_read name p pre \<Longrightarrow> mDeletionTimestamp (cnMeta p) = Some t \<Longrightarrow>
     unexposed r name (GenerateVirtualNodeName (csiClusterID r) (mName (cnMeta p))) pre"
  unfolding unexposed_def by (intro disjI2 exI [of _ p]) simp

text \<open>
  Every write of the CSINode controller comes after the reads that justify it. A copy is created only when the
  original was read and is not being deleted, the virtual node carries the marks of this cluster and this physical
  node, and no copy was found; it shows the original's drivers. An update only changes drivers, labels and
  annotations of a copy that was read and is managed. A deletion only hits a managed copy under the UID
  that was read, when the original is gone or going or the virtual node is gone. Nothing else is written.
\<close>

theorem ReconcileCSINode_ordered:
  "tspec (ReconcileCSINode A r name) w (\<lambda>res evs w'. ordered (csi_guard r name) [] evs)"
  unfolding ReconcileCSINode_def get_csinode_def
  by (rule guarded_ordered [where Q = "\<lambda>_ _. True"], intro guarded_bind guarded_ops guarded_return guarded_sum guarded_if
      guarded_handleCSINodeDeletion guarded_processCSINode)
    (auto intro!: unexposed_gone unexposed_going intro: csi_reads_now)

text \<open>
  Node controller and CSINode controller agree. A virtual node labelled by the node controller under the same
  binding passes the validation of the CSINode controller for its physical node; its events, and those of the copy that
  is made for the CSINode of that node, put exactly that CSINode on the queue; and the copy, once stored, is one that a
  later deletion accepts.
\<close>

theorem csinode_follows_node:
  assumes "csiClusterBindingName r = ClusterBindingName nr" and "csiClusterBinding r = ClusterBinding nr"
    and "mLabels (nMeta nd) = buildVirtualNodeLabels nr vn pn port"
    and "mName (nMeta pn) = mName (cnMeta p)" and "mName (cnMeta p) \<noteq> ''''" and "mirrors r p v"
  shows "validateVirtualNodeLabels r nd (mName (cnMeta p)) \<and>
    handleCSIVirtualNodeEvent r nd = emit (EvEnqueue (mName (cnMeta p))) \<and>
    handleVirtualCSINodeEvent r v = emit (EvEnqueue (mName (cnMeta p))) \<and>
    csi_copy_read vn v (pre @ [EvGet VirtualClient KCSINode '''' vn (Inr (OCSINode v))])"
proof -
  have "csiClusterID r = getClusterID nr"
    using assms(2) by (simp add: csiClusterID_def getClusterID_def split: option.splits)
  then have valid: "validateVirtualNodeLabels r nd (mName (cnMeta p))"
    unfolding validateVirtualNodeLabels_def using assms(1,3,4)
    by (simp add: buildVirtualNodeLabels_def mget_def kube_consts Let_def)
  then show ?thesis
    using assms(5,6)
    by (auto simp: handleVirtualCSINodeEvent_def handleCSIVirtualNodeEvent_def triggerCSINode_def mirrors_def mget_def
        validateVirtualNodeLabels_def csi_copy_read_def Let_def split: if_splits option.splits)
qed

definition disk_node :: csi_node where
  "disk_node = \<lparr>cnMeta = empty_meta\<lparr>mName := ''n1'', mUID := ''u1''\<rparr>,
     cnDrivers = [\<lparr>csdName = ''disk.csi'', csdNodeID = ''i-1'', csdTopologyKeys = [], csdAllocatable = Some 8\<rparr>]\<rparr>"

theorem csinode_follows_node_witness:
  "let r = \<lparr>csiClusterBindingName = ''b1'', csiClusterBinding = None\<rparr>;
       nr = \<lparr>ClusterBindingName = ''b1'', ClusterBinding = None, PrometheusVNodeBasePort = 0\<rparr>;
       pn = empty_node\<lparr>nMeta := empty_meta\<lparr>mName := ''n1''\<rparr>\<rparr>;
       nd = empty_node\<lparr>nMeta := empty_meta\<lparr>mName := ''v'', mLabels := buildVirtualNodeLabels nr ''v'' pn ''10250''\<rparr>\<rparr>
   in handleCSIVirtualNodeEvent r nd = (emit (EvEnqueue ''n1'') :: (nat, unit, unit) prog)"
proof -
  let ?r = "\<lparr>csiClusterBindingName = ''b1'', csiClusterBinding = None\<rparr>"
  have "mirrors ?r disk_node (disk_node\<lparr>cnMeta := (cnMeta disk_node)\<lparr>mLabels := buildVirtualCSINodeLabels ?r disk_node,
        mAnnotations := buildVirtualCSINodeAnnotations zero_clock disk_node\<rparr>\<rparr>)"
    by (rule built_mirrors) simp_all
  moreover have "mName (cnMeta disk_node) = ''n1''" by (simp add: disk_node_def)
  ultimately show ?thesis
    unfolding Let_def
    by (subst csinode_follows_node [of ?r "\<lparr>ClusterBindingName = ''b1'', ClusterBinding = None, PrometheusVNodeBasePort = 0\<rparr>"
        _ "''v''" "empty_node\<lparr>nMeta := empty_meta\<lparr>mName := ''n1''\<rparr>\<rparr>" "''10250''" disk_node, THEN conjunct2, THEN conjunct1]) simp_all
qed

end
