(* ===== verification/Lease_Controller.thy ===== *)
theory Lease_Controller
  imports Kube_Api Go_Time
begin

text \<open>
  \<^verbatim>\<open>pkg/syncer/bottomup/node/lease_controller.go\<close>: one goroutine per virtual node renews the Lease that tells the
  control plane the node is alive. Cancellation of the context, timers and sleeping are the record \<open>lease_env\<close> over
  the unknown outside state; \<^verbatim>\<open>wait.PollUntilContextTimeout\<close> and \<^verbatim>\<open>wait.UntilWithContext\<close> are parameters. The
  condition of the poll returns the captured variable \<^verbatim>\<open>node\<close> with its verdict. The endless loop of
  \<^verbatim>\<open>backoffEnsureLease\<close> has fuel; \<open>None\<close> is a loop that has not returned.
\<close>

record 's lease_env =
  ctxErr :: "'s \<Rightarrow> err option \<times> 's"
  waitTimer :: "int \<Rightarrow> 's \<Rightarrow> bool \<times> 's"
  timeSleep :: "int \<Rightarrow> 's \<Rightarrow> unit \<times> 's"

text \<open>\<open>waitTimer d\<close> is the \<^verbatim>\<open>select\<close> on a timer and the context: whether the timer fired.\<close>

record 's lease_world = "'s world" +
  lwLatest :: "lease option"
  lwLastErr :: "err option"

type_synonym ('s, 'm, 'a) lease_prog = "(('s, 'm) lease_world_scheme, 'a) state"

definition Millisecond :: int where "Millisecond = 1000000"

definition DefaultLeaseDuration :: int where "DefaultLeaseDuration = 40"

definition maxUpdateRetries :: nat where "maxUpdateRetries = 5"

definition maxBackoff :: int where "maxBackoff = 7 * Second"

definition NamespaceNodeLease :: string where "NamespaceNodeLease = ''kube-node-lease''"

fun the_lease :: "obj \<Rightarrow> lease option" where
  "the_lease (OLease l) = Some l" | "the_lease _ = None"

definition get_lease :: "'s api \<Rightarrow> string \<Rightarrow> ('s, 'm, lease res) prog" where
  "get_lease A nodeName = do { r \<leftarrow> Get A VirtualClient KLease NamespaceNodeLease nodeName; return (decode the_lease r) }"

section \<open>The node\<close>

definition getVirtualNode ::
  "(('s, 'm, node option res) lease_prog \<Rightarrow> ('s, 'm, node res) lease_prog) \<Rightarrow> 's api \<Rightarrow> string \<Rightarrow> ('s, 'm, node res) lease_prog" where
  "getVirtualNode poll A nodeName = do {
     modifies (lwLastErr_update (\<lambda>_. None));
     r \<leftarrow> poll (do {
       got \<leftarrow> get_node A VirtualClient nodeName;
       case got of
         Inl err \<Rightarrow> do { modifies (lwLastErr_update (\<lambda>_. Some err)); return (Inr None) }
       | Inr n \<Rightarrow> return (Inr (Some n))
     });
     case r of
       Inl err \<Rightarrow> do {
         lastErr \<leftarrow> reads lwLastErr;
         return (Inl (case lastErr of
             Some e \<Rightarrow> Wrapf (''failed to get node '' @ nodeName @ '' after retries'') e
           | None \<Rightarrow> Wrapf (''failed to get node '' @ nodeName) err))
       }
     | Inr node \<Rightarrow> return (Inr node)
   }"

fun readyIn :: "condition list \<Rightarrow> bool" where
  "readyIn [] = False"
| "readyIn (condition # conditions) =
    (if cdType condition = ''Ready'' then cdStatus condition = ''True'' else readyIn conditions)"

definition isNodeReady :: "node \<Rightarrow> bool" where
  "isNodeReady nd = readyIn (nConditions nd)"

section \<open>The lease\<close>

definition newLease :: "string \<Rightarrow> time \<Rightarrow> node option \<Rightarrow> lease" where
  "newLease nodeName now nd =
    (let l = \<lparr>leMeta = empty_meta\<lparr>mName := nodeName, mNamespace := NamespaceNodeLease\<rparr>,
           leHolderIdentity = Some nodeName, leDurationSeconds = Some DefaultLeaseDuration, leRenewTime = Some now\<rparr>
     in case nd of
          Some n \<Rightarrow> l\<lparr>leMeta := (leMeta l)\<lparr>mOwnerReferences :=
            [\<lparr>orKind = ''Node'', orName = mName (nMeta n), orUID = mUID (nMeta n)\<rparr>]\<rparr>\<rparr>
        | None \<Rightarrow> l)"

text \<open>The lease, or nil, and whether it was created.\<close>

definition ensureLease :: "'s api \<Rightarrow> string \<Rightarrow> node option \<Rightarrow> ('s, 'm, (lease option \<times> bool) res) prog" where
  "ensureLease A nodeName nd = do {
     got \<leftarrow> get_lease A nodeName;
     case got of
       Inl err \<Rightarrow> (if IsNotFound err then do {
           now \<leftarrow> Now A;
           let leaseToCreate = newLease nodeName (ckNow now) nd;
           if length (mOwnerReferences (leMeta leaseToCreate)) = 0 then return (Inr (None, False))
           else do {
             c \<leftarrow> Create A VirtualClient (OLease leaseToCreate);
             case decode the_lease c of
               Inl err \<Rightarrow> return (Inl (Wrapf ''failed to create lease'' err))
             | Inr l \<Rightarrow> return (Inr (Some l, True))
           }
         } else return (Inl (Wrapf ''failed to get lease'' err)))
     | Inr l \<Rightarrow> return (Inr (Some l, False))
   }"

definition minDuration :: "int \<Rightarrow> int \<Rightarrow> int" where
  "minDuration a b = (if a < b then a else b)"

fun ensureFrom ::
  "nat \<Rightarrow> 's lease_env \<Rightarrow> 's api \<Rightarrow> string \<Rightarrow> node option \<Rightarrow> int \<Rightarrow> ('s, 'm, (lease option \<times> bool) option) prog" where
  "ensureFrom 0 E A nodeName nd sleep = return None"
| "ensureFrom (Suc fuel) E A nodeName nd sleep = do {
     stopped \<leftarrow> outside (ctxErr E);
     if stopped \<noteq> None then return (Some (None, False))
     else do {
       r \<leftarrow> ensureLease A nodeName nd;
       case r of
         Inr res \<Rightarrow> return (Some res)
       | Inl err \<Rightarrow> do {
           let sleep = minDuration (2 * sleep) maxBackoff;
           fired \<leftarrow> outside (waitTimer E sleep);
           if fired then ensureFrom fuel E A nodeName nd sleep else return (Some (None, False))
         }
     }
   }"

definition backoffEnsureLease ::
  "nat \<Rightarrow> 's lease_env \<Rightarrow> 's api \<Rightarrow> string \<Rightarrow> node option \<Rightarrow> ('s, 'm, (lease option \<times> bool) option) prog" where
  "backoffEnsureLease fuel E A nodeName nd = ensureFrom fuel E A nodeName nd (100 * Millisecond)"

text \<open>The loop of \<^verbatim>\<open>retryUpdateLease\<close> with \<open>k\<close> attempts left; attempt \<open>i\<close> is \<open>maxUpdateRetries - k\<close>.\<close>

fun retryFrom ::
  "nat \<Rightarrow> 's lease_env \<Rightarrow> 's api \<Rightarrow> string \<Rightarrow> lease \<Rightarrow> ('s, 'm, unit res) lease_prog" where
  "retryFrom 0 E A nodeName base = return (Inl (Errorf ''failed to update lease after 5 attempts''))"
| "retryFrom (Suc k) E A nodeName base = do {
     stopped \<leftarrow> outside (ctxErr E);
     case stopped of
       Some err \<Rightarrow> return (Inl err)
     | None \<Rightarrow> do {
         now \<leftarrow> Now A;
         u \<leftarrow> Update A VirtualClient (OLease (base\<lparr>leRenewTime := Some (ckNow now)\<rparr>));
         case decode the_lease u of
           Inr l \<Rightarrow> do { modifies (lwLatest_update (\<lambda>_. Some l)); return (Inr ()) }
         | Inl err \<Rightarrow> do {
             latest \<leftarrow> (if IsConflict err then get_lease A nodeName else return (Inl err));
             case latest of
               Inr latestLease \<Rightarrow> retryFrom k E A nodeName latestLease
             | Inl _ \<Rightarrow> do {
                 (if k > 0 then outside (timeSleep E (int (maxUpdateRetries - k) * Second)) else return ());
                 retryFrom k E A nodeName base
               }
           }
       }
   }"

definition retryUpdateLease :: "'s lease_env \<Rightarrow> 's api \<Rightarrow> string \<Rightarrow> lease \<Rightarrow> ('s, 'm, unit res) lease_prog" where
  "retryUpdateLease E A nodeName base = retryFrom maxUpdateRetries E A nodeName base"

section \<open>A renewal\<close>

text \<open>The part of \<^verbatim>\<open>sync\<close> after the tests on the node; \<open>None\<close> is a backoff that has not returned.\<close>

definition ensureAndUpdate ::
  "nat \<Rightarrow> 's lease_env \<Rightarrow> 's api \<Rightarrow> string \<Rightarrow> node \<Rightarrow> ('s, 'm, unit option) lease_prog" where
  "ensureAndUpdate fuel E A nodeName nd = do {
     ensured \<leftarrow> backoffEnsureLease fuel E A nodeName (Some nd);
     case ensured of
       None \<Rightarrow> return None
     | Some (None, _) \<Rightarrow> return (Some ())
     | Some (Some l, created) \<Rightarrow> do {
         modifies (lwLatest_update (\<lambda>_. Some l));
         if created then return (Some ())
         else do { _ \<leftarrow> retryUpdateLease E A nodeName l; return (Some ()) }
       }
   }"

definition renewLease ::
  "nat \<Rightarrow> 's lease_env \<Rightarrow> 's api \<Rightarrow> string \<Rightarrow> node \<Rightarrow> ('s, 'm, unit option) lease_prog" where
  "renewLease fuel E A nodeName nd = do {
     latest \<leftarrow> reads lwLatest;
     case latest of
       None \<Rightarrow> ensureAndUpdate fuel E A nodeName nd
     | Some l \<Rightarrow> do {
         r \<leftarrow> retryUpdateLease E A nodeName l;
         case r of
           Inr _ \<Rightarrow> return (Some ())
         | Inl _ \<Rightarrow> ensureAndUpdate fuel E A nodeName nd
       }
   }"

definition syncLease ::
  "nat \<Rightarrow> 's lease_env \<Rightarrow> (('s, 'm, node option res) lease_prog \<Rightarrow> ('s, 'm, node res) lease_prog) \<Rightarrow> 's api \<Rightarrow> string \<Rightarrow>
   ('s, 'm, unit option) lease_prog" where
  "syncLease fuel E poll A nodeName = do {
     stopped \<leftarrow> outside (ctxErr E);
     if stopped \<noteq> None then return (Some ())
     else do {
       _ \<leftarrow> Now A;
       got \<leftarrow> getVirtualNode poll A nodeName;
       case got of
         Inl _ \<Rightarrow> return (Some ())
       | Inr nd \<Rightarrow> (if \<not> isNodeReady nd then return (Some ()) else renewLease fuel E A nodeName nd)
     }
   }"

text \<open>\<^verbatim>\<open>run\<close>: one renewal at once, then \<^verbatim>\<open>wait.UntilWithContext\<close> repeats it.\<close>

definition runLease ::
  "(('s, 'm, unit option) lease_prog \<Rightarrow> ('s, 'm, unit option) lease_prog) \<Rightarrow> nat \<Rightarrow> 's lease_env \<Rightarrow>
   (('s, 'm, node option res) lease_prog \<Rightarrow> ('s, 'm, node res) lease_prog) \<Rightarrow> 's api \<Rightarrow> string \<Rightarrow> ('s, 'm, unit option) lease_prog" where
  "runLease until fuel E poll A nodeName = do {
     first \<leftarrow> syncLease fuel E poll A nodeName;
     case first of
       None \<Rightarrow> return None
     | Some _ \<Rightarrow> until (syncLease fuel E poll A nodeName)
   }"

section \<open>Order under an invariant of the memory\<close>

text \<open>
  \<open>held G I pre m Q\<close>: as \<open>guarded\<close>, for programs that keep \<open>I\<close>, a relation between the calls made so far and the
  memory. Reading the memory yields a value of which \<open>I\<close> holds.
\<close>

definition held ::
  "(event list \<Rightarrow> event \<Rightarrow> bool) \<Rightarrow> (event list \<Rightarrow> ('s, 'm) world_scheme \<Rightarrow> bool) \<Rightarrow> event list \<Rightarrow> ('s, 'm, 'a) prog \<Rightarrow>
   ('a \<Rightarrow> event list \<Rightarrow> bool) \<Rightarrow> bool" where
  "held G I pre m Q \<longleftrightarrow> (\<forall>w. I pre w \<longrightarrow> tspec m w (\<lambda>r evs w'. ordered G pre evs \<and> I (pre @ evs) w' \<and> Q r (pre @ evs)))"

definition stable :: "(event list \<Rightarrow> ('s, 'm) world_scheme \<Rightarrow> bool) \<Rightarrow> bool" where
  "stable I \<longleftrightarrow> (\<forall>pre es w s h. I pre w \<longrightarrow> I (pre @ es) (w\<lparr>srv := s, hist := h\<rparr>))"

named_theorems hvcg "verification conditions for order under an invariant"

lemma heldD: "held G I pre m Q \<Longrightarrow> I pre w \<Longrightarrow> tspec m w (\<lambda>r evs w'. ordered G pre evs \<and> I (pre @ evs) w' \<and> Q r (pre @ evs))"
  by (simp add: held_def)

lemma held_mono: "held G I pre m Q \<Longrightarrow> (\<And>r pre'. Q r pre' \<Longrightarrow> Q' r pre') \<Longrightarrow> held G I pre m Q'"
  unfolding held_def by (intro allI impI, erule allE, drule mp, assumption, erule tspec_mono) blast

lemma held_prefix: "held G I pre m Q \<Longrightarrow> held G I pre m (\<lambda>r pre'. Q r pre' \<and> (\<exists>es. pre' = pre @ es))"
  unfolding held_def by simp

lemma held_return [hvcg]: "Q x pre \<Longrightarrow> held G I pre (return x) Q"
  unfolding held_def by (intro allI impI tspec_return) simp

lemma held_bind [hvcg]:
  assumes "held G I pre m (\<lambda>r pre'. held G I pre' (f r) Q)"
  shows "held G I pre (m \<bind> f) Q"
  unfolding held_def
  by (intro allI impI tspec_bind, rule tspec_mono [OF heldD [OF assms]], assumption)
    (auto elim!: tspec_mono dest: heldD)

lemma held_bind_then:
  assumes "held G I pre m R" and "\<And>x es. R x (pre @ es) \<Longrightarrow> held G I (pre @ es) (f x) Q"
  shows "held G I pre (m \<bind> f) Q"
  by (rule held_bind, rule held_mono [OF held_prefix [OF assms(1)]]) (auto intro: assms(2))

lemma held_reads [hvcg]: "(\<And>w. I pre w \<Longrightarrow> Q (f w) pre) \<Longrightarrow> held G I pre (reads f) Q"
  unfolding held_def by (intro allI impI tspec_reads) simp

lemma held_modifies [hvcg]:
  "(\<And>w. hist (f w) = hist w) \<Longrightarrow> (\<And>w. I pre w \<Longrightarrow> I pre (f w)) \<Longrightarrow> Q () pre \<Longrightarrow> held G I pre (modifies f) Q"
  unfolding held_def by (intro allI impI tspec_modifies) simp_all

lemma held_if [hvcg]:
  "(b \<Longrightarrow> held G I pre m Q) \<Longrightarrow> (\<not> b \<Longrightarrow> held G I pre n Q) \<Longrightarrow> held G I pre (if b then m else n) Q"
  by simp

lemma held_sum [hvcg]:
  "(\<And>e. r = Inl e \<Longrightarrow> held G I pre (f e) Q) \<Longrightarrow> (\<And>x. r = Inr x \<Longrightarrow> held G I pre (g x) Q) \<Longrightarrow>
     held G I pre (case r of Inl e \<Rightarrow> f e | Inr x \<Rightarrow> g x) Q"
  by (cases r) simp_all

lemma held_option [hvcg]:
  "(r = None \<Longrightarrow> held G I pre f Q) \<Longrightarrow> (\<And>x. r = Some x \<Longrightarrow> held G I pre (g x) Q) \<Longrightarrow>
     held G I pre (case r of None \<Rightarrow> f | Some x \<Rightarrow> g x) Q"
  by (cases r) simp_all

lemma held_prod [hvcg]:
  "(\<And>a b. r = (a, b) \<Longrightarrow> held G I pre (f a b) Q) \<Longrightarrow> held G I pre (case r of (a, b) \<Rightarrow> f a b) Q"
  by (cases r) simp

lemma held_let [hvcg]: "held G I pre (f x) Q \<Longrightarrow> held G I pre (let y = x in f y) Q"
  by simp

lemma held_quiet:
  assumes "quiet m P" and "guarded G pre m Q" and "stable I"
  shows "held G I pre m Q"
  unfolding held_def
proof (intro allI impI)
  fix w
  assume I: "I pre w"
  have "tspec m w (\<lambda>r evs w'. I (pre @ evs) w')"
    by (rule tspec_quiet [OF assms(1)]) (use I assms(3) in \<open>auto simp: stable_def\<close>)
  moreover have "tspec m w (\<lambda>r evs w'. ordered G pre evs \<and> Q r (pre @ evs))"
    using assms(2) by (simp add: guarded_def)
  ultimately show "tspec m w (\<lambda>r evs w'. ordered G pre evs \<and> I (pre @ evs) w' \<and> Q r (pre @ evs))"
    by (rule tspec_mono [OF tspec_conj]) auto
qed

lemma held_outside [hvcg]: "stable I \<Longrightarrow> (\<And>r. Q r pre) \<Longrightarrow> held G I pre (outside f) Q"
  by (intro held_quiet [where P = "\<lambda>_. True"] quiet_outside guarded_outside)

lemma held_ops [hvcg]:
  "stable I \<Longrightarrow> (\<And>r. G pre (EvGet c k ns n r)) \<Longrightarrow> (\<And>r. Q r (pre @ [EvGet c k ns n r])) \<Longrightarrow> held G I pre (Get A c k ns n) Q"
  "stable I \<Longrightarrow> (\<And>r. G pre (EvCreate c ob r)) \<Longrightarrow> (\<And>r. Q r (pre @ [EvCreate c ob r])) \<Longrightarrow> held G I pre (Create A c ob) Q"
  "stable I \<Longrightarrow> (\<And>r. G pre (EvUpdate c ob r)) \<Longrightarrow> (\<And>r. Q r (pre @ [EvUpdate c ob r])) \<Longrightarrow> held G I pre (Update A c ob) Q"
  "stable I \<Longrightarrow> (\<And>r. G pre (EvClock r)) \<Longrightarrow> (\<And>r. QC r (pre @ [EvClock r])) \<Longrightarrow> held G I pre (Now A) QC"
  by (intro held_quiet [where P = "\<lambda>_. True"] quiet_rules guarded_ops TrueI; assumption)+

section \<open>Polling and repetition\<close>

text \<open>
  What \<^verbatim>\<open>wait\<close> documents. A poll runs its condition until it answers, fails, or time is up; between two attempts
  time passes. \<^verbatim>\<open>UntilWithContext\<close> runs its function some number of times. A repetition that has not come
  back from one of its rounds has not come back.
\<close>

fun attempts :: "('s \<Rightarrow> 's) list \<Rightarrow> err \<Rightarrow> ('s, 'm, 'a option res) prog \<Rightarrow> ('s, 'm, 'a res) prog" where
  "attempts [] e c = return (Inl e)"
| "attempts (d # ds) e c = on_ok c (\<lambda>done. case done of
     Some x \<Rightarrow> return (Inr x)
   | None \<Rightarrow> do { _ \<leftarrow> outside (\<lambda>s. ((), d s)); attempts ds e c })"

definition polls :: "(('s, 'm, 'a option res) prog \<Rightarrow> ('s, 'm, 'a res) prog) \<Rightarrow> bool" where
  "polls poll \<longleftrightarrow> (\<forall>c w. \<exists>ds e. run_state (poll c) w = run_state (attempts ds e c) w)"

fun rounds :: "('s \<Rightarrow> 's) list \<Rightarrow> ('s, 'm, unit option) prog \<Rightarrow> ('s, 'm, unit option) prog" where
  "rounds [] f = return (Some ())"
| "rounds (d # ds) f = do { r \<leftarrow> f; case r of None \<Rightarrow> return None
     | Some _ \<Rightarrow> do { _ \<leftarrow> outside (\<lambda>s. ((), d s)); rounds ds f } }"

definition repeats :: "(('s, 'm, unit option) prog \<Rightarrow> ('s, 'm, unit option) prog) \<Rightarrow> bool" where
  "repeats until \<longleftrightarrow> (\<forall>f w. \<exists>ds. run_state (until f) w = run_state (rounds ds f) w)"

lemma held_poll:
  assumes "polls poll" and "\<And>ds e. held G I pre (attempts ds e c) Q"
  shows "held G I pre (poll c) Q"
  unfolding held_def
proof (intro allI impI)
  fix w
  assume "I pre w"
  moreover obtain ds e where "run_state (poll c) w = run_state (attempts ds e c) w"
    using assms(1) unfolding polls_def by blast
  ultimately show "tspec (poll c) w (\<lambda>r evs w'. ordered G pre evs \<and> I (pre @ evs) w' \<and> Q r (pre @ evs))"
    using heldD [OF assms(2)] by (simp add: tspec_def)
qed

lemma held_until:
  assumes "repeats until" and "\<And>ds. held G I pre (rounds ds f) Q"
  shows "held G I pre (until f) Q"
  unfolding held_def
proof (intro allI impI)
  fix w
  assume "I pre w"
  moreover obtain ds where "run_state (until f) w = run_state (rounds ds f) w"
    using assms(1) unfolding repeats_def by blast
  ultimately show "tspec (until f) w (\<lambda>r evs w'. ordered G pre evs \<and> I (pre @ evs) w' \<and> Q r (pre @ evs))"
    using heldD [OF assms(2)] by (simp add: tspec_def)
qed

section \<open>What a lease controller may do, and when\<close>

fun node_get :: "event \<Rightarrow> bool" where
  "node_get (EvGet _ k _ _ _) \<longleftrightarrow> k = KNode"
| "node_get _ \<longleftrightarrow> False"

text \<open>A write that the server answered with a lease.\<close>

fun lease_written :: "event \<Rightarrow> bool" where
  "lease_written (EvCreate _ _ a) \<longleftrightarrow> (\<exists>l. decode the_lease a = Inr l)"
| "lease_written (EvUpdate _ _ a) \<longleftrightarrow> (\<exists>l. decode the_lease a = Inr l)"
| "lease_written _ \<longleftrightarrow> False"

text \<open>
  \<open>ready_node nn nd pre\<close>: the last read of a node found \<open>nd\<close> under the name \<open>nn\<close>, it is ready, and no lease
  was written since. So every read allows one write at most.
\<close>

definition ready_node :: "string \<Rightarrow> node \<Rightarrow> event list \<Rightarrow> bool" where
  "ready_node nn nd pre \<longleftrightarrow> isNodeReady nd \<and> (\<exists>a es. pre = a @ EvGet VirtualClient KNode '''' nn (Inr (ONode nd)) # es \<and>
     list_all (\<lambda>e. \<not> node_get e \<and> \<not> lease_written e) es)"

text \<open>A server that answers with the lease it was asked for or sent.\<close>

definition same_lease :: "lease \<Rightarrow> string \<Rightarrow> string \<Rightarrow> bool" where
  "same_lease l ns n \<longleftrightarrow> mNamespace (leMeta l) = ns \<and> mName (leMeta l) = n"

fun name_kept :: "event \<Rightarrow> bool" where
  "name_kept (EvGet _ KLease ns n (Inr (OLease l))) \<longleftrightarrow> same_lease l ns n"
| "name_kept (EvCreate _ ob (Inr (OLease l))) \<longleftrightarrow> same_lease l (mNamespace (obj_meta ob)) (mName (obj_meta ob))"
| "name_kept (EvUpdate _ ob (Inr (OLease l))) \<longleftrightarrow> same_lease l (mNamespace (obj_meta ob)) (mName (obj_meta ob))"
| "name_kept _ \<longleftrightarrow> True"

definition answered :: "string \<Rightarrow> lease \<Rightarrow> event list \<Rightarrow> bool" where
  "answered nn l pre \<longleftrightarrow> (EvGet VirtualClient KLease NamespaceNodeLease nn (Inr (OLease l)) \<in> set pre \<or>
     (\<exists>ob. EvCreate VirtualClient ob (Inr (OLease l)) \<in> set pre \<or> EvUpdate VirtualClient ob (Inr (OLease l)) \<in> set pre)) \<and>
     (list_all name_kept pre \<longrightarrow> same_lease l NamespaceNodeLease nn)"

definition time_just_read :: "time \<Rightarrow> event list \<Rightarrow> bool" where
  "time_just_read t pre \<longleftrightarrow> (\<exists>a ck. pre = a @ [EvClock ck] \<and> t = ckNow ck)"

fun lease_guard :: "string \<Rightarrow> event list \<Rightarrow> event \<Rightarrow> bool" where
  "lease_guard nn pre (EvCreate c ob _) \<longleftrightarrow> c = VirtualClient \<and> (\<exists>nd l t e. ob = OLease l \<and> ready_node nn nd pre \<and>
     IsNotFound e \<and> EvGet VirtualClient KLease NamespaceNodeLease nn (Inl e) \<in> set pre \<and>
     mName (leMeta l) = nn \<and> mNamespace (leMeta l) = NamespaceNodeLease \<and> leHolderIdentity l = Some nn \<and>
     mOwnerReferences (leMeta l) = [\<lparr>orKind = ''Node'', orName = mName (nMeta nd), orUID = mUID (nMeta nd)\<rparr>] \<and>
     leDurationSeconds l = Some DefaultLeaseDuration \<and> leRenewTime l = Some t \<and> time_just_read t pre)"
| "lease_guard nn pre (EvUpdate c ob _) \<longleftrightarrow> c = VirtualClient \<and> (\<exists>nd l t. ready_node nn nd pre \<and> answered nn l pre \<and>
     ob = OLease (l\<lparr>leRenewTime := Some t\<rparr>) \<and> time_just_read t pre)"
| "lease_guard nn pre e \<longleftrightarrow> \<not> is_write e"

definition lease_known :: "string \<Rightarrow> event list \<Rightarrow> ('s, 'm) lease_world_scheme \<Rightarrow> bool" where
  "lease_known nn pre w \<longleftrightarrow> (\<forall>l. lwLatest w = Some l \<longrightarrow> answered nn l pre)"

lemma lease_guard_read [simp]: "\<not> is_write e \<Longrightarrow> lease_guard nn pre e"
  by (cases e) auto

lemma answered_later [simp]: "answered nn l pre \<Longrightarrow> answered nn l (pre @ es)"
  by (auto simp: answered_def)

lemma stable_lease_known [simp]: "stable (lease_known nn)"
  by (auto simp: stable_def lease_known_def)

lemma the_lease_Some [simp]: "the_lease ob = Some l \<longleftrightarrow> ob = OLease l"
  by (cases ob) auto

lemma answered_now:
  "decode the_lease a = Inr l \<Longrightarrow> EvGet VirtualClient KLease NamespaceNodeLease nn a \<in> set pre \<Longrightarrow> answered nn l pre"
  "decode the_lease a = Inr l \<Longrightarrow> same_lease l' NamespaceNodeLease nn \<Longrightarrow> answered nn l (pre @ [EvCreate VirtualClient (OLease l') a])"
  "decode the_lease a = Inr l \<Longrightarrow> answered nn l' pre \<Longrightarrow>
     answered nn l (pre @ [EvClock ck, EvUpdate VirtualClient (OLease (l'\<lparr>leRenewTime := t\<rparr>)) a])"
proof -
  assume a: "decode the_lease a = Inr l"
  then have eq: "a = Inr (OLease l)" by (auto simp: decode_Inr)
  show "EvGet VirtualClient KLease NamespaceNodeLease nn a \<in> set pre \<Longrightarrow> answered nn l pre"
    using eq by (auto simp: answered_def list_all_iff dest: bspec)
  show "same_lease l' NamespaceNodeLease nn \<Longrightarrow> answered nn l (pre @ [EvCreate VirtualClient (OLease l') a])"
    unfolding answered_def
    by (intro conjI impI, rule disjI2, rule exI [of _ "OLease l'"]) (simp_all add: eq same_lease_def)
  show "answered nn l (pre @ [EvClock ck, EvUpdate VirtualClient (OLease (l'\<lparr>leRenewTime := t\<rparr>)) a])" if old: "answered nn l' pre"
    unfolding answered_def
    by (intro conjI impI, rule disjI2, rule exI [of _ "OLease (l'\<lparr>leRenewTime := t\<rparr>)"])
      (use old in \<open>simp_all add: eq same_lease_def answered_def\<close>)
qed

lemma ready_later [simp]:
  "ready_node nn nd pre \<Longrightarrow> list_all (\<lambda>e. \<not> node_get e \<and> \<not> lease_written e) es \<Longrightarrow> ready_node nn nd (pre @ es)"
  unfolding ready_node_def by fastforce

lemma ready_now:
  "isNodeReady nd \<Longrightarrow> decode the_node a = Inr nd \<Longrightarrow> ready_node nn nd (pre @ [EvGet VirtualClient KNode '''' nn a])"
  unfolding ready_node_def by (rule conjI, assumption, rule exI [of _ pre], rule exI [of _ "[]"]) (simp add: decode_simps)

lemma time_just_read_now [simp]: "time_just_read (ckNow ck) (pre @ [EvClock ck])"
  by (auto simp: time_just_read_def)

lemma known_update [simp]: "lease_known nn pre (w\<lparr>lwLatest := Some l\<rparr>) \<longleftrightarrow> answered nn l pre"
  "lease_known nn pre (w\<lparr>lwLastErr := x\<rparr>) \<longleftrightarrow> lease_known nn pre w"
  by (simp_all add: lease_known_def)

lemma held_retryFrom:
  assumes "answered nn base pre" and "ready_node nn nd pre"
  shows "held (lease_guard nn) (lease_known nn) pre (retryFrom k E A nn base)
    (\<lambda>r pre'. \<forall>e. r = Inl e \<longrightarrow> ready_node nn nd pre')"
  using assms
proof (induction k arbitrary: base pre)
  case 0
  then show ?case by (auto intro: held_return)
next
  case (Suc k)
  have upd: "lease_guard nn (pre @ [EvClock ck]) (EvUpdate VirtualClient (OLease (base\<lparr>leRenewTime := Some (ckNow ck)\<rparr>)) r)" for ck r
    using Suc.prems by (auto intro!: exI [of _ nd] exI [of _ base] exI [of _ "ckNow ck"])
  show ?case
    unfolding retryFrom.simps get_lease_def
    by (intro hvcg upd Suc.IH) (use Suc.prems in \<open>auto intro: answered_now answered_now(3) [where pre = pre]\<close>)
qed

lemma held_ensureLease:
  assumes "ready_node nn nd pre"
  shows "held (lease_guard nn) (lease_known nn) pre (ensureLease A nn (Some nd))
    (\<lambda>r pre'. ((\<forall>l. r \<noteq> Inr (Some l, True)) \<longrightarrow> ready_node nn nd pre') \<and>
       (\<forall>l created. r = Inr (Some l, created) \<longrightarrow> answered nn l pre'))"
proof -
  have create: "lease_guard nn (pre @ [EvGet VirtualClient KLease NamespaceNodeLease nn a] @ [EvClock ck])
      (EvCreate VirtualClient (OLease (newLease nn (ckNow ck) (Some nd))) r)"
    if "decode the_lease a = Inl e" "IsNotFound e" for a ck r e
    using that assms unfolding lease_guard.simps
    by (auto simp: newLease_def Let_def decode_def time_just_read_def split: sum.splits option.splits
        intro!: exI [of _ nd] exI [of _ "newLease nn (ckNow ck) (Some nd)"] exI [of _ "ckNow ck"] exI [of _ e])
  have created: "answered nn l (pre @ [e1, e2, EvCreate VirtualClient (OLease (newLease nn t (Some nd))) a])"
    if "decode the_lease a = Inr l" for a l e1 e2 t
    using answered_now(2) [OF that, of "newLease nn t (Some nd)" nn "pre @ [e1, e2]"]
    by (simp add: newLease_def same_lease_def)
  show ?thesis
    unfolding ensureLease_def get_lease_def Let_def
    by (intro hvcg) (use assms create created in \<open>auto intro: answered_now(1)\<close>)
qed

lemma held_ensureFrom:
  assumes "ready_node nn nd pre"
  shows "held (lease_guard nn) (lease_known nn) pre (ensureFrom fuel E A nn (Some nd) sleep)
    (\<lambda>r pre'. \<forall>l created. r = Some (Some l, created) \<longrightarrow> answered nn l pre' \<and> (\<not> created \<longrightarrow> ready_node nn nd pre'))"
  using assms
proof (induction fuel arbitrary: pre sleep)
  case 0
  then show ?case by (auto intro: held_return)
next
  case (Suc fuel)
  show ?case
    unfolding ensureFrom.simps Let_def
    by (intro held_bind held_outside stable_lease_known held_if held_return held_bind_then [OF held_ensureLease])
      (use Suc in \<open>auto intro!: hvcg split: sum.splits\<close>)
qed

lemma held_ensureAndUpdate:
  assumes "ready_node nn nd pre"
  shows "held (lease_guard nn) (lease_known nn) pre (ensureAndUpdate fuel E A nn nd) (\<lambda>_ _. True)"
  unfolding ensureAndUpdate_def backoffEnsureLease_def retryUpdateLease_def
proof (rule held_bind_then [OF held_ensureFrom [OF assms]])
  fix r es
  assume a: "\<forall>l created. r = Some (Some l, created) \<longrightarrow>
      answered nn l (pre @ es) \<and> (\<not> created \<longrightarrow> ready_node nn nd (pre @ es))"
  have upd: "held (lease_guard nn) (lease_known nn) (pre @ es)
      (if created then return (Some ()) else do { _ \<leftarrow> retryFrom maxUpdateRetries E A nn l; return (Some ()) }) (\<lambda>_ _. True)"
    if "r = Some (Some l, created)" for l created
    by (intro held_if held_return TrueI held_bind held_mono [OF held_retryFrom [where nd = nd]]) (use a that in auto)
  have known: "lease_known nn (pre @ es) (w\<lparr>lwLatest := Some l\<rparr>)" if "r = Some (Some l, created)" for l created w
    using a that by simp
  show "held (lease_guard nn) (lease_known nn) (pre @ es) (case r of None \<Rightarrow> return None | Some (None, uu) \<Rightarrow> return (Some ())
      | Some (Some l, created) \<Rightarrow> do {
          modifies (lwLatest_update (\<lambda>_. Some l));
          if created then return (Some ()) else do { _ \<leftarrow> retryFrom maxUpdateRetries E A nn l; return (Some ()) } }) (\<lambda>_ _. True)"
    by (intro held_option held_prod held_return TrueI held_bind held_modifies upd) (use known in simp_all)
qed

lemma held_renewLease:
  assumes "ready_node nn nd pre"
  shows "held (lease_guard nn) (lease_known nn) pre (renewLease fuel E A nn nd) (\<lambda>_ _. True)"
  unfolding renewLease_def retryUpdateLease_def
  by (intro held_bind held_reads held_option held_ensureAndUpdate assms)
    (auto simp: lease_known_def intro!: held_mono [OF held_retryFrom [OF _ assms]] held_ensureAndUpdate held_return split: sum.splits)

lemma held_get_node:
  "stable I \<Longrightarrow> (\<And>r. G pre (EvGet c KNode '''' n r)) \<Longrightarrow> (\<And>r. Q (decode the_node r) (pre @ [EvGet c KNode '''' n r])) \<Longrightarrow>
     held G I pre (get_node A c n) Q"
  unfolding get_node_def by (intro hvcg)

lemma held_getVirtualNode:
  assumes "polls poll"
  shows "held (lease_guard nn) (lease_known nn) pre (getVirtualNode poll A nn)
    (\<lambda>r pre'. \<forall>nd. r = Inr nd \<longrightarrow> isNodeReady nd \<longrightarrow> ready_node nn nd pre')"
proof -
  have "held (lease_guard nn) (lease_known nn) pre (attempts ds e (do {
       got \<leftarrow> get_node A VirtualClient nn;
       case got of
         Inl err \<Rightarrow> do { modifies (lwLastErr_update (\<lambda>_. Some err)); return (Inr None) }
       | Inr n \<Rightarrow> return (Inr (Some n))
     })) (\<lambda>r pre'. \<forall>nd. r = Inr nd \<longrightarrow> isNodeReady nd \<longrightarrow> ready_node nn nd pre')" for ds e
  proof (induction ds arbitrary: pre)
    case (Cons d ds)
    show ?case
      unfolding attempts.simps on_ok_def
      by (intro hvcg held_get_node Cons.IH) (auto intro: ready_now)
  qed (auto intro: held_return)
  note poll = held_poll [OF assms this]
  show ?thesis
    unfolding getVirtualNode_def
    by (rule held_bind, rule held_modifies; (rule held_bind_then [OF poll])?) (auto intro!: hvcg split: sum.splits)
qed

lemma held_syncLease:
  assumes "polls poll"
  shows "held (lease_guard nn) (lease_known nn) pre (syncLease fuel E poll A nn) (\<lambda>_ _. True)"
  unfolding syncLease_def
  by (intro held_bind held_outside stable_lease_known held_if held_return TrueI held_ops lease_guard_read
      held_bind_then [OF held_getVirtualNode [OF assms]])
    (auto intro!: hvcg held_renewLease split: sum.splits)

text \<open>
  C20. Over the whole life of a lease controller, started without a cached lease, whatever the server answers and
  however often the controller retries, where the polling of the library is some number of attempts (\<open>polls\<close>, \<open>repeats\<close>): a lease is written only when the last read of the virtual node found it
  ready and no write of the lease has succeeded since that read, so every renewal needs a read of its own and a node
  that is not ready loses its lease by expiry. A lease is created only after the server said that there is none,
  in the lease namespace, held by and named after the node, owned by the node that was read, for 40 seconds from the time just
  read. An update sends back a lease the server itself gave, changed in nothing but the renewal time, which was just read;
  with a server that answers with the lease it was asked for or sent, that is the lease of the node's name.
\<close>

theorem lease_only_while_ready:
  assumes "polls poll" and "repeats until" and "lwLatest w = None"
  shows "tspec (runLease until fuel E poll A nn) w (\<lambda>_ evs _. ordered (lease_guard nn) [] evs)"
proof -
  have "held (lease_guard nn) (lease_known nn) pre (rounds ds (syncLease fuel E poll A nn)) (\<lambda>_ _. True)" for pre ds
  proof (induction ds arbitrary: pre)
    case (Cons d ds)
    show ?case
      unfolding rounds.simps
      by (rule held_bind_then [OF held_syncLease [OF assms(1)]]) (auto intro!: hvcg Cons.IH split: option.splits)
  qed (auto intro: held_return)
  then have "held (lease_guard nn) (lease_known nn) [] (runLease until fuel E poll A nn) (\<lambda>_ _. True)"
    unfolding runLease_def
    by (intro held_bind_then [OF held_syncLease [OF assms(1)]] held_option held_return TrueI held_until [OF assms(2)])
  then show ?thesis
    by (rule tspec_mono [OF heldD]) (simp_all add: lease_known_def assms(3))
qed

text \<open>Instances of polling and repetition: a fixed number of attempts, nothing happening in between.\<close>

lemma polls_attempts: "polls (attempts ds e)"
  unfolding polls_def by blast

lemma repeats_rounds: "repeats (rounds ds)"
  unfolding repeats_def by blast

definition idle_env :: "'s lease_env" where
  "idle_env = \<lparr>ctxErr = (\<lambda>s. (None, s)), waitTimer = (\<lambda>_ s. (True, s)), timeSleep = (\<lambda>_ s. ((), s))\<rparr>"

definition ready_condition :: condition where
  "ready_condition = \<lparr>cdType = ''Ready'', cdStatus = ''True'', cdReason = '''', cdMessage = '''', cdLastTransitionTime = 0,
     cdLastProbeTime = 0, cdObservedGeneration = 0\<rparr>"

theorem lease_only_while_ready_witness:
  "tspec (runLease (rounds [id, id]) 3 idle_env (attempts [id, id, id] (Errorf ''timeout'')) scripted ''v1'')
     \<lparr>srv = [AClock zero_clock, AObj (Inr (ONode (empty_node\<lparr>nConditions := [ready_condition]\<rparr>))), AObj (Inl (NotFound ''lease''))],
       hist = [], lwLatest = None, lwLastErr = None\<rparr> (\<lambda>_ evs _. ordered (lease_guard ''v1'') [] evs)"
  by (rule lease_only_while_ready [OF polls_attempts repeats_rounds]) simp

section \<open>A renewal ends\<close>

fun is_update :: "event \<Rightarrow> bool" where
  "is_update (EvUpdate _ _ _) \<longleftrightarrow> True"
| "is_update _ \<longleftrightarrow> False"

text \<open>A read of the lease that did not give one.\<close>

fun lease_denied :: "event \<Rightarrow> bool" where
  "lease_denied (EvGet _ k _ _ a) \<longleftrightarrow> k = KLease \<and> (\<exists>e. decode the_lease a = Inl e)"
| "lease_denied _ \<longleftrightarrow> False"

abbreviation updates :: "event list \<Rightarrow> nat" where
  "updates evs \<equiv> length (filter is_update evs)"

abbreviation denials :: "event list \<Rightarrow> nat" where
  "denials evs \<equiv> length (filter lease_denied evs)"

lemma retryFrom_updates: "tspec (retryFrom k E A nn base) w (\<lambda>_ evs _. updates evs \<le> k)"
proof (induction k arbitrary: base w)
  case (Suc k)
  show ?case
    unfolding retryFrom.simps get_lease_def
    by (intro vcg tspec_mono [OF Suc.IH]) auto
qed (auto intro: tspec_return)

lemma ensureLease_denied:
  "tspec (ensureLease A nn nd) w (\<lambda>r evs _. updates evs = 0 \<and> (\<forall>e. r = Inl e \<longrightarrow> 1 \<le> denials evs))"
  unfolding ensureLease_def get_lease_def Let_def by (intro vcg) auto

lemma ensureFrom_denied:
  "tspec (ensureFrom fuel E A nn nd sleep) w (\<lambda>r evs _. updates evs = 0 \<and> (r = None \<longrightarrow> fuel \<le> denials evs))"
proof (induction fuel arbitrary: sleep w)
  case (Suc fuel)
  show ?case
    unfolding ensureFrom.simps Let_def
    by (intro vcg tspec_mono [OF ensureLease_denied] tspec_mono [OF Suc.IH]) auto
qed (auto intro: tspec_return)

lemma ensureAndUpdate_bound:
  "tspec (ensureAndUpdate fuel E A nn nd) w (\<lambda>r evs _. updates evs \<le> 5 \<and> (r = None \<longrightarrow> fuel \<le> denials evs))"
  unfolding ensureAndUpdate_def backoffEnsureLease_def retryUpdateLease_def
  by (intro vcg tspec_mono [OF ensureFrom_denied] tspec_mono [OF retryFrom_updates]) (auto simp: maxUpdateRetries_def)

lemma renewLease_bound:
  "tspec (renewLease fuel E A nn nd) w (\<lambda>r evs _. updates evs \<le> 10 \<and> (r = None \<longrightarrow> fuel \<le> denials evs))"
  unfolding renewLease_def retryUpdateLease_def
  by (intro vcg tspec_mono [OF retryFrom_updates] tspec_mono [OF ensureAndUpdate_bound]) (auto simp: maxUpdateRetries_def)

lemma calls_outside [calls_rules]: "calls (outside f) P"
  by (intro calls_quiet quiet_outside)

lemma calls_poll_node:
  assumes "polls poll" and "calls c P"
  shows "calls (poll c) P"
  unfolding calls_def
proof
  fix w
  obtain ds e where same: "run_state (poll c) w = run_state (attempts ds e c) w"
    using assms(1) unfolding polls_def by blast
  have "calls (attempts ds e c) P"
    by (induction ds) (auto intro!: calls_rules assms(2))
  then show "tspec (poll c) w (\<lambda>_ evs _. list_all P evs)"
    using same by (simp add: calls_def tspec_def)
qed

lemma getVirtualNode_calls:
  assumes "polls poll"
  shows "calls (getVirtualNode poll A nn) node_get"
  unfolding getVirtualNode_def get_node_def
  by (intro calls_rules calls_poll_node [OF assms] calls_quiet [OF quiet_ops(1)]) auto

lemma node_get_neither: "list_all node_get evs \<Longrightarrow> updates evs = 0"
proof (induction evs)
  case (Cons e evs) then show ?case by (cases e) auto
qed simp

text \<open>The loop of \<^verbatim>\<open>backoffEnsureLease\<close> with the pauses it is to make given in advance, one for each failed attempt.\<close>

fun ensurePausing ::
  "int list \<Rightarrow> 's lease_env \<Rightarrow> 's api \<Rightarrow> string \<Rightarrow> node option \<Rightarrow> ('s, 'm, (lease option \<times> bool) option) prog" where
  "ensurePausing [] E A nodeName nd = return None"
| "ensurePausing (pause # pauses) E A nodeName nd = do {
     stopped \<leftarrow> outside (ctxErr E);
     if stopped \<noteq> None then return (Some (None, False))
     else do {
       r \<leftarrow> ensureLease A nodeName nd;
       case r of
         Inr res \<Rightarrow> return (Some res)
       | Inl err \<Rightarrow> do {
           fired \<leftarrow> outside (waitTimer E pause);
           if fired then ensurePausing pauses E A nodeName nd else return (Some (None, False))
         }
     }
   }"

definition leasePause :: "nat \<Rightarrow> int" where
  "leasePause i = min (2 ^ i * (200 * Millisecond)) (7 * Second)"

lemma leasePause_Suc: "minDuration (2 * leasePause i) maxBackoff = leasePause (Suc i)"
  by (auto simp: leasePause_def minDuration_def maxBackoff_def Millisecond_def Second_def)

lemma ensureFrom_pausing:
  "minDuration (2 * sleep) maxBackoff = leasePause i \<Longrightarrow>
     ensureFrom fuel E A nn nd sleep = ensurePausing (map leasePause [i..<i + fuel]) E A nn nd"
proof (induction fuel arbitrary: sleep i)
  case (Suc fuel)
  have "map leasePause [i..<i + Suc fuel] = leasePause i # map leasePause [Suc i..<Suc i + fuel]"
    using upt_conv_Cons [of i "i + Suc fuel"] by simp
  then show ?case
    using Suc.prems Suc.IH [of "leasePause i" "Suc i"] by (simp only: ensureFrom.simps ensurePausing.simps Let_def leasePause_Suc)
qed simp

text \<open>
  C21. A renewal makes at most ten updates, five on the cached lease and five on the one it then looks up, and it ends: it can still
  be waiting after \<open>fuel\<close> rounds of its loop only if in every one of them the server did not give the lease that was asked for.
  That loop is the one whose pauses are 200 ms after the first failed attempt, twice as long after each further one, and seven
  seconds at most. The polling of the library is some number of attempts (\<open>polls\<close>).
\<close>

theorem lease_round_bounded:
  assumes "polls poll"
  shows "tspec (syncLease fuel E poll A nn) w (\<lambda>r evs _. updates evs \<le> 10 \<and> (r = None \<longrightarrow> fuel \<le> denials evs)) \<and>
    run_state (backoffEnsureLease fuel E A nn nd) w = run_state (ensurePausing (map leasePause [0..<fuel]) E A nn nd) w"
proof
  show "tspec (syncLease fuel E poll A nn) w (\<lambda>r evs _. updates evs \<le> 10 \<and> (r = None \<longrightarrow> fuel \<le> denials evs))"
    unfolding syncLease_def
    by (intro tspec_bind tspec_outside tspec_if tspec_return tspec_ops tspec_sum
        tspec_calls [OF getVirtualNode_calls [OF assms]] tspec_mono [OF renewLease_bound])
      (auto simp: node_get_neither)
  have first: "minDuration (2 * (100 * Millisecond)) maxBackoff = leasePause 0"
    by (simp add: minDuration_def maxBackoff_def leasePause_def Millisecond_def Second_def)
  show "run_state (backoffEnsureLease fuel E A nn nd) w = run_state (ensurePausing (map leasePause [0..<fuel]) E A nn nd) w"
    unfolding backoffEnsureLease_def by (simp only: ensureFrom_pausing [OF first] add_0)
qed

theorem lease_round_bounded_witness:
  "tspec (syncLease 3 idle_env (attempts [id, id, id] (Errorf ''timeout'')) scripted ''v1'')
     \<lparr>srv = [AClock zero_clock, AObj (Inr (ONode (empty_node\<lparr>nConditions := [ready_condition]\<rparr>)))],
       hist = [], lwLatest = None, lwLastErr = None\<rparr> (\<lambda>r evs _. updates evs \<le> 10 \<and> (r = None \<longrightarrow> 3 \<le> denials evs))"
  by (rule lease_round_bounded [OF polls_attempts, THEN conjunct1])

section \<open>Start and stop\<close>

text \<open>
  The context and the goroutines \<^verbatim>\<open>run\<close> of a controller. \<^verbatim>\<open>Stop\<close> waits up to five seconds for the loop to end, which
  changes nothing here.
\<close>

record lease_ctl =
  lcCancelled :: bool
  lcLoops :: nat

definition NewLeaseController :: lease_ctl where
  "NewLeaseController = \<lparr>lcCancelled = False, lcLoops = 0\<rparr>"

definition StartLease :: "lease_ctl \<Rightarrow> lease_ctl" where
  "StartLease lc = (if lcCancelled lc then lc else lc\<lparr>lcLoops := Suc (lcLoops lc)\<rparr>)"

definition StopLease :: "lease_ctl \<Rightarrow> lease_ctl" where
  "StopLease lc = lc\<lparr>lcCancelled := True\<rparr>"

definition IsRunning :: "lease_ctl \<Rightarrow> bool" where
  "IsRunning lc \<longleftrightarrow> \<not> lcCancelled lc"

end
