(* ===== verification/Metrics_Parser.thy ===== *)
theory Metrics_Parser
  imports Complex_Main Kube_Prelude "HOL-Library.AList"
begin

text \<open>
  \<^verbatim>\<open>pkg/proxier/metrics_parser.go\<close> and \<^verbatim>\<open>pkg/proxier/pod_mapper.go\<close>: the proxier scrapes the cAdvisor metrics of the physical
  nodes, keeps the last value of every known series per port (one port per virtual node), and writes them again in Prometheus
  format under the names of the virtual pods. A \<^verbatim>\<open>float64\<close> is its exact rational value, an infinity or NaN; the two zeros
  coincide, since no zero is ever written. The stream parser of VictoriaMetrics is a parameter: it
  yields batches of rows and possibly an error. The conversion of the time stamp to seconds, an IEEE division
  whose result is stored but never written, is the parameter \<open>unixSeconds\<close>. The inner Go maps are association lists; Go
  leaves the order of iteration open, so the theorems speak of sets of lines.
\<close>

datatype float64 = Finite rat | PosInf | NegInf | NaN

section \<open>Go's library\<close>

definition pad6 :: "nat \<Rightarrow> string" where
  "pad6 n = (let d = show_nat n in replicate (6 - length d) CHR ''0'' @ d)"

text \<open>\<^verbatim>\<open>%.6f\<close>: the exact value, rounded to six places, ties to even.\<close>

definition micros :: "rat \<Rightarrow> int" where
  "micros q = (let x = q * 1000000; i = \<lfloor>x\<rfloor>; r = x - of_int i
     in if r > 1 / 2 \<or> (r = 1 / 2 \<and> odd i) then i + 1 else i)"

fun format6f :: "float64 \<Rightarrow> string" where
  "format6f (Finite q) = (let k = nat (micros \<bar>q\<bar>)
     in (if q < 0 then ''-'' else '''') @ show_nat (k div 1000000) @ ''.'' @ pad6 (k mod 1000000))"
| "format6f PosInf = ''+Inf''"
| "format6f NegInf = ''-Inf''"
| "format6f NaN = ''NaN''"

section \<open>Mapping of pods\<close>

record VirtualPodInfo =
  VirtualNodeName :: string
  VirtualPodName :: string
  VirtualPodNamespace :: string

text \<open>The global mapper; \<open>None\<close> before \<^verbatim>\<open>InitGlobalPodMapper\<close>.\<close>

type_synonym pod_mapper = "(string \<rightharpoonup> VirtualPodInfo) option"

definition InitGlobalPodMapper :: pod_mapper where
  "InitGlobalPodMapper = Some Map.empty"

definition GetVirtualPodInfo :: "pod_mapper \<Rightarrow> string \<Rightarrow> VirtualPodInfo option" where
  "GetVirtualPodInfo M physicalPodName = (case M of None \<Rightarrow> None | Some m \<Rightarrow> m physicalPodName)"

definition SetVirtualPodInfo :: "pod_mapper \<Rightarrow> string \<Rightarrow> VirtualPodInfo \<Rightarrow> pod_mapper" where
  "SetVirtualPodInfo M physicalPodName virtualInfo = map_option (\<lambda>m. m(physicalPodName \<mapsto> virtualInfo)) M"

definition DeleteVirtualPodInfo :: "pod_mapper \<Rightarrow> string \<Rightarrow> pod_mapper" where
  "DeleteVirtualPodInfo M physicalPodName = map_option (\<lambda>m. m(physicalPodName := None)) M"

section \<open>Data\<close>

record ContainerInfo =
  ciId :: string
  ciName :: string
  ciPodName :: string
  ciNameSpace :: string

record ContainerMetrics =
  CPUUsageSecondsTotal :: float64
  CPUCfsPeriodsTotal :: float64
  CPUCfsThrottledPeriodsTotal :: float64
  CPUCfsThrottledSecondsTotal :: float64
  CPULoadAverage10s :: float64
  CPUSchedstatRunPeriodsTotal :: float64
  CPUSchedstatRunqueueSecondsTotal :: float64
  CPUSchedstatRunSecondsTotal :: float64
  CPUSystemSecondsTotal :: float64
  CPUUserSecondsTotal :: float64
  CPUStatTime :: float64
  MemoryUsageBytes :: float64
  MemoryCache :: float64
  MemoryWorkingSetBytes :: float64
  MemoryFailcnt :: float64
  MemoryFailuresTotal :: float64
  MemoryMappedFile :: float64
  MemoryMaxUsageBytes :: float64
  MemoryMigrate :: float64
  MemoryNumaPages :: float64
  MemoryRss :: float64
  MemorySwap :: float64
  ReferencedBytes :: float64
  FileDescriptors :: float64
  Processes :: float64
  Sockets :: float64
  Threads :: float64
  ThreadsMax :: float64
  SpecCpuPeriod :: float64
  SpecCpuQuota :: float64
  SpecCpuShares :: float64
  SpecMemoryLimitBytes :: float64
  SpecMemoryReservationLimitBytes :: float64
  SpecMemorySwapLimitBytes :: float64
  LastSeen :: float64
  OomEventsTotal :: float64
  StartTimeSeconds :: float64
  TasksState :: float64
  UlimitsSoft :: float64

record NetworkMetrics =
  RxBytes :: float64
  RxPackets :: float64
  RxErrors :: float64
  RxDropped :: float64
  TxBytes :: float64
  TxPackets :: float64
  TxErrors :: float64
  TxDropped :: float64
  TcpUsage :: float64
  Tcp6Usage :: float64
  UdpUsage :: float64
  Udp6Usage :: float64

record FilesystemMetrics =
  ReadsTotal :: float64
  WritesTotal :: float64
  ReadsBytesTotal :: float64
  WritesBytesTotal :: float64
  UsageBytes :: float64
  LimitBytes :: float64
  InodesFree :: float64
  InodesTotal :: float64
  IoCurrent :: float64
  IoTimeSecondsTotal :: float64
  IoTimeWeightedSecondsTotal :: float64
  ReadSecondsTotal :: float64
  ReadsMergedTotal :: float64
  SectorReadsTotal :: float64
  SectorWritesTotal :: float64
  WriteSecondsTotal :: float64
  WritesMergedTotal :: float64

record BlkioMetrics =
  bkDevice :: string
  bkMajor :: string
  bkMinor :: string
  bkOperation :: string
  bkValue :: float64

record GpuMetrics =
  MinorNumber :: string
  GpuDutyCycle :: float64
  GpuMemUsedMib :: float64
  GpuMemoryTotalMib :: float64
  GpuDeviceNum :: float64

definition zeroContainer :: ContainerMetrics where
  "zeroContainer = \<lparr>CPUUsageSecondsTotal = Finite 0, CPUCfsPeriodsTotal = Finite 0, CPUCfsThrottledPeriodsTotal = Finite 0, CPUCfsThrottledSecondsTotal = Finite 0, CPULoadAverage10s = Finite 0, CPUSchedstatRunPeriodsTotal = Finite 0, CPUSchedstatRunqueueSecondsTotal = Finite 0, CPUSchedstatRunSecondsTotal = Finite 0, CPUSystemSecondsTotal = Finite 0, CPUUserSecondsTotal = Finite 0, CPUStatTime = Finite 0, MemoryUsageBytes = Finite 0, MemoryCache = Finite 0, MemoryWorkingSetBytes = Finite 0, MemoryFailcnt = Finite 0, MemoryFailuresTotal = Finite 0, MemoryMappedFile = Finite 0, MemoryMaxUsageBytes = Finite 0, MemoryMigrate = Finite 0, MemoryNumaPages = Finite 0, MemoryRss = Finite 0, MemorySwap = Finite 0, ReferencedBytes = Finite 0, FileDescriptors = Finite 0, Processes = Finite 0, Sockets = Finite 0, Threads = Finite 0, ThreadsMax = Finite 0, SpecCpuPeriod = Finite 0, SpecCpuQuota = Finite 0, SpecCpuShares = Finite 0, SpecMemoryLimitBytes = Finite 0, SpecMemoryReservationLimitBytes = Finite 0, SpecMemorySwapLimitBytes = Finite 0, LastSeen = Finite 0, OomEventsTotal = Finite 0, StartTimeSeconds = Finite 0, TasksState = Finite 0, UlimitsSoft = Finite 0\<rparr>"

definition zeroNetwork :: NetworkMetrics where
  "zeroNetwork = \<lparr>RxBytes = Finite 0, RxPackets = Finite 0, RxErrors = Finite 0, RxDropped = Finite 0, TxBytes = Finite 0, TxPackets = Finite 0, TxErrors = Finite 0, TxDropped = Finite 0, TcpUsage = Finite 0, Tcp6Usage = Finite 0, UdpUsage = Finite 0, Udp6Usage = Finite 0\<rparr>"

definition zeroFilesystem :: FilesystemMetrics where
  "zeroFilesystem = \<lparr>ReadsTotal = Finite 0, WritesTotal = Finite 0, ReadsBytesTotal = Finite 0, WritesBytesTotal = Finite 0, UsageBytes = Finite 0, LimitBytes = Finite 0, InodesFree = Finite 0, InodesTotal = Finite 0, IoCurrent = Finite 0, IoTimeSecondsTotal = Finite 0, IoTimeWeightedSecondsTotal = Finite 0, ReadSecondsTotal = Finite 0, ReadsMergedTotal = Finite 0, SectorReadsTotal = Finite 0, SectorWritesTotal = Finite 0, WriteSecondsTotal = Finite 0, WritesMergedTotal = Finite 0\<rparr>"

text \<open>Per port, and per container; the last four also per interface, device, device and operation, or GPU.\<close>

type_synonym 'a series = "(ContainerInfo \<times> (string \<times> 'a) list) list"

record metrics_parser =
  containerMetrics :: "string \<rightharpoonup> (ContainerInfo \<times> ContainerMetrics) list"
  networkMetrics :: "string \<rightharpoonup> NetworkMetrics series"
  fsMetrics :: "string \<rightharpoonup> FilesystemMetrics series"
  blkioMetrics :: "string \<rightharpoonup> BlkioMetrics series"
  gpuMetrics :: "string \<rightharpoonup> GpuMetrics series"

definition NewMetricsParser :: metrics_parser where
  "NewMetricsParser = \<lparr>containerMetrics = Map.empty, networkMetrics = Map.empty, fsMetrics = Map.empty,
     blkioMetrics = Map.empty, gpuMetrics = Map.empty\<rparr>"

definition initializePortMetrics :: "metrics_parser \<Rightarrow> string \<Rightarrow> metrics_parser" where
  "initializePortMetrics mp targetPort = \<lparr>containerMetrics = (containerMetrics mp)(targetPort \<mapsto> []),
     networkMetrics = (networkMetrics mp)(targetPort \<mapsto> []), fsMetrics = (fsMetrics mp)(targetPort \<mapsto> []),
     blkioMetrics = (blkioMetrics mp)(targetPort \<mapsto> []), gpuMetrics = (gpuMetrics mp)(targetPort \<mapsto> [])\<rparr>"

section \<open>Labels\<close>

record metricLabels =
  mlPodName :: string
  mlNamespace :: string
  mlContainerName :: string
  mlContainerID :: string
  mlInterfaceName :: string
  mlDevice :: string
  mlMinorNumber :: string
  mlTcpState :: string
  mlMajor :: string
  mlMinor :: string
  mlOperation :: string

definition noLabels :: metricLabels where
  "noLabels = \<lparr>mlPodName = '''', mlNamespace = '''', mlContainerName = '''', mlContainerID = '''', mlInterfaceName = '''',
     mlDevice = '''', mlMinorNumber = '''', mlTcpState = '''', mlMajor = '''', mlMinor = '''', mlOperation = ''''\<rparr>"

definition extractIDFromCgroupPath :: "string \<Rightarrow> string" where
  "extractIDFromCgroupPath cgroupPath =
    (if length cgroupPath > 64 then drop (length cgroupPath - 64) cgroupPath else cgroupPath)"

definition parseLabel :: "string \<Rightarrow> metricLabels \<Rightarrow> string \<times> string \<Rightarrow> metricLabels" where
  "parseLabel metricName labels kv = (case kv of (key, val) \<Rightarrow>
     if key = ''pod'' \<or> key = ''pod_name'' then
       (let labels = labels\<lparr>mlPodName := val\<rparr>
        in if Contains metricName ''pod_filesystem_''
           then (let pos = length (takeWhile (\<lambda>c. c \<noteq> CHR ''-'') val)
                 in if pos < length val \<and> pos > 0 then labels\<lparr>mlContainerName := take pos val\<rparr>
                    else labels\<lparr>mlContainerName := val\<rparr>)
           else labels)
     else if key = ''namespace'' then labels\<lparr>mlNamespace := val\<rparr>
     else if key = ''container'' \<or> key = ''container_name'' then
       labels\<lparr>mlContainerName := (if val = ''POD'' then ''pause'' else val)\<rparr>
     else if key = ''id'' \<or> key = ''container_id'' then
       labels\<lparr>mlContainerID := (if Contains val ''/kubepods/'' \<or> Contains val ''/kubepods.slice/''
         then extractIDFromCgroupPath val else val)\<rparr>
     else if key = ''interface'' then labels\<lparr>mlInterfaceName := val\<rparr>
     else if key = ''device'' then labels\<lparr>mlDevice := val\<rparr>
     else if key = ''minor_number'' then labels\<lparr>mlMinorNumber := val\<rparr>
     else if key = ''tcp_state'' then labels\<lparr>mlTcpState := val\<rparr>
     else if key = ''major'' then labels\<lparr>mlMajor := val\<rparr>
     else if key = ''minor'' then labels\<lparr>mlMinor := val\<rparr>
     else if key = ''operation'' then labels\<lparr>mlOperation := val\<rparr>
     else labels)"

definition parseMetricLabels :: "string \<Rightarrow> (string \<times> string) list \<Rightarrow> metricLabels" where
  "parseMetricLabels metricName tags = foldl (parseLabel metricName) noLabels tags"

section \<open>Storing one value\<close>

text \<open>The \<^verbatim>\<open>switch\<close> on the metric's name: a table of the cases, in their order; a name that is not there changes nothing.\<close>

definition switch :: "(string \<times> (float64 \<Rightarrow> 's \<Rightarrow> 's)) list \<Rightarrow> string \<Rightarrow> float64 \<Rightarrow> 's \<Rightarrow> 's" where
  "switch cases metricName metricValue stat =
    (case map_of cases metricName of Some put \<Rightarrow> put metricValue stat | None \<Rightarrow> stat)"

definition cpuSetters :: "(int \<Rightarrow> float64) \<Rightarrow> int \<Rightarrow> (string \<times> (float64 \<Rightarrow> ContainerMetrics \<Rightarrow> ContainerMetrics)) list" where
  "cpuSetters unixSeconds timestamp =
    [(''container_cpu_usage_seconds_total'', \<lambda>metricValue stat. stat\<lparr>CPUUsageSecondsTotal := metricValue, CPUStatTime := unixSeconds timestamp\<rparr>),
     (''container_cpu_cfs_periods_total'', \<lambda>metricValue stat. stat\<lparr>CPUCfsPeriodsTotal := metricValue\<rparr>),
     (''container_cpu_cfs_throttled_periods_total'', \<lambda>metricValue stat. stat\<lparr>CPUCfsThrottledPeriodsTotal := metricValue\<rparr>),
     (''container_cpu_cfs_throttled_seconds_total'', \<lambda>metricValue stat. stat\<lparr>CPUCfsThrottledSecondsTotal := metricValue\<rparr>),
     (''container_cpu_load_average_10s'', \<lambda>metricValue stat. stat\<lparr>CPULoadAverage10s := metricValue\<rparr>),
     (''container_cpu_schedstat_run_periods_total'', \<lambda>metricValue stat. stat\<lparr>CPUSchedstatRunPeriodsTotal := metricValue\<rparr>),
     (''container_cpu_schedstat_runqueue_seconds_total'', \<lambda>metricValue stat. stat\<lparr>CPUSchedstatRunqueueSecondsTotal := metricValue\<rparr>),
     (''container_cpu_schedstat_run_seconds_total'', \<lambda>metricValue stat. stat\<lparr>CPUSchedstatRunSecondsTotal := metricValue\<rparr>),
     (''container_cpu_system_seconds_total'', \<lambda>metricValue stat. stat\<lparr>CPUSystemSecondsTotal := metricValue\<rparr>),
     (''container_cpu_user_seconds_total'', \<lambda>metricValue stat. stat\<lparr>CPUUserSecondsTotal := metricValue\<rparr>)]"

definition processCPUMetric :: "(int \<Rightarrow> float64) \<Rightarrow> string \<Rightarrow> float64 \<Rightarrow> int \<Rightarrow> ContainerMetrics \<Rightarrow> ContainerMetrics" where
  "processCPUMetric unixSeconds metricName metricValue timestamp stat = switch (cpuSetters unixSeconds timestamp) metricName metricValue stat"

definition memorySetters :: "(string \<times> (float64 \<Rightarrow> ContainerMetrics \<Rightarrow> ContainerMetrics)) list" where
  "memorySetters =
    [(''container_memory_usage_bytes'', \<lambda>metricValue stat. stat\<lparr>MemoryUsageBytes := metricValue\<rparr>),
     (''container_memory_cache'', \<lambda>metricValue stat. stat\<lparr>MemoryCache := metricValue\<rparr>),
     (''container_memory_working_set_bytes'', \<lambda>metricValue stat. stat\<lparr>MemoryWorkingSetBytes := metricValue\<rparr>),
     (''container_memory_failcnt'', \<lambda>metricValue stat. stat\<lparr>MemoryFailcnt := metricValue\<rparr>),
     (''container_memory_failures_total'', \<lambda>metricValue stat. stat\<lparr>MemoryFailuresTotal := metricValue\<rparr>),
     (''container_memory_mapped_file'', \<lambda>metricValue stat. stat\<lparr>MemoryMappedFile := metricValue\<rparr>),
     (''container_memory_max_usage_bytes'', \<lambda>metricValue stat. stat\<lparr>MemoryMaxUsageBytes := metricValue\<rparr>),
     (''container_memory_migrate'', \<lambda>metricValue stat. stat\<lparr>MemoryMigrate := metricValue\<rparr>),
     (''container_memory_numa_pages'', \<lambda>metricValue stat. stat\<lparr>MemoryNumaPages := metricValue\<rparr>),
     (''container_memory_rss'', \<lambda>metricValue stat. stat\<lparr>MemoryRss := metricValue\<rparr>),
     (''container_memory_swap'', \<lambda>metricValue stat. stat\<lparr>MemorySwap := metricValue\<rparr>),
     (''container_referenced_bytes'', \<lambda>metricValue stat. stat\<lparr>ReferencedBytes := metricValue\<rparr>)]"

definition processMemoryMetric :: "string \<Rightarrow> float64 \<Rightarrow> ContainerMetrics \<Rightarrow> ContainerMetrics" where
  "processMemoryMetric metricName metricValue stat = switch memorySetters metricName metricValue stat"

definition networkSetters :: "(string \<times> (float64 \<Rightarrow> NetworkMetrics \<Rightarrow> NetworkMetrics)) list" where
  "networkSetters =
    [(''container_network_receive_bytes_total'', \<lambda>metricValue stat. stat\<lparr>RxBytes := metricValue\<rparr>),
     (''container_network_receive_packets_total'', \<lambda>metricValue stat. stat\<lparr>RxPackets := metricValue\<rparr>),
     (''container_network_receive_errors_total'', \<lambda>metricValue stat. stat\<lparr>RxErrors := metricValue\<rparr>),
     (''container_network_receive_packets_dropped_total'', \<lambda>metricValue stat. stat\<lparr>RxDropped := metricValue\<rparr>),
     (''container_network_transmit_bytes_total'', \<lambda>metricValue stat. stat\<lparr>TxBytes := metricValue\<rparr>),
     (''container_network_transmit_packets_total'', \<lambda>metricValue stat. stat\<lparr>TxPackets := metricValue\<rparr>),
     (''container_network_transmit_errors_total'', \<lambda>metricValue stat. stat\<lparr>TxErrors := metricValue\<rparr>),
     (''container_network_transmit_packets_dropped_total'', \<lambda>metricValue stat. stat\<lparr>TxDropped := metricValue\<rparr>),
     (''container_network_tcp_usage_total'', \<lambda>metricValue stat. stat\<lparr>TcpUsage := metricValue\<rparr>),
     (''container_network_tcp6_usage_total'', \<lambda>metricValue stat. stat\<lparr>Tcp6Usage := metricValue\<rparr>),
     (''container_network_udp_usage_total'', \<lambda>metricValue stat. stat\<lparr>UdpUsage := metricValue\<rparr>),
     (''container_network_udp6_usage_total'', \<lambda>metricValue stat. stat\<lparr>Udp6Usage := metricValue\<rparr>)]"

definition processNetworkMetricForPort :: "string \<Rightarrow> float64 \<Rightarrow> NetworkMetrics \<Rightarrow> NetworkMetrics" where
  "processNetworkMetricForPort metricName metricValue stat = switch networkSetters metricName metricValue stat"

definition filesystemSetters :: "(string \<times> (float64 \<Rightarrow> FilesystemMetrics \<Rightarrow> FilesystemMetrics)) list" where
  "filesystemSetters =
    [(''container_fs_reads_total'', \<lambda>metricValue stat. stat\<lparr>ReadsTotal := metricValue\<rparr>),
     (''container_fs_writes_total'', \<lambda>metricValue stat. stat\<lparr>WritesTotal := metricValue\<rparr>),
     (''container_fs_reads_bytes_total'', \<lambda>metricValue stat. stat\<lparr>ReadsBytesTotal := metricValue\<rparr>),
     (''container_fs_writes_bytes_total'', \<lambda>metricValue stat. stat\<lparr>WritesBytesTotal := metricValue\<rparr>),
     (''container_fs_usage_bytes'', \<lambda>metricValue stat. stat\<lparr>UsageBytes := metricValue\<rparr>),
     (''container_fs_limit_bytes'', \<lambda>metricValue stat. stat\<lparr>LimitBytes := metricValue\<rparr>),
     (''container_fs_inodes_free'', \<lambda>metricValue stat. stat\<lparr>InodesFree := metricValue\<rparr>),
     (''container_fs_inodes_total'', \<lambda>metricValue stat. stat\<lparr>InodesTotal := metricValue\<rparr>),
     (''container_fs_io_current'', \<lambda>metricValue stat. stat\<lparr>IoCurrent := metricValue\<rparr>),
     (''container_fs_io_time_seconds_total'', \<lambda>metricValue stat. stat\<lparr>IoTimeSecondsTotal := metricValue\<rparr>),
     (''container_fs_io_time_weighted_seconds_total'', \<lambda>metricValue stat. stat\<lparr>IoTimeWeightedSecondsTotal := metricValue\<rparr>),
     (''container_fs_read_seconds_total'', \<lambda>metricValue stat. stat\<lparr>ReadSecondsTotal := metricValue\<rparr>),
     (''container_fs_reads_merged_total'', \<lambda>metricValue stat. stat\<lparr>ReadsMergedTotal := metricValue\<rparr>),
     (''container_fs_sector_reads_total'', \<lambda>metricValue stat. stat\<lparr>SectorReadsTotal := metricValue\<rparr>),
     (''container_fs_sector_writes_total'', \<lambda>metricValue stat. stat\<lparr>SectorWritesTotal := metricValue\<rparr>),
     (''container_fs_write_seconds_total'', \<lambda>metricValue stat. stat\<lparr>WriteSecondsTotal := metricValue\<rparr>),
     (''container_fs_writes_merged_total'', \<lambda>metricValue stat. stat\<lparr>WritesMergedTotal := metricValue\<rparr>)]"

definition processFilesystemMetricForPort :: "string \<Rightarrow> float64 \<Rightarrow> FilesystemMetrics \<Rightarrow> FilesystemMetrics" where
  "processFilesystemMetricForPort metricName metricValue stat = switch filesystemSetters metricName metricValue stat"

definition specSetters :: "(string \<times> (float64 \<Rightarrow> ContainerMetrics \<Rightarrow> ContainerMetrics)) list" where
  "specSetters =
    [(''container_spec_cpu_period'', \<lambda>metricValue stat. stat\<lparr>SpecCpuPeriod := metricValue\<rparr>),
     (''container_spec_cpu_quota'', \<lambda>metricValue stat. stat\<lparr>SpecCpuQuota := metricValue\<rparr>),
     (''container_spec_cpu_shares'', \<lambda>metricValue stat. stat\<lparr>SpecCpuShares := metricValue\<rparr>),
     (''container_spec_memory_limit_bytes'', \<lambda>metricValue stat. stat\<lparr>SpecMemoryLimitBytes := metricValue\<rparr>),
     (''container_spec_memory_reservation_limit_bytes'', \<lambda>metricValue stat. stat\<lparr>SpecMemoryReservationLimitBytes := metricValue\<rparr>),
     (''container_spec_memory_swap_limit_bytes'', \<lambda>metricValue stat. stat\<lparr>SpecMemorySwapLimitBytes := metricValue\<rparr>)]"

definition processSpecMetric :: "string \<Rightarrow> float64 \<Rightarrow> ContainerMetrics \<Rightarrow> ContainerMetrics" where
  "processSpecMetric metricName metricValue stat = switch specSetters metricName metricValue stat"

definition gpuSetters :: "(string \<times> (float64 \<Rightarrow> GpuMetrics \<Rightarrow> GpuMetrics)) list" where
  "gpuSetters =
    [(''container_accelerator_duty_cycle'', \<lambda>metricValue stat. stat\<lparr>GpuDutyCycle := metricValue\<rparr>),
     (''container_accelerator_memory_used_bytes'', \<lambda>metricValue stat. stat\<lparr>GpuMemUsedMib := metricValue\<rparr>),
     (''container_accelerator_memory_total_bytes'', \<lambda>metricValue stat. stat\<lparr>GpuMemoryTotalMib := metricValue\<rparr>)]"

definition processGPUMetric :: "string \<Rightarrow> float64 \<Rightarrow> GpuMetrics \<Rightarrow> GpuMetrics" where
  "processGPUMetric metricName metricValue stat = switch gpuSetters metricName metricValue stat"

definition otherSetters :: "(string \<times> (float64 \<Rightarrow> ContainerMetrics \<Rightarrow> ContainerMetrics)) list" where
  "otherSetters =
    [(''container_file_descriptors'', \<lambda>metricValue stat. stat\<lparr>FileDescriptors := metricValue\<rparr>),
     (''container_processes'', \<lambda>metricValue stat. stat\<lparr>Processes := metricValue\<rparr>),
     (''container_sockets'', \<lambda>metricValue stat. stat\<lparr>Sockets := metricValue\<rparr>),
     (''container_threads'', \<lambda>metricValue stat. stat\<lparr>Threads := metricValue\<rparr>),
     (''container_threads_max'', \<lambda>metricValue stat. stat\<lparr>ThreadsMax := metricValue\<rparr>),
     (''container_last_seen'', \<lambda>metricValue stat. stat\<lparr>LastSeen := metricValue\<rparr>),
     (''container_oom_events_total'', \<lambda>metricValue stat. stat\<lparr>OomEventsTotal := metricValue\<rparr>),
     (''container_start_time_seconds'', \<lambda>metricValue stat. stat\<lparr>StartTimeSeconds := metricValue\<rparr>),
     (''container_tasks_state'', \<lambda>metricValue stat. stat\<lparr>TasksState := metricValue\<rparr>),
     (''container_ulimits_soft'', \<lambda>metricValue stat. stat\<lparr>UlimitsSoft := metricValue\<rparr>)]"

definition processOtherMetric :: "string \<Rightarrow> float64 \<Rightarrow> ContainerMetrics \<Rightarrow> ContainerMetrics" where
  "processOtherMetric metricName metricValue stat = switch otherSetters metricName metricValue stat"

definition processBlkioMetricForPort :: "float64 \<Rightarrow> BlkioMetrics \<Rightarrow> BlkioMetrics" where
  "processBlkioMetricForPort metricValue stat = stat\<lparr>bkValue := metricValue\<rparr>"

text \<open>The storage objects a row refers to: pointers into the five maps, three of which may be nil.\<close>

record row_stats =
  pStatInfo :: ContainerMetrics
  pNetworkStat :: "NetworkMetrics option"
  pFsStat :: FilesystemMetrics
  pBlkioStat :: "BlkioMetrics option"
  pGpuStat :: "GpuMetrics option"

definition processMetricForPort :: "(int \<Rightarrow> float64) \<Rightarrow> string \<Rightarrow> float64 \<Rightarrow> int \<Rightarrow> row_stats \<Rightarrow> row_stats" where
  "processMetricForPort unixSeconds metricName metricValue timestamp p =
    (if HasPrefix metricName ''container_cpu_''
     then p\<lparr>pStatInfo := processCPUMetric unixSeconds metricName metricValue timestamp (pStatInfo p)\<rparr>
     else if HasPrefix metricName ''container_memory_'' \<or> metricName = ''container_referenced_bytes''
     then p\<lparr>pStatInfo := processMemoryMetric metricName metricValue (pStatInfo p)\<rparr>
     else if HasPrefix metricName ''container_network_''
     then p\<lparr>pNetworkStat := map_option (processNetworkMetricForPort metricName metricValue) (pNetworkStat p)\<rparr>
     else if HasPrefix metricName ''container_fs_''
     then p\<lparr>pFsStat := processFilesystemMetricForPort metricName metricValue (pFsStat p)\<rparr>
     else if HasPrefix metricName ''container_spec_''
     then p\<lparr>pStatInfo := processSpecMetric metricName metricValue (pStatInfo p)\<rparr>
     else if HasPrefix metricName ''container_accelerator_''
     then p\<lparr>pGpuStat := map_option (processGPUMetric metricName metricValue) (pGpuStat p)\<rparr>
     else if metricName = ''container_blkio_device_usage_total''
     then p\<lparr>pBlkioStat := map_option (processBlkioMetricForPort metricValue) (pBlkioStat p)\<rparr>
     else p\<lparr>pStatInfo := processOtherMetric metricName metricValue (pStatInfo p)\<rparr>)"

section \<open>Get or create\<close>

definition fetch :: "'v \<Rightarrow> ('k \<times> 'v) list \<Rightarrow> 'k \<Rightarrow> 'v" where
  "fetch d m k = (case map_of m k of Some v \<Rightarrow> v | None \<Rightarrow> d)"

definition at_port :: "(string \<rightharpoonup> 'a list) \<Rightarrow> string \<Rightarrow> 'a list" where
  "at_port m port = (case m port of Some d \<Rightarrow> d | None \<Rightarrow> [])"

definition nfetch :: "'v \<Rightarrow> 'v series \<Rightarrow> ContainerInfo \<Rightarrow> string \<Rightarrow> 'v" where
  "nfetch d m c k = fetch d (fetch [] m c) k"

definition nstore :: "'v series \<Rightarrow> ContainerInfo \<Rightarrow> string \<Rightarrow> 'v \<Rightarrow> 'v series" where
  "nstore m c k v = AList.update c (AList.update k v (fetch [] m c)) m"

definition getOrCreateContainerMetrics :: "metrics_parser \<Rightarrow> string \<Rightarrow> ContainerInfo \<Rightarrow> ContainerMetrics" where
  "getOrCreateContainerMetrics mp port containerInfo = fetch zeroContainer (at_port (containerMetrics mp) port) containerInfo"

definition getOriginNetworkStatInfoByPort :: "metrics_parser \<Rightarrow> string \<Rightarrow> ContainerInfo \<Rightarrow> string \<Rightarrow> NetworkMetrics" where
  "getOriginNetworkStatInfoByPort mp targetPort refID interfaceName =
     nfetch zeroNetwork (at_port (networkMetrics mp) targetPort) refID interfaceName"

definition getOriginFsStatInfoByPort :: "metrics_parser \<Rightarrow> string \<Rightarrow> ContainerInfo \<Rightarrow> string \<Rightarrow> FilesystemMetrics" where
  "getOriginFsStatInfoByPort mp targetPort refID device =
     nfetch zeroFilesystem (at_port (fsMetrics mp) targetPort) refID device"

definition blkioKey :: "string \<Rightarrow> string \<Rightarrow> string" where
  "blkioKey device operation = device @ ''-'' @ operation"

definition getBlkioStatInfoByPort ::
  "metrics_parser \<Rightarrow> string \<Rightarrow> ContainerInfo \<Rightarrow> string \<Rightarrow> string \<Rightarrow> string \<Rightarrow> string \<Rightarrow> BlkioMetrics" where
  "getBlkioStatInfoByPort mp targetPort refID device major minor operation =
     nfetch \<lparr>bkDevice = device, bkMajor = major, bkMinor = minor, bkOperation = operation, bkValue = Finite 0\<rparr>
       (at_port (blkioMetrics mp) targetPort) refID (blkioKey device operation)"

definition newGpu :: "string \<Rightarrow> GpuMetrics" where
  "newGpu minorNumber = \<lparr>MinorNumber = minorNumber, GpuDutyCycle = Finite 0, GpuMemUsedMib = Finite 0,
     GpuMemoryTotalMib = Finite 0, GpuDeviceNum = Finite 0\<rparr>"

definition getEksOriginGpuStatInfoByPort :: "metrics_parser \<Rightarrow> string \<Rightarrow> ContainerInfo \<Rightarrow> string \<Rightarrow> GpuMetrics" where
  "getEksOriginGpuStatInfoByPort mp targetPort refID minorNumber =
     nfetch (newGpu minorNumber) (at_port (gpuMetrics mp) targetPort) refID minorNumber"

text \<open>
  Older entry points, with a short name for each metric, that no caller is left of, and the getters, whose result shares the objects with
  the parser.
\<close>

definition networkTypes :: "(string \<times> (float64 \<Rightarrow> NetworkMetrics \<Rightarrow> NetworkMetrics)) list" where
  "networkTypes =
    [(''rx_bytes'', \<lambda>val stat. stat\<lparr>RxBytes := val\<rparr>),
     (''rx_packets'', \<lambda>val stat. stat\<lparr>RxPackets := val\<rparr>),
     (''rx_errors'', \<lambda>val stat. stat\<lparr>RxErrors := val\<rparr>),
     (''rx_dropped'', \<lambda>val stat. stat\<lparr>RxDropped := val\<rparr>),
     (''tx_bytes'', \<lambda>val stat. stat\<lparr>TxBytes := val\<rparr>),
     (''tx_packets'', \<lambda>val stat. stat\<lparr>TxPackets := val\<rparr>),
     (''tx_errors'', \<lambda>val stat. stat\<lparr>TxErrors := val\<rparr>),
     (''tx_dropped'', \<lambda>val stat. stat\<lparr>TxDropped := val\<rparr>),
     (''tcp_usage'', \<lambda>val stat. stat\<lparr>TcpUsage := val\<rparr>),
     (''tcp6_usage'', \<lambda>val stat. stat\<lparr>Tcp6Usage := val\<rparr>),
     (''udp_usage'', \<lambda>val stat. stat\<lparr>UdpUsage := val\<rparr>),
     (''udp6_usage'', \<lambda>val stat. stat\<lparr>Udp6Usage := val\<rparr>)]"

definition filesystemTypes :: "(string \<times> (float64 \<Rightarrow> FilesystemMetrics \<Rightarrow> FilesystemMetrics)) list" where
  "filesystemTypes =
    [(''reads_total'', \<lambda>val stat. stat\<lparr>ReadsTotal := val\<rparr>),
     (''writes_total'', \<lambda>val stat. stat\<lparr>WritesTotal := val\<rparr>),
     (''reads_bytes_total'', \<lambda>val stat. stat\<lparr>ReadsBytesTotal := val\<rparr>),
     (''writes_bytes_total'', \<lambda>val stat. stat\<lparr>WritesBytesTotal := val\<rparr>),
     (''usage_bytes'', \<lambda>val stat. stat\<lparr>UsageBytes := val\<rparr>),
     (''limit_bytes'', \<lambda>val stat. stat\<lparr>LimitBytes := val\<rparr>),
     (''inodes_free'', \<lambda>val stat. stat\<lparr>InodesFree := val\<rparr>),
     (''inodes_total'', \<lambda>val stat. stat\<lparr>InodesTotal := val\<rparr>),
     (''io_current'', \<lambda>val stat. stat\<lparr>IoCurrent := val\<rparr>),
     (''io_time_seconds_total'', \<lambda>val stat. stat\<lparr>IoTimeSecondsTotal := val\<rparr>),
     (''io_time_weighted_seconds_total'', \<lambda>val stat. stat\<lparr>IoTimeWeightedSecondsTotal := val\<rparr>),
     (''read_seconds_total'', \<lambda>val stat. stat\<lparr>ReadSecondsTotal := val\<rparr>),
     (''reads_merged_total'', \<lambda>val stat. stat\<lparr>ReadsMergedTotal := val\<rparr>),
     (''sector_reads_total'', \<lambda>val stat. stat\<lparr>SectorReadsTotal := val\<rparr>),
     (''sector_writes_total'', \<lambda>val stat. stat\<lparr>SectorWritesTotal := val\<rparr>),
     (''write_seconds_total'', \<lambda>val stat. stat\<lparr>WriteSecondsTotal := val\<rparr>),
     (''writes_merged_total'', \<lambda>val stat. stat\<lparr>WritesMergedTotal := val\<rparr>)]"

definition processNetworkMetric ::
  "metrics_parser \<Rightarrow> string \<Rightarrow> ContainerInfo \<Rightarrow> string \<Rightarrow> string \<Rightarrow> float64 \<Rightarrow> metrics_parser" where
  "processNetworkMetric mp port containerInfo interfaceName metricType val =
     mp\<lparr>networkMetrics := (networkMetrics mp)(port \<mapsto> nstore (at_port (networkMetrics mp) port) containerInfo interfaceName
       (switch networkTypes metricType val (getOriginNetworkStatInfoByPort mp port containerInfo interfaceName)))\<rparr>"

definition getOrCreateFilesystemMetrics :: "metrics_parser \<Rightarrow> string \<Rightarrow> ContainerInfo \<Rightarrow> string \<Rightarrow> FilesystemMetrics" where
  "getOrCreateFilesystemMetrics mp port containerInfo device = nfetch zeroFilesystem (at_port (fsMetrics mp) port) containerInfo device"

definition setFilesystemMetricValue :: "FilesystemMetrics \<Rightarrow> string \<Rightarrow> float64 \<Rightarrow> FilesystemMetrics" where
  "setFilesystemMetricValue stat metricType val = switch filesystemTypes metricType val stat"

definition processFilesystemMetric ::
  "metrics_parser \<Rightarrow> string \<Rightarrow> ContainerInfo \<Rightarrow> string \<Rightarrow> string \<Rightarrow> float64 \<Rightarrow> metrics_parser" where
  "processFilesystemMetric mp port containerInfo device metricType val =
     mp\<lparr>fsMetrics := (fsMetrics mp)(port \<mapsto> nstore (at_port (fsMetrics mp) port) containerInfo device
       (setFilesystemMetricValue (getOrCreateFilesystemMetrics mp port containerInfo device) metricType val))\<rparr>"

definition GetContainerMetrics :: "metrics_parser \<Rightarrow> string \<Rightarrow> (ContainerInfo \<times> ContainerMetrics) list" where
  "GetContainerMetrics mp port = (case containerMetrics mp port of None \<Rightarrow> [] | Some data \<Rightarrow> data)"

definition GetNetworkMetrics :: "metrics_parser \<Rightarrow> string \<Rightarrow> NetworkMetrics series" where
  "GetNetworkMetrics mp port = (case networkMetrics mp port of None \<Rightarrow> [] | Some data \<Rightarrow> data)"

definition GetFilesystemMetrics :: "metrics_parser \<Rightarrow> string \<Rightarrow> FilesystemMetrics series" where
  "GetFilesystemMetrics mp port = (case fsMetrics mp port of None \<Rightarrow> [] | Some data \<Rightarrow> data)"

section \<open>Rows\<close>

record metric_row =
  rowMetric :: string
  rowTags :: "(string \<times> string) list"
  rowValue :: float64
  rowTimestamp :: int

definition refOf :: "metricLabels \<Rightarrow> ContainerInfo" where
  "refOf labels = \<lparr>ciId = mlContainerID labels, ciName = mlContainerName labels, ciPodName = mlPodName labels,
     ciNameSpace = mlNamespace labels\<rparr>"

definition hasBlkio :: "metricLabels \<Rightarrow> bool" where
  "hasBlkio labels \<longleftrightarrow> mlMajor labels \<noteq> '''' \<and> mlMinor labels \<noteq> '''' \<and> mlOperation labels \<noteq> ''''"

text \<open>The objects are fetched or created, the metric is dispatched, and the pointers write through.\<close>

definition processRowMetric ::
  "(int \<Rightarrow> float64) \<Rightarrow> metrics_parser \<Rightarrow> string \<Rightarrow> string \<Rightarrow> float64 \<Rightarrow> int \<Rightarrow> metricLabels \<Rightarrow> metrics_parser" where
  "processRowMetric unixSeconds mp targetPort metricName metricValue timestamp labels =
    (let refID = refOf labels;
         p = \<lparr>pStatInfo = getOrCreateContainerMetrics mp targetPort refID,
           pNetworkStat = (if mlInterfaceName labels \<noteq> ''''
             then Some (getOriginNetworkStatInfoByPort mp targetPort refID (mlInterfaceName labels)) else None),
           pFsStat = getOriginFsStatInfoByPort mp targetPort refID (mlDevice labels),
           pBlkioStat = (if hasBlkio labels
             then Some (getBlkioStatInfoByPort mp targetPort refID (mlDevice labels) (mlMajor labels) (mlMinor labels) (mlOperation labels))
             else None),
           pGpuStat = (if mlMinorNumber labels \<noteq> ''''
             then Some (getEksOriginGpuStatInfoByPort mp targetPort refID (mlMinorNumber labels)) else None)\<rparr>;
         p' = processMetricForPort unixSeconds metricName metricValue timestamp p
     in \<lparr>containerMetrics = (containerMetrics mp)(targetPort \<mapsto>
           AList.update refID (pStatInfo p') (at_port (containerMetrics mp) targetPort)),
         networkMetrics = (case pNetworkStat p' of None \<Rightarrow> networkMetrics mp
           | Some s \<Rightarrow> (networkMetrics mp)(targetPort \<mapsto>
               nstore (at_port (networkMetrics mp) targetPort) refID (mlInterfaceName labels) s)),
         fsMetrics = (fsMetrics mp)(targetPort \<mapsto>
           nstore (at_port (fsMetrics mp) targetPort) refID (mlDevice labels) (pFsStat p')),
         blkioMetrics = (case pBlkioStat p' of None \<Rightarrow> blkioMetrics mp
           | Some s \<Rightarrow> (blkioMetrics mp)(targetPort \<mapsto>
               nstore (at_port (blkioMetrics mp) targetPort) refID (blkioKey (mlDevice labels) (mlOperation labels)) s)),
         gpuMetrics = (case pGpuStat p' of None \<Rightarrow> gpuMetrics mp
           | Some s \<Rightarrow> (gpuMetrics mp)(targetPort \<mapsto>
               nstore (at_port (gpuMetrics mp) targetPort) refID (mlMinorNumber labels) s))\<rparr>)"

definition rowLabels :: "metric_row \<Rightarrow> metricLabels" where
  "rowLabels row = parseMetricLabels (rowMetric row) (rowTags row)"

definition identified :: "metricLabels \<Rightarrow> bool" where
  "identified labels \<longleftrightarrow> mlContainerName labels \<noteq> '''' \<and> mlPodName labels \<noteq> '''' \<and> mlNamespace labels \<noteq> ''''"

definition storeRow :: "(int \<Rightarrow> float64) \<Rightarrow> string \<Rightarrow> metrics_parser \<Rightarrow> metric_row \<Rightarrow> metrics_parser" where
  "storeRow unixSeconds targetPort mp row =
    (if identified (rowLabels row)
     then processRowMetric unixSeconds mp targetPort (rowMetric row) (rowValue row) (rowTimestamp row) (rowLabels row)
     else mp)"

text \<open>The batches the stream parser hands to its callback, which a mutex runs one after the other, and its error.\<close>

definition ParseAndStoreMetrics ::
  "(int \<Rightarrow> float64) \<Rightarrow> ('b \<Rightarrow> metric_row list list \<times> string option) \<Rightarrow> metrics_parser \<Rightarrow> 'b \<Rightarrow> string \<Rightarrow>
   metrics_parser \<times> string option" where
  "ParseAndStoreMetrics unixSeconds streamParse mp responseBody targetPort =
    (let (batches, err) = streamParse responseBody;
         mp = foldl (foldl (storeRow unixSeconds targetPort)) (initializePortMetrics mp targetPort) batches
     in (mp, map_option (\<lambda>e. ''parse cadvisor metrics stream failed for port '' @ targetPort @ '': '' @ e) err))"

section \<open>Writing\<close>

definition writeMetric :: "string \<Rightarrow> string \<Rightarrow> float64 \<Rightarrow> string list" where
  "writeMetric metricName labels val =
    (if val \<noteq> Finite 0 then [metricName @ labels @ '' '' @ format6f val @ [CHR 0x0A]] else [])"

definition labelText :: "string \<Rightarrow> string \<Rightarrow> string" where
  "labelText key val = key @ ''=\"'' @ val @ ''\"''"

definition podLabels :: "ContainerInfo \<Rightarrow> VirtualPodInfo \<Rightarrow> string" where
  "podLabels c v = labelText ''container'' (ciName c) @ '','' @ labelText ''pod'' (VirtualPodName v) @ '','' @
     labelText ''namespace'' (VirtualPodNamespace v) @ '','' @ labelText ''node'' (VirtualNodeName v)"

definition bracedWith :: "ContainerInfo \<Rightarrow> VirtualPodInfo \<Rightarrow> string \<Rightarrow> string" where
  "bracedWith c v extra = ''{'' @ podLabels c v @ extra @ ''}''"

definition writeAll :: "(string \<times> ('s \<Rightarrow> float64)) list \<Rightarrow> string \<Rightarrow> 's \<Rightarrow> string list" where
  "writeAll table labels stat = concat (map (\<lambda>(metricName, field). writeMetric metricName labels (field stat)) table)"

definition forMapped ::
  "pod_mapper \<Rightarrow> string \<Rightarrow> (ContainerInfo \<times> 'd) list \<Rightarrow> (ContainerInfo \<Rightarrow> VirtualPodInfo \<Rightarrow> 'd \<Rightarrow> string list) \<Rightarrow> string list" where
  "forMapped M targetNamespace data f = concat (map (\<lambda>(container, d).
     if targetNamespace \<noteq> '''' \<and> ciNameSpace container \<noteq> targetNamespace then []
     else (case GetVirtualPodInfo M (ciPodName container) of
         None \<Rightarrow> []
       | Some virtualInfo \<Rightarrow> f container virtualInfo d)) data)"

definition cpuTable :: "(string \<times> (ContainerMetrics \<Rightarrow> float64)) list" where
  "cpuTable =
    [(''container_cpu_usage_seconds_total'', CPUUsageSecondsTotal),
     (''container_cpu_cfs_periods_total'', CPUCfsPeriodsTotal),
     (''container_cpu_cfs_throttled_periods_total'', CPUCfsThrottledPeriodsTotal),
     (''container_cpu_cfs_throttled_seconds_total'', CPUCfsThrottledSecondsTotal),
     (''container_cpu_load_average_10s'', CPULoadAverage10s),
     (''container_cpu_schedstat_run_periods_total'', CPUSchedstatRunPeriodsTotal),
     (''container_cpu_schedstat_runqueue_seconds_total'', CPUSchedstatRunqueueSecondsTotal),
     (''container_cpu_schedstat_run_seconds_total'', CPUSchedstatRunSecondsTotal),
     (''container_cpu_system_seconds_total'', CPUSystemSecondsTotal),
     (''container_cpu_user_seconds_total'', CPUUserSecondsTotal)]"

definition memoryTable :: "(string \<times> (ContainerMetrics \<Rightarrow> float64)) list" where
  "memoryTable =
    [(''container_memory_usage_bytes'', MemoryUsageBytes),
     (''container_memory_cache'', MemoryCache),
     (''container_memory_working_set_bytes'', MemoryWorkingSetBytes),
     (''container_memory_failcnt'', MemoryFailcnt),
     (''container_memory_failures_total'', MemoryFailuresTotal),
     (''container_memory_mapped_file'', MemoryMappedFile),
     (''container_memory_max_usage_bytes'', MemoryMaxUsageBytes),
     (''container_memory_migrate'', MemoryMigrate),
     (''container_memory_numa_pages'', MemoryNumaPages),
     (''container_memory_rss'', MemoryRss),
     (''container_memory_swap'', MemorySwap),
     (''container_referenced_bytes'', ReferencedBytes)]"

definition processTable :: "(string \<times> (ContainerMetrics \<Rightarrow> float64)) list" where
  "processTable =
    [(''container_file_descriptors'', FileDescriptors),
     (''container_processes'', Processes),
     (''container_sockets'', Sockets),
     (''container_threads'', Threads),
     (''container_threads_max'', ThreadsMax)]"

definition specTable :: "(string \<times> (ContainerMetrics \<Rightarrow> float64)) list" where
  "specTable =
    [(''container_spec_cpu_period'', SpecCpuPeriod),
     (''container_spec_cpu_quota'', SpecCpuQuota),
     (''container_spec_cpu_shares'', SpecCpuShares),
     (''container_spec_memory_limit_bytes'', SpecMemoryLimitBytes),
     (''container_spec_memory_reservation_limit_bytes'', SpecMemoryReservationLimitBytes),
     (''container_spec_memory_swap_limit_bytes'', SpecMemorySwapLimitBytes)]"

definition otherTable :: "(string \<times> (ContainerMetrics \<Rightarrow> float64)) list" where
  "otherTable =
    [(''container_last_seen'', LastSeen),
     (''container_oom_events_total'', OomEventsTotal),
     (''container_start_time_seconds'', StartTimeSeconds),
     (''container_tasks_state'', TasksState),
     (''container_ulimits_soft'', UlimitsSoft)]"

definition containerTable :: "(string \<times> (ContainerMetrics \<Rightarrow> float64)) list" where
  "containerTable = cpuTable @ memoryTable @ processTable @ specTable @ otherTable"

definition networkTable :: "(string \<times> (NetworkMetrics \<Rightarrow> float64)) list" where
  "networkTable =
    [(''container_network_receive_bytes_total'', RxBytes),
     (''container_network_receive_packets_total'', RxPackets),
     (''container_network_receive_errors_total'', RxErrors),
     (''container_network_receive_packets_dropped_total'', RxDropped),
     (''container_network_transmit_bytes_total'', TxBytes),
     (''container_network_transmit_packets_total'', TxPackets),
     (''container_network_transmit_errors_total'', TxErrors),
     (''container_network_transmit_packets_dropped_total'', TxDropped),
     (''container_network_tcp_usage_total'', TcpUsage),
     (''container_network_tcp6_usage_total'', Tcp6Usage),
     (''container_network_udp_usage_total'', UdpUsage),
     (''container_network_udp6_usage_total'', Udp6Usage)]"

definition filesystemTable :: "(string \<times> (FilesystemMetrics \<Rightarrow> float64)) list" where
  "filesystemTable =
    [(''container_fs_reads_total'', ReadsTotal),
     (''container_fs_writes_total'', WritesTotal),
     (''container_fs_reads_bytes_total'', ReadsBytesTotal),
     (''container_fs_writes_bytes_total'', WritesBytesTotal),
     (''container_fs_usage_bytes'', UsageBytes),
     (''container_fs_limit_bytes'', LimitBytes),
     (''container_fs_inodes_free'', InodesFree),
     (''container_fs_inodes_total'', InodesTotal),
     (''container_fs_io_current'', IoCurrent),
     (''container_fs_io_time_seconds_total'', IoTimeSecondsTotal),
     (''container_fs_io_time_weighted_seconds_total'', IoTimeWeightedSecondsTotal),
     (''container_fs_read_seconds_total'', ReadSecondsTotal),
     (''container_fs_reads_merged_total'', ReadsMergedTotal),
     (''container_fs_sector_reads_total'', SectorReadsTotal),
     (''container_fs_sector_writes_total'', SectorWritesTotal),
     (''container_fs_write_seconds_total'', WriteSecondsTotal),
     (''container_fs_writes_merged_total'', WritesMergedTotal)]"

definition gpuTable :: "(string \<times> (GpuMetrics \<Rightarrow> float64)) list" where
  "gpuTable =
    [(''container_accelerator_duty_cycle'', GpuDutyCycle),
     (''container_accelerator_memory_used_bytes'', GpuMemUsedMib),
     (''container_accelerator_memory_total_bytes'', GpuMemoryTotalMib)]"

definition writeContainerMetrics ::
  "pod_mapper \<Rightarrow> (ContainerInfo \<times> ContainerMetrics) list \<Rightarrow> string \<Rightarrow> string list" where
  "writeContainerMetrics M containerData targetNamespace = forMapped M targetNamespace containerData (\<lambda>container virtualInfo stat.
     writeAll containerTable (bracedWith container virtualInfo '''') stat)"

definition writeNetworkMetrics :: "pod_mapper \<Rightarrow> NetworkMetrics series \<Rightarrow> string \<Rightarrow> string list" where
  "writeNetworkMetrics M networkData targetNamespace = forMapped M targetNamespace networkData (\<lambda>container virtualInfo interfaces.
     concat (map (\<lambda>(interfaceName, networkStat).
       writeAll networkTable (bracedWith container virtualInfo ('','' @ labelText ''interface'' interfaceName)) networkStat) interfaces))"

definition writeFilesystemMetrics :: "pod_mapper \<Rightarrow> FilesystemMetrics series \<Rightarrow> string \<Rightarrow> string list" where
  "writeFilesystemMetrics M fsData targetNamespace = forMapped M targetNamespace fsData (\<lambda>container virtualInfo devices.
     concat (map (\<lambda>(device, fsStat).
       writeAll filesystemTable (bracedWith container virtualInfo ('','' @ labelText ''device'' device)) fsStat) devices))"

definition writeBlkioMetrics :: "pod_mapper \<Rightarrow> BlkioMetrics series \<Rightarrow> string \<Rightarrow> string list" where
  "writeBlkioMetrics M blkioData targetNamespace = forMapped M targetNamespace blkioData (\<lambda>container virtualInfo devices.
     concat (map (\<lambda>(_, blkioStat). if bkValue blkioStat \<noteq> Finite 0 then
       writeMetric ''container_blkio_device_usage_total'' (bracedWith container virtualInfo
         ('','' @ labelText ''device'' (bkDevice blkioStat) @ '','' @ labelText ''operation'' (bkOperation blkioStat))) (bkValue blkioStat)
       else []) devices))"

definition writeGPUMetrics :: "pod_mapper \<Rightarrow> GpuMetrics series \<Rightarrow> string \<Rightarrow> string list" where
  "writeGPUMetrics M gpuData targetNamespace = forMapped M targetNamespace gpuData (\<lambda>container virtualInfo gpus.
     concat (map (\<lambda>(_, gpuStat).
       writeAll gpuTable (bracedWith container virtualInfo ('','' @ labelText ''gpu'' (MinorNumber gpuStat))) gpuStat) gpus))"

definition WritePrometheusMetrics :: "pod_mapper \<Rightarrow> metrics_parser \<Rightarrow> string \<Rightarrow> string \<Rightarrow> string list" where
  "WritePrometheusMetrics M mp port targetNamespace =
     writeContainerMetrics M (at_port (containerMetrics mp) port) targetNamespace @
     writeNetworkMetrics M (at_port (networkMetrics mp) port) targetNamespace @
     writeFilesystemMetrics M (at_port (fsMetrics mp) port) targetNamespace @
     writeBlkioMetrics M (at_port (blkioMetrics mp) port) targetNamespace @
     writeGPUMetrics M (at_port (gpuMetrics mp) port) targetNamespace"

section \<open>Each name has its own field\<close>

text \<open>
  The table of the writer and the cases of the reader have the same names in the same order, and the \<open>i\<close>-th field is the one
  the \<open>i\<close>-th case sets.
\<close>

definition own_fields :: "('s \<Rightarrow> float64) list \<Rightarrow> (float64 \<Rightarrow> 's \<Rightarrow> 's) list \<Rightarrow> bool" where
  "own_fields fs ps \<longleftrightarrow> (\<forall>v s. list_all (\<lambda>(i, f). list_all (\<lambda>(j, put). f (put v s) = (if i = j then v else f s))
     (enumerate 0 ps)) (enumerate 0 fs))"

definition apart :: "('s \<Rightarrow> float64) list \<Rightarrow> (float64 \<Rightarrow> 's \<Rightarrow> 's) list \<Rightarrow> bool" where
  "apart fs ps \<longleftrightarrow> (\<forall>v s. list_all (\<lambda>f. list_all (\<lambda>put. f (put v s) = f s) ps) fs)"

lemma own_fieldsD:
  assumes "own_fields fs ps" and "i < length fs" and "j < length ps"
  shows "(fs ! i) ((ps ! j) v s) = (if i = j then v else (fs ! i) s)"
proof -
  have mem: "(i, fs ! i) \<in> set (enumerate 0 fs)" "(j, ps ! j) \<in> set (enumerate 0 ps)"
    using assms(2,3) by (simp_all add: in_set_enumerate_eq)
  have "\<forall>x\<in>set (enumerate 0 fs). \<forall>y\<in>set (enumerate 0 ps). snd x (snd y v s) = (if fst x = fst y then v else snd x s)"
    using assms(1) by (simp add: own_fields_def list_all_iff case_prod_beta)
  from bspec [OF bspec [OF this mem(1)] mem(2)] show ?thesis by simp
qed

lemma switch_field:
  assumes "own_fields (map snd table) (map snd cases)" and "map fst table = map fst cases" and "distinct (map fst cases)"
    and "(n, f) \<in> set table"
  shows "f (switch cases m v s) = (if m = n then v else f s)"
proof -
  obtain i where i: "i < length table" "table ! i = (n, f)"
    using assms(4) by (auto simp: in_set_conv_nth)
  have len: "length table = length cases" using assms(2) by (metis length_map)
  show ?thesis
  proof (cases "map_of cases m")
    case None
    have "n \<in> fst ` set cases" using assms(2,4) by (metis (no_types) fst_conv image_eqI image_set)
    then have "m \<noteq> n" using None by (auto simp: map_of_eq_None_iff)
    then show ?thesis by (simp add: switch_def None)
  next
    case (Some upd)
    then obtain j where j: "j < length cases" "cases ! j = (m, upd)"
      using map_of_SomeD by (fastforce simp: in_set_conv_nth)
    have "fst (table ! i) = fst (cases ! i)" using i len assms(2) by (metis nth_map)
    then have "m = n \<longleftrightarrow> map fst cases ! j = map fst cases ! i" using i j len by simp
    also have "\<dots> \<longleftrightarrow> i = j" using assms(3) i j len by (metis i(1) j(1) length_map len nth_eq_iff_index_eq)
    finally show ?thesis
      using own_fieldsD [OF assms(1), of i j v s] i j Some len by (simp add: switch_def)
  qed
qed

lemma switch_apart: "apart (map snd table) (map snd cases) \<Longrightarrow> (n, f) \<in> set table \<Longrightarrow> f (switch cases m v s) = f s"
  by (fastforce simp: apart_def list_all_iff switch_def dest: map_of_SomeD split: option.splits)

lemma network_paired:
  "own_fields (map snd networkTable) (map snd networkSetters)" "map fst networkTable = map fst networkSetters"
  "distinct (map fst networkSetters)"
  by (simp_all add: networkTable_def networkSetters_def own_fields_def)

lemma filesystem_paired:
  "own_fields (map snd filesystemTable) (map snd filesystemSetters)" "map fst filesystemTable = map fst filesystemSetters"
  "distinct (map fst filesystemSetters)"
  by (simp_all add: filesystemTable_def filesystemSetters_def own_fields_def)

lemma gpu_paired:
  "own_fields (map snd gpuTable) (map snd gpuSetters)" "map fst gpuTable = map fst gpuSetters" "distinct (map fst gpuSetters)"
  by (simp_all add: gpuTable_def gpuSetters_def own_fields_def)

text \<open>The short names stand for the same fields, in the same order: the older entry points store what a row of the full name stores.\<close>

lemma short_names_agree: "map snd networkTypes = map snd networkSetters" "map snd filesystemTypes = map snd filesystemSetters"
  by (simp_all add: networkTypes_def networkSetters_def filesystemTypes_def filesystemSetters_def)

text \<open>The container's object: the handler of the name's group sets the field, the other three leave it alone.\<close>

lemma cpu_paired:
  "own_fields (map snd cpuTable) (map snd (cpuSetters u t))" "map fst cpuTable = map fst (cpuSetters u t)" "distinct (map fst (cpuSetters u t))"
  "apart (map snd cpuTable) (map snd memorySetters)" "apart (map snd cpuTable) (map snd specSetters)"
  "apart (map snd cpuTable) (map snd otherSetters)"
  by (simp_all add: cpuTable_def cpuSetters_def memorySetters_def specSetters_def otherSetters_def own_fields_def apart_def)

lemma memory_paired:
  "own_fields (map snd memoryTable) (map snd memorySetters)" "map fst memoryTable = map fst memorySetters" "distinct (map fst memorySetters)"
  "apart (map snd memoryTable) (map snd (cpuSetters u t))" "apart (map snd memoryTable) (map snd specSetters)"
  "apart (map snd memoryTable) (map snd otherSetters)"
  by (simp_all add: memoryTable_def cpuSetters_def memorySetters_def specSetters_def otherSetters_def own_fields_def apart_def)

lemma spec_paired:
  "own_fields (map snd specTable) (map snd specSetters)" "map fst specTable = map fst specSetters" "distinct (map fst specSetters)"
  "apart (map snd specTable) (map snd (cpuSetters u t))" "apart (map snd specTable) (map snd memorySetters)"
  "apart (map snd specTable) (map snd otherSetters)"
  by (simp_all add: specTable_def cpuSetters_def memorySetters_def specSetters_def otherSetters_def own_fields_def apart_def)

lemma other_paired:
  "own_fields (map snd (processTable @ otherTable)) (map snd otherSetters)" "map fst (processTable @ otherTable) = map fst otherSetters"
  "distinct (map fst otherSetters)"
  "apart (map snd (processTable @ otherTable)) (map snd (cpuSetters u t))" "apart (map snd (processTable @ otherTable)) (map snd memorySetters)"
  "apart (map snd (processTable @ otherTable)) (map snd specSetters)"
  by (simp_all add: processTable_def otherTable_def cpuSetters_def memorySetters_def specSetters_def otherSetters_def own_fields_def apart_def)

section \<open>What a row does to each object\<close>

definition storeContainer :: "(int \<Rightarrow> float64) \<Rightarrow> string \<Rightarrow> float64 \<Rightarrow> int \<Rightarrow> ContainerMetrics \<Rightarrow> ContainerMetrics" where
  "storeContainer unixSeconds n v t s = pStatInfo (processMetricForPort unixSeconds n v t
     \<lparr>pStatInfo = s, pNetworkStat = None, pFsStat = zeroFilesystem, pBlkioStat = None, pGpuStat = None\<rparr>)"

definition storeNetwork :: "string \<Rightarrow> float64 \<Rightarrow> NetworkMetrics \<Rightarrow> NetworkMetrics" where
  "storeNetwork n v = (if HasPrefix n ''container_network_'' then processNetworkMetricForPort n v else (\<lambda>s. s))"

definition storeFilesystem :: "string \<Rightarrow> float64 \<Rightarrow> FilesystemMetrics \<Rightarrow> FilesystemMetrics" where
  "storeFilesystem n v = (if HasPrefix n ''container_fs_'' then processFilesystemMetricForPort n v else (\<lambda>s. s))"

definition storeGpu :: "string \<Rightarrow> float64 \<Rightarrow> GpuMetrics \<Rightarrow> GpuMetrics" where
  "storeGpu n v = (if HasPrefix n ''container_accelerator_'' then processGPUMetric n v else (\<lambda>s. s))"

lemma HasPrefix_take: "HasPrefix n p \<Longrightarrow> k \<le> length p \<Longrightarrow> take k n = take k p"
  unfolding HasPrefix_def by (metis min.absorb1 take_take)

lemma prefixes_apart:
  assumes "HasPrefix n p" and "take k p \<noteq> take k q" and "k \<le> length p" and "k \<le> length q"
  shows "\<not> HasPrefix n q"
  using HasPrefix_take [OF assms(1,3)] HasPrefix_take [of n q k] assms(2,4) by auto

lemma metric_prefixes_apart:
  "HasPrefix n ''container_network_'' \<Longrightarrow> \<not> HasPrefix n ''container_cpu_''"
  "HasPrefix n ''container_network_'' \<Longrightarrow> \<not> HasPrefix n ''container_memory_''"
  "HasPrefix n ''container_fs_'' \<Longrightarrow> \<not> HasPrefix n ''container_cpu_''"
  "HasPrefix n ''container_fs_'' \<Longrightarrow> \<not> HasPrefix n ''container_memory_''"
  "HasPrefix n ''container_fs_'' \<Longrightarrow> \<not> HasPrefix n ''container_network_''"
  "HasPrefix n ''container_accelerator_'' \<Longrightarrow> \<not> HasPrefix n ''container_cpu_''"
  "HasPrefix n ''container_accelerator_'' \<Longrightarrow> \<not> HasPrefix n ''container_memory_''"
  "HasPrefix n ''container_accelerator_'' \<Longrightarrow> \<not> HasPrefix n ''container_network_''"
  "HasPrefix n ''container_accelerator_'' \<Longrightarrow> \<not> HasPrefix n ''container_fs_''"
  "HasPrefix n ''container_accelerator_'' \<Longrightarrow> \<not> HasPrefix n ''container_spec_''"
  by (erule prefixes_apart [where k = 11]; simp)+

lemma referenced_bytes_apart:
  "HasPrefix n ''container_network_'' \<Longrightarrow> n \<noteq> ''container_referenced_bytes''"
  "HasPrefix n ''container_fs_'' \<Longrightarrow> n \<noteq> ''container_referenced_bytes''"
  "HasPrefix n ''container_accelerator_'' \<Longrightarrow> n \<noteq> ''container_referenced_bytes''"
  by (auto simp only: HasPrefix_def) simp_all

lemma map_option_same: "map_option (\<lambda>s. s) x = x"
  by (cases x) simp_all

lemma processMetricForPort_fields:
  "pStatInfo (processMetricForPort u n v t p) = storeContainer u n v t (pStatInfo p)"
  "pNetworkStat (processMetricForPort u n v t p) = map_option (storeNetwork n v) (pNetworkStat p)"
  "pFsStat (processMetricForPort u n v t p) = storeFilesystem n v (pFsStat p)"
  "pGpuStat (processMetricForPort u n v t p) = map_option (storeGpu n v) (pGpuStat p)"
proof -
  show "pStatInfo (processMetricForPort u n v t p) = storeContainer u n v t (pStatInfo p)"
    by (simp add: storeContainer_def processMetricForPort_def)
  show "pNetworkStat (processMetricForPort u n v t p) = map_option (storeNetwork n v) (pNetworkStat p)"
    by (cases "HasPrefix n ''container_network_''")
      (simp_all add: storeNetwork_def processMetricForPort_def map_option_same metric_prefixes_apart referenced_bytes_apart)
  show "pFsStat (processMetricForPort u n v t p) = storeFilesystem n v (pFsStat p)"
    by (cases "HasPrefix n ''container_fs_''")
      (simp_all add: storeFilesystem_def processMetricForPort_def metric_prefixes_apart referenced_bytes_apart)
  show "pGpuStat (processMetricForPort u n v t p) = map_option (storeGpu n v) (pGpuStat p)"
    by (cases "HasPrefix n ''container_accelerator_''")
      (simp_all add: storeGpu_def processMetricForPort_def map_option_same metric_prefixes_apart referenced_bytes_apart)
qed

lemma list_all_fst: "list_all P (map fst xs) \<Longrightarrow> (n, c) \<in> set xs \<Longrightarrow> P n"
  by (auto simp: list_all_iff)

lemma table_prefixes:
  "(n, f) \<in> set networkTable \<Longrightarrow> HasPrefix n ''container_network_''"
  "(n, g) \<in> set filesystemTable \<Longrightarrow> HasPrefix n ''container_fs_''"
  "(n, h) \<in> set gpuTable \<Longrightarrow> HasPrefix n ''container_accelerator_''"
  "(n, c) \<in> set cpuTable \<Longrightarrow> HasPrefix n ''container_cpu_''"
  "(n, c) \<in> set memoryTable \<Longrightarrow> \<not> HasPrefix n ''container_cpu_'' \<and> (HasPrefix n ''container_memory_'' \<or> n = ''container_referenced_bytes'')"
proof -
  have "list_all (\<lambda>n. HasPrefix n ''container_network_'') (map fst networkTable)"
    "list_all (\<lambda>n. HasPrefix n ''container_fs_'') (map fst filesystemTable)"
    "list_all (\<lambda>n. HasPrefix n ''container_accelerator_'') (map fst gpuTable)"
    "list_all (\<lambda>n. HasPrefix n ''container_cpu_'') (map fst cpuTable)"
    "list_all (\<lambda>n. \<not> HasPrefix n ''container_cpu_'' \<and> (HasPrefix n ''container_memory_'' \<or> n = ''container_referenced_bytes'')) (map fst memoryTable)"
    by (simp_all add: networkTable_def filesystemTable_def gpuTable_def cpuTable_def memoryTable_def HasPrefix_def)
  then show "(n, f) \<in> set networkTable \<Longrightarrow> HasPrefix n ''container_network_''"
    "(n, g) \<in> set filesystemTable \<Longrightarrow> HasPrefix n ''container_fs_''"
    "(n, h) \<in> set gpuTable \<Longrightarrow> HasPrefix n ''container_accelerator_''"
    "(n, c) \<in> set cpuTable \<Longrightarrow> HasPrefix n ''container_cpu_''"
    "(n, c) \<in> set memoryTable \<Longrightarrow> \<not> HasPrefix n ''container_cpu_'' \<and> (HasPrefix n ''container_memory_'' \<or> n = ''container_referenced_bytes'')"
    by (blast dest: list_all_fst)+
qed

definition unprefixed :: "string \<Rightarrow> bool" where
  "unprefixed n \<longleftrightarrow> \<not> HasPrefix n ''container_cpu_'' \<and> \<not> HasPrefix n ''container_memory_'' \<and> n \<noteq> ''container_referenced_bytes'' \<and>
     \<not> HasPrefix n ''container_network_'' \<and> \<not> HasPrefix n ''container_fs_''"

lemma unprefixed_tables:
  "(n, c) \<in> set specTable \<Longrightarrow> unprefixed n \<and> HasPrefix n ''container_spec_''"
  "(n, c) \<in> set (processTable @ otherTable) \<Longrightarrow> unprefixed n \<and> \<not> HasPrefix n ''container_spec_'' \<and>
     \<not> HasPrefix n ''container_accelerator_'' \<and> n \<noteq> ''container_blkio_device_usage_total''"
proof -
  have "list_all (\<lambda>n. unprefixed n \<and> HasPrefix n ''container_spec_'') (map fst specTable)"
    "list_all (\<lambda>n. unprefixed n \<and> \<not> HasPrefix n ''container_spec_'' \<and> \<not> HasPrefix n ''container_accelerator_'' \<and>
       n \<noteq> ''container_blkio_device_usage_total'') (map fst (processTable @ otherTable))"
    by (simp_all add: specTable_def processTable_def otherTable_def unprefixed_def HasPrefix_def)
  then show "(n, c) \<in> set specTable \<Longrightarrow> unprefixed n \<and> HasPrefix n ''container_spec_''"
    "(n, c) \<in> set (processTable @ otherTable) \<Longrightarrow> unprefixed n \<and> \<not> HasPrefix n ''container_spec_'' \<and>
     \<not> HasPrefix n ''container_accelerator_'' \<and> n \<noteq> ''container_blkio_device_usage_total''"
    by (blast dest: list_all_fst)+
qed

lemma network_fields:
  assumes "(n, f) \<in> set networkTable"
  shows "f (storeNetwork m v s) = (if m = n then v else f s)"
  using switch_field [OF network_paired assms, of m v s] table_prefixes(1) [OF assms]
  by (cases "m = n") (simp_all add: storeNetwork_def processNetworkMetricForPort_def)

lemma filesystem_fields:
  assumes "(n, f) \<in> set filesystemTable"
  shows "f (storeFilesystem m v s) = (if m = n then v else f s)"
  using switch_field [OF filesystem_paired assms, of m v s] table_prefixes(2) [OF assms]
  by (cases "m = n") (simp_all add: storeFilesystem_def processFilesystemMetricForPort_def)

lemma gpu_fields:
  assumes "(n, f) \<in> set gpuTable"
  shows "f (storeGpu m v s) = (if m = n then v else f s)"
  using switch_field [OF gpu_paired assms, of m v s] table_prefixes(3) [OF assms]
  by (cases "m = n") (simp_all add: storeGpu_def processGPUMetric_def)

lemma container_fields:
  assumes "(n, f) \<in> set containerTable"
  shows "f (storeContainer u m v t s) = (if m = n then v else f s)"
proof -
  note handlers = storeContainer_def processMetricForPort_def processCPUMetric_def processMemoryMetric_def processSpecMetric_def
    processOtherMetric_def
  have "(n, f) \<in> set cpuTable \<or> (n, f) \<in> set memoryTable \<or> (n, f) \<in> set specTable \<or> (n, f) \<in> set (processTable @ otherTable)"
    using assms by (auto simp only: containerTable_def set_append Un_iff)
  then show ?thesis
  proof (elim disjE)
    assume F: "(n, f) \<in> set cpuTable"
    show ?thesis
      using table_prefixes(4) [OF F] switch_field [OF cpu_paired(1-3) F] switch_apart [OF cpu_paired(4) F]
        switch_apart [OF cpu_paired(5) F] switch_apart [OF cpu_paired(6) F]
      by (cases "m = n") (simp_all add: handlers)
  next
    assume F: "(n, f) \<in> set memoryTable"
    show ?thesis
      using table_prefixes(5) [OF F] switch_field [OF memory_paired(1-3) F] switch_apart [OF memory_paired(4) F]
        switch_apart [OF memory_paired(5) F] switch_apart [OF memory_paired(6) F]
      by (cases "m = n") (simp_all add: handlers)
  next
    assume F: "(n, f) \<in> set specTable"
    show ?thesis
      using unprefixed_tables(1) [OF F] switch_field [OF spec_paired(1-3) F] switch_apart [OF spec_paired(4) F]
        switch_apart [OF spec_paired(5) F] switch_apart [OF spec_paired(6) F]
      by (cases "m = n") (simp_all add: handlers unprefixed_def)
  next
    assume F: "(n, f) \<in> set (processTable @ otherTable)"
    show ?thesis
      using unprefixed_tables(2) [OF F] switch_field [OF other_paired(1-3) F] switch_apart [OF other_paired(4) F]
        switch_apart [OF other_paired(5) F] switch_apart [OF other_paired(6) F]
      by (cases "m = n") (simp_all add: handlers unprefixed_def)
  qed
qed

end
