(* ===== verification/Metrics_Export.thy ===== *)
theory Metrics_Export
  imports Metrics_Parser
begin

text \<open>
  What comes out of the metrics parser for what went in. A \<^emph>\<open>series\<close> is one kind of objects in the parser, with the
  fields that are written and the handler that sets them; the locale \<open>exported_series\<close> states what a kind
  promises and proves once that its lines are exactly the last values of the rows. It is interpreted for the objects of
  containers, network interfaces, file systems and GPUs. Containers have no sub-objects and are treated as having one, with an empty name.
\<close>

section \<open>Rows of one object\<close>

definition belongs :: "(metricLabels \<Rightarrow> string option) \<Rightarrow> ContainerInfo \<Rightarrow> string \<Rightarrow> metric_row \<Rightarrow> bool" where
  "belongs key c k row \<longleftrightarrow> identified (rowLabels row) \<and> refOf (rowLabels row) = c \<and> key (rowLabels row) = Some k"

definition last_value :: "string \<Rightarrow> metric_row list \<Rightarrow> float64" where
  "last_value n rows = (case rev (filter (\<lambda>r. rowMetric r = n) rows) of [] \<Rightarrow> Finite 0 | r # _ \<Rightarrow> rowValue r)"

lemma last_value_simps [simp]:
  "last_value n [] = Finite 0"
  "last_value n [r] = (if rowMetric r = n then rowValue r else Finite 0)"
  "last_value n (rows @ [r]) = (if rowMetric r = n then rowValue r else last_value n rows)"
  by (simp_all add: last_value_def)

definition addRow ::
  "(metricLabels \<Rightarrow> string option) \<Rightarrow> (metricLabels \<Rightarrow> 's) \<Rightarrow> (metric_row \<Rightarrow> 's \<Rightarrow> 's) \<Rightarrow> 's series \<Rightarrow> metric_row \<Rightarrow> 's series" where
  "addRow key fresh store m r = (case key (rowLabels r) of
     None \<Rightarrow> m
   | Some k \<Rightarrow> (if identified (rowLabels r)
       then nstore m (refOf (rowLabels r)) k (store r (nfetch (fresh (rowLabels r)) m (refOf (rowLabels r)) k)) else m))"

definition metric_line :: "string \<Rightarrow> string \<Rightarrow> float64 \<Rightarrow> string" where
  "metric_line n labels x = n @ labels @ '' '' @ format6f x @ [CHR 0x0A]"

lemma writeMetric_line: "writeMetric n labels x = (if x \<noteq> Finite 0 then [metric_line n labels x] else [])"
  by (simp add: writeMetric_def metric_line_def)

definition writeSeries ::
  "(string \<times> ('s \<Rightarrow> float64)) list \<Rightarrow> (string \<Rightarrow> 's \<Rightarrow> string) \<Rightarrow> pod_mapper \<Rightarrow> 's series \<Rightarrow> string \<Rightarrow> string list" where
  "writeSeries table suffix M data ns = forMapped M ns data (\<lambda>c v ds.
     concat (map (\<lambda>(k, s). writeAll table (bracedWith c v (suffix k s)) s) ds))"

text \<open>
  The lines to expect: for every container of the wanted namespace whose pod is mapped, every sub-object and every name of the
  table, the last value of the rows, unless it is zero. A sub-object carries the labels of its first row.
\<close>

definition exported ::
  "string list \<Rightarrow> (metricLabels \<Rightarrow> string option) \<Rightarrow> (string \<Rightarrow> metricLabels \<Rightarrow> string) \<Rightarrow> pod_mapper \<Rightarrow> string \<Rightarrow> metric_row list \<Rightarrow> string set" where
  "exported names key label M ns rows = {line. \<exists>n c v k rs.
     rs = filter (belongs key c k) rows \<and> line = metric_line n (bracedWith c v (label k (rowLabels (hd rs)))) (last_value n rs) \<and>
     (ns = '''' \<or> ciNameSpace c = ns) \<and> GetVirtualPodInfo M (ciPodName c) = Some v \<and>
     n \<in> set names \<and> last_value n rs \<noteq> Finite 0}"

lemma in_concat_pairs: "x \<in> set (concat (map (\<lambda>(a, b). g a b) xs)) \<longleftrightarrow> (\<exists>a b. (a, b) \<in> set xs \<and> x \<in> set (g a b))"
  by force

lemma in_forMapped:
  "line \<in> set (forMapped M ns data f) \<longleftrightarrow> (\<exists>c d v. (c, d) \<in> set data \<and> (ns = '''' \<or> ciNameSpace c = ns) \<and>
     GetVirtualPodInfo M (ciPodName c) = Some v \<and> line \<in> set (f c v d))"
proof -
  have "line \<in> set (if ns \<noteq> '''' \<and> ciNameSpace c \<noteq> ns then [] else (case GetVirtualPodInfo M (ciPodName c) of None \<Rightarrow> []
      | Some v \<Rightarrow> f c v d)) \<longleftrightarrow> (ns = '''' \<or> ciNameSpace c = ns) \<and> (\<exists>v. GetVirtualPodInfo M (ciPodName c) = Some v \<and> line \<in> set (f c v d))"
    for c d by (cases "GetVirtualPodInfo M (ciPodName c)") simp_all
  then show ?thesis
    unfolding forMapped_def in_concat_pairs by blast
qed

lemma in_writeAll:
  "line \<in> set (writeAll table labels s) \<longleftrightarrow> (\<exists>n f. (n, f) \<in> set table \<and> f s \<noteq> Finite 0 \<and> line = metric_line n labels (f s))"
  by (fastforce simp: writeAll_def writeMetric_line split: if_splits)

lemma in_writeSeries:
  "line \<in> set (writeSeries table suffix M data ns) \<longleftrightarrow> (\<exists>c d v k s n f. (c, d) \<in> set data \<and> (k, s) \<in> set d \<and> (n, f) \<in> set table \<and>
     (ns = '''' \<or> ciNameSpace c = ns) \<and> GetVirtualPodInfo M (ciPodName c) = Some v \<and> f s \<noteq> Finite 0 \<and>
     line = metric_line n (bracedWith c v (suffix k s)) (f s))"
  unfolding writeSeries_def in_forMapped in_concat_pairs in_writeAll by blast

section \<open>Nested association lists\<close>

definition nlook :: "'v series \<Rightarrow> ContainerInfo \<Rightarrow> string \<Rightarrow> 'v option" where
  "nlook m c k = (case map_of m c of None \<Rightarrow> None | Some d \<Rightarrow> map_of d k)"

definition tidy :: "'v series \<Rightarrow> bool" where
  "tidy m \<longleftrightarrow> distinct (map fst m) \<and> (\<forall>(c, d)\<in>set m. distinct (map fst d))"

lemma nfetch_nlook: "nfetch d m c k = (case nlook m c k of None \<Rightarrow> d | Some v \<Rightarrow> v)"
  by (auto simp: nfetch_def nlook_def fetch_def split: option.splits)

lemma nlook_nstore: "nlook (nstore m c k v) c' k' = (if c' = c \<and> k' = k then Some v else nlook m c' k')"
  by (auto simp: nlook_def nstore_def fetch_def update_conv' split: option.splits)

lemma tidy_nstore: "tidy m \<Longrightarrow> tidy (nstore m c k v)"
proof -
  assume m: "tidy m"
  have "distinct (map fst (fetch [] m c))"
    using m by (auto simp: tidy_def fetch_def dest: map_of_SomeD split: option.splits)
  then have "distinct (map fst (AList.update k v (fetch [] m c)))" by (rule distinct_update)
  moreover have "set (AList.update c d m) \<subseteq> insert (c, d) (set m)" for d
    by (induction m) auto
  ultimately show ?thesis
    using m by (fastforce simp: tidy_def nstore_def intro: distinct_update)
qed

lemma tidy_look: "tidy m \<Longrightarrow> nlook m c k = Some s \<longleftrightarrow> (\<exists>d. (c, d) \<in> set m \<and> (k, s) \<in> set d)"
  by (fastforce simp: tidy_def nlook_def split: option.splits dest: map_of_SomeD map_of_is_SomeI simp: map_of_eq_None_iff)

section \<open>One kind of objects\<close>

locale exported_series =
  fixes key :: "metricLabels \<Rightarrow> string option" and fresh :: "metricLabels \<Rightarrow> 's" and store :: "metric_row \<Rightarrow> 's \<Rightarrow> 's"
    and table :: "(string \<times> ('s \<Rightarrow> float64)) list" and suffix :: "string \<Rightarrow> 's \<Rightarrow> string"
  assumes stored: "(n, f) \<in> set table \<Longrightarrow> f (store r s) = (if rowMetric r = n then rowValue r else f s)"
    and fresh_zero: "(n, f) \<in> set table \<Longrightarrow> f (fresh l) = Finite 0"
    and suffix_stored: "suffix k (store r s) = suffix k s"
begin

definition contents :: "metric_row list \<Rightarrow> 's series" where
  "contents rows = foldl (addRow key fresh store) [] rows"

definition object :: "metric_row list \<Rightarrow> 's" where
  "object rows = foldl (\<lambda>s r. store r s) (fresh (rowLabels (hd rows))) rows"

lemma object_snoc: "object (rows @ [r]) = store r (if rows = [] then fresh (rowLabels r) else object rows)"
  by (auto simp: object_def)

lemma object_one: "object [r] = store r (fresh (rowLabels r))"
  by (simp add: object_def)

lemma object_field: "(n, f) \<in> set table \<Longrightarrow> f (object rows) = last_value n rows"
proof (induction rows rule: rev_induct)
  case Nil
  then show ?case by (simp add: object_def fresh_zero)
next
  case (snoc r rows)
  then show ?case by (cases "rows = []") (simp_all add: object_snoc object_one stored fresh_zero)
qed

lemma object_suffix: "suffix k (object rows) = suffix k (fresh (rowLabels (hd rows)))"
proof -
  have "suffix k (foldl (\<lambda>s r. store r s) s rows) = suffix k s" for s
    by (induction rows arbitrary: s) (simp_all add: suffix_stored)
  then show ?thesis by (simp add: object_def)
qed

lemma contents_look:
  "tidy (contents rows) \<and> nlook (contents rows) c k =
    (let rs = filter (belongs key c k) rows in if rs = [] then None else Some (object rs))"
proof (induction rows arbitrary: c k rule: rev_induct)
  case Nil
  then show ?case by (simp add: contents_def tidy_def nlook_def)
next
  case (snoc r rows)
  have step: "contents (rows @ [r]) = addRow key fresh store (contents rows) r" by (simp add: contents_def)
  show ?case
  proof (cases "key (rowLabels r) = None \<or> \<not> identified (rowLabels r)")
    case True
    then have "addRow key fresh store (contents rows) r = contents rows" "\<not> belongs key c k r"
      by (auto simp: addRow_def belongs_def split: option.splits)
    then show ?thesis using snoc.IH [of c k] by (simp add: step)
  next
    case False
    then obtain k' where k': "key (rowLabels r) = Some k'" "identified (rowLabels r)" by auto
    have new: "store r (nfetch (fresh (rowLabels r)) (contents rows) (refOf (rowLabels r)) k') =
        object (filter (belongs key (refOf (rowLabels r)) k') rows @ [r])"
      using snoc.IH [of "refOf (rowLabels r)" k'] by (simp add: nfetch_nlook Let_def object_snoc)
    have "belongs key c k r \<longleftrightarrow> c = refOf (rowLabels r) \<and> k = k'" using k' by (auto simp: belongs_def)
    then show ?thesis
      using snoc.IH [of c k] k' new by (auto simp: step addRow_def nlook_nstore tidy_nstore Let_def)
  qed
qed

lemma exported_exactly:
  "set (writeSeries table suffix M (contents rows) ns) = exported (map fst table) key (\<lambda>k l. suffix k (fresh l)) M ns rows"
proof (intro set_eqI iffI)
  fix line
  assume "line \<in> set (writeSeries table suffix M (contents rows) ns)"
  then obtain c d v k s n f where at: "(c, d) \<in> set (contents rows)" "(k, s) \<in> set d" "(n, f) \<in> set table"
    and ns: "ns = '''' \<or> ciNameSpace c = ns" and v: "GetVirtualPodInfo M (ciPodName c) = Some v"
    and line: "f s \<noteq> Finite 0" "line = metric_line n (bracedWith c v (suffix k s)) (f s)"
    unfolding in_writeSeries by blast
  have "nlook (contents rows) c k = Some s"
    using at contents_look by (subst tidy_look) auto
  then have s: "s = object (filter (belongs key c k) rows)"
    using contents_look [of rows c k] by (auto simp: Let_def split: if_splits)
  have "n \<in> set (map fst table)" using at(3) by force
  then show "line \<in> exported (map fst table) key (\<lambda>k l. suffix k (fresh l)) M ns rows"
    unfolding exported_def mem_Collect_eq
    using ns v line object_field [OF at(3), of "filter (belongs key c k) rows"]
      object_suffix [of k "filter (belongs key c k) rows"] unfolding s by metis
next
  fix line
  assume "line \<in> exported (map fst table) key (\<lambda>k l. suffix k (fresh l)) M ns rows"
  then obtain n c v k where ns: "ns = '''' \<or> ciNameSpace c = ns" and v: "GetVirtualPodInfo M (ciPodName c) = Some v"
    and n: "n \<in> set (map fst table)" and x: "last_value n (filter (belongs key c k) rows) \<noteq> Finite 0"
    and line: "line = metric_line n (bracedWith c v (suffix k (fresh (rowLabels (hd (filter (belongs key c k) rows)))))) (last_value n (filter (belongs key c k) rows))"
    unfolding exported_def by blast
  from n obtain f where f: "(n, f) \<in> set table" by auto
  have "filter (belongs key c k) rows \<noteq> []" using x by auto
  then have "nlook (contents rows) c k = Some (object (filter (belongs key c k) rows))"
    using contents_look [of rows c k] by (simp add: Let_def)
  then obtain d where d: "(c, d) \<in> set (contents rows)" "(k, object (filter (belongs key c k) rows)) \<in> set d"
    using contents_look by (subst (asm) tidy_look) auto
  show "line \<in> set (writeSeries table suffix M (contents rows) ns)"
    unfolding in_writeSeries using ns v x f d line object_field [OF f, of "filter (belongs key c k) rows"]
      object_suffix [of k "filter (belongs key c k) rows"] by metis
qed

end

section \<open>The five kinds\<close>

definition containerKey :: "metricLabels \<Rightarrow> string option" where
  "containerKey labels = Some ''''"

definition interfaceKey :: "metricLabels \<Rightarrow> string option" where
  "interfaceKey labels = (if mlInterfaceName labels \<noteq> '''' then Some (mlInterfaceName labels) else None)"

definition deviceKey :: "metricLabels \<Rightarrow> string option" where
  "deviceKey labels = Some (mlDevice labels)"

definition blkioRowKey :: "metricLabels \<Rightarrow> string option" where
  "blkioRowKey labels = (if hasBlkio labels then Some (blkioKey (mlDevice labels) (mlOperation labels)) else None)"

definition gpuKey :: "metricLabels \<Rightarrow> string option" where
  "gpuKey labels = (if mlMinorNumber labels \<noteq> '''' then Some (mlMinorNumber labels) else None)"

definition subLabel :: "string \<Rightarrow> string \<Rightarrow> string" where
  "subLabel name val = '','' @ labelText name val"

definition containerRow :: "(int \<Rightarrow> float64) \<Rightarrow> metric_row \<Rightarrow> ContainerMetrics \<Rightarrow> ContainerMetrics" where
  "containerRow u r = storeContainer u (rowMetric r) (rowValue r) (rowTimestamp r)"

definition networkRow :: "metric_row \<Rightarrow> NetworkMetrics \<Rightarrow> NetworkMetrics" where
  "networkRow r = storeNetwork (rowMetric r) (rowValue r)"

definition filesystemRow :: "metric_row \<Rightarrow> FilesystemMetrics \<Rightarrow> FilesystemMetrics" where
  "filesystemRow r = storeFilesystem (rowMetric r) (rowValue r)"

definition gpuRow :: "metric_row \<Rightarrow> GpuMetrics \<Rightarrow> GpuMetrics" where
  "gpuRow r = storeGpu (rowMetric r) (rowValue r)"

definition storeBlkio :: "string \<Rightarrow> float64 \<Rightarrow> BlkioMetrics \<Rightarrow> BlkioMetrics" where
  "storeBlkio n v = (if n = ''container_blkio_device_usage_total'' then processBlkioMetricForPort v else (\<lambda>s. s))"

definition blkioRow :: "metric_row \<Rightarrow> BlkioMetrics \<Rightarrow> BlkioMetrics" where
  "blkioRow r = storeBlkio (rowMetric r) (rowValue r)"

definition blkioTable :: "(string \<times> (BlkioMetrics \<Rightarrow> float64)) list" where
  "blkioTable = [(''container_blkio_device_usage_total'', bkValue)]"

definition newBlkio :: "metricLabels \<Rightarrow> BlkioMetrics" where
  "newBlkio l = \<lparr>bkDevice = mlDevice l, bkMajor = mlMajor l, bkMinor = mlMinor l, bkOperation = mlOperation l, bkValue = Finite 0\<rparr>"

lemma processMetricForPort_blkio:
  "pBlkioStat (processMetricForPort u n v t p) = map_option (storeBlkio n v) (pBlkioStat p)"
proof (cases "n = ''container_blkio_device_usage_total''")
  case True
  then show ?thesis unfolding True by (simp add: storeBlkio_def processMetricForPort_def HasPrefix_def)
next
  case False
  then show ?thesis by (simp add: storeBlkio_def processMetricForPort_def map_option_same)
qed

lemma list_all_snd: "list_all P (map snd xs) \<Longrightarrow> (n, c) \<in> set xs \<Longrightarrow> P c"
  by (auto simp: list_all_iff)

lemma zero_fields:
  "(n, f) \<in> set containerTable \<Longrightarrow> f zeroContainer = Finite 0"
  "(n, g) \<in> set networkTable \<Longrightarrow> g zeroNetwork = Finite 0"
  "(n, h) \<in> set filesystemTable \<Longrightarrow> h zeroFilesystem = Finite 0"
  "(n, j) \<in> set gpuTable \<Longrightarrow> j (newGpu k) = Finite 0"
proof -
  have "list_all (\<lambda>f. f zeroContainer = Finite 0) (map snd containerTable)"
    by (simp add: containerTable_def cpuTable_def memoryTable_def processTable_def specTable_def otherTable_def zeroContainer_def)
  then show "(n, f) \<in> set containerTable \<Longrightarrow> f zeroContainer = Finite 0" by (rule list_all_snd)
  have "list_all (\<lambda>f. f zeroNetwork = Finite 0) (map snd networkTable)" by (simp add: networkTable_def zeroNetwork_def)
  then show "(n, g) \<in> set networkTable \<Longrightarrow> g zeroNetwork = Finite 0" by (rule list_all_snd)
  have "list_all (\<lambda>f. f zeroFilesystem = Finite 0) (map snd filesystemTable)" by (simp add: filesystemTable_def zeroFilesystem_def)
  then show "(n, h) \<in> set filesystemTable \<Longrightarrow> h zeroFilesystem = Finite 0" by (rule list_all_snd)
  have "list_all (\<lambda>f. f (newGpu k) = Finite 0) (map snd gpuTable)" by (simp add: gpuTable_def newGpu_def)
  then show "(n, j) \<in> set gpuTable \<Longrightarrow> j (newGpu k) = Finite 0" by (rule list_all_snd)
qed

lemma gpu_number: "MinorNumber (storeGpu n v s) = MinorNumber s"
proof -
  have "list_all (\<lambda>put. MinorNumber (put v s) = MinorNumber s) (map snd gpuSetters)" by (simp add: gpuSetters_def)
  then have "MinorNumber (switch gpuSetters n v s) = MinorNumber s"
    by (auto simp: switch_def dest: map_of_SomeD list_all_snd split: option.splits)
  then show ?thesis by (simp add: storeGpu_def processGPUMetric_def)
qed

interpretation containers: exported_series containerKey "\<lambda>_. zeroContainer" "containerRow u" containerTable "\<lambda>_ _. ''''" for u
  by unfold_locales (simp_all add: containerRow_def container_fields zero_fields)

interpretation interfaces: exported_series interfaceKey "\<lambda>_. zeroNetwork" networkRow networkTable "\<lambda>k _. subLabel ''interface'' k"
  by unfold_locales (simp_all add: networkRow_def network_fields zero_fields)

interpretation devices: exported_series deviceKey "\<lambda>_. zeroFilesystem" filesystemRow filesystemTable "\<lambda>k _. subLabel ''device'' k"
  by unfold_locales (simp_all add: filesystemRow_def filesystem_fields zero_fields)

interpretation operations: exported_series blkioRowKey newBlkio blkioRow blkioTable
  "\<lambda>_ s. subLabel ''device'' (bkDevice s) @ subLabel ''operation'' (bkOperation s)"
  by unfold_locales (simp_all add: blkioTable_def blkioRow_def newBlkio_def storeBlkio_def processBlkioMetricForPort_def)

interpretation gpus: exported_series gpuKey "newGpu \<circ> mlMinorNumber" gpuRow gpuTable "\<lambda>_ s. subLabel ''gpu'' (MinorNumber s)"
  by unfold_locales (simp_all add: gpuRow_def gpu_fields zero_fields gpu_number)

lemma writers_are_series:
  "writeNetworkMetrics M interfaces ns = writeSeries networkTable (\<lambda>k _. subLabel ''interface'' k) M interfaces ns"
  "writeFilesystemMetrics M devices ns = writeSeries filesystemTable (\<lambda>k _. subLabel ''device'' k) M devices ns"
  "writeGPUMetrics M gpus ns = writeSeries gpuTable (\<lambda>_ s. subLabel ''gpu'' (MinorNumber s)) M gpus ns"
  by (simp_all add: writeNetworkMetrics_def writeFilesystemMetrics_def writeGPUMetrics_def writeSeries_def subLabel_def)

lemma writeBlkio_is_series:
  "writeBlkioMetrics M ops ns =
     writeSeries blkioTable (\<lambda>_ s. subLabel ''device'' (bkDevice s) @ subLabel ''operation'' (bkOperation s)) M ops ns"
proof -
  have once: "(if bkValue s \<noteq> Finite 0 then writeMetric n l (bkValue s) else []) = writeMetric n l (bkValue s)" for s n l
    by (simp add: writeMetric_def)
  show ?thesis unfolding writeBlkioMetrics_def once by (simp add: writeSeries_def writeAll_def blkioTable_def subLabel_def)
qed

section \<open>The parser keeps these series\<close>

definition flat :: "(ContainerInfo \<times> 's) list \<Rightarrow> 's series" where
  "flat m = map (\<lambda>(c, s). (c, [('''', s)])) m"

lemma fetch_flat: "fetch [] (flat m) c = (case map_of m c of None \<Rightarrow> [] | Some s \<Rightarrow> [('''', s)])"
  by (induction m) (auto simp: flat_def fetch_def)

lemma flat_update: "flat (AList.update c s m) = nstore (flat m) c '''' s"
proof -
  have "flat (AList.update c s m) = AList.update c [('''', s)] (flat m)"
    by (induction m) (auto simp: flat_def)
  then show ?thesis by (auto simp: nstore_def fetch_flat split: option.splits)
qed

lemma nfetch_flat: "nfetch d (flat m) c '''' = fetch d m c"
  unfolding nfetch_def fetch_flat by (auto simp: fetch_def split: option.splits)

lemma at_port_upd [simp]: "at_port (m(p \<mapsto> d)) q = (if q = p then d else at_port m q)"
  by (simp add: at_port_def)

lemmas row_defs = storeRow_def processRowMetric_def addRow_def Let_def processMetricForPort_fields processMetricForPort_blkio

lemma storeRow_kinds:
  "flat (at_port (containerMetrics (storeRow u port mp r)) port) =
     addRow containerKey (\<lambda>_. zeroContainer) (containerRow u) (flat (at_port (containerMetrics mp) port)) r"
  "at_port (networkMetrics (storeRow u port mp r)) port =
     addRow interfaceKey (\<lambda>_. zeroNetwork) networkRow (at_port (networkMetrics mp) port) r"
  "at_port (fsMetrics (storeRow u port mp r)) port =
     addRow deviceKey (\<lambda>_. zeroFilesystem) filesystemRow (at_port (fsMetrics mp) port) r"
  "at_port (blkioMetrics (storeRow u port mp r)) port = addRow blkioRowKey newBlkio blkioRow (at_port (blkioMetrics mp) port) r"
  "at_port (gpuMetrics (storeRow u port mp r)) port = addRow gpuKey (newGpu \<circ> mlMinorNumber) gpuRow (at_port (gpuMetrics mp) port) r"
  by (simp_all add: row_defs containerKey_def containerRow_def flat_update nfetch_flat getOrCreateContainerMetrics_def
      interfaceKey_def networkRow_def getOriginNetworkStatInfoByPort_def deviceKey_def filesystemRow_def
      getOriginFsStatInfoByPort_def blkioRowKey_def blkioRow_def getBlkioStatInfoByPort_def newBlkio_def gpuKey_def gpuRow_def getEksOriginGpuStatInfoByPort_def)

lemma storeRow_other_port:
  assumes "q \<noteq> port"
  shows "at_port (containerMetrics (storeRow u port mp r)) q = at_port (containerMetrics mp) q"
    "at_port (networkMetrics (storeRow u port mp r)) q = at_port (networkMetrics mp) q"
    "at_port (fsMetrics (storeRow u port mp r)) q = at_port (fsMetrics mp) q"
    "at_port (blkioMetrics (storeRow u port mp r)) q = at_port (blkioMetrics mp) q"
    "at_port (gpuMetrics (storeRow u port mp r)) q = at_port (gpuMetrics mp) q"
  using assms by (simp_all add: row_defs split: option.splits)

lemma foldl_batches: "foldl (foldl f) a bs = foldl f a (concat bs)"
  by (induction bs arbitrary: a) simp_all

lemma foldl_image: "(\<And>a r. h (f a r) = g (h a) r) \<Longrightarrow> h (foldl f a rs) = foldl g (h a) rs"
  by (induction rs arbitrary: a) simp_all

lemma writeContainer_is_series:
  "writeContainerMetrics M m ns = writeSeries containerTable (\<lambda>_ _. '''') M (flat m) ns"
  unfolding writeContainerMetrics_def writeSeries_def
  by (induction m) (auto simp: forMapped_def flat_def split: option.split)

lemma empty_port: "at_port (containerMetrics (initializePortMetrics mp port)) port = []"
  "at_port (networkMetrics (initializePortMetrics mp port)) port = []" "at_port (fsMetrics (initializePortMetrics mp port)) port = []"
  "at_port (blkioMetrics (initializePortMetrics mp port)) port = []" "at_port (gpuMetrics (initializePortMetrics mp port)) port = []"
  by (simp_all add: initializePortMetrics_def)

lemma rows_contents:
  fixes mp :: metrics_parser and u port rows
  defines "mp' \<equiv> foldl (storeRow u port) (initializePortMetrics mp port) rows"
  shows "flat (at_port (containerMetrics mp') port) = containers.contents u rows"
    "at_port (networkMetrics mp') port = interfaces.contents rows" "at_port (fsMetrics mp') port = devices.contents rows"
    "at_port (blkioMetrics mp') port = operations.contents rows" "at_port (gpuMetrics mp') port = gpus.contents rows"
proof -
  let ?start = "initializePortMetrics mp port"
  have "flat (at_port (containerMetrics ?start) port) = []" by (simp add: flat_def empty_port)
  then show "flat (at_port (containerMetrics mp') port) = containers.contents u rows"
    unfolding mp'_def containers.contents_def
    using foldl_image [where h = "\<lambda>mp. flat (at_port (containerMetrics mp) port)" and f = "storeRow u port" and a = ?start,
        OF storeRow_kinds(1)] by simp
  note image = foldl_image [where f = "storeRow u port" and a = ?start and rs = rows]
  show "at_port (networkMetrics mp') port = interfaces.contents rows" "at_port (fsMetrics mp') port = devices.contents rows"
    "at_port (blkioMetrics mp') port = operations.contents rows" "at_port (gpuMetrics mp') port = gpus.contents rows"
    unfolding mp'_def interfaces.contents_def devices.contents_def operations.contents_def gpus.contents_def
    using image [where h = "\<lambda>mp. at_port (networkMetrics mp) port", OF storeRow_kinds(2)]
      image [where h = "\<lambda>mp. at_port (fsMetrics mp) port", OF storeRow_kinds(3)]
      image [where h = "\<lambda>mp. at_port (blkioMetrics mp) port", OF storeRow_kinds(4)]
      image [where h = "\<lambda>mp. at_port (gpuMetrics mp) port", OF storeRow_kinds(5)]
    by (simp_all add: empty_port comp_def)
qed

definition everyExported :: "pod_mapper \<Rightarrow> string \<Rightarrow> metric_row list \<Rightarrow> string set" where
  "everyExported M ns rows =
     exported (map fst containerTable) containerKey (\<lambda>_ _. '''') M ns rows \<union>
     exported (map fst networkTable) interfaceKey (\<lambda>k _. subLabel ''interface'' k) M ns rows \<union>
     exported (map fst filesystemTable) deviceKey (\<lambda>k _. subLabel ''device'' k) M ns rows \<union>
     exported [''container_blkio_device_usage_total''] blkioRowKey
       (\<lambda>_ l. subLabel ''device'' (mlDevice l) @ subLabel ''operation'' (mlOperation l)) M ns rows \<union>
     exported (map fst gpuTable) gpuKey (\<lambda>_ l. subLabel ''gpu'' (mlMinorNumber l)) M ns rows"

lemma WritePrometheusMetrics_rows:
  "set (WritePrometheusMetrics M (foldl (storeRow u port) (initializePortMetrics mp port) rows) port ns) = everyExported M ns rows"
  unfolding WritePrometheusMetrics_def writeContainer_is_series writers_are_series writeBlkio_is_series rows_contents
    set_append containers.exported_exactly interfaces.exported_exactly devices.exported_exactly operations.exported_exactly
    gpus.exported_exactly everyExported_def
  by (simp add: blkioTable_def newBlkio_def newGpu_def Un_assoc)

lemma WritePrometheusMetrics_other_port:
  assumes "q \<noteq> port"
  shows "WritePrometheusMetrics M (foldl (storeRow u port) (initializePortMetrics mp port) rows) q ns = WritePrometheusMetrics M mp q ns"
proof -
  have "WritePrometheusMetrics M (foldl (storeRow u port) mp rows) q ns = WritePrometheusMetrics M mp q ns" for mp
    by (induction rows arbitrary: mp) (simp_all add: WritePrometheusMetrics_def storeRow_other_port [OF assms])
  then show ?thesis using assms by (simp add: WritePrometheusMetrics_def initializePortMetrics_def)
qed

section \<open>Property\<close>

text \<open>
  C28. What \<^verbatim>\<open>WritePrometheusMetrics\<close> prints for a port after \<^verbatim>\<open>ParseAndStoreMetrics\<close> read a scrape for it: exactly one line shape
  per known metric name, container (with name, pod and namespace all present) and sub-object, carrying the last value the scrape
  had for it under the labels of the virtual pod, nothing of an earlier scrape, nothing of pods that are not mapped or are in another
  namespace, and no zero. What other ports print does not change, and the result is an error exactly when the stream parser failed, in which
  case the rows it delivered before are kept.
\<close>

theorem exports_exact:
  "case ParseAndStoreMetrics unixSeconds streamParse mp responseBody port of (mp', e) \<Rightarrow>
     set (WritePrometheusMetrics M mp' port ns) = everyExported M ns (concat (fst (streamParse responseBody))) \<and>
     WritePrometheusMetrics M mp' q ns = WritePrometheusMetrics M (if q = port then mp' else mp) q ns \<and>
     (e = None \<longleftrightarrow> snd (streamParse responseBody) = None)"
  by (simp add: ParseAndStoreMetrics_def split_beta foldl_batches WritePrometheusMetrics_rows WritePrometheusMetrics_other_port)

end
