(* ===== verification/Cert_Manager.thy ===== *)
theory Cert_Manager
  imports Kube_Api Go_Time
begin

text \<open>
  \<^verbatim>\<open>pkg/proxier/cert_manager.go\<close>: the proxier obtains its serving certificate through a certificate signing request which
  it approves itself, keeps it in a Secret, renews it, and removes everything when the cluster binding goes. Keys,
  X.509 and PEM are the parameter \<open>x509_lib\<close>; keys are opaque strings. Environment variables are fixed, and the two ways a
  \<^verbatim>\<open>select\<close> with a timer ends depend on the unknown outside state (\<open>cert_env\<close>). A context with a time-out lets only
  finitely many ticks of a timer pass, which \<open>ceTicks\<close> gives, so that the waiting loop is a recursion on them. The renewal loop
  is a function of the sequence of channel events it selects. The only memory is whether the stop channel is closed.
\<close>

section \<open>Parameters and state\<close>

text \<open>\<^verbatim>\<open>x509.CertificateRequest\<close> and \<^verbatim>\<open>x509.Certificate\<close>, the fields used.\<close>

record csr_template =
  ctCommonName :: string
  ctOrganization :: "string list"
  ctDNSNames :: "string list"
  ctIPAddresses :: "string list"

record certificate =
  crSubject :: string
  crIssuer :: string
  crSerialNumber :: string
  crNotBefore :: time
  crNotAfter :: time
  crDNSNames :: "string list"
  crIPAddresses :: "string list"

record 's x509_lib =
  xGenerateKey :: "'s \<Rightarrow> string res \<times> 's"
  xCreateRequest :: "csr_template \<Rightarrow> string \<Rightarrow> 's \<Rightarrow> string res \<times> 's"
  xMarshalKey :: "string \<Rightarrow> string"
  xEncodePEM :: "string \<Rightarrow> string \<Rightarrow> string"
  xDecodePEM :: "string \<Rightarrow> string option"
  xParseCertificate :: "string \<Rightarrow> certificate res"
  xParseIP :: "string \<Rightarrow> string option"

text \<open>\<open>ceWait d\<close> waits for the timer or the end of the context, whose error it then gives.\<close>

record 's cert_env =
  ceGetenv :: "string \<Rightarrow> string"
  ceWait :: "int \<Rightarrow> 's \<Rightarrow> err option \<times> 's"
  ceTicks :: "int \<Rightarrow> 's \<Rightarrow> nat \<times> 's"

record cert_manager =
  cmBinding :: cluster_binding
  cmNamespace :: string

definition NewCertificateManager :: "cluster_binding \<Rightarrow> string \<Rightarrow> cert_manager" where
  "NewCertificateManager clusterBinding ns = \<lparr>cmBinding = clusterBinding, cmNamespace = ns\<rparr>"

record 's cert_world = "'s world" +
  cwStopClosed :: bool

type_synonym ('s, 'm, 'a) cert_prog = "(('s, 'm) cert_world_scheme, 'a) state"

section \<open>Secrets\<close>

definition defaultSecretName :: "cert_manager \<Rightarrow> string" where
  "defaultSecretName cm = bClusterID (cmBinding cm) @ ''-logs-proxy-tls''"

definition getSpecifiedSecretName :: "cert_manager \<Rightarrow> string" where
  "getSpecifiedSecretName cm = mget (mAnnotations (bMeta (cmBinding cm))) ''kubeocean.io/logs-proxy-secret-name''"

definition getExistingSecret :: "'s api \<Rightarrow> cert_manager \<Rightarrow> string \<Rightarrow> ('s, 'm, secret res) prog" where
  "getExistingSecret A cm secretName = on_ok (get_secret A VirtualClient (cmNamespace cm) secretName) (\<lambda>secret.
     if seData secret ''tls.crt'' = None then return (Inl (Errorf (''secret '' @ secretName @ '' missing tls.crt'')))
     else if seData secret ''tls.key'' = None then return (Inl (Errorf (''secret '' @ secretName @ '' missing tls.key'')))
     else return (Inr secret))"

definition tlsSecret :: "'s x509_lib \<Rightarrow> cert_manager \<Rightarrow> string \<Rightarrow> string \<Rightarrow> string \<Rightarrow> secret" where
  "tlsSecret X cm secretName certificate privateKey =
     \<lparr>seMeta = empty_meta\<lparr>mName := secretName, mNamespace := cmNamespace cm,
        mLabels := [''app.kubernetes.io/name'' \<mapsto> ''kubeocean-proxier'',
          ''app.kubernetes.io/instance'' \<mapsto> mName (bMeta (cmBinding cm)), ''app.kubernetes.io/component'' \<mapsto> ''tls'']\<rparr>,
      seType = ''kubernetes.io/tls'',
      seData = [''tls.crt'' \<mapsto> certificate, ''tls.key'' \<mapsto> xEncodePEM X ''RSA PRIVATE KEY'' (xMarshalKey X privateKey)],
      seStringData = Map.empty\<rparr>"

definition createTLSSecret ::
  "'s x509_lib \<Rightarrow> 's api \<Rightarrow> cert_manager \<Rightarrow> string \<Rightarrow> string \<Rightarrow> string \<Rightarrow> ('s, 'm, secret res) prog" where
  "createTLSSecret X A cm secretName certificate privateKey = do {
     r \<leftarrow> Create A VirtualClient (OSecret (tlsSecret X cm secretName certificate privateKey));
     return (decode the_secret r)
   }"

section \<open>Signing requests\<close>

fun the_csr :: "obj \<Rightarrow> csr option" where
  "the_csr (OCSR c) = Some c" | "the_csr _ = None"

definition get_csr :: "'s api \<Rightarrow> string \<Rightarrow> ('s, 'm, csr res) prog" where
  "get_csr A csrName = do { r \<leftarrow> Get A VirtualClient KCSR '''' csrName; return (decode the_csr r) }"

definition csrNameFor :: "cert_manager \<Rightarrow> string \<Rightarrow> time \<Rightarrow> string" where
  "csrNameFor cm podName timestamp =
     ''kubeocean-proxier-'' @ mName (bMeta (cmBinding cm)) @ ''-'' @ podName @ ''-'' @ Itoa timestamp"

definition generateUniqueCSRName :: "'s cert_env \<Rightarrow> 's api \<Rightarrow> cert_manager \<Rightarrow> ('s, 'm, string) prog" where
  "generateUniqueCSRName E A cm = do {
     let podName = (if ceGetenv E ''POD_NAME'' = '''' then ''unknown-pod'' else ceGetenv E ''POD_NAME'');
     now \<leftarrow> Now A;
     return (csrNameFor cm podName (ckNow now))
   }"

definition getPodIP :: "'s cert_env \<Rightarrow> 's api \<Rightarrow> ('s, 'm, string res) prog" where
  "getPodIP E A =
    (if ceGetenv E ''POD_IP'' \<noteq> '''' then return (Inr (ceGetenv E ''POD_IP''))
     else if ceGetenv E ''POD_NAME'' = '''' \<or> ceGetenv E ''POD_NAMESPACE'' = ''''
     then return (Inl (Errorf ''POD_IP, POD_NAME, or POD_NAMESPACE environment variable not set''))
     else on_ok_wrap ''failed to get pod'' (get_pod A VirtualClient (ceGetenv E ''POD_NAMESPACE'') (ceGetenv E ''POD_NAME'')) (\<lambda>pod.
       if psPodIP (poStatus pod) = '''' then return (Inl (Errorf ''pod IP not available''))
       else return (Inr (psPodIP (poStatus pod)))))"

definition csrTemplate :: "'s x509_lib \<Rightarrow> cert_manager \<Rightarrow> string \<Rightarrow> csr_template" where
  "csrTemplate X cm podIP = (let nodeName = mName (bMeta (cmBinding cm)) in
     \<lparr>ctCommonName = ''system:node:'' @ nodeName, ctOrganization = [''system:nodes''],
      ctDNSNames = [''localhost'', ''logs-proxy'', ''kubeocean-logs-proxy'', ''kubelet'', ''kubelet-api'', nodeName,
        nodeName @ ''.'' @ cmNamespace cm @ ''.svc.cluster.local''],
      ctIPAddresses = List.map_filter (xParseIP X) [podIP, ''127.0.0.1'']\<rparr>)"

definition createCSR :: "'s x509_lib \<Rightarrow> cert_manager \<Rightarrow> string \<Rightarrow> string \<Rightarrow> ('s, 'm, string res) prog" where
  "createCSR X cm privateKey podIP =
     on_ok_wrap ''failed to create certificate request'' (outside (xCreateRequest X (csrTemplate X cm podIP) privateKey))
       (\<lambda>csrDER. return (Inr csrDER))"

definition newCSR :: "'s x509_lib \<Rightarrow> cert_manager \<Rightarrow> string \<Rightarrow> string \<Rightarrow> csr" where
  "newCSR X cm csrName csrDER = (let nodeName = mName (bMeta (cmBinding cm)) in
     \<lparr>csrMeta = empty_meta\<lparr>mName := csrName, mLabels := [''kubeocean.io/component'' \<mapsto> ''logs-proxy'',
        ''kubeocean.io/cluster-id'' \<mapsto> bClusterID (cmBinding cm), ''kubeocean.io/node-name'' \<mapsto> nodeName]\<rparr>,
      csrRequest = xEncodePEM X ''CERTIFICATE REQUEST'' csrDER, csrSignerName = ''kubernetes.io/kubelet-serving'',
      csrUsername = ''system:node:'' @ nodeName, csrGroups = [''system:nodes'', ''system:authenticated''],
      csrUsages = [''digital signature'', ''key encipherment'', ''server auth''], csrConditions = [], csrCertificate = ''''\<rparr>)"

definition submitCSR :: "'s x509_lib \<Rightarrow> 's api \<Rightarrow> cert_manager \<Rightarrow> string \<Rightarrow> string \<Rightarrow> ('s, 'm, csr res) prog" where
  "submitCSR X A cm csrName csrDER = do {
     r \<leftarrow> Create A VirtualClient (OCSR (newCSR X cm csrName csrDER));
     return (decode the_csr r)
   }"

text \<open>The first condition that decides: approved, denied with its message, or none.\<close>

fun decided :: "condition list \<Rightarrow> string option option" where
  "decided [] = None"
| "decided (c # cs) = (if cdType c = ''Approved'' then Some None
     else if cdType c = ''Denied'' then Some (Some (cdMessage c)) else decided cs)"

text \<open>The time of the condition is its \<^verbatim>\<open>LastUpdateTime\<close>, the only one the code sets.\<close>

definition approvalCondition :: "cert_manager \<Rightarrow> time \<Rightarrow> condition" where
  "approvalCondition cm now = \<lparr>cdType = ''Approved'', cdStatus = ''True'', cdReason = ''KubeoceanProxierAutoApproval'',
     cdMessage = ''Automatically approved by Kubeocean Proxier for ClusterBinding '' @ mName (bMeta (cmBinding cm)),
     cdLastTransitionTime = now, cdLastProbeTime = 0, cdObservedGeneration = 0\<rparr>"

definition approveCSR :: "'s api \<Rightarrow> cert_manager \<Rightarrow> string \<Rightarrow> ('s, 'm, unit res) prog" where
  "approveCSR A cm csrName = on_ok_wrap ''failed to get CSR'' (get_csr A csrName) (\<lambda>csr.
     case decided (csrConditions csr) of
       Some None \<Rightarrow> return (Inr ())
     | Some (Some msg) \<Rightarrow> return (Inl (Errorf (''CSR was denied: '' @ msg)))
     | None \<Rightarrow> do {
         now \<leftarrow> Now A;
         on_ok_wrap ''failed to approve CSR''
           (SubUpdate A VirtualClient ''approval'' (OCSR (csr\<lparr>csrConditions := csrConditions csr @ [approvalCondition cm (ckNow now)]\<rparr>)))
           (\<lambda>_. return (Inr ()))
       })"

fun deniedMessage :: "condition list \<Rightarrow> string option" where
  "deniedMessage [] = None"
| "deniedMessage (c # cs) = (if cdType c = ''Denied'' then Some (cdMessage c) else deniedMessage cs)"

fun pollCertificate :: "'s api \<Rightarrow> string \<Rightarrow> nat \<Rightarrow> ('s, 'm, string res) prog" where
  "pollCertificate A csrName 0 = return (Inl (Errorf ''timeout waiting for certificate''))"
| "pollCertificate A csrName (Suc ticks) = do {
     got \<leftarrow> get_csr A csrName;
     case got of
       Inl err \<Rightarrow> (if IsNotFound err then return (Inl (Errorf ''CSR was deleted while waiting for certificate''))
         else pollCertificate A csrName ticks)
     | Inr csr \<Rightarrow>
         if length (csrCertificate csr) > 0 then return (Inr (csrCertificate csr))
         else (case deniedMessage (csrConditions csr) of
             Some msg \<Rightarrow> return (Inl (Errorf (''certificate request was denied: '' @ msg)))
           | None \<Rightarrow> pollCertificate A csrName ticks)
   }"

definition waitForCertificate :: "'s cert_env \<Rightarrow> 's api \<Rightarrow> string \<Rightarrow> int \<Rightarrow> ('s, 'm, string res) prog" where
  "waitForCertificate E A csrName timeout = do {
     ticks \<leftarrow> outside (ceTicks E timeout);
     pollCertificate A csrName ticks
   }"

definition maxRetries :: nat where "maxRetries = 3"

text \<open>The loops count the attempts; \<open>left\<close> is how many remain, this one included.\<close>

fun waitAttempts :: "'s cert_env \<Rightarrow> 's api \<Rightarrow> string \<Rightarrow> int \<Rightarrow> nat \<Rightarrow> nat \<Rightarrow> ('s, 'm, string res) prog" where
  "waitAttempts E A csrName timeout attempt 0 = return (Inl (Errorf ''unexpected error in retry loop''))"
| "waitAttempts E A csrName timeout attempt (Suc left) = do {
     r \<leftarrow> waitForCertificate E A csrName timeout;
     case r of
       Inr certificate \<Rightarrow> return (Inr certificate)
     | Inl err \<Rightarrow>
         if Contains (error_text err) ''CSR was deleted while waiting for certificate'' \<and> attempt < maxRetries
         then do {
           ended \<leftarrow> outside (ceWait E (int attempt * (5 * Second)));
           case ended of
             Some e \<Rightarrow> return (Inl (Wrapf ''context cancelled during retry wait'' e))
           | None \<Rightarrow> return (Inl (Wrapf ''CSR race condition detected, retry needed'' err))
         }
         else if attempt = maxRetries then return (Inl (Wrapf ''failed to get certificate after 3 attempts'' err))
         else waitAttempts E A csrName timeout (attempt + 1) left
   }"

definition waitForCertificateWithRetry :: "'s cert_env \<Rightarrow> 's api \<Rightarrow> string \<Rightarrow> int \<Rightarrow> ('s, 'm, string res) prog" where
  "waitForCertificateWithRetry E A csrName timeout = waitAttempts E A csrName timeout 1 maxRetries"

section \<open>Certificates\<close>

definition deleteCSR :: "'s api \<Rightarrow> string \<Rightarrow> ('s, 'm, unit res) prog" where
  "deleteCSR A csrName = Delete A VirtualClient KCSR '''' csrName no_opts"

text \<open>A request of this name was there already: it is approved unless it has been.\<close>

definition useExistingCSR :: "'s api \<Rightarrow> cert_manager \<Rightarrow> string \<Rightarrow> err \<Rightarrow> ('s, 'm, unit res) prog" where
  "useExistingCSR A cm csrName err = do {
     got \<leftarrow> get_csr A csrName;
     case got of
       Inl getErr \<Rightarrow> return (Inl (Wrap2 ''failed to submit CSR and failed to get existing CSR: create error='' err '', get error='' getErr))
     | Inr existing \<Rightarrow>
         if list_ex (\<lambda>c. cdType c = ''Approved'') (csrConditions existing) then return (Inr ())
         else on_ok_wrap ''failed to approve existing CSR'' (approveCSR A cm csrName) (\<lambda>_. return (Inr ()))
   }"

text \<open>Approval and issue, and the removal of the request in the end.\<close>

definition approveAndWait :: "'s cert_env \<Rightarrow> 's api \<Rightarrow> cert_manager \<Rightarrow> string \<Rightarrow> ('s, 'm, string res) prog" where
  "approveAndWait E A cm csrName = do {
     approved \<leftarrow> approveCSR A cm csrName;
     case approved of
       Inl err \<Rightarrow> do { _ \<leftarrow> deleteCSR A csrName; return (Inl (Wrapf ''failed to approve CSR'' err)) }
     | Inr _ \<Rightarrow> do {
         got \<leftarrow> waitForCertificateWithRetry E A csrName (60 * Second);
         case got of
           Inl err \<Rightarrow> do { _ \<leftarrow> deleteCSR A csrName; return (Inl (Wrapf ''failed to get certificate'' err)) }
         | Inr certificate \<Rightarrow> do { _ \<leftarrow> deleteCSR A csrName; return (Inr certificate) }
       }
   }"

definition requestCertificate ::
  "'s x509_lib \<Rightarrow> 's cert_env \<Rightarrow> 's api \<Rightarrow> cert_manager \<Rightarrow> string \<Rightarrow> string \<Rightarrow> ('s, 'm, string res) prog" where
  "requestCertificate X E A cm csrName csrDER = do {
     submitted \<leftarrow> submitCSR X A cm csrName csrDER;
     on_ok (case submitted of
         Inr _ \<Rightarrow> return (Inr ())
       | Inl err \<Rightarrow> (if IsAlreadyExists err then useExistingCSR A cm csrName err
           else return (Inl (Wrapf ''failed to submit CSR'' err))))
       (\<lambda>_. approveAndWait E A cm csrName)
   }"

definition generateCertificateDataOnce ::
  "'s x509_lib \<Rightarrow> 's cert_env \<Rightarrow> 's api \<Rightarrow> cert_manager \<Rightarrow> ('s, 'm, (string \<times> string) res) prog" where
  "generateCertificateDataOnce X E A cm =
     on_ok_wrap ''failed to get pod IP'' (getPodIP E A) (\<lambda>podIP.
     on_ok_wrap ''failed to generate private key'' (outside (xGenerateKey X)) (\<lambda>privateKey.
     on_ok_wrap ''failed to create CSR'' (createCSR X cm privateKey podIP) (\<lambda>csrDER. do {
       csrName \<leftarrow> generateUniqueCSRName E A cm;
       on_ok (requestCertificate X E A cm csrName csrDER) (\<lambda>certificate. return (Inr (certificate, privateKey)))
     })))"

definition raceDetected :: "err \<Rightarrow> bool" where
  "raceDetected err \<longleftrightarrow> Contains (error_text err) ''CSR race condition detected'' \<or>
     Contains (error_text err) ''CSR was deleted while waiting for certificate''"

fun generateAttempts ::
  "'s x509_lib \<Rightarrow> 's cert_env \<Rightarrow> 's api \<Rightarrow> cert_manager \<Rightarrow> nat \<Rightarrow> nat \<Rightarrow> ('s, 'm, (string \<times> string) res) prog" where
  "generateAttempts X E A cm attempt 0 = return (Inl (Errorf ''unexpected error in certificate generation retry loop''))"
| "generateAttempts X E A cm attempt (Suc left) = do {
     r \<leftarrow> generateCertificateDataOnce X E A cm;
     case r of
       Inr x \<Rightarrow> return (Inr x)
     | Inl err \<Rightarrow>
         if raceDetected err \<and> attempt < maxRetries then do {
           ended \<leftarrow> outside (ceWait E (int attempt * (2 * Second)));
           case ended of
             Some e \<Rightarrow> return (Inl (Wrapf ''context cancelled during retry wait'' e))
           | None \<Rightarrow> generateAttempts X E A cm (attempt + 1) left
         }
         else if attempt = maxRetries then return (Inl (Wrapf ''failed to generate certificate after 3 attempts'' err))
         else generateAttempts X E A cm (attempt + 1) left
   }"

definition generateCertificateData ::
  "'s x509_lib \<Rightarrow> 's cert_env \<Rightarrow> 's api \<Rightarrow> cert_manager \<Rightarrow> ('s, 'm, (string \<times> string) res) prog" where
  "generateCertificateData X E A cm = generateAttempts X E A cm 1 maxRetries"

definition createTLSSecretWithAutoApproval ::
  "'s x509_lib \<Rightarrow> 's cert_env \<Rightarrow> 's api \<Rightarrow> cert_manager \<Rightarrow> string \<Rightarrow> ('s, 'm, secret res) prog" where
  "createTLSSecretWithAutoApproval X E A cm secretName =
     on_ok_wrap ''failed to generate certificate data'' (generateCertificateData X E A cm) (\<lambda>(certificate, privateKey). do {
       r \<leftarrow> createTLSSecret X A cm secretName certificate privateKey;
       case r of
         Inr secret \<Rightarrow> return (Inr secret)
       | Inl err \<Rightarrow>
           if IsAlreadyExists err then do {
             got \<leftarrow> getExistingSecret A cm secretName;
             case got of
               Inr existing \<Rightarrow> return (Inr existing)
             | Inl getErr \<Rightarrow> return (Inl (Wrap2 ''failed to create TLS secret and failed to get existing secret: create error='' err
                 '', get error='' getErr))
           }
           else return (Inl (Wrapf ''failed to create TLS secret'' err))
     })"

definition GetOrCreateTLSSecret ::
  "'s x509_lib \<Rightarrow> 's cert_env \<Rightarrow> 's api \<Rightarrow> cert_manager \<Rightarrow> ('s, 'm, secret res) prog" where
  "GetOrCreateTLSSecret X E A cm = do {
     got \<leftarrow> getExistingSecret A cm (defaultSecretName cm);
     case got of
       Inr secret \<Rightarrow> return (Inr secret)
     | Inl _ \<Rightarrow> createTLSSecretWithAutoApproval X E A cm (defaultSecretName cm)
   }"

section \<open>Renewal\<close>

definition renewalThreshold :: int where "renewalThreshold = 30 * 24 * 3600 * Second"

definition parsedCertificate :: "'s x509_lib \<Rightarrow> secret \<Rightarrow> certificate res" where
  "parsedCertificate X secret = (case seData secret ''tls.crt'' of
     None \<Rightarrow> Inl (Errorf ''secret missing tls.crt'')
   | Some certData \<Rightarrow> (case xDecodePEM X certData of
         None \<Rightarrow> Inl (Errorf ''failed to decode certificate PEM'')
       | Some bytes \<Rightarrow> map_sum (Wrapf ''failed to parse certificate'') id (xParseCertificate X bytes)))"

definition needsCertificateRenewal :: "'s x509_lib \<Rightarrow> 's api \<Rightarrow> secret \<Rightarrow> ('s, 'm, (bool \<times> int) res) prog" where
  "needsCertificateRenewal X A secret = on_ok (return (parsedCertificate X secret)) (\<lambda>cert. do {
     now \<leftarrow> Now A;
     let timeUntilExpiry = Since (crNotAfter cert) (ckNow now);
     return (Inr (timeUntilExpiry \<le> renewalThreshold, timeUntilExpiry))
   })"

definition renewedSecret :: "'s x509_lib \<Rightarrow> secret \<Rightarrow> string \<Rightarrow> string \<Rightarrow> string \<Rightarrow> secret" where
  "renewedSecret X existing certificate privateKey stamp = existing\<lparr>
     seData := [''tls.crt'' \<mapsto> certificate, ''tls.key'' \<mapsto> xEncodePEM X ''RSA PRIVATE KEY'' (xMarshalKey X privateKey)],
     seMeta := (seMeta existing)\<lparr>mAnnotations := (mAnnotations (seMeta existing))
       (''kubeocean.io/certificate-renewed'' \<mapsto> stamp, ''kubeocean.io/renewal-reason'' \<mapsto> ''auto-renewal'')\<rparr>\<rparr>"

definition renewCertificate ::
  "'s x509_lib \<Rightarrow> 's cert_env \<Rightarrow> 's api \<Rightarrow> cert_manager \<Rightarrow> string \<Rightarrow> ('s, 'm, unit res) prog" where
  "renewCertificate X E A cm secretName =
     on_ok_wrap ''failed to generate new certificate'' (generateCertificateData X E A cm) (\<lambda>(certificate, privateKey).
     on_ok_wrap ''failed to get existing secret'' (get_secret A VirtualClient (cmNamespace cm) secretName) (\<lambda>existingSecret. do {
       now \<leftarrow> Now A;
       on_ok_wrap ''failed to update existing secret''
         (Update A VirtualClient (OSecret (renewedSecret X existingSecret certificate privateKey (ckRFC3339 now))))
         (\<lambda>_. return (Inr ()))
     }))"

text \<open>Every error is only logged.\<close>

definition checkAndRenewCertificate :: "'s x509_lib \<Rightarrow> 's cert_env \<Rightarrow> 's api \<Rightarrow> cert_manager \<Rightarrow> ('s, 'm, unit) prog" where
  "checkAndRenewCertificate X E A cm =
    (if getSpecifiedSecretName cm \<noteq> '''' then return ()
     else do {
       got \<leftarrow> getExistingSecret A cm (defaultSecretName cm);
       case got of
         Inl _ \<Rightarrow> return ()
       | Inr secret \<Rightarrow> do {
           needs \<leftarrow> needsCertificateRenewal X A secret;
           case needs of
             Inl _ \<Rightarrow> return ()
           | Inr (needsRenewal, _) \<Rightarrow>
               if needsRenewal then do { _ \<leftarrow> renewCertificate X E A cm (defaultSecretName cm); return () } else return ()
         }
     })"

datatype renewal_event = ContextDone | StopClosed | InitialTimer | Ticker

fun renewalLoop :: "'s x509_lib \<Rightarrow> 's cert_env \<Rightarrow> 's api \<Rightarrow> cert_manager \<Rightarrow> renewal_event list \<Rightarrow> ('s, 'm, unit) prog" where
  "renewalLoop X E A cm [] = return ()"
| "renewalLoop X E A cm (e # es) = (case e of
     ContextDone \<Rightarrow> return ()
   | StopClosed \<Rightarrow> return ()
   | _ \<Rightarrow> do { checkAndRenewCertificate X E A cm; renewalLoop X E A cm es })"

text \<open>Closing a closed channel panics.\<close>

datatype 'a outcome = Panic string | Returned 'a

definition StopAutoRenewal :: "('s, 'm, unit outcome) cert_prog" where
  "StopAutoRenewal = do {
     closed \<leftarrow> reads cwStopClosed;
     if closed then return (Panic ''close of closed channel'')
     else do { modifies (cwStopClosed_update (\<lambda>_. True)); return (Returned ()) }
   }"

section \<open>Information\<close>

record CertificateInfo =
  ciSecretName :: string
  ciSecretNamespace :: string
  ciSubject :: string
  ciIssuer :: string
  ciSerialNumber :: string
  ciNotBefore :: time
  ciNotAfter :: time
  ciDNSNames :: "string list"
  ciIPAddresses :: "string list"
  ciIsExpired :: bool
  ciTimeUntilExpiry :: int
  ciIsAutoManaged :: bool
  ciLastRenewal :: "time option"

definition getLastRenewalTime :: "secret \<Rightarrow> time option" where
  "getLastRenewalTime secret = (case mAnnotations (seMeta secret) ''kubeocean.io/certificate-renewed'' of
     None \<Rightarrow> None | Some renewalTimeStr \<Rightarrow> ParseRFC3339 renewalTimeStr)"

definition GetCertificateInfo :: "'s x509_lib \<Rightarrow> 's api \<Rightarrow> cert_manager \<Rightarrow> ('s, 'm, CertificateInfo res) prog" where
  "GetCertificateInfo X A cm = do {
     let secretName = (if getSpecifiedSecretName cm \<noteq> '''' then getSpecifiedSecretName cm else defaultSecretName cm);
     on_ok_wrap ''failed to get secret'' (getExistingSecret A cm secretName) (\<lambda>secret.
     on_ok (return (parsedCertificate X secret)) (\<lambda>cert. do {
       now \<leftarrow> Now A;
       later \<leftarrow> Now A;
       return (Inr \<lparr>ciSecretName = secretName, ciSecretNamespace = mNamespace (seMeta secret), ciSubject = crSubject cert,
         ciIssuer = crIssuer cert, ciSerialNumber = crSerialNumber cert, ciNotBefore = crNotBefore cert, ciNotAfter = crNotAfter cert,
         ciDNSNames = crDNSNames cert, ciIPAddresses = crIPAddresses cert, ciIsExpired = ckNow now > crNotAfter cert,
         ciTimeUntilExpiry = Since (crNotAfter cert) (ckNow later), ciIsAutoManaged = getSpecifiedSecretName cm = '''',
         ciLastRenewal = getLastRenewalTime secret\<rparr>)
     }))
   }"

section \<open>Cleanup\<close>

definition isAutoManagedSecret :: "cert_manager \<Rightarrow> secret \<Rightarrow> bool" where
  "isAutoManagedSecret cm secret \<longleftrightarrow> mLabels (seMeta secret) ''app.kubernetes.io/name'' = Some ''kubeocean-proxier'' \<and>
     mLabels (seMeta secret) ''app.kubernetes.io/instance'' = Some (mName (bMeta (cmBinding cm))) \<and>
     mLabels (seMeta secret) ''app.kubernetes.io/component'' = Some ''tls''"

definition cleanupAutoManagedSecret :: "'s api \<Rightarrow> cert_manager \<Rightarrow> string \<Rightarrow> ('s, 'm, unit res) prog" where
  "cleanupAutoManagedSecret A cm secretName = do {
     got \<leftarrow> get_secret A VirtualClient (cmNamespace cm) secretName;
     case got of
       Inl err \<Rightarrow> (if IsNotFound err then return (Inr ()) else return (Inl (Wrapf ''failed to get secret for cleanup'' err)))
     | Inr secret \<Rightarrow>
         if \<not> isAutoManagedSecret cm secret then return (Inr ())
         else do {
           r \<leftarrow> Delete A VirtualClient KSecret (cmNamespace cm) secretName no_opts;
           case r of
             Inl err \<Rightarrow> (if IsNotFound err then return (Inr ()) else return (Inl (Wrapf ''failed to delete auto-managed secret'' err)))
           | Inr _ \<Rightarrow> return (Inr ())
         }
   }"

definition CleanupCertificates :: "'s api \<Rightarrow> cert_manager \<Rightarrow> ('s, 'm, unit res) prog" where
  "CleanupCertificates A cm =
    (if getSpecifiedSecretName cm \<noteq> '''' then return (Inr ()) else cleanupAutoManagedSecret A cm (defaultSecretName cm))"

definition csrPrefix :: "cert_manager \<Rightarrow> string" where
  "csrPrefix cm = ''kubeocean-proxier-'' @ mName (bMeta (cmBinding cm)) @ ''-''"

text \<open>A request that cannot be deleted is logged and passed over.\<close>

fun deleteOrphans :: "'s api \<Rightarrow> cert_manager \<Rightarrow> csr list \<Rightarrow> ('s, 'm, unit) prog" where
  "deleteOrphans A cm [] = return ()"
| "deleteOrphans A cm (csr # csrs) = do {
     (if HasPrefix (mName (csrMeta csr)) (csrPrefix cm)
      then do { _ \<leftarrow> deleteCSR A (mName (csrMeta csr)); return () } else return ());
     deleteOrphans A cm csrs
   }"

definition CleanupOrphanedCSRs :: "'s api \<Rightarrow> cert_manager \<Rightarrow> ('s, 'm, unit res) prog" where
  "CleanupOrphanedCSRs A cm =
     on_ok_wrap ''failed to list CSRs'' (ListObjs A VirtualClient KCSR list_all_objs) (\<lambda>items. do {
       deleteOrphans A cm (List.map_filter the_csr items);
       return (Inr ())
     })"

definition cleanupErrors :: "unit res \<Rightarrow> unit res \<Rightarrow> err list" where
  "cleanupErrors a b = (case a of Inl e \<Rightarrow> [Wrapf ''certificate cleanup failed'' e] | Inr _ \<Rightarrow> []) @
     (case b of Inl e \<Rightarrow> [Wrapf ''CSR cleanup failed'' e] | Inr _ \<Rightarrow> [])"

definition ForceCleanupAll :: "'s api \<Rightarrow> cert_manager \<Rightarrow> ('s, 'm, unit res outcome) cert_prog" where
  "ForceCleanupAll A cm = do {
     certs \<leftarrow> CleanupCertificates A cm;
     csrs \<leftarrow> CleanupOrphanedCSRs A cm;
     stopped \<leftarrow> StopAutoRenewal;
     let errors = cleanupErrors certs csrs;
     return (case stopped of
       Panic msg \<Rightarrow> Panic msg
     | Returned _ \<Rightarrow> Returned (if length errors > 0
         then Inl (Errorf (''cleanup completed with errors: '' @ Join (map error_text errors) ''; '')) else Inr ()))
   }"

section \<open>What must come before a write\<close>

text \<open>
  The request of this name is in use: the server stored the one sent, or it answered that there is one
  of this name already, and that one was read.
\<close>

definition submitted :: "'s x509_lib \<Rightarrow> cert_manager \<Rightarrow> string \<Rightarrow> event list \<Rightarrow> bool" where
  "submitted X cm n pre \<longleftrightarrow> (\<exists>der r. EvCreate VirtualClient (OCSR (newCSR X cm n der)) r \<in> set pre \<and>
     ((\<exists>ob. r = Inr ob) \<or> (\<exists>e c. r = Inl e \<and> IsAlreadyExists e \<and> EvGet VirtualClient KCSR '''' n (Inr (OCSR c)) \<in> set pre)))"

definition issued :: "'s x509_lib \<Rightarrow> cert_manager \<Rightarrow> string \<Rightarrow> event list \<Rightarrow> bool" where
  "issued X cm certificate pre \<longleftrightarrow> certificate \<noteq> '''' \<and> (\<exists>n c. submitted X cm n pre \<and>
     EvGet VirtualClient KCSR '''' n (Inr (OCSR c)) \<in> set pre \<and> csrCertificate c = certificate)"

definition secret_read :: "cert_manager \<Rightarrow> secret \<Rightarrow> event list \<Rightarrow> bool" where
  "secret_read cm s pre \<longleftrightarrow> EvGet VirtualClient KSecret (cmNamespace cm) (defaultSecretName cm) (Inr (OSecret s)) \<in> set pre"

definition expiring :: "'s x509_lib \<Rightarrow> cert_manager \<Rightarrow> event list \<Rightarrow> bool" where
  "expiring X cm pre \<longleftrightarrow> getSpecifiedSecretName cm = '''' \<and> (\<exists>s cert ck. secret_read cm s pre \<and> parsedCertificate X s = Inr cert \<and>
     EvClock ck \<in> set pre \<and> Since (crNotAfter cert) (ckNow ck) \<le> renewalThreshold)"

fun cert_guard :: "'s x509_lib \<Rightarrow> cert_manager \<Rightarrow> event list \<Rightarrow> event \<Rightarrow> bool" where
  "cert_guard X cm pre (EvCreate c ob _) \<longleftrightarrow> c = VirtualClient \<and>
     ((\<exists>podName ck der. EvClock ck \<in> set pre \<and> ob = OCSR (newCSR X cm (csrNameFor cm podName (ckNow ck)) der)) \<or>
      (\<exists>certificate key. issued X cm certificate pre \<and> ob = OSecret (tlsSecret X cm (defaultSecretName cm) certificate key)))"
| "cert_guard X cm pre (EvSubUpdate c sub ob _) \<longleftrightarrow> c = VirtualClient \<and> sub = ''approval'' \<and>
     (\<exists>n csr t. submitted X cm n pre \<and> EvGet VirtualClient KCSR '''' n (Inr (OCSR csr)) \<in> set pre \<and>
        decided (csrConditions csr) = None \<and> ob = OCSR (csr\<lparr>csrConditions := csrConditions csr @ [approvalCondition cm t]\<rparr>))"
| "cert_guard X cm pre (EvUpdate c ob _) \<longleftrightarrow> c = VirtualClient \<and> expiring X cm pre \<and>
     (\<exists>s certificate key stamp. secret_read cm s pre \<and> issued X cm certificate pre \<and> ob = OSecret (renewedSecret X s certificate key stamp))"
| "cert_guard X cm pre (EvDelete c k ns n opts _) \<longleftrightarrow> c = VirtualClient \<and>
     (k = KCSR \<and> (submitted X cm n pre \<or> HasPrefix n (csrPrefix cm) \<and>
        (\<exists>items csr. EvList VirtualClient KCSR list_all_objs (Inr items) \<in> set pre \<and> OCSR csr \<in> set items \<and> n = mName (csrMeta csr))) \<or>
      k = KSecret \<and> ns = cmNamespace cm \<and> n = defaultSecretName cm \<and> getSpecifiedSecretName cm = '''' \<and>
        (\<exists>s. secret_read cm s pre \<and> isAutoManagedSecret cm s))"
| "cert_guard X cm pre e \<longleftrightarrow> \<not> is_write e"

lemma cert_guard_read [simp]: "\<not> is_write e \<Longrightarrow> cert_guard X cm pre e"
  by (cases e) auto

lemma the_csr_Some [simp]: "the_csr ob = Some c \<longleftrightarrow> ob = OCSR c"
  by (cases ob) auto

lemma cert_reads_kept [simp]:
  "submitted X cm n pre \<Longrightarrow> submitted X cm n (pre @ es)"
  "issued X cm certificate pre \<Longrightarrow> issued X cm certificate (pre @ es)"
  "secret_read cm s pre \<Longrightarrow> secret_read cm s (pre @ es)"
  "expiring X cm pre \<Longrightarrow> expiring X cm (pre @ es)"
proof -
  show s: "submitted X cm n pre \<Longrightarrow> submitted X cm n (pre @ es)" for n unfolding submitted_def by fastforce
  show r: "secret_read cm s pre \<Longrightarrow> secret_read cm s (pre @ es)" for s by (auto simp: secret_read_def)
  show "issued X cm certificate pre \<Longrightarrow> issued X cm certificate (pre @ es)" unfolding issued_def using s by auto
  show "expiring X cm pre \<Longrightarrow> expiring X cm (pre @ es)" unfolding expiring_def using r by auto
qed

lemma guarded_approveCSR:
  assumes "submitted X cm n pre"
  shows "guarded (cert_guard X cm) pre (approveCSR A cm n) (\<lambda>_ _. True)"
proof -
  have upd: "cert_guard X cm (pre @ [EvGet VirtualClient KCSR '''' n a, EvClock ck])
      (EvSubUpdate VirtualClient ''approval'' (OCSR (csr\<lparr>csrConditions := csrConditions csr @ [approvalCondition cm (ckNow ck)]\<rparr>)) r)"
    if "decode the_csr a = Inr csr" and "decided (csrConditions csr) = None" for a csr ck r
    using assms that by (auto simp: decode_Inr intro!: exI [of _ n] exI [of _ csr])
  show ?thesis
    unfolding approveCSR_def get_csr_def on_ok_wrap_def
    by (intro gvcg) (auto simp del: cert_guard.simps intro!: gvcg upd split: sum.splits option.splits)
qed

lemma guarded_pollCertificate:
  assumes "submitted X cm n pre"
  shows "guarded (cert_guard X cm) pre (pollCertificate A n ticks) (\<lambda>r pre'. \<forall>c. r = Inr c \<longrightarrow> issued X cm c pre')"
  using assms
proof (induction ticks arbitrary: pre)
  case 0
  then show ?case by (auto intro: guarded_return)
next
  case (Suc ticks)
  have "issued X cm (csrCertificate csr) (pre @ [EvGet VirtualClient KCSR '''' n a])"
    if "decode the_csr a = Inr csr" and "csrCertificate csr \<noteq> ''''" for a csr
    using Suc.prems that by (auto simp: issued_def decode_Inr intro!: exI [of _ n] exI [of _ csr])
  then show ?case
    by (auto simp: get_csr_def Suc.prems intro!: gvcg Suc.IH split: sum.splits option.splits)
qed

lemma guarded_waitForCertificateWithRetry:
  assumes "submitted X cm n pre"
  shows "guarded (cert_guard X cm) pre (waitForCertificateWithRetry E A n timeout) (\<lambda>r pre'. \<forall>c. r = Inr c \<longrightarrow> issued X cm c pre')"
proof -
  have "guarded (cert_guard X cm) pre (waitAttempts E A n timeout attempt left) (\<lambda>r pre'. \<forall>c. r = Inr c \<longrightarrow> issued X cm c pre')"
    if "submitted X cm n pre" for attempt left pre
    using that
  proof (induction left arbitrary: attempt pre)
    case 0
    then show ?case by (auto intro: guarded_return)
  next
    case (Suc left)
    show ?case
      unfolding waitAttempts.simps waitForCertificate_def
      by (intro guarded_bind guarded_outside guarded_mono [OF guarded_prefix [OF guarded_pollCertificate [OF Suc.prems]]])
        (auto simp: Suc.prems intro!: gvcg Suc.IH split: sum.splits option.splits)
  qed
  from this [OF assms] show ?thesis unfolding waitForCertificateWithRetry_def .
qed

lemma cert_reads_later [simp]:
  "issued X cm certificate (pre @ es) \<Longrightarrow> issued X cm certificate (pre @ es @ es')"
  "submitted X cm n (pre @ es) \<Longrightarrow> submitted X cm n (pre @ es @ es')"
  "secret_read cm s (pre @ es) \<Longrightarrow> secret_read cm s (pre @ es @ es')"
  "expiring X cm (pre @ es) \<Longrightarrow> expiring X cm (pre @ es @ es')"
  using cert_reads_kept [of _ _ _ "pre @ es"] cert_reads_kept(3) [of _ _ "pre @ es"] cert_reads_kept(4) [of _ _ "pre @ es"] by auto

definition timely_name :: "cert_manager \<Rightarrow> string \<Rightarrow> event list \<Rightarrow> bool" where
  "timely_name cm n pre \<longleftrightarrow> (\<exists>podName ck. EvClock ck \<in> set pre \<and> n = csrNameFor cm podName (ckNow ck))"

lemma guarded_useExistingCSR:
  assumes "EvCreate VirtualClient (OCSR (newCSR X cm n der)) (Inl e) \<in> set pre" and "IsAlreadyExists e"
  shows "guarded (cert_guard X cm) pre (useExistingCSR A cm n err) (\<lambda>r pre'. \<forall>x. r = Inr x \<longrightarrow> submitted X cm n pre')"
proof -
  have sub: "submitted X cm n (pre @ [EvGet VirtualClient KCSR '''' n a])" if "decode the_csr a = Inr c" for a c
    unfolding submitted_def
    by (rule exI [of _ der], rule exI [of _ "Inl e"], intro conjI disjI2, simp add: assms)
      (use assms(2) that in \<open>auto simp: decode_Inr\<close>)
  show ?thesis
    unfolding useExistingCSR_def get_csr_def
    by (intro guarded_bind guarded_ops guarded_return guarded_sum guarded_if guarded_on_ok_wrap_then [OF guarded_approveCSR])
      (auto intro: sub cert_reads_kept(1) [OF sub, simplified])
qed

lemma guarded_deleteCSR:
  assumes "submitted X cm n pre" and "\<And>r es. Q r (pre @ es)"
  shows "guarded (cert_guard X cm) pre (deleteCSR A n) Q"
  unfolding deleteCSR_def by (intro guarded_ops) (use assms in auto)

lemma guarded_afterSubmit:
  "guarded (cert_guard X cm) (pre @ [EvCreate VirtualClient (OCSR (newCSR X cm n der)) a])
    (case decode the_csr a of Inr _ \<Rightarrow> return (Inr ()) | Inl err \<Rightarrow> (if IsAlreadyExists err then useExistingCSR A cm n err
       else return (Inl (Wrapf ''failed to submit CSR'' err)))) (\<lambda>r pre'. \<forall>x. r = Inr x \<longrightarrow> submitted X cm n pre')"
  by (intro guarded_sum guarded_if guarded_return guarded_useExistingCSR [where der = der])
    (auto simp: submitted_def decode_def split: sum.splits option.splits)

lemma guarded_approveAndWait:
  assumes "submitted X cm n pre"
  shows "guarded (cert_guard X cm) pre (approveAndWait E A cm n) (\<lambda>r pre'. \<forall>c. r = Inr c \<longrightarrow> issued X cm c pre')"
  unfolding approveAndWait_def
  by (intro guarded_bind_then [OF guarded_approveCSR [OF assms]] guarded_sum guarded_bind [of _ _ "deleteCSR A n"] guarded_deleteCSR
      guarded_return guarded_bind_then [OF guarded_waitForCertificateWithRetry])
    (auto simp: assms simp flip: append_assoc)

lemma guarded_requestCertificate:
  assumes "timely_name cm n pre"
  shows "guarded (cert_guard X cm) pre (requestCertificate X E A cm n der) (\<lambda>r pre'. \<forall>c. r = Inr c \<longrightarrow> issued X cm c pre')"
  unfolding requestCertificate_def submitCSR_def
  by (intro guarded_bind guarded_ops guarded_return guarded_on_ok_then [OF guarded_afterSubmit] guarded_approveAndWait)
    (use assms in \<open>auto simp: timely_name_def\<close>)

lemma guarded_generateCertificateDataOnce:
  "guarded (cert_guard X cm) pre (generateCertificateDataOnce X E A cm) (\<lambda>r pre'. \<forall>x. r = Inr x \<longrightarrow> issued X cm (fst x) pre')"
proof -
  have ip: "guarded (cert_guard X cm) pre (getPodIP E A) (\<lambda>_ _. True)"
    unfolding getPodIP_def get_pod_def on_ok_wrap_def by (intro gvcg TrueI) simp_all
  have csr: "guarded (cert_guard X cm) pre (createCSR X cm key podIP) (\<lambda>_ _. True)" for pre key podIP
    unfolding createCSR_def on_ok_wrap_def by (intro gvcg TrueI)
  have key: "guarded (cert_guard X cm) pre (outside (xGenerateKey X)) (\<lambda>_ _. True)" for pre
    by (intro gvcg TrueI)
  have name: "guarded (cert_guard X cm) pre (generateUniqueCSRName E A cm) (\<lambda>n pre'. timely_name cm n pre')" for pre
    unfolding generateUniqueCSRName_def Let_def by (intro gvcg) (auto simp: timely_name_def)
  show ?thesis
    unfolding generateCertificateDataOnce_def
    by (intro guarded_on_ok_wrap_then [OF ip] guarded_on_ok_wrap_then [OF key] guarded_on_ok_wrap_then [OF csr]
        guarded_bind_then [OF name] guarded_on_ok_then [OF guarded_requestCertificate] guarded_return) auto
qed

lemma guarded_generateCertificateData:
  "guarded (cert_guard X cm) pre (generateCertificateData X E A cm) (\<lambda>r pre'. \<forall>x. r = Inr x \<longrightarrow> issued X cm (fst x) pre')"
proof -
  have "guarded (cert_guard X cm) pre (generateAttempts X E A cm attempt left) (\<lambda>r pre'. \<forall>x. r = Inr x \<longrightarrow> issued X cm (fst x) pre')"
    for attempt left
  proof (induction left arbitrary: attempt pre)
    case 0
    then show ?case by (auto intro: guarded_return)
  next
    case (Suc left)
    show ?case
      unfolding generateAttempts.simps
      by (rule guarded_bind_then [OF guarded_generateCertificateDataOnce])
        (auto simp del: split_paired_All intro!: gvcg Suc.IH split: sum.splits option.splits)
  qed
  then show ?thesis unfolding generateCertificateData_def .
qed

lemma guarded_getExistingSecret:
  "guarded (cert_guard X cm) pre (getExistingSecret A cm (defaultSecretName cm)) (\<lambda>r pre'. \<forall>s. r = Inr s \<longrightarrow> secret_read cm s pre')"
  unfolding getExistingSecret_def get_secret_def on_ok_def by (intro gvcg) (auto simp: secret_read_def decode_simps)

lemma guarded_createTLSSecretWithAutoApproval:
  "guarded (cert_guard X cm) pre (createTLSSecretWithAutoApproval X E A cm (defaultSecretName cm)) (\<lambda>_ _. True)"
proof -
  have create: "guarded (cert_guard X cm) pre (createTLSSecret X A cm (defaultSecretName cm) c k) (\<lambda>_ _. True)"
    if "issued X cm c pre" for pre c k
    unfolding createTLSSecret_def by (intro gvcg TrueI) (use that in auto)
  show ?thesis
    unfolding createTLSSecretWithAutoApproval_def
    by (intro guarded_on_ok_wrap_then [OF guarded_generateCertificateData] guarded_prod guarded_bind_then [OF create] guarded_sum
        guarded_return guarded_if guarded_bind_then [OF guarded_getExistingSecret] TrueI) auto
qed

lemma guarded_renewCertificate:
  assumes "expiring X cm pre"
  shows "guarded (cert_guard X cm) pre (renewCertificate X E A cm (defaultSecretName cm)) (\<lambda>_ _. True)"
proof -
  have read: "guarded (cert_guard X cm) pre (get_secret A VirtualClient (cmNamespace cm) (defaultSecretName cm))
      (\<lambda>r pre'. \<forall>s. r = Inr s \<longrightarrow> secret_read cm s pre')" for pre
    unfolding get_secret_def by (intro gvcg) (auto simp: secret_read_def decode_simps)
  have store: "guarded (cert_guard X cm) pre' (do {
       now \<leftarrow> Now A;
       on_ok_wrap ''failed to update existing secret'' (Update A VirtualClient (OSecret (renewedSecret X s c k (ckRFC3339 now))))
         (\<lambda>_. return (Inr ())) }) (\<lambda>_ _. True)"
    if "expiring X cm pre'" and "issued X cm c pre'" and "secret_read cm s pre'" for pre' c k s
  proof -
    have "cert_guard X cm (pre' @ [EvClock ck]) (EvUpdate VirtualClient (OSecret (renewedSecret X s c k (ckRFC3339 ck))) r)" for ck r
      unfolding cert_guard.simps using that cert_reads_kept by blast
    then show ?thesis unfolding on_ok_wrap_def by (intro gvcg) simp_all
  qed
  show ?thesis
    unfolding renewCertificate_def
    by (rule guarded_on_ok_wrap_then [OF guarded_generateCertificateData])
      (auto simp: assms intro!: guarded_on_ok_wrap_then [OF read] store)
qed

lemma guarded_checkAndRenewCertificate: "guarded (cert_guard X cm) pre (checkAndRenewCertificate X E A cm) (\<lambda>_ _. True)"
proof -
  have needs: "guarded (cert_guard X cm) pre (needsCertificateRenewal X A s) (\<lambda>r pre'. \<forall>d. r = Inr (True, d) \<longrightarrow> expiring X cm pre')"
    if "secret_read cm s pre" and "getSpecifiedSecretName cm = ''''" for pre s
    unfolding needsCertificateRenewal_def on_ok_def Let_def
    by (intro gvcg) (use that in \<open>auto simp: expiring_def intro!: exI [of _ s] gvcg split: sum.splits\<close>)
  show ?thesis
    unfolding checkAndRenewCertificate_def
    by (intro guarded_if guarded_return TrueI guarded_bind_then [OF guarded_getExistingSecret] guarded_sum
        guarded_bind_then [OF needs] guarded_prod guarded_bind_then [OF guarded_renewCertificate]) auto
qed

lemma guarded_renewalLoop: "guarded (cert_guard X cm) pre (renewalLoop X E A cm es) (\<lambda>_ _. True)"
proof (induction es arbitrary: pre)
  case (Cons e es)
  then show ?case
    by (cases e) (auto intro!: guarded_return guarded_bind_then [OF guarded_checkAndRenewCertificate])
qed (simp add: guarded_return)

lemma guarded_deleteOrphans:
  assumes "EvList VirtualClient KCSR list_all_objs (Inr items) \<in> set pre" and "OCSR ` set csrs \<subseteq> set items"
  shows "guarded (cert_guard X cm) pre (deleteOrphans A cm csrs) (\<lambda>_ _. True)"
  using assms
proof (induction csrs arbitrary: pre)
  case (Cons c csrs)
  then show ?case
    unfolding deleteOrphans.simps deleteCSR_def
    by (intro guarded_bind guarded_if guarded_return guarded_ops) auto
qed (simp add: guarded_return)

lemma guarded_ForceCleanupAll: "guarded (cert_guard X cm) pre (ForceCleanupAll A cm) (\<lambda>_ _. True)"
proof -
  have certs: "guarded (cert_guard X cm) pre (CleanupCertificates A cm) (\<lambda>_ _. True)" for pre
    unfolding CleanupCertificates_def cleanupAutoManagedSecret_def get_secret_def
    by (intro gvcg TrueI) (auto simp: secret_read_def decode_simps)
  have csrs: "guarded (cert_guard X cm) pre (CleanupOrphanedCSRs A cm) (\<lambda>_ _. True)" for pre
    unfolding CleanupOrphanedCSRs_def on_ok_wrap_def
    by (intro guarded_bind guarded_ops guarded_sum guarded_return TrueI guarded_mono [OF guarded_deleteOrphans])
      (auto simp: map_filter_def image_iff)
  have stop: "guarded (cert_guard X cm) pre StopAutoRenewal (\<lambda>_ _. True)" for pre
    unfolding StopAutoRenewal_def by (intro gvcg TrueI) simp
  show ?thesis
    unfolding ForceCleanupAll_def Let_def
    by (intro guarded_bind_then [OF certs] guarded_bind_then [OF csrs] guarded_bind_then [OF stop] guarded_return TrueI)
qed

section \<open>Properties\<close>

text \<open>
  C26. Whatever the certificate manager does, every write comes after what justifies it: a request is submitted under a name made
  of the binding's name and a time just read, in the name of this node only; an approval is added only to the request of such a
  name that the server accepted, or that was there already and was read, as it was read and only while nobody decided on it; a certificate is
  stored, by creation or renewal, only if such a request carried it, and renewal replaces only the managed secret it read, when
  its certificate ends within 30 days; a request is deleted if it is such a request or a listing showed it with the
  binding's prefix, the secret only after its labels were seen. Secrets named by the user are never written. A request that was there
  already need not be that of this run: nobody compares it with the request that was sent.
\<close>

theorem certificates_ordered:
  "tspec (GetOrCreateTLSSecret X E A cm) w (\<lambda>_ evs _. ordered (cert_guard X cm) [] evs) \<and>
   tspec (renewalLoop X E A cm es) w (\<lambda>_ evs _. ordered (cert_guard X cm) [] evs) \<and>
   tspec (ForceCleanupAll A cm) w' (\<lambda>_ evs _. ordered (cert_guard X cm) [] evs)"
proof -
  have "guarded (cert_guard X cm) [] (GetOrCreateTLSSecret X E A cm) (\<lambda>_ _. True)"
    unfolding GetOrCreateTLSSecret_def
    by (intro guarded_bind_then [OF guarded_getExistingSecret] guarded_sum guarded_return TrueI
        guarded_createTLSSecretWithAutoApproval)
  from guarded_ordered [OF this] guarded_ordered [OF guarded_renewalLoop] guarded_ordered [OF guarded_ForceCleanupAll]
  show ?thesis by blast
qed

fun pendingFrom :: "string set \<Rightarrow> event list \<Rightarrow> string set" where
  "pendingFrom S [] = S"
| "pendingFrom S (e # es) = pendingFrom (case e of
     EvCreate _ (OCSR c) (Inr (OCSR _)) \<Rightarrow> insert (mName (csrMeta c)) S
   | EvDelete _ KCSR _ n _ _ \<Rightarrow> S - {n}
   | _ \<Rightarrow> S) es"

fun requests :: "event list \<Rightarrow> nat" where
  "requests [] = 0"
| "requests (e # es) = (case e of EvCreate _ (OCSR _) _ \<Rightarrow> 1 | _ \<Rightarrow> 0) + requests es"

lemma pendingFrom_append [simp]: "pendingFrom S (es @ es') = pendingFrom (pendingFrom S es) es'"
  by (induction S es rule: pendingFrom.induct) simp_all

lemma requests_append [simp]: "requests (es @ es') = requests es + requests es'"
  by (induction es) simp_all

text \<open>Calls that neither submit nor delete a request.\<close>

fun aside :: "event \<Rightarrow> bool" where
  "aside (EvGet _ _ _ _ _) = True"
| "aside (EvClock _) = True"
| "aside (EvSubUpdate _ _ _ _) = True"
| "aside _ = False"

definition neutral :: "event list \<Rightarrow> bool" where
  "neutral es \<longleftrightarrow> (\<forall>S. pendingFrom S es = S) \<and> requests es = 0"

lemma aside_neutral: "list_all aside es \<Longrightarrow> neutral es"
proof (induction es)
  case (Cons e es)
  then show ?case by (cases e) (simp_all add: neutral_def)
qed (simp add: neutral_def)

lemma tspec_aside:
  assumes "quiet m aside" and "\<And>r evs w'. neutral evs \<Longrightarrow> Q r evs w'"
  shows "tspec m w Q"
  by (rule tspec_calls [OF calls_quiet [OF assms(1)]]) (blast intro: assms(2) aside_neutral)

lemma quiet_aside [quiet_rules]:
  "quiet (approveCSR A cm n) aside" "quiet (get_csr A n) aside" "quiet (getPodIP E A) aside" "quiet (createCSR X cm k ip) aside"
  "quiet (generateUniqueCSRName E A cm) aside"
  unfolding approveCSR_def get_csr_def getPodIP_def createCSR_def generateUniqueCSRName_def Let_def
  by (intro quiet_rules; simp)+

lemma quiet_useExistingCSR [quiet_rules]: "quiet (useExistingCSR A cm n err) aside"
  unfolding useExistingCSR_def by (intro quiet_rules)

lemma quiet_poll [quiet_rules]: "quiet (pollCertificate A n ticks) aside"
  by (induction ticks) (auto intro!: quiet_rules split: option.splits)

lemma quiet_waitForCertificateWithRetry [quiet_rules]: "quiet (waitForCertificateWithRetry E A n timeout) aside"
proof -
  have "quiet (waitAttempts E A n timeout attempt left) aside" for attempt left
    by (induction left arbitrary: attempt) (auto simp: waitForCertificate_def intro!: quiet_rules)
  then show ?thesis unfolding waitForCertificateWithRetry_def .
qed

definition settled :: "nat \<Rightarrow> event list \<Rightarrow> bool" where
  "settled k evs \<longleftrightarrow> pendingFrom {} evs = {} \<and> requests evs \<le> k"

lemma settled_neutral: "neutral es \<Longrightarrow> settled k (es @ es') \<longleftrightarrow> settled k es'" "neutral es \<Longrightarrow> settled k es"
  by (simp_all add: settled_def neutral_def)

lemma submitCSR_pending:
  "tspec (submitCSR X A cm n der) w (\<lambda>r evs _. requests evs = 1 \<and> pendingFrom {} evs = (case r of Inl _ \<Rightarrow> {} | Inr _ \<Rightarrow> {n}))"
proof -
  let ?ev = "\<lambda>a. EvCreate VirtualClient (OCSR (newCSR X cm n der)) a"
  have "pendingFrom {} [?ev a] = (case decode the_csr a of Inl _ \<Rightarrow> {} | Inr _ \<Rightarrow> {n})" for a
  proof (cases a)
    case (Inr ob)
    then show ?thesis by (cases ob) (simp_all add: decode_def newCSR_def Let_def)
  qed (simp add: decode_def)
  then show ?thesis
    unfolding submitCSR_def by (intro tspec_bind tspec_ops tspec_return) simp
qed

lemma approveAndWait_removes:
  "tspec (approveAndWait E A cm n) w (\<lambda>_ evs _. (\<forall>S. pendingFrom S evs = S - {n}) \<and> requests evs = 0)"
  unfolding approveAndWait_def deleteCSR_def
  by (intro tspec_bind tspec_aside [OF quiet_aside(1)] tspec_sum tspec_ops tspec_return
      tspec_aside [OF quiet_waitForCertificateWithRetry]) (simp_all add: neutral_def)

lemma requestCertificate_settled: "tspec (requestCertificate X E A cm n der) w (\<lambda>_ evs _. settled 1 evs)"
proof -
  have finish: "tspec (approveAndWait E A cm n) w (\<lambda>_ evs' _. settled 1 (evs @ evs'))"
    if "requests evs = 1" and "pendingFrom {} evs \<subseteq> {n}" for evs w
    by (rule tspec_mono [OF approveAndWait_removes]) (use that in \<open>auto simp: settled_def\<close>)
  have existing: "tspec (useExistingCSR A cm n err) w (\<lambda>_ evs' _. requests (evs @ evs') = 1 \<and> pendingFrom {} (evs @ evs') = {})"
    if "requests evs = 1" and "pendingFrom {} evs = {}" for err w evs
    by (rule tspec_aside [OF quiet_useExistingCSR]) (use that in \<open>simp add: neutral_def\<close>)
  have after: "tspec (on_ok (case r of Inr _ \<Rightarrow> return (Inr ())
        | Inl err \<Rightarrow> (if IsAlreadyExists err then useExistingCSR A cm n err else return (Inl (Wrapf ''failed to submit CSR'' err))))
      (\<lambda>_. approveAndWait E A cm n)) w (\<lambda>_ evs' _. settled 1 (evs @ evs'))"
    if "requests evs = 1" and "pendingFrom {} evs = (case r of Inl _ \<Rightarrow> {} | Inr _ \<Rightarrow> {n})" for r :: "csr res" and evs w
  proof (cases r)
    case (Inl err)
    then show ?thesis
      using that by (auto simp: settled_def intro!: tspec_on_ok tspec_return tspec_mono [OF existing [of evs]]
        tspec_mono [OF approveAndWait_removes])
  next
    case (Inr c)
    then show ?thesis using that finish [of evs] by (auto intro!: tspec_on_ok tspec_return)
  qed
  show ?thesis
    unfolding requestCertificate_def by (intro tspec_bind tspec_mono [OF submitCSR_pending] after) simp_all
qed

lemma generateCertificateDataOnce_settled: "tspec (generateCertificateDataOnce X E A cm) w (\<lambda>_ evs _. settled 1 evs)"
proof -
  have request: "tspec (on_ok (requestCertificate X E A cm n der) (\<lambda>c. return (Inr (c, k)))) w (\<lambda>_ evs _. settled 1 evs)"
    for n der w and k :: string
    by (intro tspec_on_ok tspec_mono [OF requestCertificate_settled]) (auto intro: tspec_return)
  show ?thesis
    unfolding generateCertificateDataOnce_def
    by (intro tspec_on_ok_wrap tspec_aside [OF quiet_aside(3)] tspec_aside [OF quiet_outside]
        tspec_aside [OF quiet_aside(4)] conjI allI impI tspec_bind tspec_aside [OF quiet_aside(5)] tspec_mono [OF request])
      (simp_all add: settled_neutral)
qed

text \<open>
  A certificate is obtained with at most three requests, and none is left behind: whatever the answers, every request that the
  server accepted has been deleted again (or its deletion attempted) when the function returns. So it is for the first
  certificate and for a renewal; the function always returns.
\<close>

theorem requests_bounded:
  "tspec (generateCertificateData X E A cm) w (\<lambda>_ evs _. pendingFrom {} evs = {} \<and> requests evs \<le> 3)"
proof -
  have "tspec (generateAttempts X E A cm attempt left) w (\<lambda>_ evs _. settled left evs)" for attempt left
  proof (induction left arbitrary: attempt w)
    case 0
    then show ?case by (simp add: settled_def tspec_return)
  next
    case (Suc left)
    have "tspec (generateAttempts X E A cm attempt left) w (\<lambda>_ evs' _. settled (Suc left) (evs @ evs'))" if "settled 1 evs"
      for attempt evs and w :: "('a, 'b) world_scheme"
      by (rule tspec_mono [OF Suc.IH]) (use that in \<open>auto simp: settled_def\<close>)
    then show ?case
      unfolding generateAttempts.simps
      by (intro tspec_bind tspec_mono [OF generateCertificateDataOnce_settled])
        (auto simp: settled_def intro!: tspec_sum tspec_return tspec_if tspec_bind tspec_outside tspec_option)
  qed
  from this [of 1 maxRetries] show ?thesis
    unfolding generateCertificateData_def settled_def maxRetries_def by simp
qed

text \<open>The secret that is created or renewed passes the tests for use and for cleanup by the manager of the same binding.\<close>

lemma stored_secret_usable:
  assumes "s = tlsSecret X cm n c k \<or> s = renewedSecret X s0 c k stamp \<and> isAutoManagedSecret cm s0"
  shows "isAutoManagedSecret cm s" and "seData s ''tls.crt'' = Some c" and "seData s ''tls.key'' \<noteq> None"
  using assms by (auto simp: tlsSecret_def renewedSecret_def isAutoManagedSecret_def)

lemma prefix_of_longer_binding:
  assumes "mName (bMeta (cmBinding cm')) = mName (bMeta (cmBinding cm)) @ ''-'' @ x"
  shows "HasPrefix (csrNameFor cm' podName t) (csrPrefix cm)"
proof -
  have "csrNameFor cm' podName t = csrPrefix cm @ x @ ''-'' @ podName @ ''-'' @ Itoa t"
    using assms by (simp add: csrNameFor_def csrPrefix_def)
  then show ?thesis by (simp add: HasPrefix_append)
qed

lemma quiet_deleteOrphans: "quiet (deleteOrphans A cm csrs) (\<lambda>e. \<exists>n r. e = EvDelete VirtualClient KCSR '''' n no_opts r)"
  by (induction csrs) (auto simp: deleteCSR_def intro!: quiet_rules)

lemma deleteOrphans_all:
  assumes "csr \<in> set csrs" and "HasPrefix (mName (csrMeta csr)) (csrPrefix cm)"
  shows "tspec (deleteOrphans A cm csrs) w (\<lambda>_ evs _. \<exists>r. EvDelete VirtualClient KCSR '''' (mName (csrMeta csr)) no_opts r \<in> set evs)"
  using assms(1)
proof (induction csrs arbitrary: w)
  case (Cons c csrs)
  show ?case
  proof (cases "c = csr")
    case True
    then show ?thesis
      using assms(2) unfolding deleteOrphans.simps deleteCSR_def
      by (auto intro!: tspec_bind tspec_ops tspec_return tspec_quiet [OF quiet_deleteOrphans])
  next
    case False
    then have IH: "tspec (deleteOrphans A cm csrs) w (\<lambda>_ evs _. \<exists>r. EvDelete VirtualClient KCSR '''' (mName (csrMeta csr)) no_opts r \<in> set evs)"
      for w :: "('a, 'b) world_scheme" using Cons by simp
    show ?thesis
      unfolding deleteOrphans.simps deleteCSR_def
      by (intro tspec_bind tspec_if tspec_ops tspec_return tspec_mono [OF IH]) auto
  qed
qed simp

text \<open>
  The cleanup takes every request whose name begins with the binding's name and a dash for an orphan of this binding. A binding
  whose name continues another's after a dash loses its requests to it: when the shorter one is deleted, the
  pending requests of the longer one are deleted too.
\<close>

theorem orphan_cleanup_reaches_others:
  fixes w :: "('s, 'm) world_scheme"
  assumes "mName (bMeta (cmBinding cm')) = mName (bMeta (cmBinding cm)) @ ''-'' @ x"
    and "c = newCSR X cm' (csrNameFor cm' podName t) der"
  shows "tspec (CleanupOrphanedCSRs A cm) w (\<lambda>_ evs _. \<forall>items. EvList VirtualClient KCSR list_all_objs (Inr items) \<in> set evs \<and>
     OCSR c \<in> set items \<longrightarrow> (\<exists>r. EvDelete VirtualClient KCSR '''' (csrNameFor cm' podName t) no_opts r \<in> set evs))"
proof -
  have name: "mName (csrMeta c) = csrNameFor cm' podName t" by (simp add: assms(2) newCSR_def Let_def)
  have quiet: "tspec (deleteOrphans A cm csrs) w (\<lambda>_ evs _. \<forall>items. EvList VirtualClient KCSR list_all_objs (Inr items) \<notin> set evs)" for csrs
    and w :: "('s, 'm) world_scheme"
    by (rule tspec_quiet [OF quiet_deleteOrphans]) (auto simp: list_all_iff)
  have deleted: "tspec (deleteOrphans A cm (List.map_filter the_csr items)) w (\<lambda>_ evs _. OCSR c \<in> set items \<longrightarrow>
      (\<exists>r. EvDelete VirtualClient KCSR '''' (csrNameFor cm' podName t) no_opts r \<in> set evs))" for items and w :: "('s, 'm) world_scheme"
  proof (cases "OCSR c \<in> set items")
    case True
    then have "c \<in> set (List.map_filter the_csr items)" by (force simp: map_filter_def)
    then show ?thesis
      by (rule tspec_mono [OF deleteOrphans_all]) (use prefix_of_longer_binding [OF assms(1)] name in auto)
  next
    case False
    then show ?thesis by (intro tspec_mono [OF quiet]) simp
  qed
  note all = tspec_conj [OF quiet deleted]
  show ?thesis
    unfolding CleanupOrphanedCSRs_def
    by (intro tspec_on_ok_wrap tspec_ops conjI allI impI tspec_bind tspec_return tspec_mono [OF all]) auto
qed

definition binding_named :: "string \<Rightarrow> cluster_binding" where
  "binding_named n = \<lparr>bMeta = empty_meta\<lparr>mName := n\<rparr>, bClusterID = ''c'', bNodeSelector = None, bMountNamespace = ''m'',
     bDisableNodeDefaultTaint = False, bPodPriorityClassName = '''', bRunningDaemonsetByDefault = False, bDirectScheduling = False,
     bSecretRef = \<lparr>srName = '''', srNamespace = ''''\<rparr>, bServiceNamespaces = [], bPhase = '''', bConditions = [], bLastSyncTime = None\<rparr>"

definition plain_x509 :: "'s x509_lib" where
  "plain_x509 = \<lparr>xGenerateKey = (\<lambda>s. (Inr ''key'', s)), xCreateRequest = (\<lambda>_ k s. (Inr k, s)), xMarshalKey = (\<lambda>k. k),
     xEncodePEM = (\<lambda>t b. t @ b), xDecodePEM = Some, xParseCertificate = (\<lambda>_. Inl (Errorf ''unused'')), xParseIP = Some\<rparr>"

theorem orphan_cleanup_reaches_others_witness:
  "let cm = NewCertificateManager (binding_named ''a'') ''ns''; cm' = NewCertificateManager (binding_named ''a-b'') ''ns'';
       c = newCSR plain_x509 cm' (csrNameFor cm' ''p'' 5) ''der''
   in tspec (CleanupOrphanedCSRs scripted cm) \<lparr>srv = [AList (Inr [OCSR c]), AUnit (Inr ())], hist = []\<rparr>
     (\<lambda>_ evs _. \<forall>items. EvList VirtualClient KCSR list_all_objs (Inr items) \<in> set evs \<and> OCSR c \<in> set items \<longrightarrow>
       (\<exists>r. EvDelete VirtualClient KCSR '''' (csrNameFor cm' ''p'' 5) no_opts r \<in> set evs))"
  unfolding Let_def
  by (rule orphan_cleanup_reaches_others [where x = "''b''", OF _ refl]) (simp add: NewCertificateManager_def binding_named_def)

end
