(* ===== verification/Binding_Manager.thy ===== *)
theory Binding_Manager
  imports Binding_Syncer Cert_Manager
begin

text \<open>
  \<^verbatim>\<open>pkg/manager/controller/clusterbinding_controller.go\<close>: the manager's controller for cluster bindings. It checks a binding and the
  connection to its cluster, creates the deployments of a syncer and a proxier and the proxier's service from mounted
  templates, keeps the status of the binding, and removes all that when the binding goes, after the syncer released
  it. Its memory are two tables that keep cluster IDs unique, and the stop channel of the
  certificate manager it creates for a cleanup. Files, template engine, YAML decoder and the clients of other clusters are
  the parameter \<open>manager_lib\<close>. Resource versions, like everywhere in this development, are left to the server, and the
  counters of the metrics endpoint are left out. File contents are taken to be ASCII.
\<close>

definition ClusterBindingManagerFinalizer :: string where [kube_consts]:
  "ClusterBindingManagerFinalizer = ''kubeocean.io/clusterbinding-manager''"

definition DefaultSyncerName :: string where "DefaultSyncerName = ''kubeocean-syncer''"
definition DefaultProxierName :: string where "DefaultProxierName = ''kubeocean-proxier''"
definition PhaseFailed :: string where "PhaseFailed = ''Failed''"

record SyncerTemplateData =
  stClusterBindingName :: string
  stDeploymentName :: string
  stServiceAccountName :: string
  stClusterRoleName :: string
  stClusterRoleBindingName :: string
  stSyncerNamespace :: string

record ProxierTemplateData =
  ptClusterBindingName :: string
  ptDeploymentName :: string
  ptServiceAccountName :: string
  ptServiceName :: string
  ptClusterRoleName :: string
  ptClusterRoleBindingName :: string
  ptProxierNamespace :: string
  ptTLSEnabled :: bool
  ptTLSSecretName :: string
  ptTLSSecretNamespace :: string

datatype template_data = SyncerData SyncerTemplateData | ProxierData ProxierTemplateData

text \<open>
  \<open>mgDecode\<close> gives \<open>None\<close> for an object without metadata. \<open>mgServerVersion\<close> and \<open>mgListNodes\<close> are requests to the other cluster.
\<close>

record ('s, 'c, 'k, 't) manager_lib =
  mgGetenv :: "string \<Rightarrow> string"
  mgReadFile :: "string \<Rightarrow> 's \<Rightarrow> string res \<times> 's"
  mgParseTemplate :: "string \<Rightarrow> string \<Rightarrow> 't res"
  mgExecuteTemplate :: "'t \<Rightarrow> template_data \<Rightarrow> string res"
  mgDecode :: "string \<Rightarrow> obj option res"
  mgRESTConfig :: "string \<Rightarrow> 'c res"
  mgNewForConfig :: "int \<Rightarrow> 'c \<Rightarrow> 'k res"
  mgServerVersion :: "'k \<Rightarrow> 's \<Rightarrow> unit res \<times> 's"
  mgListNodes :: "'k \<Rightarrow> 's \<Rightarrow> unit res \<times> 's"

record id_tables =
  nameToClusterID :: "string \<rightharpoonup> string"
  clusterIDToName :: "string \<rightharpoonup> string"

record 's manager_world = "'s cert_world" +
  mwIDs :: id_tables

type_synonym ('s, 'm, 'a) manager_prog = "(('s, 'm) manager_world_scheme, 'a) state"

definition NewClusterBindingReconciler :: id_tables where
  "NewClusterBindingReconciler = \<lparr>nameToClusterID = Map.empty, clusterIDToName = Map.empty\<rparr>"

section \<open>Validation\<close>

definition validateClusterIDConsistency :: "cluster_binding \<Rightarrow> id_tables \<Rightarrow> err option \<times> id_tables" where
  "validateClusterIDConsistency clusterBinding T =
    (let bindingName = mName (bMeta clusterBinding); currentClusterID = bClusterID clusterBinding
     in case nameToClusterID T bindingName of
         Some existingClusterID \<Rightarrow>
           if existingClusterID \<noteq> currentClusterID
           then (Some (Errorf (''clusterID cannot be changed for ClusterBinding '' @ bindingName @ '': existing='' @ existingClusterID @
              '', new='' @ currentClusterID)), T)
           else (case clusterIDToName T currentClusterID of
               Some existingBindingName \<Rightarrow>
                 if existingBindingName \<noteq> bindingName
                 then (Some (Errorf (''clusterID '' @ currentClusterID @ '' is already used by ClusterBinding '' @ existingBindingName @
                    '', cannot be used by '' @ bindingName)), T)
                 else (None, T)
             | None \<Rightarrow> (None, T\<lparr>clusterIDToName := (clusterIDToName T)(currentClusterID \<mapsto> bindingName)\<rparr>))
       | None \<Rightarrow>
           (let T = T\<lparr>nameToClusterID := (nameToClusterID T)(bindingName \<mapsto> currentClusterID)\<rparr>
            in case clusterIDToName T currentClusterID of
               Some existingBindingName \<Rightarrow>
                 if existingBindingName \<noteq> bindingName
                 then (Some (Errorf (''clusterID '' @ currentClusterID @ '' is already used by ClusterBinding '' @ existingBindingName @
                    '', cannot be used by '' @ bindingName)), T)
                 else (None, T)
             | None \<Rightarrow> (None, T\<lparr>clusterIDToName := (clusterIDToName T)(currentClusterID \<mapsto> bindingName)\<rparr>)))"

definition cleanupClusterIDMappings :: "cluster_binding \<Rightarrow> id_tables \<Rightarrow> id_tables" where
  "cleanupClusterIDMappings clusterBinding T = T\<lparr>
     nameToClusterID := (nameToClusterID T)(mName (bMeta clusterBinding) := None),
     clusterIDToName := (clusterIDToName T)(bClusterID clusterBinding := None)\<rparr>"

fun emptyNamespace :: "nat \<Rightarrow> string list \<Rightarrow> nat option" where
  "emptyNamespace i [] = None"
| "emptyNamespace i (ns # nss) = (if ns = '''' then Some i else emptyNamespace (i + 1) nss)"

definition validateReferences :: "cluster_binding \<Rightarrow> err option" where
  "validateReferences b =
    (if srName (bSecretRef b) = '''' then Some (Errorf ''secretRef.name is required'')
     else if srNamespace (bSecretRef b) = '''' then Some (Errorf ''secretRef.namespace is required'')
     else if bMountNamespace b = '''' then Some (Errorf ''mountNamespace is required'')
     else (case emptyNamespace 0 (bServiceNamespaces b) of
         Some i \<Rightarrow> Some (Errorf (''serviceNamespaces['' @ show_nat i @ ''] cannot be empty''))
       | None \<Rightarrow> None))"

definition validateClusterBinding :: "cluster_binding \<Rightarrow> ('s, 'm, err option) manager_prog" where
  "validateClusterBinding b =
    (if bClusterID b = '''' then return (Some (Errorf ''clusterID is required''))
     else do {
       T \<leftarrow> reads mwIDs;
       let (e, T') = validateClusterIDConsistency b T;
       modifies (mwIDs_update (\<lambda>_. T'));
       return (case e of Some e \<Rightarrow> Some e | None \<Rightarrow> validateReferences b)
     })"

section \<open>Connection\<close>

definition readKubeconfigSecret :: "'s api \<Rightarrow> secret_ref \<Rightarrow> ('s, 'm, string res) prog" where
  "readKubeconfigSecret A ref = do {
     got \<leftarrow> get_secret A VirtualClient (srNamespace ref) (srName ref);
     return (case got of
       Inl err \<Rightarrow> (if IsNotFound err then Inl (Errorf (''kubeconfig secret '' @ srNamespace ref @ ''/'' @ srName ref @ '' not found''))
         else Inl (Wrapf ''failed to get kubeconfig secret'' err))
     | Inr secret \<Rightarrow> (case seData secret ''kubeconfig'' of
         None \<Rightarrow> Inl (Errorf (''kubeconfig key not found in secret '' @ srNamespace ref @ ''/'' @ srName ref))
       | Some kubeconfigData \<Rightarrow>
           if length kubeconfigData = 0
           then Inl (Errorf (''kubeconfig data is empty in secret '' @ srNamespace ref @ ''/'' @ srName ref))
           else Inr kubeconfigData))
   }"

definition testClusterConnectivity :: "('s, 'c, 'k, 't) manager_lib \<Rightarrow> 'c \<Rightarrow> ('s, 'm, unit res) prog" where
  "testClusterConnectivity L config = (case mgNewForConfig L (30 * Second) config of
     Inl err \<Rightarrow> return (Inl (Wrapf ''failed to create kubernetes client'' err))
   | Inr clientset \<Rightarrow> on_ok_wrap ''failed to connect to cluster'' (outside (mgServerVersion L clientset)) (\<lambda>_. do {
       _ \<leftarrow> outside (mgListNodes L clientset);
       return (Inr ())
     }))"

definition validateKubeconfigAndConnectivity ::
  "('s, 'c, 'k, 't) manager_lib \<Rightarrow> 's api \<Rightarrow> cluster_binding \<Rightarrow> ('s, 'm, unit res) prog" where
  "validateKubeconfigAndConnectivity L A b =
     on_ok_wrap ''failed to read kubeconfig secret'' (readKubeconfigSecret A (bSecretRef b)) (\<lambda>kubeconfigData.
     on_ok_wrap ''invalid kubeconfig format'' (return (mgRESTConfig L kubeconfigData)) (\<lambda>config.
     on_ok_wrap ''cluster connectivity test failed'' (testClusterConnectivity L config) (\<lambda>_. return (Inr ()))))"

section \<open>Conditions\<close>

definition managerCondition :: "string \<Rightarrow> string \<Rightarrow> string \<Rightarrow> string \<Rightarrow> time \<Rightarrow> condition" where
  "managerCondition conditionType status reason message t = \<lparr>cdType = conditionType, cdStatus = status, cdReason = reason,
     cdMessage = message, cdLastTransitionTime = t, cdLastProbeTime = 0, cdObservedGeneration = 0\<rparr>"

definition updateCondition ::
  "'s api \<Rightarrow> cluster_binding \<Rightarrow> string \<Rightarrow> string \<Rightarrow> string \<Rightarrow> string \<Rightarrow> ('s, 'm, cluster_binding) prog" where
  "updateCondition A b conditionType status reason message = do {
     now \<leftarrow> Now A;
     case dropWhile (\<lambda>c. cdType c \<noteq> conditionType) (bConditions b) of
       existing # rest \<Rightarrow> do {
         t \<leftarrow> (if cdStatus existing \<noteq> status then do { now \<leftarrow> Now A; return (ckNow now) }
               else return (cdLastTransitionTime existing));
         return (b\<lparr>bConditions := takeWhile (\<lambda>c. cdType c \<noteq> conditionType) (bConditions b) @
           [managerCondition conditionType status reason message t] @ rest\<rparr>)
       }
     | [] \<Rightarrow> return (b\<lparr>bConditions := bConditions b @ [managerCondition conditionType status reason message (ckNow now)]\<rparr>)
   }"

section \<open>Templates\<close>

fun readNames :: "('s, 'c, 'k, 't) manager_lib \<Rightarrow> string \<Rightarrow> string list \<Rightarrow> smap \<Rightarrow> ('s, 'm, smap) prog" where
  "readNames L dir [] m = return m"
| "readNames L dir (filename # files) m = do {
     content \<leftarrow> outside (mgReadFile L (dir @ ''/'' @ filename));
     readNames L dir files (case content of Inr c \<Rightarrow> m(filename \<mapsto> TrimSpace c) | Inl _ \<Rightarrow> m)
   }"

fun readTemplates :: "('s, 'c, 'k, 't) manager_lib \<Rightarrow> string \<Rightarrow> string list \<Rightarrow> smap \<Rightarrow> ('s, 'm, smap res) prog" where
  "readTemplates L dir [] m = return (Inr m)"
| "readTemplates L dir (filename # files) m =
     on_ok_wrap (''failed to read template file '' @ filename) (outside (mgReadFile L (dir @ ''/'' @ filename))) (\<lambda>c.
       readTemplates L dir files (m(filename \<mapsto> c)))"

definition loadSyncerTemplate :: "('s, 'c, 'k, 't) manager_lib \<Rightarrow> ('s, 'm, smap res) prog" where
  "loadSyncerTemplate L = do {
     let templateDir = (if mgGetenv L ''KUBEOCEAN_SYNCER_TEMPLATE_DIR'' = '''' then ''/etc/kubeocean/syncer-template''
       else mgGetenv L ''KUBEOCEAN_SYNCER_TEMPLATE_DIR'');
     names \<leftarrow> readNames L templateDir [''serviceAccountName'', ''roleName'', ''roleBindingName'', ''syncerNamespace''] Map.empty;
     readTemplates L templateDir [''deployment.yaml''] names
   }"

definition loadProxierTemplate :: "('s, 'c, 'k, 't) manager_lib \<Rightarrow> ('s, 'm, smap res) prog" where
  "loadProxierTemplate L = do {
     let templateDir = (if mgGetenv L ''KUBEOCEAN_PROXIER_TEMPLATE_DIR'' = '''' then ''/etc/kubeocean/proxier-template''
       else mgGetenv L ''KUBEOCEAN_PROXIER_TEMPLATE_DIR'');
     names \<leftarrow> readNames L templateDir [''serviceAccountName'', ''clusterRoleName'', ''clusterRoleBindingName'', ''proxierNamespace''] Map.empty;
     readTemplates L templateDir [''deployment.yaml'', ''service.yaml''] names
   }"

definition orDefault :: "string \<Rightarrow> string \<Rightarrow> string" where
  "orDefault s d = (if s = '''' then d else s)"

definition getSyncerName :: "cluster_binding \<Rightarrow> string" where
  "getSyncerName b = ''kubeocean-syncer-'' @ bClusterID b"

definition getSyncerLabels :: "cluster_binding \<Rightarrow> smap" where
  "getSyncerLabels b = [''app.kubernetes.io/name'' \<mapsto> ''kubeocean-syncer'', ''app.kubernetes.io/instance'' \<mapsto> mName (bMeta b),
     ''app.kubernetes.io/component'' \<mapsto> ''syncer'', ''app.kubernetes.io/part-of'' \<mapsto> ''kubeocean'',
     ''app.kubernetes.io/managed-by'' \<mapsto> ''kubeocean-manager'', LabelClusterBinding \<mapsto> mName (bMeta b)]"

definition prepareSyncerTemplateData :: "cluster_binding \<Rightarrow> smap \<Rightarrow> SyncerTemplateData" where
  "prepareSyncerTemplateData b templateData = \<lparr>stClusterBindingName = mName (bMeta b), stDeploymentName = getSyncerName b,
     stServiceAccountName = orDefault (mget templateData ''serviceAccountName'') DefaultSyncerName,
     stClusterRoleName = orDefault (mget templateData ''clusterRoleName'') DefaultSyncerName,
     stClusterRoleBindingName = orDefault (mget templateData ''clusterRoleBindingName'') DefaultSyncerName,
     stSyncerNamespace = orDefault (mget templateData ''syncerNamespace'') ''kubeocean-system''\<rparr>"

definition prepareProxierTemplateData :: "cluster_binding \<Rightarrow> smap \<Rightarrow> ProxierTemplateData" where
  "prepareProxierTemplateData b templateFiles =
    (let annotations = mAnnotations (bMeta b);
         tlsEnabled = (annotations ''kubeocean.io/logs-proxy-enabled'' = Some ''true'')
     in \<lparr>ptClusterBindingName = mName (bMeta b), ptDeploymentName = DefaultProxierName @ ''-'' @ bClusterID b,
         ptServiceAccountName = mget templateFiles ''serviceAccountName'',
         ptServiceName = DefaultProxierName @ ''-'' @ bClusterID b @ ''-svc'',
         ptClusterRoleName = mget templateFiles ''clusterRoleName'',
         ptClusterRoleBindingName = mget templateFiles ''clusterRoleBindingName'',
         ptProxierNamespace = mget templateFiles ''proxierNamespace'', ptTLSEnabled = tlsEnabled,
         ptTLSSecretName = (if tlsEnabled then mget annotations ''kubeocean.io/logs-proxy-secret-name'' else ''''),
         ptTLSSecretNamespace = (if tlsEnabled
           then (case annotations ''kubeocean.io/logs-proxy-secret-namespace'' of Some ns \<Rightarrow> ns
             | None \<Rightarrow> mget templateFiles ''proxierNamespace'') else '''')\<rparr>)"

section \<open>Creation\<close>

definition managerOwner :: "cluster_binding \<Rightarrow> owner_ref" where
  "managerOwner b = \<lparr>orKind = ''ClusterBinding'', orName = mName (bMeta b), orUID = mUID (bMeta b)\<rparr>"

definition setOwnerReference :: "cluster_binding \<Rightarrow> obj option \<Rightarrow> obj res" where
  "setOwnerReference b decoded = (case decoded of
     None \<Rightarrow> Inl (Errorf ''object does not implement metav1.Object'')
   | Some ob \<Rightarrow> Inr (set_obj_meta ((obj_meta ob)\<lparr>mOwnerReferences := [managerOwner b]\<rparr>) ob))"

definition createOrUpdateResource :: "'s api \<Rightarrow> obj \<Rightarrow> ('s, 'm, unit res) prog" where
  "createOrUpdateResource A ob = do {
     got \<leftarrow> Get A VirtualClient (obj_kind ob) (mNamespace (obj_meta ob)) (mName (obj_meta ob));
     case got of
       Inl err \<Rightarrow> (if IsNotFound err then on_ok (Create A VirtualClient ob) (\<lambda>_. return (Inr ())) else return (Inl err))
     | Inr _ \<Rightarrow> (if obj_kind ob = KDeployment then return (Inr ())
         else on_ok (Update A VirtualClient ob) (\<lambda>_. return (Inr ())))
   }"

definition renderResource ::
  "('s, 'c, 'k, 't) manager_lib \<Rightarrow> cluster_binding \<Rightarrow> smap \<Rightarrow> template_data \<Rightarrow> string \<Rightarrow> obj res" where
  "renderResource L b templateFiles templateData templateName = (case templateFiles templateName of
     None \<Rightarrow> Inl (Errorf (''template '' @ templateName @ '' not found in template files''))
   | Some templateStr \<Rightarrow> (case mgParseTemplate L templateName templateStr of
       Inl err \<Rightarrow> Inl (Wrapf (''failed to parse template '' @ templateName) err)
     | Inr tmpl \<Rightarrow> (case mgExecuteTemplate L tmpl templateData of
         Inl err \<Rightarrow> Inl (Wrapf (''failed to execute template '' @ templateName) err)
       | Inr buf \<Rightarrow> (case mgDecode L buf of
           Inl err \<Rightarrow> Inl (Wrapf (''failed to decode YAML from template '' @ templateName) err)
         | Inr decoded \<Rightarrow> map_sum (Wrapf ''failed to set owner reference'') id (setOwnerReference b decoded)))))"

definition createResourceFromTemplate ::
  "('s, 'c, 'k, 't) manager_lib \<Rightarrow> 's api \<Rightarrow> cluster_binding \<Rightarrow> smap \<Rightarrow> template_data \<Rightarrow> string \<Rightarrow> ('s, 'm, unit res) prog" where
  "createResourceFromTemplate L A b templateFiles templateData templateName =
     on_ok (return (renderResource L b templateFiles templateData templateName)) (createOrUpdateResource A)"

definition reconcileKubeoceanSyncer ::
  "('s, 'c, 'k, 't) manager_lib \<Rightarrow> 's api \<Rightarrow> cluster_binding \<Rightarrow> ('s, 'm, unit res) prog" where
  "reconcileKubeoceanSyncer L A b =
     on_ok_wrap ''failed to load syncer template'' (loadSyncerTemplate L) (\<lambda>templateFiles.
     on_ok_wrap ''failed to create or update syncer deployment''
       (createResourceFromTemplate L A b templateFiles (SyncerData (prepareSyncerTemplateData b templateFiles)) ''deployment.yaml'')
       (\<lambda>_. return (Inr ())))"

definition reconcileKubeoceanProxier ::
  "('s, 'c, 'k, 't) manager_lib \<Rightarrow> 's api \<Rightarrow> cluster_binding \<Rightarrow> ('s, 'm, unit res) prog" where
  "reconcileKubeoceanProxier L A b =
     on_ok_wrap ''failed to load proxier template'' (loadProxierTemplate L) (\<lambda>templateFiles.
     on_ok_wrap ''failed to create or update proxier deployment''
       (createResourceFromTemplate L A b templateFiles (ProxierData (prepareProxierTemplateData b templateFiles)) ''deployment.yaml'') (\<lambda>_.
     on_ok_wrap ''failed to create or update proxier service''
       (createResourceFromTemplate L A b templateFiles (ProxierData (prepareProxierTemplateData b templateFiles)) ''service.yaml'')
       (\<lambda>_. return (Inr ()))))"

section \<open>Deletion\<close>

text \<open>Deleted, found, and the error.\<close>

definition findAndDeleteResource :: "'s api \<Rightarrow> kind \<Rightarrow> string \<Rightarrow> string \<Rightarrow> ('s, 'm, bool \<times> bool \<times> err option) prog" where
  "findAndDeleteResource A k ns name = do {
     got \<leftarrow> Get A VirtualClient k ns name;
     case got of
       Inl err \<Rightarrow> return (if IsNotFound err then (False, False, None) else (False, True, Some err))
     | Inr _ \<Rightarrow> do {
         r \<leftarrow> Delete A VirtualClient k ns name no_opts;
         return (case r of
           Inl err \<Rightarrow> (if IsNotFound err then (True, True, None) else (False, True, Some err))
         | Inr _ \<Rightarrow> (True, True, None))
       }
   }"

definition kind_name :: "kind \<Rightarrow> string" where
  "kind_name k = (case k of KDeployment \<Rightarrow> ''Deployment'' | _ \<Rightarrow> ''Service'')"

definition deleteResourceWithFallback ::
  "'s api \<Rightarrow> cluster_binding \<Rightarrow> kind \<Rightarrow> string \<Rightarrow> string \<Rightarrow> string \<Rightarrow> ('s, 'm, bool res) prog" where
  "deleteResourceWithFallback A b k configuredName ns defaultPrefix = do {
     (deleted, found, err) \<leftarrow> findAndDeleteResource A k ns configuredName;
     if found then return (case err of
         Some e \<Rightarrow> Inl (Wrapf (''failed to delete '' @ kind_name k @ '' with configured name '' @ configuredName) e)
       | None \<Rightarrow> Inr deleted)
     else do {
       let defaultName = defaultPrefix @ ''-'' @ bClusterID b;
       if defaultName \<noteq> configuredName then do {
         (deleted, found, err) \<leftarrow> findAndDeleteResource A k ns defaultName;
         return (if found then (case err of
             Some e \<Rightarrow> Inl (Wrapf (''failed to delete '' @ kind_name k @ '' with default pattern name '' @ defaultName) e)
           | None \<Rightarrow> Inr deleted)
           else Inr True)
       }
       else return (Inr True)
     }
   }"

definition deleteSyncerResources ::
  "('s, 'c, 'k, 't) manager_lib \<Rightarrow> 's api \<Rightarrow> cluster_binding \<Rightarrow> ('s, 'm, bool res) prog" where
  "deleteSyncerResources L A b =
     on_ok_wrap ''failed to load syncer template'' (loadSyncerTemplate L) (\<lambda>templateFiles.
       let templateData = prepareSyncerTemplateData b templateFiles
       in on_ok_wrap ''failed to delete Deployment'' (deleteResourceWithFallback A b KDeployment (stDeploymentName templateData)
            (stSyncerNamespace templateData) ''kubeocean-syncer'') (\<lambda>cleanupStatus. return (Inr cleanupStatus)))"

definition deleteProxierResources ::
  "('s, 'c, 'k, 't) manager_lib \<Rightarrow> 's api \<Rightarrow> cluster_binding \<Rightarrow> ('s, 'm, bool res) prog" where
  "deleteProxierResources L A b =
     on_ok_wrap ''failed to load proxier template'' (loadProxierTemplate L) (\<lambda>templateFiles.
       let templateData = prepareProxierTemplateData b templateFiles
       in on_ok_wrap ''failed to delete Deployment'' (deleteResourceWithFallback A b KDeployment (ptDeploymentName templateData)
            (ptProxierNamespace templateData) ''kubeocean-proxier'') (\<lambda>deploymentDeleted.
          on_ok_wrap ''failed to delete Service'' (deleteResourceWithFallback A b KService (ptServiceName templateData)
            (ptProxierNamespace templateData) ''kubeocean-proxier'') (\<lambda>serviceDeleted.
          return (Inr (deploymentDeleted \<and> serviceDeleted)))))"

text \<open>The certificate manager is new, and so is its channel.\<close>

definition cleanupAutoManagedCertificates :: "'s api \<Rightarrow> cluster_binding \<Rightarrow> ('s, 'm, unit res outcome) cert_prog" where
  "cleanupAutoManagedCertificates A b = do {
     modifies (cwStopClosed_update (\<lambda>_. False));
     ForceCleanupAll A (NewCertificateManager b ''kubeocean-system'')
   }"

definition recordBinding :: "cluster_binding \<Rightarrow> string \<Rightarrow> ('s, 'm, unit) prog" where
  "recordBinding b reason = emit (EvRecord '''' (mName (bMeta b)) reason)"

definition show_bool :: "bool \<Rightarrow> string" where
  "show_bool b = (if b then ''true'' else ''false'')"

text \<open>The end of a deletion, once both are gone.\<close>

definition releaseManaged :: "'s api \<Rightarrow> cluster_binding \<Rightarrow> ('s, 'm, unit res) manager_prog" where
  "releaseManaged A b = do {
     recordBinding b ''Cleanup'';
     modifies (mwIDs_update (cleanupClusterIDMappings b));
     on_ok (Update A VirtualClient (OBinding (b\<lparr>bMeta := RemoveFinalizer (bMeta b) ClusterBindingManagerFinalizer\<rparr>))) (\<lambda>_. do {
       recordBinding b ''Deleted'';
       return (Inr ())
     })
   }"

definition recording :: "cluster_binding \<Rightarrow> string \<Rightarrow> ('w, 'a res) state \<Rightarrow> (cluster_binding \<Rightarrow> string \<Rightarrow> ('w, unit) state) \<Rightarrow> ('w, 'a res) state" where
  "recording b reason m note = do {
     r \<leftarrow> m;
     case r of Inl e \<Rightarrow> do { note b reason; return (Inl e) } | Inr x \<Rightarrow> return (Inr x)
   }"

definition handleBindingDeletion ::
  "('s, 'c, 'k, 't) manager_lib \<Rightarrow> 's api \<Rightarrow> cluster_binding \<Rightarrow> ('s, 'm, unit res) manager_prog" where
  "handleBindingDeletion L A b =
    (if ContainsFinalizer (bMeta b) ClusterBindingSyncerFinalizer
     then do { recordBinding b ''WaitingSyncerCleanup''; return (Inr ()) }
     else on_ok (recording b ''CleanupFailed'' (deleteSyncerResources L A b) recordBinding) (\<lambda>syncerCleanupStatus.
       on_ok (recording b ''ProxierCleanupFailed'' (deleteProxierResources L A b) recordBinding) (\<lambda>proxierCleanupStatus. do {
         certs \<leftarrow> cleanupAutoManagedCertificates A b;
         (case certs of Returned (Inl _) \<Rightarrow> recordBinding b ''CertificateCleanupFailed'' | _ \<Rightarrow> return ());
         if \<not> syncerCleanupStatus \<or> \<not> proxierCleanupStatus then do {
           recordBinding b ''CleanupInProgress'';
           return (Inl (Errorf (''resource cleanup still in progress: Syncer='' @ show_bool syncerCleanupStatus @ '', Proxier='' @
             show_bool proxierCleanupStatus)))
         }
         else releaseManaged A b
       })))"

section \<open>Reconcile\<close>

definition failedStatus ::
  "'s api \<Rightarrow> cluster_binding \<Rightarrow> string \<Rightarrow> (string \<times> string) list \<Rightarrow> err \<Rightarrow> ('s, 'm, ctrl_result res) prog" where
  "failedStatus A b reason types err = do {
     recordBinding b reason;
     b \<leftarrow> foldl (\<lambda>p (conditionType, reason). do { b \<leftarrow> p; updateCondition A b conditionType ''False'' reason (error_text err) })
        (return (b\<lparr>bPhase := PhaseFailed\<rparr>)) types;
     on_ok (StatusUpdate A VirtualClient (OBinding b)) (\<lambda>_. return (Inl err))
   }"

definition initialStatus :: "cluster_binding \<Rightarrow> time \<Rightarrow> cluster_binding" where
  "initialStatus b now = b\<lparr>bPhase := ''Pending'',
     bConditions := [managerCondition ''Ready'' ''False'' ''Initializing'' ''ClusterBinding is being initialized'' now]\<rparr>"

definition markReady :: "'s api \<Rightarrow> cluster_binding \<Rightarrow> ('s, 'm, ctrl_result res) prog" where
  "markReady A b =
    (if bPhase b = ''Ready'' then return (Inr (Result 0))
     else do {
       now \<leftarrow> Now A;
       let b = b\<lparr>bPhase := ''Ready'', bLastSyncTime := Some (ckNow now)\<rparr>;
       b \<leftarrow> updateCondition A b ''Ready'' ''True'' ''ValidationPassed'' ''ClusterBinding validation and connectivity check passed'';
       b \<leftarrow> updateCondition A b ''Connected'' ''True'' ''ConnectivityPassed'' ''Successfully connected to target cluster'';
       b \<leftarrow> updateCondition A b ''SyncerReady'' ''True'' ''SyncerCreated'' ''Kubeocean Syncer created successfully'';
       b \<leftarrow> updateCondition A b ''ProxierReady'' ''True'' ''ProxierCreated'' ''Kubeocean Proxier created successfully'';
       on_ok (StatusUpdate A VirtualClient (OBinding b)) (\<lambda>_. do {
         recordBinding b ''Ready'';
         return (Inr (Result 0))
       })
     })"

text \<open>The steps after validation: connection, proxier, syncer, and the final status.\<close>

definition deployBinding ::
  "('s, 'c, 'k, 't) manager_lib \<Rightarrow> 's api \<Rightarrow> cluster_binding \<Rightarrow> ('s, 'm, ctrl_result res) prog" where
  "deployBinding L A b = do {
     connected \<leftarrow> validateKubeconfigAndConnectivity L A b;
     case connected of
       Inl err \<Rightarrow> failedStatus A b ''ConnectivityFailed'' [(''Ready'', ''ConnectivityFailed''), (''Connected'', ''ConnectivityFailed'')] err
     | Inr _ \<Rightarrow> do {
         proxier \<leftarrow> reconcileKubeoceanProxier L A b;
         case proxier of
           Inl err \<Rightarrow> failedStatus A b ''ProxierFailed'' [(''Ready'', ''ProxierFailed'')] err
         | Inr _ \<Rightarrow> do {
             b \<leftarrow> updateCondition A b ''ProxierReady'' ''True'' ''ProxierCreated'' ''Kubeocean Proxier created successfully'';
             syncer \<leftarrow> reconcileKubeoceanSyncer L A b;
             case syncer of
               Inl err \<Rightarrow> failedStatus A b ''SyncerFailed'' [(''Ready'', ''SyncerFailed'')] err
             | Inr _ \<Rightarrow> do {
                 b \<leftarrow> updateCondition A b ''SyncerReady'' ''True'' ''SyncerCreated'' ''Kubeocean Syncer created successfully'';
                 markReady A b
               }
           }
       }
   }"

definition ReconcileManaged ::
  "('s, 'c, 'k, 't) manager_lib \<Rightarrow> 's api \<Rightarrow> string \<Rightarrow> ('s, 'm, ctrl_result res) manager_prog" where
  "ReconcileManaged L A reqName = do {
     got \<leftarrow> get_binding A VirtualClient reqName;
     case got of
       Inl err \<Rightarrow> (if IsNotFound err then return (Inr (Result 0)) else return (Inl err))
     | Inr b \<Rightarrow> do {
         recordBinding b ''Reconciling'';
         if mDeletionTimestamp (bMeta b) \<noteq> None
         then on_ok (handleBindingDeletion L A b) (\<lambda>_. return (Inr (Result 0)))
         else if \<not> ContainsFinalizer (bMeta b) ClusterBindingManagerFinalizer
         then on_ok (Update A VirtualClient (OBinding (b\<lparr>bMeta := AddFinalizer (bMeta b) ClusterBindingManagerFinalizer\<rparr>)))
           (\<lambda>_. return (Inr (Result 0)))
         else if bPhase b = '''' then do {
           now \<leftarrow> Now A;
           on_ok (StatusUpdate A VirtualClient (OBinding (initialStatus b (ckNow now)))) (\<lambda>_. do {
             recordBinding b ''StatusUpdated'';
             return (Inr (Result 0))
           })
         }
         else do {
           invalid \<leftarrow> validateClusterBinding b;
           case invalid of
             Some err \<Rightarrow> failedStatus A b ''ValidationFailed'' [(''Ready'', ''ValidationFailed'')] err
           | None \<Rightarrow> deployBinding L A b
         }
       }
   }"

text \<open>The filter on updates. Specs are compared by their fields.\<close>

definition sameSpec :: "cluster_binding \<Rightarrow> cluster_binding \<Rightarrow> bool" where
  "sameSpec a b \<longleftrightarrow> bClusterID a = bClusterID b \<and> bSecretRef a = bSecretRef b \<and> bNodeSelector a = bNodeSelector b \<and>
     bMountNamespace a = bMountNamespace b \<and> bServiceNamespaces a = bServiceNamespaces b \<and>
     bDisableNodeDefaultTaint a = bDisableNodeDefaultTaint b \<and> bPodPriorityClassName a = bPodPriorityClassName b \<and>
     bRunningDaemonsetByDefault a = bRunningDaemonsetByDefault b \<and> bDirectScheduling a = bDirectScheduling b"

definition managedFilter :: "cluster_binding \<Rightarrow> cluster_binding \<Rightarrow> bool" where
  "managedFilter newobj oldobj \<longleftrightarrow> \<not> (sameSpec newobj oldobj \<and> mFinalizers (bMeta newobj) = mFinalizers (bMeta oldobj) \<and>
     bPhase newobj = bPhase oldobj \<and> mDeletionTimestamp (bMeta newobj) = mDeletionTimestamp (bMeta oldobj))"

section \<open>Cluster IDs\<close>

text \<open>
  What happens to the tables over time: validations with either result, and deletions of any bindings, accepted or not, known or not, but
  for one case: a binding whose cluster ID is that of another accepted binding. \<open>acc\<close> are the accepted bindings that have not been
  deleted, with their IDs.
\<close>

inductive id_history :: "id_tables \<Rightarrow> (string \<times> string) set \<Rightarrow> bool" where
  start: "id_history NewClusterBindingReconciler {}"
| accept: "id_history T acc \<Longrightarrow> validateClusterIDConsistency b T = (None, T') \<Longrightarrow>
    id_history T' (insert (mName (bMeta b), bClusterID b) acc)"
| reject: "id_history T acc \<Longrightarrow> validateClusterIDConsistency b T = (Some e, T') \<Longrightarrow> id_history T' acc"
| delete: "id_history T acc \<Longrightarrow> (\<And>n. (n, bClusterID b) \<in> acc \<Longrightarrow> n = mName (bMeta b)) \<Longrightarrow>
    id_history (cleanupClusterIDMappings b T) {(n, i) \<in> acc. n \<noteq> mName (bMeta b)}"

definition registered :: "id_tables \<Rightarrow> string \<Rightarrow> string \<Rightarrow> bool" where
  "registered T n i \<longleftrightarrow> nameToClusterID T n = Some i \<and> clusterIDToName T i = Some n"

lemma validate_registers:
  "validateClusterIDConsistency b T = (None, T') \<Longrightarrow> registered T' (mName (bMeta b)) (bClusterID b)"
  "validateClusterIDConsistency b T = (e, T') \<Longrightarrow> registered T n i \<Longrightarrow> registered T' n i"
  by (auto simp: validateClusterIDConsistency_def registered_def Let_def split: option.splits if_splits)

lemma accepted_registered: "id_history T acc \<Longrightarrow> (n, i) \<in> acc \<Longrightarrow> registered T n i"
proof (induction arbitrary: n i rule: id_history.induct)
  case (delete T acc b)
  then have "registered T n i" and "n \<noteq> mName (bMeta b)" and "i \<noteq> bClusterID b" by auto
  then show ?case by (auto simp: registered_def cleanupClusterIDMappings_def)
qed (auto dest: validate_registers)

text \<open>
  C23. Cluster IDs are unique over any sequence of validations and deletions in which no binding is deleted whose cluster ID is that
  of another accepted one: the accepted bindings have pairwise different names and pairwise different IDs, an accepted binding keeps its ID,
  and an ID that is in use is refused to every other binding. The exception is needed: theorem \<open>duplicate_deletion_frees_id\<close> shows what
  such a deletion does.
\<close>

theorem cluster_ids_unique:
  assumes "id_history T acc" and "(n, i) \<in> acc"
  shows "(\<forall>(n', i') \<in> acc. (n = n') = (i = i')) \<and>
    ((mName (bMeta b) = n) \<noteq> (bClusterID b = i) \<longrightarrow> fst (validateClusterIDConsistency b T) \<noteq> None)"
proof -
  have "(n = n') = (i = i')" if "(n', i') \<in> acc" for n' i'
    using accepted_registered [OF assms] accepted_registered [OF assms(1) that] by (auto simp: registered_def)
  moreover have "fst (validateClusterIDConsistency b T) \<noteq> None" if "(mName (bMeta b) = n) \<noteq> (bClusterID b = i)"
    using accepted_registered [OF assms] that
    by (auto simp: registered_def validateClusterIDConsistency_def Let_def split: option.splits)
  ultimately show ?thesis by blast
qed

definition bound :: "string \<Rightarrow> string \<Rightarrow> cluster_binding" where
  "bound n i = (binding_named n)\<lparr>bClusterID := i\<rparr>"

lemma bound_simps [simp]: "mName (bMeta (bound n i)) = n" "bClusterID (bound n i) = i"
  by (simp_all add: bound_def binding_named_def)

theorem cluster_ids_unique_witness:
  "fst (validateClusterIDConsistency (bound ''x'' ''c1'')
     \<lparr>nameToClusterID = [''a'' \<mapsto> ''c1'', ''b'' \<mapsto> ''c2''], clusterIDToName = [''c1'' \<mapsto> ''a'', ''c2'' \<mapsto> ''b'']\<rparr>) \<noteq> None"
proof -
  let ?T1 = "\<lparr>nameToClusterID = [''a'' \<mapsto> ''c1''], clusterIDToName = [''c1'' \<mapsto> ''a'']\<rparr>"
  let ?T2 = "\<lparr>nameToClusterID = [''a'' \<mapsto> ''c1'', ''b'' \<mapsto> ''c2''], clusterIDToName = [''c1'' \<mapsto> ''a'', ''c2'' \<mapsto> ''b'']\<rparr>"
  have "id_history ?T1 {(''a'', ''c1'')}"
    using id_history.accept [OF id_history.start, of "bound ''a'' ''c1''" ?T1]
    by (simp add: validateClusterIDConsistency_def NewClusterBindingReconciler_def Let_def)
  then have "id_history ?T2 {(''b'', ''c2''), (''a'', ''c1'')}"
    using id_history.accept [of ?T1 "{(''a'', ''c1'')}" "bound ''b'' ''c2''" ?T2] by (simp add: validateClusterIDConsistency_def Let_def)
  from cluster_ids_unique [OF this, of "''a''" "''c1''" "bound ''x'' ''c1''"] show ?thesis by simp
qed

section \<open>What must come before a write\<close>

definition going :: "cluster_binding \<Rightarrow> bool" where
  "going b \<longleftrightarrow> mDeletionTimestamp (bMeta b) \<noteq> None \<and> \<not> ContainsFinalizer (bMeta b) ClusterBindingSyncerFinalizer"

definition staying :: "string \<Rightarrow> cluster_binding \<Rightarrow> event list \<Rightarrow> bool" where
  "staying name b pre \<longleftrightarrow> binding_read name b pre \<and> mDeletionTimestamp (bMeta b) = None"

definition connected :: "cluster_binding \<Rightarrow> event list \<Rightarrow> bool" where
  "connected b pre \<longleftrightarrow> (\<exists>s d. EvGet VirtualClient KSecret (srNamespace (bSecretRef b)) (srName (bSecretRef b)) (Inr (OSecret s)) \<in> set pre \<and>
     seData s ''kubeconfig'' = Some d \<and> d \<noteq> '''')"

definition gone :: "kind \<Rightarrow> string \<Rightarrow> string \<Rightarrow> event list \<Rightarrow> bool" where
  "gone k ns n pre \<longleftrightarrow> (\<exists>e. IsNotFound e \<and> (EvGet VirtualClient k ns n (Inl e) \<in> set pre \<or> EvDelete VirtualClient k ns n no_opts (Inl e) \<in> set pre)) \<or>
     EvDelete VirtualClient k ns n no_opts (Inr ()) \<in> set pre"

definition syncerDeployment :: "cluster_binding \<Rightarrow> string" where "syncerDeployment b = ''kubeocean-syncer-'' @ bClusterID b"
definition proxierDeployment :: "cluster_binding \<Rightarrow> string" where "proxierDeployment b = ''kubeocean-proxier-'' @ bClusterID b"
definition proxierService :: "cluster_binding \<Rightarrow> string" where "proxierService b = ''kubeocean-proxier-'' @ bClusterID b @ ''-svc''"

definition syncer_gone :: "cluster_binding \<Rightarrow> event list \<Rightarrow> bool" where
  "syncer_gone b pre \<longleftrightarrow> (\<exists>ns. gone KDeployment ns (syncerDeployment b) pre)"

definition proxier_gone :: "cluster_binding \<Rightarrow> event list \<Rightarrow> bool" where
  "proxier_gone b pre \<longleftrightarrow> (\<exists>ns. gone KDeployment ns (proxierDeployment b) pre \<and> gone KService ns (proxierService b) pre)"

text \<open>A status of \<open>b\<close>: nothing else changed, and no second condition of a type.\<close>

definition status_of :: "cluster_binding \<Rightarrow> cluster_binding \<Rightarrow> bool" where
  "status_of b b' \<longleftrightarrow> bMeta b' = bMeta b \<and> sameSpec b' b \<and>
     (distinct (map cdType (bConditions b)) \<longrightarrow> distinct (map cdType (bConditions b')))"

fun manager_guard :: "string \<Rightarrow> event list \<Rightarrow> event \<Rightarrow> bool" where
  "manager_guard name pre (EvCreate c ob _) \<longleftrightarrow> c = VirtualClient \<and>
     (\<exists>b e. staying name b pre \<and> connected b pre \<and> mOwnerReferences (obj_meta ob) = [managerOwner b] \<and> IsNotFound e \<and>
        EvGet VirtualClient (obj_kind ob) (mNamespace (obj_meta ob)) (mName (obj_meta ob)) (Inl e) \<in> set pre)"
| "manager_guard name pre (EvUpdate c ob _) \<longleftrightarrow> c = VirtualClient \<and>
     (\<exists>b. staying name b pre \<and> ob = OBinding (b\<lparr>bMeta := AddFinalizer (bMeta b) ClusterBindingManagerFinalizer\<rparr>) \<or>
        binding_read name b pre \<and> going b \<and> syncer_gone b pre \<and> proxier_gone b pre \<and> ob = OBinding (b\<lparr>bMeta := RemoveFinalizer (bMeta b) ClusterBindingManagerFinalizer\<rparr>) \<or>
        staying name b pre \<and> connected b pre \<and> mOwnerReferences (obj_meta ob) = [managerOwner b] \<and> obj_kind ob \<noteq> KDeployment \<and>
          (\<exists>x. EvGet VirtualClient (obj_kind ob) (mNamespace (obj_meta ob)) (mName (obj_meta ob)) (Inr x) \<in> set pre))"
| "manager_guard name pre (EvStatusUpdate c ob _) \<longleftrightarrow> c = VirtualClient \<and>
     (\<exists>b b'. staying name b pre \<and> ob = OBinding b' \<and> status_of b b' \<and> bPhase b' \<in> {''Pending'', ''Ready'', ''Failed''} \<and>
        (bPhase b' = ''Ready'' \<longrightarrow> connected b pre))"
| "manager_guard name pre (EvDelete c k ns n opts a) \<longleftrightarrow> c = VirtualClient \<and> (\<exists>b. binding_read name b pre \<and> going b \<and>
     (k \<in> {KDeployment, KService} \<and> (\<exists>x. EvGet VirtualClient k ns n (Inr x) \<in> set pre) \<and>
        n \<in> {syncerDeployment b, proxierDeployment b, proxierService b} \<or>
      cert_guard (plain_x509 :: unit x509_lib) (NewCertificateManager b ''kubeocean-system'') pre (EvDelete c k ns n opts a)))"
| "manager_guard name pre e \<longleftrightarrow> \<not> is_write e"

lemma manager_guard_read [simp]: "\<not> is_write e \<Longrightarrow> manager_guard name pre e"
  by (cases e) auto

lemma manager_reads_kept [simp]:
  "binding_read name b pre \<Longrightarrow> binding_read name b (pre @ es)" "staying name b pre \<Longrightarrow> staying name b (pre @ es)"
  "connected b pre \<Longrightarrow> connected b (pre @ es)" "gone k ns n pre \<Longrightarrow> gone k ns n (pre @ es)"
  "syncer_gone b pre \<Longrightarrow> syncer_gone b (pre @ es)" "proxier_gone b pre \<Longrightarrow> proxier_gone b (pre @ es)"
proof -
  show g: "gone k ns n pre \<Longrightarrow> gone k ns n (pre @ es)" for k ns n by (auto simp: gone_def)
  show "syncer_gone b pre \<Longrightarrow> syncer_gone b (pre @ es)" "proxier_gone b pre \<Longrightarrow> proxier_gone b (pre @ es)"
    using g unfolding syncer_gone_def proxier_gone_def by blast+
qed (auto simp: binding_read_def staying_def connected_def)

lemma status_of_refl: "status_of b b"
  by (simp add: status_of_def sameSpec_def)

lemma status_of_trans: "status_of a b \<Longrightarrow> status_of b c \<Longrightarrow> status_of a c"
  by (auto simp: status_of_def sameSpec_def)

lemma status_of_phase: "status_of b (b\<lparr>bPhase := p, bLastSyncTime := t\<rparr>)" "status_of b (b\<lparr>bPhase := p\<rparr>)"
  by (simp_all add: status_of_def sameSpec_def)

lemma replaced_condition:
  assumes "dropWhile (\<lambda>c. cdType c \<noteq> t) cs = x # rest"
  shows "map cdType (takeWhile (\<lambda>c. cdType c \<noteq> t) cs @ [managerCondition t s r m n] @ rest) = map cdType cs"
proof -
  have "cdType x = t" using assms by (metis (mono_tags) dropWhile_eq_Cons_conv)
  then have "map cdType (takeWhile (\<lambda>c. cdType c \<noteq> t) cs @ [managerCondition t s r m n] @ rest) =
      map cdType (takeWhile (\<lambda>c. cdType c \<noteq> t) cs @ x # rest)" by (simp add: managerCondition_def)
  also have "\<dots> = map cdType cs" using takeWhile_dropWhile_id [of "\<lambda>c. cdType c \<noteq> t" cs] assms by simp
  finally show ?thesis .
qed

lemma guarded_updateCondition:
  "guarded (manager_guard name) pre (updateCondition A b t s r m) (\<lambda>b' _. status_of b b' \<and> bPhase b' = bPhase b)"
proof (cases "dropWhile (\<lambda>c. cdType c \<noteq> t) (bConditions b)")
  case Nil
  then have "t \<notin> cdType ` set (bConditions b)" by (auto simp: dropWhile_eq_Nil_conv)
  then show ?thesis
    unfolding updateCondition_def Nil by (auto intro!: gvcg simp: status_of_def sameSpec_def managerCondition_def)
next
  case (Cons x rest)
  have "status_of b (b\<lparr>bConditions := takeWhile (\<lambda>c. cdType c \<noteq> t) (bConditions b) @ [managerCondition t s r m n] @ rest\<rparr>)" for n
    unfolding status_of_def using replaced_condition [OF Cons, of s r m n] by (simp add: sameSpec_def)
  then show ?thesis
    unfolding updateCondition_def Cons by (auto intro!: gvcg)
qed

lemma guarded_recordBinding: "(\<And>es. Q () (pre @ es)) \<Longrightarrow> guarded (manager_guard name) pre (recordBinding b reason) Q"
  unfolding recordBinding_def by (intro guarded_emit) auto

lemma guarded_updateCondition_from:
  assumes "status_of b0 b"
  shows "guarded (manager_guard name) pre (updateCondition A b t s r m) (\<lambda>b' _. status_of b0 b' \<and> bPhase b' = bPhase b)"
  by (rule guarded_mono [OF guarded_updateCondition]) (use assms status_of_trans in blast)

lemma guarded_managed_statusUpdate:
  assumes "staying name b0 pre" and "status_of b0 b" and "bPhase b \<in> {''Pending'', ''Ready'', ''Failed''}" and "bPhase b = ''Ready'' \<longrightarrow> connected b0 pre"
    and "\<And>r es. Q r (pre @ es)"
  shows "guarded (manager_guard name) pre (StatusUpdate A VirtualClient (OBinding b)) Q"
proof -
  have "manager_guard name pre (EvStatusUpdate VirtualClient (OBinding b) r)" for r
    unfolding manager_guard.simps using assms(1-4) by blast
  then show ?thesis by (intro guarded_ops assms(5))
qed

lemma guarded_failedStatus:
  assumes "staying name b0 pre" and "status_of b0 b"
  shows "guarded (manager_guard name) pre (failedStatus A b reason types err) (\<lambda>_ _. True)"
proof -
  let ?S = "\<lambda>b' _. status_of b0 b' \<and> bPhase b' = PhaseFailed"
  have fold: "guarded (manager_guard name) pre (foldl (\<lambda>p (t, r). do { b \<leftarrow> p; updateCondition A b t ''False'' r m }) p types) ?S"
    if "guarded (manager_guard name) pre p ?S" for p :: "('a, 'b, cluster_binding) prog" and m pre
    using that
  proof (induction types arbitrary: p)
    case (Cons tr types)
    obtain t r where tr: "tr = (t, r)" by (cases tr)
    have "guarded (manager_guard name) pre (do { b \<leftarrow> p; updateCondition A b t ''False'' r m }) ?S"
      by (rule guarded_bind_then [OF Cons.prems]) (auto intro: guarded_mono [OF guarded_updateCondition_from])
    from Cons.IH [OF this] show ?case by (simp add: tr)
  qed simp
  have start: "guarded (manager_guard name) pre (return (b\<lparr>bPhase := PhaseFailed\<rparr>)) ?S" for pre
    by (intro guarded_return) (use assms(2) status_of_phase(2) status_of_trans in auto)
  have final: "guarded (manager_guard name) pre' (on_ok (StatusUpdate A VirtualClient (OBinding b')) (\<lambda>_. return (Inl err))) (\<lambda>_ _. True)"
    if "staying name b0 pre'" and "?S b' ()" for b' pre'
    unfolding on_ok_def
    by (intro guarded_bind guarded_managed_statusUpdate [OF that(1)] guarded_sum guarded_return TrueI) (use that in \<open>auto simp: PhaseFailed_def\<close>)
  show ?thesis
    unfolding failedStatus_def
    by (intro guarded_bind guarded_recordBinding guarded_bind_then [OF fold [OF start]] final) (use assms in auto)
qed

lemma guarded_connectivity:
  "guarded (manager_guard name) pre (validateKubeconfigAndConnectivity L A b) (\<lambda>r pre'. r = Inr () \<longrightarrow> connected b pre')"
proof -
  have secret: "guarded (manager_guard name) pre (readKubeconfigSecret A (bSecretRef b)) (\<lambda>r pre'. \<forall>d. r = Inr d \<longrightarrow> connected b pre')" for pre
    unfolding readKubeconfigSecret_def get_secret_def
    by (intro gvcg) (auto simp: connected_def decode_simps split: sum.splits option.splits if_splits)
  have test: "guarded (manager_guard name) pre (testClusterConnectivity L c) (\<lambda>_ _. True)" for pre c
    unfolding testClusterConnectivity_def on_ok_wrap_def by (intro gvcg TrueI)
  have config: "guarded (manager_guard name) pre (return (mgRESTConfig L d)) (\<lambda>_ _. True)" for pre d
    by (intro gvcg TrueI)
  show ?thesis
    unfolding validateKubeconfigAndConnectivity_def
    by (intro guarded_on_ok_wrap_then [OF secret] guarded_on_ok_wrap_then [OF config] guarded_on_ok_wrap_then [OF test] guarded_return)
      (auto simp flip: append_assoc)
qed

lemma rendered_owner: "renderResource L b files d t = Inr ob \<Longrightarrow> mOwnerReferences (obj_meta ob) = [managerOwner b]"
proof -
  have "obj_meta (set_obj_meta m x) = m" for m x by (cases x) simp_all
  then show "renderResource L b files d t = Inr ob \<Longrightarrow> mOwnerReferences (obj_meta ob) = [managerOwner b]"
    by (auto simp: renderResource_def setOwnerReference_def split: option.splits sum.splits)
qed

lemma guarded_createResource:
  assumes "staying name b0 pre" and "connected b0 pre" and "managerOwner b = managerOwner b0"
  shows "guarded (manager_guard name) pre (createResourceFromTemplate L A b files d t) (\<lambda>_ _. True)"
proof -
  have "guarded (manager_guard name) pre (createOrUpdateResource A ob) (\<lambda>_ _. True)"
    if "mOwnerReferences (obj_meta ob) = [managerOwner b0]" for ob
  proof -
    let ?get = "EvGet VirtualClient (obj_kind ob) (mNamespace (obj_meta ob)) (mName (obj_meta ob))"
    have "manager_guard name (pre @ [?get (Inl e)]) (EvCreate VirtualClient ob r)" if "IsNotFound e" for e r
      using assms that \<open>mOwnerReferences (obj_meta ob) = [managerOwner b0]\<close> by (auto intro!: exI [of _ b0])
    moreover have "manager_guard name (pre @ [?get (Inr x)]) (EvUpdate VirtualClient ob r)" if "obj_kind ob \<noteq> KDeployment" for x r
      unfolding manager_guard.simps
      by (intro conjI refl exI [of _ b0] disjI2) (use assms that \<open>mOwnerReferences (obj_meta ob) = [managerOwner b0]\<close> in auto)
    ultimately show ?thesis
      unfolding createOrUpdateResource_def on_ok_def by (intro gvcg TrueI) auto
  qed
  then show ?thesis
    unfolding createResourceFromTemplate_def on_ok_def
    by (intro guarded_bind guarded_return guarded_sum TrueI) (use assms(3) rendered_owner in fastforce)+
qed

lemma guarded_load:
  "guarded (manager_guard name) pre (loadSyncerTemplate L) (\<lambda>_ _. True)"
  "guarded (manager_guard name) pre (loadProxierTemplate L) (\<lambda>_ _. True)"
proof -
  have names: "quiet (readNames L dir files m) (\<lambda>_. False)" for dir files m
    by (induction files arbitrary: m) (auto intro!: quiet_rules)
  have templates: "quiet (readTemplates L dir files m) (\<lambda>_. False)" for dir files m
    by (induction files arbitrary: m) (auto intro!: quiet_rules)
  have "quiet (loadSyncerTemplate L) (\<lambda>_. False)" "quiet (loadProxierTemplate L) (\<lambda>_. False)"
    unfolding loadSyncerTemplate_def loadProxierTemplate_def Let_def by (intro quiet_rules names templates)+
  then show "guarded (manager_guard name) pre (loadSyncerTemplate L) (\<lambda>_ _. True)"
    "guarded (manager_guard name) pre (loadProxierTemplate L) (\<lambda>_ _. True)"
    by (auto intro: guarded_calls [OF calls_quiet])
qed

lemma guarded_deploy:
  assumes "staying name b0 pre" and "connected b0 pre" and "managerOwner b = managerOwner b0"
  shows "guarded (manager_guard name) pre (reconcileKubeoceanSyncer L A b) (\<lambda>_ _. True)"
    and "guarded (manager_guard name) pre (reconcileKubeoceanProxier L A b) (\<lambda>_ _. True)"
  unfolding reconcileKubeoceanSyncer_def reconcileKubeoceanProxier_def
  by (intro guarded_on_ok_wrap_then [OF guarded_load(1)] guarded_on_ok_wrap_then [OF guarded_load(2)]
      guarded_on_ok_wrap_then [OF guarded_createResource] guarded_return TrueI; use assms in simp)+

lemma guarded_markReady:
  assumes "staying name b0 pre" and "connected b0 pre" and "status_of b0 b"
  shows "guarded (manager_guard name) pre (markReady A b) (\<lambda>_ _. True)"
proof -
  have final: "guarded (manager_guard name) pre' (on_ok (StatusUpdate A VirtualClient (OBinding b')) (\<lambda>_. do {
      recordBinding b' ''Ready''; return (Inr (Result 0)) })) (\<lambda>_ _. True)"
    if "staying name b0 pre'" and "connected b0 pre'" and "status_of b0 b'" and "bPhase b' = ''Ready''" for b' pre'
    unfolding on_ok_def
    by (intro guarded_bind guarded_managed_statusUpdate [OF that(1)] guarded_sum guarded_return TrueI guarded_recordBinding) (use that in auto)
  have ready: "status_of b0 (b\<lparr>bPhase := ''Ready'', bLastSyncTime := t\<rparr>)" for t
    using status_of_trans [OF assms(3) status_of_phase(1)] .
  show ?thesis
    unfolding markReady_def Let_def
    by (intro guarded_if guarded_return TrueI guarded_bind guarded_ops guarded_bind_then [OF guarded_updateCondition_from [OF ready]]
        guarded_bind_then [OF guarded_updateCondition_from] final) (use assms in auto)
qed

lemma guarded_deployBinding:
  assumes "staying name b pre"
  shows "guarded (manager_guard name) pre (deployBinding L A b) (\<lambda>_ _. True)"
proof -
  have owner: "managerOwner b' = managerOwner b" if "status_of b b'" for b'
    using that by (simp add: managerOwner_def status_of_def)
  show ?thesis
    unfolding deployBinding_def
    by (intro guarded_bind_then [OF guarded_connectivity] guarded_sum guarded_failedStatus [of name b] guarded_markReady [of name b]
        guarded_bind_then [OF guarded_deploy(2) [of name b]] guarded_bind_then [OF guarded_updateCondition_from [of b]]
        guarded_bind_then [OF guarded_deploy(1) [of name b]])
      (use assms in \<open>auto intro: status_of_refl owner simp flip: append_assoc\<close>)
qed

text \<open>A guard may be replaced by another one that it implies once something has been established for good.\<close>

lemma guarded_under:
  assumes "guarded G pre m Q" and "C pre" and "\<And>pre es. C pre \<Longrightarrow> C (pre @ es)" and "\<And>pre e. C pre \<Longrightarrow> G pre e \<Longrightarrow> G' pre e"
  shows "guarded G' pre m Q"
proof -
  have "ordered G' pre evs" if "ordered G pre evs" and "C pre" for pre evs
    using that
  proof (induction evs arbitrary: pre)
    case (Cons e evs)
    then show ?case using assms(3) [of pre "[e]"] assms(4) by auto
  qed simp
  then show ?thesis
    using assms(1,2) unfolding guarded_def by (blast intro: tspec_mono)
qed

fun deletes_or_reads :: "event \<Rightarrow> bool" where
  "deletes_or_reads (EvDelete _ _ _ _ _ _) = True"
| "deletes_or_reads e = (\<not> is_write e)"

lemma guarded_conj: "guarded G pre m Q \<Longrightarrow> calls m P \<Longrightarrow> guarded (\<lambda>pre e. G pre e \<and> P e) pre m Q"
proof -
  assume m: "guarded G pre m Q" "calls m P"
  have "ordered (\<lambda>pre e. G pre e \<and> P e) pre evs" if "ordered G pre evs" and "list_all P evs" for pre evs
    using that by (induction evs arbitrary: pre) auto
  then show ?thesis
    using m unfolding guarded_def calls_def by (auto intro: tspec_mono [OF tspec_conj])
qed

fun no_deployment_found :: "event \<Rightarrow> bool" where
  "no_deployment_found (EvGet _ k _ _ r) \<longleftrightarrow> k \<noteq> KDeployment"
| "no_deployment_found _ \<longleftrightarrow> True"

abbreviation cleanup_call :: "event \<Rightarrow> bool" where
  "cleanup_call e \<equiv> deletes_or_reads e \<and> no_deployment_found e"

lemma quiet_cleanup: "quiet (CleanupOrphanedCSRs A cm) cleanup_call" "quiet (CleanupCertificates A cm) cleanup_call"
proof -
  show "quiet (CleanupOrphanedCSRs A cm) cleanup_call"
    unfolding CleanupOrphanedCSRs_def by (intro quiet_rules quiet_mono [OF quiet_deleteOrphans]) auto
  show "quiet (CleanupCertificates A cm) cleanup_call"
    unfolding CleanupCertificates_def cleanupAutoManagedSecret_def by (intro quiet_rules) auto
qed

lemma calls_ForceCleanupAll: "calls (ForceCleanupAll A cm) cleanup_call"
  unfolding ForceCleanupAll_def StopAutoRenewal_def Let_def
  by (intro calls_rules calls_quiet [OF quiet_cleanup(1)] calls_quiet [OF quiet_cleanup(2)]) simp

lemma cert_guard_delete_client: "cert_guard X cm pre (EvDelete c k ns n opts r) \<Longrightarrow> c = VirtualClient"
  by simp

lemma guarded_certificates:
  assumes "binding_read name b pre" and "going b"
  shows "guarded (manager_guard name) pre (cleanupAutoManagedCertificates A b) (\<lambda>_ _. True)"
proof -
  let ?cm = "NewCertificateManager b ''kubeocean-system''"
  have "guarded (manager_guard name) pre (ForceCleanupAll A ?cm) (\<lambda>_ _. True)" if "binding_read name b pre" for pre
  proof (rule guarded_under [OF guarded_conj [OF guarded_ForceCleanupAll calls_ForceCleanupAll], where C = "binding_read name b"])
    fix pre e
    assume "binding_read name b pre" and "cert_guard (plain_x509 :: unit x509_lib) ?cm pre e \<and> cleanup_call e"
    then show "manager_guard name pre e"
      using assms(2) by (cases e) (auto simp del: cert_guard.simps dest: cert_guard_delete_client)
  qed (use that in auto)
  then show ?thesis
    unfolding cleanupAutoManagedCertificates_def by (intro guarded_bind guarded_modifies) (use assms(1) in auto)
qed

lemma guarded_findAndDelete:
  assumes "binding_read name b pre" and "going b" and "k \<in> {KDeployment, KService}"
    and "n \<in> {syncerDeployment b, proxierDeployment b, proxierService b}"
  shows "guarded (manager_guard name) pre (findAndDeleteResource A k ns n)
    (\<lambda>(deleted, found, err) pre'. \<not> found \<or> err = None \<longrightarrow> gone k ns n pre')"
proof -
  have "manager_guard name (pre @ [EvGet VirtualClient k ns n (Inr x)]) (EvDelete VirtualClient k ns n no_opts r)" for x r
    unfolding manager_guard.simps by (intro conjI refl exI [of _ b] disjI1) (use assms in auto)
  then show ?thesis
    unfolding findAndDeleteResource_def by (intro gvcg) (auto simp: gone_def split: sum.splits)
qed

lemma guarded_deleteResourceWithFallback:
  assumes "binding_read name b pre" and "going b" and "k \<in> {KDeployment, KService}"
    and "n \<in> {syncerDeployment b, proxierDeployment b, proxierService b}"
    and "pfx @ ''-'' @ bClusterID b \<in> {syncerDeployment b, proxierDeployment b, proxierService b}"
  shows "guarded (manager_guard name) pre (deleteResourceWithFallback A b k n ns pfx) (\<lambda>r pre'. r = Inr True \<longrightarrow> gone k ns n pre')"
proof -
  have second: "guarded (manager_guard name) pre' (do {
      (deleted, found, err) \<leftarrow> findAndDeleteResource A k ns (pfx @ ''-'' @ bClusterID b);
      return (if found then (case err of Some e \<Rightarrow> Inl (Wrapf m e) | None \<Rightarrow> Inr deleted) else Inr True) })
      (\<lambda>r pre'. r = Inr True \<longrightarrow> gone k ns n pre')" if "binding_read name b pre'" and "gone k ns n pre'" for pre' m
    by (rule guarded_bind_then [OF guarded_findAndDelete [OF that(1) assms(2,3,5)]])
      (use that(2) in \<open>auto intro!: guarded_return\<close>)
  show ?thesis
    unfolding deleteResourceWithFallback_def Let_def
    by (rule guarded_bind_then [OF guarded_findAndDelete [OF assms(1-4)]])
      (use assms(1) in \<open>auto intro!: guarded_if guarded_return second split: option.splits\<close>)
qed

lemma resource_names:
  "stDeploymentName (prepareSyncerTemplateData b files) = syncerDeployment b"
  "ptDeploymentName (prepareProxierTemplateData b files) = proxierDeployment b"
  "ptServiceName (prepareProxierTemplateData b files) = proxierService b"
  "''kubeocean-syncer'' @ ''-'' @ bClusterID b = syncerDeployment b" "''kubeocean-proxier'' @ ''-'' @ bClusterID b = proxierDeployment b"
  by (simp_all add: prepareSyncerTemplateData_def prepareProxierTemplateData_def getSyncerName_def syncerDeployment_def
      proxierDeployment_def proxierService_def DefaultProxierName_def Let_def)

lemma fallback_names:
  "''kubeocean-syncer'' @ ''-'' @ bClusterID b \<in> {syncerDeployment b, proxierDeployment b, proxierService b}"
  "''kubeocean-proxier'' @ ''-'' @ bClusterID b \<in> {syncerDeployment b, proxierDeployment b, proxierService b}"
  unfolding resource_names by simp_all

lemma guarded_deleteSyncerResources:
  assumes "binding_read name b pre" and "going b"
  shows "guarded (manager_guard name) pre (deleteSyncerResources L A b) (\<lambda>r pre'. r = Inr True \<longrightarrow> syncer_gone b pre')"
  unfolding deleteSyncerResources_def Let_def resource_names
  by (intro guarded_on_ok_wrap_then [OF guarded_load(1)]
      guarded_on_ok_wrap_then [OF guarded_deleteResourceWithFallback [OF _ _ _ _ fallback_names(1)]] guarded_return)
    (use assms in \<open>auto simp: syncer_gone_def\<close>)

lemma guarded_deleteProxierResources:
  assumes "binding_read name b pre" and "going b"
  shows "guarded (manager_guard name) pre (deleteProxierResources L A b) (\<lambda>r pre'. r = Inr True \<longrightarrow> proxier_gone b pre')"
proof -
  have both: "proxier_gone b (p @ es)" if "gone KDeployment ns (proxierDeployment b) p" and "gone KService ns (proxierService b) (p @ es)" for ns p es
    unfolding proxier_gone_def using that manager_reads_kept(4) by blast
  show ?thesis
    unfolding deleteProxierResources_def Let_def resource_names
    by (intro guarded_on_ok_wrap_then [OF guarded_load(2)]
        guarded_on_ok_wrap_then [OF guarded_deleteResourceWithFallback [OF _ _ _ _ fallback_names(2)]] guarded_return)
      (use assms both in \<open>auto simp flip: append_assoc\<close>)
qed

lemma guarded_recording:
  assumes "guarded (manager_guard name) pre m Q" and "\<And>e pre es. Q (Inl e) pre \<Longrightarrow> Q (Inl e) (pre @ es)"
  shows "guarded (manager_guard name) pre (recording b reason m recordBinding) Q"
  unfolding recording_def
  by (rule guarded_bind_then [OF assms(1)]) (auto intro!: guarded_sum guarded_bind guarded_recordBinding guarded_return assms(2))

lemma guarded_releaseManaged:
  assumes "binding_read name b pre" and "going b" and "syncer_gone b pre" and "proxier_gone b pre"
  shows "guarded (manager_guard name) pre (releaseManaged A b) (\<lambda>_ _. True)"
proof -
  have "manager_guard name (pre @ es) (EvUpdate VirtualClient (OBinding (b\<lparr>bMeta := RemoveFinalizer (bMeta b) ClusterBindingManagerFinalizer\<rparr>)) r)"
    for es r
    unfolding manager_guard.simps by (intro conjI refl exI [of _ b] disjI2 disjI1) (use assms in simp_all)
  then show ?thesis
    unfolding releaseManaged_def on_ok_def
    by (intro guarded_bind guarded_recordBinding guarded_modifies guarded_ops guarded_sum guarded_return TrueI) auto
qed

lemma guarded_handleBindingDeletion:
  assumes "binding_read name b pre" and "mDeletionTimestamp (bMeta b) \<noteq> None"
  shows "guarded (manager_guard name) pre (handleBindingDeletion L A b) (\<lambda>_ _. True)"
proof (cases "going b")
  case False
  then show ?thesis
    using assms(2) by (auto simp: handleBindingDeletion_def going_def intro!: guarded_bind guarded_recordBinding guarded_return)
next
  case True
  then have wait: "\<not> ContainsFinalizer (bMeta b) ClusterBindingSyncerFinalizer" by (simp add: going_def)
  have syncer: "guarded (manager_guard name) pre (recording b ''CleanupFailed'' (deleteSyncerResources L A b) recordBinding)
      (\<lambda>r pre'. r = Inr True \<longrightarrow> syncer_gone b pre')"
    by (intro guarded_recording guarded_deleteSyncerResources assms(1) True) simp
  have proxier: "guarded (manager_guard name) pre' (recording b ''ProxierCleanupFailed'' (deleteProxierResources L A b) recordBinding)
      (\<lambda>r pre'. r = Inr True \<longrightarrow> proxier_gone b pre')" if "binding_read name b pre'" for pre'
    by (intro guarded_recording guarded_deleteProxierResources that True) simp
  have noted: "guarded (manager_guard name) pre' (case c of Returned (Inl _) \<Rightarrow> recordBinding b ''CertificateCleanupFailed'' | _ \<Rightarrow> return ())
      (\<lambda>_ _. True)" for pre' and c :: "unit res outcome"
    by (auto split: outcome.split sum.split intro!: guarded_recordBinding guarded_return)
  show ?thesis
    unfolding handleBindingDeletion_def if_not_P [OF wait]
    by (intro guarded_on_ok_then [OF syncer] guarded_on_ok_then [OF proxier] guarded_bind_then [OF guarded_certificates]
        guarded_bind_then [OF noted] guarded_if guarded_bind guarded_recordBinding guarded_return guarded_releaseManaged TrueI)
      (use assms(1) True in \<open>auto simp flip: append_assoc\<close>)
qed

section \<open>Properties\<close>

lemma guarded_ReconcileManaged: "guarded (manager_guard name) [] (ReconcileManaged L A name) (\<lambda>_ _. True)"
proof -
  have read: "guarded (manager_guard name) [] (get_binding A VirtualClient name) (\<lambda>r pre. \<forall>b. r = Inr b \<longrightarrow> binding_read name b pre)"
    unfolding get_binding_def by (intro gvcg) (auto simp: binding_read_def decode_simps)
  have validate: "guarded (manager_guard name) pre (validateClusterBinding b) (\<lambda>_ _. True)" for pre b
    unfolding validateClusterBinding_def Let_def by (intro gvcg TrueI) simp_all
  have initial: "status_of b (initialStatus b t) \<and> bPhase (initialStatus b t) = ''Pending''" for b t
    by (simp add: initialStatus_def status_of_def sameSpec_def)
  have add: "manager_guard name pre (EvUpdate VirtualClient (OBinding (b\<lparr>bMeta := AddFinalizer (bMeta b) ClusterBindingManagerFinalizer\<rparr>)) r)"
    if "staying name b pre" for b pre r
    unfolding manager_guard.simps using that by blast
  show ?thesis
    unfolding ReconcileManaged_def on_ok_def
    by (intro guarded_bind_then [OF read] guarded_bind_then [OF validate] guarded_sum guarded_if guarded_return TrueI guarded_bind guarded_recordBinding
        guarded_mono [OF guarded_handleBindingDeletion] guarded_ops(4) guarded_ops(8) guarded_managed_statusUpdate add
        guarded_option guarded_failedStatus guarded_deployBinding)
      (use initial in \<open>auto simp: staying_def status_of_refl\<close>)
qed

text \<open>
  C22. Every write of the manager's controller comes after what justifies it. Resources are created, where none was found, or updated, unless
  they are deployments, only for a binding that is not being deleted, after its kubeconfig was read, and they are owned
  by it; a status written keeps everything else and is only Ready after the kubeconfig was read; the manager's finalizer is
  removed only when the syncer's is gone and syncer deployment, proxier deployment and service were found missing or
  deleted in this run; deletions hit only resources named after the cluster ID that were read, and what the
  certificate manager may delete.
\<close>

theorem ReconcileManaged_ordered:
  "tspec (ReconcileManaged L A name) w (\<lambda>_ evs _. ordered (manager_guard name) [] evs)"
  by (rule guarded_ordered [OF guarded_ReconcileManaged])

text \<open>
  C25. When a binding that was rejected for using the cluster ID of another one is deleted, that ID is free again although the other binding is
  still there: a third binding is then accepted with it, and from then on two bindings have this cluster ID in \<^verbatim>\<open>nameToClusterID\<close>.
\<close>

theorem duplicate_deletion_frees_id:
  assumes "registered T (mName (bMeta a)) i" and "bClusterID d = i" and "bClusterID c = i"
    and "distinct [mName (bMeta a), mName (bMeta d), mName (bMeta c)]" and "nameToClusterID T (mName (bMeta c)) = None"
  shows "fst (validateClusterIDConsistency d T) \<noteq> None \<and>
    fst (validateClusterIDConsistency c (snd (validateClusterIDConsistency d T))) \<noteq> None \<and>
    (let T' = cleanupClusterIDMappings d (snd (validateClusterIDConsistency d T)); (e, T'') = validateClusterIDConsistency c T'
     in e = None \<and> nameToClusterID T'' (mName (bMeta a)) = Some i \<and> registered T'' (mName (bMeta c)) i)"
proof -
  have table: "nameToClusterID T (mName (bMeta a)) = Some i" "clusterIDToName T i = Some (mName (bMeta a))"
    using assms(1) by (simp_all add: registered_def)
  have ne: "mName (bMeta d) \<noteq> mName (bMeta a)" "mName (bMeta c) \<noteq> mName (bMeta a)" "mName (bMeta c) \<noteq> mName (bMeta d)"
    using assms(4) by auto
  have refused: "fst (validateClusterIDConsistency x U) \<noteq> None"
    if "clusterIDToName U i = Some (mName (bMeta a))" "bClusterID x = i" "mName (bMeta x) \<noteq> mName (bMeta a)" for x U
    using that unfolding validateClusterIDConsistency_def Let_def by (cases "nameToClusterID U (mName (bMeta x))") simp_all
  obtain m where T': "snd (validateClusterIDConsistency d T) = T\<lparr>nameToClusterID := m\<rparr>" and
    m: "m (mName (bMeta a)) = Some i" "m (mName (bMeta c)) = None"
  proof (cases "nameToClusterID T (mName (bMeta d))")
    case None
    with table assms(2) ne have "snd (validateClusterIDConsistency d T) = T\<lparr>nameToClusterID := (nameToClusterID T)(mName (bMeta d) \<mapsto> i)\<rparr>"
      unfolding validateClusterIDConsistency_def Let_def by simp
    then show ?thesis by (rule that) (use table assms(5) ne in simp_all)
  next
    case (Some x)
    with table assms(2) ne have "snd (validateClusterIDConsistency d T) = T\<lparr>nameToClusterID := nameToClusterID T\<rparr>"
      unfolding validateClusterIDConsistency_def Let_def by (cases "x = i") simp_all
    then show ?thesis by (rule that) (use table assms(5) ne in simp_all)
  qed
  have "validateClusterIDConsistency c (cleanupClusterIDMappings d (T\<lparr>nameToClusterID := m\<rparr>)) =
    (None, T\<lparr>nameToClusterID := (m(mName (bMeta d) := None))(mName (bMeta c) \<mapsto> i),
      clusterIDToName := ((clusterIDToName T)(i := None))(i \<mapsto> mName (bMeta c))\<rparr>)"
    unfolding validateClusterIDConsistency_def cleanupClusterIDMappings_def Let_def using assms(2,3) ne m by simp
  then show ?thesis
    unfolding T' Let_def using refused [of T d] refused [of "T\<lparr>nameToClusterID := m\<rparr>" c] table assms(2,3) ne m
    by (simp add: registered_def)
qed

theorem duplicate_deletion_frees_id_witness:
  "let T = \<lparr>nameToClusterID = [''a'' \<mapsto> ''c1''], clusterIDToName = [''c1'' \<mapsto> ''a'']\<rparr>
   in fst (validateClusterIDConsistency (bound ''b'' ''c1'') T) \<noteq> None \<and>
     fst (validateClusterIDConsistency (bound ''c'' ''c1'') (cleanupClusterIDMappings (bound ''b'' ''c1'')
       (snd (validateClusterIDConsistency (bound ''b'' ''c1'') T)))) = None"
  using duplicate_deletion_frees_id [of "\<lparr>nameToClusterID = [''a'' \<mapsto> ''c1''], clusterIDToName = [''c1'' \<mapsto> ''a'']\<rparr>" "bound ''a'' ''c1''"
      "''c1''" "bound ''b'' ''c1''" "bound ''c'' ''c1''"]
  by (simp add: registered_def Let_def split: prod.splits)

end
