(* ===== verification/Go_Sha256.thy ===== *)
theory Go_Sha256
  imports Go_Md5
begin

text \<open>
  \<^verbatim>\<open>crypto/sha256\<close> of the Go standard library (FIPS 180-4), which the program uses for the names of copies of
  LogConfigs: \<^verbatim>\<open>fmt.Sprintf("%x", hasher.Sum(nil))\<close>. Executable; the length and the alphabet of the digest are what
  other theories use.
\<close>

definition sha256_K :: "u32 list" where
  "sha256_K = [
     1116352408, 1899447441, 3049323471, 3921009573, 961987163, 1508970993, 2453635748, 2870763221,
     3624381080, 310598401, 607225278, 1426881987, 1925078388, 2162078206, 2614888103, 3248222580,
     3835390401, 4022224774, 264347078, 604807628, 770255983, 1249150122, 1555081692, 1996064986,
     2554220882, 2821834349, 2952996808, 3210313671, 3336571891, 3584528711, 113926993, 338241895,
     666307205, 773529912, 1294757372, 1396182291, 1695183700, 1986661051, 2177026350, 2456956037,
     2730485921, 2820302411, 3259730800, 3345764771, 3516065817, 3600352804, 4094571909, 275423344,
     430227734, 506948616, 659060556, 883997877, 958139571, 1322822218, 1537002063, 1747873779,
     1955562222, 2024104815, 2227730452, 2361852424, 2428436474, 2756734187, 3204031479, 3329325298]"

definition sha256_init :: "u32 list" where
  "sha256_init = [1779033703, 3144134277, 1013904242, 2773480762, 1359893119, 2600822924, 528734635, 1541459225]"

definition be_bytes :: "nat \<Rightarrow> nat \<Rightarrow> nat list" where
  "be_bytes k n = rev (le_bytes k n)"

definition be_word :: "nat list \<Rightarrow> u32" where
  "be_word bs = le_word (rev bs)"

definition sha256_pad :: "nat list \<Rightarrow> nat list" where
  "sha256_pad bs = bs @ [128] @ replicate ((119 - length bs mod 64) mod 64) 0 @ be_bytes 8 (8 * length bs)"

text \<open>The message schedule: each further word is computed from the 16 before it.\<close>

definition sha256_next :: "u32 list \<Rightarrow> nat \<Rightarrow> u32 list" where
  "sha256_next W t =
    (let x = W ! (t - 2); y = W ! (t - 15);
         s1 = word_rotr 17 x XOR word_rotr 19 x XOR drop_bit 10 x;
         s0 = word_rotr 7 y XOR word_rotr 18 y XOR drop_bit 3 y
     in W @ [s1 + W ! (t - 7) + s0 + W ! (t - 16)])"

definition sha256_schedule :: "u32 list \<Rightarrow> u32 list" where
  "sha256_schedule W = foldl sha256_next W [16..<64]"

fun sha256_step :: "u32 list \<Rightarrow> nat \<Rightarrow> u32 list \<Rightarrow> u32 list" where
  "sha256_step W t [a, b, c, d, e, f, g, h] =
    (let t1 = h + (word_rotr 6 e XOR word_rotr 11 e XOR word_rotr 25 e) + ((e AND f) XOR (NOT e AND g)) + sha256_K ! t + W ! t;
         t2 = (word_rotr 2 a XOR word_rotr 13 a XOR word_rotr 22 a) + ((a AND b) XOR (a AND c) XOR (b AND c))
     in [t1 + t2, a, b, c, d + t1, e, f, g])"
| "sha256_step W t H = H"

definition sha256_block :: "nat list \<Rightarrow> u32 list \<Rightarrow> u32 list" where
  "sha256_block bs H = map2 (+) H (fold (sha256_step (sha256_schedule (map be_word (chunks 16 4 bs)))) [0..<64] H)"

definition sha256_Sum :: "nat list \<Rightarrow> nat list" where
  "sha256_Sum bs =
    (let p = sha256_pad bs
     in concat (map (\<lambda>w. be_bytes 4 (unat w)) (fold sha256_block (chunks (length p div 64) 64 p) sha256_init)))"

definition sha256_hex :: "string \<Rightarrow> string" where
  "sha256_hex s = hex_bytes (sha256_Sum (map of_char s))"

lemma length_sha256_step [simp]: "length (sha256_step W t H) = length H"
  by (induction W t H rule: sha256_step.induct) (simp_all add: Let_def)

lemma length_fold: "(\<And>x H. length (f x H) = length H) \<Longrightarrow> length (fold f xs H) = length H"
  by (induction xs arbitrary: H) simp_all

lemma length_sha256_block [simp]: "length (sha256_block bs H) = length H"
  by (simp add: sha256_block_def length_fold)

lemma length_be_bytes [simp]: "length (be_bytes k n) = k"
  by (simp add: be_bytes_def)

lemma length_concat_be: "length (concat (map (\<lambda>w. be_bytes 4 (f w)) xs)) = 4 * length xs"
  by (induction xs) simp_all

lemma length_sha256_Sum [simp]: "length (sha256_Sum bs) = 32"
  by (simp add: sha256_Sum_def Let_def length_concat_be length_fold sha256_init_def)

lemma length_sha256_hex [simp]: "length (sha256_hex s) = 64"
  by (simp add: sha256_hex_def)

lemma sha256_hex_alphabet: "list_all is_hex (sha256_hex s)"
  unfolding sha256_hex_def by (rule hex_bytes_alphabet) (auto simp: sha256_Sum_def be_bytes_def Let_def dest: le_bytes_less)

end
