(* ===== verification/Log_Config.thy ===== *)
theory Log_Config
  imports Resource_Sync Go_Sha256 "HOL-Library.Multiset"
begin

text \<open>
  \<^verbatim>\<open>pkg/syncer/topdown/logconfig/virtual_logconfig_controller.go\<close>: LogConfigs of the virtual cluster become LogConfigs of the
  physical one. What a LogConfig selects by virtual namespace or workload is selected there by the labels the physical pods
  carry; a list of workloads becomes one LogConfig per namespace and kind. When the result differs from what is there, everything
  is deleted, waited for and created anew.

  Go iterates over a map in any order: \<open>pick\<close> reads an order off a list of numbers, which the outside gives. Timers and
  contexts belong to the outside too (\<open>log_env\<close>).
\<close>

record 's log_env =
  lgWait :: "int \<Rightarrow> 's \<Rightarrow> err option \<times> 's"
  lgOrder :: "'s \<Rightarrow> nat list \<times> 's"

record log_reconciler =
  lgClusterID :: string

definition KubeoceanWorkerNamespace :: string where "KubeoceanWorkerNamespace = ''kubeocean-worker''"
definition maxLogConfigNameLength :: nat where "maxLogConfigNameLength = 63"
definition maxBaseNameLength :: nat where "maxBaseNameLength = 54"
definition hashLength :: nat where "hashLength = 6"

text \<open>The labels of physical objects.\<close>

definition virtualLogConfigLabel :: string where [kube_consts]: "virtualLogConfigLabel = ''kubeocean.io/virtual-logconfig''"
definition workloadNameLabel :: string where [kube_consts]: "workloadNameLabel = ''kubeocean.io/workload-name''"
definition workloadTypeLabel :: string where [kube_consts]: "workloadTypeLabel = ''kubeocean.io/workload-type''"

section \<open>Names and metadata\<close>

definition generateSafePhysicalName :: "string \<Rightarrow> string" where
  "generateSafePhysicalName virtualName =
    (let hashSuffix = take hashLength (sha256_hex virtualName);
         baseName = (if length virtualName \<le> maxBaseNameLength then virtualName else take maxBaseNameLength virtualName)
     in baseName @ ''-'' @ hashSuffix)"

definition hasSyncedResourceFinalizer :: "log_reconciler \<Rightarrow> objmeta \<Rightarrow> bool" where
  "hasSyncedResourceFinalizer r m \<longleftrightarrow> ContainsFinalizer m (FinalizerClusterIDPrefix @ lgClusterID r)"

definition addSyncedResourceFinalizer :: "'s api \<Rightarrow> log_reconciler \<Rightarrow> log_config \<Rightarrow> ('s, 'm, unit res) prog" where
  "addSyncedResourceFinalizer A r l =
    (if ContainsFinalizer (lcMeta l) (FinalizerClusterIDPrefix @ lgClusterID r) then return (Inr ())
     else on_ok_wrap ''failed to add finalizer to virtual LogConfig''
       (Update A VirtualClient (OLogConfig (l\<lparr>lcMeta := AddFinalizer (lcMeta l) (FinalizerClusterIDPrefix @ lgClusterID r)\<rparr>)))
       (\<lambda>_. return (Inr ())))"

definition isManagedLabel :: "log_reconciler \<Rightarrow> string \<Rightarrow> bool" where
  "isManagedLabel r key \<longleftrightarrow> key \<in> set [GetManagedByClusterIDLabel (lgClusterID r), LabelVirtualNamespace]"

definition isManagedAnnotation :: "string \<Rightarrow> bool" where
  "isManagedAnnotation key \<longleftrightarrow> key \<in> set [AnnotationVirtualName, AnnotationPhysicalName]"

definition copyLabelsAndAnnotations :: "log_reconciler \<Rightarrow> objmeta \<Rightarrow> objmeta \<Rightarrow> objmeta" where
  "copyLabelsAndAnnotations r virtual physical = physical\<lparr>
     mLabels := mLabels physical ++ mfilter (\<lambda>k. \<not> isManagedLabel r k) (mLabels virtual),
     mAnnotations := mAnnotations physical ++ mfilter (\<lambda>k. \<not> isManagedAnnotation k) (mAnnotations virtual)\<rparr>"

definition isLogConfigManagedByThisCluster :: "log_reconciler \<Rightarrow> log_config \<Rightarrow> bool" where
  "isLogConfigManagedByThisCluster r l \<longleftrightarrow> mget (mLabels (lcMeta l)) (GetManagedByClusterIDLabel (lgClusterID r)) = LabelValueTrue"

section \<open>Transformation\<close>

text \<open>A missing map is made before it is written to.\<close>

definition put :: "smap option \<Rightarrow> string \<Rightarrow> string \<Rightarrow> smap option" where
  "put m k v = Some ((case m of Some m \<Rightarrow> m | None \<Rightarrow> Map.empty)(k \<mapsto> v))"

definition given :: "string option \<Rightarrow> bool" where
  "given x \<longleftrightarrow> x \<noteq> None \<and> x \<noteq> Some ''''"

definition applyNamespaceRuleStdout :: "container_stdout \<Rightarrow> container_stdout" where
  "applyNamespaceRuleStdout c = (case coNamespace c of
     None \<Rightarrow> c
   | Some originalNamespace \<Rightarrow> c\<lparr>coNamespace := Some KubeoceanWorkerNamespace,
       coIncludeLabels := put (coIncludeLabels c) LabelVirtualNamespace originalNamespace\<rparr>)"

definition applyExcludeNamespaceRuleStdout :: "container_stdout \<Rightarrow> container_stdout" where
  "applyExcludeNamespaceRuleStdout c = (case coExcludeNamespace c of
     None \<Rightarrow> c
   | Some originalExcludeNamespace \<Rightarrow> c\<lparr>coNamespace := Some KubeoceanWorkerNamespace,
       coExcludeLabels := Some [LabelVirtualNamespace \<mapsto> originalExcludeNamespace], coExcludeNamespace := Some ''''\<rparr>)"

definition applyContainerStdoutRules :: "container_stdout \<Rightarrow> container_stdout" where
  "applyContainerStdoutRules c =
    (if given (coNamespace c) then applyNamespaceRuleStdout c
     else if given (coExcludeNamespace c) then applyExcludeNamespaceRuleStdout c else c)"

definition hasWorkloads :: "container_stdout \<Rightarrow> bool" where
  "hasWorkloads c \<longleftrightarrow> (case coWorkloads c of Some (w # ws) \<Rightarrow> True | _ \<Rightarrow> False)"

definition transformContainerStdoutSpec :: "input_detail \<Rightarrow> input_detail" where
  "transformContainerStdoutSpec d = (case idContainerStdout d of
     None \<Rightarrow> d
   | Some c \<Rightarrow> (if hasWorkloads c then d else d\<lparr>idContainerStdout := Some (applyContainerStdoutRules c)\<rparr>))"

definition hasValidWorkload :: "log_workload option \<Rightarrow> bool" where
  "hasValidWorkload workload \<longleftrightarrow> (case workload of None \<Rightarrow> False | Some w \<Rightarrow> given (wlKind w) \<and> given (wlName w))"

definition applyNamespaceRuleFile :: "container_file \<Rightarrow> container_file" where
  "applyNamespaceRuleFile c = (case cfNamespace c of
     None \<Rightarrow> c
   | Some originalNamespace \<Rightarrow> c\<lparr>cfNamespace := Some KubeoceanWorkerNamespace,
       cfIncludeLabels := put (cfIncludeLabels c) LabelVirtualNamespace originalNamespace\<rparr>)"

definition applyExcludeNamespaceRuleFile :: "container_file \<Rightarrow> container_file" where
  "applyExcludeNamespaceRuleFile c = (case cfExcludeNamespace c of
     None \<Rightarrow> c
   | Some originalExcludeNamespace \<Rightarrow> c\<lparr>cfNamespace := Some KubeoceanWorkerNamespace,
       cfExcludeLabels := Some [LabelVirtualNamespace \<mapsto> originalExcludeNamespace], cfExcludeNamespace := Some ''''\<rparr>)"

definition applyWorkloadToIncludeLabelsRule :: "container_file \<Rightarrow> container_file" where
  "applyWorkloadToIncludeLabelsRule c = (case cfWorkload c of
     None \<Rightarrow> c
   | Some w \<Rightarrow> (case (wlKind w, wlName w) of
       (Some kind, Some name) \<Rightarrow>
         c\<lparr>cfNamespace := Some KubeoceanWorkerNamespace,
           cfIncludeLabels := Some [
             LabelVirtualNamespace \<mapsto> (case cfNamespace c of Some ns \<Rightarrow> (if ns \<noteq> '''' then ns else ''default'') | None \<Rightarrow> ''default''),
             workloadNameLabel \<mapsto> name, workloadTypeLabel \<mapsto> kind],
           cfWorkload := None\<rparr>
     | _ \<Rightarrow> c))"

definition applyContainerFileRules :: "container_file \<Rightarrow> container_file" where
  "applyContainerFileRules c =
    (if hasValidWorkload (cfWorkload c) then applyWorkloadToIncludeLabelsRule c
     else if given (cfNamespace c) then applyNamespaceRuleFile c
     else if given (cfExcludeNamespace c) then applyExcludeNamespaceRuleFile c else c)"

definition transformContainerFileSpec :: "input_detail \<Rightarrow> input_detail" where
  "transformContainerFileSpec d = (case idContainerFile d of
     None \<Rightarrow> d | Some c \<Rightarrow> d\<lparr>idContainerFile := Some (applyContainerFileRules c)\<rparr>)"

definition transformLogConfigSpec :: "log_config_spec \<Rightarrow> log_config_spec" where
  "transformLogConfigSpec s = (case lsInputDetail s of
     None \<Rightarrow> s
   | Some d \<Rightarrow>
       if idType d = Some ''container_stdout'' then s\<lparr>lsInputDetail := Some (transformContainerStdoutSpec d)\<rparr>
       else if idType d = Some ''container_file'' then s\<lparr>lsInputDetail := Some (transformContainerFileSpec d)\<rparr>
       else s)"

section \<open>Groups of workloads\<close>

record WorkloadGroup =
  wgNamespace :: string
  wgKind :: string
  wgNames :: "string list"

text \<open>The entries of the map under construction, in the order of their insertion.\<close>

fun addWorkload :: "string \<Rightarrow> string \<Rightarrow> string \<Rightarrow> (string \<times> WorkloadGroup) list \<Rightarrow> (string \<times> WorkloadGroup) list" where
  "addWorkload ns kind name [] = [(ns @ ''/'' @ kind, \<lparr>wgNamespace = ns, wgKind = kind, wgNames = [name]\<rparr>)]"
| "addWorkload ns kind name ((key, g) # gs) =
    (if key = ns @ ''/'' @ kind then (key, g\<lparr>wgNames := wgNames g @ [name]\<rparr>) # gs
     else (key, g) # addWorkload ns kind name gs)"

fun groupMap :: "(string \<times> WorkloadGroup) list \<Rightarrow> workload_selector list \<Rightarrow> (string \<times> WorkloadGroup) list" where
  "groupMap gs [] = gs"
| "groupMap gs (w # ws) = (case (wsNamespace w, wsKind w, wsName w) of
     (Some ns, Some kind, Some name) \<Rightarrow> groupMap (addWorkload ns kind name gs) ws
   | _ \<Rightarrow> groupMap gs ws)"

text \<open>An order of the elements of a list; every order is \<open>pick ks xs\<close> for some \<open>ks\<close>.\<close>

fun pick :: "nat list \<Rightarrow> 'a list \<Rightarrow> 'a list" where
  "pick ks [] = []"
| "pick [] xs = xs"
| "pick (k # ks) (x # xs) =
    (let i = k mod length (x # xs) in (x # xs) ! i # pick ks (take i (x # xs) @ drop (Suc i) (x # xs)))"

definition groupWorkloads :: "nat list \<Rightarrow> workload_selector list \<Rightarrow> WorkloadGroup list" where
  "groupWorkloads ks workloads = pick ks (map snd (groupMap [] workloads))"

definition requiresMultiplePhysicalConfigs :: "nat list \<Rightarrow> log_config \<Rightarrow> bool" where
  "requiresMultiplePhysicalConfigs ks l = (case lsInputDetail (lcSpec l) of
     None \<Rightarrow> False
   | Some d \<Rightarrow>
       if idType d \<noteq> Some ''container_stdout'' then False
       else (case idContainerStdout d of
         None \<Rightarrow> False
       | Some c \<Rightarrow> (if \<not> hasWorkloads c then False
           else length (groupWorkloads ks (case coWorkloads c of Some ws \<Rightarrow> ws | None \<Rightarrow> [])) \<ge> 1)))"

text \<open>Several names are joined into one value.\<close>

definition transformSingleWorkloadGroup :: "WorkloadGroup \<Rightarrow> log_config_spec \<Rightarrow> log_config_spec" where
  "transformSingleWorkloadGroup g s = (case lsInputDetail s of
     None \<Rightarrow> s
   | Some d \<Rightarrow> (case idContainerStdout d of
       None \<Rightarrow> s
     | Some c \<Rightarrow> s\<lparr>lsInputDetail := Some (d\<lparr>idContainerStdout := Some (c\<lparr>coNamespace := Some KubeoceanWorkerNamespace,
         coIncludeLabels := Some [workloadTypeLabel \<mapsto> wgKind g, LabelVirtualNamespace \<mapsto> wgNamespace g,
           workloadNameLabel \<mapsto> (if length (wgNames g) = 1 then wgNames g ! 0 else Join (wgNames g) '','')],
         coWorkloads := None\<rparr>)\<rparr>)\<rparr>))"

section \<open>Generated LogConfigs\<close>

definition generatedMeta :: "log_reconciler \<Rightarrow> objmeta \<Rightarrow> string \<Rightarrow> objmeta" where
  "generatedMeta r virtual physicalName = copyLabelsAndAnnotations r virtual (empty_meta\<lparr>mName := physicalName,
     mLabels := [GetManagedByClusterIDLabel (lgClusterID r) \<mapsto> LabelValueTrue, LabelManagedBy \<mapsto> LabelManagedByValue,
       virtualLogConfigLabel \<mapsto> mName virtual],
     mAnnotations := [AnnotationVirtualName \<mapsto> mName virtual]\<rparr>)"

definition generateSinglePhysicalLogConfig :: "log_reconciler \<Rightarrow> log_config \<Rightarrow> string \<Rightarrow> log_config" where
  "generateSinglePhysicalLogConfig r l baseName =
     \<lparr>lcMeta = generatedMeta r (lcMeta l) (generateSafePhysicalName baseName), lcSpec = transformLogConfigSpec (lcSpec l)\<rparr>"

definition generateForGroup :: "log_reconciler \<Rightarrow> log_config \<Rightarrow> nat \<Rightarrow> WorkloadGroup \<Rightarrow> log_config" where
  "generateForGroup r l i g =
     \<lparr>lcMeta = generatedMeta r (lcMeta l) (generateSafePhysicalName (mName (lcMeta l) @ ''-g'' @ show_nat i)),
      lcSpec = transformSingleWorkloadGroup g (lcSpec l)\<rparr>"

definition generateMultiplePhysicalLogConfigs :: "log_reconciler \<Rightarrow> nat list \<Rightarrow> log_config \<Rightarrow> log_config list res" where
  "generateMultiplePhysicalLogConfigs r ks l = (case lsInputDetail (lcSpec l) of
     None \<Rightarrow> Inl (Errorf ''invalid LogConfig structure for multiple generation'')
   | Some d \<Rightarrow> (case idContainerStdout d of
       None \<Rightarrow> Inl (Errorf ''invalid LogConfig structure for multiple generation'')
     | Some c \<Rightarrow> (case coWorkloads c of
         None \<Rightarrow> Inl (Errorf ''invalid LogConfig structure for multiple generation'')
       | Some workloads \<Rightarrow> Inr (map (\<lambda>(i, g). generateForGroup r l i g) (enumerate 0 (groupWorkloads ks workloads))))))"

section \<open>Comparison and rebuild\<close>

text \<open>A map by name; of several with one name the last stays. The list of differences is only logged.\<close>

definition byName :: "log_config list \<Rightarrow> (string \<rightharpoonup> log_config)" where
  "byName configs = map_of (rev (map (\<lambda>c. (mName (lcMeta c), c)) configs))"

definition compareLogConfigSpecs :: "log_config list \<Rightarrow> log_config list \<Rightarrow> bool" where
  "compareLogConfigSpecs existingConfigs newConfigs =
    (if length existingConfigs \<noteq> length newConfigs then True
     else if length existingConfigs = 0 \<and> length newConfigs = 0 then False
     else let existingMap = byName existingConfigs; newMap = byName newConfigs in
       if list_ex (\<lambda>c. existingMap (mName (lcMeta c)) = None) newConfigs \<or> list_ex (\<lambda>c. newMap (mName (lcMeta c)) = None) existingConfigs
       then True
       else list_ex (\<lambda>c. case (existingMap (mName (lcMeta c)), newMap (mName (lcMeta c))) of
           (Some existingConfig, Some newConfig) \<Rightarrow> lcSpec existingConfig \<noteq> lcSpec newConfig
         | _ \<Rightarrow> False) newConfigs)"

fun the_log_config :: "obj \<Rightarrow> log_config option" where
  "the_log_config (OLogConfig l) = Some l" | "the_log_config _ = None"

definition relatedTo :: "log_reconciler \<Rightarrow> string \<Rightarrow> list_opts" where
  "relatedTo r virtualLogConfigName = \<lparr>loNamespace = None, loLabels = [(virtualLogConfigLabel, virtualLogConfigName),
     (GetManagedByClusterIDLabel (lgClusterID r), LabelValueTrue), (LabelManagedBy, LabelManagedByValue)], loNodeName = None\<rparr>"

definition findAllRelatedPhysicalLogConfigs :: "'s api \<Rightarrow> log_reconciler \<Rightarrow> string \<Rightarrow> ('s, 'm, log_config list res) prog" where
  "findAllRelatedPhysicalLogConfigs A r virtualLogConfigName =
     on_ok_wrap ''failed to list related physical LogConfigs'' (ListObjs A PhysicalClient KLogConfig (relatedTo r virtualLogConfigName))
       (\<lambda>items. return (Inr (List.map_filter the_log_config items)))"

definition deleteLogConfig :: "'s api \<Rightarrow> log_config \<Rightarrow> ('s, 'm, unit res) prog" where
  "deleteLogConfig A l = do {
     d \<leftarrow> Delete A PhysicalClient KLogConfig (mNamespace (lcMeta l)) (mName (lcMeta l)) no_opts;
     return (case d of Inl err \<Rightarrow> (if IsNotFound err then Inr () else Inl err) | Inr _ \<Rightarrow> Inr ())
   }"

fun deleteExisting :: "'s api \<Rightarrow> log_config list \<Rightarrow> ('s, 'm, unit res) prog" where
  "deleteExisting A [] = return (Inr ())"
| "deleteExisting A (l # ls) =
     on_ok_wrap (''failed to delete existing config '' @ mName (lcMeta l)) (deleteLogConfig A l) (\<lambda>_. deleteExisting A ls)"

text \<open>Waiting in milliseconds, in at most 30 rounds: \<open>i\<close> counts them, \<open>left\<close> is how many remain.\<close>

definition waitTime :: "nat \<Rightarrow> int" where
  "waitTime i = (if 100 * 2 ^ i > (1000 :: int) then 1000 else 100 * 2 ^ i)"

fun waitRounds :: "'s log_env \<Rightarrow> 's api \<Rightarrow> string \<Rightarrow> nat \<Rightarrow> nat \<Rightarrow> ('s, 'm, unit res) prog" where
  "waitRounds E A configName i 0 = return (Inl (Errorf (''timeout waiting for LogConfig '' @ configName @ '' to be deleted'')))"
| "waitRounds E A configName i (Suc left) = do {
     got \<leftarrow> Get A PhysicalClient KLogConfig '''' configName;
     case got of
       Inl err \<Rightarrow> (if IsNotFound err then return (Inr ()) else return (Inl (Wrapf ''error checking deletion status'' err)))
     | Inr _ \<Rightarrow> do {
         ended \<leftarrow> outside (lgWait E (waitTime i * 1000000));
         case ended of Some err \<Rightarrow> return (Inl err) | None \<Rightarrow> waitRounds E A configName (i + 1) left
       }
   }"

definition waitForLogConfigDeletion :: "'s log_env \<Rightarrow> 's api \<Rightarrow> string \<Rightarrow> ('s, 'm, unit res) prog" where
  "waitForLogConfigDeletion E A configName = waitRounds E A configName 0 30"

fun waitForAll :: "'s log_env \<Rightarrow> 's api \<Rightarrow> log_config list \<Rightarrow> ('s, 'm, unit res) prog" where
  "waitForAll E A [] = return (Inr ())"
| "waitForAll E A (l # ls) =
     on_ok_wrap (''failed to wait for deletion of config '' @ mName (lcMeta l)) (waitForLogConfigDeletion E A (mName (lcMeta l)))
       (\<lambda>_. waitForAll E A ls)"

fun createNew :: "'s api \<Rightarrow> log_config list \<Rightarrow> ('s, 'm, unit res) prog" where
  "createNew A [] = return (Inr ())"
| "createNew A (l # ls) = do {
     r \<leftarrow> Create A PhysicalClient (OLogConfig l);
     case r of
       Inl err \<Rightarrow>
         if IsAlreadyExists err \<and> Contains (error_text err) ''object is being deleted''
         then return (Inl (Wrapf (''logconfig '' @ mName (lcMeta l) @ '' is still being deleted, will retry'') err))
         else return (Inl (Wrapf (''failed to create new config '' @ mName (lcMeta l)) err))
     | Inr _ \<Rightarrow> createNew A ls
   }"

definition atomicRebuildPhysicalLogConfigs ::
  "'s log_env \<Rightarrow> 's api \<Rightarrow> log_config list \<Rightarrow> log_config list \<Rightarrow> ('s, 'm, unit res) prog" where
  "atomicRebuildPhysicalLogConfigs E A existingConfigs newConfigs =
     on_ok (deleteExisting A existingConfigs) (\<lambda>_.
     on_ok (waitForAll E A existingConfigs) (\<lambda>_. createNew A newConfigs))"

section \<open>Reconcile\<close>

definition newConfigsFor :: "log_reconciler \<Rightarrow> nat list \<Rightarrow> nat list \<Rightarrow> log_config \<Rightarrow> log_config list res" where
  "newConfigsFor r js ks l =
    (if requiresMultiplePhysicalConfigs js l then generateMultiplePhysicalLogConfigs r ks l
     else Inr [generateSinglePhysicalLogConfig r l (mName (lcMeta l))])"

definition reconcilePhysicalLogConfigs ::
  "'s log_env \<Rightarrow> 's api \<Rightarrow> log_reconciler \<Rightarrow> log_config \<Rightarrow> ('s, 'm, ctrl_result res) prog" where
  "reconcilePhysicalLogConfigs E A r l =
    (if \<not> hasSyncedResourceFinalizer r (lcMeta l)
     then on_ok (addSyncedResourceFinalizer A r l) (\<lambda>_. return (Inr (Result 0)))
     else on_ok (findAllRelatedPhysicalLogConfigs A r (mName (lcMeta l))) (\<lambda>existingConfigs. do {
       js \<leftarrow> outside (lgOrder E);
       ks \<leftarrow> outside (lgOrder E);
       on_ok (return (newConfigsFor r js ks l)) (\<lambda>newConfigs.
         if \<not> compareLogConfigSpecs existingConfigs newConfigs then return (Inr (Result 0))
         else on_ok (atomicRebuildPhysicalLogConfigs E A existingConfigs newConfigs) (\<lambda>_. return (Inr (Result 0))))
     }))"

fun deleteManaged :: "'s api \<Rightarrow> log_reconciler \<Rightarrow> log_config list \<Rightarrow> ('s, 'm, unit res) prog" where
  "deleteManaged A r [] = return (Inr ())"
| "deleteManaged A r (l # ls) =
    (if isLogConfigManagedByThisCluster r l then on_ok (deleteLogConfig A l) (\<lambda>_. deleteManaged A r ls)
     else deleteManaged A r ls)"

definition handleVirtualLogConfigNotFound :: "'s api \<Rightarrow> log_reconciler \<Rightarrow> string \<Rightarrow> ('s, 'm, ctrl_result res) prog" where
  "handleVirtualLogConfigNotFound A r name =
     on_ok (findAllRelatedPhysicalLogConfigs A r name) (\<lambda>relatedConfigs.
     on_ok (deleteManaged A r relatedConfigs) (\<lambda>_. return (Inr (Result 0))))"

definition handleVirtualLogConfigDeletion :: "'s api \<Rightarrow> log_reconciler \<Rightarrow> log_config \<Rightarrow> ('s, 'm, ctrl_result res) prog" where
  "handleVirtualLogConfigDeletion A r l =
    (if \<not> hasSyncedResourceFinalizer r (lcMeta l) then return (Inr (Result 0))
     else on_ok (findAllRelatedPhysicalLogConfigs A r (mName (lcMeta l))) (\<lambda>relatedConfigs.
       on_ok (deleteManaged A r relatedConfigs) (\<lambda>_.
       on_ok (RemoveSyncedResourceFinalizerWithClusterID A (OLogConfig l) (lgClusterID r)) (\<lambda>_. return (Inr (Result 0))))))"

definition ReconcileLogConfig :: "'s log_env \<Rightarrow> 's api \<Rightarrow> log_reconciler \<Rightarrow> string \<Rightarrow> string \<Rightarrow> ('s, 'm, ctrl_result res) prog" where
  "ReconcileLogConfig E A r ns name = do {
     got \<leftarrow> Get A VirtualClient KLogConfig ns name;
     case decode the_log_config got of
       Inl err \<Rightarrow> (if IsNotFound err then handleVirtualLogConfigNotFound A r name else return (Inl err))
     | Inr l \<Rightarrow>
         if mDeletionTimestamp (lcMeta l) \<noteq> None then handleVirtualLogConfigDeletion A r l
         else reconcilePhysicalLogConfigs E A r l
   }"


section \<open>Groups\<close>

lemma mset_pick [simp]: "mset (pick ks xs) = mset xs"
proof (induction ks xs rule: pick.induct)
  case (3 k ks x xs)
  let ?i = "k mod length (x # xs)"
  have i: "?i < length (x # xs)" by (intro mod_less_divisor) simp
  have "mset (pick (k # ks) (x # xs)) = add_mset ((x # xs) ! ?i) (mset (take ?i (x # xs) @ drop (Suc ?i) (x # xs)))"
    using 3 by (simp add: Let_def del: list.size)
  also have "\<dots> = mset (take ?i (x # xs) @ (x # xs) ! ?i # drop (Suc ?i) (x # xs))" by simp
  also have "\<dots> = mset (x # xs)" using i by (metis id_take_nth_drop)
  finally show ?case .
qed simp_all

lemma length_pick [simp]: "length (pick ks xs) = length xs"
  by (metis mset_pick size_mset)

text \<open>The workloads a group stands for, under the key they are grouped by, and those of a list.\<close>

definition groupKey :: "WorkloadGroup \<Rightarrow> string" where
  "groupKey g = wgNamespace g @ ''/'' @ wgKind g"

fun members :: "WorkloadGroup list \<Rightarrow> (string \<times> string) list" where
  "members [] = []"
| "members (g # gs) = map (Pair (groupKey g)) (wgNames g) @ members gs"

fun namedWorkloads :: "workload_selector list \<Rightarrow> (string \<times> string) list" where
  "namedWorkloads [] = []"
| "namedWorkloads (w # ws) = (case (wsNamespace w, wsKind w, wsName w) of
     (Some ns, Some kind, Some name) \<Rightarrow> (ns @ ''/'' @ kind, name) # namedWorkloads ws
   | _ \<Rightarrow> namedWorkloads ws)"

definition group_map :: "(string \<times> WorkloadGroup) list \<Rightarrow> bool" where
  "group_map gs \<longleftrightarrow> distinct (map fst gs) \<and> (\<forall>(k, g) \<in> set gs. k = groupKey g \<and> wgNames g \<noteq> [])"

lemma addWorkload_keys: "set (map fst (addWorkload ns kind name gs)) = insert (ns @ ''/'' @ kind) (set (map fst gs))"
  by (induction ns kind name gs rule: addWorkload.induct) auto

lemma group_map_add: "group_map gs \<Longrightarrow> group_map (addWorkload ns kind name gs)"
proof (induction ns kind name gs rule: addWorkload.induct)
  case (2 ns kind name key g gs)
  then show ?case
    using addWorkload_keys [of ns kind name gs] by (auto simp: group_map_def groupKey_def) (force simp: image_iff)+
qed (simp add: group_map_def groupKey_def)

lemma members_add:
  "group_map gs \<Longrightarrow>
     mset (members (map snd (addWorkload ns kind name gs))) = add_mset (ns @ ''/'' @ kind, name) (mset (members (map snd gs)))"
  by (induction ns kind name gs rule: addWorkload.induct) (auto simp: group_map_def groupKey_def)

lemma group_map_workloads:
  "group_map gs \<Longrightarrow> group_map (groupMap gs ws) \<and>
     mset (members (map snd (groupMap gs ws))) = mset (members (map snd gs)) + mset (namedWorkloads ws)"
  by (induction gs ws rule: groupMap.induct) (auto simp: members_add group_map_add split: option.split)

lemma mset_members_cong: "mset gs = mset hs \<Longrightarrow> mset (members gs) = mset (members hs)"
proof -
  have "mset (members gs) = sum_mset (image_mset (\<lambda>g. mset (map (Pair (groupKey g)) (wgNames g))) (mset gs))" for gs
    by (induction gs) simp_all
  then show "mset gs = mset hs \<Longrightarrow> mset (members gs) = mset (members hs)" by simp
qed

text \<open>
  The workloads of a LogConfig are divided without loss: whatever order the groups come in, every workload with
  namespace, kind and name is in exactly one group, as often as it was listed, that of its namespace and kind; no two groups
  have the same namespace and kind, and none is empty.
\<close>

theorem workloads_grouped:
  "mset (members (groupWorkloads ks ws)) = mset (namedWorkloads ws) \<and> distinct (map groupKey (groupWorkloads ks ws)) \<and>
   list_all (\<lambda>g. wgNames g \<noteq> []) (groupWorkloads ks ws)"
proof -
  have gs: "group_map (groupMap [] ws)" "mset (members (map snd (groupMap [] ws))) = mset (namedWorkloads ws)"
    using group_map_workloads [of "[]" ws] by (simp_all add: group_map_def)
  have set: "set (groupWorkloads ks ws) = snd ` set (groupMap [] ws)"
    unfolding groupWorkloads_def by (metis mset_pick mset_eq_setD list.set_map)
  have "map groupKey (map snd (groupMap [] ws)) = map fst (groupMap [] ws)"
    using gs(1) by (auto simp: group_map_def)
  then have "distinct (map groupKey (map snd (groupMap [] ws)))" using gs(1) by (metis group_map_def)
  moreover have "mset (map groupKey (groupWorkloads ks ws)) = mset (map groupKey (map snd (groupMap [] ws)))"
    by (simp only: groupWorkloads_def mset_map mset_pick)
  ultimately have "distinct (map groupKey (groupWorkloads ks ws))" by (metis mset_eq_imp_distinct_iff)
  moreover have "mset (members (groupWorkloads ks ws)) = mset (namedWorkloads ws)"
    using mset_members_cong [of "groupWorkloads ks ws" "map snd (groupMap [] ws)"] gs(2) by (simp add: groupWorkloads_def)
  moreover have "list_all (\<lambda>g. wgNames g \<noteq> []) (groupWorkloads ks ws)"
    unfolding list_all_iff set using gs(1) by (auto simp: group_map_def)
  ultimately show ?thesis by blast
qed


section \<open>What the copies are\<close>

lemma length_generateSafePhysicalName: "length (generateSafePhysicalName n) \<le> 61"
  by (simp add: generateSafePhysicalName_def maxBaseNameLength_def hashLength_def Let_def)

definition carries :: "(string \<times> string) list \<Rightarrow> objmeta \<Rightarrow> bool" where
  "carries labels m \<longleftrightarrow> list_all (\<lambda>(k, v). mLabels m k = Some v) labels"

definition silentOn :: "smap \<Rightarrow> string \<Rightarrow> string \<Rightarrow> bool" where
  "silentOn m k v \<longleftrightarrow> m k = None \<or> m k = Some v"

definition generated :: "log_reconciler \<Rightarrow> log_config \<Rightarrow> log_config list \<Rightarrow> bool" where
  "generated r l ps \<longleftrightarrow> (\<exists>js ks. newConfigsFor r js ks l = Inr ps)"

lemma generated_meta: "generated r l ps \<Longrightarrow> p \<in> set ps \<Longrightarrow> \<exists>n. lcMeta p = generatedMeta r (lcMeta l) (generateSafePhysicalName n)"
  by (auto simp: generated_def newConfigsFor_def generateMultiplePhysicalLogConfigs_def generateSinglePhysicalLogConfig_def generateForGroup_def
      split: if_splits option.splits) (rule exI, rule refl)+

lemma label_keys:
  "GetManagedByClusterIDLabel c \<noteq> LabelManagedBy" "GetManagedByClusterIDLabel c \<noteq> virtualLogConfigLabel" "LabelManagedBy \<noteq> virtualLogConfigLabel"
  "LabelManagedBy \<noteq> LabelVirtualNamespace" "virtualLogConfigLabel \<noteq> LabelVirtualNamespace"
  by (simp_all add: GetManagedByClusterIDLabel_def kube_consts)

text \<open>
  Every LogConfig made for the physical cluster has a name of at most 61 characters, no namespace and no finalizer, and
  belongs to this cluster. The listing that later looks for it finds it exactly when the labels of the virtual LogConfig do not
  say otherwise on the two labels that are not protected when labels are copied; if they do, it is never found again.
\<close>

theorem generated_found:
  assumes "generated r l ps" and "p \<in> set ps"
  shows "length (mName (lcMeta p)) \<le> 61 \<and> mNamespace (lcMeta p) = '''' \<and> mFinalizers (lcMeta p) = [] \<and>
    isLogConfigManagedByThisCluster r p \<and>
    (carries (loLabels (relatedTo r (mName (lcMeta l)))) (lcMeta p) \<longleftrightarrow>
       silentOn (mLabels (lcMeta l)) LabelManagedBy LabelManagedByValue \<and>
       silentOn (mLabels (lcMeta l)) virtualLogConfigLabel (mName (lcMeta l)))"
proof -
  obtain n where meta: "lcMeta p = generatedMeta r (lcMeta l) (generateSafePhysicalName n)" using generated_meta [OF assms] by blast
  have managed: "mLabels (lcMeta p) (GetManagedByClusterIDLabel (lgClusterID r)) = Some LabelValueTrue"
    by (simp add: meta generatedMeta_def copyLabelsAndAnnotations_def isManagedLabel_def map_add_def label_keys)
  have others: "mLabels (lcMeta p) LabelManagedBy = Some LabelManagedByValue \<longleftrightarrow> silentOn (mLabels (lcMeta l)) LabelManagedBy LabelManagedByValue"
    "mLabels (lcMeta p) virtualLogConfigLabel = Some (mName (lcMeta l)) \<longleftrightarrow> silentOn (mLabels (lcMeta l)) virtualLogConfigLabel (mName (lcMeta l))"
    using label_keys label_keys(1,2) [symmetric]
    by (auto simp: meta generatedMeta_def copyLabelsAndAnnotations_def isManagedLabel_def map_add_def silentOn_def split: option.splits)
  have "length (mName (lcMeta p)) \<le> 61 \<and> mNamespace (lcMeta p) = '''' \<and> mFinalizers (lcMeta p) = []"
    using length_generateSafePhysicalName by (simp add: meta generatedMeta_def copyLabelsAndAnnotations_def empty_meta_def)
  moreover have "isLogConfigManagedByThisCluster r p"
    by (simp add: isLogConfigManagedByThisCluster_def mget_def managed)
  ultimately show ?thesis
    using managed others by (auto simp: carries_def relatedTo_def)
qed

section \<open>Comparison\<close>

lemma byName_in: "byName cs n = Some c \<Longrightarrow> c \<in> set cs \<and> mName (lcMeta c) = n"
  by (auto simp: byName_def dest: map_of_SomeD)

lemma distinct_map_rev: "distinct (map f (rev xs)) \<longleftrightarrow> distinct (map f xs)"
  by (metis distinct_rev rev_map)

lemma byName_distinct: "distinct (map (\<lambda>c. mName (lcMeta c)) cs) \<Longrightarrow> c \<in> set cs \<Longrightarrow> byName cs (mName (lcMeta c)) = Some c"
  by (auto simp: byName_def rev_map comp_def distinct_map_rev intro!: map_of_is_SomeI)

lemma byName_None: "byName cs n = None \<longleftrightarrow> n \<notin> (\<lambda>c. mName (lcMeta c)) ` set cs"
  by (auto simp: byName_def map_of_eq_None_iff image_iff)

text \<open>
  The comparison sees what matters: for LogConfigs with names of their own nothing is rebuilt exactly if the names and specs that
  are there are those that should be there.
\<close>

theorem compare_exact:
  assumes "distinct (map (\<lambda>c. mName (lcMeta c)) as)" and "distinct (map (\<lambda>c. mName (lcMeta c)) bs)"
  shows "\<not> compareLogConfigSpecs as bs \<longleftrightarrow> (\<lambda>c. (mName (lcMeta c), lcSpec c)) ` set as = (\<lambda>c. (mName (lcMeta c), lcSpec c)) ` set bs"
    (is "?same \<longleftrightarrow> ?f ` _ = _")
proof
  let ?n = "\<lambda>c. mName (lcMeta c)"
  assume same: ?same
  then have len: "length as = length bs" by (auto simp: compareLogConfigSpecs_def split: if_splits)
  have "?f c \<in> ?f ` set as" if "c \<in> set bs" for c
  proof -
    have "bs \<noteq> []" using that by auto
    then have "list_all (\<lambda>c. byName as (?n c) \<noteq> None) bs \<and>
        \<not> list_ex (\<lambda>c. case (byName as (?n c), byName bs (?n c)) of (Some a, Some b) \<Rightarrow> lcSpec a \<noteq> lcSpec b | _ \<Rightarrow> False) bs"
      using same len unfolding compareLogConfigSpecs_def Let_def by (simp add: list_all_iff list_ex_iff split: if_split_asm)
    then have known: "list_all (\<lambda>c. byName as (?n c) \<noteq> None) bs"
      and eq: "\<And>c a b. c \<in> set bs \<Longrightarrow> byName as (?n c) = Some a \<Longrightarrow> byName bs (?n c) = Some b \<Longrightarrow> lcSpec a = lcSpec b"
      by (fastforce simp: list_ex_iff)+
    from known have "byName as (?n c) \<noteq> None" using that by (simp add: list_all_iff)
    then obtain a where a: "byName as (?n c) = Some a" by blast
    then have "lcSpec a = lcSpec c" using eq [OF that _ byName_distinct [OF assms(2) that]] by blast
    then show ?thesis using byName_in [OF a] by (intro image_eqI [of _ _ a]) auto
  qed
  then have sub: "?f ` set bs \<subseteq> ?f ` set as" by blast
  have card: "card (?f ` set cs) = length cs" if "distinct (map ?n cs)" for cs
  proof -
    have inj: "inj_on ?n (set cs)" and "distinct cs" using that by (simp_all add: distinct_map)
    have "inj_on ?f (set cs)" by (rule inj_on_imageI2 [of fst]) (simp add: comp_def inj)
    then show ?thesis using \<open>distinct cs\<close> by (simp add: card_image distinct_card)
  qed
  have "card (?f ` set bs) = card (?f ` set as)" by (simp only: card [OF assms(1)] card [OF assms(2)] len)
  then show "?f ` set as = ?f ` set bs" by (intro card_subset_eq [OF _ sub, symmetric] finite_imageI finite_set)
next
  let ?n = "\<lambda>c. mName (lcMeta c)"
  assume eq: "?f ` set as = ?f ` set bs"
  then have "fst ` ?f ` set as = fst ` ?f ` set bs" by simp
  then have names: "?n ` set as = ?n ` set bs" by (simp add: image_image)
  then have len: "length as = length bs" using distinct_card [OF assms(1)] distinct_card [OF assms(2)] by simp
  have "lcSpec a = lcSpec b" if "byName as (?n c) = Some a" "byName bs (?n c) = Some b" for a b c
  proof -
    have a: "a \<in> set as" "?n a = ?n c" and b: "b \<in> set bs" "?n b = ?n c" using byName_in that by blast+
    then have "?f a \<in> ?f ` set bs" using eq by blast
    then obtain b' where b': "b' \<in> set bs" "?f a = ?f b'" by auto
    moreover have "inj_on ?n (set bs)" using assms(2) by (simp add: distinct_map)
    ultimately have "b' = b" using a b by (auto dest: inj_onD)
    then show ?thesis using b' by simp
  qed
  then show ?same
    using len names by (auto simp: compareLogConfigSpecs_def byName_None list_ex_iff Let_def split: option.splits)
qed


section \<open>What must come before a write\<close>

definition virtual_read :: "string \<Rightarrow> string \<Rightarrow> log_config \<Rightarrow> event list \<Rightarrow> bool" where
  "virtual_read ns name l pre \<longleftrightarrow> EvGet VirtualClient KLogConfig ns name (Inr (OLogConfig l)) \<in> set pre"

definition virtual_gone :: "string \<Rightarrow> string \<Rightarrow> event list \<Rightarrow> bool" where
  "virtual_gone ns name pre \<longleftrightarrow> (\<exists>e. EvGet VirtualClient KLogConfig ns name (Inl e) \<in> set pre \<and> IsNotFound e)"

definition listed :: "log_reconciler \<Rightarrow> string \<Rightarrow> log_config list \<Rightarrow> event list \<Rightarrow> bool" where
  "listed r vn ls pre \<longleftrightarrow> (\<exists>items. EvList PhysicalClient KLogConfig (relatedTo r vn) (Inr items) \<in> set pre \<and>
     ls = List.map_filter the_log_config items)"

definition log_deleted :: "log_config \<Rightarrow> event list \<Rightarrow> bool" where
  "log_deleted x pre \<longleftrightarrow> (\<exists>d. EvDelete PhysicalClient KLogConfig (mNamespace (lcMeta x)) (mName (lcMeta x)) no_opts d \<in> set pre \<and>
     (case d of Inl e \<Rightarrow> IsNotFound e | Inr _ \<Rightarrow> True))"

definition log_absent :: "log_config \<Rightarrow> event list \<Rightarrow> bool" where
  "log_absent x pre \<longleftrightarrow> (\<exists>e. EvGet PhysicalClient KLogConfig '''' (mName (lcMeta x)) (Inl e) \<in> set pre \<and> IsNotFound e)"

definition outdated :: "log_reconciler \<Rightarrow> string \<Rightarrow> string \<Rightarrow> log_config list \<Rightarrow> log_config list \<Rightarrow> event list \<Rightarrow> bool" where
  "outdated r ns name ls ps pre \<longleftrightarrow> (\<exists>l. virtual_read ns name l pre \<and> mDeletionTimestamp (lcMeta l) = None \<and>
     hasSyncedResourceFinalizer r (lcMeta l) \<and> listed r (mName (lcMeta l)) ls pre \<and> generated r l ps \<and> compareLogConfigSpecs ls ps)"

definition orphaned :: "log_reconciler \<Rightarrow> string \<Rightarrow> string \<Rightarrow> log_config list \<Rightarrow> event list \<Rightarrow> bool" where
  "orphaned r ns name ls pre \<longleftrightarrow> virtual_gone ns name pre \<and> listed r name ls pre \<or>
     (\<exists>l. virtual_read ns name l pre \<and> mDeletionTimestamp (lcMeta l) \<noteq> None \<and> hasSyncedResourceFinalizer r (lcMeta l) \<and>
        listed r (mName (lcMeta l)) ls pre)"

fun log_guard :: "log_reconciler \<Rightarrow> string \<Rightarrow> string \<Rightarrow> event list \<Rightarrow> event \<Rightarrow> bool" where
  "log_guard r ns name pre (EvCreate c ob _) \<longleftrightarrow> c = PhysicalClient \<and>
     (\<exists>ls ps p. outdated r ns name ls ps pre \<and> list_all (\<lambda>x. log_deleted x pre \<and> log_absent x pre) ls \<and> p \<in> set ps \<and> ob = OLogConfig p)"
| "log_guard r ns name pre (EvUpdate c ob _) \<longleftrightarrow> c = VirtualClient \<and>
     (\<exists>l. virtual_read ns name l pre \<and>
        (mDeletionTimestamp (lcMeta l) = None \<and> \<not> hasSyncedResourceFinalizer r (lcMeta l) \<and>
           ob = OLogConfig (l\<lparr>lcMeta := AddFinalizer (lcMeta l) (FinalizerClusterIDPrefix @ lgClusterID r)\<rparr>) \<or>
         mDeletionTimestamp (lcMeta l) \<noteq> None \<and> hasSyncedResourceFinalizer r (lcMeta l) \<and>
           (\<exists>ls. listed r (mName (lcMeta l)) ls pre \<and> list_all (\<lambda>x. isLogConfigManagedByThisCluster r x \<longrightarrow> log_deleted x pre) ls) \<and>
           ob = OLogConfig (l\<lparr>lcMeta := RemoveFinalizer (lcMeta l) (FinalizerClusterIDPrefix @ lgClusterID r)\<rparr>)))"
| "log_guard r ns name pre (EvDelete c k ns' n opts _) \<longleftrightarrow> c = PhysicalClient \<and> k = KLogConfig \<and> opts = no_opts \<and>
     (\<exists>ls x. x \<in> set ls \<and> ns' = mNamespace (lcMeta x) \<and> n = mName (lcMeta x) \<and>
        ((\<exists>ps. outdated r ns name ls ps pre) \<or> orphaned r ns name ls pre \<and> isLogConfigManagedByThisCluster r x))"
| "log_guard r ns name pre e \<longleftrightarrow> \<not> is_write e"

lemma log_guard_read [simp]: "\<not> is_write e \<Longrightarrow> log_guard r ns name pre e"
  by (cases e) auto

lemma log_reads_kept [simp]:
  "virtual_read ns name l pre \<Longrightarrow> virtual_read ns name l (pre @ es)"
  "virtual_gone ns name pre \<Longrightarrow> virtual_gone ns name (pre @ es)"
  "listed r vn ls pre \<Longrightarrow> listed r vn ls (pre @ es)"
  "log_deleted x pre \<Longrightarrow> log_deleted x (pre @ es)"
  "log_absent x pre \<Longrightarrow> log_absent x (pre @ es)"
  "outdated r ns name ls ps pre \<Longrightarrow> outdated r ns name ls ps (pre @ es)"
  "orphaned r ns name ls pre \<Longrightarrow> orphaned r ns name ls (pre @ es)"
  unfolding virtual_read_def virtual_gone_def listed_def log_deleted_def log_absent_def outdated_def orphaned_def by auto

lemma list_all_kept: "list_all P xs \<Longrightarrow> (\<And>x. P x \<Longrightarrow> Q x) \<Longrightarrow> list_all Q xs"
  by (auto simp: list_all_iff)

lemma guarded_find:
  "guarded (log_guard r ns name) pre (findAllRelatedPhysicalLogConfigs A r vn) (\<lambda>res pre'. \<forall>ls. res = Inr ls \<longrightarrow> listed r vn ls pre')"
  unfolding findAllRelatedPhysicalLogConfigs_def by (intro gvcg) (auto simp: listed_def split: sum.splits intro!: gvcg)

lemma guarded_deleteLogConfig:
  assumes "x \<in> set ls" and "(\<exists>ps. outdated r ns name ls ps pre) \<or> orphaned r ns name ls pre \<and> isLogConfigManagedByThisCluster r x"
  shows "guarded (log_guard r ns name) pre (deleteLogConfig A x) (\<lambda>res pre'. res = Inr () \<longrightarrow> log_deleted x pre')"
proof -
  have "log_guard r ns name pre (EvDelete PhysicalClient KLogConfig (mNamespace (lcMeta x)) (mName (lcMeta x)) no_opts d)" for d
    unfolding log_guard.simps using assms by blast
  then show ?thesis
    unfolding deleteLogConfig_def by (intro gvcg) (auto simp: log_deleted_def split: sum.splits)
qed

text \<open>The loops: each step is allowed, and what it did is still known after the rest.\<close>

lemma guarded_each:
  assumes "\<And>es. guarded G (pre @ es) m (\<lambda>res pre'. res = Inr () \<longrightarrow> P pre')"
    and "\<And>es. guarded G (pre @ es) rest (\<lambda>res pre'. res = Inr () \<longrightarrow> Q pre')"
    and "\<And>p es. P p \<Longrightarrow> P (p @ es)"
  shows "guarded G pre (on_ok m (\<lambda>_. rest)) (\<lambda>res pre'. res = Inr () \<longrightarrow> P pre' \<and> Q pre')"
    and "guarded G pre (on_ok_wrap msg m (\<lambda>_. rest)) (\<lambda>res pre'. res = Inr () \<longrightarrow> P pre' \<and> Q pre')"
proof -
  have m: "guarded G pre m (\<lambda>res pre'. res = Inr () \<longrightarrow> P pre')" using assms(1) [of "[]"] by simp
  have rest: "guarded G (pre @ es) rest (\<lambda>res pre'. res = Inr () \<longrightarrow> P pre' \<and> Q pre')" if "P (pre @ es)" for es
    by (rule guarded_mono [OF guarded_prefix [OF assms(2)]]) (use that assms(3) in \<open>auto simp flip: append_assoc\<close>)
  show "guarded G pre (on_ok m (\<lambda>_. rest)) (\<lambda>res pre'. res = Inr () \<longrightarrow> P pre' \<and> Q pre')"
    by (rule guarded_on_ok_then [OF m]) (use rest in auto)
  show "guarded G pre (on_ok_wrap msg m (\<lambda>_. rest)) (\<lambda>res pre'. res = Inr () \<longrightarrow> P pre' \<and> Q pre')"
    by (rule guarded_on_ok_wrap_then [OF m]) (use rest in auto)
qed

lemma guarded_deleteExisting:
  assumes "outdated r ns name ls ps pre" and "set xs \<subseteq> set ls"
  shows "guarded (log_guard r ns name) pre (deleteExisting A xs :: ('s, 'm, unit res) prog)
    (\<lambda>res pre'. res = Inr () \<longrightarrow> list_all (\<lambda>x. log_deleted x pre') xs)"
  using assms
proof (induction xs arbitrary: pre)
  case (Cons x xs)
  have "guarded (log_guard r ns name) (pre @ es) (deleteLogConfig A x) (\<lambda>res pre'. res = Inr () \<longrightarrow> log_deleted x pre')" for es
    by (rule guarded_deleteLogConfig [of _ ls]) (use Cons.prems in \<open>auto intro: log_reads_kept\<close>)
  moreover have "guarded (log_guard r ns name) (pre @ es) (deleteExisting A xs :: ('s, 'm, unit res) prog)
      (\<lambda>res pre'. res = Inr () \<longrightarrow> list_all (\<lambda>x. log_deleted x pre') xs)" for es
    by (rule Cons.IH) (use Cons.prems in auto)
  ultimately show ?case unfolding deleteExisting.simps list.pred_inject by (rule guarded_each) simp
qed (auto intro!: gvcg)

lemma guarded_deleteManaged:
  assumes "orphaned r ns name ls pre" and "set xs \<subseteq> set ls"
  shows "guarded (log_guard r ns name) pre (deleteManaged A r xs :: ('s, 'm, unit res) prog)
    (\<lambda>res pre'. res = Inr () \<longrightarrow> list_all (\<lambda>x. isLogConfigManagedByThisCluster r x \<longrightarrow> log_deleted x pre') xs)"
  using assms
proof (induction xs arbitrary: pre)
  case (Cons x xs)
  have rest: "guarded (log_guard r ns name) (pre @ es) (deleteManaged A r xs :: ('s, 'm, unit res) prog)
      (\<lambda>res pre'. res = Inr () \<longrightarrow> list_all (\<lambda>x. isLogConfigManagedByThisCluster r x \<longrightarrow> log_deleted x pre') xs)" for es
    by (rule Cons.IH) (use Cons.prems in auto)
  show ?case
  proof (cases "isLogConfigManagedByThisCluster r x")
    case True
    have "guarded (log_guard r ns name) (pre @ es) (deleteLogConfig A x) (\<lambda>res pre'. res = Inr () \<longrightarrow> log_deleted x pre')" for es
      by (rule guarded_deleteLogConfig [of _ ls]) (use Cons.prems True in auto)
    from guarded_each(1) [OF this rest] True show ?thesis by simp
  next
    case False
    then show ?thesis using rest [of "[]"] by simp
  qed
qed (auto intro!: gvcg)


lemma guarded_waitRounds:
  "guarded (log_guard r ns name) pre (waitRounds E A (mName (lcMeta x)) i k) (\<lambda>res pre'. res = Inr () \<longrightarrow> log_absent x pre')"
proof (induction k arbitrary: i pre)
  case (Suc k)
  show ?case
    unfolding waitRounds.simps
    by (intro guarded_bind guarded_ops guarded_sum guarded_if guarded_return guarded_outside guarded_option Suc.IH)
      (auto simp: log_absent_def)
qed (auto intro!: gvcg)

lemma guarded_waitForAll:
  "guarded (log_guard r ns name) pre (waitForAll E A xs :: ('s, 'm, unit res) prog)
    (\<lambda>res pre'. res = Inr () \<longrightarrow> list_all (\<lambda>x. log_absent x pre') xs)"
proof (induction xs arbitrary: pre)
  case (Cons x xs)
  have "guarded (log_guard r ns name) (pre @ es) (waitForAll E A xs :: ('s, 'm, unit res) prog)
      (\<lambda>res pre'. res = Inr () \<longrightarrow> list_all (\<lambda>x. log_absent x pre') xs)" for es
    by (rule Cons.IH)
  then show ?case
    unfolding waitForAll.simps list.pred_inject waitForLogConfigDeletion_def by (rule guarded_each(2) [OF guarded_waitRounds]) simp
qed (auto intro!: gvcg)

lemma guarded_createNew:
  assumes "outdated r ns name ls ps pre" and "list_all (\<lambda>x. log_deleted x pre \<and> log_absent x pre) ls" and "set xs \<subseteq> set ps"
  shows "guarded (log_guard r ns name) pre (createNew A xs) (\<lambda>_ _. True)"
  using assms
proof (induction xs arbitrary: pre)
  case (Cons x xs)
  have allowed: "log_guard r ns name pre (EvCreate PhysicalClient (OLogConfig x) a)" for a
    unfolding log_guard.simps using Cons.prems by auto
  have kept: "list_all (\<lambda>x. log_deleted x (pre @ es) \<and> log_absent x (pre @ es)) ls" for es
    using Cons.prems(2) by (rule list_all_kept) simp
  show ?case
    unfolding createNew.simps
    by (intro guarded_bind guarded_ops guarded_sum guarded_if guarded_return Cons.IH TrueI allowed) (use Cons.prems kept in auto)
qed (auto intro!: gvcg)

lemma guarded_rebuild:
  assumes "outdated r ns name ls ps pre"
  shows "guarded (log_guard r ns name) pre (atomicRebuildPhysicalLogConfigs E A ls ps) (\<lambda>_ _. True)"
  unfolding atomicRebuildPhysicalLogConfigs_def
proof (rule guarded_on_ok_then [OF guarded_deleteExisting [OF assms order.refl]], goal_cases)
  case (1 x es)
  have kept: "outdated r ns name ls ps (pre @ es)" using assms by simp
  show ?case
  proof (rule guarded_on_ok_then [OF guarded_waitForAll], goal_cases)
    case (1 x' es')
    then have "list_all (\<lambda>x. log_deleted x ((pre @ es) @ es') \<and> log_absent x ((pre @ es) @ es')) ls"
      using \<open>Inr x = Inr () \<longrightarrow> list_all (\<lambda>x. log_deleted x (pre @ es)) ls\<close> by (simp add: list_all_iff del: append_assoc)
    then show ?case by (rule guarded_createNew [OF log_reads_kept(6) [OF kept] _ order.refl])
  qed simp
qed simp

lemma guarded_reconcilePhysical:
  assumes "virtual_read ns name l pre" and "mDeletionTimestamp (lcMeta l) = None"
  shows "guarded (log_guard r ns name) pre (reconcilePhysicalLogConfigs E A r l) (\<lambda>_ _. True)"
proof (cases "hasSyncedResourceFinalizer r (lcMeta l)")
  case False
  then have "log_guard r ns name pre (EvUpdate VirtualClient
      (OLogConfig (l\<lparr>lcMeta := AddFinalizer (lcMeta l) (FinalizerClusterIDPrefix @ lgClusterID r)\<rparr>)) a)" for a
    unfolding log_guard.simps using assms by blast
  then show ?thesis
    using False unfolding reconcilePhysicalLogConfigs_def addSyncedResourceFinalizer_def
    by (auto simp: hasSyncedResourceFinalizer_def simp del: log_guard.simps split: sum.splits intro!: gvcg)
next
  case True
  have "outdated r ns name ls ps (pre @ es)" if "listed r (mName (lcMeta l)) ls (pre @ es)" and "compareLogConfigSpecs ls ps"
    and "newConfigsFor r js ks l = Inr ps" for ls ps es js ks
  proof -
    have "generated r l ps" unfolding generated_def using that(3) by blast
    then show ?thesis unfolding outdated_def using that(1,2) assms True by (intro exI [of _ l] conjI log_reads_kept(1))
  qed
  then have "guarded (log_guard r ns name) (pre @ es) (outside (lgOrder E) \<bind> (\<lambda>js. outside (lgOrder E) \<bind> (\<lambda>ks.
      on_ok (return (newConfigsFor r js ks l)) (\<lambda>newConfigs.
        if \<not> compareLogConfigSpecs ls newConfigs then return (Inr (Result 0))
        else on_ok (atomicRebuildPhysicalLogConfigs E A ls newConfigs) (\<lambda>_. return (Inr (Result 0))))))) (\<lambda>_ _. True)"
    if "listed r (mName (lcMeta l)) ls (pre @ es)" for ls es
    using that
    by (intro guarded_bind guarded_outside guarded_on_ok guarded_return)
      (auto split: sum.splits intro!: guarded_on_ok guarded_return guarded_mono [OF guarded_rebuild])
  then show ?thesis
    unfolding reconcilePhysicalLogConfigs_def using True
    by (simp del: bind_assoc) (rule guarded_on_ok_then [OF guarded_find], simp_all)
qed


lemma guarded_log_notFound:
  assumes "virtual_gone ns name pre"
  shows "guarded (log_guard r ns name) pre (handleVirtualLogConfigNotFound A r name) (\<lambda>_ _. True)"
proof -
  have "orphaned r ns name ls (pre @ es)" if "listed r name ls (pre @ es)" for ls es
    unfolding orphaned_def using that assms by simp
  then show ?thesis
    unfolding handleVirtualLogConfigNotFound_def
    by (intro guarded_on_ok_then [OF guarded_find] guarded_on_ok_then [OF guarded_deleteManaged [OF _ order.refl]] guarded_return TrueI) simp_all
qed

lemma guarded_log_deletion:
  assumes "virtual_read ns name l pre" and "mDeletionTimestamp (lcMeta l) \<noteq> None"
  shows "guarded (log_guard r ns name) pre (handleVirtualLogConfigDeletion A r l) (\<lambda>_ _. True)"
proof (cases "hasSyncedResourceFinalizer r (lcMeta l)")
  case True
  have orphaned: "orphaned r ns name ls (pre @ es)" if "listed r (mName (lcMeta l)) ls (pre @ es)" for ls es
    unfolding orphaned_def using that assms True by (intro disjI2 exI [of _ l]) simp
  have "log_guard r ns name (pre @ es) (EvUpdate VirtualClient
      (OLogConfig (l\<lparr>lcMeta := RemoveFinalizer (lcMeta l) (FinalizerClusterIDPrefix @ lgClusterID r)\<rparr>)) a)"
    if "listed r (mName (lcMeta l)) ls (pre @ es)"
      and "list_all (\<lambda>x. isLogConfigManagedByThisCluster r x \<longrightarrow> log_deleted x (pre @ es)) ls" for ls es a
    unfolding log_guard.simps by (intro conjI refl exI [of _ l] disjI2 exI [of _ ls]) (use that assms True in simp_all)
  then have release: "guarded (log_guard r ns name) (pre @ es)
      (RemoveSyncedResourceFinalizerWithClusterID A (OLogConfig l) (lgClusterID r)) (\<lambda>_ _. True)"
    if "listed r (mName (lcMeta l)) ls (pre @ es)"
      and "list_all (\<lambda>x. isLogConfigManagedByThisCluster r x \<longrightarrow> log_deleted x (pre @ es)) ls" for ls es
    unfolding RemoveSyncedResourceFinalizerWithClusterID_def Let_def obj_meta.simps set_obj_meta.simps
    by (intro guarded_if guarded_return TrueI guarded_on_ok guarded_ops) (use that in \<open>auto simp del: log_guard.simps split: sum.splits intro!: guarded_return\<close>)
  have deleted: "guarded (log_guard r ns name) (pre @ es) (on_ok (deleteManaged A r ls) (\<lambda>_.
      on_ok (RemoveSyncedResourceFinalizerWithClusterID A (OLogConfig l) (lgClusterID r)) (\<lambda>_. return (Inr (Result 0))))) (\<lambda>_ _. True)"
    if "listed r (mName (lcMeta l)) ls (pre @ es)" for ls es
  proof (rule guarded_on_ok_then [OF guarded_deleteManaged [OF orphaned [OF that] order.refl]], goal_cases)
    case (1 x es')
    have "listed r (mName (lcMeta l)) ls (pre @ es @ es')" using log_reads_kept(3) [OF that] by simp
    moreover have "list_all (\<lambda>x. isLogConfigManagedByThisCluster r x \<longrightarrow> log_deleted x (pre @ es @ es')) ls" using 1 by simp
    ultimately show ?case
      by (auto intro!: guarded_on_ok_then [OF release [of ls "es @ es'", simplified]] guarded_return)
  qed simp
  show ?thesis
    unfolding handleVirtualLogConfigDeletion_def using True
    by (simp del: bind_assoc) (rule guarded_on_ok_then [OF guarded_find], use deleted in simp_all)
qed (simp add: handleVirtualLogConfigDeletion_def guarded_return)

text \<open>
  C27. Every write of the LogConfig controller comes after what justifies it. Copies are created only for a LogConfig that was read, is not
  being deleted and carries the finalizer, only when names or specs differ from what is wanted, and only after every copy listed
  for it was deleted and then found gone. Copies are deleted only when they were listed for it and are
  outdated, or when it is gone or going and the copy belongs to this cluster. The finalizer is added while it is not being
  deleted, and removed only after every listed copy of this cluster was deleted. Nothing else is written.
\<close>

theorem ReconcileLogConfig_ordered:
  "tspec (ReconcileLogConfig E A r ns name) w (\<lambda>_ evs _. ordered (log_guard r ns name) [] evs)"
proof -
  have "virtual_gone ns name [EvGet VirtualClient KLogConfig ns name a]" if "decode the_log_config a = Inl e" "IsNotFound e" for a e
    using that by (auto simp: virtual_gone_def decode_def split: sum.splits option.splits)
  moreover have "virtual_read ns name l [EvGet VirtualClient KLogConfig ns name a]" if "decode the_log_config a = Inr l" for a l
    using that by (auto simp: virtual_read_def decode_Inr elim: the_log_config.elims)
  ultimately show ?thesis
    unfolding ReconcileLogConfig_def
    by (intro guarded_ordered [where Q = "\<lambda>_ _. True"] guarded_bind guarded_ops guarded_sum guarded_if guarded_return TrueI
        guarded_log_notFound guarded_log_deletion guarded_reconcilePhysical) simp_all
qed


lemma generated_names:
  "generateMultiplePhysicalLogConfigs r ks l = Inr ps \<Longrightarrow>
     map (\<lambda>c. mName (lcMeta c)) ps = map (\<lambda>i. generateSafePhysicalName (mName (lcMeta l) @ ''-g'' @ show_nat i)) [0..<length ps]"
  by (auto simp: generateMultiplePhysicalLogConfigs_def generateForGroup_def generatedMeta_def copyLabelsAndAnnotations_def enumerate_eq_zip
      split: option.splits intro!: nth_equalityI)

lemma generated_length:
  assumes "generateMultiplePhysicalLogConfigs r ks l = Inr ps" and "generateMultiplePhysicalLogConfigs r ks' l = Inr qs"
  shows "length ps = length qs"
  using assms by (auto simp: generateMultiplePhysicalLogConfigs_def groupWorkloads_def split: option.splits)

text \<open>
  The copies of one LogConfig are numbered in the order of iteration over a map, which Go changes from run to run. Whenever two runs see the
  groups in orders that differ at some place, the second finds the same names with other specs and rebuilds everything,
  although nothing changed.
\<close>

theorem reordering_rebuilds:
  assumes "generateMultiplePhysicalLogConfigs r ks l = Inr ps" and "generateMultiplePhysicalLogConfigs r ks' l = Inr qs"
    and "i < length ps" and "lcSpec (ps ! i) \<noteq> lcSpec (qs ! i)" and "distinct (map (\<lambda>c. mName (lcMeta c)) ps)"
  shows "map (\<lambda>c. mName (lcMeta c)) qs = map (\<lambda>c. mName (lcMeta c)) ps \<and> compareLogConfigSpecs ps qs"
proof
  let ?n = "\<lambda>c. mName (lcMeta c)"
  have len: "length ps = length qs" by (rule generated_length [OF assms(1,2)])
  then show names: "map ?n qs = map ?n ps" using generated_names [OF assms(1)] generated_names [OF assms(2)] by simp
  have "?n (ps ! i) = ?n (qs ! i)" using names assms(3) len by (metis nth_map)
  moreover have "byName ps (?n (ps ! i)) = Some (ps ! i)" by (rule byName_distinct) (use assms(3,5) in simp_all)
  moreover have "byName qs (?n (qs ! i)) = Some (qs ! i)" by (rule byName_distinct) (use assms(3,5) len names in simp_all)
  ultimately have "list_ex (\<lambda>c. case (byName ps (?n c), byName qs (?n c)) of (Some a, Some b) \<Rightarrow> lcSpec a \<noteq> lcSpec b | _ \<Rightarrow> False) qs"
    unfolding list_ex_iff using assms(3,4) len by (intro bexI [of _ "qs ! i"]) simp_all
  then show "compareLogConfigSpecs ps qs"
    using assms(3) len unfolding compareLogConfigSpecs_def Let_def by auto
qed

definition two_selectors :: "workload_selector list" where
  "two_selectors = [\<lparr>wsNamespace = Some ''x'', wsKind = Some ''Deployment'', wsName = Some ''m'', wsOther = ''''\<rparr>,
     \<lparr>wsNamespace = Some ''y'', wsKind = Some ''Deployment'', wsName = Some ''n'', wsOther = ''''\<rparr>]"

definition two_workloads :: log_config where
  "two_workloads = \<lparr>lcMeta = empty_meta\<lparr>mName := ''a''\<rparr>, lcSpec = \<lparr>lsCLSDetail = None, lsInputDetail = Some \<lparr>idType = Some ''container_stdout'',
     idContainerFile = None, idContainerStdout = Some \<lparr>coNamespace = None, coExcludeNamespace = None, coIncludeLabels = None, coExcludeLabels = None,
       coWorkloads = Some two_selectors, coOther = ''''\<rparr>, idHostFile = None\<rparr>, lsKafkaDetail = None\<rparr>\<rparr>"

lemma two_groups:
  "groupWorkloads [] two_selectors =
     [\<lparr>wgNamespace = ''x'', wgKind = ''Deployment'', wgNames = [''m'']\<rparr>, \<lparr>wgNamespace = ''y'', wgKind = ''Deployment'', wgNames = [''n'']\<rparr>]"
  "groupWorkloads [1] two_selectors =
     [\<lparr>wgNamespace = ''y'', wgKind = ''Deployment'', wgNames = [''n'']\<rparr>, \<lparr>wgNamespace = ''x'', wgKind = ''Deployment'', wgNames = [''m'']\<rparr>]"
  by (simp_all add: groupWorkloads_def two_selectors_def)

definition copies_of :: "nat list \<Rightarrow> log_config list" where
  "copies_of ks = map (\<lambda>(i, g). generateForGroup \<lparr>lgClusterID = ''c''\<rparr> two_workloads i g) (enumerate 0 (groupWorkloads ks two_selectors))"

lemma copies_of: "generateMultiplePhysicalLogConfigs \<lparr>lgClusterID = ''c''\<rparr> ks two_workloads = Inr (copies_of ks)"
  by (simp add: generateMultiplePhysicalLogConfigs_def copies_of_def two_workloads_def)

lemma named_in_spec:
  "lcSpec (generateForGroup r two_workloads i g) = lcSpec (generateForGroup r two_workloads j h) \<Longrightarrow> length (wgNames g) = 1 \<Longrightarrow>
     length (wgNames h) = 1 \<Longrightarrow> wgNames g ! 0 = wgNames h ! 0"
  by (drule arg_cong [of _ _ "\<lambda>s. the (coIncludeLabels (the (idContainerStdout (the (lsInputDetail s))))) workloadNameLabel"])
    (simp add: generateForGroup_def transformSingleWorkloadGroup_def two_workloads_def)

theorem reordering_rebuilds_witness: "compareLogConfigSpecs (copies_of []) (copies_of [1])"
proof -
  have len: "length (copies_of []) = 2" by (simp add: copies_of_def two_groups)
  have first: "copies_of [] ! 0 = generateForGroup \<lparr>lgClusterID = ''c''\<rparr> two_workloads 0 (groupWorkloads [] two_selectors ! 0)"
    "copies_of [1] ! 0 = generateForGroup \<lparr>lgClusterID = ''c''\<rparr> two_workloads 0 (groupWorkloads [1] two_selectors ! 0)"
    unfolding copies_of_def two_groups by simp_all
  have "lcSpec (copies_of [] ! 0) \<noteq> lcSpec (copies_of [1] ! 0)"
  proof
    assume "lcSpec (copies_of [] ! 0) = lcSpec (copies_of [1] ! 0)"
    from named_in_spec [OF this [unfolded first]] show False by (simp only: two_groups) simp
  qed
  moreover have "take 4 (generateSafePhysicalName ''a-g0'') \<noteq> take 4 (generateSafePhysicalName ''a-g1'')"
    by (simp add: generateSafePhysicalName_def maxBaseNameLength_def Let_def)
  moreover have "show_nat 0 = ''0''" "show_nat (Suc 0) = ''1''" by code_simp+
  ultimately have "distinct (map (\<lambda>c. mName (lcMeta c)) (copies_of []))" and "lcSpec (copies_of [] ! 0) \<noteq> lcSpec (copies_of [1] ! 0)"
    unfolding generated_names [OF copies_of] len by (auto simp: two_workloads_def upt_rec)
  then show ?thesis using reordering_rebuilds [OF copies_of copies_of, of 0 "[]" "[1]"] len by simp
qed


lemma two_workloads_generated: "generated \<lparr>lgClusterID = ''c''\<rparr> two_workloads (copies_of [])"
proof -
  have "requiresMultiplePhysicalConfigs [] two_workloads"
    by (simp add: requiresMultiplePhysicalConfigs_def two_workloads_def hasWorkloads_def two_selectors_def groupWorkloads_def)
  then show ?thesis unfolding generated_def newConfigsFor_def by (intro exI [of _ "[]"]) (simp add: copies_of)
qed

theorem generated_found_witness:
  "carries (loLabels (relatedTo \<lparr>lgClusterID = ''c''\<rparr> ''a'')) (lcMeta (copies_of [] ! 1))"
proof -
  have "copies_of [] ! 1 \<in> set (copies_of [])" by (rule nth_mem) (simp add: copies_of_def two_groups)
  from generated_found [OF two_workloads_generated this] show ?thesis by (simp add: two_workloads_def silentOn_def empty_meta_def)
qed

theorem compare_exact_witness: "\<not> compareLogConfigSpecs [two_workloads] [two_workloads\<lparr>lcMeta := empty_meta\<lparr>mName := ''a'', mUID := ''u''\<rparr>\<rparr>]"
  by (subst compare_exact) (simp_all add: two_workloads_def)

end
