(* ===== verification/Proxier_Summary.thy ===== *)
theory Proxier_Summary
  imports Metrics_Parser "HOL-Library.Word"
begin

text \<open>
  The summary statistics of \<^verbatim>\<open>pkg/proxier\<close>: the types of \<^verbatim>\<open>kubelet_client.go\<close> and what
  \<^verbatim>\<open>metrics_collector.go\<close> does with the answer of a kubelet before it is served for a virtual node. Only pods that are mapped
  to virtual pods stay, under their virtual names, and the statistics of the node become the sums over the containers that are
  left. Counters are \<^verbatim>\<open>uint64\<close> and wrap around; a nil pointer is \<open>None\<close>.
\<close>

section \<open>Data\<close>

text \<open>\<^verbatim>\<open>metav1.Time{}\<close>: the first second of the year 1, in nanoseconds since the epoch.\<close>

definition noTime :: int where "noTime = - 62135596800000000000"

record CPUStats =
  cpuTime :: int
  cpuUsageCoreNanoSeconds :: "64 word option"
  cpuUsageNanoCores :: "64 word option"

record MemoryStats =
  memTime :: int
  memAvailableBytes :: "64 word option"
  memUsageBytes :: "64 word option"
  memWorkingSetBytes :: "64 word option"
  memRSSBytes :: "64 word option"
  memPageFaults :: "64 word option"
  memMajorPageFaults :: "64 word option"

record ContainerStats =
  cstName :: string
  cstStartTime :: int
  cstCPU :: "CPUStats option"
  cstMemory :: "MemoryStats option"

record PodReference =
  prName :: string
  prNamespace :: string
  prUID :: string

record PodStats =
  pstPodRef :: PodReference
  pstStartTime :: int
  pstContainers :: "ContainerStats list"

record NodeStats =
  nstNodeName :: string
  nstStartTime :: int
  nstCPU :: "CPUStats option"
  nstMemory :: "MemoryStats option"

record Summary =
  sumNode :: NodeStats
  sumPods :: "PodStats list"

definition emptyCPU :: CPUStats where
  "emptyCPU = \<lparr>cpuTime = noTime, cpuUsageCoreNanoSeconds = None, cpuUsageNanoCores = None\<rparr>"

definition emptyMemory :: MemoryStats where
  "emptyMemory = \<lparr>memTime = noTime, memAvailableBytes = None, memUsageBytes = None, memWorkingSetBytes = None,
     memRSSBytes = None, memPageFaults = None, memMajorPageFaults = None\<rparr>"

definition ProxierWorkerNamespace :: string where "ProxierWorkerNamespace = ''kubeocean-worker''"

section \<open>Sums over containers\<close>

text \<open>The variables the two aggregation functions update through pointers.\<close>

record cpu_totals =
  totalCPUUsageCoreNanoSeconds :: "64 word"
  totalCPUUsageNanoCores :: "64 word"
  cpuCount :: int
  hasAnyCPUStats :: bool
  latestCPUTime :: int

record memory_totals =
  totalMemoryWorkingSetBytes :: "64 word"
  totalMemoryUsageBytes :: "64 word"
  totalMemoryRSSBytes :: "64 word"
  totalMemoryPageFaults :: "64 word"
  totalMemoryMajorPageFaults :: "64 word"
  memoryCount :: int
  hasAnyMemoryStats :: bool
  latestMemoryTime :: int

definition noCPU :: cpu_totals where
  "noCPU = \<lparr>totalCPUUsageCoreNanoSeconds = 0, totalCPUUsageNanoCores = 0, cpuCount = 0, hasAnyCPUStats = False,
     latestCPUTime = noTime\<rparr>"

definition noMemory :: memory_totals where
  "noMemory = \<lparr>totalMemoryWorkingSetBytes = 0, totalMemoryUsageBytes = 0, totalMemoryRSSBytes = 0, totalMemoryPageFaults = 0,
     totalMemoryMajorPageFaults = 0, memoryCount = 0, hasAnyMemoryStats = False, latestMemoryTime = noTime\<rparr>"

text \<open>\<^verbatim>\<open>if p != nil { *total += *p }\<close>\<close>

definition plus_opt :: "64 word option \<Rightarrow> 64 word \<Rightarrow> 64 word" where
  "plus_opt v n = (case v of None \<Rightarrow> n | Some x \<Rightarrow> n + x)"

definition count_opt :: "'a option \<Rightarrow> int \<Rightarrow> int" where
  "count_opt v n = (case v of None \<Rightarrow> n | Some _ \<Rightarrow> n + 1)"

definition later :: "int \<Rightarrow> int \<Rightarrow> int" where
  "later t latest = (if t > latest then t else latest)"

definition aggregateCPUStats :: "ContainerStats \<Rightarrow> cpu_totals \<Rightarrow> cpu_totals" where
  "aggregateCPUStats container t = (case cstCPU container of
     None \<Rightarrow> t
   | Some c \<Rightarrow> t\<lparr>hasAnyCPUStats := True,
       totalCPUUsageCoreNanoSeconds := plus_opt (cpuUsageCoreNanoSeconds c) (totalCPUUsageCoreNanoSeconds t),
       cpuCount := count_opt (cpuUsageCoreNanoSeconds c) (cpuCount t),
       totalCPUUsageNanoCores := plus_opt (cpuUsageNanoCores c) (totalCPUUsageNanoCores t),
       latestCPUTime := later (cpuTime c) (latestCPUTime t)\<rparr>)"

definition aggregateMemoryStats :: "ContainerStats \<Rightarrow> memory_totals \<Rightarrow> memory_totals" where
  "aggregateMemoryStats container t = (case cstMemory container of
     None \<Rightarrow> t
   | Some m \<Rightarrow> t\<lparr>hasAnyMemoryStats := True,
       totalMemoryWorkingSetBytes := plus_opt (memWorkingSetBytes m) (totalMemoryWorkingSetBytes t),
       memoryCount := count_opt (memWorkingSetBytes m) (memoryCount t),
       totalMemoryUsageBytes := plus_opt (memUsageBytes m) (totalMemoryUsageBytes t),
       totalMemoryRSSBytes := plus_opt (memRSSBytes m) (totalMemoryRSSBytes t),
       totalMemoryPageFaults := plus_opt (memPageFaults m) (totalMemoryPageFaults t),
       totalMemoryMajorPageFaults := plus_opt (memMajorPageFaults m) (totalMemoryMajorPageFaults t),
       latestMemoryTime := later (memTime m) (latestMemoryTime t)\<rparr>)"

section \<open>Statistics of the node\<close>

definition or_empty :: "'a \<Rightarrow> 'a option \<Rightarrow> 'a" where
  "or_empty d v = (case v of None \<Rightarrow> d | Some x \<Rightarrow> x)"

definition updateNodeCPUStats :: "cpu_totals \<Rightarrow> Summary \<Rightarrow> Summary" where
  "updateNodeCPUStats t summary =
    (if hasAnyCPUStats t then
       (let c = or_empty emptyCPU (nstCPU (sumNode summary));
            c = c\<lparr>cpuTime := latestCPUTime t\<rparr>;
            c = (if cpuCount t > 0 then c\<lparr>cpuUsageCoreNanoSeconds := Some (totalCPUUsageCoreNanoSeconds t)\<rparr> else c);
            c = c\<lparr>cpuUsageNanoCores := Some (totalCPUUsageNanoCores t)\<rparr>
        in summary\<lparr>sumNode := (sumNode summary)\<lparr>nstCPU := Some c\<rparr>\<rparr>)
     else summary)"

definition updateNodeMemoryStats :: "memory_totals \<Rightarrow> Summary \<Rightarrow> Summary" where
  "updateNodeMemoryStats t summary =
    (if hasAnyMemoryStats t then
       (let m = or_empty emptyMemory (nstMemory (sumNode summary));
            m = m\<lparr>memTime := latestMemoryTime t\<rparr>;
            m = (if memoryCount t > 0 then m\<lparr>memWorkingSetBytes := Some (totalMemoryWorkingSetBytes t)\<rparr> else m);
            m = m\<lparr>memUsageBytes := Some (totalMemoryUsageBytes t), memRSSBytes := Some (totalMemoryRSSBytes t),
              memPageFaults := Some (totalMemoryPageFaults t), memMajorPageFaults := Some (totalMemoryMajorPageFaults t)\<rparr>
        in summary\<lparr>sumNode := (sumNode summary)\<lparr>nstMemory := Some m\<rparr>\<rparr>)
     else summary)"

definition aggregateContainers :: "PodStats list \<Rightarrow> cpu_totals \<times> memory_totals" where
  "aggregateContainers pods =
     foldl (\<lambda>ts pod. foldl (\<lambda>(c, m) container. (aggregateCPUStats container c, aggregateMemoryStats container m))
       ts (pstContainers pod)) (noCPU, noMemory) pods"

definition aggregateNodeStats :: "Summary option \<Rightarrow> Summary option" where
  "aggregateNodeStats s = (case s of
     None \<Rightarrow> None
   | Some summary \<Rightarrow>
       if sumPods summary = [] then Some summary
       else (case aggregateContainers (sumPods summary) of (c, m) \<Rightarrow>
         Some (updateNodeMemoryStats m (updateNodeCPUStats c summary))))"

section \<open>The summary of a virtual node\<close>

definition virtualPodRef :: "VirtualPodInfo \<Rightarrow> PodStats \<Rightarrow> PodStats" where
  "virtualPodRef virtualInfo pod = pod\<lparr>pstPodRef := (pstPodRef pod)\<lparr>prName := VirtualPodName virtualInfo,
     prNamespace := VirtualPodNamespace virtualInfo\<rparr>\<rparr>"

fun filterPods :: "pod_mapper \<Rightarrow> PodStats list \<Rightarrow> PodStats list" where
  "filterPods M [] = []"
| "filterPods M (pod # pods) =
    (if prNamespace (pstPodRef pod) \<noteq> ProxierWorkerNamespace then filterPods M pods
     else (case GetVirtualPodInfo M (prName (pstPodRef pod)) of
       None \<Rightarrow> filterPods M pods
     | Some virtualInfo \<Rightarrow> virtualPodRef virtualInfo pod # filterPods M pods))"

definition transformSummaryData :: "pod_mapper \<Rightarrow> Summary option \<Rightarrow> string \<Rightarrow> Summary option" where
  "transformSummaryData M s vnode = (case s of
     None \<Rightarrow> None
   | Some summary \<Rightarrow>
       aggregateNodeStats (Some (summary\<lparr>sumNode := (sumNode summary)\<lparr>nstNodeName := vnode\<rparr>,
         sumPods := filterPods M (sumPods summary)\<rparr>)))"

section \<open>What is served\<close>

text \<open>The reference: the containers that are left, and sums of natural numbers.\<close>

definition containersLeft :: "pod_mapper \<Rightarrow> Summary \<Rightarrow> ContainerStats list" where
  "containersLeft M s = concat (map pstContainers (filterPods M (sumPods s)))"

definition total :: "('a \<Rightarrow> 64 word option) \<Rightarrow> 'a list \<Rightarrow> nat" where
  "total f xs = sum_list (map (\<lambda>x. case f x of None \<Rightarrow> 0 | Some v \<Rightarrow> unat v) xs)"

definition latest :: "('a \<Rightarrow> int) \<Rightarrow> 'a list \<Rightarrow> int" where
  "latest f xs = Max (insert noTime (f ` set xs))"

lemma foldl_plus_opt: "foldl (\<lambda>n x. plus_opt (f x) n) n xs = n + word_of_nat (total f xs)"
  by (induction xs arbitrary: n) (simp_all add: total_def plus_opt_def ac_simps split: option.split)

lemma foldl_count_opt: "foldl (\<lambda>n x. count_opt (f x) n) n xs = n + int (length (List.map_filter f xs))"
  by (induction xs arbitrary: n) (simp_all add: count_opt_def List.map_filter_simps split: option.split)

lemma foldl_later: "foldl (\<lambda>t x. later (f x) t) t xs = Max (insert t (f ` set xs))"
proof (induction xs arbitrary: t)
  case (Cons x xs)
  have "later (f x) t = max t (f x)" by (simp add: later_def)
  then show ?case using Cons.IH [of "max t (f x)"] by (cases "xs = []") (simp_all add: max.assoc max.left_commute insert_commute)
qed simp

lemmas foldl_totals = foldl_plus_opt foldl_count_opt foldl_later

text \<open>The loop over containers is a loop over the statistics that are there.\<close>

lemma foldl_present:
  "foldl (\<lambda>t x. case f x of None \<Rightarrow> t | Some c \<Rightarrow> g c t) t xs = foldl (\<lambda>t c. g c t) t (List.map_filter f xs)"
  by (induction xs arbitrary: t) (simp_all add: List.map_filter_simps split: option.split)

lemma aggregated_cpu:
  "foldl (\<lambda>t container. aggregateCPUStats container t) noCPU xs =
    (let cs = List.map_filter cstCPU xs in
     \<lparr>totalCPUUsageCoreNanoSeconds = word_of_nat (total cpuUsageCoreNanoSeconds cs),
      totalCPUUsageNanoCores = word_of_nat (total cpuUsageNanoCores cs),
      cpuCount = int (length (List.map_filter cpuUsageCoreNanoSeconds cs)), hasAnyCPUStats = (cs \<noteq> []),
      latestCPUTime = latest cpuTime cs\<rparr>)"
proof -
  have fields: "foldl (\<lambda>t c. t\<lparr>hasAnyCPUStats := True,
       totalCPUUsageCoreNanoSeconds := plus_opt (cpuUsageCoreNanoSeconds c) (totalCPUUsageCoreNanoSeconds t),
       cpuCount := count_opt (cpuUsageCoreNanoSeconds c) (cpuCount t),
       totalCPUUsageNanoCores := plus_opt (cpuUsageNanoCores c) (totalCPUUsageNanoCores t),
       latestCPUTime := later (cpuTime c) (latestCPUTime t)\<rparr>) t cs =
    \<lparr>totalCPUUsageCoreNanoSeconds = foldl (\<lambda>n c. plus_opt (cpuUsageCoreNanoSeconds c) n) (totalCPUUsageCoreNanoSeconds t) cs,
     totalCPUUsageNanoCores = foldl (\<lambda>n c. plus_opt (cpuUsageNanoCores c) n) (totalCPUUsageNanoCores t) cs,
     cpuCount = foldl (\<lambda>n c. count_opt (cpuUsageCoreNanoSeconds c) n) (cpuCount t) cs,
     hasAnyCPUStats = (hasAnyCPUStats t \<or> cs \<noteq> []),
     latestCPUTime = foldl (\<lambda>n c. later (cpuTime c) n) (latestCPUTime t) cs\<rparr>" for cs and t :: cpu_totals
    by (induction cs arbitrary: t) simp_all
  show ?thesis
    unfolding aggregateCPUStats_def foldl_present fields by (simp add: noCPU_def foldl_totals latest_def Let_def)
qed

lemma aggregated_memory:
  "foldl (\<lambda>t container. aggregateMemoryStats container t) noMemory xs =
    (let ms = List.map_filter cstMemory xs in
     \<lparr>totalMemoryWorkingSetBytes = word_of_nat (total memWorkingSetBytes ms), totalMemoryUsageBytes = word_of_nat (total memUsageBytes ms),
      totalMemoryRSSBytes = word_of_nat (total memRSSBytes ms), totalMemoryPageFaults = word_of_nat (total memPageFaults ms),
      totalMemoryMajorPageFaults = word_of_nat (total memMajorPageFaults ms),
      memoryCount = int (length (List.map_filter memWorkingSetBytes ms)), hasAnyMemoryStats = (ms \<noteq> []),
      latestMemoryTime = latest memTime ms\<rparr>)"
proof -
  have fields: "foldl (\<lambda>t m. t\<lparr>hasAnyMemoryStats := True,
       totalMemoryWorkingSetBytes := plus_opt (memWorkingSetBytes m) (totalMemoryWorkingSetBytes t),
       memoryCount := count_opt (memWorkingSetBytes m) (memoryCount t),
       totalMemoryUsageBytes := plus_opt (memUsageBytes m) (totalMemoryUsageBytes t),
       totalMemoryRSSBytes := plus_opt (memRSSBytes m) (totalMemoryRSSBytes t),
       totalMemoryPageFaults := plus_opt (memPageFaults m) (totalMemoryPageFaults t),
       totalMemoryMajorPageFaults := plus_opt (memMajorPageFaults m) (totalMemoryMajorPageFaults t),
       latestMemoryTime := later (memTime m) (latestMemoryTime t)\<rparr>) t ms =
    \<lparr>totalMemoryWorkingSetBytes = foldl (\<lambda>n m. plus_opt (memWorkingSetBytes m) n) (totalMemoryWorkingSetBytes t) ms,
     totalMemoryUsageBytes = foldl (\<lambda>n m. plus_opt (memUsageBytes m) n) (totalMemoryUsageBytes t) ms,
     totalMemoryRSSBytes = foldl (\<lambda>n m. plus_opt (memRSSBytes m) n) (totalMemoryRSSBytes t) ms,
     totalMemoryPageFaults = foldl (\<lambda>n m. plus_opt (memPageFaults m) n) (totalMemoryPageFaults t) ms,
     totalMemoryMajorPageFaults = foldl (\<lambda>n m. plus_opt (memMajorPageFaults m) n) (totalMemoryMajorPageFaults t) ms,
     memoryCount = foldl (\<lambda>n m. count_opt (memWorkingSetBytes m) n) (memoryCount t) ms,
     hasAnyMemoryStats = (hasAnyMemoryStats t \<or> ms \<noteq> []),
     latestMemoryTime = foldl (\<lambda>n m. later (memTime m) n) (latestMemoryTime t) ms\<rparr>" for ms and t :: memory_totals
    by (induction ms arbitrary: t) simp_all
  show ?thesis
    unfolding aggregateMemoryStats_def foldl_present fields by (simp add: noMemory_def foldl_totals latest_def Let_def)
qed

lemma aggregateContainers_split:
  "aggregateContainers pods =
    (foldl (\<lambda>t container. aggregateCPUStats container t) noCPU (concat (map pstContainers pods)),
     foldl (\<lambda>t container. aggregateMemoryStats container t) noMemory (concat (map pstContainers pods)))"
proof -
  have inner: "foldl (\<lambda>(c, m) container. (aggregateCPUStats container c, aggregateMemoryStats container m)) (c, m) cs =
      (foldl (\<lambda>t container. aggregateCPUStats container t) c cs, foldl (\<lambda>t container. aggregateMemoryStats container t) m cs)" for c m cs
    by (induction cs arbitrary: c m) simp_all
  have "foldl (\<lambda>ts pod. foldl (\<lambda>(c, m) container. (aggregateCPUStats container c, aggregateMemoryStats container m)) ts (pstContainers pod))
      (c, m) pods =
      (foldl (\<lambda>t container. aggregateCPUStats container t) c (concat (map pstContainers pods)),
       foldl (\<lambda>t container. aggregateMemoryStats container t) m (concat (map pstContainers pods)))" for c m
    by (induction pods arbitrary: c m) (simp_all add: inner)
  then show ?thesis by (simp add: aggregateContainers_def)
qed

lemma filterPods_set:
  "set (filterPods M pods) = {virtualPodRef i pod |pod i. pod \<in> set pods \<and> prNamespace (pstPodRef pod) = ProxierWorkerNamespace \<and>
     GetVirtualPodInfo M (prName (pstPodRef pod)) = Some i}"
  by (induction M pods rule: filterPods.induct) (auto split: option.splits)

text \<open>The statistics a virtual node is to report: \<^verbatim>\<open>old\<close> is what the kubelet reported for the physical node.\<close>

definition nodeCPU :: "CPUStats option \<Rightarrow> CPUStats list \<Rightarrow> CPUStats option" where
  "nodeCPU old cs = (if cs = [] then old else Some \<lparr>cpuTime = latest cpuTime cs,
     cpuUsageCoreNanoSeconds = (if List.map_filter cpuUsageCoreNanoSeconds cs = [] then Option.bind old cpuUsageCoreNanoSeconds
       else Some (word_of_nat (total cpuUsageCoreNanoSeconds cs))),
     cpuUsageNanoCores = Some (word_of_nat (total cpuUsageNanoCores cs))\<rparr>)"

definition nodeMemory :: "MemoryStats option \<Rightarrow> MemoryStats list \<Rightarrow> MemoryStats option" where
  "nodeMemory old ms = (if ms = [] then old else Some \<lparr>memTime = latest memTime ms,
     memAvailableBytes = Option.bind old memAvailableBytes, memUsageBytes = Some (word_of_nat (total memUsageBytes ms)),
     memWorkingSetBytes = (if List.map_filter memWorkingSetBytes ms = [] then Option.bind old memWorkingSetBytes
       else Some (word_of_nat (total memWorkingSetBytes ms))),
     memRSSBytes = Some (word_of_nat (total memRSSBytes ms)), memPageFaults = Some (word_of_nat (total memPageFaults ms)),
     memMajorPageFaults = Some (word_of_nat (total memMajorPageFaults ms))\<rparr>)"

lemma updated_cpu:
  "updateNodeCPUStats (foldl (\<lambda>t container. aggregateCPUStats container t) noCPU xs) s =
     s\<lparr>sumNode := (sumNode s)\<lparr>nstCPU := nodeCPU (nstCPU (sumNode s)) (List.map_filter cstCPU xs)\<rparr>\<rparr>"
  unfolding aggregated_cpu
  by (cases "nstCPU (sumNode s)") (simp_all add: updateNodeCPUStats_def nodeCPU_def Let_def or_empty_def emptyCPU_def)

lemma updated_memory:
  "updateNodeMemoryStats (foldl (\<lambda>t container. aggregateMemoryStats container t) noMemory xs) s =
     s\<lparr>sumNode := (sumNode s)\<lparr>nstMemory := nodeMemory (nstMemory (sumNode s)) (List.map_filter cstMemory xs)\<rparr>\<rparr>"
  unfolding aggregated_memory
  by (cases "nstMemory (sumNode s)") (simp_all add: updateNodeMemoryStats_def nodeMemory_def Let_def or_empty_def emptyMemory_def)

text \<open>
  C36. The summary served for a virtual node names that node and has exactly the pods of the worker namespace that are mapped, each under
  its virtual name and namespace with its containers unchanged. The node's CPU and memory are the sums of those containers modulo
  \<open>2\<^sup>6\<^sup>4\<close> with the latest of their times: a value no container gives counts as zero, so the node then shows a sum of zero.
  The physical node's own values are kept in three cases: all of CPU (or of memory) when no container left has CPU (or memory) statistics,
  the accumulated CPU time and the working set when none of those statistics gives it, and always the available memory.
\<close>

theorem summary_aggregated:
  "\<exists>s'. transformSummaryData M (Some s) vnode = Some s' \<and>
     nstNodeName (sumNode s') = vnode \<and> nstStartTime (sumNode s') = nstStartTime (sumNode s) \<and>
     set (sumPods s') = {virtualPodRef i pod |pod i. pod \<in> set (sumPods s) \<and>
        prNamespace (pstPodRef pod) = ProxierWorkerNamespace \<and> GetVirtualPodInfo M (prName (pstPodRef pod)) = Some i} \<and>
     nstCPU (sumNode s') = nodeCPU (nstCPU (sumNode s)) (List.map_filter cstCPU (containersLeft M s)) \<and>
     nstMemory (sumNode s') = nodeMemory (nstMemory (sumNode s)) (List.map_filter cstMemory (containersLeft M s))"
  by (cases "filterPods M (sumPods s) = []")
    (simp_all add: transformSummaryData_def aggregateNodeStats_def aggregateContainers_split updated_cpu updated_memory
      containersLeft_def List.map_filter_simps nodeCPU_def nodeMemory_def flip: filterPods_set)

end
