(* ===== verification/Proxier_Agent.thy ===== *)
theory Proxier_Agent
  imports Proxier_Summary Kube_Api
begin

text \<open>
  The agent of \<^verbatim>\<open>pkg/proxier/metrics_collector.go\<close> with the pod cache it asks
  (\<^verbatim>\<open>podcache/pod_cache_manager.go\<close>): one HTTP server per virtual node, on the port of that node, and per port the metrics and
  the summary collected last. Go starts the servers, runs and stops them in goroutines: they are part of the state
  (\<open>aGoroutines\<close>), any of them may be the next to run, and what the operating system listens on (\<open>aSockets\<close>) differs from the
  table of servers. A failure to listen is only logged. The stream parser, JSON and the answers of the kubelets are parameters.
  A body that is not parsed within a minute is not modelled; the two parts of a collected result may be stored at
  different times.
\<close>

section \<open>State\<close>

record NodeInfo =
  niNodeName :: string
  niInternalIP :: string
  niProxierPort :: string

text \<open>A server is built with the routes of its node; its \<^verbatim>\<open>stopChan\<close> is known by the number of the server.\<close>

record http_server =
  hsId :: nat
  hsPort :: string
  hsNodeInfo :: NodeInfo

record ServerEntry =
  enSrv :: http_server
  enNodeIP :: string

datatype goroutine =
    StartHTTPServer string NodeInfo
  | Serve http_server
  | Shutdown http_server
  | CollectNode string NodeInfo
  | StoreMetrics NodeInfo string
  | StoreSummary string NodeInfo Summary

record agent =
  aNodeStates :: "string \<rightharpoonup> NodeInfo"
  aHttpServers :: "string \<rightharpoonup> ServerEntry"
  aMetricsCache :: "string \<rightharpoonup> string"
  aSummaryCache :: "string \<rightharpoonup> Summary"
  aLastUpdate :: "string \<rightharpoonup> clock"
  aParser :: metrics_parser
  aNextId :: nat
  aGoroutines :: "goroutine list"
  aSockets :: "string \<rightharpoonup> http_server"
  aShut :: "nat list"

definition NewVNodeProxierAgent :: agent where
  "NewVNodeProxierAgent = \<lparr>aNodeStates = Map.empty, aHttpServers = Map.empty, aMetricsCache = Map.empty, aSummaryCache = Map.empty,
     aLastUpdate = Map.empty, aParser = NewMetricsParser, aNextId = 0, aGoroutines = [], aSockets = Map.empty, aShut = []\<rparr>"

definition go :: "goroutine list \<Rightarrow> agent \<Rightarrow> agent" where
  "go gs va = va\<lparr>aGoroutines := aGoroutines va @ gs\<rparr>"

section \<open>Servers\<close>

definition startHTTPServerForNode :: "string \<Rightarrow> NodeInfo \<Rightarrow> agent \<Rightarrow> agent" where
  "startHTTPServerForNode port nodeInfo va = (case aHttpServers va port of
     Some _ \<Rightarrow> va
   | None \<Rightarrow>
      (let server = \<lparr>hsId = aNextId va, hsPort = port, hsNodeInfo = nodeInfo\<rparr>
       in (go [Serve server] va)\<lparr>aNextId := Suc (aNextId va),
            aHttpServers := (aHttpServers va)(port \<mapsto> \<lparr>enSrv = server, enNodeIP = niInternalIP nodeInfo\<rparr>)\<rparr>))"

text \<open>The goroutine that serves: it ends at once when the server was shut down before or the port cannot be listened on.\<close>

definition serve :: "bool \<Rightarrow> http_server \<Rightarrow> agent \<Rightarrow> agent" where
  "serve listens server va =
    (if hsId server \<in> set (aShut va) then va
     else if aSockets va (hsPort server) \<noteq> None \<or> \<not> listens then va
     else va\<lparr>aSockets := (aSockets va)(hsPort server \<mapsto> server)\<rparr>)"

definition shutdown :: "http_server \<Rightarrow> agent \<Rightarrow> agent" where
  "shutdown server va = va\<lparr>aShut := hsId server # aShut va,
     aSockets := (if aSockets va (hsPort server) = Some server then (aSockets va)(hsPort server := None) else aSockets va)\<rparr>"

text \<open>\<^verbatim>\<open>close(entry.stopChan)\<close> and the removal from the table: the waiting goroutine shuts the server down.\<close>

definition stopServer :: "string \<Rightarrow> agent \<Rightarrow> agent" where
  "stopServer port va = (case aHttpServers va port of
     None \<Rightarrow> va
   | Some entry \<Rightarrow> (go [Shutdown (enSrv entry)] va)\<lparr>aHttpServers := (aHttpServers va)(port := None)\<rparr>)"

definition clearCache :: "string \<Rightarrow> agent \<Rightarrow> agent" where
  "clearCache port va = (case aMetricsCache va port of
     None \<Rightarrow> va
   | Some _ \<Rightarrow> va\<lparr>aMetricsCache := (aMetricsCache va)(port := None), aLastUpdate := (aLastUpdate va)(port := None)\<rparr>)"

section \<open>Events of nodes\<close>

definition OnNodeAdded :: "string \<Rightarrow> NodeInfo \<Rightarrow> agent \<Rightarrow> agent" where
  "OnNodeAdded nodeName nodeInfo va =
     go [StartHTTPServer (niProxierPort nodeInfo) nodeInfo] (va\<lparr>aNodeStates := (aNodeStates va)(nodeName \<mapsto> nodeInfo)\<rparr>)"

definition OnNodeUpdated :: "string \<Rightarrow> NodeInfo \<Rightarrow> NodeInfo \<Rightarrow> agent \<Rightarrow> agent" where
  "OnNodeUpdated nodeName oldNodeInfo newNodeInfo va =
    (let va = va\<lparr>aNodeStates := (aNodeStates va)(nodeName \<mapsto> newNodeInfo)\<rparr>
     in if niProxierPort oldNodeInfo \<noteq> niProxierPort newNodeInfo
        then go [StartHTTPServer (niProxierPort newNodeInfo) newNodeInfo]
               (clearCache (niProxierPort oldNodeInfo) (stopServer (niProxierPort oldNodeInfo) va))
        else va)"

definition OnNodeDeleted :: "string \<Rightarrow> NodeInfo \<Rightarrow> agent \<Rightarrow> agent" where
  "OnNodeDeleted nodeName nodeInfo va =
    (let va = va\<lparr>aNodeStates := (aNodeStates va)(nodeName := None)\<rparr>
     in clearCache (niProxierPort nodeInfo) (stopServer (niProxierPort nodeInfo) va))"

text \<open>Go leaves the order open in which a map is walked through; the list is such an order.\<close>

definition InitializeWithNodes :: "(string \<times> NodeInfo) list \<Rightarrow> agent \<Rightarrow> agent" where
  "InitializeWithNodes nodes va =
     foldl (\<lambda>va (_, nodeInfo). startHTTPServerForNode (niProxierPort nodeInfo) nodeInfo va)
       (va\<lparr>aNodeStates := map_of nodes\<rparr>) nodes"

definition StopAgent :: "string list \<Rightarrow> agent \<Rightarrow> agent" where
  "StopAgent ports va = (foldl (\<lambda>va port. stopServer port va) va ports)
     \<lparr>aHttpServers := Map.empty, aNodeStates := Map.empty, aMetricsCache := Map.empty, aSummaryCache := Map.empty, aLastUpdate := Map.empty\<rparr>"

section \<open>Collection\<close>

record agent_lib =
  alUnixSeconds :: "int \<Rightarrow> float64"
  alStreamParse :: "string \<Rightarrow> metric_row list list \<times> string option"
  alEncodeSummary :: "Summary \<Rightarrow> string res"
  alEncodePods :: "pod list \<Rightarrow> string res"

text \<open>What a goroutine meets when it runs.\<close>

record outcome =
  ouListens :: bool
  ouMetrics :: "string res"
  ouSummary :: "Summary res"
  ouMapper :: pod_mapper
  ouNow :: clock

definition collectMetricsFromAllNodes :: "(string \<times> NodeInfo) list \<Rightarrow> agent \<Rightarrow> agent" where
  "collectMetricsFromAllNodes nodeStates va = go (map (\<lambda>(name, info). CollectNode name info) nodeStates) va"

definition collectNode :: "outcome \<Rightarrow> string \<Rightarrow> NodeInfo \<Rightarrow> agent \<Rightarrow> agent" where
  "collectNode out name info va =
     go ((case ouMetrics out of Inr metricsData \<Rightarrow> [StoreMetrics info metricsData] | Inl _ \<Rightarrow> []) @
         (case ouSummary out of Inr summaryData \<Rightarrow> [StoreSummary name info summaryData] | Inl _ \<Rightarrow> [])) va"

definition storeMetrics :: "agent_lib \<Rightarrow> string \<Rightarrow> outcome \<Rightarrow> NodeInfo \<Rightarrow> string \<Rightarrow> agent \<Rightarrow> agent" where
  "storeMetrics L targetNamespace out info metricsData va =
    (let port = niProxierPort info;
         (parser, _) = ParseAndStoreMetrics (alUnixSeconds L) (alStreamParse L) (aParser va) metricsData port
     in va\<lparr>aParser := parser, aMetricsCache := (aMetricsCache va)(port \<mapsto>
          concat (WritePrometheusMetrics (ouMapper out) parser port targetNamespace))\<rparr>)"

definition storeSummary :: "outcome \<Rightarrow> string \<Rightarrow> NodeInfo \<Rightarrow> Summary \<Rightarrow> agent \<Rightarrow> agent" where
  "storeSummary out name info summaryData va = va\<lparr>
     aSummaryCache := (aSummaryCache va)(niProxierPort info := transformSummaryData (ouMapper out) (Some summaryData) name),
     aLastUpdate := (aLastUpdate va)(niProxierPort info \<mapsto> ouNow out)\<rparr>"

fun runGoroutine :: "agent_lib \<Rightarrow> string \<Rightarrow> outcome \<Rightarrow> goroutine \<Rightarrow> agent \<Rightarrow> agent" where
  "runGoroutine L ns out (StartHTTPServer port info) va = startHTTPServerForNode port info va"
| "runGoroutine L ns out (Serve server) va = serve (ouListens out) server va"
| "runGoroutine L ns out (Shutdown server) va = shutdown server va"
| "runGoroutine L ns out (CollectNode name info) va = collectNode out name info va"
| "runGoroutine L ns out (StoreMetrics info metricsData) va = storeMetrics L ns out info metricsData va"
| "runGoroutine L ns out (StoreSummary name info summaryData) va = storeSummary out name info summaryData va"

section \<open>Answers\<close>

record http_reply =
  hrStatus :: int
  hrContentType :: string
  hrBody :: string

definition unknownValue :: string where "unknownValue = ''unknown''"

definition newline :: string where "newline = [CHR 0x0A]"

definition GetMetricsData :: "agent \<Rightarrow> string \<Rightarrow> string option" where
  "GetMetricsData va port = aMetricsCache va port"

definition GetSummaryData :: "agent \<Rightarrow> string \<Rightarrow> Summary option" where
  "GetSummaryData va port = aSummaryCache va port"

text \<open>The zero time is printed when no summary of the port was stored.\<close>

definition writeRealMetrics :: "agent \<Rightarrow> string \<Rightarrow> string" where
  "writeRealMetrics va port =
    (let nodeIP = (case aHttpServers va port of Some entry \<Rightarrow> enNodeIP entry | None \<Rightarrow> unknownValue);
         lastUpdate = (case aLastUpdate va port of Some now \<Rightarrow> ckRFC3339 now | None \<Rightarrow> ''0001-01-01T00:00:00Z'')
     in case GetMetricsData va port of
         Some metricsData \<Rightarrow>
          (if metricsData = '''' then ''# No metrics data available for port '' @ port @ newline @
             ''# This may indicate that metrics collection is still in progress or there is no metrics data available'' @ newline
           else ''# Metrics from node '' @ nodeIP @ '' (port '' @ port @ '')'' @ newline @ ''# Last updated: '' @ lastUpdate @ newline @
             ''# Source: kubelet /metrics/cadvisor'' @ newline @ newline @ metricsData)
       | None \<Rightarrow> ''# No metrics data available for port '' @ port @ newline @
             ''# This may indicate that metrics collection is still in progress or there is no metrics data available'' @ newline)"

definition handleMetrics :: "agent \<Rightarrow> string \<Rightarrow> http_reply" where
  "handleMetrics va port = \<lparr>hrStatus = 200, hrContentType = ''text/plain; version=0.0.4; charset=utf-8'', hrBody = writeRealMetrics va port\<rparr>"

definition http_Error :: "string \<Rightarrow> int \<Rightarrow> http_reply" where
  "http_Error msg code = \<lparr>hrStatus = code, hrContentType = ''text/plain; charset=utf-8'', hrBody = msg @ newline\<rparr>"

text \<open>The status is written before the body: an error of the encoder is only logged.\<close>

definition handleSummary :: "agent_lib \<Rightarrow> agent \<Rightarrow> string \<Rightarrow> http_reply" where
  "handleSummary L va port = (case GetSummaryData va port of
     None \<Rightarrow> http_Error (''No summary data available for port '' @ port) 404
   | Some summary \<Rightarrow> \<lparr>hrStatus = 200, hrContentType = ''application/json'',
       hrBody = (case alEncodeSummary L summary of Inr text \<Rightarrow> text | Inl _ \<Rightarrow> '''')\<rparr>)"

text \<open>
  The index by node name of the informer's store, \<open>None\<close> before \<^verbatim>\<open>Setup\<close>. The manager itself may be nil.
\<close>

type_synonym pod_cache = "pod list option"

definition GetPodsByNode :: "pod_cache \<Rightarrow> string \<Rightarrow> pod list res" where
  "GetPodsByNode indexer nodeName = (case indexer of
     None \<Rightarrow> Inl (Errorf ''pod indexer is not initialized'')
   | Some store \<Rightarrow> Inr (filter (\<lambda>p. poNodeName p \<noteq> '''' \<and> poNodeName p = nodeName) store))"

definition handlePods :: "agent_lib \<Rightarrow> pod_cache option \<Rightarrow> string \<Rightarrow> http_reply" where
  "handlePods L podCacheManager nodeName = (case podCacheManager of
     None \<Rightarrow> http_Error ''Pod cache manager is not available'' 503
   | Some indexer \<Rightarrow> (case GetPodsByNode indexer nodeName of
       Inl err \<Rightarrow> http_Error (''Failed to get pods: '' @ error_text err) 500
     | Inr podList \<Rightarrow> (case alEncodePods L podList of
         Inl err \<Rightarrow> http_Error (''Failed to encode pods: '' @ error_text err) 500
       | Inr text \<Rightarrow> \<lparr>hrStatus = 200, hrContentType = ''application/json'', hrBody = text\<rparr>)))"

definition handleHealthz :: http_reply where
  "handleHealthz = \<lparr>hrStatus = 200, hrContentType = ''text/plain; charset=utf-8'', hrBody = ''ok''\<rparr>"

definition quote :: string where "quote = [CHR 0x22]"

definition handleRoot :: "string \<Rightarrow> NodeInfo \<Rightarrow> http_reply" where
  "handleRoot port nodeInfo = \<lparr>hrStatus = 200, hrContentType = ''application/json'',
     hrBody = ''{'' @ Join (map (\<lambda>(k, v). quote @ k @ quote @ '':'' @ v)
       [(''port'', quote @ port @ quote), (''nodeIP'', quote @ niInternalIP nodeInfo @ quote),
        (''available_endpoints'', ''['' @ Join (map (\<lambda>e. quote @ e @ quote) [''/metrics'', ''/stats/summary'',
           ''/containerLogs/{namespace}/{pod}/{container}'', ''/exec/{namespace}/{pod}/{container}'', ''/healthz'']) '','' @ '']''),
        (''status'', quote @ ''running'' @ quote)]) '','' @ ''}''\<rparr>"

text \<open>
  The routes of the two endpoints with a container are those of the main server. A request to a port reaches what listens there.
\<close>

datatype endpoint = MetricsEndpoint | SummaryEndpoint | PodsEndpoint | HealthzEndpoint | RootEndpoint

fun setupRoutes :: "string \<Rightarrow> string list \<Rightarrow> endpoint option" where
  "setupRoutes m path =
    (if m \<noteq> ''GET'' then None
     else if path = [''metrics''] then Some MetricsEndpoint
     else if path = [''stats'', ''summary''] then Some SummaryEndpoint
     else if path = [''pods''] then Some PodsEndpoint
     else if path = [''healthz''] then Some HealthzEndpoint
     else if path = [] then Some RootEndpoint
     else None)"

definition answerRequest :: "agent_lib \<Rightarrow> pod_cache option \<Rightarrow> agent \<Rightarrow> string \<Rightarrow> endpoint \<Rightarrow> http_reply option" where
  "answerRequest L podCacheManager va port e = map_option (\<lambda>server. case e of
      MetricsEndpoint \<Rightarrow> handleMetrics va (hsPort server)
    | SummaryEndpoint \<Rightarrow> handleSummary L va (hsPort server)
    | PodsEndpoint \<Rightarrow> handlePods L podCacheManager (niNodeName (hsNodeInfo server))
    | HealthzEndpoint \<Rightarrow> handleHealthz
    | RootEndpoint \<Rightarrow> handleRoot (hsPort server) (hsNodeInfo server)) (aSockets va port)"

section \<open>Every interleaving\<close>

datatype agent_event =
    NodeAdded string NodeInfo
  | NodeUpdated string NodeInfo NodeInfo
  | NodeDeleted string NodeInfo
  | Initialized "(string \<times> NodeInfo) list"
  | Tick "(string \<times> NodeInfo) list"
  | Run nat outcome
  | Stopped "string list"

definition remove_at :: "nat \<Rightarrow> 'a list \<Rightarrow> 'a list" where
  "remove_at i xs = take i xs @ drop (Suc i) xs"

fun agent_exec :: "agent_lib \<Rightarrow> string \<Rightarrow> agent_event \<Rightarrow> agent \<Rightarrow> agent" where
  "agent_exec L ns (NodeAdded n info) va = OnNodeAdded n info va"
| "agent_exec L ns (NodeUpdated n old new) va = OnNodeUpdated n old new va"
| "agent_exec L ns (NodeDeleted n info) va = OnNodeDeleted n info va"
| "agent_exec L ns (Initialized nodes) va = InitializeWithNodes nodes va"
| "agent_exec L ns (Tick nodes) va = collectMetricsFromAllNodes nodes va"
| "agent_exec L ns (Run i out) va = (if i < length (aGoroutines va)
     then runGoroutine L ns out (aGoroutines va ! i) (va\<lparr>aGoroutines := remove_at i (aGoroutines va)\<rparr>) else va)"
| "agent_exec L ns (Stopped ports) va = StopAgent ports va"

text \<open>A map that is walked through is walked through as a whole.\<close>

fun possible :: "agent \<Rightarrow> agent_event \<Rightarrow> bool" where
  "possible va (Initialized nodes) \<longleftrightarrow> distinct (map fst nodes)"
| "possible va (Tick nodes) \<longleftrightarrow> distinct (map fst nodes) \<and> map_of nodes = aNodeStates va"
| "possible va (Stopped ports) \<longleftrightarrow> set ports = dom (aHttpServers va)"
| "possible va _ \<longleftrightarrow> True"

text \<open>
  What the node controller sends, when no two nodes share a port: additions of unknown nodes, updates and deletions with what is
  recorded.
\<close>

definition free_port :: "(string \<rightharpoonup> NodeInfo) \<Rightarrow> string \<Rightarrow> string \<Rightarrow> bool" where
  "free_port states n p \<longleftrightarrow> (\<forall>m info. states m = Some info \<longrightarrow> niProxierPort info = p \<longrightarrow> m = n)"

fun as_sent :: "agent \<Rightarrow> agent_event \<Rightarrow> bool" where
  "as_sent va (NodeAdded n info) \<longleftrightarrow> aNodeStates va n = None \<and> free_port (aNodeStates va) n (niProxierPort info)"
| "as_sent va (NodeUpdated n old new) \<longleftrightarrow> aNodeStates va n = Some old \<and> free_port (aNodeStates va) n (niProxierPort new)"
| "as_sent va (NodeDeleted n info) \<longleftrightarrow> aNodeStates va n = Some info"
| "as_sent va (Initialized nodes) \<longleftrightarrow> possible va (Initialized nodes) \<and> distinct (map (niProxierPort \<circ> snd) nodes)"
| "as_sent va e \<longleftrightarrow> possible va e"

inductive agent_reach :: "agent_lib \<Rightarrow> string \<Rightarrow> (agent \<Rightarrow> agent_event \<Rightarrow> bool) \<Rightarrow> agent \<Rightarrow> bool" for L ns ok where
  start: "agent_reach L ns ok NewVNodeProxierAgent"
| step: "agent_reach L ns ok va \<Longrightarrow> ok va e \<Longrightarrow> agent_reach L ns ok (agent_exec L ns e va)"

lemma set_remove_at: "i < length xs \<Longrightarrow> set xs = insert (xs ! i) (set (remove_at i xs))"
  using id_take_nth_drop [of i xs] by (metis Un_insert_right list.simps(15) remove_at_def set_append)

lemma agent_fields [simp]:
  "aNodeStates (go gs va) = aNodeStates va" "aHttpServers (go gs va) = aHttpServers va"
  "aSockets (go gs va) = aSockets va" "aShut (go gs va) = aShut va" "aGoroutines (go gs va) = aGoroutines va @ gs"
  "aNodeStates (clearCache p va) = aNodeStates va" "aHttpServers (clearCache p va) = aHttpServers va"
  "aSockets (clearCache p va) = aSockets va" "aShut (clearCache p va) = aShut va" "aGoroutines (clearCache p va) = aGoroutines va"
  by (simp_all add: go_def clearCache_def split: option.split)

text \<open>A server that listens is in the table, or it will be shut down.\<close>

definition owned :: "agent \<Rightarrow> http_server \<Rightarrow> bool" where
  "owned va server \<longleftrightarrow> map_option enSrv (aHttpServers va (hsPort server)) = Some server \<or> Shutdown server \<in> set (aGoroutines va)"

definition listeners_inv :: "agent \<Rightarrow> bool" where
  "listeners_inv va \<longleftrightarrow> (\<forall>p entry. aHttpServers va p = Some entry \<longrightarrow> hsPort (enSrv entry) = p) \<and>
     (\<forall>p server. aSockets va p = Some server \<longrightarrow> hsPort server = p \<and> owned va server) \<and>
     (\<forall>server. Serve server \<in> set (aGoroutines va) \<longrightarrow> owned va server \<or> hsId server \<in> set (aShut va))"

lemma listeners_inv_go:
  assumes "listeners_inv va" and "\<And>server. Serve server \<notin> set gs"
  shows "listeners_inv (go gs va)"
  using assms by (auto simp: listeners_inv_def owned_def)

lemma listeners_inv_cong:
  assumes "aHttpServers va' = aHttpServers va" "aSockets va' = aSockets va" "aShut va' = aShut va"
    "set (aGoroutines va') = set (aGoroutines va)"
  shows "listeners_inv va' = listeners_inv va"
  using assms by (simp add: listeners_inv_def owned_def)

lemma owned_start: "owned va server \<Longrightarrow> owned (startHTTPServerForNode port info va) server"
  by (cases "aHttpServers va port") (auto simp: startHTTPServerForNode_def owned_def Let_def)

lemma owned_stop: "owned va server \<Longrightarrow> owned (stopServer port va) server"
  by (cases "aHttpServers va port") (auto simp: stopServer_def owned_def)

lemma start_fields:
  "aNodeStates (startHTTPServerForNode port info va) = aNodeStates va" "aSockets (startHTTPServerForNode port info va) = aSockets va"
  "aShut (startHTTPServerForNode port info va) = aShut va"
  by (simp_all add: startHTTPServerForNode_def Let_def split: option.split)

lemma stop_fields:
  "aNodeStates (stopServer port va) = aNodeStates va" "aSockets (stopServer port va) = aSockets va" "aShut (stopServer port va) = aShut va"
  "aHttpServers (stopServer port va) = (aHttpServers va)(port := None)"
  by (auto simp: stopServer_def split: option.split)

lemma start_listeners_inv:
  assumes "listeners_inv va"
  shows "listeners_inv (startHTTPServerForNode port info va)"
proof (cases "aHttpServers va port")
  case None
  let ?va = "startHTTPServerForNode port info va" and ?server = "\<lparr>hsId = aNextId va, hsPort = port, hsNodeInfo = info\<rparr>"
  have new: "owned ?va ?server" using None by (simp add: startHTTPServerForNode_def owned_def Let_def)
  have gs: "aGoroutines ?va = aGoroutines va @ [Serve ?server]"
    and hs: "aHttpServers ?va = (aHttpServers va)(port \<mapsto> \<lparr>enSrv = ?server, enNodeIP = niInternalIP info\<rparr>)"
    using None by (simp_all add: startHTTPServerForNode_def Let_def)
  show ?thesis
    unfolding listeners_inv_def start_fields gs hs
  proof (intro conjI allI impI)
    fix p server assume s: "aSockets va p = Some server"
    with assms show "hsPort server = p" by (simp add: listeners_inv_def)
    from s assms have "owned va server" by (simp add: listeners_inv_def)
    then show "owned ?va server" by (rule owned_start)
  next
    fix server assume "Serve server \<in> set (aGoroutines va @ [Serve ?server])"
    then consider "server = ?server" | "Serve server \<in> set (aGoroutines va)" by auto
    then show "owned ?va server \<or> hsId server \<in> set (aShut va)"
      using assms new owned_start by cases (simp_all add: listeners_inv_def, blast)
  qed (use assms in \<open>auto simp: listeners_inv_def split: if_splits\<close>)
qed (use assms in \<open>simp add: startHTTPServerForNode_def\<close>)

lemma stop_listeners_inv:
  assumes "listeners_inv va"
  shows "listeners_inv (stopServer port va)"
  unfolding listeners_inv_def stop_fields
proof (intro conjI allI impI)
  fix p server assume s: "aSockets va p = Some server"
  with assms show "hsPort server = p" by (simp add: listeners_inv_def)
  from s assms have "owned va server" by (simp add: listeners_inv_def)
  then show "owned (stopServer port va) server" by (rule owned_stop)
next
  fix server assume "Serve server \<in> set (aGoroutines (stopServer port va))"
  then have "Serve server \<in> set (aGoroutines va)" by (auto simp: stopServer_def split: option.splits)
  with assms show "owned (stopServer port va) server \<or> hsId server \<in> set (aShut va)"
    using owned_stop by (simp add: listeners_inv_def) blast
qed (use assms in \<open>auto simp: listeners_inv_def split: if_splits\<close>)

lemma clear_listeners_inv [simp]: "listeners_inv (clearCache p va) = listeners_inv va"
  by (rule listeners_inv_cong) simp_all

text \<open>One goroutine is taken out of the list and run.\<close>

lemma serve_listeners_inv:
  assumes "listeners_inv (va\<lparr>aGoroutines := Serve server # gs\<rparr>)"
  shows "listeners_inv (serve listens server (va\<lparr>aGoroutines := gs\<rparr>))"
  using assms by (auto simp: serve_def listeners_inv_def owned_def)

lemma shutdown_listeners_inv:
  assumes inv: "listeners_inv (va\<lparr>aGoroutines := Shutdown server # gs\<rparr>)"
  shows "listeners_inv (shutdown server (va\<lparr>aGoroutines := gs\<rparr>))"
proof -
  let ?va = "shutdown server (va\<lparr>aGoroutines := gs\<rparr>)"
  have other: "owned (va\<lparr>aGoroutines := Shutdown server # gs\<rparr>) s \<Longrightarrow> s \<noteq> server \<Longrightarrow> owned ?va s" for s
    by (auto simp: owned_def shutdown_def)
  show ?thesis
    unfolding listeners_inv_def
  proof (intro conjI allI impI)
    fix p s assume s: "aSockets ?va p = Some s"
    then have "aSockets va p = Some s" by (auto simp: shutdown_def split: if_splits)
    with inv have port: "hsPort s = p" and own: "owned (va\<lparr>aGoroutines := Shutdown server # gs\<rparr>) s"
      by (simp_all add: listeners_inv_def)
    show "hsPort s = p" by (rule port)
    from s port \<open>aSockets va p = Some s\<close> have "s \<noteq> server" by (auto simp: shutdown_def split: if_splits)
    with own show "owned ?va s" by (rule other)
  next
    fix s assume "Serve s \<in> set (aGoroutines ?va)"
    then have "Serve s \<in> set gs" by (simp add: shutdown_def)
    with inv have "owned (va\<lparr>aGoroutines := Shutdown server # gs\<rparr>) s \<or> hsId s \<in> set (aShut va)" by (simp add: listeners_inv_def)
    then show "owned ?va s \<or> hsId s \<in> set (aShut ?va)"
      using other by (cases "s = server") (auto simp: shutdown_def)
  qed (use inv in \<open>simp add: listeners_inv_def shutdown_def\<close>)
qed

lemma listeners_inv_nodes [simp]: "listeners_inv (va\<lparr>aNodeStates := s\<rparr>) = listeners_inv va"
  by (rule listeners_inv_cong) simp_all

lemma listeners_inv_drop:
  assumes "listeners_inv (va\<lparr>aGoroutines := g # gs\<rparr>)" and "\<And>server. g \<noteq> Shutdown server"
  shows "listeners_inv (va\<lparr>aGoroutines := gs\<rparr>)"
proof -
  have own: "owned (va\<lparr>aGoroutines := g # gs\<rparr>) server \<longleftrightarrow> owned (va\<lparr>aGoroutines := gs\<rparr>) server" for server
    using assms(2) [of server] by (auto simp: owned_def)
  from assms(1) show ?thesis unfolding listeners_inv_def own by simp
qed

lemma run_listeners_inv:
  assumes "listeners_inv (va\<lparr>aGoroutines := g # gs\<rparr>)"
  shows "listeners_inv (runGoroutine L ns out g (va\<lparr>aGoroutines := gs\<rparr>))"
proof (cases g)
  case (StartHTTPServer port info)
  with assms show ?thesis by (simp add: start_listeners_inv listeners_inv_drop)
next
  case (Serve server)
  with assms show ?thesis by (simp add: serve_listeners_inv)
next
  case (Shutdown server)
  with assms show ?thesis by (simp add: shutdown_listeners_inv)
next
  case (CollectNode n info)
  with assms show ?thesis
    unfolding runGoroutine.simps CollectNode collectNode_def
    by (intro listeners_inv_go) (auto intro: listeners_inv_drop split: sum.splits)
next
  case (StoreMetrics info d)
  have "listeners_inv (storeMetrics L ns out info d (va\<lparr>aGoroutines := gs\<rparr>)) = listeners_inv (va\<lparr>aGoroutines := gs\<rparr>)"
    by (rule listeners_inv_cong) (simp_all add: storeMetrics_def Let_def split_beta)
  with assms StoreMetrics show ?thesis by (simp add: listeners_inv_drop)
next
  case (StoreSummary n info s)
  have "listeners_inv (storeSummary out n info s (va\<lparr>aGoroutines := gs\<rparr>)) = listeners_inv (va\<lparr>aGoroutines := gs\<rparr>)"
    by (rule listeners_inv_cong) (simp_all add: storeSummary_def)
  with assms StoreSummary show ?thesis by (simp add: listeners_inv_drop)
qed

lemma foldl_stop_listeners_inv: "listeners_inv va \<Longrightarrow> listeners_inv (foldl (\<lambda>va port. stopServer port va) va ports)"
  by (induction ports arbitrary: va) (simp_all add: stop_listeners_inv)

lemma foldl_stop_servers:
  "aHttpServers (foldl (\<lambda>va port. stopServer port va) va ports) = (aHttpServers va) |` (- set ports)"
  by (induction ports arbitrary: va) (auto simp: stop_fields restrict_map_def fun_eq_iff)

lemma foldl_start_listeners_inv:
  "listeners_inv va \<Longrightarrow> listeners_inv (foldl (\<lambda>va (_, info). startHTTPServerForNode (niProxierPort info) info va) va nodes)"
  by (induction nodes arbitrary: va) (auto simp: start_listeners_inv)

lemma stopped_listeners_inv:
  assumes "listeners_inv va" and "set ports = dom (aHttpServers va)"
  shows "listeners_inv (StopAgent ports va)"
proof -
  let ?va = "foldl (\<lambda>va port. stopServer port va) va ports"
  have "aHttpServers ?va = Map.empty"
    unfolding foldl_stop_servers assms(2) by (auto simp: restrict_map_def fun_eq_iff domIff)
  then have "listeners_inv (StopAgent ports va) = listeners_inv ?va"
    unfolding StopAgent_def by (intro listeners_inv_cong) simp_all
  with assms(1) show ?thesis by (simp add: foldl_stop_listeners_inv)
qed

lemma exec_listeners_inv:
  assumes inv: "listeners_inv va" and ok: "possible va e"
  shows "listeners_inv (agent_exec L ns e va)"
proof (cases e)
  case (Tick nodes)
  then show ?thesis using inv by (auto simp: collectMetricsFromAllNodes_def intro!: listeners_inv_go)
next
  case (Run i out)
  let ?rest = "remove_at i (aGoroutines va)"
  have "listeners_inv (va\<lparr>aGoroutines := (aGoroutines va ! i) # ?rest\<rparr>)" if "i < length (aGoroutines va)"
    using listeners_inv_cong [of "va\<lparr>aGoroutines := (aGoroutines va ! i) # ?rest\<rparr>" va] inv set_remove_at [OF that] by simp
  with Run inv show ?thesis by (simp add: run_listeners_inv)
next
  case (Stopped ports)
  with assms show ?thesis by (simp add: stopped_listeners_inv)
qed (use inv in \<open>simp_all add: OnNodeAdded_def OnNodeUpdated_def OnNodeDeleted_def InitializeWithNodes_def Let_def
    listeners_inv_go stop_listeners_inv foldl_start_listeners_inv\<close>)

section \<open>Every node has a server\<close>

definition starting :: "agent \<Rightarrow> string \<Rightarrow> bool" where
  "starting va p \<longleftrightarrow> aHttpServers va p \<noteq> None \<or> (\<exists>info. StartHTTPServer p info \<in> set (aGoroutines va))"

definition served_inv :: "agent \<Rightarrow> bool" where
  "served_inv va \<longleftrightarrow> (\<forall>n info. aNodeStates va n = Some info \<longrightarrow>
     starting va (niProxierPort info) \<and> free_port (aNodeStates va) n (niProxierPort info))"

lemma served_invI:
  assumes "\<And>n info. aNodeStates va n = Some info \<Longrightarrow> starting va (niProxierPort info)"
    and "\<And>n info m other. aNodeStates va n = Some info \<Longrightarrow> aNodeStates va m = Some other \<Longrightarrow>
      niProxierPort other = niProxierPort info \<Longrightarrow> m = n"
  shows "served_inv va"
  using assms unfolding served_inv_def free_port_def by blast

lemma served_invD:
  assumes "served_inv va" "aNodeStates va n = Some info"
  shows "starting va (niProxierPort info)"
    "aNodeStates va m = Some other \<Longrightarrow> niProxierPort other = niProxierPort info \<Longrightarrow> m = n"
  using assms by (simp_all add: served_inv_def free_port_def)

text \<open>An operation that keeps nodes and loses no server keeps the invariant.\<close>

lemma served_inv_mono:
  assumes "served_inv va" "aNodeStates va' = aNodeStates va" "\<And>p. starting va p \<Longrightarrow> starting va' p"
  shows "served_inv va'"
  using assms by (simp add: served_inv_def)

lemma starting_start: "starting (startHTTPServerForNode port info va) p \<longleftrightarrow> starting va p \<or> p = port"
  by (auto simp: starting_def startHTTPServerForNode_def Let_def split: option.split)

lemma starting_stop: "p \<noteq> port \<Longrightarrow> starting va p \<Longrightarrow> starting (stopServer port va) p"
  by (auto simp: starting_def stopServer_def split: option.split)

lemma starting_fields [simp]:
  "starting (clearCache q va) p = starting va p" "starting (va\<lparr>aNodeStates := s\<rparr>) p = starting va p"
  by (simp_all add: starting_def)

lemma starting_go: "starting va p \<Longrightarrow> starting (go gs va) p"
  by (auto simp: starting_def)

lemma starting_go_start [simp]: "starting (go [StartHTTPServer p info] va) p"
  by (auto simp: starting_def)

lemma run_starting:
  assumes "starting (va\<lparr>aGoroutines := g # gs\<rparr>) p"
  shows "starting (runGoroutine L ns out g (va\<lparr>aGoroutines := gs\<rparr>)) p"
proof (cases g)
  case (StartHTTPServer port info)
  have "starting (va\<lparr>aGoroutines := gs\<rparr>) p \<or> p = port"
    using assms StartHTTPServer by (auto simp: starting_def)
  then show ?thesis by (simp add: StartHTTPServer starting_start)
qed (use assms in \<open>auto simp: starting_def serve_def shutdown_def collectNode_def storeMetrics_def storeSummary_def Let_def split_beta\<close>)

lemma run_nodes: "aNodeStates (runGoroutine L ns out g va) = aNodeStates va"
  by (cases g) (simp_all add: start_fields serve_def shutdown_def collectNode_def storeMetrics_def storeSummary_def Let_def split_beta)

lemma starting_starts:
  "starting (foldl (\<lambda>va (_, info). startHTTPServerForNode (niProxierPort info) info va) va nodes) p \<longleftrightarrow>
     starting va p \<or> p \<in> niProxierPort ` snd ` set nodes"
  by (induction nodes arbitrary: va) (auto simp: starting_start)

lemma nodes_starts:
  "aNodeStates (foldl (\<lambda>va (_, info). startHTTPServerForNode (niProxierPort info) info va) va nodes) = aNodeStates va"
  by (induction nodes arbitrary: va) (auto simp: start_fields)

lemma initialized_served_inv:
  assumes "distinct (map (niProxierPort \<circ> snd) nodes)"
  shows "served_inv (InitializeWithNodes nodes va)"
proof (rule served_invI)
  fix n info assume "aNodeStates (InitializeWithNodes nodes va) n = Some info"
  then have n: "(n, info) \<in> set nodes" by (simp add: InitializeWithNodes_def nodes_starts map_of_SomeD)
  then show "starting (InitializeWithNodes nodes va) (niProxierPort info)"
    by (force simp: InitializeWithNodes_def starting_starts)
  fix m other assume "aNodeStates (InitializeWithNodes nodes va) m = Some other" and p: "niProxierPort other = niProxierPort info"
  then have m: "(m, other) \<in> set nodes" by (simp add: InitializeWithNodes_def nodes_starts map_of_SomeD)
  from assms have "inj_on (niProxierPort \<circ> snd) (set nodes)" by (simp add: distinct_map)
  from inj_onD [OF this _ m n] p show "m = n" by simp
qed

text \<open>Nodes come, change and go; the ports of the others are kept.\<close>

lemma added_served_inv:
  assumes inv: "served_inv va" and free: "free_port (aNodeStates va) n (niProxierPort info)"
    and starts: "starting va' (niProxierPort info)" and nodes: "aNodeStates va' = (aNodeStates va)(n \<mapsto> info)"
    and kept: "\<And>m other. aNodeStates va m = Some other \<Longrightarrow> m \<noteq> n \<Longrightarrow> starting va' (niProxierPort other)"
  shows "served_inv va'"
proof (rule served_invI)
  fix m other assume m: "aNodeStates va' m = Some other"
  with starts kept nodes show "starting va' (niProxierPort other)" by (cases "m = n") simp_all
  fix k third assume k: "aNodeStates va' k = Some third" and p: "niProxierPort third = niProxierPort other"
  have other_port: "aNodeStates va j = Some x \<Longrightarrow> j \<noteq> n \<Longrightarrow> niProxierPort x \<noteq> niProxierPort info" for j x
    using free unfolding free_port_def by blast
  consider "m = n" "k = n" | "m = n" "k \<noteq> n" | "m \<noteq> n" "k = n" | "m \<noteq> n" "k \<noteq> n" by blast
  then show "k = m"
  proof cases
    case 2
    from m 2(1) have "other = info" by (simp add: nodes)
    moreover from k 2(2) have "aNodeStates va k = Some third" by (simp add: nodes)
    ultimately show ?thesis using other_port [of k third] 2(2) p by blast
  next
    case 3
    from k 3(2) have "third = info" by (simp add: nodes)
    moreover from m 3(1) have "aNodeStates va m = Some other" by (simp add: nodes)
    ultimately show ?thesis using other_port [of m other] 3(1) p [symmetric] by blast
  next
    case 4
    with m k have "aNodeStates va m = Some other" "aNodeStates va k = Some third" by (simp_all add: nodes)
    from served_invD(2) [OF inv this p] show ?thesis .
  qed simp
qed

lemma deleted_served_inv:
  assumes inv: "served_inv va" and n: "aNodeStates va n = Some info"
  shows "served_inv (OnNodeDeleted n info va)"
proof (rule served_invI)
  have nodes: "aNodeStates (OnNodeDeleted n info va) = (aNodeStates va)(n := None)"
    by (simp add: OnNodeDeleted_def Let_def stop_fields)
  fix m other assume "aNodeStates (OnNodeDeleted n info va) m = Some other"
  then have m: "m \<noteq> n" "aNodeStates va m = Some other" by (auto simp: nodes split: if_splits)
  with inv n have "niProxierPort other \<noteq> niProxierPort info" using served_invD(2) by metis
  with inv m show "starting (OnNodeDeleted n info va) (niProxierPort other)"
    by (simp add: OnNodeDeleted_def Let_def starting_stop served_invD(1))
  fix k third assume "aNodeStates (OnNodeDeleted n info va) k = Some third" and p: "niProxierPort third = niProxierPort other"
  then have "aNodeStates va k = Some third" by (simp add: nodes split: if_splits)
  from served_invD(2) [OF inv m(2) this p] show "k = m" .
qed

lemma updated_served_inv:
  assumes inv: "served_inv va" and n: "aNodeStates va n = Some old" and free: "free_port (aNodeStates va) n (niProxierPort new)"
  shows "served_inv (OnNodeUpdated n old new va)"
proof (rule added_served_inv [OF inv free])
  show "starting (OnNodeUpdated n old new va) (niProxierPort new)"
  proof (cases "niProxierPort old = niProxierPort new")
    case True
    with served_invD(1) [OF inv n] show ?thesis by (simp add: OnNodeUpdated_def Let_def)
  next
    case False
    then show ?thesis by (simp add: OnNodeUpdated_def Let_def)
  qed
  show "aNodeStates (OnNodeUpdated n old new va) = (aNodeStates va)(n \<mapsto> new)"
    by (simp add: OnNodeUpdated_def Let_def stop_fields)
  fix m other assume m: "aNodeStates va m = Some other" "m \<noteq> n"
  with inv n have "niProxierPort other \<noteq> niProxierPort old" using served_invD(2) by metis
  with served_invD(1) [OF inv m(1)] show "starting (OnNodeUpdated n old new va) (niProxierPort other)"
    by (simp add: OnNodeUpdated_def Let_def starting_go starting_stop)
qed

lemma exec_served_inv:
  assumes inv: "served_inv va" and ok: "as_sent va e"
  shows "served_inv (agent_exec L ns e va)"
proof (cases e)
  case (NodeAdded n info)
  with ok have free: "free_port (aNodeStates va) n (niProxierPort info)" by simp
  show ?thesis unfolding NodeAdded agent_exec.simps
    by (rule added_served_inv [OF inv free])
      (use inv in \<open>auto simp: OnNodeAdded_def starting_go served_invD(1)\<close>)
next
  case (Tick nodes)
  from inv show ?thesis
    unfolding Tick agent_exec.simps collectMetricsFromAllNodes_def
    by (rule served_inv_mono) (auto intro: starting_go)
next
  case (Run i out)
  let ?rest = "remove_at i (aGoroutines va)"
  show ?thesis
  proof (cases "i < length (aGoroutines va)")
    case True
    have "starting (va\<lparr>aGoroutines := (aGoroutines va ! i) # ?rest\<rparr>) p = starting va p" for p
      using set_remove_at [OF True] by (simp add: starting_def)
    then have kept: "starting va p \<Longrightarrow> starting (agent_exec L ns (Run i out) va) p" for p
      using run_starting [where va = va and g = "aGoroutines va ! i" and gs = ?rest and p = p and L = L and ns = ns and out = out] True
      by simp
    show ?thesis unfolding Run by (rule served_inv_mono [OF inv _ kept]) (simp add: True run_nodes)
  qed (use inv Run in simp)
next
  case (Stopped ports)
  then show ?thesis by (auto simp: StopAgent_def served_inv_def)
qed (use inv ok in \<open>auto intro: deleted_served_inv updated_served_inv initialized_served_inv\<close>)

section \<open>Properties\<close>

lemma reach_listeners_inv: "agent_reach L ns possible va \<Longrightarrow> listeners_inv va"
proof (induction rule: agent_reach.induct)
  case start
  show ?case by (simp add: NewVNodeProxierAgent_def listeners_inv_def)
qed (rule exec_listeners_inv)

text \<open>
  C34. In whatever order events, collections, stops and goroutines run, a port that is listened on is served by the server the table
  has for it, or the shutdown of that server is still to run; so when no goroutine is left, nothing listens that the agent does not
  know. Every server in the table is under its own port.
\<close>

theorem listeners_accounted:
  assumes "agent_reach L ns possible va"
  shows "(aHttpServers va p = Some entry \<longrightarrow> hsPort (enSrv entry) = p) \<and>
    (aSockets va p = Some server \<longrightarrow> map_option enSrv (aHttpServers va p) = Some server \<or> Shutdown server \<in> set (aGoroutines va))"
  using reach_listeners_inv [OF assms] by (auto simp: listeners_inv_def owned_def)

text \<open>
  C35. When the node controller sends its events and no two nodes share a port, every node of the table has a server in the table
  under its port or the goroutine that starts it is still to run, in every interleaving.
\<close>

theorem every_node_served:
  assumes "agent_reach L ns as_sent va" and "aNodeStates va n = Some info"
  shows "aHttpServers va (niProxierPort info) \<noteq> None \<or> (\<exists>i. StartHTTPServer (niProxierPort info) i \<in> set (aGoroutines va))"
proof -
  from assms(1) have "served_inv va"
    by induction (simp add: NewVNodeProxierAgent_def served_inv_def, rule exec_served_inv)
  from served_invD(1) [OF this assms(2)] show ?thesis by (simp add: starting_def)
qed

text \<open>Runs of the agent, and those in which no goroutine fails to listen but for a port in use.\<close>

fun agent_run :: "agent_lib \<Rightarrow> string \<Rightarrow> agent \<Rightarrow> agent_event list \<Rightarrow> agent" where
  "agent_run L ns va [] = va"
| "agent_run L ns va (e # es) = agent_run L ns (agent_exec L ns e va) es"

fun allowed :: "(agent \<Rightarrow> agent_event \<Rightarrow> bool) \<Rightarrow> agent_lib \<Rightarrow> string \<Rightarrow> agent \<Rightarrow> agent_event list \<Rightarrow> bool" where
  "allowed ok L ns va [] \<longleftrightarrow> True"
| "allowed ok L ns va (e # es) \<longleftrightarrow> ok va e \<and> allowed ok L ns (agent_exec L ns e va) es"

lemma reach_run:
  assumes "allowed ok L ns va es" and "agent_reach L ns ok va"
  shows "agent_reach L ns ok (agent_run L ns va es)"
  using assms by (induction es arbitrary: va) (simp_all add: agent_reach.step)

lemmas reach_from_start = reach_run [OF _ agent_reach.start]

fun fair_outcome :: "agent_event \<Rightarrow> bool" where
  "fair_outcome (Run i out) \<longleftrightarrow> ouListens out"
| "fair_outcome _ \<longleftrightarrow> True"

definition as_sent_fair :: "agent \<Rightarrow> agent_event \<Rightarrow> bool" where
  "as_sent_fair va e \<longleftrightarrow> as_sent va e \<and> fair_outcome e"

definition sample_summary :: Summary where
  "sample_summary = \<lparr>sumNode = \<lparr>nstNodeName = ''p'', nstStartTime = 0, nstCPU = None, nstMemory = None\<rparr>, sumPods = []\<rparr>"

definition sample_outcome :: outcome where
  "sample_outcome = \<lparr>ouListens = True, ouMetrics = Inl (Errorf ''timeout''), ouSummary = Inr sample_summary,
     ouMapper = InitGlobalPodMapper, ouNow = \<lparr>ckNow = 0, ckWeekday = ''Monday'', ckHHMM = ''00:00'', ckRFC3339 = ''1970-01-01T00:00:00Z''\<rparr>\<rparr>"

definition node_at :: "string \<Rightarrow> NodeInfo" where
  "node_at n = \<lparr>niNodeName = n, niInternalIP = ''10.0.0.1'', niProxierPort = ''30000''\<rparr>"

abbreviation "runs_next i \<equiv> Run i sample_outcome"

lemmas run_simps = as_sent_fair_def free_port_def node_at_def sample_outcome_def NewVNodeProxierAgent_def OnNodeAdded_def OnNodeDeleted_def
  go_def startHTTPServerForNode_def stopServer_def clearCache_def serve_def shutdown_def remove_at_def Let_def collectNode_def
  collectMetricsFromAllNodes_def storeSummary_def

definition dark_run :: "agent_event list" where
  "dark_run = [NodeAdded ''a'' (node_at ''a''), runs_next 0, runs_next 0, NodeDeleted ''a'' (node_at ''a''),
     NodeAdded ''b'' (node_at ''b''), runs_next 1, runs_next 1, runs_next 0]"

text \<open>
  A port that is given to another node may stay dark: node b gets the port of the deleted node a, its server tries to listen
  before the old server has left the port, fails, and stays in the table. No goroutine is left that would try again, though every event
  is as the node controller sends it and nothing else ever used the port.
\<close>

theorem reused_port_stays_dark:
  "\<exists>va. agent_reach L ns as_sent_fair va \<and> aGoroutines va = [] \<and> aNodeStates va ''b'' = Some (node_at ''b'') \<and>
     map_option enNodeIP (aHttpServers va ''30000'') = Some ''10.0.0.1'' \<and> aSockets va ''30000'' = None"
proof -
  let ?va = "agent_run L ns NewVNodeProxierAgent dark_run"
  have "agent_reach L ns as_sent_fair ?va"
    by (rule reach_from_start) (simp add: dark_run_def run_simps)
  moreover have "aGoroutines ?va = [] \<and> aNodeStates ?va ''b'' = Some (node_at ''b'') \<and>
     map_option enNodeIP (aHttpServers ?va ''30000'') = Some ''10.0.0.1'' \<and> aSockets ?va ''30000'' = None"
    by (simp add: dark_run_def run_simps)
  ultimately show ?thesis by blast
qed

definition late_run :: "agent_event list" where
  "late_run = [NodeAdded ''a'' (node_at ''a''), Tick [(''a'', node_at ''a'')], runs_next 1, runs_next 1,
     NodeDeleted ''a'' (node_at ''a''), runs_next 0, runs_next 0, NodeAdded ''b'' (node_at ''b''), runs_next 0]"

text \<open>
  A port that is given to another node may go on answering for the old one: the server of node a is started only after a was
  deleted, then b is added with the same port and gets no server of its own. The port answers with the pods of a, and with the
  summary collected from a, which no deletion removes.
\<close>

theorem reused_port_serves_old_node:
  "\<exists>va. agent_reach L ns as_sent_fair va \<and> aGoroutines va = [] \<and> aNodeStates va ''a'' = None \<and>
     aNodeStates va ''b'' = Some (node_at ''b'') \<and>
     answerRequest L cache va ''30000'' PodsEndpoint = Some (handlePods L cache ''a'') \<and>
     map_option (nstNodeName \<circ> sumNode) (GetSummaryData va ''30000'') = Some ''a''"
proof -
  let ?va = "agent_run L ns NewVNodeProxierAgent late_run"
  have "agent_reach L ns as_sent_fair ?va"
    by (rule reach_from_start) (simp add: late_run_def run_simps fun_eq_iff)
  moreover have "aGoroutines ?va = [] \<and> aNodeStates ?va ''a'' = None \<and> aNodeStates ?va ''b'' = Some (node_at ''b'')"
    by (simp add: late_run_def run_simps)
  moreover have "answerRequest L cache ?va ''30000'' PodsEndpoint = Some (handlePods L cache ''a'')"
    by (simp add: late_run_def run_simps answerRequest_def)
  moreover have "map_option (nstNodeName \<circ> sumNode) (GetSummaryData ?va ''30000'') = Some ''a''"
    by (simp add: late_run_def run_simps GetSummaryData_def transformSummaryData_def aggregateNodeStats_def sample_summary_def)
  ultimately show ?thesis by blast
qed

definition no_lib :: agent_lib where
  "no_lib = \<lparr>alUnixSeconds = (\<lambda>_. Finite 0), alStreamParse = (\<lambda>_. ([], None)), alEncodeSummary = (\<lambda>_. Inr ''''), alEncodePods = (\<lambda>_. Inr '''')\<rparr>"

definition start_run :: "agent_event list" where
  "start_run = [NodeAdded ''a'' (node_at ''a''), runs_next 0, runs_next 0]"

theorem listeners_accounted_witness:
  "\<exists>va :: agent. map_option hsId (aSockets va ''30000'') = Some 0 \<and>
     map_option enSrv (aHttpServers va ''30000'') = aSockets va ''30000''"
proof -
  let ?va = "agent_run no_lib '''' NewVNodeProxierAgent start_run"
  have reach: "agent_reach no_lib '''' possible ?va"
    by (rule reach_from_start) (simp add: start_run_def run_simps)
  have "aSockets ?va ''30000'' = Some \<lparr>hsId = 0, hsPort = ''30000'', hsNodeInfo = node_at ''a''\<rparr>" "aGoroutines ?va = []"
    by (simp_all add: start_run_def run_simps)
  with listeners_accounted [OF reach, of "''30000''" _ "\<lparr>hsId = 0, hsPort = ''30000'', hsNodeInfo = node_at ''a''\<rparr>"]
  have "map_option enSrv (aHttpServers ?va ''30000'') = aSockets ?va ''30000''" by simp
  with \<open>aSockets ?va ''30000'' = _\<close> show ?thesis by (intro exI [of _ ?va]) simp
qed

theorem every_node_served_witness:
  "aHttpServers (agent_run no_lib '''' NewVNodeProxierAgent start_run) ''30000'' \<noteq> None"
proof -
  let ?va = "agent_run no_lib '''' NewVNodeProxierAgent start_run"
  have reach: "agent_reach no_lib '''' as_sent ?va"
    by (rule reach_from_start) (simp add: start_run_def run_simps)
  have "aNodeStates ?va ''a'' = Some (node_at ''a'')" and quiet: "aGoroutines ?va = []"
    by (simp_all add: start_run_def run_simps)
  from every_node_served [OF reach this(1)] quiet show ?thesis by (simp add: node_at_def)
qed

end
