(* ===== verification/Proxier_Nodes.thy ===== *)
theory Proxier_Nodes
  imports Proxier_Agent "HOL-Library.AList"
begin

text \<open>
  The tables of the proxier: \<^verbatim>\<open>pkg/proxier/node_controller.go\<close> follows the virtual nodes of one cluster binding, keeps them with
  \<^verbatim>\<open>vnode_port_mapper.go\<close> and tells the agent about them; \<^verbatim>\<open>pkg/proxier/pod_controller.go\<close> follows the physical pods and keeps the
  mapping of \<^verbatim>\<open>pod_mapper.go\<close> by which metrics are renamed. The locale \<open>node_event_handler\<close> is what the node controller relies on;
  it is interpreted on the agent.
\<close>

section \<open>The port of a virtual node\<close>

type_synonym port_mapper = "string \<rightharpoonup> string"

definition AddVNodePort :: "string \<Rightarrow> string \<Rightarrow> port_mapper \<Rightarrow> port_mapper" where
  "AddVNodePort vnodeName port m = m(vnodeName \<mapsto> port)"

definition RemoveVNodePort :: "string \<Rightarrow> port_mapper \<Rightarrow> port_mapper" where
  "RemoveVNodePort vnodeName m = m(vnodeName := None)"

definition GetPortByVNodeName :: "port_mapper \<Rightarrow> string \<Rightarrow> string option" where
  "GetPortByVNodeName m vnodeName = m vnodeName"

definition ClearVNodePorts :: port_mapper where
  "ClearVNodePorts = Map.empty"

section \<open>State of the node controller\<close>

text \<open>
  \<^verbatim>\<open>NodeEventHandler\<close>. Only the agent can be initialized with nodes: the type assertion in \<^verbatim>\<open>SyncExistingNodes\<close> gives
  nothing for another handler.
\<close>

record 'a handler =
  hdAdded :: "string \<Rightarrow> NodeInfo \<Rightarrow> 'a \<Rightarrow> 'a"
  hdUpdated :: "string \<Rightarrow> NodeInfo \<Rightarrow> NodeInfo \<Rightarrow> 'a \<Rightarrow> 'a"
  hdDeleted :: "string \<Rightarrow> NodeInfo \<Rightarrow> 'a \<Rightarrow> 'a"
  hdInitialize :: "((string \<times> NodeInfo) list \<Rightarrow> 'a \<Rightarrow> 'a) option"

record 'a node_tables =
  CurrentNodes :: "string \<rightharpoonup> NodeInfo"
  ntPorts :: port_mapper
  ntHandler :: "'a option"

record ('s, 'a) proxier_world = "'s world" +
  pwNodes :: "'a node_tables"
  pwPods :: pod_mapper

type_synonym ('s, 'a, 'm, 'r) proxier_prog = "(('s, 'a, 'm) proxier_world_scheme, 'r) state"

definition notify :: "('a \<Rightarrow> 'a) \<Rightarrow> 'a node_tables \<Rightarrow> 'a node_tables" where
  "notify f t = t\<lparr>ntHandler := map_option f (ntHandler t)\<rparr>"

section \<open>Nodes\<close>

definition proxiedNode :: "string \<Rightarrow> node \<Rightarrow> bool" where
  "proxiedNode ClusterBindingName nd \<longleftrightarrow>
    (if mget (mLabels (nMeta nd)) LabelManagedBy \<noteq> LabelManagedByValue then False
     else if mget (mLabels (nMeta nd)) LabelClusterBinding \<noteq> ClusterBindingName then False
     else True)"

definition extractNodeInfo :: "node \<Rightarrow> NodeInfo res" where
  "extractNodeInfo nd =
    (let labelIP = mget (mLabels (nMeta nd)) LabelPhysicalNodeInnerIP;
         internalIP = (if labelIP = '''' then
            (case find (\<lambda>addr. aType addr = ''InternalIP'') (nAddresses nd) of Some addr \<Rightarrow> aAddress addr | None \<Rightarrow> '''') else labelIP);
         port = mget (mLabels (nMeta nd)) LabelProxierPort
     in if internalIP = '''' then Inl (Errorf (''no InternalIP found for node '' @ mName (nMeta nd) @ '' (neither in label nor Status.Addresses)''))
        else Inr \<lparr>niNodeName = mName (nMeta nd), niInternalIP = internalIP,
          niProxierPort = (if port = '''' then ''8080'' else port)\<rparr>)"

definition handleNodeUpdate :: "'a handler \<Rightarrow> node \<Rightarrow> 'a node_tables \<Rightarrow> 'a node_tables" where
  "handleNodeUpdate H nd t = (case extractNodeInfo nd of
     Inl _ \<Rightarrow> t
   | Inr nodeInfo \<Rightarrow>
      (let name = mName (nMeta nd); old = CurrentNodes t name;
           t = t\<lparr>CurrentNodes := (CurrentNodes t)(name \<mapsto> nodeInfo)\<rparr>
       in case old of
           None \<Rightarrow> notify (hdAdded H name nodeInfo) (t\<lparr>ntPorts := AddVNodePort name (niProxierPort nodeInfo) (ntPorts t)\<rparr>)
         | Some oldNodeInfo \<Rightarrow>
            (let t = (if niProxierPort oldNodeInfo \<noteq> niProxierPort nodeInfo
                      then t\<lparr>ntPorts := AddVNodePort name (niProxierPort nodeInfo) (ntPorts t)\<rparr> else t)
             in if oldNodeInfo \<noteq> nodeInfo then notify (hdUpdated H name oldNodeInfo nodeInfo) t else t)))"

definition handleNodeDelete :: "'a handler \<Rightarrow> string \<Rightarrow> 'a node_tables \<Rightarrow> 'a node_tables" where
  "handleNodeDelete H nodeName t =
    (let old = CurrentNodes t nodeName; t = t\<lparr>CurrentNodes := (CurrentNodes t)(nodeName := None)\<rparr>
     in case old of
         None \<Rightarrow> t
       | Some oldNodeInfo \<Rightarrow> notify (hdDeleted H nodeName oldNodeInfo) (t\<lparr>ntPorts := RemoveVNodePort nodeName (ntPorts t)\<rparr>))"

definition ReconcileProxiedNode ::
  "'s api \<Rightarrow> 'a handler \<Rightarrow> string \<Rightarrow> string \<Rightarrow> ('s, 'a, 'm, ctrl_result res) proxier_prog" where
  "ReconcileProxiedNode A H ClusterBindingName reqName = do {
     got \<leftarrow> get_node A VirtualClient reqName;
     case got of
       Inl err \<Rightarrow> (if \<not> IsNotFound err then return (Inl err)
                  else do { modifies (pwNodes_update (handleNodeDelete H reqName)); return (Inr (Result 0)) })
     | Inr nd \<Rightarrow> (if \<not> proxiedNode ClusterBindingName nd then return (Inr (Result 0))
                 else do { modifies (pwNodes_update (handleNodeUpdate H nd)); return (Inr (Result 0)) })
   }"

text \<open>
  At start-up. The items of the list build the table; \<open>order\<close> is the unknown order in which Go walks through it.
\<close>

definition nodeEntries :: "node list \<Rightarrow> (string \<times> NodeInfo) list" where
  "nodeEntries items = foldl (\<lambda>entries nd. case extractNodeInfo nd of
     Inl _ \<Rightarrow> entries | Inr nodeInfo \<Rightarrow> AList.update (mName (nMeta nd)) nodeInfo entries) [] items"

definition syncTables ::
  "((string \<times> NodeInfo) list \<Rightarrow> (string \<times> NodeInfo) list) \<Rightarrow> 'a handler \<Rightarrow> node list \<Rightarrow> 'a node_tables \<Rightarrow> 'a node_tables" where
  "syncTables order H items t =
    (let entries = order (nodeEntries items);
         t = t\<lparr>CurrentNodes := map_of entries,
           ntPorts := foldl (\<lambda>m (nodeName, nodeInfo). AddVNodePort nodeName (niProxierPort nodeInfo) m) ClearVNodePorts entries\<rparr>
     in case hdInitialize H of None \<Rightarrow> t | Some initialize \<Rightarrow> notify (initialize entries) t)"

definition SyncExistingNodes ::
  "'s api \<Rightarrow> ((string \<times> NodeInfo) list \<Rightarrow> (string \<times> NodeInfo) list) \<Rightarrow> 'a handler \<Rightarrow> string \<Rightarrow> ('s, 'a, 'm, unit res) proxier_prog" where
  "SyncExistingNodes A order H ClusterBindingName =
     on_ok (list_nodes A VirtualClient \<lparr>loNamespace = None,
         loLabels = [(LabelClusterBinding, ClusterBindingName), (LabelManagedBy, LabelManagedByValue)], loNodeName = None\<rparr>)
       (\<lambda>items. do { modifies (pwNodes_update (syncTables order H items)); return (Inr ()) })"

definition SetMetricsCollector :: "'a \<Rightarrow> 'a node_tables \<Rightarrow> 'a node_tables" where
  "SetMetricsCollector collector t = t\<lparr>ntHandler := Some collector\<rparr>"

section \<open>What the node controller relies on\<close>

text \<open>The handler knows the nodes it was told about.\<close>

locale node_event_handler =
  fixes H :: "'a handler" and known :: "'a \<Rightarrow> string \<rightharpoonup> NodeInfo"
  assumes known_added: "known (hdAdded H n info a) = (known a)(n \<mapsto> info)"
    and known_updated: "known (hdUpdated H n old info a) = (known a)(n \<mapsto> info)"
    and known_deleted: "known (hdDeleted H n info a) = (known a)(n := None)"
    and known_initialized: "\<exists>initialize. hdInitialize H = Some initialize \<and> (\<forall>nodes a. known (initialize nodes a) = map_of nodes)"
begin

definition in_sync :: "'a node_tables \<Rightarrow> bool" where
  "in_sync t \<longleftrightarrow> ntPorts t = map_option niProxierPort \<circ> CurrentNodes t \<and> (\<forall>a. ntHandler t = Some a \<longrightarrow> known a = CurrentNodes t)"

lemma update_sync: "in_sync t \<Longrightarrow> in_sync (handleNodeUpdate H nd t)"
  by (auto simp: in_sync_def handleNodeUpdate_def Let_def notify_def AddVNodePort_def known_added known_updated fun_eq_iff
      split: sum.split option.split)

lemma delete_sync: "in_sync t \<Longrightarrow> in_sync (handleNodeDelete H n t)"
  by (auto simp: in_sync_def handleNodeDelete_def Let_def notify_def RemoveVNodePort_def known_deleted fun_eq_iff split: option.split)

lemma ports_of_entries:
  "distinct (map fst entries) \<Longrightarrow> foldl (\<lambda>m (nodeName, nodeInfo). AddVNodePort nodeName (niProxierPort nodeInfo) m) m entries =
     m ++ (map_option niProxierPort \<circ> map_of entries)"
proof (induction entries arbitrary: m)
  case (Cons e entries)
  then have "map_of entries (fst e) = None" by (simp add: map_of_eq_None_iff)
  with Cons show ?case by (auto simp: AddVNodePort_def fun_eq_iff map_add_def split_beta split: option.split)
qed (simp add: fun_eq_iff map_add_def)

lemma syncTables_sync:
  assumes "distinct (map fst (order (nodeEntries items)))"
  shows "in_sync (syncTables order H items t)"
  using known_initialized ports_of_entries [OF assms, of Map.empty]
  by (auto simp: in_sync_def syncTables_def Let_def notify_def ClearVNodePorts_def)

end

definition agentHandler :: "agent handler" where
  "agentHandler = \<lparr>hdAdded = OnNodeAdded, hdUpdated = OnNodeUpdated, hdDeleted = OnNodeDeleted, hdInitialize = Some InitializeWithNodes\<rparr>"

interpretation ah: node_event_handler agentHandler aNodeStates
  by unfold_locales
    (simp_all add: agentHandler_def OnNodeAdded_def OnNodeUpdated_def OnNodeDeleted_def Let_def stop_fields InitializeWithNodes_def nodes_starts)

section \<open>Nodes, controller and agent together\<close>

definition exclusive_ports :: "(string \<rightharpoonup> NodeInfo) \<Rightarrow> bool" where
  "exclusive_ports nodes \<longleftrightarrow> (\<forall>n info. nodes n = Some info \<longrightarrow> free_port nodes n (niProxierPort info))"

text \<open>What the timer and the scheduler do to the agent.\<close>

fun internal :: "agent_event \<Rightarrow> bool" where
  "internal (Run _ _) \<longleftrightarrow> True"
| "internal (Tick _) \<longleftrightarrow> True"
| "internal _ \<longleftrightarrow> False"

text \<open>
  The states of the tables and the agent. No two recorded nodes have the same port at any time: the code does not
  check this, and nodes without the label all get 8080. Reconciliations and the synchronization at start-up are single
  steps, as one worker runs them under the lock of the controller. \<open>restarted\<close> is the second initialization of the
  agent in \<^verbatim>\<open>startServices\<close> of \<^verbatim>\<open>cmd/kubeocean-proxier/main.go\<close>, from a copy of the table of nodes in some
  order, with no reconciliation between the copy and the initialization.
\<close>

definition GetCurrentNodes :: "'a node_tables \<Rightarrow> (string \<times> NodeInfo) list \<Rightarrow> bool" where
  "GetCurrentNodes t nodes \<longleftrightarrow> map_of nodes = CurrentNodes t \<and> distinct (map fst nodes)"

definition startServicesNodes :: "(string \<times> NodeInfo) list \<Rightarrow> agent node_tables \<Rightarrow> agent node_tables" where
  "startServicesNodes existingNodes t =
    (if length existingNodes > 0 then notify (InitializeWithNodes existingNodes) t else t)"

inductive proxier_reach :: "agent_lib \<Rightarrow> string \<Rightarrow> string \<Rightarrow> agent node_tables \<Rightarrow> bool" for L ns binding where
  synced: "distinct (map fst (order (nodeEntries items))) \<Longrightarrow> t = syncTables order agentHandler items t0 \<Longrightarrow>
    exclusive_ports (CurrentNodes t) \<Longrightarrow> proxier_reach L ns binding t"
| updated: "proxier_reach L ns binding t \<Longrightarrow> proxiedNode binding nd \<Longrightarrow> t' = handleNodeUpdate agentHandler nd t \<Longrightarrow>
    exclusive_ports (CurrentNodes t') \<Longrightarrow> proxier_reach L ns binding t'"
| deleted: "proxier_reach L ns binding t \<Longrightarrow> proxier_reach L ns binding (handleNodeDelete agentHandler n t)"
| restarted: "proxier_reach L ns binding t \<Longrightarrow> GetCurrentNodes t nodes \<Longrightarrow> proxier_reach L ns binding (startServicesNodes nodes t)"
| ran: "proxier_reach L ns binding t \<Longrightarrow> ntHandler t = Some va \<Longrightarrow> internal e \<Longrightarrow> possible va e \<Longrightarrow>
    proxier_reach L ns binding (t\<lparr>ntHandler := Some (agent_exec L ns e va)\<rparr>)"

definition agent_ok :: "agent node_tables \<Rightarrow> bool" where
  "agent_ok t \<longleftrightarrow> ah.in_sync t \<and> (\<forall>va. ntHandler t = Some va \<longrightarrow> served_inv va)"

lemma exclusive_distinct:
  assumes d: "distinct (map fst entries)" and ports: "exclusive_ports (map_of entries)"
  shows "distinct (map (niProxierPort \<circ> snd) entries)"
proof -
  have "inj_on (niProxierPort \<circ> snd) (set entries)"
  proof (rule inj_onI)
    fix e e' assume e: "e \<in> set entries" "e' \<in> set entries" and p: "(niProxierPort \<circ> snd) e = (niProxierPort \<circ> snd) e'"
    with d have m: "map_of entries (fst e) = Some (snd e)" "map_of entries (fst e') = Some (snd e')" by (simp_all add: map_of_is_SomeI)
    with p ports have "fst e = fst e'" unfolding exclusive_ports_def free_port_def comp_def by metis
    with m show "e = e'" by (simp add: prod_eq_iff)
  qed
  moreover from d have "distinct entries" by (simp add: distinct_map)
  ultimately show ?thesis by (simp add: distinct_map)
qed

lemma syncTables_ok:
  assumes d: "distinct (map fst (order (nodeEntries items)))" and ports: "exclusive_ports (CurrentNodes (syncTables order agentHandler items t0))"
  shows "agent_ok (syncTables order agentHandler items t0)"
proof -
  let ?entries = "order (nodeEntries items)"
  from ports have "exclusive_ports (map_of ?entries)"
    by (simp add: syncTables_def Let_def notify_def agentHandler_def)
  with d have "served_inv (InitializeWithNodes ?entries va)" for va by (intro initialized_served_inv exclusive_distinct)
  with ah.syncTables_sync [where order = order and items = items, OF d] show ?thesis
    by (auto simp: agent_ok_def syncTables_def Let_def notify_def agentHandler_def)
qed

lemma restarted_ok:
  assumes ok: "agent_ok t" and ports: "exclusive_ports (CurrentNodes t)" and nodes: "GetCurrentNodes t nodes"
  shows "agent_ok (startServicesNodes nodes t)"
proof -
  from nodes ports have "served_inv (InitializeWithNodes nodes va)" for va
    unfolding GetCurrentNodes_def by (intro initialized_served_inv exclusive_distinct) simp_all
  moreover have "aNodeStates (InitializeWithNodes nodes va) = CurrentNodes t" for va
    using nodes by (simp add: GetCurrentNodes_def InitializeWithNodes_def nodes_starts)
  ultimately show ?thesis using ok
    by (auto simp: agent_ok_def ah.in_sync_def startServicesNodes_def notify_def)
qed

lemma handleNodeUpdate_ok:
  assumes ok: "agent_ok t" and ports: "exclusive_ports (CurrentNodes (handleNodeUpdate agentHandler nd t))"
  shows "agent_ok (handleNodeUpdate agentHandler nd t)"
proof (cases "extractNodeInfo nd")
  case (Inr info)
  let ?n = "mName (nMeta nd)"
  from ok have sync: "ah.in_sync t" by (simp add: agent_ok_def)
  have "CurrentNodes (handleNodeUpdate agentHandler nd t) = (CurrentNodes t)(?n \<mapsto> info)"
    using Inr by (simp add: handleNodeUpdate_def Let_def notify_def split: option.split)
  with ports have free: "free_port (CurrentNodes t) ?n (niProxierPort info)"
    unfolding exclusive_ports_def free_port_def by (metis map_upd_Some_unfold)
  have served: "served_inv va'" if va': "ntHandler (handleNodeUpdate agentHandler nd t) = Some va'" for va'
  proof -
    obtain va where va: "ntHandler t = Some va"
      using va' Inr by (cases "ntHandler t") (auto simp: handleNodeUpdate_def Let_def notify_def split: option.splits if_splits)
    with ok have inv: "served_inv va" and same: "aNodeStates va = CurrentNodes t" by (simp_all add: agent_ok_def ah.in_sync_def)
    show ?thesis
    proof (cases "CurrentNodes t ?n")
      case None
      with va va' Inr have "va' = OnNodeAdded ?n info va"
        by (simp add: handleNodeUpdate_def Let_def notify_def agentHandler_def)
      with exec_served_inv [OF inv, of "NodeAdded ?n info"] free None same show ?thesis by simp
    next
      case (Some old)
      with va va' Inr have "va' = (if old \<noteq> info then OnNodeUpdated ?n old info va else va)"
        by (auto simp: handleNodeUpdate_def Let_def notify_def agentHandler_def split: if_splits)
      with exec_served_inv [OF inv, of "NodeUpdated ?n old info"] inv free Some same show ?thesis by simp
    qed
  qed
  with ah.update_sync [OF sync] show ?thesis by (simp add: agent_ok_def)
qed (use ok in \<open>simp add: handleNodeUpdate_def\<close>)

lemma handleNodeDelete_ok:
  assumes ok: "agent_ok t"
  shows "agent_ok (handleNodeDelete agentHandler n t)"
proof -
  from ok have sync: "ah.in_sync t" by (simp add: agent_ok_def)
  have "served_inv va'" if va': "ntHandler (handleNodeDelete agentHandler n t) = Some va'" for va'
  proof -
    obtain va where va: "ntHandler t = Some va"
      using va' by (cases "ntHandler t") (auto simp: handleNodeDelete_def Let_def notify_def split: option.splits)
    with ok have inv: "served_inv va" and same: "aNodeStates va = CurrentNodes t" by (simp_all add: agent_ok_def ah.in_sync_def)
    from va va' have "va' = (case CurrentNodes t n of None \<Rightarrow> va | Some old \<Rightarrow> OnNodeDeleted n old va)"
      by (simp add: handleNodeDelete_def Let_def notify_def agentHandler_def split: option.splits)
    with inv same show ?thesis by (auto intro: deleted_served_inv split: option.splits)
  qed
  with ah.delete_sync [OF sync] show ?thesis by (simp add: agent_ok_def)
qed

lemma ran_ok:
  assumes ok: "agent_ok t" and va: "ntHandler t = Some va" and e: "internal e" "possible va e"
  shows "agent_ok (t\<lparr>ntHandler := Some (agent_exec L ns e va)\<rparr>)"
proof -
  from e have "as_sent va e" and nodes: "aNodeStates (agent_exec L ns e va) = aNodeStates va"
    by (cases e; simp add: run_nodes collectMetricsFromAllNodes_def)+
  with ok va have "served_inv (agent_exec L ns e va)" by (simp add: agent_ok_def exec_served_inv)
  with ok va nodes show ?thesis by (simp add: agent_ok_def ah.in_sync_def)
qed

lemma reach_ok: "proxier_reach L ns binding t \<Longrightarrow> agent_ok t \<and> exclusive_ports (CurrentNodes t)"
proof (induction rule: proxier_reach.induct)
  case (deleted t n)
  have "CurrentNodes (handleNodeDelete agentHandler n t) = (CurrentNodes t)(n := None)"
    by (simp add: handleNodeDelete_def Let_def notify_def split: option.split)
  with deleted show ?case by (simp add: handleNodeDelete_ok exclusive_ports_def free_port_def)
next
  case (restarted t nodes)
  then show ?case by (simp add: restarted_ok) (simp add: startServicesNodes_def notify_def)
qed (auto intro: syncTables_ok handleNodeUpdate_ok ran_ok)


text \<open>
  A reconciliation, whatever the server answers, is such a step: it records the node it read when that belongs to the binding, it
  forgets a node that is not there, and in every other case, a failed read or a node of others, the tables stay as they are.
\<close>

theorem ReconcileProxiedNode_step:
  assumes "run_state (ReconcileProxiedNode A H binding n) w = (r, w')"
  shows "pwPods w' = pwPods w \<and> (\<exists>answer. hist w' = hist w @ [EvGet VirtualClient KNode '''' n answer] \<and>
    pwNodes w' = (case decode the_node answer of
       Inl err \<Rightarrow> if IsNotFound err then handleNodeDelete H n (pwNodes w) else pwNodes w
     | Inr nd \<Rightarrow> if proxiedNode binding nd then handleNodeUpdate H nd (pwNodes w) else pwNodes w))"
proof -
  have "tspec (ReconcileProxiedNode A H binding n) w (\<lambda>r evs w'. pwPods w' = pwPods w \<and>
    (\<exists>answer. evs = [EvGet VirtualClient KNode '''' n answer] \<and> pwNodes w' = (case decode the_node answer of
       Inl err \<Rightarrow> if IsNotFound err then handleNodeDelete H n (pwNodes w) else pwNodes w
     | Inr nd \<Rightarrow> if proxiedNode binding nd then handleNodeUpdate H nd (pwNodes w) else pwNodes w)))"
    unfolding ReconcileProxiedNode_def get_node_def by (intro vcg) auto
  from tspec_run [OF this assms] show ?thesis by auto
qed

definition sample_node :: node where
  "sample_node = empty_node\<lparr>nMeta := empty_meta\<lparr>mName := ''v1'', mLabels := [LabelManagedBy \<mapsto> LabelManagedByValue,
     LabelClusterBinding \<mapsto> ''cb'', LabelPhysicalNodeInnerIP \<mapsto> ''10.0.0.1'', LabelProxierPort \<mapsto> ''30000'']\<rparr>\<rparr>"

definition no_nodes :: "agent node_tables" where
  "no_nodes = \<lparr>CurrentNodes = Map.empty, ntPorts = Map.empty, ntHandler = Some NewVNodeProxierAgent\<rparr>"

lemma sample_info: "extractNodeInfo sample_node = Inr \<lparr>niNodeName = ''v1'', niInternalIP = ''10.0.0.1'', niProxierPort = ''30000''\<rparr>"
  by (simp add: extractNodeInfo_def sample_node_def kube_consts mget_def)

lemma sample_proxied: "proxiedNode ''cb'' sample_node"
  by (simp add: proxiedNode_def sample_node_def kube_consts mget_def)


definition nodes_world :: "node res \<Rightarrow> (answer list, agent) proxier_world" where
  "nodes_world r = \<lparr>srv = [AObj (map_sum id ONode r)], hist = [], pwNodes = no_nodes, pwPods = InitGlobalPodMapper\<rparr>"

theorem ReconcileProxiedNode_step_witness:
  "\<exists>r w'. run_state (ReconcileProxiedNode scripted agentHandler ''cb'' ''v1'') (nodes_world (Inr sample_node)) = (r, w') \<and>
     CurrentNodes (pwNodes w') ''v1'' \<noteq> None"
proof -
  obtain r w' where run: "run_state (ReconcileProxiedNode scripted agentHandler ''cb'' ''v1'') (nodes_world (Inr sample_node)) = (r, w')"
    by (cases "run_state (ReconcileProxiedNode scripted agentHandler ''cb'' ''v1'') (nodes_world (Inr sample_node))") simp
  have "hist w' = [EvGet VirtualClient KNode '''' ''v1'' (Inr (ONode sample_node))]"
    using arg_cong [OF run, of "\<lambda>p. hist (snd p)"] by (simp add: ReconcileProxiedNode_def get_node_def Get_def call_def scripted_def nodes_world_def
        modifies_def sample_proxied split: if_splits sum.splits)
  with ReconcileProxiedNode_step [OF run]
  have "pwNodes w' = handleNodeUpdate agentHandler sample_node no_nodes"
    by (simp add: nodes_world_def decode_def sample_proxied)
  then have "CurrentNodes (pwNodes w') ''v1'' \<noteq> None"
    using sample_info by (simp add: handleNodeUpdate_def no_nodes_def Let_def notify_def sample_node_def)
  with run show ?thesis by blast
qed

section \<open>Pods\<close>

definition hasManagedByLabel :: "pod \<Rightarrow> bool" where
  "hasManagedByLabel p \<longleftrightarrow> mget (mLabels (poMeta p)) LabelManagedBy = LabelManagedByValue"

definition extractVirtualPodInfo :: "pod \<Rightarrow> VirtualPodInfo res" where
  "extractVirtualPodInfo p =
    (let annotations = mAnnotations (poMeta p);
         virtualNodeName = mget annotations AnnotationVirtualNodeName;
         virtualPodName = mget annotations AnnotationVirtualPodName;
         virtualPodNamespace = mget annotations AnnotationVirtualPodNamespace
     in if annotations = Map.empty then Inl (Errorf ''pod has no annotations'')
        else if virtualNodeName = '''' then Inl (Errorf (''missing annotation: '' @ AnnotationVirtualNodeName))
        else if virtualPodName = '''' then Inl (Errorf (''missing annotation: '' @ AnnotationVirtualPodName))
        else if virtualPodNamespace = '''' then Inl (Errorf (''missing annotation: '' @ AnnotationVirtualPodNamespace))
        else Inr \<lparr>VirtualNodeName = virtualNodeName, VirtualPodName = virtualPodName, VirtualPodNamespace = virtualPodNamespace\<rparr>)"

definition ReconcileMappedPod :: "'s api \<Rightarrow> string \<Rightarrow> string \<Rightarrow> ('s, 'a, 'm, ctrl_result res) proxier_prog" where
  "ReconcileMappedPod A reqNamespace reqName = do {
     got \<leftarrow> get_pod A PhysicalClient reqNamespace reqName;
     case got of
       Inl err \<Rightarrow> (if IsNotFound err
                  then do { modifies (pwPods_update (\<lambda>M. DeleteVirtualPodInfo M reqName)); return (Inr (Result 0)) }
                  else return (Inl err))
     | Inr p \<Rightarrow>
        (if \<not> hasManagedByLabel p then return (Inr (Result 0))
         else case extractVirtualPodInfo p of
             Inl _ \<Rightarrow> do { modifies (pwPods_update (\<lambda>M. DeleteVirtualPodInfo M (mName (poMeta p)))); return (Inr (Result 0)) }
           | Inr virtualInfo \<Rightarrow> do {
               modifies (pwPods_update (\<lambda>M. SetVirtualPodInfo M (mName (poMeta p)) virtualInfo)); return (Inr (Result 0)) })
   }"

definition mapPods :: "pod list \<Rightarrow> pod_mapper \<Rightarrow> pod_mapper" where
  "mapPods items M = foldl (\<lambda>M p. case extractVirtualPodInfo p of
     Inl _ \<Rightarrow> M | Inr virtualInfo \<Rightarrow> SetVirtualPodInfo M (mName (poMeta p)) virtualInfo) M items"

definition InitializeExistingPods :: "'s api \<Rightarrow> ('s, 'a, 'm, unit res) proxier_prog" where
  "InitializeExistingPods A =
     on_ok (list_pods A PhysicalClient \<lparr>loNamespace = None, loLabels = [(LabelManagedBy, LabelManagedByValue)], loNodeName = None\<rparr>)
       (\<lambda>items. do { modifies (pwPods_update (mapPods items)); return (Inr ()) })"

text \<open>What a pod that was read, or not found, does to the mapping.\<close>

definition mapping_after :: "string \<Rightarrow> pod res \<Rightarrow> pod_mapper \<Rightarrow> pod_mapper" where
  "mapping_after n got M = (case got of
     Inl err \<Rightarrow> if IsNotFound err then DeleteVirtualPodInfo M n else M
   | Inr p \<Rightarrow> if \<not> hasManagedByLabel p then M
       else (case extractVirtualPodInfo p of
           Inl _ \<Rightarrow> DeleteVirtualPodInfo M (mName (poMeta p))
         | Inr virtualInfo \<Rightarrow> SetVirtualPodInfo M (mName (poMeta p)) virtualInfo))"

lemma ReconcileMappedPod_spec:
  "tspec (ReconcileMappedPod A ns n) w (\<lambda>r evs w'. pwNodes w' = pwNodes w \<and>
     (\<exists>answer. evs = [EvGet PhysicalClient KPod ns n answer] \<and> pwPods w' = mapping_after n (decode the_pod answer) (pwPods w)))"
  unfolding ReconcileMappedPod_def get_pod_def mapping_after_def by (intro vcg) auto

text \<open>
  The mapping has no namespaces: when the pod controller hears that some pod of that name is gone, from whatever namespace, it
  forgets the physical pod of the worker namespace, and what is served for its node loses the pod although it is still running.
\<close>

theorem mapping_forgets_namesakes:
  assumes "run_state (ReconcileMappedPod A ns (prName (pstPodRef p))) w = (r, w')"
    and "hist w' = hist w @ [EvGet PhysicalClient KPod ns (prName (pstPodRef p)) (Inl (NotFound msg))]"
  shows "filterPods (pwPods w') [p] = []"
proof -
  from tspec_run [OF ReconcileMappedPod_spec assms(1)] assms(2)
  have "pwPods w' = DeleteVirtualPodInfo (pwPods w) (prName (pstPodRef p))"
    by (auto simp: mapping_after_def decode_def)
  then show ?thesis by (simp add: GetVirtualPodInfo_def DeleteVirtualPodInfo_def split: option.splits)
qed

definition worker_pod :: PodStats where
  "worker_pod = \<lparr>pstPodRef = \<lparr>prName = ''web'', prNamespace = ProxierWorkerNamespace, prUID = ''u''\<rparr>, pstStartTime = 0, pstContainers = []\<rparr>"

definition pods_world :: "(answer list, agent) proxier_world" where
  "pods_world = \<lparr>srv = [AObj (Inl (NotFound ''gone''))], hist = [], pwNodes = no_nodes, pwPods = SetVirtualPodInfo InitGlobalPodMapper ''web''
     \<lparr>VirtualNodeName = ''v1'', VirtualPodName = ''web'', VirtualPodNamespace = ''shop''\<rparr>\<rparr>"

theorem mapping_forgets_namesakes_witness:
  "filterPods (pwPods pods_world) [worker_pod] \<noteq> [] \<and>
   filterPods (pwPods (snd (run_state (ReconcileMappedPod scripted ''default'' ''web'') pods_world))) [worker_pod] = []"
proof
  show "filterPods (pwPods pods_world) [worker_pod] \<noteq> []"
    by (simp add: pods_world_def worker_pod_def GetVirtualPodInfo_def SetVirtualPodInfo_def InitGlobalPodMapper_def)
  let ?run = "run_state (ReconcileMappedPod scripted ''default'' ''web'') pods_world"
  have run: "run_state (ReconcileMappedPod scripted ''default'' (prName (pstPodRef worker_pod))) pods_world = (fst ?run, snd ?run)"
    by (simp add: worker_pod_def)
  have "hist (snd ?run) = hist pods_world @ [EvGet PhysicalClient KPod ''default'' (prName (pstPodRef worker_pod)) (Inl (NotFound ''gone''))]"
    by (simp add: ReconcileMappedPod_def get_pod_def Get_def call_def scripted_def pods_world_def worker_pod_def decode_def modifies_def)
  from mapping_forgets_namesakes [OF run this] show "filterPods (pwPods (snd ?run)) [worker_pod] = []" .
qed

section \<open>Metrics by name\<close>

text \<open>\<^verbatim>\<open>strings.Split(s, "/")\<close> and \<^verbatim>\<open>pkg/proxier/vnode_http_server.go\<close>.\<close>

definition apostrophe :: string where "apostrophe = [CHR 0x27]"

fun SplitSlash :: "string \<Rightarrow> string list" where
  "SplitSlash [] = [[]]"
| "SplitSlash (c # s) = (if c = CHR ''/'' then [] # SplitSlash s else (c # hd (SplitSlash s)) # tl (SplitSlash s))"

definition writeErrorResponse :: "int \<Rightarrow> string \<Rightarrow> http_reply" where
  "writeErrorResponse statusCode message = \<lparr>hrStatus = statusCode, hrContentType = ''text/plain; charset=utf-8'',
     hrBody = ''Error '' @ Itoa statusCode @ '': '' @ message @ newline\<rparr>"

definition createVNodeHandler :: "port_mapper \<Rightarrow> agent \<Rightarrow> string \<Rightarrow> http_reply" where
  "createVNodeHandler m va path =
    (case SplitSlash (if HasPrefix path ''/'' then drop 1 path else path) of
       vnodeName # endpoint # _ \<Rightarrow>
        (if endpoint \<noteq> ''metrics'' then writeErrorResponse 404 (''Endpoint '' @ apostrophe @ endpoint @ apostrophe @ '' not found. Only /metrics is supported'')
         else case GetPortByVNodeName m vnodeName of
             None \<Rightarrow> writeErrorResponse 404 (''VNode '' @ apostrophe @ vnodeName @ apostrophe @ '' not found'')
           | Some port \<Rightarrow> (case GetMetricsData va port of
               None \<Rightarrow> writeErrorResponse 404 (''No metrics data available for VNode '' @ apostrophe @ vnodeName @ apostrophe @ '' (port: '' @ port @ '')'')
             | Some metricsData \<Rightarrow> \<lparr>hrStatus = 200, hrContentType = ''text/plain; version=0.0.4; charset=utf-8'',
                 hrBody = (if metricsData = '''' then ''# No metrics data available for VNode '' @ apostrophe @ vnodeName @ apostrophe @ '' (port: '' @ port @ '')'' @ newline
                   else metricsData)\<rparr>))
     | _ \<Rightarrow> writeErrorResponse 400 ''Invalid path format. Expected: /{vnodename}/metrics'')"

end
