(* ===== verification/Proxier_Access.thy ===== *)
theory Proxier_Access
  imports Proxier_Agent Go_Time
begin

text \<open>
  Access to containers through the proxier: \<^verbatim>\<open>pkg/proxier/proxy.go\<close> (logs and commands), the parsing of requests, TLS and the
  handlers in \<^verbatim>\<open>pkg/proxier/server.go\<close>, which \<^verbatim>\<open>metrics_collector.go\<close> shares, the credentials of
  \<^verbatim>\<open>token_manager.go\<close> and the requests of \<^verbatim>\<open>kubelet_client.go\<close>. The requests that reach a container are recorded in the state
  (\<open>awRequests\<close>). The transport, gzip, JSON and certificates are parameters. Of the errors of \<^verbatim>\<open>strconv\<close> and \<^verbatim>\<open>time\<close> only that
  they occur is modelled, not their text.
\<close>

section \<open>Options of a log request\<close>

text \<open>The values of each key of the query, in their order.\<close>

type_synonym query = "string \<rightharpoonup> string list"

definition getFirstValue :: "query \<Rightarrow> string \<Rightarrow> string" where
  "getFirstValue q key = (case q key of Some (v # vs) \<Rightarrow> v | _ \<Rightarrow> '''')"

definition ParseBool :: "string \<Rightarrow> bool option" where
  "ParseBool s = (if s \<in> set [''1'', ''t'', ''T'', ''true'', ''TRUE'', ''True''] then Some True
     else if s \<in> set [''0'', ''f'', ''F'', ''false'', ''FALSE'', ''False''] then Some False else None)"

text \<open>\<^verbatim>\<open>time.Time{}\<close> is the first second of the year 1.\<close>

definition unsetTime :: int where "unsetTime = - 62135596800 * Second"

record ContainerLogOpts =
  clTail :: int
  clLimitBytes :: int
  clTimestamps :: bool
  clFollow :: bool
  clPrevious :: bool
  clSinceSeconds :: int
  clSinceTime :: int

definition defaultLogOpts :: ContainerLogOpts where
  "defaultLogOpts = \<lparr>clTail = 0, clLimitBytes = 0, clTimestamps = False, clFollow = False, clPrevious = False,
     clSinceSeconds = 0, clSinceTime = unsetTime\<rparr>"

definition invalid :: "string \<Rightarrow> err" where
  "invalid key = Wrapf (''invalid '' @ key) (Errorf ''invalid syntax'')"

text \<open>One \<^verbatim>\<open>if v := getFirstValue(query, key); v != "" { ... }\<close> after the other; the first error ends the parsing.\<close>

definition option_step ::
  "query \<Rightarrow> string \<Rightarrow> (string \<Rightarrow> ContainerLogOpts \<Rightarrow> ContainerLogOpts res) \<Rightarrow> ContainerLogOpts res \<Rightarrow> ContainerLogOpts res" where
  "option_step q key f r = (case r of Inl e \<Rightarrow> Inl e
     | Inr opts \<Rightarrow> (let v = getFirstValue q key in if v \<noteq> '''' then f v opts else Inr opts))"

definition parseTail :: "string \<Rightarrow> ContainerLogOpts \<Rightarrow> ContainerLogOpts res" where
  "parseTail v opts = (case Atoi v of None \<Rightarrow> Inl (invalid ''tailLines'')
     | Some n \<Rightarrow> if n < 0 then Inl (Errorf ''tailLines must be non-negative'') else Inr (opts\<lparr>clTail := n\<rparr>))"

definition parseFlag :: "string \<Rightarrow> (bool \<Rightarrow> ContainerLogOpts \<Rightarrow> ContainerLogOpts) \<Rightarrow> string \<Rightarrow> ContainerLogOpts \<Rightarrow> ContainerLogOpts res" where
  "parseFlag key put v opts = (case ParseBool v of None \<Rightarrow> Inl (invalid key) | Some b \<Rightarrow> Inr (put b opts))"

definition parsePositive :: "string \<Rightarrow> (int \<Rightarrow> ContainerLogOpts \<Rightarrow> ContainerLogOpts) \<Rightarrow> string \<Rightarrow> ContainerLogOpts \<Rightarrow> ContainerLogOpts res" where
  "parsePositive key put v opts = (case Atoi v of None \<Rightarrow> Inl (invalid key)
     | Some n \<Rightarrow> if n < 1 then Inl (Errorf (key @ '' must be positive'')) else Inr (put n opts))"

definition parseSinceTime :: "string \<Rightarrow> ContainerLogOpts \<Rightarrow> ContainerLogOpts res" where
  "parseSinceTime v opts = (case ParseRFC3339 v of None \<Rightarrow> Inl (invalid ''sinceTime'')
     | Some t \<Rightarrow> if clSinceSeconds opts > 0 then Inl (Errorf ''both sinceSeconds and sinceTime cannot be set'')
         else Inr (opts\<lparr>clSinceTime := t\<rparr>))"

definition parseContainerLogOptions :: "query \<Rightarrow> ContainerLogOpts res" where
  "parseContainerLogOptions q =
     option_step q ''timestamps'' (parseFlag ''timestamps'' (\<lambda>b. clTimestamps_update (\<lambda>_. b)))
    (option_step q ''sinceTime'' parseSinceTime
    (option_step q ''sinceSeconds'' (parsePositive ''sinceSeconds'' (\<lambda>n. clSinceSeconds_update (\<lambda>_. n)))
    (option_step q ''previous'' (parseFlag ''previous'' (\<lambda>b. clPrevious_update (\<lambda>_. b)))
    (option_step q ''limitBytes'' (parsePositive ''limitBytes'' (\<lambda>n. clLimitBytes_update (\<lambda>_. n)))
    (option_step q ''follow'' (parseFlag ''follow'' (\<lambda>b. clFollow_update (\<lambda>_. b)))
    (option_step q ''tailLines'' parseTail (Inr defaultLogOpts)))))))"

text \<open>\<^verbatim>\<open>corev1.PodLogOptions\<close>\<close>

record PodLogOptions =
  plContainer :: string
  plTimestamps :: bool
  plFollow :: bool
  plPrevious :: bool
  plTailLines :: "int option"
  plLimitBytes :: "int option"
  plSinceTime :: "int option"
  plSinceSeconds :: "int option"

definition podLogOptions :: "string \<Rightarrow> ContainerLogOpts \<Rightarrow> PodLogOptions" where
  "podLogOptions containerName opts = \<lparr>plContainer = containerName, plTimestamps = clTimestamps opts, plFollow = clFollow opts,
     plPrevious = clPrevious opts,
     plTailLines = (if clTail opts > 0 then Some (clTail opts) else None),
     plLimitBytes = (if clLimitBytes opts > 0 then Some (clLimitBytes opts) else None),
     plSinceTime = (if clSinceTime opts \<noteq> unsetTime then Some (clSinceTime opts) else None),
     plSinceSeconds = (if clSinceSeconds opts > 0 then Some (clSinceSeconds opts) else None)\<rparr>"

section \<open>Options of a command\<close>

record remoteCommandOptions =
  rcStdin :: bool
  rcStdout :: bool
  rcStderr :: bool
  rcTTY :: bool

text \<open>
  The main server reads the values of the form, which contains the query, the agent's servers those of the query; the four names are
  \<^verbatim>\<open>corev1.ExecStdinParam\<close> and so on.
\<close>

definition getExecOptions :: "query \<Rightarrow> remoteCommandOptions res" where
  "getExecOptions q =
    (let truth = (\<lambda>key. getFirstValue q key = ''true'' \<or> getFirstValue q key = ''1'');
         tty = truth ''tty''; stdin = truth ''input''; stdout = truth ''output''; stderr = truth ''error''
     in if tty \<and> stderr then Inl (Errorf ''cannot exec with tty and stderr'')
        else if \<not> stdin \<and> \<not> stdout \<and> \<not> stderr then Inl (Errorf ''you must specify at least one of stdin, stdout, stderr'')
        else Inr \<lparr>rcStdin = stdin, rcStdout = stdout, rcStderr = stderr, rcTTY = tty\<rparr>)"

section \<open>The physical pod behind a virtual one\<close>

text \<open>What reaches a container of the physical cluster.\<close>

datatype container_access =
    LogsOf string string PodLogOptions
  | ExecIn string string string "string list" remoteCommandOptions

record 's access_world = "'s world" +
  awRequests :: "container_access list"

type_synonym ('s, 'm, 'a) access_prog = "(('s, 'm) access_world_scheme, 'a) state"

record kubelet_proxy =
  kpBinding :: cluster_binding

text \<open>The stream of the logs, and the run of a command (with the failure of making an executor for it).\<close>

record 's container_lib =
  clStream :: "string \<Rightarrow> string \<Rightarrow> PodLogOptions \<Rightarrow> 's \<Rightarrow> string res \<times> 's"
  clExecutor :: "'s \<Rightarrow> unit res \<times> 's"
  clExec :: "string \<Rightarrow> string \<Rightarrow> string \<Rightarrow> string list \<Rightarrow> remoteCommandOptions \<Rightarrow> 's \<Rightarrow> unit res \<times> 's"

record PodMappingInfo =
  pmVirtualNamespace :: string
  pmVirtualName :: string
  pmPhysicalNamespace :: string
  pmPhysicalName :: string
  pmClusterBindingName :: string

definition isPodManagedByClusterBinding :: "kubelet_proxy \<Rightarrow> pod \<Rightarrow> bool" where
  "isPodManagedByClusterBinding p pd \<longleftrightarrow>
    (let physicalNamespace = mget (mAnnotations (poMeta pd)) AnnotationPhysicalPodNamespace;
         physicalName = mget (mAnnotations (poMeta pd)) AnnotationPhysicalPodName
     in if physicalNamespace = '''' \<or> physicalName = '''' then False
        else physicalNamespace = bMountNamespace (kpBinding p))"

definition getPodMappingInfo :: "kubelet_proxy \<Rightarrow> pod \<Rightarrow> PodMappingInfo res" where
  "getPodMappingInfo p virtualPod =
    (let physicalNamespace = mget (mAnnotations (poMeta virtualPod)) AnnotationPhysicalPodNamespace;
         physicalName = mget (mAnnotations (poMeta virtualPod)) AnnotationPhysicalPodName
     in if physicalNamespace = '''' \<or> physicalName = '''' then Inl (Errorf ''virtual pod missing physical pod mapping annotations'')
        else Inr \<lparr>pmVirtualNamespace = mNamespace (poMeta virtualPod), pmVirtualName = mName (poMeta virtualPod),
          pmPhysicalNamespace = physicalNamespace, pmPhysicalName = physicalName,
          pmClusterBindingName = mName (bMeta (kpBinding p))\<rparr>)"

definition hasContainer :: "string \<Rightarrow> pod \<Rightarrow> bool" where
  "hasContainer containerName pd \<longleftrightarrow>
     list_ex (\<lambda>c. ctName c = containerName) (poContainers pd) \<or> list_ex (\<lambda>c. ctName c = containerName) (poInitContainers pd) \<or>
     list_ex (\<lambda>c. ctName c = containerName) (poEphemeralContainers pd)"

definition validateContainerExists :: "'s api \<Rightarrow> PodMappingInfo \<Rightarrow> string \<Rightarrow> ('s, 'm, unit res) prog" where
  "validateContainerExists A mappingInfo containerName =
     on_ok_wrap ''failed to get physical pod'' (get_pod A PhysicalK8sClient (pmPhysicalNamespace mappingInfo) (pmPhysicalName mappingInfo))
       (\<lambda>physicalPod. return (if hasContainer containerName physicalPod then Inr ()
          else Inl (Errorf (''container '' @ containerName @ '' not found in physical pod''))))"

text \<open>Steps 1 to 4, the same in both operations.\<close>

definition resolvePod :: "'s api \<Rightarrow> kubelet_proxy \<Rightarrow> string \<Rightarrow> string \<Rightarrow> string \<Rightarrow> ('s, 'm, PodMappingInfo res) prog" where
  "resolvePod A p namespace podName containerName = do {
     got \<leftarrow> get_pod A VirtualClient namespace podName;
     case got of
       Inl err \<Rightarrow> return (Inl (if IsNotFound err then Errorf (''virtual pod '' @ namespace @ ''/'' @ podName @ '' not found'')
                          else Wrapf ''failed to get virtual pod'' err))
     | Inr virtualPod \<Rightarrow>
        (if \<not> isPodManagedByClusterBinding p virtualPod
         then return (Inl (Errorf (''virtual pod '' @ namespace @ ''/'' @ podName @ '' not managed by cluster binding '' @ mName (bMeta (kpBinding p)))))
         else case getPodMappingInfo p virtualPod of
             Inl err \<Rightarrow> return (Inl (Wrapf ''failed to get pod mapping info'' err))
           | Inr mappingInfo \<Rightarrow>
               on_ok_wrap (''container '' @ containerName @ '' not found in physical pod '' @ pmPhysicalNamespace mappingInfo @ ''/'' @
                   pmPhysicalName mappingInfo)
                 (validateContainerExists A mappingInfo containerName) (\<lambda>_. return (Inr mappingInfo)))
   }"

definition request :: "container_access \<Rightarrow> ('s, 'm, unit) access_prog" where
  "request r = modifies (awRequests_update (\<lambda>rs. rs @ [r]))"

definition getPhysicalPodLogs ::
  "'s container_lib \<Rightarrow> PodMappingInfo \<Rightarrow> string \<Rightarrow> ContainerLogOpts \<Rightarrow> ('s, 'm, string res) access_prog" where
  "getPhysicalPodLogs C mappingInfo containerName opts = do {
     let plo = podLogOptions containerName opts;
     request (LogsOf (pmPhysicalNamespace mappingInfo) (pmPhysicalName mappingInfo) plo);
     outside (clStream C (pmPhysicalNamespace mappingInfo) (pmPhysicalName mappingInfo) plo)
   }"

definition GetContainerLogs ::
  "'s api \<Rightarrow> 's container_lib \<Rightarrow> kubelet_proxy \<Rightarrow> string \<Rightarrow> string \<Rightarrow> string \<Rightarrow> ContainerLogOpts \<Rightarrow> ('s, 'm, string res) access_prog" where
  "GetContainerLogs A C p namespace podName containerName opts =
     on_ok (resolvePod A p namespace podName containerName) (\<lambda>mappingInfo.
       on_ok_wrap ''failed to get logs from physical cluster'' (getPhysicalPodLogs C mappingInfo containerName opts) (\<lambda>logs. return (Inr logs)))"

definition executeInPhysicalPod ::
  "'s container_lib \<Rightarrow> PodMappingInfo \<Rightarrow> string \<Rightarrow> string list \<Rightarrow> remoteCommandOptions \<Rightarrow> ('s, 'm, unit res) access_prog" where
  "executeInPhysicalPod C mappingInfo containerName cmd attach =
     on_ok_wrap ''could not make remote command'' (outside (clExecutor C)) (\<lambda>_. do {
       request (ExecIn (pmPhysicalNamespace mappingInfo) (pmPhysicalName mappingInfo) containerName cmd attach);
       outside (clExec C (pmPhysicalNamespace mappingInfo) (pmPhysicalName mappingInfo) containerName cmd attach)
     })"

definition RunInContainer ::
  "'s api \<Rightarrow> 's container_lib \<Rightarrow> kubelet_proxy \<Rightarrow> string \<Rightarrow> string \<Rightarrow> string \<Rightarrow> string list \<Rightarrow> remoteCommandOptions \<Rightarrow> ('s, 'm, unit res) access_prog" where
  "RunInContainer A C p namespace podName containerName cmd attach =
     on_ok (resolvePod A p namespace podName containerName) (\<lambda>mappingInfo. executeInPhysicalPod C mappingInfo containerName cmd attach)"

section \<open>Handlers\<close>

text \<open>
  The handlers of both servers; \<open>None\<close> is a nil proxy, which only the agent's servers can have. The streams of a command are those
  the client has opened.
\<close>

definition handleContainerLogs ::
  "'s api \<Rightarrow> 's container_lib \<Rightarrow> string \<Rightarrow> kubelet_proxy option \<Rightarrow> string \<Rightarrow> string \<Rightarrow> string \<Rightarrow> query \<Rightarrow> ('s, 'm, http_reply) access_prog" where
  "handleContainerLogs A C contentType proxy namespace podName containerName q = (case proxy of
     None \<Rightarrow> return (http_Error ''Kubelet proxy not available'' 503)
   | Some p \<Rightarrow> (case parseContainerLogOptions q of
       Inl err \<Rightarrow> return (http_Error (''Invalid log options: '' @ error_text err) 400)
     | Inr opts \<Rightarrow> do {
         logs \<leftarrow> GetContainerLogs A C p namespace podName containerName opts;
         return (case logs of
             Inl err \<Rightarrow> http_Error (''Failed to get logs: '' @ error_text err) 500
           | Inr text \<Rightarrow> \<lparr>hrStatus = 200, hrContentType = contentType, hrBody = text\<rparr>)
       }))"

text \<open>\<^verbatim>\<open>ExecInContainer\<close> passes on the streams that are there and the terminal.\<close>

datatype exec_result = Refused http_reply | NoStreams | Finished "unit res"

text \<open>
  \<^verbatim>\<open>r.FormValue\<close> looks into the form of the body of a POST before the query of the URL; the command is taken from
  the query alone.
\<close>

definition requestForm :: "query \<Rightarrow> query \<Rightarrow> query" where
  "requestForm body q = (\<lambda>key. case (body key, q key) of
     (None, None) \<Rightarrow> None | (Some vs, None) \<Rightarrow> Some vs | (None, Some vs) \<Rightarrow> Some vs | (Some vs, Some ws) \<Rightarrow> Some (vs @ ws))"

definition handleContainerExec ::
  "'s api \<Rightarrow> 's container_lib \<Rightarrow> (remoteCommandOptions \<Rightarrow> 's \<Rightarrow> remoteCommandOptions option \<times> 's) \<Rightarrow> kubelet_proxy option \<Rightarrow>
   string \<Rightarrow> string \<Rightarrow> string \<Rightarrow> query \<Rightarrow> query \<Rightarrow> ('s, 'm, exec_result) access_prog" where
  "handleContainerExec A C createStreams proxy namespace podName containerName body q = (case proxy of
     None \<Rightarrow> return (Refused (http_Error ''Kubelet proxy not available'' 503))
   | Some p \<Rightarrow> (case getExecOptions (requestForm body q) of
       Inl err \<Rightarrow> return (Refused (http_Error (''Invalid exec options: '' @ error_text err) 400))
     | Inr opts \<Rightarrow> do {
         streams \<leftarrow> outside (createStreams opts);
         case streams of
           None \<Rightarrow> return NoStreams
         | Some attach \<Rightarrow> do {
             r \<leftarrow> RunInContainer A C p namespace podName containerName (case q ''command'' of Some cmd \<Rightarrow> cmd | None \<Rightarrow> []) attach;
             return (Finished (case r of Inr _ \<Rightarrow> Inr () | Inl err \<Rightarrow> Inl (Wrapf ''error executing command in container'' err)))
           }
       }))"

definition handleVersion :: http_reply where
  "handleVersion = \<lparr>hrStatus = 200, hrContentType = ''application/json'',
     hrBody = ''{'' @ quote @ ''kubeletVersion'' @ quote @ '': '' @ quote @ ''v1.28.0-kubeocean-logs-proxy'' @ quote @ ''}''\<rparr>"

definition handleNotFound :: http_reply where
  "handleNotFound = http_Error ''Not Found'' 404"

datatype server_route = LogsRoute string string string | ExecRoute string string string | HealthzRoute | VersionRoute

definition serverRoutes :: "string \<Rightarrow> string list \<Rightarrow> server_route option" where
  "serverRoutes m path = (case path of
     [kind, namespace, podName, containerName] \<Rightarrow>
       (if kind = ''containerLogs'' \<and> m = ''GET'' then Some (LogsRoute namespace podName containerName)
        else if kind = ''exec'' \<and> (m = ''POST'' \<or> m = ''GET'') then Some (ExecRoute namespace podName containerName)
        else None)
   | [kind] \<Rightarrow>
       (if kind = ''healthz'' \<and> m = ''GET'' then Some HealthzRoute else if kind = ''version'' \<and> m = ''GET'' then Some VersionRoute else None)
   | _ \<Rightarrow> None)"

section \<open>TLS\<close>

datatype client_auth = NoClientCert | RequireAndVerifyClientCert

text \<open>Without a pool of its own a server accepts what the system's roots have signed.\<close>

record tls_config =
  tcCertificate :: "string \<times> string"
  tcClientCAs :: "string option"
  tcClientAuth :: client_auth

record tls_lib =
  tlKeyPair :: "string \<Rightarrow> string \<Rightarrow> unit res"
  tlCertPool :: "string \<Rightarrow> bool"

record server_config =
  scTLSConfig :: bool
  scSecretName :: string
  scSecretNamespace :: string
  scAllowUnauthenticatedClients :: bool

definition readKeyPair :: "tls_lib \<Rightarrow> string \<Rightarrow> secret \<Rightarrow> (string \<times> string) res" where
  "readKeyPair T name s = (case seData s ''tls.crt'' of
     None \<Rightarrow> Inl (Errorf (''secret '' @ name @ '' does not contain tls.crt key''))
   | Some certData \<Rightarrow> (case seData s ''tls.key'' of
       None \<Rightarrow> Inl (Errorf (''secret '' @ name @ '' does not contain tls.key key''))
     | Some keyData \<Rightarrow> (case tlKeyPair T certData keyData of
         Inl err \<Rightarrow> Inl (Wrapf ''failed to load X509 key pair'' err)
       | Inr _ \<Rightarrow> Inr (certData, keyData))))"

text \<open>Of the main server, and of the agent's servers. \<open>False\<close> is a nil client.\<close>

definition loadTLSConfigFromSecret :: "'s api \<Rightarrow> tls_lib \<Rightarrow> bool \<Rightarrow> server_config \<Rightarrow> ('s, 'm, tls_config res) prog" where
  "loadTLSConfigFromSecret A T hasClient cfg =
    (if \<not> hasClient then return (Inl (Errorf ''kubernetes client is not available''))
     else on_ok_wrap (''failed to get secret '' @ scSecretNamespace cfg @ ''/'' @ scSecretName cfg)
       (get_secret A VirtualClient (scSecretNamespace cfg) (scSecretName cfg)) (\<lambda>s.
       return (case readKeyPair T (scSecretNamespace cfg @ ''/'' @ scSecretName cfg) s of
           Inl err \<Rightarrow> Inl err
         | Inr cert \<Rightarrow>
            (let clientAuth = (if scAllowUnauthenticatedClients cfg then NoClientCert else RequireAndVerifyClientCert);
                 caData = mget (seData s) ''ca.crt''
             in if caData = '''' then Inr \<lparr>tcCertificate = cert, tcClientCAs = None, tcClientAuth = clientAuth\<rparr>
                else if \<not> tlCertPool T caData then Inl (Errorf ''error appending CA cert to certificate pool'')
                else Inr \<lparr>tcCertificate = cert, tcClientCAs = Some caData, tcClientAuth = clientAuth\<rparr>))))"

definition loadAgentTLSConfig :: "'s api \<Rightarrow> tls_lib \<Rightarrow> bool \<Rightarrow> server_config \<Rightarrow> ('s, 'm, tls_config res) prog" where
  "loadAgentTLSConfig A T hasClient cfg =
    (if \<not> hasClient then return (Inl (Errorf ''kubernetes client is not available''))
     else on_ok_wrap (''failed to get secret '' @ scSecretNamespace cfg @ ''/'' @ scSecretName cfg)
       (get_secret A VirtualClient (scSecretNamespace cfg) (scSecretName cfg)) (\<lambda>s.
       return (map_sum id (\<lambda>cert. \<lparr>tcCertificate = cert, tcClientCAs = None, tcClientAuth = NoClientCert\<rparr>)
         (readKeyPair T (scSecretNamespace cfg @ ''/'' @ scSecretName cfg) s))))"

datatype transport = PlainHTTP | HTTPS tls_config

text \<open>Start of the main server, and the transport of the agent's servers (\<^verbatim>\<open>NewVNodeProxierAgent\<close>).\<close>

definition startServer :: "'s api \<Rightarrow> tls_lib \<Rightarrow> (transport \<Rightarrow> 's \<Rightarrow> unit res \<times> 's) \<Rightarrow> bool \<Rightarrow> server_config \<Rightarrow> ('s, 'm, transport res) prog" where
  "startServer A T listen hasClient cfg =
    (if scTLSConfig cfg \<and> scSecretName cfg \<noteq> '''' then do {
       loaded \<leftarrow> loadTLSConfigFromSecret A T hasClient cfg;
       case loaded of
         Inl _ \<Rightarrow> on_ok_wrap ''failed to create HTTP listener after TLS fallback'' (outside (listen PlainHTTP)) (\<lambda>_. return (Inr PlainHTTP))
       | Inr c \<Rightarrow> on_ok_wrap ''failed to create TLS listener'' (outside (listen (HTTPS c))) (\<lambda>_. return (Inr (HTTPS c)))
     }
     else on_ok_wrap ''failed to create listener'' (outside (listen PlainHTTP)) (\<lambda>_. return (Inr PlainHTTP)))"

definition agentTransport :: "'s api \<Rightarrow> tls_lib \<Rightarrow> bool \<Rightarrow> server_config \<Rightarrow> ('s, 'm, transport) prog" where
  "agentTransport A T hasClient cfg =
    (if scSecretName cfg \<noteq> '''' \<and> scSecretNamespace cfg \<noteq> '''' then do {
       loaded \<leftarrow> loadAgentTLSConfig A T hasClient cfg;
       return (case loaded of Inl _ \<Rightarrow> PlainHTTP | Inr c \<Rightarrow> HTTPS c)
     }
     else return PlainHTTP)"

section \<open>Credentials and requests to a kubelet\<close>

record rest_config =
  rcBearerToken :: string
  rcBearerTokenFile :: string

definition extractTokenFromConfig :: "(string \<Rightarrow> string res) \<Rightarrow> rest_config \<Rightarrow> string res" where
  "extractTokenFromConfig readFile cfg =
    (if rcBearerToken cfg \<noteq> '''' then Inr (rcBearerToken cfg)
     else if rcBearerTokenFile cfg \<noteq> '''' then
       (case readFile (rcBearerTokenFile cfg) of
          Inl err \<Rightarrow> Inl (Wrapf (''failed to read token file '' @ rcBearerTokenFile cfg) err)
        | Inr bytes \<Rightarrow> Inr (TrimSpace bytes))
     else Inl (Errorf ''no suitable authentication method found in REST config''))"

text \<open>The error, and the token kept in memory.\<close>

definition ExtractAndSaveToken :: "(string \<Rightarrow> string res) \<Rightarrow> rest_config \<Rightarrow> string \<Rightarrow> unit res \<times> string" where
  "ExtractAndSaveToken readFile cfg token = (case extractTokenFromConfig readFile cfg of
     Inl err \<Rightarrow> (Inl (Wrapf ''failed to extract token from config'' err), token)
   | Inr t \<Rightarrow> (Inr (), t))"

definition GetToken :: "string \<Rightarrow> string res" where
  "GetToken token = (if token = '''' then Inl (Errorf ''token is empty, please extract token first'') else Inr token)"

record http_request =
  rqURL :: string
  rqHeaders :: "(string \<times> string) list"

record http_response =
  rsStatusCode :: int
  rsStatus :: string
  rsContentEncoding :: string
  rsBody :: "string res"

record 's http_lib =
  hlNewRequest :: "string \<Rightarrow> unit res"
  hlDo :: "http_request \<Rightarrow> 's \<Rightarrow> http_response res \<times> 's"
  hlGunzip :: "string res \<Rightarrow> string res res"
  hlDecodeSummary :: "string res \<Rightarrow> Summary res"

definition decompressResponseBody :: "'s http_lib \<Rightarrow> http_response \<Rightarrow> string res" where
  "decompressResponseBody L resp =
    (let reader = (if Contains (rsContentEncoding resp) ''gzip'' then hlGunzip L (rsBody resp) else Inr (rsBody resp))
     in case reader of
         Inl err \<Rightarrow> Inl (Wrapf ''failed to create gzip reader'' err)
       | Inr (Inl err) \<Rightarrow> Inl (Wrapf ''failed to read response body'' err)
       | Inr (Inr body) \<Rightarrow> Inr body)"

definition send :: "'s http_lib \<Rightarrow> string \<Rightarrow> (string \<times> string) list \<Rightarrow> ('s, 'm, http_response res) prog" where
  "send L url headers = (case hlNewRequest L url of
     Inl err \<Rightarrow> return (Inl (Wrapf ''failed to create request'' err))
   | Inr _ \<Rightarrow> on_ok_wrap ''failed to make request'' (outside (hlDo L \<lparr>rqURL = url, rqHeaders = headers\<rparr>)) (\<lambda>resp. return (Inr resp)))"

definition GetCAdvisorMetrics :: "'s http_lib \<Rightarrow> string \<Rightarrow> string \<Rightarrow> string \<Rightarrow> ('s, 'm, string res) prog" where
  "GetCAdvisorMetrics L tokenInMemory nodeIP proxierPort = (case GetToken tokenInMemory of
     Inl err \<Rightarrow> return (Inl (Wrapf ''failed to get token'' err))
   | Inr token \<Rightarrow>
       on_ok (send L (''https://'' @ nodeIP @ '':'' @ proxierPort @ ''/metrics/cadvisor'')
         [(''Authorization'', ''Bearer '' @ token), (''Accept'', ''text/plain''), (''Accept-Encoding'', ''gzip''), (''User-Agent'', ''kubeocean-proxier'')])
       (\<lambda>resp. if rsStatusCode resp \<noteq> 200
          then return (Inl (Errorf (''kubelet API returned status '' @ Itoa (rsStatusCode resp) @ '': '' @ rsStatus resp)))
          else return (case decompressResponseBody L resp of
              Inl err \<Rightarrow> Inl (Wrapf ''failed to read response body'' err) | Inr body \<Rightarrow> Inr body)))"

definition GetSummary :: "'s http_lib \<Rightarrow> string \<Rightarrow> string \<Rightarrow> string \<Rightarrow> ('s, 'm, Summary res) prog" where
  "GetSummary L tokenInMemory nodeIP port = (case GetToken tokenInMemory of
     Inl err \<Rightarrow> return (Inl (Wrapf ''failed to get token'' err))
   | Inr token \<Rightarrow>
       on_ok (send L (''https://'' @ nodeIP @ '':'' @ port @ ''/stats/summary?only_cpu_and_memory=true'')
         [(''Authorization'', ''Bearer '' @ token), (''Accept'', ''application/json''), (''User-Agent'', ''kubeocean-proxier'')])
       (\<lambda>resp. if rsStatusCode resp \<noteq> 200
          then return (Inl (Errorf (''kubelet API returned status '' @ Itoa (rsStatusCode resp) @ '': '' @ rsStatus resp @ '', body: '' @
             (case rsBody resp of Inr b \<Rightarrow> b | Inl _ \<Rightarrow> ''''))))
          else return (case hlDecodeSummary L (rsBody resp) of
              Inl err \<Rightarrow> Inl (Wrapf ''failed to decode summary JSON'' err) | Inr summary \<Rightarrow> Inr summary)))"

text \<open>What the agent asks the kubelet of a node for, with the two answers of \<open>outcome\<close>.\<close>

definition scrapeNode :: "'s http_lib \<Rightarrow> string \<Rightarrow> NodeInfo \<Rightarrow> ('s, 'm, string res \<times> Summary res) prog" where
  "scrapeNode L tokenInMemory info = do {
     metricsData \<leftarrow> GetCAdvisorMetrics L tokenInMemory (niInternalIP info) ''10250'';
     summaryData \<leftarrow> GetSummary L tokenInMemory (niInternalIP info) ''10250'';
     return (metricsData, summaryData)
   }"

section \<open>Properties\<close>

text \<open>
  What a request to a container rests on: the virtual pod of that name was read and says where its physical pod is, that place is in the
  mount namespace of the binding, and the physical pod was read and has the container.
\<close>

definition resolved :: "kubelet_proxy \<Rightarrow> string \<Rightarrow> string \<Rightarrow> string \<Rightarrow> event list \<Rightarrow> string \<Rightarrow> string \<Rightarrow> bool" where
  "resolved p namespace podName containerName es pns pn \<longleftrightarrow>
    (\<exists>vp pp. es = [EvGet VirtualClient KPod namespace podName (Inr (OPod vp)), EvGet PhysicalK8sClient KPod pns pn (Inr (OPod pp))] \<and>
       mget (mAnnotations (poMeta vp)) AnnotationPhysicalPodNamespace = pns \<and> mget (mAnnotations (poMeta vp)) AnnotationPhysicalPodName = pn \<and>
       pns = bMountNamespace (kpBinding p) \<and> pns \<noteq> '''' \<and> pn \<noteq> '''' \<and> hasContainer containerName pp)"

lemma validateContainerExists_spec:
  "tspec (validateContainerExists A i containerName) (w :: ('s, 'm) access_world_scheme) (\<lambda>r es w'. awRequests w' = awRequests w \<and>
     list_all (\<lambda>e. \<not> is_write e) es \<and> (r = Inr () \<longrightarrow> (\<exists>pp. es = [EvGet PhysicalK8sClient KPod (pmPhysicalNamespace i) (pmPhysicalName i) (Inr (OPod pp))] \<and>
        hasContainer containerName pp)))"
  unfolding validateContainerExists_def get_pod_def
  by (intro vcg conjI allI impI) (auto simp: decode_simps split: if_splits)

lemma getPodMappingInfo_managed:
  "isPodManagedByClusterBinding p vp \<Longrightarrow> getPodMappingInfo p vp = Inr i \<Longrightarrow>
   pmPhysicalNamespace i = mget (mAnnotations (poMeta vp)) AnnotationPhysicalPodNamespace \<and>
   pmPhysicalName i = mget (mAnnotations (poMeta vp)) AnnotationPhysicalPodName \<and>
   pmPhysicalNamespace i = bMountNamespace (kpBinding p) \<and> pmPhysicalNamespace i \<noteq> '''' \<and> pmPhysicalName i \<noteq> ''''"
  by (auto simp: isPodManagedByClusterBinding_def getPodMappingInfo_def Let_def split: if_splits)

lemma resolvePod_spec:
  "tspec (resolvePod A p namespace podName containerName) (w :: ('s, 'm) access_world_scheme) (\<lambda>r es w'. awRequests w' = awRequests w \<and>
     list_all (\<lambda>e. \<not> is_write e) es \<and> (\<forall>i. r = Inr i \<longrightarrow> resolved p namespace podName containerName es (pmPhysicalNamespace i) (pmPhysicalName i)))"
  unfolding resolvePod_def get_pod_def
  by (intro vcg conjI allI impI tspec_mono [OF validateContainerExists_spec])
    (auto simp: resolved_def decode_simps dest: getPodMappingInfo_managed)

text \<open>A program that makes at most one request to a container, and no other calls.\<close>

definition asks_once :: "('s, 'm, 'a) access_prog \<Rightarrow> container_access \<Rightarrow> bool" where
  "asks_once m x \<longleftrightarrow> (\<forall>w. tspec m w (\<lambda>r es w'. es = [] \<and> (awRequests w' = awRequests w \<or> awRequests w' = awRequests w @ [x])))"

lemma tspec_request [vcg]: "Q () [] (awRequests_update (\<lambda>rs. rs @ [x]) w) \<Longrightarrow> tspec (request x) w Q"
  unfolding request_def by (rule vcg) simp_all

lemma logs_ask_once:
  "asks_once (getPhysicalPodLogs C i c opts) (LogsOf (pmPhysicalNamespace i) (pmPhysicalName i) (podLogOptions c opts))"
  unfolding asks_once_def getPhysicalPodLogs_def Let_def by (intro allI vcg tspec_outside) auto

lemma exec_ask_once:
  "asks_once (executeInPhysicalPod C i c cmd attach) (ExecIn (pmPhysicalNamespace i) (pmPhysicalName i) c cmd attach)"
  unfolding asks_once_def executeInPhysicalPod_def by (intro allI vcg conjI impI tspec_outside) auto

definition confined :: "kubelet_proxy option \<Rightarrow> string \<Rightarrow> string \<Rightarrow> string \<Rightarrow> (string \<Rightarrow> string \<Rightarrow> container_access \<Rightarrow> bool) \<Rightarrow>
    event list \<Rightarrow> container_access list \<Rightarrow> bool" where
  "confined proxy namespace podName containerName ok es rs \<longleftrightarrow> list_all (\<lambda>e. \<not> is_write e) es \<and>
    (rs = [] \<or> (\<exists>p pns pn x. proxy = Some p \<and> resolved p namespace podName containerName es pns pn \<and> ok pns pn x \<and> rs = [x]))"

lemma resolved_then:
  fixes m :: "PodMappingInfo \<Rightarrow> ('s, 'm, 'a res) access_prog"
  assumes "\<And>i. asks_once (m i) (x i)" and "\<And>i. ok (pmPhysicalNamespace i) (pmPhysicalName i) (x i)"
  shows "tspec (on_ok (resolvePod A p namespace podName containerName) m) w
    (\<lambda>r es w'. \<exists>rs. awRequests w' = awRequests w @ rs \<and> confined (Some p) namespace podName containerName ok es rs)"
proof (rule tspec_on_ok, rule tspec_mono [OF resolvePod_spec], intro conjI allI impI)
  fix r :: "PodMappingInfo res" and evs and v :: "('s, 'm) access_world_scheme" and i :: PodMappingInfo
  assume post: "awRequests v = awRequests w \<and> list_all (\<lambda>e. \<not> is_write e) evs \<and>
     (\<forall>i. r = Inr i \<longrightarrow> resolved p namespace podName containerName evs (pmPhysicalNamespace i) (pmPhysicalName i))"
  { fix e assume "r = Inl e"
    with post show "\<exists>rs. awRequests v = awRequests w @ rs \<and> confined (Some p) namespace podName containerName ok evs rs"
      by (simp add: confined_def) }
  assume "r = Inr i"
  with post have res: "resolved p namespace podName containerName evs (pmPhysicalNamespace i) (pmPhysicalName i)" by simp
  from assms(1) have "tspec (m i) v (\<lambda>r es w'. es = [] \<and> (awRequests w' = awRequests v \<or> awRequests w' = awRequests v @ [x i]))"
    by (simp add: asks_once_def)
  then show "tspec (m i) v (\<lambda>r' evs' w'. \<exists>rs. awRequests w' = awRequests w @ rs \<and>
      confined (Some p) namespace podName containerName ok (evs @ evs') rs)"
  proof (rule tspec_mono)
    have "confined (Some p) namespace podName containerName ok evs [x i]" "confined (Some p) namespace podName containerName ok evs []"
      using res assms(2) [of i] post unfolding confined_def by blast+
    then show "\<exists>rs. awRequests w' = awRequests w @ rs \<and> confined (Some p) namespace podName containerName ok (evs @ es) rs"
      if "es = [] \<and> (awRequests w' = awRequests v \<or> awRequests w' = awRequests v @ [x i])" for es and w' :: "('s, 'm) access_world_scheme"
      using that post by auto
  qed
qed

lemma asks_once_wrap:
  assumes "asks_once m x"
  shows "asks_once (on_ok_wrap msg m (\<lambda>y. return (Inr y))) x"
  unfolding asks_once_def
proof
  fix w
  from assms have "tspec m w (\<lambda>r es w'. es = [] \<and> (awRequests w' = awRequests w \<or> awRequests w' = awRequests w @ [x]))"
    by (simp add: asks_once_def)
  then show "tspec (on_ok_wrap msg m (\<lambda>y. return (Inr y))) w
      (\<lambda>r es w'. es = [] \<and> (awRequests w' = awRequests w \<or> awRequests w' = awRequests w @ [x]))"
    by (intro tspec_on_ok_wrap) (erule tspec_mono, auto intro: tspec_return)
qed

text \<open>
  C32. Logs and commands reach only the physical pod recorded on the virtual pod that was asked for: that virtual pod was read, its
  physical namespace is the mount namespace of the binding, the physical pod was read and has the container. Then there is one
  request, with the parsed options, and otherwise none; nothing is written in either cluster.
\<close>

theorem access_confined:
  fixes w v :: "('s, 'm) access_world_scheme"
  shows "tspec (handleContainerLogs A C contentType proxy namespace podName containerName q) w (\<lambda>_ es w'. \<exists>rs. awRequests w' = awRequests w @ rs \<and>
     confined proxy namespace podName containerName
       (\<lambda>pns pn x. \<exists>opts. parseContainerLogOptions q = Inr opts \<and> x = LogsOf pns pn (podLogOptions containerName opts)) es rs) \<and>
   tspec (handleContainerExec A C createStreams proxy namespace podName containerName body q) v (\<lambda>_ es v'. \<exists>rs. awRequests v' = awRequests v @ rs \<and>
     confined proxy namespace podName containerName
       (\<lambda>pns pn x. (\<exists>opts. getExecOptions (requestForm body q) = Inr opts) \<and>
          (\<exists>attach. x = ExecIn pns pn containerName (case q ''command'' of Some cmd \<Rightarrow> cmd | None \<Rightarrow> []) attach)) es rs)"
proof
  let ?logs = "\<lambda>pns pn x. \<exists>opts. parseContainerLogOptions q = Inr opts \<and> x = LogsOf pns pn (podLogOptions containerName opts)"
  have logs: "tspec (GetContainerLogs A C p namespace podName containerName opts) w
      (\<lambda>r es w'. \<exists>rs. awRequests w' = awRequests w @ rs \<and> confined (Some p) namespace podName containerName ?logs es rs)"
    if "parseContainerLogOptions q = Inr opts" for p opts
    unfolding GetContainerLogs_def using that
    by (intro resolved_then [OF asks_once_wrap [OF logs_ask_once]]) auto
  show "tspec (handleContainerLogs A C contentType proxy namespace podName containerName q) w
      (\<lambda>_ es w'. \<exists>rs. awRequests w' = awRequests w @ rs \<and> confined proxy namespace podName containerName ?logs es rs)"
    unfolding handleContainerLogs_def
    by (intro tspec_option tspec_sum tspec_bind tspec_return tspec_mono [OF logs]) (auto simp: confined_def [where rs = "[]"])
next
  let ?exec = "\<lambda>pns pn x. (\<exists>opts. getExecOptions (requestForm body q) = Inr opts) \<and>
    (\<exists>attach. x = ExecIn pns pn containerName (case q ''command'' of Some cmd \<Rightarrow> cmd | None \<Rightarrow> []) attach)"
  have exec: "tspec (RunInContainer A C p namespace podName containerName (case q ''command'' of Some cmd \<Rightarrow> cmd | None \<Rightarrow> []) attach) v
      (\<lambda>r es w'. \<exists>rs. awRequests w' = awRequests v @ rs \<and> confined (Some p) namespace podName containerName ?exec es rs)"
    if "getExecOptions (requestForm body q) = Inr opts" for p opts attach and v :: "('s, 'm) access_world_scheme"
    unfolding RunInContainer_def using that by (intro resolved_then [OF exec_ask_once]) auto
  show "tspec (handleContainerExec A C createStreams proxy namespace podName containerName body q) v
      (\<lambda>_ es v'. \<exists>rs. awRequests v' = awRequests v @ rs \<and> confined proxy namespace podName containerName ?exec es rs)"
    unfolding handleContainerExec_def
    by (intro tspec_option tspec_sum tspec_bind tspec_outside tspec_return tspec_mono [OF exec]) (auto simp: confined_def [where rs = "[]"])
qed

text \<open>What each step of the parser does to the options.\<close>

lemma Atoi_range: "Atoi v = Some n \<Longrightarrow> int64_min \<le> n \<and> n \<le> int64_max"
  by (auto simp: Atoi_def Let_def split_beta split: option.splits if_splits)

lemma parsers_empty [simp]: "Atoi [] = None" "ParseBool [] = None" "ParseRFC3339 [] = None"
  by (simp_all add: Atoi_def Atoi_digits_def ParseBool_def ParseRFC3339_def)

lemma default_fields [simp]:
  "clTail defaultLogOpts = 0" "clLimitBytes defaultLogOpts = 0" "\<not> clTimestamps defaultLogOpts" "\<not> clFollow defaultLogOpts"
  "\<not> clPrevious defaultLogOpts" "clSinceSeconds defaultLogOpts = 0" "clSinceTime defaultLogOpts = unsetTime"
  by (simp_all add: defaultLogOpts_def)

lemma option_step_Inr:
  "option_step q key f r = Inr opts' \<longleftrightarrow>
    (\<exists>opts. r = Inr opts \<and> (if getFirstValue q key = '''' then opts' = opts else f (getFirstValue q key) opts = Inr opts'))"
  by (cases r) (auto simp: option_step_def Let_def)

lemma tail_step:
  "option_step q ''tailLines'' parseTail r = Inr opts' \<Longrightarrow> \<exists>opts. r = Inr opts \<and>
     opts' = opts\<lparr>clTail := (case Atoi (getFirstValue q ''tailLines'') of Some n \<Rightarrow> n | None \<Rightarrow> clTail opts)\<rparr> \<and>
     (\<forall>n. Atoi (getFirstValue q ''tailLines'') = Some n \<longrightarrow> 0 \<le> n)"
  by (auto simp: option_step_Inr parseTail_def split: if_splits option.splits)

lemma flag_step:
  assumes "option_step q key (parseFlag key (\<lambda>b. put (\<lambda>_. b))) r = Inr opts'" and "\<And>opts. put (\<lambda>_. get opts) opts = opts"
  shows "\<exists>opts. r = Inr opts \<and> opts' = put (\<lambda>_. case ParseBool (getFirstValue q key) of Some b \<Rightarrow> b | None \<Rightarrow> get opts) opts"
  using assms by (auto simp: option_step_Inr parseFlag_def split: if_splits option.splits)

lemma positive_step:
  assumes "option_step q key (parsePositive key (\<lambda>n. put (\<lambda>_. n))) r = Inr opts'" and "\<And>opts. put (\<lambda>_. get opts) opts = opts"
  shows "\<exists>opts. r = Inr opts \<and> opts' = put (\<lambda>_. case Atoi (getFirstValue q key) of Some n \<Rightarrow> n | None \<Rightarrow> get opts) opts \<and>
     (\<forall>n. Atoi (getFirstValue q key) = Some n \<longrightarrow> 1 \<le> n)"
  using assms by (auto simp: option_step_Inr parsePositive_def split: if_splits option.splits)

lemma since_step:
  "option_step q ''sinceTime'' parseSinceTime r = Inr opts' \<Longrightarrow> \<exists>opts. r = Inr opts \<and>
     opts' = opts\<lparr>clSinceTime := (case ParseRFC3339 (getFirstValue q ''sinceTime'') of Some t \<Rightarrow> t | None \<Rightarrow> clSinceTime opts)\<rparr> \<and>
     (ParseRFC3339 (getFirstValue q ''sinceTime'') \<noteq> None \<longrightarrow> clSinceSeconds opts \<le> 0)"
  by (auto simp: option_step_Inr parseSinceTime_def split: if_splits option.splits)

lemma parsed_options:
  assumes "parseContainerLogOptions q = Inr opts"
  shows "opts = \<lparr>clTail = (case Atoi (getFirstValue q ''tailLines'') of Some n \<Rightarrow> n | None \<Rightarrow> 0),
      clLimitBytes = (case Atoi (getFirstValue q ''limitBytes'') of Some n \<Rightarrow> n | None \<Rightarrow> 0),
      clTimestamps = (case ParseBool (getFirstValue q ''timestamps'') of Some b \<Rightarrow> b | None \<Rightarrow> False),
      clFollow = (case ParseBool (getFirstValue q ''follow'') of Some b \<Rightarrow> b | None \<Rightarrow> False),
      clPrevious = (case ParseBool (getFirstValue q ''previous'') of Some b \<Rightarrow> b | None \<Rightarrow> False),
      clSinceSeconds = (case Atoi (getFirstValue q ''sinceSeconds'') of Some n \<Rightarrow> n | None \<Rightarrow> 0),
      clSinceTime = (case ParseRFC3339 (getFirstValue q ''sinceTime'') of Some t \<Rightarrow> t | None \<Rightarrow> unsetTime)\<rparr> \<and>
    (\<forall>n. Atoi (getFirstValue q ''tailLines'') = Some n \<longrightarrow> 0 \<le> n) \<and> (\<forall>n. Atoi (getFirstValue q ''limitBytes'') = Some n \<longrightarrow> 1 \<le> n) \<and>
    (\<forall>n. Atoi (getFirstValue q ''sinceSeconds'') = Some n \<longrightarrow> 1 \<le> n) \<and>
    (ParseRFC3339 (getFirstValue q ''sinceTime'') \<noteq> None \<longrightarrow> Atoi (getFirstValue q ''sinceSeconds'') = None)"
proof -
  let ?o1 = "option_step q ''tailLines'' parseTail (Inr defaultLogOpts)"
  let ?o2 = "option_step q ''follow'' (parseFlag ''follow'' (\<lambda>b. clFollow_update (\<lambda>_. b))) ?o1"
  let ?o3 = "option_step q ''limitBytes'' (parsePositive ''limitBytes'' (\<lambda>n. clLimitBytes_update (\<lambda>_. n))) ?o2"
  let ?o4 = "option_step q ''previous'' (parseFlag ''previous'' (\<lambda>b. clPrevious_update (\<lambda>_. b))) ?o3"
  let ?o5 = "option_step q ''sinceSeconds'' (parsePositive ''sinceSeconds'' (\<lambda>n. clSinceSeconds_update (\<lambda>_. n))) ?o4"
  let ?o6 = "option_step q ''sinceTime'' parseSinceTime ?o5"
  from flag_step [OF assms [unfolded parseContainerLogOptions_def], of clTimestamps] obtain o6 where o6: "?o6 = Inr o6"
    and r6: "opts = o6\<lparr>clTimestamps := (case ParseBool (getFirstValue q ''timestamps'') of Some b \<Rightarrow> b | None \<Rightarrow> clTimestamps o6)\<rparr>" by auto
  from since_step [OF o6] obtain o5 where o5: "?o5 = Inr o5"
    and r5: "o6 = o5\<lparr>clSinceTime := (case ParseRFC3339 (getFirstValue q ''sinceTime'') of Some t \<Rightarrow> t | None \<Rightarrow> clSinceTime o5)\<rparr>"
    and since: "ParseRFC3339 (getFirstValue q ''sinceTime'') \<noteq> None \<longrightarrow> clSinceSeconds o5 \<le> 0" by blast
  from positive_step [OF o5, of clSinceSeconds] obtain o4 where o4: "?o4 = Inr o4"
    and r4: "o5 = o4\<lparr>clSinceSeconds := (case Atoi (getFirstValue q ''sinceSeconds'') of Some n \<Rightarrow> n | None \<Rightarrow> clSinceSeconds o4)\<rparr>"
    and secs: "\<forall>n. Atoi (getFirstValue q ''sinceSeconds'') = Some n \<longrightarrow> 1 \<le> n" by auto
  from flag_step [OF o4, of clPrevious] obtain o3 where o3: "?o3 = Inr o3"
    and r3: "o4 = o3\<lparr>clPrevious := (case ParseBool (getFirstValue q ''previous'') of Some b \<Rightarrow> b | None \<Rightarrow> clPrevious o3)\<rparr>" by auto
  from positive_step [OF o3, of clLimitBytes] obtain o2 where o2: "?o2 = Inr o2"
    and r2: "o3 = o2\<lparr>clLimitBytes := (case Atoi (getFirstValue q ''limitBytes'') of Some n \<Rightarrow> n | None \<Rightarrow> clLimitBytes o2)\<rparr>"
    and lim: "\<forall>n. Atoi (getFirstValue q ''limitBytes'') = Some n \<longrightarrow> 1 \<le> n" by auto
  from flag_step [OF o2, of clFollow] obtain o1 where o1: "?o1 = Inr o1"
    and r1: "o2 = o1\<lparr>clFollow := (case ParseBool (getFirstValue q ''follow'') of Some b \<Rightarrow> b | None \<Rightarrow> clFollow o1)\<rparr>" by auto
  from tail_step [OF o1] have r0: "o1 = defaultLogOpts\<lparr>clTail := (case Atoi (getFirstValue q ''tailLines'') of Some n \<Rightarrow> n | None \<Rightarrow> 0)\<rparr>"
    and tail: "\<forall>n. Atoi (getFirstValue q ''tailLines'') = Some n \<longrightarrow> 0 \<le> n"
    by (simp_all cong: option.case_cong)
  have "ParseRFC3339 (getFirstValue q ''sinceTime'') \<noteq> None \<longrightarrow> Atoi (getFirstValue q ''sinceSeconds'') = None"
    using since secs by (cases "Atoi (getFirstValue q ''sinceSeconds'')") (simp_all add: r4)
  with tail lim secs show ?thesis by (simp add: r6 r5 r4 r3 r2 r1 r0 defaultLogOpts_def cong: option.case_cong)
qed

text \<open>
  C37. When the options of a log request are accepted, the request to the physical cluster carries exactly what was asked for: numbers
  are positive and fit \<^verbatim>\<open>int64\<close>, flags are those given, and not both ways to say since when are used. The exception is \<^verbatim>\<open>tailLines=0\<close>: it
  is accepted, and the limit is left out, so the whole log is sent instead of none of it.
\<close>

theorem log_options_exact:
  assumes "parseContainerLogOptions q = Inr opts"
  shows "plTailLines (podLogOptions c opts) = (case Atoi (getFirstValue q ''tailLines'') of
       Some n \<Rightarrow> if n = 0 then None else Some n | None \<Rightarrow> None) \<and>
    plLimitBytes (podLogOptions c opts) = Atoi (getFirstValue q ''limitBytes'') \<and>
    plSinceSeconds (podLogOptions c opts) = Atoi (getFirstValue q ''sinceSeconds'') \<and>
    plSinceTime (podLogOptions c opts) = (case ParseRFC3339 (getFirstValue q ''sinceTime'') of
       Some t \<Rightarrow> if t = unsetTime then None else Some t | None \<Rightarrow> None) \<and>
    plFollow (podLogOptions c opts) = (ParseBool (getFirstValue q ''follow'') = Some True) \<and>
    plPrevious (podLogOptions c opts) = (ParseBool (getFirstValue q ''previous'') = Some True) \<and>
    plTimestamps (podLogOptions c opts) = (ParseBool (getFirstValue q ''timestamps'') = Some True) \<and>
    (plSinceSeconds (podLogOptions c opts) = None \<or> plSinceTime (podLogOptions c opts) = None) \<and>
    pred_option (\<lambda>n. 1 \<le> n \<and> n \<le> int64_max) (plTailLines (podLogOptions c opts)) \<and>
    pred_option (\<lambda>n. 1 \<le> n \<and> n \<le> int64_max) (plLimitBytes (podLogOptions c opts)) \<and>
    pred_option (\<lambda>n. 1 \<le> n \<and> n \<le> int64_max) (plSinceSeconds (podLogOptions c opts))"
proof -
  let ?tail = "Atoi (getFirstValue q ''tailLines'')" and ?limit = "Atoi (getFirstValue q ''limitBytes'')"
    and ?secs = "Atoi (getFirstValue q ''sinceSeconds'')" and ?time = "ParseRFC3339 (getFirstValue q ''sinceTime'')"
  note parsed = parsed_options [OF assms]
  have tail: "clTail opts = (case ?tail of Some n \<Rightarrow> n | None \<Rightarrow> 0)" "\<And>n. ?tail = Some n \<Longrightarrow> 0 \<le> n \<and> n \<le> int64_max"
    and limit: "clLimitBytes opts = (case ?limit of Some n \<Rightarrow> n | None \<Rightarrow> 0)" "\<And>n. ?limit = Some n \<Longrightarrow> 1 \<le> n \<and> n \<le> int64_max"
    and secs: "clSinceSeconds opts = (case ?secs of Some n \<Rightarrow> n | None \<Rightarrow> 0)" "\<And>n. ?secs = Some n \<Longrightarrow> 1 \<le> n \<and> n \<le> int64_max"
    and time: "clSinceTime opts = (case ?time of Some t \<Rightarrow> t | None \<Rightarrow> unsetTime)" "?time \<noteq> None \<longrightarrow> ?secs = None"
    using parsed Atoi_range by auto
  have flags: "clFollow opts = (ParseBool (getFirstValue q ''follow'') = Some True)"
    "clPrevious opts = (ParseBool (getFirstValue q ''previous'') = Some True)"
    "clTimestamps opts = (ParseBool (getFirstValue q ''timestamps'') = Some True)"
    using parsed by (simp_all split: option.split)
  have t: "plTailLines (podLogOptions c opts) = (case ?tail of Some n \<Rightarrow> if n = 0 then None else Some n | None \<Rightarrow> None)"
    using tail by (cases ?tail) (force simp: podLogOptions_def)+
  have l: "plLimitBytes (podLogOptions c opts) = ?limit" using limit by (cases ?limit) (force simp: podLogOptions_def)+
  have s: "plSinceSeconds (podLogOptions c opts) = ?secs" using secs by (cases ?secs) (force simp: podLogOptions_def)+
  have st: "plSinceTime (podLogOptions c opts) = (case ?time of Some t \<Rightarrow> if t = unsetTime then None else Some t | None \<Rightarrow> None)"
    using time(1) by (cases ?time) (simp_all add: podLogOptions_def)
  have "?secs = None \<or> (case ?time of Some t \<Rightarrow> if t = unsetTime then None else Some t | None \<Rightarrow> None) = None"
    using time(2) by (cases ?time) simp_all
  moreover have "pred_option (\<lambda>n. 1 \<le> n \<and> n \<le> int64_max) (case ?tail of Some n \<Rightarrow> if n = 0 then None else Some n | None \<Rightarrow> None)"
    using tail(2) by (cases ?tail) force+
  moreover have "pred_option (\<lambda>n. 1 \<le> n \<and> n \<le> int64_max) ?limit" using limit(2) by (cases ?limit) simp_all
  moreover have "pred_option (\<lambda>n. 1 \<le> n \<and> n \<le> int64_max) ?secs" using secs(2) by (cases ?secs) simp_all
  ultimately show ?thesis unfolding t l s st by (simp add: podLogOptions_def flags)
qed

definition sample_query :: query where
  "sample_query = [''tailLines'' \<mapsto> [''0''], ''follow'' \<mapsto> [''true'']]"

theorem log_options_exact_witness:
  "\<exists>opts. parseContainerLogOptions sample_query = Inr opts \<and> clTail opts = 0 \<and> plTailLines (podLogOptions ''web'' opts) = None \<and>
     plFollow (podLogOptions ''web'' opts)"
proof -
  have zero: "Atoi ''0'' = Some 0" by code_simp
  let ?opts = "defaultLogOpts\<lparr>clFollow := True\<rparr>"
  have parsed: "parseContainerLogOptions sample_query = Inr ?opts"
    by (simp add: parseContainerLogOptions_def option_step_def getFirstValue_def sample_query_def parseTail_def zero parseFlag_def ParseBool_def
        defaultLogOpts_def)
  from log_options_exact [OF this, of "''web''"]
  have "plTailLines (podLogOptions ''web'' ?opts) = None \<and> plFollow (podLogOptions ''web'' ?opts)"
    by (simp add: getFirstValue_def sample_query_def zero ParseBool_def)
  with parsed show ?thesis by simp
qed

text \<open>
  Logs and commands can be had without authentication: the servers of the agent, which also serve them, never ask for a client
  certificate, and the main server, however it is configured, serves them over plain HTTP when it cannot read its secret.
\<close>

theorem exec_without_authentication:
  "tspec (agentTransport A T hasClient cfg) w (\<lambda>r es w'. case r of PlainHTTP \<Rightarrow> True | HTTPS c \<Rightarrow> tcClientAuth c = NoClientCert) \<and>
   fst (run_state (startServer scripted T (\<lambda>_ s. (Inr (), s)) True cfg) \<lparr>srv = [AObj (Inl (NotFound ''secret''))], hist = []\<rparr>) = Inr PlainHTTP"
proof
  show "tspec (agentTransport A T hasClient cfg) w (\<lambda>r es w'. case r of PlainHTTP \<Rightarrow> True | HTTPS c \<Rightarrow> tcClientAuth c = NoClientCert)"
    unfolding agentTransport_def loadAgentTLSConfig_def get_secret_def
    by (intro vcg conjI allI impI) (auto simp: map_sum_eq split: sum.splits)
  show "fst (run_state (startServer scripted T (\<lambda>_ s. (Inr (), s)) True cfg) \<lparr>srv = [AObj (Inl (NotFound ''secret''))], hist = []\<rparr>) = Inr PlainHTTP"
    by (simp add: startServer_def loadTLSConfigFromSecret_def get_secret_def Get_def call_def scripted_def on_ok_wrap_def outside_def decode_def)
qed

end
