(* ===== verification/Proxier_Streams.thy ===== *)
theory Proxier_Streams
  imports Proxier_Access
begin

text \<open>
  \<^verbatim>\<open>pkg/proxier/remotecommand\<close>: a client that runs a command opens one stream for each of input, output, errors, terminal size and
  status; the server waits until it has as many as the client asked for. The client is a list of events; an accepted stream
  is counted when its reply was sent. The end of the list is a client the server still waits for.
\<close>

datatype stream_event = StreamArrives string | ReplySent | CreationExpired

datatype protocol = V1Protocol | V2Protocol | V3Protocol | V4Protocol

record exec_streams =
  esStatus :: bool
  esStdin :: bool
  esStdout :: bool
  esStderr :: bool
  esResize :: bool

definition no_streams :: exec_streams where
  "no_streams = \<lparr>esStatus = False, esStdin = False, esStdout = False, esStderr = False, esResize = False\<rparr>"

definition supportsTerminalResizing :: "protocol \<Rightarrow> bool" where
  "supportsTerminalResizing h \<longleftrightarrow> h = V3Protocol \<or> h = V4Protocol"

text \<open>The handler of the negotiated protocol; an unknown one is taken for the fourth.\<close>

definition protocolHandler :: "string \<Rightarrow> protocol" where
  "protocolHandler protocol =
    (if protocol = ''v5.channel.k8s.io'' \<or> protocol = ''v4.channel.k8s.io'' then V4Protocol
     else if protocol = ''v3.channel.k8s.io'' then V3Protocol
     else if protocol = ''v2.channel.k8s.io'' then V2Protocol
     else if protocol = '''' \<or> protocol = ''channel.k8s.io'' then V1Protocol
     else V4Protocol)"

text \<open>The \<^verbatim>\<open>switch\<close> on the type of a stream; the first two versions do not know the size of a terminal, and the
  first closes its input when all streams are there.\<close>

definition acceptStream :: "protocol \<Rightarrow> string \<Rightarrow> exec_streams \<Rightarrow> exec_streams" where
  "acceptStream h streamType ctx =
    (if streamType = ''error'' then ctx\<lparr>esStatus := True\<rparr>
     else if streamType = ''stdin'' then ctx\<lparr>esStdin := True\<rparr>
     else if streamType = ''stdout'' then ctx\<lparr>esStdout := True\<rparr>
     else if streamType = ''stderr'' then ctx\<lparr>esStderr := True\<rparr>
     else if streamType = ''resize'' \<and> supportsTerminalResizing h then ctx\<lparr>esResize := True\<rparr>
     else ctx)"

definition known_type :: "protocol \<Rightarrow> string \<Rightarrow> bool" where
  "known_type h t \<longleftrightarrow> t \<in> set [''error'', ''stdin'', ''stdout'', ''stderr''] \<or> (t = ''resize'' \<and> supportsTerminalResizing h)"

fun waitForStreams :: "protocol \<Rightarrow> nat \<Rightarrow> nat \<Rightarrow> exec_streams \<Rightarrow> stream_event list \<Rightarrow> exec_streams res option" where
  "waitForStreams h expectedStreams receivedStreams ctx [] = None"
| "waitForStreams h expectedStreams receivedStreams ctx (StreamArrives t # es) =
     waitForStreams h expectedStreams receivedStreams (acceptStream h t ctx) es"
| "waitForStreams h expectedStreams receivedStreams ctx (ReplySent # es) =
     (if receivedStreams + 1 = expectedStreams then Some (Inr ctx) else waitForStreams h expectedStreams (receivedStreams + 1) ctx es)"
| "waitForStreams h expectedStreams receivedStreams ctx (CreationExpired # es) =
     Some (Inl (Errorf ''timed out waiting for client to create streams''))"

definition expectedStreams :: "protocol \<Rightarrow> remoteCommandOptions \<Rightarrow> nat" where
  "expectedStreams h opts = 1 + (if rcStdin opts then 1 else 0) + (if rcStdout opts then 1 else 0) + (if rcStderr opts then 1 else 0) +
     (if rcTTY opts \<and> supportsTerminalResizing h then 1 else 0)"

text \<open>\<open>None\<close> while waiting. The handshake and the upgrade of the connection are the client's and the library's.\<close>

definition createHTTPStreamStreams ::
  "string res \<Rightarrow> bool \<Rightarrow> remoteCommandOptions \<Rightarrow> stream_event list \<Rightarrow> exec_streams res option" where
  "createHTTPStreamStreams handshake upgraded opts es = (case handshake of
     Inl err \<Rightarrow> Some (Inl err)
   | Inr protocol \<Rightarrow>
      (if \<not> upgraded then Some (Inl (Errorf ''unable to upgrade connection''))
       else let h = protocolHandler protocol in waitForStreams h (expectedStreams h opts) 0 no_streams es))"

text \<open>\<^verbatim>\<open>NewOptions\<close>\<close>

definition NewOptions :: "query \<Rightarrow> remoteCommandOptions res" where
  "NewOptions q =
    (let one = (\<lambda>key. getFirstValue q key = ''1'');
         tty = one ''tty''; stdin = one ''input''; stdout = one ''output''; stderr = (if tty \<and> one ''error'' then False else one ''error'')
     in if \<not> stdin \<and> \<not> stdout \<and> \<not> stderr then Inl (Errorf ''you must specify at least 1 of stdin, stdout, stderr'')
        else Inr \<lparr>rcStdin = stdin, rcStdout = stdout, rcStderr = stderr, rcTTY = tty\<rparr>)"

section \<open>What is there in the end\<close>

definition wanted :: "protocol \<Rightarrow> remoteCommandOptions \<Rightarrow> string list" where
  "wanted h opts = [''error''] @ (if rcStdin opts then [''stdin''] else []) @ (if rcStdout opts then [''stdout''] else []) @
     (if rcStderr opts then [''stderr''] else []) @ (if rcTTY opts \<and> supportsTerminalResizing h then [''resize''] else [])"

definition arrived :: "stream_event list \<Rightarrow> string list" where
  "arrived es = List.map_filter (\<lambda>e. case e of StreamArrives t \<Rightarrow> Some t | _ \<Rightarrow> None) es"

definition streams_of :: "protocol \<Rightarrow> string set \<Rightarrow> exec_streams" where
  "streams_of h ts = \<lparr>esStatus = (''error'' \<in> ts), esStdin = (''stdin'' \<in> ts), esStdout = (''stdout'' \<in> ts), esStderr = (''stderr'' \<in> ts),
     esResize = (''resize'' \<in> ts \<and> supportsTerminalResizing h)\<rparr>"

text \<open>Replies follow the streams they are for.\<close>

fun replies_follow :: "protocol \<Rightarrow> nat \<Rightarrow> stream_event list \<Rightarrow> bool" where
  "replies_follow h open_replies [] \<longleftrightarrow> True"
| "replies_follow h open_replies (StreamArrives t # es) \<longleftrightarrow> replies_follow h (if known_type h t then open_replies + 1 else open_replies) es"
| "replies_follow h open_replies (ReplySent # es) \<longleftrightarrow> 0 < open_replies \<and> replies_follow h (open_replies - 1) es"
| "replies_follow h open_replies (CreationExpired # es) \<longleftrightarrow> replies_follow h open_replies es"

lemma length_wanted: "length (wanted h opts) = expectedStreams h opts"
  by (simp add: wanted_def expectedStreams_def)

lemma distinct_wanted: "distinct (wanted h opts)"
  by (simp add: wanted_def)

lemma accept_streams_of: "acceptStream h t (streams_of h ts) = streams_of h (insert t ts)"
  by (cases "supportsTerminalResizing h"; cases "t = ''resize''"; simp add: acceptStream_def streams_of_def)

text \<open>The server returns after a part of the client's events in which enough known streams have arrived.\<close>

lemma waitForStreams_prefix:
  assumes "waitForStreams h n k (streams_of h ts) es = Some (Inr ctx)" and "replies_follow h m es"
  shows "\<exists>pre. ctx = streams_of h (ts \<union> set (arrived pre)) \<and> set (arrived pre) \<subseteq> set (arrived es) \<and>
     n \<le> k + m + length (filter (known_type h) (arrived pre)) \<and> (\<exists>post. es = pre @ post)"
  using assms
proof (induction es arbitrary: k m ts)
  case (Cons e es)
  show ?case
  proof (cases e)
    case (StreamArrives t)
    let ?m = "if known_type h t then m + 1 else m"
    from Cons.prems StreamArrives have "waitForStreams h n k (streams_of h (insert t ts)) es = Some (Inr ctx)" "replies_follow h ?m es"
      by (simp_all add: accept_streams_of)
    from Cons.IH [OF this] obtain pre post where pre: "ctx = streams_of h (insert t ts \<union> set (arrived pre))"
      "set (arrived pre) \<subseteq> set (arrived es)" "n \<le> k + ?m + length (filter (known_type h) (arrived pre))" "es = pre @ post" by blast
    have "arrived (e # pre) = t # arrived pre" "arrived (e # es) = t # arrived es"
      by (simp_all add: StreamArrives arrived_def List.map_filter_simps)
    with pre show ?thesis by (intro exI [of _ "e # pre"]) (auto split: if_splits)
  next
    case ReplySent
    have same: "arrived (e # xs) = arrived xs" for xs by (simp add: ReplySent arrived_def List.map_filter_simps)
    show ?thesis
    proof (cases "k + 1 = n")
      case True
      with Cons.prems ReplySent show ?thesis
        by (intro exI [of _ "[]"]) (simp add: arrived_def List.map_filter_simps)
    next
      case False
      with Cons.prems ReplySent have "waitForStreams h n (k + 1) (streams_of h ts) es = Some (Inr ctx)" "replies_follow h (m - 1) es" "0 < m"
        by simp_all
      from Cons.IH [OF this(1,2)] \<open>0 < m\<close> obtain pre post where "ctx = streams_of h (ts \<union> set (arrived pre))"
        "set (arrived pre) \<subseteq> set (arrived es)" "n \<le> k + m + length (filter (known_type h) (arrived pre))" "es = pre @ post" by auto
      with same show ?thesis by (intro exI [of _ "e # pre"]) simp
    qed
  qed (use Cons.prems in simp)
qed simp

text \<open>
  A client that opens only streams it asked for, each once, gets a session with exactly those, whatever the order of streams and
  replies and whatever the version of the protocol.
\<close>

theorem streams_complete:
  assumes "waitForStreams h (expectedStreams h opts) 0 no_streams es = Some (Inr ctx)" and "replies_follow h 0 es"
    and "distinct (arrived es)" and "set (arrived es) \<subseteq> set (wanted h opts)"
  shows "ctx = streams_of h (set (wanted h opts))"
proof -
  have empty: "no_streams = streams_of h {}" by (simp add: no_streams_def streams_of_def)
  from waitForStreams_prefix [OF assms(1) [unfolded empty] assms(2)] obtain pre post where
    pre: "ctx = streams_of h (set (arrived pre))" "set (arrived pre) \<subseteq> set (arrived es)"
      "expectedStreams h opts \<le> length (filter (known_type h) (arrived pre))" "es = pre @ post" by auto
  have "arrived es = arrived pre @ arrived post"
    unfolding pre(4) arrived_def by (induction pre) (auto simp: List.map_filter_simps split: option.split)
  with assms(3) have "card (set (arrived pre)) = length (arrived pre)" by (simp add: distinct_card)
  moreover have "length (filter (known_type h) (arrived pre)) \<le> length (arrived pre)" by simp
  moreover have "card (set (wanted h opts)) = expectedStreams h opts"
    using distinct_card [OF distinct_wanted [of h opts]] length_wanted [of h opts] by simp
  ultimately have "card (set (wanted h opts)) \<le> card (set (arrived pre))" using pre(3) by linarith
  moreover from pre(2) assms(4) have "set (arrived pre) \<subseteq> set (wanted h opts)" by blast
  ultimately have "set (arrived pre) = set (wanted h opts)" by (simp add: card_seteq)
  with pre(1) show ?thesis by simp
qed

definition io_options :: remoteCommandOptions where
  "io_options = \<lparr>rcStdin = True, rcStdout = True, rcStderr = False, rcTTY = True\<rparr>"

definition io_client :: "stream_event list" where
  "io_client = [StreamArrives ''stdin'', StreamArrives ''resize'', ReplySent, StreamArrives ''stdout'', StreamArrives ''error'',
     ReplySent, ReplySent, ReplySent]"

theorem streams_complete_witness:
  "waitForStreams V4Protocol (expectedStreams V4Protocol io_options) 0 no_streams io_client =
     Some (Inr \<lparr>esStatus = True, esStdin = True, esStdout = True, esStderr = False, esResize = True\<rparr>)"
proof -
  obtain ctx where run: "waitForStreams V4Protocol (expectedStreams V4Protocol io_options) 0 no_streams io_client = Some (Inr ctx)"
    by (simp add: io_client_def io_options_def expectedStreams_def supportsTerminalResizing_def)
  have "ctx = streams_of V4Protocol (set (wanted V4Protocol io_options))"
    by (rule streams_complete [OF run])
      (simp_all add: io_client_def io_options_def known_type_def wanted_def arrived_def List.map_filter_simps supportsTerminalResizing_def)
  with run show ?thesis
    by (simp add: streams_of_def wanted_def io_options_def supportsTerminalResizing_def)
qed

text \<open>
  Streams are counted, not told apart: a client that opens its output twice instead of a stream for the status gets a session in which
  there is no status stream to write to when the command ends.
\<close>

theorem duplicate_stream_accepted:
  "\<exists>ctx. createHTTPStreamStreams (Inr ''v4.channel.k8s.io'') True \<lparr>rcStdin = False, rcStdout = True, rcStderr = False, rcTTY = False\<rparr>
       [StreamArrives ''stdout'', ReplySent, StreamArrives ''stdout'', ReplySent] = Some (Inr ctx) \<and> \<not> esStatus ctx"
  by (simp add: createHTTPStreamStreams_def protocolHandler_def expectedStreams_def supportsTerminalResizing_def acceptStream_def no_streams_def)

end
