(* ===== verification/Syncer_Metrics.thy ===== *)
theory Syncer_Metrics
  imports Resource_Leasing Pod_Sync_Down Metrics_Parser
begin

text \<open>
  \<^verbatim>\<open>pkg/syncer/metrics/collector.go\<close>: the resources of the virtual nodes, as the node controller reports them, their sums over the
  cluster, and the numbers of pods by phase, for Prometheus. The Go map of nodes is an association list in the unknown order of
  iteration; resource lists are pointwise, so what is emitted for a list is a map from resource names. Quantities are the argument
  \<open>Q\<close> of \<open>Resource_Leasing\<close>; a \<^verbatim>\<open>float64\<close> made of an \<^verbatim>\<open>int64\<close> is rounded to 53 bits. Descriptors and registration belong to the
  library.
\<close>

section \<open>Values\<close>

fun bit_length :: "nat \<Rightarrow> nat" where
  "bit_length n = (if n = 0 then 0 else 1 + bit_length (n div 2))"

declare bit_length.simps [simp del]

text \<open>\<^verbatim>\<open>float64(v)\<close>: to nearest, ties to even.\<close>

definition round53 :: "nat \<Rightarrow> nat" where
  "round53 n = (let u = 2 ^ (bit_length n - 53); q = n div u; r = n mod u
     in if 2 * r > u \<or> (2 * r = u \<and> odd q) then (q + 1) * u else q * u)"

definition float64_of_int :: "int \<Rightarrow> rat" where
  "float64_of_int v = of_int (sgn v * int (round53 (nat \<bar>v\<bar>)))"

definition supportedResources :: "string list" where
  "supportedResources = [''cpu'', ''memory'', ''ephemeral-storage'', ''gocrane.io/cpu'', ''gocrane.io/memory'',
     ''tke.cloud.tencent.com/eni-ip'', ''tke.cloud.tencent.com/sub-eni'', ''tke.cloud.tencent.com/direct-eni'', ''nvidia.com/gpu'',
     ''tke.cloud.tencent.com/tke-shared-rdma'']"

text \<open>\<^verbatim>\<open>strings.EqualFold\<close> on ASCII.\<close>

definition isSupportedResource :: "string \<Rightarrow> bool" where
  "isSupportedResource resourceName = list_ex (\<lambda>s. ToLower resourceName = ToLower s) supportedResources"

definition convertResourceValue :: "quantity_lib \<Rightarrow> string \<Rightarrow> quantity \<Rightarrow> float64 option" where
  "convertResourceValue Q resourceName quantity =
    (if \<not> isSupportedResource resourceName then None
     else if resourceName \<in> set [''cpu'', ''gocrane.io/cpu''] then Some (Finite (float64_of_int (QMilliValue Q quantity)))
     else if resourceName \<in> set [''memory'', ''ephemeral-storage'', ''gocrane.io/memory'']
       then Some (Finite (float64_of_int (QValue Q quantity) / 1048576))
     else Some (Finite (float64_of_int (QValue Q quantity))))"

definition resourceSamples :: "quantity_lib \<Rightarrow> resource_list \<Rightarrow> string \<Rightarrow> float64 option" where
  "resourceSamples Q rl = (\<lambda>resourceName. Option.bind (rl resourceName) (convertResourceValue Q resourceName))"

section \<open>Nodes\<close>

record VNodeMetrics =
  vmVNodeName :: string
  vmAllocatable :: resource_list
  vmAvailable :: resource_list
  vmPhysicalUsage :: resource_list
  vmVirtualUsage :: resource_list

record metrics_collector =
  mcMetrics :: "(string \<times> VNodeMetrics) list"
  mcClusterbindingName :: string
  mcVirtualClient :: bool
  mcPhysicalClient :: bool

definition NewMetricsCollector :: "string \<Rightarrow> bool \<Rightarrow> bool \<Rightarrow> metrics_collector" where
  "NewMetricsCollector name v p = \<lparr>mcMetrics = [], mcClusterbindingName = name, mcVirtualClient = v, mcPhysicalClient = p\<rparr>"

definition SetVnodeMetrics ::
  "string \<Rightarrow> resource_list \<Rightarrow> resource_list \<Rightarrow> resource_list \<Rightarrow> resource_list \<Rightarrow> metrics_collector \<Rightarrow> metrics_collector" where
  "SetVnodeMetrics vnodeName allocatable available physicalUsage virtualUsage mc = mc\<lparr>mcMetrics := AList.update vnodeName
     \<lparr>vmVNodeName = vnodeName, vmAllocatable = allocatable, vmAvailable = available, vmPhysicalUsage = physicalUsage,
      vmVirtualUsage = virtualUsage\<rparr> (mcMetrics mc)\<rparr>"

definition GetVnodeMetrics :: "metrics_collector \<Rightarrow> string \<Rightarrow> VNodeMetrics option" where
  "GetVnodeMetrics mc vnodeName = map_of (mcMetrics mc) vnodeName"

definition DeleteVnodeMetrics :: "string \<Rightarrow> metrics_collector \<Rightarrow> metrics_collector" where
  "DeleteVnodeMetrics vnodeName mc = mc\<lparr>mcMetrics := AList.delete vnodeName (mcMetrics mc)\<rparr>"

definition ClearVnodeMetrics :: "metrics_collector \<Rightarrow> metrics_collector" where
  "ClearVnodeMetrics mc = mc\<lparr>mcMetrics := []\<rparr>"

text \<open>The four families of samples, of a node and of the cluster.\<close>

record resource_samples =
  rsOrigin :: "string \<rightharpoonup> float64"
  rsAvailable :: "string \<rightharpoonup> float64"
  rsPhysicalUsage :: "string \<rightharpoonup> float64"
  rsVirtualUsage :: "string \<rightharpoonup> float64"

definition collectResourceMetrics :: "quantity_lib \<Rightarrow> VNodeMetrics \<Rightarrow> resource_samples" where
  "collectResourceMetrics Q m = \<lparr>rsOrigin = resourceSamples Q (vmAllocatable m), rsAvailable = resourceSamples Q (vmAvailable m),
     rsPhysicalUsage = resourceSamples Q (vmPhysicalUsage m), rsVirtualUsage = resourceSamples Q (vmVirtualUsage m)\<rparr>"

definition addResourceList :: "quantity_lib \<Rightarrow> resource_list \<Rightarrow> resource_list \<Rightarrow> resource_list" where
  "addResourceList Q dest src = (\<lambda>resourceName. case src resourceName of
     None \<Rightarrow> dest resourceName
   | Some quantity \<Rightarrow> (case dest resourceName of
       Some existingQuantity \<Rightarrow> Some (QAdd Q existingQuantity quantity)
     | None \<Rightarrow> Some quantity))"

definition clusterTotal :: "quantity_lib \<Rightarrow> (VNodeMetrics \<Rightarrow> resource_list) \<Rightarrow> metrics_collector \<Rightarrow> resource_list" where
  "clusterTotal Q part mc = foldl (\<lambda>dest m. addResourceList Q dest (part (snd m))) Map.empty (mcMetrics mc)"

definition collectClusterMetrics :: "quantity_lib \<Rightarrow> metrics_collector \<Rightarrow> resource_samples" where
  "collectClusterMetrics Q mc = \<lparr>rsOrigin = resourceSamples Q (clusterTotal Q vmAllocatable mc),
     rsAvailable = resourceSamples Q (clusterTotal Q vmAvailable mc),
     rsPhysicalUsage = resourceSamples Q (clusterTotal Q vmPhysicalUsage mc),
     rsVirtualUsage = resourceSamples Q (clusterTotal Q vmVirtualUsage mc)\<rparr>"

section \<open>Pods by phase\<close>

type_synonym phase_counts = "(string \<times> nat) list"

definition noPods :: phase_counts where
  "noPods = map (\<lambda>phase. (phase, 0)) [''Pending'', ''Running'', ''Succeeded'', ''Failed'', ''Unknown'']"

definition phaseOf :: "pod \<Rightarrow> string" where
  "phaseOf p = (if psPhase (poStatus p) = '''' then ''Unknown'' else psPhase (poStatus p))"

definition countIn :: "phase_counts \<Rightarrow> string \<Rightarrow> nat" where
  "countIn counts phase = (case map_of counts phase of Some n \<Rightarrow> n | None \<Rightarrow> 0)"

text \<open>The loop over the list: a pod that is skipped, or \<^verbatim>\<open>podCounts[phase]++\<close>.\<close>

definition countPods :: "(pod \<Rightarrow> bool) \<Rightarrow> pod list \<Rightarrow> phase_counts" where
  "countPods counted pods = foldl (\<lambda>counts p. if counted p then AList.update (phaseOf p) (countIn counts (phaseOf p) + 1) counts else counts)
     noPods pods"

definition countedVirtualPod :: "bool \<Rightarrow> pod \<Rightarrow> bool" where
  "countedVirtualPod runningds p \<longleftrightarrow>
    (if poNodeName p = '''' \<or> \<not> HasPrefix (poNodeName p) ''vnode-'' then False
     else if IsSystemPod p then False
     else if IsDaemonSetPod p \<and> \<not> runningds then mget (mAnnotations (poMeta p)) AnnotationRunningDaemonSet = LabelValueTrue
     else True)"

definition countedPhysicalPod :: "pod \<Rightarrow> bool" where
  "countedPhysicalPod p \<longleftrightarrow> mLabels (poMeta p) LabelManagedBy = Some LabelManagedByValue"

definition countVirtualPodsByPhase :: "'s api \<Rightarrow> metrics_collector \<Rightarrow> ('s, 'm, phase_counts) prog" where
  "countVirtualPodsByPhase A mc = do {
     pods \<leftarrow> list_pods A VirtualClient list_all_objs;
     case pods of
       Inl _ \<Rightarrow> return noPods
     | Inr items \<Rightarrow> do {
         running \<leftarrow> IsRunningDaemonsetByDefault A (mcClusterbindingName mc);
         return (countPods (countedVirtualPod (case running of Inr b \<Rightarrow> b | Inl _ \<Rightarrow> False)) items)
       }
   }"

definition countPhysicalPodsByPhase :: "'s api \<Rightarrow> ('s, 'm, phase_counts) prog" where
  "countPhysicalPodsByPhase A = do {
     pods \<leftarrow> list_pods A PhysicalClient list_all_objs;
     return (case pods of Inl _ \<Rightarrow> noPods | Inr items \<Rightarrow> countPods countedPhysicalPod items)
   }"

text \<open>\<^verbatim>\<open>Collect\<close>: everything that is sent to the channel.\<close>

record collected =
  coVNodeCount :: float64
  coVNodes :: "(string \<times> resource_samples) list"
  coCluster :: resource_samples
  coVirtualPods :: "phase_counts option"
  coPhysicalPods :: "phase_counts option"

definition Collect :: "quantity_lib \<Rightarrow> 's api \<Rightarrow> metrics_collector \<Rightarrow> ('s, 'm, collected) prog" where
  "Collect Q A mc = do {
     virtualPods \<leftarrow> (if mcVirtualClient mc then do { c \<leftarrow> countVirtualPodsByPhase A mc; return (Some c) } else return None);
     physicalPods \<leftarrow> (if mcPhysicalClient mc then do { c \<leftarrow> countPhysicalPodsByPhase A; return (Some c) } else return None);
     return \<lparr>coVNodeCount = Finite (float64_of_int (int (length (mcMetrics mc)))),
       coVNodes = map (\<lambda>(_, m). (vmVNodeName m, collectResourceMetrics Q m)) (mcMetrics mc),
       coCluster = collectClusterMetrics Q mc, coVirtualPods = virtualPods, coPhysicalPods = physicalPods\<rparr>
   }"

section \<open>Properties\<close>

lemma map_of_countPods:
  "countIn (foldl (\<lambda>counts p. if counted p then AList.update (phaseOf p) (countIn counts (phaseOf p) + 1) counts else counts) c pods) phase =
     countIn c phase + length (filter (\<lambda>p. counted p \<and> phaseOf p = phase) pods)"
  by (induction pods arbitrary: c) (auto simp: countIn_def update_conv')

lemma fst_update: "fst ` set (AList.update k v c) = insert k (fst ` set c)"
  using dom_update [of k v c] by (simp add: dom_map_of_conv_image_fst)

lemma counted_keys:
  "fst ` set c \<subseteq> fst ` set (foldl (\<lambda>counts p. if counted p then AList.update (phaseOf p) (countIn counts (phaseOf p) + 1) counts else counts) c pods)"
proof (induction pods arbitrary: c)
  case (Cons p pods)
  have "fst ` set c \<subseteq> fst ` set (AList.update k v c)" for k and v :: nat
    by (auto simp: fst_update)
  from subset_trans [OF this Cons.IH] Cons.IH [of c] show ?case by (simp split: if_split)
qed simp

text \<open>
  The pods are counted right: for every phase, the number of listed pods that are counted and in that phase, where a pod without
  a phase is in the phase Unknown; the five phases of Kubernetes are always there.
\<close>

theorem pods_counted:
  "countIn (countPods counted pods) phase = length (filter (\<lambda>p. counted p \<and> phaseOf p = phase) pods) \<and>
   set [''Pending'', ''Running'', ''Succeeded'', ''Failed'', ''Unknown''] \<subseteq> dom (map_of (countPods counted pods))"
proof
  have "countIn noPods phase = 0" by (simp add: countIn_def noPods_def)
  then show "countIn (countPods counted pods) phase = length (filter (\<lambda>p. counted p \<and> phaseOf p = phase) pods)"
    by (simp add: countPods_def map_of_countPods)
  show "set [''Pending'', ''Running'', ''Succeeded'', ''Failed'', ''Unknown''] \<subseteq> dom (map_of (countPods counted pods))"
    unfolding countPods_def dom_map_of_conv_image_fst by (rule subset_trans [OF _ counted_keys]) (simp add: noPods_def)
qed

lemma amount_of_add: "quantities_documented Q \<Longrightarrow> amount_of (addResourceList Q d s) r = amount_of d r + amount_of s r"
  by (simp add: amount_of_def addResourceList_def documented_simps split: option.split)

text \<open>The collector the reports of the node controller leave behind.\<close>

fun report :: "event \<Rightarrow> metrics_collector \<Rightarrow> metrics_collector" where
  "report (EvMetrics n allocatable available physicalUsage virtualUsage) mc = SetVnodeMetrics n allocatable available physicalUsage virtualUsage mc"
| "report _ mc = mc"

definition reports :: "event list \<Rightarrow> metrics_collector \<Rightarrow> metrics_collector" where
  "reports es mc = fold report es mc"

text \<open>
  The totals of the cluster are the sums over the nodes the collector knows, whatever the order in which they are walked
  through, and a resource has a total exactly if one of them has it.
\<close>

theorem cluster_totals:
  assumes "quantities_documented Q"
  shows "amount_of (clusterTotal Q part mc) r = sum_list (map (\<lambda>m. amount_of (part (snd m)) r) (mcMetrics mc)) \<and>
    (clusterTotal Q part mc r \<noteq> None \<longleftrightarrow> (\<exists>m. m \<in> set (mcMetrics mc) \<and> part (snd m) r \<noteq> None))"
proof
  have "amount_of (foldl (\<lambda>dest m. addResourceList Q dest (part (snd m))) d ms) r =
      amount_of d r + sum_list (map (\<lambda>m. amount_of (part (snd m)) r) ms)" for d and ms :: "(string \<times> VNodeMetrics) list"
    by (induction ms arbitrary: d) (simp_all add: amount_of_add [OF assms])
  then show "amount_of (clusterTotal Q part mc) r = sum_list (map (\<lambda>m. amount_of (part (snd m)) r) (mcMetrics mc))"
    by (simp add: clusterTotal_def amount_of_def)
  have "foldl (\<lambda>dest m. addResourceList Q dest (part (snd m))) d ms r \<noteq> None \<longleftrightarrow> d r \<noteq> None \<or> (\<exists>m \<in> set ms. part (snd m) r \<noteq> None)"
    for d and ms :: "(string \<times> VNodeMetrics) list"
  proof (induction ms arbitrary: d)
    case (Cons m ms)
    have "addResourceList Q d (part (snd m)) r \<noteq> None \<longleftrightarrow> d r \<noteq> None \<or> part (snd m) r \<noteq> None"
      by (simp add: addResourceList_def split: option.split)
    with Cons.IH [of "addResourceList Q d (part (snd m))"] show ?case by (simp del: not_None_eq) blast
  qed simp
  then show "clusterTotal Q part mc r \<noteq> None \<longleftrightarrow> (\<exists>m. m \<in> set (mcMetrics mc) \<and> part (snd m) r \<noteq> None)"
    by (simp del: not_None_eq add: clusterTotal_def Bex_def)
qed

definition two_nodes :: metrics_collector where
  "two_nodes = reports (map (\<lambda>n. EvMetrics n [''cpu'' \<mapsto> \<lparr>q_amount = 2 * nano, q_format = DecimalSI\<rparr>] Map.empty Map.empty Map.empty) [''v1'', ''v2''])
     (NewMetricsCollector ''cb'' True True)"

theorem cluster_totals_witness:
  "amount_of (clusterTotal exact_quantities vmAllocatable two_nodes) ''cpu'' = 4 * nano"
proof -
  have Q: "quantities_documented exact_quantities" by (rule exact_documented)
  from cluster_totals [OF Q, of vmAllocatable two_nodes "''cpu''"] show ?thesis
    by (simp add: two_nodes_def reports_def SetVnodeMetrics_def NewMetricsCollector_def amount_of_def)
qed

lemma report_kept: "n \<in> fst ` set (mcMetrics mc) \<Longrightarrow> n \<in> fst ` set (mcMetrics (report e mc))"
  by (cases e) (auto simp: SetVnodeMetrics_def fst_update)

text \<open>
  A virtual node that was reported once is in the collector for ever: no event of a controller removes it, its deletion
  included, so it stays in the count of nodes and in the totals of the cluster.
\<close>

theorem reported_forever:
  assumes "EvMetrics n allocatable available physicalUsage virtualUsage \<in> set es"
  shows "GetVnodeMetrics (reports (es @ later) mc) n \<noteq> None"
proof -
  have kept: "n \<in> fst ` set (mcMetrics mc) \<Longrightarrow> n \<in> fst ` set (mcMetrics (reports es mc))" for es mc
    by (induction es arbitrary: mc) (simp_all add: reports_def report_kept)
  from assms obtain pre post where es: "es = pre @ EvMetrics n allocatable available physicalUsage virtualUsage # post"
    by (auto dest: split_list)
  have "n \<in> fst ` set (mcMetrics (SetVnodeMetrics n allocatable available physicalUsage virtualUsage (reports pre mc)))"
    by (simp add: SetVnodeMetrics_def fst_update)
  from kept [OF this, of "post @ later"] have "n \<in> fst ` set (mcMetrics (reports (es @ later) mc))"
    by (simp add: es reports_def)
  then show ?thesis by (simp add: GetVnodeMetrics_def map_of_eq_None_iff)
qed

theorem reported_forever_witness:
  "GetVnodeMetrics (reports [EvMetrics ''v1'' Map.empty Map.empty Map.empty Map.empty,
     EvDelete VirtualClient KNode '''' ''v1'' no_opts (Inr ())] (NewMetricsCollector ''cb'' True True)) ''v1'' \<noteq> None"
  using reported_forever [of "''v1''" Map.empty Map.empty Map.empty Map.empty
      "[EvMetrics ''v1'' Map.empty Map.empty Map.empty Map.empty]" "[EvDelete VirtualClient KNode '''' ''v1'' no_opts (Inr ())]"
      "NewMetricsCollector ''cb'' True True"]
  by simp

end
