(* ===== verification/Manager_Metrics.thy ===== *)
theory Manager_Metrics
  imports Syncer_Metrics Binding_Manager
begin

text \<open>
  \<^verbatim>\<open>pkg/manager/metrics/clusterbinding_collector.go\<close>: the number of cluster bindings by status. A collection whose listing fails
  sends nothing (\<open>None\<close>).
\<close>

definition getClusterBindingStatus :: "cluster_binding \<Rightarrow> string" where
  "getClusterBindingStatus cb =
    (if mDeletionTimestamp (bMeta cb) \<noteq> None then ''Deleting''
     else if bPhase cb = ''Ready'' then ''Ready''
     else if bPhase cb = ''Failed'' then ''Failed''
     else ''Pending'')"

definition noBindings :: phase_counts where
  "noBindings = map (\<lambda>status. (status, 0)) [''Deleting'', ''Pending'', ''Ready'', ''Failed'']"

definition countBindings :: "cluster_binding list \<Rightarrow> phase_counts" where
  "countBindings items = foldl (\<lambda>counts cb. AList.update (getClusterBindingStatus cb) (countIn counts (getClusterBindingStatus cb) + 1) counts)
     noBindings items"

definition CollectBindings :: "'s api \<Rightarrow> ('s, 'm, (string \<times> float64) list option) prog" where
  "CollectBindings A = do {
     got \<leftarrow> ListObjs A VirtualClient KBinding list_all_objs;
     return (case got of
         Inl _ \<Rightarrow> None
       | Inr obs \<Rightarrow> Some (map (\<lambda>(status, n). (status, Finite (float64_of_int (int n)))) (countBindings (List.map_filter the_binding obs))))
   }"

lemma countIn_counted:
  "countIn (foldl (\<lambda>counts cb. AList.update (getClusterBindingStatus cb) (countIn counts (getClusterBindingStatus cb) + 1) counts) c items) status =
     countIn c status + length (filter (\<lambda>cb. getClusterBindingStatus cb = status) items)"
  by (induction items arbitrary: c) (auto simp: countIn_def update_conv')

lemma countIn_noBindings: "countIn noBindings status = 0"
  by (simp add: countIn_def noBindings_def)

lemma filters_sum:
  "length (filter P xs) + length (filter Q xs) + length (filter R xs) + length (filter S xs) = length xs"
  if "\<And>x. (P x \<or> Q x \<or> R x \<or> S x) \<and> \<not> (P x \<and> Q x) \<and> \<not> (P x \<and> R x) \<and> \<not> (P x \<and> S x) \<and> \<not> (Q x \<and> R x) \<and> \<not> (Q x \<and> S x) \<and> \<not> (R x \<and> S x)"
proof (induction xs)
  case (Cons x xs)
  with that [of x] show ?case by auto
qed simp

text \<open>
  Every binding is counted once: the counts are those of the bindings with that status, and the four add up to all of them.
\<close>

theorem bindings_counted:
  "countIn (countBindings items) status = length (filter (\<lambda>cb. getClusterBindingStatus cb = status) items) \<and>
   countIn (countBindings items) ''Deleting'' + countIn (countBindings items) ''Pending'' + countIn (countBindings items) ''Ready'' +
     countIn (countBindings items) ''Failed'' = length items"
  unfolding countBindings_def countIn_counted countIn_noBindings add_0
  by (intro conjI refl filters_sum) (auto simp: getClusterBindingStatus_def)

end
