(* ===== verification/Proxier_Watch.thy ===== *)
theory Proxier_Watch
  imports Node_Controller
begin

text \<open>
  \<^verbatim>\<open>pkg/syncer/topdown/proxier/proxier_watch_controller.go\<close>: when a proxier pod comes or goes, virtual nodes whose address is not that
  of a running proxier get the address of one, and a Prometheus address to match. Raw patches are data (\<open>node_patch\<close>), kept in the
  memory together with the calls made before them; what the server does with them, the rate limiter and sleeping are the
  parameter \<open>W\<close>. The server answers with the object it was asked for. Which of the running proxiers is taken (iteration over a Go
  map) is the number \<open>pick\<close> chooses. \<open>maxRetries\<close> is 3; the loop is a recursion on what is left of it.
\<close>

section \<open>Patches\<close>

text \<open>A merge patch of one annotation, and the two JSON patches of the list of addresses.\<close>

datatype node_patch =
    MergeAnnotation string string string
  | ReplaceAddress string nat string
  | AddAddress string string

record 's watch_lib =
  wlPatch :: "node_patch \<Rightarrow> 's \<Rightarrow> node res \<times> 's"
  wlWait :: "'s \<Rightarrow> unit res \<times> 's"
  wlSleep :: "int \<Rightarrow> 's \<Rightarrow> 's"

record 's watch_world = "'s world" +
  wwPatches :: "(event list \<times> node_patch) list"

type_synonym ('s, 'm, 'a) watch_prog = "(('s, 'm) watch_world_scheme, 'a) state"

definition sendPatch :: "'s watch_lib \<Rightarrow> node_patch \<Rightarrow> ('s, 'm, node res) watch_prog" where
  "sendPatch W p = do {
     modifies (\<lambda>w. w\<lparr>wwPatches := wwPatches w @ [(hist w, p)]\<rparr>);
     outside (wlPatch W p)
   }"

section \<open>Proxier pods and virtual nodes\<close>

definition proxierLabels :: "string \<Rightarrow> (string \<times> string) list" where
  "proxierLabels binding = [(''app.kubernetes.io/component'', ''proxier''), (''app.kubernetes.io/name'', ''kubeocean-proxier''),
     (''app.kubernetes.io/managed-by'', ''kubeocean-manager''), (''app.kubernetes.io/instance'', binding)]"

definition isProxierPodForClusterBinding :: "string \<Rightarrow> pod \<Rightarrow> bool" where
  "isProxierPodForClusterBinding binding p \<longleftrightarrow>
    (if mLabels (poMeta p) ''app.kubernetes.io/component'' \<noteq> Some ''proxier'' then False
     else if mLabels (poMeta p) ''app.kubernetes.io/name'' \<noteq> Some ''kubeocean-proxier'' then False
     else if mLabels (poMeta p) ''app.kubernetes.io/managed-by'' \<noteq> Some ''kubeocean-manager'' then False
     else if mLabels (poMeta p) ''app.kubernetes.io/instance'' \<noteq> Some binding then False
     else True)"

definition watchCreated :: "string \<Rightarrow> pod \<Rightarrow> bool" where
  "watchCreated binding p \<longleftrightarrow> (if \<not> isProxierPodForClusterBinding binding p then False else psPodIP (poStatus p) \<noteq> '''')"

definition watchUpdated :: "string \<Rightarrow> pod \<Rightarrow> pod \<Rightarrow> bool" where
  "watchUpdated binding oldPod newPod \<longleftrightarrow>
    (if \<not> isProxierPodForClusterBinding binding newPod then False
     else psPodIP (poStatus oldPod) = '''' \<and> psPodIP (poStatus newPod) \<noteq> '''')"

definition watchDeleted :: "string \<Rightarrow> pod \<Rightarrow> bool" where
  "watchDeleted binding p = isProxierPodForClusterBinding binding p"

definition proxierRunning :: "pod \<Rightarrow> bool" where
  "proxierRunning p \<longleftrightarrow> psPhase (poStatus p) = ''Running'' \<and> psPodIP (poStatus p) \<noteq> ''''"

definition runningIPs :: "pod list \<Rightarrow> string list" where
  "runningIPs items = remdups (map (\<lambda>p. psPodIP (poStatus p)) (filter proxierRunning items))"

definition proxiersOf :: "string \<Rightarrow> list_opts" where
  "proxiersOf binding = \<lparr>loNamespace = None, loLabels = proxierLabels binding, loNodeName = None\<rparr>"

definition vnodesOf :: "string \<Rightarrow> list_opts" where
  "vnodesOf binding = \<lparr>loNamespace = None,
     loLabels = [(''kubeocean.io/cluster-binding'', binding), (''kubeocean.io/managed-by'', ''kubeocean'')], loNodeName = None\<rparr>"

definition getRunningProxierPodIPs :: "'s api \<Rightarrow> string \<Rightarrow> ('s, 'm, string list res) prog" where
  "getRunningProxierPodIPs A binding =
     on_ok_wrap ''failed to list Proxier pods'' (list_pods A VirtualClient (proxiersOf binding)) (\<lambda>items. return (Inr (runningIPs items)))"

definition getVNodesForClusterBinding :: "'s api \<Rightarrow> string \<Rightarrow> ('s, 'm, node list res) prog" where
  "getVNodesForClusterBinding A binding =
     on_ok_wrap ''failed to list VNodes'' (list_nodes A VirtualClient (vnodesOf binding)) (\<lambda>items. return (Inr items))"

fun internalIPIndex :: "node_address list \<Rightarrow> nat option" where
  "internalIPIndex [] = None"
| "internalIPIndex (addr # addrs) = (if aType addr = ''InternalIP'' then Some 0 else map_option Suc (internalIPIndex addrs))"

definition getVNodeInternalIP :: "node \<Rightarrow> string" where
  "getVNodeInternalIP vNode = (case find (\<lambda>addr. aType addr = ''InternalIP'') (nAddresses vNode) of
     Some addr \<Rightarrow> aAddress addr | None \<Rightarrow> '''')"

definition createVNodeIPPatch :: "string \<Rightarrow> node \<Rightarrow> string \<Rightarrow> node_patch" where
  "createVNodeIPPatch name vNode newIP = (case internalIPIndex (nAddresses vNode) of
     Some i \<Rightarrow> ReplaceAddress name i newIP | None \<Rightarrow> AddAddress name newIP)"

section \<open>Updating a virtual node\<close>

definition isConflictError :: "err \<Rightarrow> bool" where
  "isConflictError e \<longleftrightarrow> Contains (error_text e) ''conflict'' \<or> Contains (error_text e) ''ResourceVersion'' \<or> Contains (error_text e) ''409''"

definition isForbiddenError :: "err \<Rightarrow> bool" where
  "isForbiddenError e \<longleftrightarrow> Contains (error_text e) ''forbidden'' \<or> Contains (error_text e) ''403'' \<or> Contains (error_text e) ''permission''"

definition newPrometheusURL :: "string \<Rightarrow> string \<Rightarrow> string \<Rightarrow> string" where
  "newPrometheusURL newIP proxierPort name = newIP @ '':'' @ proxierPort @ ''/'' @ name"

definition patchAnnotation :: "'s watch_lib \<Rightarrow> string \<Rightarrow> string \<Rightarrow> node \<Rightarrow> ('s, 'm, node) watch_prog" where
  "patchAnnotation W name newIP currentNode = (case mLabels (nMeta currentNode) LabelProxierPort of
     None \<Rightarrow> return currentNode
   | Some proxierPort \<Rightarrow>
      (let url = newPrometheusURL newIP proxierPort name in
       if mAnnotations (nMeta currentNode) AnnotationPrometheusURL = Some url then return currentNode
       else do {
         r \<leftarrow> sendPatch W (MergeAnnotation name AnnotationPrometheusURL url);
         return (case r of Inl _ \<Rightarrow> currentNode | Inr patched \<Rightarrow> patched)
       }))"

definition watchRetries :: nat where
  "watchRetries = 3"

definition pauseBefore :: "'s watch_lib \<Rightarrow> nat \<Rightarrow> ('s, 'm, unit) prog" where
  "pauseBefore W attempt = (if attempt = 0 then return () else outside (\<lambda>s. ((), wlSleep W (100000000 * 2 ^ attempt) s)))"

text \<open>One attempt after the node was read; \<open>retry\<close> is the rest of the loop, \<open>final\<close> the last attempt.\<close>

definition attemptUpdate ::
  "'s watch_lib \<Rightarrow> string \<Rightarrow> string \<Rightarrow> bool \<Rightarrow> ('s, 'm, unit res) watch_prog \<Rightarrow> node res \<Rightarrow> ('s, 'm, unit res) watch_prog" where
  "attemptUpdate W name newIP final retry got = (case got of
       Inl err \<Rightarrow> (if final then return (Inl (Wrapf ''failed to fetch VNode after 3 attempts'' err)) else retry)
     | Inr currentNode \<Rightarrow>
        (if getVNodeInternalIP currentNode = newIP then return (Inr ())
         else do {
           patched \<leftarrow> patchAnnotation W name newIP currentNode;
           r \<leftarrow> sendPatch W (createVNodeIPPatch name patched newIP);
           case r of
             Inr _ \<Rightarrow> return (Inr ())
           | Inl err \<Rightarrow>
              (if isConflictError err then retry
               else if isForbiddenError err then return (Inl (Wrapf ''VNode status patch forbidden'' err))
               else if final then return (Inl (Wrapf ''failed to patch VNode after 3 attempts'' err))
               else retry)
         }))"

fun tryUpdate :: "'s api \<Rightarrow> 's watch_lib \<Rightarrow> string \<Rightarrow> string \<Rightarrow> nat \<Rightarrow> ('s, 'm, unit res) watch_prog" where
  "tryUpdate A W name newIP 0 = return (Inl (Errorf ''failed to patch VNode after 3 attempts''))"
| "tryUpdate A W name newIP (Suc left) = do {
     _ \<leftarrow> pauseBefore W (watchRetries - Suc left);
     got \<leftarrow> get_node A VirtualClient name;
     attemptUpdate W name newIP (left = 0) (tryUpdate A W name newIP left) got
   }"

definition updateVNodeIPWithRetry :: "'s api \<Rightarrow> 's watch_lib \<Rightarrow> string \<Rightarrow> string \<Rightarrow> ('s, 'm, unit res) watch_prog" where
  "updateVNodeIPWithRetry A W vNodeName newIP = tryUpdate A W vNodeName newIP watchRetries"

definition updateVNodeIP :: "'s api \<Rightarrow> 's watch_lib \<Rightarrow> node \<Rightarrow> string \<Rightarrow> ('s, 'm, unit res) watch_prog" where
  "updateVNodeIP A W vNode newProxierIP =
    (if getVNodeInternalIP vNode = newProxierIP then return (Inr ())
     else on_ok_wrap (''failed to update VNode '' @ mName (nMeta vNode)) (updateVNodeIPWithRetry A W (mName (nMeta vNode)) newProxierIP)
       (\<lambda>_. return (Inr ())))"

section \<open>The reconciler\<close>

fun updateVNodes :: "'s api \<Rightarrow> 's watch_lib \<Rightarrow> string list \<Rightarrow> string \<Rightarrow> node list \<Rightarrow> ('s, 'm, ctrl_result res) watch_prog" where
  "updateVNodes A W ips targetIP [] = return (Inr (Result 0))"
| "updateVNodes A W ips targetIP (vNode # vNodes) =
    (if getVNodeInternalIP vNode \<noteq> '''' \<and> getVNodeInternalIP vNode \<in> set ips then updateVNodes A W ips targetIP vNodes
     else do {
       waited \<leftarrow> outside (wlWait W);
       case waited of
         Inl err \<Rightarrow> return (Inl err)
       | Inr _ \<Rightarrow> do { _ \<leftarrow> updateVNodeIP A W vNode targetIP; updateVNodes A W ips targetIP vNodes }
     })"

definition SyncProxierPod :: "'s api \<Rightarrow> 's watch_lib \<Rightarrow> (string list \<Rightarrow> nat) \<Rightarrow> string \<Rightarrow> ('s, 'm, ctrl_result res) watch_prog" where
  "SyncProxierPod A W pick binding =
     on_ok (getVNodesForClusterBinding A binding) (\<lambda>vNodes.
       if vNodes = [] then return (Inr (Result 0))
       else on_ok (getRunningProxierPodIPs A binding) (\<lambda>ips.
         if ips = [] then return (Inl (Errorf ''no running Proxier pods available''))
         else updateVNodes A W ips (ips ! (pick ips mod length ips)) vNodes))"

definition ReconcileProxierPod ::
  "'s api \<Rightarrow> 's watch_lib \<Rightarrow> (string list \<Rightarrow> nat) \<Rightarrow> string \<Rightarrow> string \<Rightarrow> string \<Rightarrow> ('s, 'm, ctrl_result res) watch_prog" where
  "ReconcileProxierPod A W pick binding ns name = do {
     got \<leftarrow> get_pod A VirtualClient ns name;
     case got of
       Inl err \<Rightarrow> (if IsNotFound err then SyncProxierPod A W pick binding else return (Inl err))
     | Inr p \<Rightarrow> (if \<not> isProxierPodForClusterBinding binding p then return (Inr (Result 0))
                else SyncProxierPod A W pick binding)
   }"


section \<open>What is patched\<close>

text \<open>
  \<open>patching G pre m Q\<close>: started after the calls \<open>pre\<close>, every patch \<open>m\<close> sends is allowed by \<open>G\<close> given all calls before it, and
  \<open>Q\<close> holds of the result and all calls so far.
\<close>

definition patching ::
  "(event list \<Rightarrow> node_patch \<Rightarrow> bool) \<Rightarrow> event list \<Rightarrow> ('s, 'm, 'a) watch_prog \<Rightarrow> ('a \<Rightarrow> event list \<Rightarrow> bool) \<Rightarrow> bool" where
  "patching G pre m Q \<longleftrightarrow> (\<forall>w. tspec m w (\<lambda>r es w'. Q r (pre @ es) \<and>
     (\<exists>ps. wwPatches w' = wwPatches w @ ps \<and> (\<forall>x\<in>set ps. \<exists>ds. fst x = hist w @ ds \<and> G (pre @ ds) (snd x)))))"

named_theorems patch_rules "patches of programs"

lemma patching_return [patch_rules]: "Q x pre \<Longrightarrow> patching G pre (return x) Q"
  unfolding patching_def by (intro allI tspec_return) simp

lemma patching_bind:
  fixes m :: "('s, 'm, 'a) watch_prog"
  assumes "patching G pre m R" and "\<And>x es. R x es \<Longrightarrow> patching G es (f x) Q"
  shows "patching G pre (m \<bind> f) Q"
  unfolding patching_def
proof
  fix w :: "('s, 'm) watch_world_scheme"
  let ?P = "\<lambda>r es w'. R r (pre @ es) \<and>
     (\<exists>ps. wwPatches w' = wwPatches w @ ps \<and> (\<forall>x\<in>set ps. \<exists>ds. fst x = hist w @ ds \<and> G (pre @ ds) (snd x)))"
  have "tspec m w (\<lambda>r es v. ?P r es v \<and> hist v = hist w @ es)"
    using assms(1) unfolding patching_def tspec_def by (fastforce split: prod.splits)
  then show "tspec (m \<bind> f) w (\<lambda>r es w'. Q r (pre @ es) \<and>
     (\<exists>ps. wwPatches w' = wwPatches w @ ps \<and> (\<forall>x\<in>set ps. \<exists>ds. fst x = hist w @ ds \<and> G (pre @ ds) (snd x))))"
  proof (intro tspec_bind, elim tspec_mono)
    fix r es and v :: "('s, 'm) watch_world_scheme"
    assume first: "?P r es v \<and> hist v = hist w @ es"
    then obtain ps where ps: "wwPatches v = wwPatches w @ ps" "\<forall>x\<in>set ps. \<exists>ds. fst x = hist w @ ds \<and> G (pre @ ds) (snd x)"
      by blast
    from first have "patching G (pre @ es) (f r) Q" by (intro assms(2)) simp
    then have "tspec (f r) v (\<lambda>r' es' w'. Q r' ((pre @ es) @ es') \<and>
      (\<exists>qs. wwPatches w' = wwPatches v @ qs \<and> (\<forall>x\<in>set qs. \<exists>ds. fst x = hist v @ ds \<and> G ((pre @ es) @ ds) (snd x))))"
      unfolding patching_def by (rule spec)
    then show "tspec (f r) v (\<lambda>r' es' w'. Q r' (pre @ es @ es') \<and>
      (\<exists>ps. wwPatches w' = wwPatches w @ ps \<and> (\<forall>x\<in>set ps. \<exists>ds. fst x = hist w @ ds \<and> G (pre @ ds) (snd x))))"
    proof (rule tspec_mono)
      fix r' es' and w' :: "('s, 'm) watch_world_scheme"
      assume "Q r' ((pre @ es) @ es') \<and>
        (\<exists>qs. wwPatches w' = wwPatches v @ qs \<and> (\<forall>x\<in>set qs. \<exists>ds. fst x = hist v @ ds \<and> G ((pre @ es) @ ds) (snd x)))"
      then obtain qs where qs: "Q r' (pre @ es @ es')" "wwPatches w' = wwPatches v @ qs"
          "\<forall>x\<in>set qs. \<exists>ds. fst x = hist v @ ds \<and> G ((pre @ es) @ ds) (snd x)"
        by auto
      have "\<exists>ds. fst x = hist w @ ds \<and> G (pre @ ds) (snd x)" if "x \<in> set qs" for x
      proof -
        from qs(3) that obtain ds where "fst x = hist v @ ds \<and> G ((pre @ es) @ ds) (snd x)" by blast
        with first show ?thesis by (intro exI [of _ "es @ ds"]) simp
      qed
      with qs ps show "Q r' (pre @ es @ es') \<and>
        (\<exists>ps. wwPatches w' = wwPatches w @ ps \<and> (\<forall>x\<in>set ps. \<exists>ds. fst x = hist w @ ds \<and> G (pre @ ds) (snd x)))"
        by (intro conjI exI [of _ "ps @ qs"]) auto
    qed
  qed
qed

lemma patching_mono: "patching G pre m R \<Longrightarrow> (\<And>r es. R r es \<Longrightarrow> Q r es) \<Longrightarrow> patching G pre m Q"
  unfolding patching_def by (intro allI, erule allE, erule tspec_mono) blast

lemma patching_if [patch_rules]:
  "(b \<Longrightarrow> patching G pre m Q) \<Longrightarrow> (\<not> b \<Longrightarrow> patching G pre n Q) \<Longrightarrow> patching G pre (if b then m else n) Q"
  by simp

lemma patching_sum [patch_rules]:
  "(\<And>e. r = Inl e \<Longrightarrow> patching G pre (f e) Q) \<Longrightarrow> (\<And>x. r = Inr x \<Longrightarrow> patching G pre (g x) Q) \<Longrightarrow>
     patching G pre (case r of Inl e \<Rightarrow> f e | Inr x \<Rightarrow> g x) Q"
  by (cases r) simp_all

lemma patching_option [patch_rules]:
  "(r = None \<Longrightarrow> patching G pre f Q) \<Longrightarrow> (\<And>x. r = Some x \<Longrightarrow> patching G pre (g x) Q) \<Longrightarrow>
     patching G pre (case r of None \<Rightarrow> f | Some x \<Rightarrow> g x) Q"
  by (cases r) simp_all

lemma patching_let [patch_rules]: "patching G pre (f x) Q \<Longrightarrow> patching G pre (let y = x in f y) Q"
  by simp

lemma patching_on_ok [patch_rules]:
  assumes "patching G pre m (\<lambda>r es. case r of Inl e \<Rightarrow> Q (Inl e) es | Inr x \<Rightarrow> patching G es (f x) Q)"
  shows "patching G pre (on_ok m f) Q"
  unfolding on_ok_def by (rule patching_bind [OF assms]) (auto intro: patch_rules split: sum.splits)

lemma patching_on_ok_wrap [patch_rules]:
  assumes "patching G pre m (\<lambda>r es. case r of Inl e \<Rightarrow> Q (Inl (Wrapf msg e)) es | Inr x \<Rightarrow> patching G es (f x) Q)"
  shows "patching G pre (on_ok_wrap msg m f) Q"
  unfolding on_ok_wrap_def by (rule patching_bind [OF assms]) (auto intro: patch_rules split: sum.splits)

lemma patching_call: "(\<And>r. Q r (pre @ [ev r])) \<Longrightarrow> patching G pre (call f ev) Q"
  unfolding patching_def by (intro allI tspec_call) simp

lemma patching_call_bind:
  assumes "\<And>r. patching G (pre @ [ev r]) (g r) Q"
  shows "patching G pre (call f ev \<bind> g) Q"
  by (rule patching_bind [OF patching_call [where Q = "\<lambda>r es. es = pre @ [ev r]"]]) (simp_all add: assms)

lemma patching_reads [patch_rules]:
  "(\<And>r. Q (decode the_node r) (pre @ [EvGet c KNode '''' n r])) \<Longrightarrow> patching G pre (get_node A c n) Q"
  "(\<And>r. Q' (decode the_pod r) (pre @ [EvGet c KPod ns n r])) \<Longrightarrow> patching G pre (get_pod A c ns n) Q'"
  "(\<And>r. R (map_sum id (List.map_filter the_node) r) (pre @ [EvList c KNode lo r])) \<Longrightarrow> patching G pre (list_nodes A c lo) R"
  "(\<And>r. R' (map_sum id (List.map_filter the_pod) r) (pre @ [EvList c KPod lo r])) \<Longrightarrow> patching G pre (list_pods A c lo) R'"
  unfolding typed_ops Get_def ListObjs_def
  by (intro patching_call_bind patching_return, simp)+

lemma patching_outside [patch_rules]: "(\<And>r. Q r pre) \<Longrightarrow> patching G pre (outside f) Q"
  unfolding patching_def by (intro allI tspec_outside) simp

lemma patching_send [patch_rules]: "G pre p \<Longrightarrow> (\<And>r. Q r pre) \<Longrightarrow> patching G pre (sendPatch W p) Q"
  unfolding patching_def sendPatch_def
  by (intro allI tspec_bind tspec_modifies tspec_outside) auto

text \<open>Why a patch may be sent: the virtual node was listed with an address that no listed running proxier has, the address sent is
  that of one of these, and the node was read again since.\<close>

fun patch_of :: "string \<Rightarrow> string \<Rightarrow> node \<Rightarrow> node_patch \<Rightarrow> bool" where
  "patch_of name ip cur (MergeAnnotation n key url) \<longleftrightarrow> n = name \<and> key = AnnotationPrometheusURL \<and>
     (\<exists>port. mLabels (nMeta cur) LabelProxierPort = Some port \<and> url = ip @ '':'' @ port @ ''/'' @ name)"
| "patch_of name ip cur (ReplaceAddress n i a) \<longleftrightarrow> n = name \<and> a = ip"
| "patch_of name ip cur (AddAddress n a) \<longleftrightarrow> n = name \<and> a = ip"

definition reread :: "string \<Rightarrow> string \<Rightarrow> event list \<Rightarrow> node_patch \<Rightarrow> bool" where
  "reread name ip es p \<longleftrightarrow> (\<exists>cur. EvGet VirtualClient KNode '''' name (Inr (ONode cur)) \<in> set es \<and> getVNodeInternalIP cur \<noteq> ip \<and>
     patch_of name ip cur p)"

definition justified :: "string \<Rightarrow> event list \<Rightarrow> node_patch \<Rightarrow> bool" where
  "justified binding es p \<longleftrightarrow> (\<exists>nodes pods vnode proxier.
     EvList VirtualClient KNode (vnodesOf binding) (Inr nodes) \<in> set es \<and> ONode vnode \<in> set nodes \<and>
     EvList VirtualClient KPod (proxiersOf binding) (Inr pods) \<in> set es \<and> OPod proxier \<in> set pods \<and> proxierRunning proxier \<and>
     (\<forall>q. OPod q \<in> set pods \<and> proxierRunning q \<longrightarrow> getVNodeInternalIP vnode \<noteq> psPodIP (poStatus q)) \<and>
     reread (mName (nMeta vnode)) (psPodIP (poStatus proxier)) es p)"

lemma patching_extends: "patching G pre m Q \<Longrightarrow> patching G pre m (\<lambda>r es. Q r es \<and> (\<exists>ds. es = pre @ ds))"
  unfolding patching_def by (intro allI, erule allE, erule tspec_mono) blast

definition allows :: "(event list \<Rightarrow> node_patch \<Rightarrow> bool) \<Rightarrow> string \<Rightarrow> string \<Rightarrow> event list \<Rightarrow> bool" where
  "allows G name ip es \<longleftrightarrow> (\<forall>ds p. reread name ip (es @ ds) p \<longrightarrow> G (es @ ds) p)"

lemma allows_later: "allows G name ip es \<Longrightarrow> allows G name ip (es @ ds)"
  by (simp add: allows_def)

lemma allowed: "allows G name ip es \<Longrightarrow> reread name ip es p \<Longrightarrow> G es p"
  unfolding allows_def by (drule spec [of _ "[]"]) simp

lemma createVNodeIPPatch_of: "patch_of name ip cur (createVNodeIPPatch name nd ip)"
  by (simp add: createVNodeIPPatch_def split: option.split)

lemma patchAnnotation_patches:
  assumes "EvGet VirtualClient KNode '''' name (Inr (ONode cur)) \<in> set es" and "getVNodeInternalIP cur \<noteq> ip" and "allows G name ip es"
  shows "patching G es (patchAnnotation W name ip cur) (\<lambda>_ es'. es' = es)"
proof (cases "mLabels (nMeta cur) LabelProxierPort")
  case (Some port)
  have "reread name ip es (MergeAnnotation name AnnotationPrometheusURL (newPrometheusURL ip port name))"
    unfolding reread_def using assms(1,2) Some by (intro exI [of _ cur]) (simp add: newPrometheusURL_def)
  from allowed [OF assms(3) this] show ?thesis
    unfolding patchAnnotation_def Let_def Some option.case
    by (intro patch_rules patching_bind [OF patching_send [where Q = "\<lambda>_ es'. es' = es"]]) simp_all
qed (simp add: patchAnnotation_def patching_return)

lemma attemptUpdate_patches:
  assumes "allows G name ip es" and "\<And>cur. got = Inr cur \<Longrightarrow> EvGet VirtualClient KNode '''' name (Inr (ONode cur)) \<in> set es"
    and "patching G es retry (\<lambda>_ _. True)"
  shows "patching G es (attemptUpdate W name ip final retry got) (\<lambda>_ _. True)"
proof (cases "\<exists>cur. got = Inr cur \<and> getVNodeInternalIP cur \<noteq> ip")
  case True
  then obtain cur where cur: "got = Inr cur" "getVNodeInternalIP cur \<noteq> ip" by blast
  have "G es (createVNodeIPPatch name patched ip)" for patched
    by (rule allowed [OF assms(1)]) (use assms(2) cur in \<open>auto simp: reread_def intro!: exI [of _ cur] createVNodeIPPatch_of\<close>)
  then show ?thesis
    unfolding attemptUpdate_def cur(1) sum.case
    by (intro patching_if patch_rules patching_bind [OF patchAnnotation_patches [where cur = cur]]
        patching_bind [OF patching_send [where Q = "\<lambda>_ es'. es' = es"]])
      (use assms cur in \<open>auto intro!: patch_rules\<close>)
qed (use assms(3) in \<open>auto simp: attemptUpdate_def split: sum.split intro!: patch_rules\<close>)

lemma tryUpdate_patches: "allows G name ip es \<Longrightarrow> patching G es (tryUpdate A W name ip n) (\<lambda>_ _. True)"
proof (induction n arbitrary: es)
  case (Suc left)
  show ?case
    unfolding tryUpdate.simps
  proof (rule patching_bind [where R = "\<lambda>_ es'. es' = es"])
    show "patching G es (pauseBefore W (watchRetries - Suc left)) (\<lambda>_ es'. es' = es)"
      unfolding pauseBefore_def by (intro patch_rules) simp_all
  qed (rule patching_bind [OF patching_reads(1) [where Q = "\<lambda>got es'. \<exists>r. got = decode the_node r \<and>
          es' = es @ [EvGet VirtualClient KNode '''' name r]"]],
      use Suc in \<open>auto simp: decode_simps intro!: attemptUpdate_patches allows_later\<close>)
qed (simp add: patching_return)

lemma updateVNodeIP_patches:
  "allows G (mName (nMeta vNode)) ip es \<Longrightarrow> patching G es (updateVNodeIP A W vNode ip) (\<lambda>_ _. True)"
  unfolding updateVNodeIP_def updateVNodeIPWithRetry_def
  by (intro patch_rules patching_mono [OF tryUpdate_patches]) (auto intro: patch_rules split: sum.split)

lemma updateVNodes_patches:
  fixes A :: "'s api"
  assumes "\<forall>vNode\<in>set vNodes. getVNodeInternalIP vNode \<notin> set ips \<longrightarrow> allows G (mName (nMeta vNode)) ip es" and "'''' \<notin> set ips"
  shows "patching G es (updateVNodes A W ips ip vNodes :: ('s, 'm, ctrl_result res) watch_prog) (\<lambda>_ _. True)"
  using assms(1)
proof (induction vNodes arbitrary: es)
  case (Cons vNode vNodes)
  show ?case
  proof (cases "getVNodeInternalIP vNode \<in> set ips")
    case True
    moreover from True assms(2) have "getVNodeInternalIP vNode \<noteq> ''''" by metis
    ultimately show ?thesis using Cons by simp
  next
    case False
    with Cons.prems have "allows G (mName (nMeta vNode)) ip es" by simp
    note upd = patching_extends [OF updateVNodeIP_patches [OF this]]
    have "patching G (es @ ds) (updateVNodes A W ips ip vNodes :: ('s, 'm, ctrl_result res) watch_prog) (\<lambda>_ _. True)" for ds
      by (rule Cons.IH) (use Cons.prems in \<open>auto intro: allows_later\<close>)
    with False show ?thesis
      by (auto intro!: patching_bind [OF patching_outside [where Q = "\<lambda>_ es'. es' = es"]] patching_bind [OF upd] patch_rules split: sum.split)
  qed
qed (simp add: patching_return)

lemma runningIPs_set: "ip \<in> set (runningIPs items) \<longleftrightarrow> (\<exists>p\<in>set items. proxierRunning p \<and> psPodIP (poStatus p) = ip)"
  by (auto simp: runningIPs_def)

lemma map_filter_set: "x \<in> set (List.map_filter f xs) \<longleftrightarrow> (\<exists>y\<in>set xs. f y = Some x)"
  by (induction xs) (auto simp: List.map_filter_simps split: option.split)

lemma listed_allows:
  assumes "EvList VirtualClient KNode (vnodesOf b) (Inr nodes) \<in> set es" and "EvList VirtualClient KPod (proxiersOf b) (Inr pods) \<in> set es"
    and "vNode \<in> set (List.map_filter the_node nodes)" and "ip \<in> set (runningIPs (List.map_filter the_pod pods))"
    and "getVNodeInternalIP vNode \<notin> set (runningIPs (List.map_filter the_pod pods))"
  shows "allows (justified b) (mName (nMeta vNode)) ip es"
  unfolding allows_def
proof (intro allI impI)
  fix ds p
  assume r: "reread (mName (nMeta vNode)) ip (es @ ds) p"
  from assms(3) have "ONode vNode \<in> set nodes" by (auto simp: map_filter_set the_obj_Some)
  moreover from assms(4) obtain q where "OPod q \<in> set pods" "proxierRunning q" "psPodIP (poStatus q) = ip"
    by (auto simp: runningIPs_set map_filter_set the_obj_Some)
  moreover from assms(5) have "\<forall>q. OPod q \<in> set pods \<and> proxierRunning q \<longrightarrow> getVNodeInternalIP vNode \<noteq> psPodIP (poStatus q)"
    by (auto simp: runningIPs_set map_filter_set the_obj_Some)
  ultimately show "justified b (es @ ds) p"
    unfolding justified_def using r assms(1,2) by (metis Un_iff set_append)
qed

lemma getVNodes_post:
  "patching G es (getVNodesForClusterBinding A b) (\<lambda>r es'. \<exists>ob. es' = es @ [EvList VirtualClient KNode (vnodesOf b) ob] \<and>
     (\<forall>vs. r = Inr vs \<longrightarrow> (\<exists>nodes. ob = Inr nodes \<and> vs = List.map_filter the_node nodes)))"
  unfolding getVNodesForClusterBinding_def by (intro patch_rules) (auto intro!: patch_rules split: sum.split)

lemma getRunning_post:
  "patching G es (getRunningProxierPodIPs A b) (\<lambda>r es'. \<exists>ob. es' = es @ [EvList VirtualClient KPod (proxiersOf b) ob] \<and>
     (\<forall>ips. r = Inr ips \<longrightarrow> (\<exists>pods. ob = Inr pods \<and> ips = runningIPs (List.map_filter the_pod pods))))"
  unfolding getRunningProxierPodIPs_def by (intro patch_rules) (auto intro!: patch_rules split: sum.split)

lemma SyncProxierPod_patches:
  fixes A :: "'s api"
  shows "patching (justified b) es (SyncProxierPod A W pick b :: ('s, 'm, ctrl_result res) watch_prog) (\<lambda>_ _. True)"
proof -
  have update: "patching (justified b) (es @ [EvList VirtualClient KNode (vnodesOf b) (Inr nodes), EvList VirtualClient KPod (proxiersOf b) (Inr pods)])
      (updateVNodes A W ips (ips ! (pick ips mod length ips)) (List.map_filter the_node nodes) :: ('s, 'm, ctrl_result res) watch_prog)
      (\<lambda>_ _. True)"
    if "ips = runningIPs (List.map_filter the_pod pods)" "ips \<noteq> []" for nodes pods ips
  proof (rule updateVNodes_patches)
    show "'''' \<notin> set ips" using that by (auto simp: runningIPs_set proxierRunning_def)
    have "ips ! (pick ips mod length ips) \<in> set ips" using that(2) by simp
    then show "\<forall>vNode\<in>set (List.map_filter the_node nodes). getVNodeInternalIP vNode \<notin> set ips \<longrightarrow>
       allows (justified b) (mName (nMeta vNode)) (ips ! (pick ips mod length ips))
         (es @ [EvList VirtualClient KNode (vnodesOf b) (Inr nodes), EvList VirtualClient KPod (proxiersOf b) (Inr pods)])"
      unfolding that(1) by (intro ballI impI listed_allows) simp_all
  qed
  show ?thesis
    unfolding SyncProxierPod_def
    by (intro patching_on_ok patching_mono [OF getVNodes_post])
      (auto split: sum.split intro!: patching_if patching_return patching_on_ok patching_mono [OF getRunning_post] update [simplified])
qed

lemma calls_sendPatch [calls_rules]: "calls (sendPatch W p) P"
  unfolding sendPatch_def by (intro calls_rules calls_quiet quiet_outside) simp

lemma calls_tryUpdate: "calls (tryUpdate A W name ip n) (\<lambda>e. \<not> is_write e)"
  by (induction A W name ip n rule: tryUpdate.induct)
    (auto simp: attemptUpdate_def patchAnnotation_def pauseBefore_def Let_def
      intro!: calls_rules calls_quiet [OF quiet_outside] calls_quiet [OF quiet_typed(1)])

lemma calls_updateVNodeIP: "calls (updateVNodeIP A W vNode ip) (\<lambda>e. \<not> is_write e)"
  by (auto simp: updateVNodeIP_def updateVNodeIPWithRetry_def intro!: calls_rules calls_tryUpdate)

lemma calls_updateVNodes: "calls (updateVNodes A W ips ip vNodes) (\<lambda>e. \<not> is_write e)"
  by (induction A W ips ip vNodes rule: updateVNodes.induct)
    (auto intro!: calls_rules calls_updateVNodeIP calls_quiet [OF quiet_outside])

lemma calls_ReconcileProxierPod: "calls (ReconcileProxierPod A W pick b ns name) (\<lambda>e. \<not> is_write e)"
  unfolding ReconcileProxierPod_def SyncProxierPod_def getVNodesForClusterBinding_def getRunningProxierPodIPs_def
  by (intro calls_rules calls_updateVNodes calls_quiet [OF quiet_typed(2)] calls_quiet [OF quiet_typed(6)] calls_quiet [OF quiet_typed(7)]) simp_all

lemma ReconcileProxierPod_patches: "patching (justified b) [] (ReconcileProxierPod A W pick b ns name) (\<lambda>_ _. True)"
  unfolding ReconcileProxierPod_def
  by (intro patching_bind [OF patching_reads(2) [where Q' = "\<lambda>_ _. True"]] patch_rules SyncProxierPod_patches) simp_all

text \<open>
  C29. The watch of the proxier pods patches a virtual node only for a reason: the node was listed for this binding with an address
  that no listed running proxier has, the address it gets is that of a listed running proxier, it was read since with another
  address, and its Prometheus address names the new address, the port of its label and its name. Nothing else is written.
\<close>

theorem watch_patches_justified:
  "tspec (ReconcileProxierPod A W pick b ns name) w (\<lambda>_ es w'. list_all (\<lambda>e. \<not> is_write e) es \<and>
     (\<exists>ps. wwPatches w' = wwPatches w @ ps \<and> list_all (\<lambda>(h, p). \<exists>ds. h = hist w @ ds \<and> justified b ds p) ps))"
proof (rule tspec_conj)
  show "tspec (ReconcileProxierPod A W pick b ns name) w (\<lambda>_ es w'. list_all (\<lambda>e. \<not> is_write e) es)"
    by (rule tspec_calls [OF calls_ReconcileProxierPod])
  from ReconcileProxierPod_patches [of b A W pick ns name, unfolded patching_def, THEN spec, of w]
  show "tspec (ReconcileProxierPod A W pick b ns name) w
     (\<lambda>_ es w'. \<exists>ps. wwPatches w' = wwPatches w @ ps \<and> list_all (\<lambda>(h, p). \<exists>ds. h = hist w @ ds \<and> justified b ds p) ps)"
    by (rule tspec_mono) (auto simp: list_all_iff split_def)
qed

section \<open>What the server makes of it\<close>

fun patched_node :: "node_patch \<Rightarrow> string" where
  "patched_node (MergeAnnotation n _ _) = n"
| "patched_node (ReplaceAddress n _ _) = n"
| "patched_node (AddAddress n _) = n"

text \<open>RFC 7386 and RFC 6902 on the fields concerned.\<close>

fun apply_patch :: "node_patch \<Rightarrow> node \<Rightarrow> node option" where
  "apply_patch (MergeAnnotation _ k v) nd = Some (nd\<lparr>nMeta := (nMeta nd)\<lparr>mAnnotations := (mAnnotations (nMeta nd))(k \<mapsto> v)\<rparr>\<rparr>)"
| "apply_patch (ReplaceAddress _ i a) nd = (if i < length (nAddresses nd)
     then Some (nd\<lparr>nAddresses := (nAddresses nd)[i := (nAddresses nd ! i)\<lparr>aAddress := a\<rparr>]\<rparr>) else None)"
| "apply_patch (AddAddress _ a) nd = Some (nd\<lparr>nAddresses := nAddresses nd @ [\<lparr>aType = ''InternalIP'', aAddress = a\<rparr>]\<rparr>)"

text \<open>A server that keeps nodes in a table nobody else writes to; requests may fail, and then change nothing.\<close>

definition node_store :: "'s api \<Rightarrow> 's watch_lib \<Rightarrow> ('s \<Rightarrow> string \<rightharpoonup> node) \<Rightarrow> bool" where
  "node_store A W st \<longleftrightarrow>
    (\<forall>s n r s'. api_get A VirtualClient KNode '''' n s = (r, s') \<longrightarrow> st s' = st s \<and> (\<forall>nd. r = Inr (ONode nd) \<longrightarrow> st s n = Some nd)) \<and>
    (\<forall>s p r s'. wlPatch W p s = (r, s') \<longrightarrow> (case r of
        Inl _ \<Rightarrow> st s' = st s
      | Inr nd \<Rightarrow> (\<exists>old. st s (patched_node p) = Some old \<and> apply_patch p old = Some nd \<and> st s' = (st s)(patched_node p \<mapsto> nd)))) \<and>
    (\<forall>s d. st (wlSleep W d s) = st s)"

definition other_addresses :: "node_address list \<Rightarrow> node_address list" where
  "other_addresses = filter (\<lambda>a. aType a \<noteq> ''InternalIP'')"

text \<open>What may change on the node: its internal address and the annotation.\<close>

definition touched :: "node \<Rightarrow> node \<Rightarrow> bool" where
  "touched old nd \<longleftrightarrow> (\<exists>addrs ann. nd = old\<lparr>nAddresses := addrs, nMeta := (nMeta old)\<lparr>mAnnotations := ann\<rparr>\<rparr> \<and>
     other_addresses addrs = other_addresses (nAddresses old) \<and>
     (\<forall>k. k \<noteq> AnnotationPrometheusURL \<longrightarrow> ann k = mAnnotations (nMeta old) k))"

definition only_node :: "string \<Rightarrow> (string \<rightharpoonup> node) \<Rightarrow> (string \<rightharpoonup> node) \<Rightarrow> bool" where
  "only_node name f g \<longleftrightarrow> (\<forall>m. m \<noteq> name \<longrightarrow> g m = f m) \<and> rel_option touched (f name) (g name)"

lemma touched_refl: "touched nd nd"
  unfolding touched_def by (intro exI [of _ "nAddresses nd"] exI [of _ "mAnnotations (nMeta nd)"]) simp

lemma touched_trans:
  assumes "touched a b" and "touched b c"
  shows "touched a c"
proof -
  from assms(1) obtain x f where b: "b = a\<lparr>nAddresses := x, nMeta := (nMeta a)\<lparr>mAnnotations := f\<rparr>\<rparr>"
      "other_addresses x = other_addresses (nAddresses a)" "\<forall>k. k \<noteq> AnnotationPrometheusURL \<longrightarrow> f k = mAnnotations (nMeta a) k"
    unfolding touched_def by blast
  from assms(2) obtain y g where c: "c = b\<lparr>nAddresses := y, nMeta := (nMeta b)\<lparr>mAnnotations := g\<rparr>\<rparr>"
      "other_addresses y = other_addresses (nAddresses b)" "\<forall>k. k \<noteq> AnnotationPrometheusURL \<longrightarrow> g k = mAnnotations (nMeta b) k"
    unfolding touched_def by blast
  show ?thesis unfolding touched_def
    by (rule exI [of _ y], rule exI [of _ g]) (use b c in simp)
qed

lemma only_node_refl: "only_node name f f"
  by (cases "f name") (simp_all add: only_node_def touched_refl)

lemma only_node_trans: "only_node name f g \<Longrightarrow> only_node name g h \<Longrightarrow> only_node name f h"
  by (auto simp: only_node_def option_rel_Some1 elim!: option.rel_cases intro: touched_trans)

lemma index_Some:
  assumes "internalIPIndex addrs = Some i"
  shows "i < length addrs \<and> other_addresses (addrs[i := (addrs ! i)\<lparr>aAddress := a\<rparr>]) = other_addresses addrs \<and>
    find (\<lambda>addr. aType addr = ''InternalIP'') (addrs[i := (addrs ! i)\<lparr>aAddress := a\<rparr>]) = Some ((addrs ! i)\<lparr>aAddress := a\<rparr>)"
  using assms
proof (induction addrs arbitrary: i)
  case (Cons addr addrs)
  show ?case
  proof (cases "aType addr = ''InternalIP''")
    case False
    with Cons.prems obtain j where "internalIPIndex addrs = Some j" "i = Suc j" by auto
    with Cons.IH [of j] False show ?thesis by (simp add: other_addresses_def)
  qed (use Cons.prems in \<open>simp add: other_addresses_def\<close>)
qed simp

lemma index_None: "internalIPIndex addrs = None \<Longrightarrow> find (\<lambda>addr. aType addr = ''InternalIP'') addrs = None"
  by (induction addrs) (auto split: if_splits)

text \<open>On the node it was made for, the address patch does what it is for.\<close>

lemma createVNodeIPPatch_applied:
  assumes "apply_patch (createVNodeIPPatch name nd ip) nd = Some nd'"
  shows "getVNodeInternalIP nd' = ip" and "touched nd nd'"
proof -
  have find: "find P (xs @ ys) = (case find P xs of None \<Rightarrow> find P ys | Some x \<Rightarrow> Some x)" for P and xs ys :: "node_address list"
    by (induction xs) auto
  have "getVNodeInternalIP nd' = ip \<and> (\<exists>addrs. nd' = nd\<lparr>nAddresses := addrs\<rparr> \<and> other_addresses addrs = other_addresses (nAddresses nd))"
  proof (cases "internalIPIndex (nAddresses nd)")
    case None
    with assms index_None [OF None] show ?thesis
      by (auto simp: createVNodeIPPatch_def getVNodeInternalIP_def find other_addresses_def)
  next
    case (Some i)
    with assms index_Some [OF Some, of ip] show ?thesis
      by (auto simp: createVNodeIPPatch_def getVNodeInternalIP_def)
  qed
  then show "getVNodeInternalIP nd' = ip" "touched nd nd'"
    unfolding touched_def by (auto intro!: exI [of _ "mAnnotations (nMeta nd)"])
qed

lemma applied_annotation: "apply_patch (MergeAnnotation n AnnotationPrometheusURL v) nd = Some nd' \<Longrightarrow> touched nd nd'"
  unfolding touched_def
  by (intro exI [of _ "nAddresses nd"] exI [of _ "(mAnnotations (nMeta nd))(AnnotationPrometheusURL \<mapsto> v)"]) auto

lemma only_node_put: "f name = Some old \<Longrightarrow> touched old nd \<Longrightarrow> only_node name f (f(name \<mapsto> nd))"
  by (simp add: only_node_def)

lemma get_stored:
  "node_store A W st \<Longrightarrow>
   tspec (get_node A VirtualClient name) w (\<lambda>r es w'. st (srv w') = st (srv w) \<and> (\<forall>nd. r = Inr nd \<longrightarrow> st (srv w) name = Some nd))"
  unfolding node_store_def by (auto simp: tspec_def run_ops decode_simps run_state_bind split: prod.split)

lemma sent_stored:
  assumes "node_store A W st" and "patched_node p = name" and "st (srv w) name = Some old"
    and "\<And>nd. apply_patch p old = Some nd \<Longrightarrow> touched old nd"
  shows "tspec (sendPatch W p) (w :: ('s, 'm) watch_world_scheme) (\<lambda>r es w'. only_node name (st (srv w)) (st (srv w')) \<and>
     (case r of Inl _ \<Rightarrow> st (srv w') name = Some old | Inr nd \<Rightarrow> apply_patch p old = Some nd \<and> st (srv w') name = Some nd))"
proof -
  obtain r s' where run: "wlPatch W p (srv w) = (r, s')" by (cases "wlPatch W p (srv w)")
  with assms(1) have post: "case r of Inl _ \<Rightarrow> st s' = st (srv w)
      | Inr nd \<Rightarrow> (\<exists>o'. st (srv w) (patched_node p) = Some o' \<and> apply_patch p o' = Some nd \<and> st s' = (st (srv w))(patched_node p \<mapsto> nd))"
    unfolding node_store_def by blast
  have "only_node name (st (srv w)) (st s') \<and>
     (case r of Inl _ \<Rightarrow> st s' name = Some old | Inr nd \<Rightarrow> apply_patch p old = Some nd \<and> st s' name = Some nd)"
    using post assms(2-4) by (cases r) (auto simp: only_node_refl intro: only_node_put)
  with run show ?thesis
    by (simp add: tspec_def sendPatch_def run_state_bind modifies_def outside_def split: sum.splits)
qed

lemma patchAnnotation_stored:
  assumes "node_store A W st" and "st (srv w) name = Some old"
  shows "tspec (patchAnnotation W name ip old) (w :: ('s, 'm) watch_world_scheme)
     (\<lambda>nd es w'. only_node name (st (srv w)) (st (srv w')) \<and> st (srv w') name = Some nd)"
  unfolding patchAnnotation_def Let_def
  by (intro vcg tspec_mono [OF sent_stored [OF assms(1) _ assms(2)]])
    (use assms(2) in \<open>auto simp: only_node_refl split: sum.splits intro!: applied_annotation tspec_return\<close>)

definition moved :: "('s \<Rightarrow> string \<rightharpoonup> node) \<Rightarrow> string \<Rightarrow> string \<Rightarrow> 's \<Rightarrow> unit res \<Rightarrow> 's \<Rightarrow> bool" where
  "moved st name ip s r s' \<longleftrightarrow> only_node name (st s) (st s') \<and>
     (r = Inr () \<longrightarrow> (\<exists>nd. st s' name = Some nd \<and> getVNodeInternalIP nd = ip))"

lemma moved_after: "only_node name (st s) (st s') \<Longrightarrow> moved st name ip s' r s'' \<Longrightarrow> moved st name ip s r s''"
  by (auto simp: moved_def intro: only_node_trans)

lemma not_moved: "only_node name (st s) (st s') \<Longrightarrow> moved st name ip s (Inl e) s'"
  by (simp add: moved_def)

lemma attemptUpdate_stored:
  fixes w :: "('s, 'm) watch_world_scheme"
  assumes "node_store A W st" and "\<And>nd. got = Inr nd \<Longrightarrow> st (srv w) name = Some nd"
    and "\<And>v :: ('s, 'm) watch_world_scheme. tspec retry v (\<lambda>r es w'. moved st name ip (srv v) r (srv w'))"
  shows "tspec (attemptUpdate W name ip final retry got) w (\<lambda>r es w'. moved st name ip (srv w) r (srv w'))"
proof (cases got)
  case (Inr nd)
  have retry: "tspec retry v (\<lambda>r es w'. moved st name ip (srv w) r (srv w'))" if "only_node name (st (srv w)) (st (srv v))"
    for v :: "('s, 'm) watch_world_scheme"
    by (rule tspec_mono [OF assms(3)]) (rule moved_after [where st = st, OF that])
  show ?thesis
    unfolding attemptUpdate_def Inr sum.case
  proof (rule tspec_if, rule tspec_return)
    assume "getVNodeInternalIP nd = ip"
    with assms(2) [OF Inr] show "moved st name ip (srv w) (Inr ()) (srv w)"
      by (simp add: moved_def only_node_refl)
  next
    let ?rest = "\<lambda>r :: node res. case r of Inr _ \<Rightarrow> return (Inr ())
        | Inl err \<Rightarrow> (if isConflictError err then retry
               else if isForbiddenError err then return (Inl (Wrapf ''VNode status patch forbidden'' err))
               else if final then return (Inl (Wrapf ''failed to patch VNode after 3 attempts'' err)) else retry)"
    show "tspec (patchAnnotation W name ip nd \<bind> (\<lambda>p. sendPatch W (createVNodeIPPatch name p ip) \<bind> ?rest)) w
        (\<lambda>r es w'. moved st name ip (srv w) r (srv w'))"
    proof (rule tspec_bind, rule tspec_mono [OF patchAnnotation_stored [where ip = ip, OF assms(1) assms(2) [OF Inr]]])
      fix p es and v :: "('s, 'm) watch_world_scheme"
      assume v: "only_node name (st (srv w)) (st (srv v)) \<and> st (srv v) name = Some p"
      have name: "patched_node (createVNodeIPPatch name p ip) = name"
        by (simp add: createVNodeIPPatch_def split: option.split)
      show "tspec (sendPatch W (createVNodeIPPatch name p ip) \<bind> ?rest) v (\<lambda>r es' w'. moved st name ip (srv w) r (srv w'))"
      proof (rule tspec_bind, rule tspec_mono [OF sent_stored [OF assms(1) name v [THEN conjunct2] createVNodeIPPatch_applied(2)]])
        fix r :: "node res" and es' and u :: "('s, 'm) watch_world_scheme"
        assume u: "only_node name (st (srv v)) (st (srv u)) \<and> (case r of Inl _ \<Rightarrow> st (srv u) name = Some p
            | Inr nd \<Rightarrow> apply_patch (createVNodeIPPatch name p ip) p = Some nd \<and> st (srv u) name = Some nd)"
        then have far: "only_node name (st (srv w)) (st (srv u))" using v by (blast intro: only_node_trans)
        with u show "tspec (?rest r) u (\<lambda>r' es'' w'. moved st name ip (srv w) r' (srv w'))"
          by (cases r) (auto simp: moved_def dest: createVNodeIPPatch_applied(1)
              intro!: tspec_return tspec_if retry [unfolded moved_def])
      qed simp_all
    qed
  qed
qed (use assms(3) in \<open>auto simp: attemptUpdate_def intro!: tspec_return not_moved only_node_refl\<close>)

lemma tryUpdate_stored:
  assumes "node_store A W st"
  shows "tspec (tryUpdate A W name ip n) (w :: ('s, 'm) watch_world_scheme) (\<lambda>r es w'. moved st name ip (srv w) r (srv w'))"
proof (induction n arbitrary: w)
  case (Suc left)
  have pause: "tspec (pauseBefore W k) w (\<lambda>_ es v. st (srv v) = st (srv w))" for k and w :: "('s, 'm) watch_world_scheme"
    using assms by (auto simp: pauseBefore_def tspec_def outside_def node_store_def)
  show ?case
    unfolding tryUpdate.simps
  proof (rule tspec_bind, rule tspec_mono [OF pause], rule tspec_bind, rule tspec_mono [OF get_stored [OF assms]])
    fix u es and got :: "node res" and es' and v v' :: "('s, 'm) watch_world_scheme"
    assume same: "st (srv v) = st (srv w)" "st (srv v') = st (srv v) \<and> (\<forall>nd. got = Inr nd \<longrightarrow> st (srv v) name = Some nd)"
    show "tspec (attemptUpdate W name ip (left = 0) (tryUpdate A W name ip left :: ('s, 'm, unit res) watch_prog) got) v'
        (\<lambda>r es'' w'. moved st name ip (srv w) r (srv w'))"
      by (rule tspec_mono [OF attemptUpdate_stored [OF assms _ Suc.IH]]) (use same in \<open>auto simp: moved_def\<close>)
  qed
qed (simp add: tspec_return not_moved only_node_refl)

section \<open>Consequences\<close>

text \<open>
  C30. On a server that keeps the nodes and that nobody else writes to, updating a virtual node touches no other node, and on it only
  the internal address and the annotation with the Prometheus address; when the update reports success the node has the new
  address, whatever failed on the way.
\<close>

theorem vnode_moved:
  assumes "node_store A W st"
  shows "tspec (updateVNodeIPWithRetry A W name ip) (w :: ('s, 'm) watch_world_scheme) (\<lambda>r es w'.
    (\<forall>m. m \<noteq> name \<longrightarrow> st (srv w') m = st (srv w) m) \<and> rel_option touched (st (srv w) name) (st (srv w') name) \<and>
    (r = Inr () \<longrightarrow> (\<exists>nd. st (srv w') name = Some nd \<and> getVNodeInternalIP nd = ip)))"
  unfolding updateVNodeIPWithRetry_def
  by (rule tspec_mono [OF tryUpdate_stored [OF assms]]) (simp add: moved_def only_node_def)

text \<open>A server of that kind.\<close>

definition table_api :: "(string \<rightharpoonup> node) api" where
  "table_api = (let no = Inl (ApiError ''not served'') in \<lparr>
     api_get = (\<lambda>c k ns n s. (if k = KNode then (case s n of Some nd \<Rightarrow> Inr (ONode nd) | None \<Rightarrow> Inl (NotFound n)) else no, s)),
     api_list = (\<lambda>c k lo s. (Inl (ApiError ''not served''), s)), api_create = (\<lambda>c ob s. (no, s)), api_update = (\<lambda>c ob s. (no, s)),
     api_status_update = (\<lambda>c ob s. (no, s)), api_patch = (\<lambda>c b ob s. (no, s)), api_status_patch = (\<lambda>c b ob s. (no, s)),
     api_patch_label = (\<lambda>c ob k v s. (no, s)), api_delete = (\<lambda>c k ns n opts s. (Inl (ApiError ''not served''), s)),
     api_sub_patch = (\<lambda>c sub b ob s. (no, s)), api_sub_update = (\<lambda>c sub ob s. (no, s)),
     api_create_token = (\<lambda>ns n tr s. (Inl (ApiError ''not served''), s)), api_rand = (\<lambda>s. (0, s)),
     api_clock = (\<lambda>s. (\<lparr>ckNow = 0, ckWeekday = '''', ckHHMM = '''', ckRFC3339 = ''''\<rparr>, s))\<rparr>)"

definition table_lib :: "(string \<rightharpoonup> node) watch_lib" where
  "table_lib = \<lparr>wlPatch = (\<lambda>p s. case Option.bind (s (patched_node p)) (apply_patch p) of
       None \<Rightarrow> (Inl (NotFound (patched_node p)), s) | Some nd \<Rightarrow> (Inr nd, s(patched_node p \<mapsto> nd))),
     wlWait = (\<lambda>s. (Inr (), s)), wlSleep = (\<lambda>_ s. s)\<rparr>"

lemma table_stores: "node_store table_api table_lib id"
  unfolding node_store_def
  by (auto simp: table_api_def table_lib_def Let_def bind_eq_Some_conv split: option.splits if_splits)

definition moved_away :: "(string \<rightharpoonup> node) watch_world" where
  "moved_away = \<lparr>srv = [''v1'' \<mapsto> empty_node\<lparr>nAddresses := [\<lparr>aType = ''Hostname'', aAddress = ''v1''\<rparr>,
       \<lparr>aType = ''InternalIP'', aAddress = ''10.0.0.1''\<rparr>]\<rparr>], hist = [], wwPatches = []\<rparr>"

theorem vnode_moved_witness:
  "\<exists>w' nd. run_state (updateVNodeIPWithRetry table_api table_lib ''v1'' ''10.0.0.2'') moved_away = (Inr (), w') \<and>
     srv w' ''v1'' = Some nd \<and> getVNodeInternalIP nd = ''10.0.0.2'' \<and> srv w' ''v2'' = srv moved_away ''v2''"
proof -
  obtain r w' where run: "run_state (updateVNodeIPWithRetry table_api table_lib ''v1'' ''10.0.0.2'') moved_away = (r, w')"
    by (cases "run_state (updateVNodeIPWithRetry table_api table_lib ''v1'' ''10.0.0.2'') moved_away")
  have "fst (run_state (updateVNodeIPWithRetry table_api table_lib ''v1'' ''10.0.0.2'') moved_away) = Inr ()"
    by (simp add: updateVNodeIPWithRetry_def watchRetries_def numeral_3_eq_3 attemptUpdate_def patchAnnotation_def pauseBefore_def
        sendPatch_def outside_def run_ops decode_def run_state_bind table_api_def table_lib_def moved_away_def getVNodeInternalIP_def
        createVNodeIPPatch_def empty_node_def empty_meta_def Let_def)
  with run have "r = Inr ()" by simp
  with tspec_run [OF vnode_moved [OF table_stores] run] run show ?thesis by auto
qed

text \<open>
  Failed updates go unnoticed: unless the rate limiter fails, the loop over the virtual nodes succeeds without a later
  reconciliation, even if no node could be updated.
\<close>

theorem failures_unreported:
  assumes "\<And>s. \<exists>s'. wlWait W s = (Inr (), s')"
  shows "tspec (updateVNodes A W ips targetIP vNodes) (w :: ('s, 'm) watch_world_scheme) (\<lambda>r _ _. r = Inr (Result 0))"
proof (induction vNodes arbitrary: w)
  case (Cons vNode vNodes)
  have wait: "tspec (outside (wlWait W)) w (\<lambda>r _ _. r = Inr ())" for w :: "('s, 'm) watch_world_scheme"
    using assms [of "srv w"] by (auto simp: tspec_def outside_def)
  have any: "tspec (updateVNodeIP A W vNode targetIP) w (\<lambda>_ _ _. True)" for w :: "('s, 'm) watch_world_scheme"
    using calls_updateVNodeIP [of A W vNode targetIP] by (auto simp: calls_def intro: tspec_mono)
  show ?case
    by (auto intro!: tspec_bind tspec_mono [OF wait] tspec_mono [OF any] Cons.IH)
qed (simp add: tspec_return)

text \<open>
  An address patch names a place in the list, not an address: made for a list that was read before, it can overwrite another
  address, here that of the host name.
\<close>

theorem stale_index:
  "apply_patch (createVNodeIPPatch ''v1'' (empty_node\<lparr>nAddresses := [\<lparr>aType = ''InternalIP'', aAddress = ''10.0.0.1''\<rparr>,
        \<lparr>aType = ''Hostname'', aAddress = ''v1''\<rparr>]\<rparr>) ''10.0.0.2'')
     (empty_node\<lparr>nAddresses := [\<lparr>aType = ''Hostname'', aAddress = ''v1''\<rparr>, \<lparr>aType = ''InternalIP'', aAddress = ''10.0.0.1''\<rparr>]\<rparr>) =
   Some (empty_node\<lparr>nAddresses := [\<lparr>aType = ''Hostname'', aAddress = ''10.0.0.2''\<rparr>,
     \<lparr>aType = ''InternalIP'', aAddress = ''10.0.0.1''\<rparr>]\<rparr>)"
  by (simp add: createVNodeIPPatch_def)

text \<open>
  The two controllers that write the Prometheus address of a virtual node agree on it only if the port of its label is the base port:
  the node controller takes the base port, the watch the port of the label. The ports that are given to nodes begin at 15000, the
  base port is 9006 by default, so they do not agree.
\<close>

theorem prometheus_addresses_disagree:
  assumes "ip \<noteq> ''''" and "0 \<le> PrometheusVNodeBasePort r" and "PrometheusVNodeBasePort r < portMin" and "portMin \<le> port" and "port \<le> portMax"
  shows "prometheusURL r n ip \<noteq> newPrometheusURL ip (Itoa port) (generateVirtualNodeName r (mName (nMeta n)))"
proof
  let ?base = "if PrometheusVNodeBasePort r = 0 then 9006 else PrometheusVNodeBasePort r"
  assume "prometheusURL r n ip = newPrometheusURL ip (Itoa port) (generateVirtualNodeName r (mName (nMeta n)))"
  then have "Itoa ?base = Itoa port"
    using assms(1) by (simp add: prometheusURL_def newPrometheusURL_def Let_def)
  then have "?base = port"
    by (rule Itoa_inject) (use assms(2-5) in \<open>simp_all add: portMin_def portMax_def int64_min_def int64_max_def\<close>)
  with assms(3,4) show False by (simp add: portMin_def split: if_splits)
qed

end
