(* ===== verification/Token_GC.thy ===== *)
theory Token_GC
  imports Pod_Sync_Down
begin

text \<open>
  The garbage collection of \<^verbatim>\<open>pkg/syncer/topdown/topdown_syncer.go\<close>: every five minutes the secrets that hold service account tokens
  are listed, and those whose virtual pod is gone are deleted. \<open>stopped\<close> is the test of the context before each secret; the
  counters only go to the log.
\<close>

definition tokenSecretsOf :: "cluster_binding \<Rightarrow> list_opts" where
  "tokenSecretsOf b = \<lparr>loNamespace = Some (bMountNamespace b), loLabels = [(LabelServiceAccountToken, ''true'')], loNodeName = None\<rparr>"

definition shouldDeleteServiceAccountTokenSecret :: "'s api \<Rightarrow> secret \<Rightarrow> ('s, 'm, bool) prog" where
  "shouldDeleteServiceAccountTokenSecret A s =
    (let virtualPodName = mget (mAnnotations (seMeta s)) AnnotationVirtualPodName;
         virtualPodNamespace = mget (mAnnotations (seMeta s)) AnnotationVirtualPodNamespace;
         virtualPodUID = mget (mAnnotations (seMeta s)) AnnotationVirtualPodUID
     in if virtualPodName = '''' \<or> virtualPodNamespace = '''' then return True
        else do {
          got \<leftarrow> get_pod A VirtualClient virtualPodNamespace virtualPodName;
          return (case got of
              Inl err \<Rightarrow> IsNotFound err
            | Inr virtualPod \<Rightarrow> virtualPodUID \<noteq> '''' \<and> mUID (poMeta virtualPod) \<noteq> virtualPodUID)
        })"

fun collectTokens :: "'s api \<Rightarrow> ('s \<Rightarrow> bool \<times> 's) \<Rightarrow> secret list \<Rightarrow> ('s, 'm, unit) prog" where
  "collectTokens A stopped [] = return ()"
| "collectTokens A stopped (s # secrets) = do {
     cancelled \<leftarrow> outside stopped;
     if cancelled then return ()
     else do {
       orphan \<leftarrow> shouldDeleteServiceAccountTokenSecret A s;
       if orphan then do {
         _ \<leftarrow> Delete A PhysicalClient KSecret (mNamespace (seMeta s)) (mName (seMeta s)) no_opts;
         collectTokens A stopped secrets
       } else collectTokens A stopped secrets
     }
   }"

definition listServiceAccountTokenSecrets :: "'s api \<Rightarrow> cluster_binding \<Rightarrow> ('s, 'm, secret list res) prog" where
  "listServiceAccountTokenSecrets A b =
     on_ok_wrap ''failed to list serviceAccountToken secrets'' (ListObjs A PhysicalClient KSecret (tokenSecretsOf b))
       (\<lambda>obs. return (Inr (List.map_filter the_secret obs)))"

definition runServiceAccountTokenGC :: "'s api \<Rightarrow> ('s \<Rightarrow> bool \<times> 's) \<Rightarrow> cluster_binding \<Rightarrow> ('s, 'm, unit) prog" where
  "runServiceAccountTokenGC A stopped b = do {
     listed \<leftarrow> listServiceAccountTokenSecrets A b;
     case listed of Inl _ \<Rightarrow> return () | Inr secrets \<Rightarrow> collectTokens A stopped secrets
   }"

section \<open>What is collected\<close>

text \<open>The answer says that the pod of the secret is gone, or another one has its name.\<close>

definition pod_gone :: "string \<Rightarrow> obj res \<Rightarrow> bool" where
  "pod_gone uid r \<longleftrightarrow> (case r of
      Inl err \<Rightarrow> IsNotFound err
    | Inr ob \<Rightarrow> (case ob of OPod vp \<Rightarrow> uid \<noteq> '''' \<and> mUID (poMeta vp) \<noteq> uid | _ \<Rightarrow> False))"

definition orphaned :: "secret \<Rightarrow> event list \<Rightarrow> bool" where
  "orphaned s es \<longleftrightarrow> (let an = mget (mAnnotations (seMeta s)) in
     an AnnotationVirtualPodName = '''' \<or> an AnnotationVirtualPodNamespace = '''' \<or>
     (\<exists>r. EvGet VirtualClient KPod (an AnnotationVirtualPodNamespace) (an AnnotationVirtualPodName) r \<in> set es \<and>
        pod_gone (an AnnotationVirtualPodUID) r))"

definition gc_guard :: "cluster_binding \<Rightarrow> event list \<Rightarrow> event \<Rightarrow> bool" where
  "gc_guard b es e \<longleftrightarrow> (is_write e \<longrightarrow> (\<exists>obs s r. EvList PhysicalClient KSecret (tokenSecretsOf b) (Inr obs) \<in> set es \<and>
     OSecret s \<in> set obs \<and> orphaned s es \<and> e = EvDelete PhysicalClient KSecret (mNamespace (seMeta s)) (mName (seMeta s)) no_opts r))"

lemma gc_reads [simp]: "gc_guard b es (EvGet c k ns n r)" "gc_guard b es (EvList c k lo r')"
  by (simp_all add: gc_guard_def)

lemma decoded_gone:
  "(case decode the_pod r of Inl err \<Rightarrow> IsNotFound err | Inr vp \<Rightarrow> uid \<noteq> '''' \<and> mUID (poMeta vp) \<noteq> uid) \<longleftrightarrow> pod_gone uid r"
  by (auto simp: pod_gone_def decode_def split: sum.split option.split obj.split)

lemma guarded_shouldDelete:
  "guarded (gc_guard b) es (shouldDeleteServiceAccountTokenSecret A s) (\<lambda>orphan es'. (\<exists>ds. es' = es @ ds) \<and> (orphan \<longrightarrow> orphaned s es'))"
  unfolding shouldDeleteServiceAccountTokenSecret_def Let_def get_pod_def
  by (intro gvcg) (auto simp: orphaned_def Let_def decoded_gone)

lemma guarded_collectTokens:
  assumes "EvList PhysicalClient KSecret (tokenSecretsOf b) (Inr obs) \<in> set es" and "\<forall>s\<in>set secrets. OSecret s \<in> set obs"
  shows "guarded (gc_guard b) es (collectTokens A stopped secrets :: ('s, 'm, unit) prog) (\<lambda>_ _. True)"
  using assms
proof (induction secrets arbitrary: es)
  case (Cons s secrets)
  have rest: "guarded (gc_guard b) (es @ ds) (collectTokens A stopped secrets :: ('s, 'm, unit) prog) (\<lambda>_ _. True)" for ds
    by (rule Cons.IH) (use Cons.prems in auto)
  show ?case
    unfolding collectTokens.simps
  proof (intro guarded_bind guarded_outside guarded_if guarded_return TrueI, rule guarded_mono [OF guarded_shouldDelete])
    fix cancelled orphan es'
    assume es': "(\<exists>ds. es' = es @ ds) \<and> (orphan \<longrightarrow> orphaned s es')"
    then obtain ds where ds: "es' = es @ ds" by blast
    show "guarded (gc_guard b) es' (if orphan then Delete A PhysicalClient KSecret (mNamespace (seMeta s)) (mName (seMeta s)) no_opts \<bind>
          (\<lambda>_. collectTokens A stopped secrets) else collectTokens A stopped secrets :: ('s, 'm, unit) prog) (\<lambda>_ _. True)"
    proof (intro guarded_if guarded_bind guarded_ops)
      fix r assume "orphan"
      with es' Cons.prems ds show "gc_guard b es' (EvDelete PhysicalClient KSecret (mNamespace (seMeta s)) (mName (seMeta s)) no_opts r)"
        by (auto simp: gc_guard_def)
    qed (use rest ds in simp_all)
  qed
qed (simp add: guarded_return)

text \<open>
  C31. The collection of token secrets only deletes secrets, and only listed ones of the binding's mount namespace with the token label,
  of whatever cluster, whose virtual pod was asked for before and found to be gone or to have been replaced, or that name none.
\<close>

theorem token_gc_ordered:
  "tspec (runServiceAccountTokenGC A stopped b) w (\<lambda>_ evs _. ordered (gc_guard b) [] evs)"
  unfolding runServiceAccountTokenGC_def listServiceAccountTokenSecrets_def
  by (rule guarded_ordered [where Q = "\<lambda>_ _. True"], intro gvcg)
    (auto simp: map_filter_def the_obj_Some split: sum.split intro!: gvcg guarded_collectTokens)

text \<open>
  The secret the virtual pod controller makes for a pod is collected exactly when the answer about that pod says that it is gone or
  has another UID.
\<close>

theorem built_token_collected:
  assumes "mName (poMeta v) \<noteq> ''''" and "mNamespace (poMeta v) \<noteq> ''''"
  shows "tspec (shouldDeleteServiceAccountTokenSecret A (tokenSecret v ns n token)) w (\<lambda>orphan evs _.
    \<exists>r. evs = [EvGet VirtualClient KPod (mNamespace (poMeta v)) (mName (poMeta v)) r] \<and> (orphan \<longleftrightarrow> pod_gone (mUID (poMeta v)) r))"
proof -
  have an: "mget (mAnnotations (seMeta (tokenSecret v ns n token))) AnnotationVirtualPodName = mName (poMeta v)"
      "mget (mAnnotations (seMeta (tokenSecret v ns n token))) AnnotationVirtualPodNamespace = mNamespace (poMeta v)"
      "mget (mAnnotations (seMeta (tokenSecret v ns n token))) AnnotationVirtualPodUID = mUID (poMeta v)"
    by (simp_all add: tokenSecret_def mget_def kube_consts)
  show ?thesis
    unfolding shouldDeleteServiceAccountTokenSecret_def Let_def an get_pod_def decoded_gone
    by (intro vcg) (use assms in \<open>auto simp: decoded_gone\<close>)
qed

theorem built_token_collected_witness:
  "let v = empty_pod\<lparr>poMeta := empty_meta\<lparr>mName := ''p'', mNamespace := ''d'', mUID := ''u1''\<rparr>\<rparr>
   in tspec (shouldDeleteServiceAccountTokenSecret scripted (tokenSecret v ''m'' ''s'' ''t''))
     \<lparr>srv = [AObj (Inl (NotFound ''p''))], hist = []\<rparr> (\<lambda>orphan evs _.
       \<exists>r. evs = [EvGet VirtualClient KPod ''d'' ''p'' r] \<and> (orphan \<longleftrightarrow> pod_gone ''u1'' r))"
  unfolding Let_def
  using built_token_collected [of "empty_pod\<lparr>poMeta := empty_meta\<lparr>mName := ''p'', mNamespace := ''d'', mUID := ''u1''\<rparr>\<rparr>"
      scripted "''m''" "''s''" "''t''" "\<lparr>srv = [AObj (Inl (NotFound ''p''))], hist = []\<rparr>"]
  by simp

end
