(* ===== verification/Proxier_Setup.thy ===== *)
theory Proxier_Setup
  imports Cert_Manager Proxier_Access
begin

text \<open>
  The certificate and server configuration of \<^verbatim>\<open>cmd/kubeocean-proxier/main.go\<close>: which secret the proxier serves with (command line,
  annotation of the binding, or its own), what it checks of a secret that is given, and how its two servers are configured with it.
  \<open>clientset\<close> is the result of \<^verbatim>\<open>kubernetes.NewForConfig\<close>; \<open>keyParses\<close> says whether one of the three parsers of private keys accepts
  the block. The automatic renewal is the loop of \<open>Cert_Manager\<close>.
\<close>

record tls_options =
  toSecretName :: string
  toSecretNamespace :: string

record tls_setup =
  tsSecretName :: string
  tsSecretNamespace :: string
  tsAutoRenewal :: bool

definition getClusterBindingSecretAnnotation :: "cluster_binding \<Rightarrow> string" where
  "getClusterBindingSecretAnnotation b = mget (mAnnotations (bMeta b)) ''kubeocean.io/logs-proxy-secret-name''"

definition getClusterBindingSecretNamespaceAnnotation :: "cluster_binding \<Rightarrow> string" where
  "getClusterBindingSecretNamespaceAnnotation b = mget (mAnnotations (bMeta b)) ''kubeocean.io/logs-proxy-secret-namespace''"

text \<open>The errors all begin with the secret; only which check failed is kept of the rest.\<close>

definition tls_error :: "string \<Rightarrow> string \<Rightarrow> string \<Rightarrow> err" where
  "tls_error ns name what = Errorf (''TLS secret '' @ ns @ ''/'' @ name @ '' '' @ what)"

text \<open>The checks of the data, before and after the time is read.\<close>

definition checkCertificate :: "'s x509_lib \<Rightarrow> string \<Rightarrow> string \<Rightarrow> secret \<Rightarrow> (certificate \<times> string) res" where
  "checkCertificate X ns name s =
    (if seType s \<noteq> ''kubernetes.io/tls'' then Inl (tls_error ns name ''is not of type kubernetes.io/tls'')
     else case seData s ''tls.crt'' of
       None \<Rightarrow> Inl (tls_error ns name ''missing required tls.crt field'')
     | Some certData \<Rightarrow> (case seData s ''tls.key'' of
         None \<Rightarrow> Inl (tls_error ns name ''missing required tls.key field'')
       | Some keyData \<Rightarrow>
          (if certData = '''' then Inl (tls_error ns name ''has empty tls.crt field'')
           else if keyData = '''' then Inl (tls_error ns name ''has empty tls.key field'')
           else case xDecodePEM X certData of
             None \<Rightarrow> Inl (tls_error ns name ''contains invalid certificate PEM data'')
           | Some block \<Rightarrow> (case xParseCertificate X block of
               Inl err \<Rightarrow> Inl (Wrapf (''TLS secret '' @ ns @ ''/'' @ name @ '' contains invalid certificate'') err)
             | Inr cert \<Rightarrow> Inr (cert, keyData)))))"

definition checkKey :: "'s x509_lib \<Rightarrow> (string \<Rightarrow> bool) \<Rightarrow> string \<Rightarrow> string \<Rightarrow> string \<Rightarrow> unit res" where
  "checkKey X keyParses ns name keyData = (case xDecodePEM X keyData of
     None \<Rightarrow> Inl (tls_error ns name ''contains invalid private key PEM data'')
   | Some block \<Rightarrow> (if keyParses block then Inr () else Inl (tls_error ns name ''contains unsupported private key format'')))"

definition validateExternalTLSSecret ::
  "'s api \<Rightarrow> 's x509_lib \<Rightarrow> (string \<Rightarrow> bool) \<Rightarrow> string \<Rightarrow> string \<Rightarrow> ('s, 'm, unit res) prog" where
  "validateExternalTLSSecret A X keyParses name ns =
     on_ok_wrap (''failed to get TLS secret '' @ ns @ ''/'' @ name) (get_secret A VirtualClient ns name) (\<lambda>s.
       case checkCertificate X ns name s of
         Inl err \<Rightarrow> return (Inl err)
       | Inr (cert, keyData) \<Rightarrow> do {
           now \<leftarrow> Now A;
           if ckNow now > crNotAfter cert then return (Inl (tls_error ns name ''is expired''))
           else return (checkKey X keyParses ns name keyData)
         })"

definition setupTLSConfiguration ::
  "'s api \<Rightarrow> 's x509_lib \<Rightarrow> 's cert_env \<Rightarrow> (string \<Rightarrow> bool) \<Rightarrow> unit res \<Rightarrow> tls_options \<Rightarrow> cluster_binding \<Rightarrow> ('s, 'm, tls_setup res) prog" where
  "setupTLSConfiguration A X E keyParses clientset opts b = (case clientset of
     Inl err \<Rightarrow> return (Inl (Wrapf ''unable to create virtual cluster clientset'' err))
   | Inr _ \<Rightarrow>
      (if toSecretName opts \<noteq> '''' \<and> toSecretNamespace opts \<noteq> '''' then
         on_ok_wrap ''external TLS secret validation failed''
           (validateExternalTLSSecret A X keyParses (toSecretName opts) (toSecretNamespace opts))
           (\<lambda>_. return (Inr \<lparr>tsSecretName = toSecretName opts, tsSecretNamespace = toSecretNamespace opts, tsAutoRenewal = False\<rparr>))
       else if getClusterBindingSecretAnnotation b \<noteq> '''' then
         (let name = getClusterBindingSecretAnnotation b;
              ns = (if getClusterBindingSecretNamespaceAnnotation b = '''' then mNamespace (bMeta b)
                    else getClusterBindingSecretNamespaceAnnotation b)
          in on_ok_wrap ''clusterBinding annotated TLS secret validation failed'' (validateExternalTLSSecret A X keyParses name ns)
            (\<lambda>_. return (Inr \<lparr>tsSecretName = name, tsSecretNamespace = ns, tsAutoRenewal = False\<rparr>)))
       else
         on_ok_wrap ''failed to get or create TLS secret'' (GetOrCreateTLSSecret X E A (NewCertificateManager b ''kubeocean-system''))
           (\<lambda>s. return (Inr \<lparr>tsSecretName = mName (seMeta s), tsSecretNamespace = mNamespace (seMeta s), tsAutoRenewal = True\<rparr>))))"

text \<open>The configuration of the server for logs and commands, and that of the agent.\<close>

definition proxierServer :: "tls_setup \<Rightarrow> server_config" where
  "proxierServer t = \<lparr>scTLSConfig = True, scSecretName = tsSecretName t, scSecretNamespace = tsSecretNamespace t,
     scAllowUnauthenticatedClients = True\<rparr>"

definition agentServer :: "tls_setup \<Rightarrow> server_config" where
  "agentServer t = \<lparr>scTLSConfig = True, scSecretName = tsSecretName t, scSecretNamespace = tsSecretNamespace t,
     scAllowUnauthenticatedClients = False\<rparr>"

section \<open>Properties\<close>

text \<open>A secret that was read and is fit to serve with at that time.\<close>

definition checked :: "'s x509_lib \<Rightarrow> (string \<Rightarrow> bool) \<Rightarrow> string \<Rightarrow> string \<Rightarrow> event list \<Rightarrow> bool" where
  "checked X keyParses ns name es \<longleftrightarrow> (\<exists>s now certData keyData certBlock cert keyBlock.
     es = [EvGet VirtualClient KSecret ns name (Inr (OSecret s)), EvClock now] \<and> seType s = ''kubernetes.io/tls'' \<and>
     seData s ''tls.crt'' = Some certData \<and> seData s ''tls.key'' = Some keyData \<and>
     xDecodePEM X certData = Some certBlock \<and> xParseCertificate X certBlock = Inr cert \<and> ckNow now \<le> crNotAfter cert \<and>
     xDecodePEM X keyData = Some keyBlock \<and> keyParses keyBlock)"

lemma checkCertificate_Inr:
  "checkCertificate X ns name s = Inr (cert, keyData) \<longleftrightarrow> seType s = ''kubernetes.io/tls'' \<and> seData s ''tls.key'' = Some keyData \<and> keyData \<noteq> '''' \<and>
     (\<exists>certData block. seData s ''tls.crt'' = Some certData \<and> certData \<noteq> '''' \<and> xDecodePEM X certData = Some block \<and>
        xParseCertificate X block = Inr cert)"
  by (auto simp: checkCertificate_def split: option.splits sum.splits if_splits)

lemma checkKey_Inr: "checkKey X keyParses ns name keyData = Inr () \<longleftrightarrow> (\<exists>block. xDecodePEM X keyData = Some block \<and> keyParses block)"
  by (auto simp: checkKey_def split: option.splits)

lemma validateExternalTLSSecret_spec:
  "tspec (validateExternalTLSSecret A X keyParses name ns) w (\<lambda>r es _. r = Inr () \<longrightarrow> checked X keyParses ns name es)"
  unfolding validateExternalTLSSecret_def get_secret_def
  by (intro vcg conjI allI impI) (auto simp: decode_simps checkCertificate_Inr checkKey_Inr checked_def not_less)

lemma ordered_GetOrCreate: "tspec (GetOrCreateTLSSecret X E A cm) w (\<lambda>_ es _. ordered (cert_guard X cm) [] es)"
proof (rule guarded_ordered)
  show "guarded (cert_guard X cm) [] (GetOrCreateTLSSecret X E A cm) (\<lambda>_ _. True)"
    unfolding GetOrCreateTLSSecret_def
    by (intro guarded_bind_then [OF guarded_getExistingSecret] guarded_sum guarded_return TrueI
        guarded_createTLSSecretWithAutoApproval)
qed

text \<open>
  A secret that is given, on the command line before the annotation of the binding, is used only after it was read and found to be a TLS
  secret whose certificate is valid now and whose key can be parsed. Without one the proxier's own certificate is used, every write
  for it comes after what justifies it, and only then is there a renewal.
\<close>

theorem served_secret_checked:
  "tspec (setupTLSConfiguration A X E keyParses clientset opts b) w (\<lambda>r es _. case r of
     Inl _ \<Rightarrow> True
   | Inr t \<Rightarrow>
      (if toSecretName opts \<noteq> '''' \<and> toSecretNamespace opts \<noteq> ''''
       then tsSecretName t = toSecretName opts \<and> tsSecretNamespace t = toSecretNamespace opts \<and> \<not> tsAutoRenewal t \<and>
         checked X keyParses (tsSecretNamespace t) (tsSecretName t) es
       else if getClusterBindingSecretAnnotation b \<noteq> ''''
       then tsSecretName t = getClusterBindingSecretAnnotation b \<and> \<not> tsAutoRenewal t \<and>
         checked X keyParses (tsSecretNamespace t) (tsSecretName t) es
       else tsAutoRenewal t \<and> ordered (cert_guard X (NewCertificateManager b ''kubeocean-system'')) [] es))"
proof (cases clientset)
  case (Inr u)
  show ?thesis
    unfolding setupTLSConfiguration_def Inr sum.case Let_def
    by (intro vcg tspec_mono [OF validateExternalTLSSecret_spec] tspec_mono [OF ordered_GetOrCreate])
      (auto intro!: tspec_return)
qed (simp add: setupTLSConfiguration_def tspec_return)

text \<open>
  Whatever is configured, no server of the proxier asks its clients for a certificate, and both run commands: \<^verbatim>\<open>main\<close> allows
  unauthenticated clients always.
\<close>

theorem servers_open:
  "tspec (startServer A T listen hasClient (proxierServer t)) w (\<lambda>r _ _. case r of
      Inr (HTTPS c) \<Rightarrow> tcClientAuth c = NoClientCert | _ \<Rightarrow> True) \<and>
   tspec (agentTransport A T hasClient (agentServer t)) w' (\<lambda>r _ _. case r of HTTPS c \<Rightarrow> tcClientAuth c = NoClientCert | _ \<Rightarrow> True) \<and>
   serverRoutes ''POST'' [''exec'', ns, p, c] = Some (ExecRoute ns p c)"
proof (intro conjI)
  have loaded: "tspec (loadTLSConfigFromSecret A T hasClient (proxierServer t)) w
      (\<lambda>r _ _. \<forall>c. r = Inr c \<longrightarrow> tcClientAuth c = NoClientCert)" for w
    unfolding loadTLSConfigFromSecret_def get_secret_def
    by (intro vcg conjI allI impI) (auto simp: proxierServer_def Let_def split: sum.splits if_splits)
  show "tspec (startServer A T listen hasClient (proxierServer t)) w (\<lambda>r _ _. case r of
      Inr (HTTPS c) \<Rightarrow> tcClientAuth c = NoClientCert | _ \<Rightarrow> True)"
    unfolding startServer_def
    by (intro vcg tspec_mono [OF loaded]) (auto intro!: tspec_outside tspec_return vcg split: sum.split)
  show "tspec (agentTransport A T hasClient (agentServer t)) w' (\<lambda>r _ _. case r of HTTPS c \<Rightarrow> tcClientAuth c = NoClientCert | _ \<Rightarrow> True)"
    unfolding agentTransport_def loadAgentTLSConfig_def get_secret_def
    by (intro vcg conjI allI impI) (auto simp: map_sum_eq split: sum.splits)
  show "serverRoutes ''POST'' [''exec'', ns, p, c] = Some (ExecRoute ns p c)"
    by (simp add: serverRoutes_def)
qed

end
