(* ===== verification/Spec2Isabelle.thy ===== *)
theory Spec2Isabelle
  imports
    Time_Windows
    Node_Selector
    Port_Allocator
    Resource_Leasing
    Node_Metadata
    Node_Controller
    Node_Lifecycle
    Policy_Controller
    Pod_Sync_Up
    Host_Ports
    Pod_Sync_Order
    Binding_Syncer
    CSINode_Controller
    Lease_Controller
    Metrics_Export
    Binding_Manager
    Log_Config
    Proxier_Nodes
    Proxier_Streams
    Syncer_Metrics
    Manager_Metrics
    Proxier_Watch
    Token_GC
    Proxier_Setup
begin

text \<open>
  Kubeocean leases nodes of physical clusters to a virtual cluster. For every cluster binding a
  syncer runs controllers in two directions. Bottom-up, physical nodes become virtual nodes that
  offer what leasing policies allow, the status of physical pods goes to the virtual pods, and
  host ports taken on a physical node are reserved on the virtual one. Top-down, pods of the
  virtual cluster and what they depend on are copied to the physical cluster. Every controller
  reads and writes through the API servers of the two clusters and keeps at most a small cache.

  The theories and the code they model:

  \<^item> \<open>Kube_Prelude\<close>, \<open>Go_Md5\<close>, \<open>Go_Time\<close>: what the sources use of Go and its standard library
    (strings, \<^verbatim>\<open>strconv\<close>, \<^verbatim>\<open>int64\<close> and \<^verbatim>\<open>int32\<close> wrap-around, MD5 on 32-bit words, RFC 3339
    times) and lemmas on maps and lists.
  \<^item> \<open>Kube_Objects\<close>: \<^verbatim>\<open>api/v1beta1\<close> (constants and the two custom resources) and the fields of
    Kubernetes objects the program uses.
  \<^item> \<open>Kube_Api\<close>: the API servers and the clock as a parameter of every controller, programs in the
    state monad over server state, history of calls and memory, and the rules for reasoning about
    them: \<open>vcg\<close> for specifications, \<open>quiet_rules\<close> and \<open>calls_rules\<close> for the calls a program makes,
    \<open>keeps_rules\<close> for invariants of its memory. Nothing is assumed about the answers.
  \<^item> \<open>Naming\<close>: \<^verbatim>\<open>pkg/utils/node.go\<close>, \<^verbatim>\<open>pkg/utils/pod.go\<close>, \<^verbatim>\<open>GeneratePhysicalResourceName\<close>.
    Lengths and distinctness of generated names.
  \<^item> \<open>Time_Windows\<close>: \<^verbatim>\<open>api/v1beta1/resourceleasingpolicy_types.go\<close>. The comparison of times as
    strings agrees with minutes of the day.
  \<^item> \<open>Node_Selector\<close>: \<^verbatim>\<open>pkg/utils/node_selector.go\<close>, over the selector library as a parameter.
  \<^item> \<open>Port_Allocator\<close>, \<open>Resource_Leasing\<close>, \<open>Node_Metadata\<close>, \<open>Node_Controller\<close>, \<open>Node_Lifecycle\<close>:
    \<^verbatim>\<open>pkg/syncer/bottomup/node/physical_node_controller.go\<close>. The port cache (a state machine with
    an invariant by rule induction; the locale \<open>port_allocator\<close> is what the controller relies on; the labels listed at the start are to be distinct and in range);
    what a node offers, over the quantity library as a parameter; the merge of metadata with user
    customizations; the reconciler with all its handlers; and what the reconciler may write, evict
    and release.
  \<^item> \<open>Policy_Controller\<close>: \<^verbatim>\<open>pkg/syncer/bottomup/rlp\<close> and \<^verbatim>\<open>bottomup_syncer.go\<close>, joined by the
    locale \<open>node_requeuer\<close>: a change of a policy enqueues exactly the listed nodes its selector matches.
  \<^item> \<open>Pod_Sync_Up\<close>: \<^verbatim>\<open>pkg/syncer/bottomup/pod/physical_pod_controller.go\<close>.
  \<^item> \<open>Host_Ports\<close>: \<^verbatim>\<open>pkg/syncer/bottomup/hostport/hostport_node_controller.go\<close>.
  \<^item> \<open>Resource_Sync\<close>: \<^verbatim>\<open>pkg/syncer/topdown/common/common.go\<close>.
  \<^item> \<open>Synced_Resources\<close>: the ConfigMap, Secret, PV and PVC controllers under \<^verbatim>\<open>pkg/syncer/topdown\<close>.
    Every write comes after the reads that justify it (the judgement \<open>guarded\<close> of \<open>Kube_Api\<close>), the
    copies settle. An object is needed as long as some pod has asked for it since it was last found gone; the tables may keep a
    pod that was recreated with other references.
  \<^item> \<open>Pod_Spec\<close>, \<open>Token_Manager\<close>, \<open>Pod_Sync_Down\<close>, \<open>Pod_Sync_Order\<close>: \<^verbatim>\<open>pkg/syncer/topdown/pod\<close> and
    \<^verbatim>\<open>pkg/syncer/topdown/token\<close>. The rewriting of a pod for the physical cluster, the token cache (a
    state machine), the controller with all its handlers, and what it may do after which answers
    (\<open>pod_guard\<close>). This theory adds that the two pod controllers agree on which pods belong together.

  \<^item> \<open>Binding_Syncer\<close>: \<^verbatim>\<open>pkg/syncer/clusterbinding/clusterbinding.go\<close>, the syncer's controller for its own binding. What a
    change of the node selector puts on the queue, and what must be gone before a binding is released.
  \<^item> \<open>CSINode_Controller\<close>, \<open>Lease_Controller\<close>: the other two controllers under \<^verbatim>\<open>pkg/syncer/bottomup/node\<close>. The lease
    controller is a loop that never returns by itself; its rounds and its waiting take fuel, and the order of its calls
    (the judgement \<open>held\<close>, under an invariant of its memory) holds for every amount of it: a renewal needs a read of the node of its own.
  \<^item> \<open>Metrics_Parser\<close>, \<open>Metrics_Export\<close>: \<^verbatim>\<open>pkg/proxier/metrics_parser.go\<close> and \<^verbatim>\<open>pod_mapper.go\<close>. Every metric name has its
    own field, and what is written is exactly what was read; the locale \<open>exported_series\<close> is interpreted for the five kinds of objects.
  \<^item> \<open>Cert_Manager\<close>: \<^verbatim>\<open>pkg/proxier/cert_manager.go\<close>. Request, approval, storage, renewal and cleanup of the proxier's certificate;
    what each write rests on, and how many requests there are. A request that exists already is taken for its own.
  \<^item> \<open>Binding_Manager\<close>: \<^verbatim>\<open>pkg/manager/controller/clusterbinding_controller.go\<close>, the manager's controller that deploys a syncer and a
    proxier for a binding and removes them. The tables of cluster IDs (a state machine), with the deletions that keep them unique and the
    one that does not, and the order of its writes.
  \<^item> \<open>Go_Sha256\<close>, \<open>Log_Config\<close>: \<^verbatim>\<open>pkg/syncer/topdown/logconfig\<close>. What a LogConfig selects is rewritten for the physical cluster;
    outdated copies are deleted, waited for and created anew. Iteration over a Go map is an unknown order (\<open>pick\<close>).
  \<^item> \<open>Proxier_Summary\<close>, \<open>Proxier_Agent\<close>: \<^verbatim>\<open>pkg/proxier/metrics_collector.go\<close>. The summary of a virtual node, on 64-bit words that
    wrap around, and the agent with its HTTP servers. Goroutines are part of the state of the agent and run in any order
    (\<open>agent_reach\<close>); the invariants account for every port that is listened on.
  \<^item> \<open>Proxier_Nodes\<close>: \<^verbatim>\<open>node_controller.go\<close>, \<^verbatim>\<open>vnode_port_mapper.go\<close>, \<^verbatim>\<open>pod_controller.go\<close>, \<^verbatim>\<open>vnode_http_server.go\<close> of
    \<^verbatim>\<open>pkg/proxier\<close>. The locale \<open>node_event_handler\<close> is the contract of \<^verbatim>\<open>NodeEventHandler\<close>, interpreted on the agent; with it the tables
    of the controller and of the agent agree, also after the second start on a copy of the nodes, as long as ports are distinct and
    reconciliations run one after the other.
  \<^item> \<open>Proxier_Access\<close>, \<open>Proxier_Streams\<close>: \<^verbatim>\<open>proxy.go\<close>, \<^verbatim>\<open>server.go\<close>, \<^verbatim>\<open>token_manager.go\<close>, \<^verbatim>\<open>kubelet_client.go\<close> and
    \<^verbatim>\<open>remotecommand/httpstream.go\<close> of \<^verbatim>\<open>pkg/proxier\<close>. From a request to the container it reaches, the options on the way, who is
    asked for a certificate, and the streams of a command.
  \<^item> \<open>Proxier_Setup\<close>: the certificate and the server configuration in \<^verbatim>\<open>cmd/kubeocean-proxier/main.go\<close>, on top of \<open>Cert_Manager\<close> and
    \<open>Proxier_Access\<close>.
  \<^item> \<open>Syncer_Metrics\<close>, \<open>Manager_Metrics\<close>: the collectors \<^verbatim>\<open>pkg/syncer/metrics/collector.go\<close> and
    \<^verbatim>\<open>pkg/manager/metrics/clusterbinding_collector.go\<close>. What the node controller reports, its totals, the counts of pods and bindings.
  \<^item> \<open>Proxier_Watch\<close>: \<^verbatim>\<open>pkg/syncer/topdown/proxier/proxier_watch_controller.go\<close>, which moves virtual nodes to a proxier that runs. Patches
    are data; why they may be sent, and what a server makes of them (\<open>node_store\<close>).
  \<^item> \<open>Token_GC\<close>: the collection of token secrets in \<^verbatim>\<open>pkg/syncer/topdown/topdown_syncer.go\<close>.

  Third-party code is a parameter: the selectors of apimachinery (\<open>selector_lib\<close>), resource
  quantities (\<open>quantity_lib\<close>, with \<open>quantities_documented\<close> and its instance \<open>exact_quantities\<close>),
  JSON and \<^verbatim>\<open>reflect.DeepEqual\<close> on nodes (\<open>node_lib\<close>), on statuses and on containers, the codec of
  the expected metadata of pods (\<open>pod_codec\<close>, with \<open>codec_roundtrip\<close>), keys and certificates with the proxier's environment
  (\<open>x509_lib\<close>, \<open>cert_env\<close>), files, templates, the decoder and the other cluster of the manager (\<open>manager_lib\<close>), the stream parser and JSON of the
  agent (\<open>agent_lib\<close>), the physical cluster as a place to read logs and run commands (\<open>container_lib\<close>), TLS (\<open>tls_lib\<close>), HTTP
  requests (\<open>http_lib\<close>), raw patches and the rate limiter (\<open>watch_lib\<close>), and polling (\<open>poll\<close>, with
  \<open>poll_documented\<close> and its instance \<open>pollTimes\<close>). Loops are structural recursions; the port search
  is a \<open>function\<close> with a measure. Only the lease controller, which may wait for ever, has fuel: \<open>None\<close> is then the result of
  a run that is still going on, and \<open>lease_round_bounded\<close> says when that can be.

  Not modelled: the rest of the main functions and the wiring of managers, informers and queues, logging, the transports under the proxier
  (TLS handshakes, upgrades to SPDY and websocket, copying of bytes, JSON), registration with the metrics library, generated code.
\<close>

section \<open>The two pod controllers\<close>

text \<open>What the server adds to a pod it stores.\<close>

definition stored :: "string \<Rightarrow> time \<Rightarrow> pod_status \<Rightarrow> pod \<Rightarrow> pod" where
  "stored uid t st p = p\<lparr>poMeta := (poMeta p)\<lparr>mUID := uid, mCreationTimestamp := t\<rparr>, poStatus := st\<rparr>"

lemma created_pod_links:
  assumes "mNamespace (poMeta v) \<noteq> ''''" and "mName (poMeta v) \<noteq> ''''" and "mUID (poMeta v) \<noteq> ''''"
    and "mAnnotations (poMeta v) AnnotationPhysicalPodNamespace = Some pns"
    and "mAnnotations (poMeta v) AnnotationPhysicalPodName = Some pn"
  shows "isKubeoceanManagedPod (stored uid t st (physicalPodFor C v spec wt wn))"
    "hasRequiredAnnotations (stored uid t st (physicalPodFor C v spec wt wn))"
    "validateVirtualPodAnnotations v (stored uid t st (physicalPodFor C v spec wt wn))"
    "mget (mAnnotations (poMeta (stored uid t st (physicalPodFor C v spec wt wn)))) AnnotationVirtualPodUID = mUID (poMeta v)"
    "mget (mAnnotations (poMeta (stored uid t st (physicalPodFor C v spec wt wn)))) AnnotationVirtualPodNamespace = mNamespace (poMeta v)"
    "mget (mAnnotations (poMeta (stored uid t st (physicalPodFor C v spec wt wn)))) AnnotationVirtualPodName = mName (poMeta v)"
  using assms built_annotations(2) [of C v spec wt wn]
  by (simp_all add: stored_def isKubeoceanManagedPod_def hasRequiredAnnotations_def validateVirtualPodAnnotations_def
      physicalPodFor_def physicalPlace_def buildPhysicalPodAnnotations_def Let_def kube_consts split: sum.splits)

lemma syncPhysicalPodToVirtual_deletes_nothing:
  "calls (syncPhysicalPodToVirtual E A p v) (\<lambda>e. \<not> is_delete e)"
  unfolding syncPhysicalPodToVirtual_def Let_def
  by (intro calls_quiet quiet_rules) simp_all

fun reads_pod :: "event \<Rightarrow> bool" where
  "reads_pod (EvGet _ KPod _ _ _) = True"
| "reads_pod _ = False"

lemma quiet_findTokenSecrets [quiet_rules]: "quiet (findTokenSecrets A ns vs) (\<lambda>e. \<not> reads_pod e)"
  by (induction A ns vs rule: findTokenSecrets.induct) (auto intro!: quiet_rules)

lemma quiet_deleteSecrets [quiet_rules]: "quiet (deleteSecrets A ns names) (\<lambda>e. \<not> reads_pod e)"
  by (induction A ns names rule: deleteSecrets.induct) (auto intro!: quiet_rules)

lemma deletePhysicalPod_reads_no_pod: "calls (deletePhysicalPod A p) (\<lambda>e. \<not> reads_pod e)"
  unfolding deletePhysicalPod_def deleteServiceAccountTokenSecretsFromSpec_def
  by (intro calls_quiet quiet_rules) simp_all

text \<open>
  C2. The two pod controllers agree on what belongs together: when the bottom-up controller reads a pod that
  the top-down controller created, as the server stored it, and the virtual pod it was created for, whatever
  either of them has been written to since, the run deletes nothing. And an event of such a pod
  makes the top-down controller look at exactly that virtual pod.
\<close>

theorem created_pod_kept:
  assumes "mNamespace (poMeta v) \<noteq> ''''" and "mName (poMeta v) \<noteq> ''''" and "mUID (poMeta v) \<noteq> ''''"
    and "mAnnotations (poMeta v) AnnotationPhysicalPodNamespace = Some pns"
    and "mAnnotations (poMeta v) AnnotationPhysicalPodName = Some pn"
    and "q = stored uid t st (physicalPodFor C v spec wt wn)"
    and "mUID (poMeta v') = mUID (poMeta v)"
    and "mAnnotations (poMeta v') AnnotationPhysicalPodNamespace = Some pns"
    and "mAnnotations (poMeta v') AnnotationPhysicalPodName = Some pn"
  shows "tspec (ReconcilePhysicalPod E A pns pn) w (\<lambda>_ evs _.
      EvGet PhysicalClient KPod pns pn (Inr (OPod q)) \<in> set evs \<and>
      EvGet VirtualClient KPod (mNamespace (poMeta v)) (mName (poMeta v)) (Inr (OPod v')) \<in> set evs \<longrightarrow>
      \<not> list_ex is_delete evs) \<and>
    handlePhysicalPodEvent q = emit (EvEnqueue (key_of (mNamespace (poMeta v)) (mName (poMeta v))))"
proof
  note links = created_pod_links [OF assms(1-5), of uid t st C spec wt wn, folded assms(6)]
  have valid: "validateVirtualPodAnnotations v' q"
    using links(3) assms(4,5,8,9) by (simp add: validateVirtualPodAnnotations_def)
  show "handlePhysicalPodEvent q = emit (EvEnqueue (key_of (mNamespace (poMeta v)) (mName (poMeta v))))"
    using links assms(1-3) by (simp add: handlePhysicalPodEvent_def isKubeoceanManagedPod_def mget_def)
  have delete: "tspec (deletePhysicalPod A p) w (\<lambda>_ evs _. \<forall>c ns n r. EvGet c KPod ns n r \<notin> set evs)" for p w
    by (rule tspec_calls [OF deletePhysicalPod_reads_no_pod]) (auto simp: list_all_iff)
  have quiet: "tspec (syncPhysicalPodToVirtual E A p v) w (\<lambda>_ evs _. \<not> list_ex is_delete evs)" for p v w
    by (rule tspec_calls [OF syncPhysicalPodToVirtual_deletes_nothing]) (auto simp: list_all_iff list_ex_iff)
  show "tspec (ReconcilePhysicalPod E A pns pn) w (\<lambda>_ evs _.
      EvGet PhysicalClient KPod pns pn (Inr (OPod q)) \<in> set evs \<and>
      EvGet VirtualClient KPod (mNamespace (poMeta v)) (mName (poMeta v)) (Inr (OPod v')) \<in> set evs \<longrightarrow>
      \<not> list_ex is_delete evs)"
    unfolding ReconcilePhysicalPod_def get_pod_def getAndValidateVirtualPod_def Let_def
    by (intro vcg)
      (use links valid assms(7) in \<open>auto simp: decode_simps decode_def list_all_iff list_ex_iff
         split: if_splits sum.splits option.splits intro!: vcg tspec_mono [OF delete] tspec_mono [OF quiet]\<close>)
qed

theorem created_pod_kept_witness:
  "let v = empty_pod\<lparr>poMeta := empty_meta\<lparr>mName := ''p'', mNamespace := ''d'', mUID := ''u1'',
         mAnnotations := [AnnotationPhysicalPodNamespace \<mapsto> ''m'', AnnotationPhysicalPodName \<mapsto> ''x'']\<rparr>\<rparr>;
       q = stored ''u2'' 5 empty_status (physicalPodFor example_codec v v ''pod'' '''')
   in tspec (ReconcilePhysicalPod (=) scripted ''m'' ''x'') \<lparr>srv = [AObj (Inr (OPod q)), AObj (Inr (OPod v))], hist = []\<rparr>
      (\<lambda>_ evs _. EvGet PhysicalClient KPod ''m'' ''x'' (Inr (OPod q)) \<in> set evs \<and>
        EvGet VirtualClient KPod ''d'' ''p'' (Inr (OPod v)) \<in> set evs \<longrightarrow> \<not> list_ex is_delete evs)"
proof -
  let ?v = "empty_pod\<lparr>poMeta := empty_meta\<lparr>mName := ''p'', mNamespace := ''d'', mUID := ''u1'',
         mAnnotations := [AnnotationPhysicalPodNamespace \<mapsto> ''m'', AnnotationPhysicalPodName \<mapsto> ''x'']\<rparr>\<rparr>"
  show ?thesis
    unfolding Let_def
    by (rule created_pod_kept [where v = ?v and v' = ?v, THEN conjunct1, simplified])
      (simp_all add: kube_consts)
qed

end
